(* ===== verification/JsString.thy ===== *)
theory JsString
  imports Prelude
begin

text \<open>
  JavaScript strings. A string is the list of its UTF-16 code units, so that \<open>length\<close>,
  indexing and slicing are those of the language, and a display text outside ASCII is
  a list of numbers. \<open>js ''...''\<close> writes an ASCII literal.
\<close>

type_synonym jstr = "int list"

definition js :: "string \<Rightarrow> jstr" where
  "js s = map of_char s"

lemma js_Nil [simp]: "js [] = []"
  by (simp add: js_def)

lemma js_Cons: "js (c # s) = of_char c # js s"
  by (simp add: js_def)

lemma js_append: "js (s @ t) = js s @ js t"
  by (simp add: js_def)

lemma length_js [simp]: "length (js s) = length s"
  by (simp add: js_def)

lemma of_char_eq_iff_int [simp]: "(of_char c :: int) = of_char d \<longleftrightarrow> c = d"
  by simp

lemma js_eq_iff [simp]: "js s = js t \<longleftrightarrow> s = t"
  by (simp add: js_def inj_map_eq_map inj_def)

lemma js_eq_Nil_iff [simp]: "js s = [] \<longleftrightarrow> s = []" "[] = js s \<longleftrightarrow> s = []"
  by (auto simp: js_def)

section \<open>White space and case\<close>

text \<open>WhiteSpace and LineTerminator of ECMA-262: what \<open>trim\<close> and \<open>\s\<close> recognise.\<close>

definition is_space :: "int \<Rightarrow> bool" where
  "is_space c \<longleftrightarrow> (9 \<le> c \<and> c \<le> 13) \<or> c = 32 \<or> c = 160 \<or> c = 5760 \<or>
     (8192 \<le> c \<and> c \<le> 8202) \<or> c = 8232 \<or> c = 8233 \<or> c = 8239 \<or> c = 8287 \<or> c = 12288 \<or> c = 65279"

definition trim_left :: "jstr \<Rightarrow> jstr" where
  "trim_left s = dropWhile is_space s"

definition trim_right :: "jstr \<Rightarrow> jstr" where
  "trim_right s = rev (dropWhile is_space (rev s))"

definition trim :: "jstr \<Rightarrow> jstr" where
  "trim s = trim_right (trim_left s)"

text \<open>
  \<open>toLowerCase\<close> on one code unit: ASCII, Latin-1, Greek and Cyrillic capitals, the full-width
  capitals, and the Kelvin sign. Other code units are left alone; capitals of scripts outside
  this list are outside the model (the texts the program compares case-insensitively are host
  names, protocol names, e-mail addresses and Chinese display names).
\<close>

definition lower_unit :: "int \<Rightarrow> int" where
  "lower_unit c =
     (if 65 \<le> c \<and> c \<le> 90 then c + 32
      else if 192 \<le> c \<and> c \<le> 222 \<and> c \<noteq> 215 then c + 32
      else if 913 \<le> c \<and> c \<le> 937 \<and> c \<noteq> 930 then c + 32
      else if 1040 \<le> c \<and> c \<le> 1071 then c + 32
      else if 1024 \<le> c \<and> c \<le> 1039 then c + 80
      else if 65313 \<le> c \<and> c \<le> 65338 then c + 32
      else if c = 8490 then 107
      else c)"

definition lower :: "jstr \<Rightarrow> jstr" where
  "lower s = map lower_unit s"

lemma lower_unit_idem [simp]: "lower_unit (lower_unit c) = lower_unit c"
  by (auto simp: lower_unit_def)

lemma lower_idem [simp]: "lower (lower s) = lower s"
  by (simp add: lower_def)

lemma length_lower [simp]: "length (lower s) = length s"
  by (simp add: lower_def)

lemma lower_append: "lower (s @ t) = lower s @ lower t"
  by (simp add: lower_def)

lemma lower_Nil_iff [simp]: "lower s = [] \<longleftrightarrow> s = []" "lower [] = []"
  by (auto simp: lower_def)

lemma is_space_lower [simp]: "is_space (lower_unit c) \<longleftrightarrow> is_space c"
  by (auto simp: is_space_def lower_unit_def)

lemma dropWhile_lower: "dropWhile is_space (lower s) = lower (dropWhile is_space s)"
  by (induction s) (auto simp: lower_def)

lemma trim_lower: "trim (lower s) = lower (trim s)"
proof -
  have rev: "rev (lower t) = lower (rev t)" for t
    by (simp add: lower_def rev_map)
  show ?thesis
    by (simp add: trim_def trim_left_def trim_right_def dropWhile_lower rev)
qed

lemma trim_Nil [simp]: "trim [] = []"
  by (simp add: trim_def trim_left_def trim_right_def)

lemma trim_right_no_space: "trim_right s \<noteq> [] \<Longrightarrow> \<not> is_space (last (trim_right s))"
  unfolding trim_right_def using hd_dropWhile [of is_space "rev s"]
  by (simp add: last_rev)

lemma trim_right_id: "s = [] \<or> \<not> is_space (last s) \<Longrightarrow> trim_right s = s"
  unfolding trim_right_def
  by (cases s rule: rev_cases) auto

lemma trim_left_id: "s = [] \<or> \<not> is_space (hd s) \<Longrightarrow> trim_left s = s"
  unfolding trim_left_def by (cases s) auto

lemma trim_right_prefix: "\<exists>t. s = trim_right s @ t"
proof -
  have "rev s = takeWhile is_space (rev s) @ dropWhile is_space (rev s)" by simp
  then have "s = rev (dropWhile is_space (rev s)) @ rev (takeWhile is_space (rev s))"
    by (metis rev_append rev_rev_ident)
  then show ?thesis unfolding trim_right_def by blast
qed

lemma trim_left_no_space: "trim_left s \<noteq> [] \<Longrightarrow> \<not> is_space (hd (trim_left s))"
  unfolding trim_left_def by (rule hd_dropWhile)

lemma trim_ends: "trim s \<noteq> [] \<Longrightarrow> \<not> is_space (hd (trim s)) \<and> \<not> is_space (last (trim s))"
proof
  assume ne: "trim s \<noteq> []"
  obtain t where t: "trim_left s = trim s @ t"
    using trim_right_prefix [of "trim_left s"] by (auto simp: trim_def)
  have "trim_left s \<noteq> []" using ne t by auto
  then have "\<not> is_space (hd (trim_left s))" by (rule trim_left_no_space)
  then show "\<not> is_space (hd (trim s))" using t ne by simp
  show "\<not> is_space (last (trim s))"
    using ne unfolding trim_def by (rule trim_right_no_space)
qed

lemma trim_idem [simp]: "trim (trim s) = trim s"
proof (cases "trim s = []")
  case False
  then have "\<not> is_space (hd (trim s))" "\<not> is_space (last (trim s))"
    using trim_ends by auto
  then show ?thesis
    by (simp add: trim_def [of "trim s"] trim_left_id trim_right_id)
qed simp

lemma trim_subset: "set (trim s) \<subseteq> set s"
  unfolding trim_def trim_right_def trim_left_def
  using set_dropWhileD by (fastforce dest: set_dropWhileD)

lemma trim_length: "length (trim s) \<le> length s"
  unfolding trim_def trim_right_def trim_left_def
  using length_dropWhile_le le_trans by (metis length_rev)

section \<open>Searching, splitting, joining\<close>

fun starts_with :: "jstr \<Rightarrow> jstr \<Rightarrow> bool" where
  "starts_with s [] = True"
| "starts_with [] (p # ps) = False"
| "starts_with (c # s) (p # ps) = (c = p \<and> starts_with s ps)"

definition ends_with :: "jstr \<Rightarrow> jstr \<Rightarrow> bool" where
  "ends_with s p = starts_with (rev s) (rev p)"

fun index_of :: "jstr \<Rightarrow> jstr \<Rightarrow> nat option" where
  "index_of [] p = (if p = [] then Some 0 else None)"
| "index_of (c # s) p =
     (if starts_with (c # s) p then Some 0 else map_option Suc (index_of s p))"

definition contains :: "jstr \<Rightarrow> jstr \<Rightarrow> bool" where
  "contains s p = (index_of s p \<noteq> None)"

text \<open>\<open>split\<close> by one separator code unit: never empty, as in the language.\<close>

fun split_on :: "int \<Rightarrow> jstr \<Rightarrow> jstr list" where
  "split_on d [] = [[]]"
| "split_on d (c # s) =
     (if c = d then [] # split_on d s
      else (case split_on d s of [] \<Rightarrow> [[c]] | p # ps \<Rightarrow> (c # p) # ps))"

text \<open>\<open>split(/\r?\n/)\<close>.\<close>

fun split_lines :: "jstr \<Rightarrow> jstr list" where
  "split_lines [] = [[]]"
| "split_lines (c # s) =
     (if c = 10 then [] # split_lines s
      else if c = 13 \<and> s \<noteq> [] \<and> hd s = 10 then [] # split_lines (tl s)
      else (case split_lines s of [] \<Rightarrow> [[c]] | p # ps \<Rightarrow> (c # p) # ps))"

fun join :: "jstr \<Rightarrow> jstr list \<Rightarrow> jstr" where
  "join sep [] = []"
| "join sep [s] = s"
| "join sep (s # t # ss) = s @ sep @ join sep (t # ss)"

lemma starts_with_iff: "starts_with s p \<longleftrightarrow> (\<exists>t. s = p @ t)"
  by (induction s p rule: starts_with.induct) auto

lemma ends_with_iff: "ends_with s p \<longleftrightarrow> (\<exists>t. s = t @ p)"
  by (metis ends_with_def rev_append rev_rev_ident starts_with_iff)

lemma contains_single: "contains s [c] \<longleftrightarrow> c \<in> set s"
  by (induction s) (auto simp: contains_def)

lemma contains_iff: "contains s p \<longleftrightarrow> (\<exists>a b. s = a @ p @ b)"
proof (induction s)
  case Nil
  show ?case by (auto simp: contains_def)
next
  case (Cons c s)
  have "(\<exists>a b. c # s = a @ p @ b) \<longleftrightarrow> starts_with (c # s) p \<or> (\<exists>a b. s = a @ p @ b)"
    (is "?l = ?r")
  proof
    assume ?l
    then obtain a b where ab: "c # s = a @ p @ b" by blast
    show ?r
    proof (cases a)
      case Nil
      with ab show ?thesis by (auto simp: starts_with_iff)
    next
      case (Cons d a')
      with ab show ?thesis by auto
    qed
  next
    assume ?r
    then show ?l by (metis append_Cons append_Nil starts_with_iff)
  qed
  moreover have "contains (c # s) p \<longleftrightarrow> starts_with (c # s) p \<or> contains s p"
    by (auto simp: contains_def)
  ultimately show ?case using Cons.IH by simp
qed

lemma split_on_nonempty [simp]: "split_on d s \<noteq> []"
  by (induction s) (auto split: list.splits)

lemma split_on_no_sep: "p \<in> set (split_on d s) \<Longrightarrow> d \<notin> set p"
  by (induction s arbitrary: p) (auto split: list.splits if_splits)

lemma split_on_id: "d \<notin> set s \<Longrightarrow> split_on d s = [s]"
  by (induction s) auto

lemma join_split_on: "join [d] (split_on d s) = s"
proof (induction s)
  case Nil
  show ?case by simp
next
  case (Cons c s)
  obtain p ps where p: "split_on d s = p # ps"
    by (cases "split_on d s") auto
  show ?case
  proof (cases "c = d")
    case True
    with Cons p show ?thesis by simp
  next
    case False
    with Cons p show ?thesis by (cases ps) auto
  qed
qed

lemma split_on_append_sep: "d \<notin> set p \<Longrightarrow> split_on d (p @ d # s) = p # split_on d s"
  by (induction p) auto

lemma split_on_join:
  "ss \<noteq> [] \<Longrightarrow> \<forall>s \<in> set ss. d \<notin> set s \<Longrightarrow> split_on d (join [d] ss) = ss"
  by (induction "[d]" ss rule: join.induct) (auto simp: split_on_id split_on_append_sep)

text \<open>Replace each maximal run of units in a class by one unit (\<open>replace(/[...]+/g, c)\<close>).\<close>

fun collapse_runs :: "(int \<Rightarrow> bool) \<Rightarrow> int \<Rightarrow> bool \<Rightarrow> jstr \<Rightarrow> jstr" where
  "collapse_runs p r run [] = []"
| "collapse_runs p r run (c # s) =
     (if p c then (if run then collapse_runs p r True s else r # collapse_runs p r True s)
      else c # collapse_runs p r False s)"

lemma collapse_runs_set: "set (collapse_runs p r run s) \<subseteq> insert r {c \<in> set s. \<not> p c}"
  by (induction p r run s rule: collapse_runs.induct) auto

text \<open>The code points of a string (\<open>Array.from\<close>): a surrogate pair is one element.\<close>

fun code_points :: "jstr \<Rightarrow> jstr list" where
  "code_points [] = []"
| "code_points [c] = [[c]]"
| "code_points (c # d # s) =
     (if 55296 \<le> c \<and> c \<le> 56319 \<and> 56320 \<le> d \<and> d \<le> 57343 then [c, d] # code_points s
      else [c] # code_points (d # s))"

lemma concat_code_points [simp]: "concat (code_points s) = s"
  by (induction s rule: code_points.induct) auto

lemma length_code_points: "length (code_points s) \<le> length s"
  by (induction s rule: code_points.induct) auto

lemma code_points_subset: "p \<in> set (code_points s) \<Longrightarrow> set p \<subseteq> set s"
  by (metis UN_upper concat_code_points set_concat)

lemma split_lines_nonempty [simp]: "split_lines s \<noteq> []"
  by (cases s) (auto split: list.splits)

lemma split_lines_no_newline: "p \<in> set (split_lines s) \<Longrightarrow> 10 \<notin> set p"
proof (induction s arbitrary: p rule: split_lines.induct)
  case 1
  then show ?case by simp
next
  case (2 c s)
  then show ?case by (auto split: list.splits if_splits)
qed

section \<open>Digits\<close>

definition is_digit :: "int \<Rightarrow> bool" where
  "is_digit c \<longleftrightarrow> 48 \<le> c \<and> c \<le> 57"

definition digits_value :: "jstr \<Rightarrow> int" where
  "digits_value s = foldl (\<lambda>n c. 10 * n + (c - 48)) 0 s"

text \<open>The decimal digits of a non-negative integer.\<close>

function digits_of :: "int \<Rightarrow> jstr" where
  "digits_of n = (if n < 10 then [48 + n] else digits_of (n div 10) @ [48 + n mod 10])"
  by pat_completeness auto
termination
  by (relation "measure nat") auto

declare digits_of.simps [simp del]

definition int_str :: "int \<Rightarrow> jstr" where
  "int_str i = (if i < 0 then 45 # digits_of (- i) else digits_of i)"

lemma digits_of_digits: "0 \<le> n \<Longrightarrow> c \<in> set (digits_of n) \<Longrightarrow> is_digit c"
proof (induction n rule: digits_of.induct)
  case (1 n)
  show ?case
  proof (cases "n < 10")
    case True
    with 1 show ?thesis by (simp add: digits_of.simps [of n] is_digit_def)
  next
    case False
    have "0 \<le> n mod 10" "n mod 10 < 10" by simp_all
    with False 1 show ?thesis
      by (auto simp: digits_of.simps [of n] is_digit_def)
  qed
qed

lemma digits_of_nonempty [simp]: "digits_of n \<noteq> []"
  by (simp add: digits_of.simps [of n])

lemma digits_value_snoc: "digits_value (s @ [c]) = 10 * digits_value s + (c - 48)"
  by (simp add: digits_value_def)

lemma digits_value_digits_of [simp]: "digits_value (digits_of n) = n"
proof (induction n rule: digits_of.induct)
  case (1 n)
  show ?case
  proof (cases "n < 10")
    case True
    then show ?thesis by (simp add: digits_of.simps [of n] digits_value_def)
  next
    case False
    with 1 show ?thesis by (simp add: digits_of.simps [of n] digits_value_snoc)
  qed
qed

lemma digits_of_inj [simp]: "digits_of m = digits_of n \<longleftrightarrow> m = n"
  by (metis digits_value_digits_of)

lemma hd_digits_of: "0 < n \<Longrightarrow> hd (digits_of n) \<noteq> 48"
proof (induction n rule: digits_of.induct)
  case (1 n)
  show ?case
  proof (cases "n < 10")
    case True
    with 1 show ?thesis by (simp add: digits_of.simps [of n])
  next
    case False
    with 1 show ?thesis by (simp add: digits_of.simps [of n])
  qed
qed

lemma int_str_digits: "0 \<le> i \<Longrightarrow> int_str i = digits_of i"
  by (simp add: int_str_def)

lemma int_str_inj [simp]: "int_str i = int_str j \<longleftrightarrow> i = j"
proof
  assume eq: "int_str i = int_str j"
  have no: "0 \<le> n \<Longrightarrow> digits_of n \<noteq> 45 # s" for n s
    using digits_of_digits [of n 45] by (auto simp: is_digit_def)
  show "i = j"
    using eq no no [symmetric] by (auto simp: int_str_def split: if_splits)
qed simp

lemma int_str_nonempty [simp]: "int_str i \<noteq> []"
  by (simp add: int_str_def)

lemma int_str_no_digit_sep:
  "c \<in> set (int_str i) \<Longrightarrow> c = 45 \<or> is_digit c"
  using digits_of_digits [of "- i"] digits_of_digits [of i] by (auto simp: int_str_def split: if_splits)

end
