(* ===== verification/JsNumber.thy ===== *)
theory JsNumber
  imports JsString Complex_Main
begin

text \<open>
  JavaScript numbers: IEEE 754 binary64. A finite number is the rational it denotes, and every
  operation that can leave the format rounds its exact result to nearest, ties to even
  (\<open>rnd\<close>). Negative zero is identified with zero.
\<close>

datatype jnum = NaN | PosInf | NegInf | Fin rat

section \<open>Rounding\<close>

definition pow2 :: "int \<Rightarrow> rat" where
  "pow2 e = (if 0 \<le> e then 2 ^ nat e else 1 / 2 ^ nat (- e))"

text \<open>The bit length of an integer, and the binary exponent of a positive rational.\<close>

function blen :: "int \<Rightarrow> nat" where
  "blen n = (if n \<le> 0 then 0 else Suc (blen (n div 2)))"
  by pat_completeness auto
termination
  by (relation "measure nat") auto

declare blen.simps [simp del]

lemma blen_bounds: "0 < n \<Longrightarrow> 0 < blen n \<and> 2 ^ (blen n - 1) \<le> n \<and> n < 2 ^ blen n"
proof (induction n rule: blen.induct)
  case (1 n)
  show ?case
  proof (cases "n = 1")
    case True
    then show ?thesis by (simp add: blen.simps)
  next
    case False
    with 1 have IH: "0 < blen (n div 2)" "2 ^ (blen (n div 2) - 1) \<le> n div 2" "n div 2 < 2 ^ blen (n div 2)"
      by auto
    have b: "blen n = Suc (blen (n div 2))" using 1 by (simp add: blen.simps [of n])
    have "(2 :: int) ^ blen (n div 2) = 2 * 2 ^ (blen (n div 2) - 1)"
      using IH(1) by (simp add: power_eq_if)
    moreover define p where "p = (2 :: int) ^ (blen (n div 2) - 1)"
    ultimately have "p \<le> n div 2" "n div 2 < 2 * p"
      using IH by auto
    then have "2 * p \<le> n \<and> n < 2 * (2 * p)" by linarith
    moreover have "(2 :: int) ^ blen (n div 2) = 2 * p"
      unfolding p_def by fact
    ultimately show ?thesis unfolding b by simp
  qed
qed

lemma blen_le: "0 < n \<Longrightarrow> n < 2 ^ k \<Longrightarrow> blen n \<le> k"
  using blen_bounds [of n] power_less_imp_less_exp [of "2 :: int" "blen n - 1" k]
  by (metis One_nat_def Suc_leI Suc_pred le_less_trans one_less_numeral_iff semiring_norm(76))

definition exp2 :: "rat \<Rightarrow> int" where
  "exp2 q = (let (n, d) = quotient_of q; e = int (blen n) - int (blen d)
     in if q < pow2 e then e - 1 else e)"

definition round_even :: "rat \<Rightarrow> int" where
  "round_even q = (let f = \<lfloor>q\<rfloor>; r = q - of_int f
     in if r < 1/2 \<or> (r = 1/2 \<and> even f) then f else f + 1)"

definition rnd :: "rat \<Rightarrow> jnum" where
  "rnd q =
     (if q = 0 then Fin 0
      else let s = max (exp2 \<bar>q\<bar> - 52) (- 1074);
               v = of_int (round_even (\<bar>q\<bar> / pow2 s)) * pow2 s
           in if pow2 1024 \<le> v then (if 0 < q then PosInf else NegInf)
              else Fin (sgn q * v))"

lemma pow2_nonneg [simp]: "0 < pow2 e"
  by (simp add: pow2_def)

lemma round_even_of_int [simp]: "round_even (of_int i) = i"
  by (simp add: round_even_def)

lemma exp2_of_int:
  assumes "0 < n"
  shows "exp2 (of_int n) = int (blen n) - 1"
proof -
  have q: "quotient_of (of_int n :: rat) = (n, 1)"
    by simp
  have one: "blen 1 = 1"
    by (simp add: blen.simps)
  note b = blen_bounds [OF assms]
  have lt: "(of_int n :: rat) < of_int (2 ^ blen n)"
    using b by (intro of_int_less_iff [THEN iffD2]) simp
  have ge: "of_int (2 ^ (blen n - 1)) \<le> (of_int n :: rat)"
    using b by (intro of_int_le_iff [THEN iffD2]) simp
  have p: "pow2 (int (blen n) - 1) = 2 ^ (blen n - 1)"
    using b by (simp add: pow2_def nat_diff_distrib)
  show ?thesis
    unfolding exp2_def q using one p ge by (simp add: Let_def)
qed

text \<open>Every integer of magnitude up to \<open>2 ^ 53\<close> is a number of the format.\<close>

lemma rnd_pos_int:
  assumes "0 < n" "n \<le> 2 ^ 53"
  shows "rnd (of_int n) = Fin (of_int n)"
proof -
  let ?f = "blen n"
  let ?s = "max (int ?f - 1 - 52) (- 1074)"
  have ex: "exp2 \<bar>of_int n\<bar> = int ?f - 1"
    using exp2_of_int [OF assms(1)] assms(1) by simp
  have val: "of_int (round_even (of_int n / pow2 ?s)) * pow2 ?s = of_int n"
  proof (cases "n = 2 ^ 53")
    case True
    have f: "?f = 54" unfolding True by (simp add: blen.simps)
    show ?thesis unfolding f unfolding True by (simp add: pow2_def round_even_def)
  next
    case False
    with assms have "?f \<le> 53" by (intro blen_le) simp_all
    then have s: "?s \<le> 0" by simp
    define k where "k = nat (- ?s)"
    have p: "pow2 ?s = 1 / 2 ^ k"
      using s unfolding pow2_def k_def by (cases "?s = 0") auto
    have "of_int n / pow2 ?s = of_int (n * 2 ^ k)"
      unfolding p by simp
    then have "round_even (of_int n / pow2 ?s) = n * 2 ^ k"
      by (simp only: round_even_of_int)
    then show ?thesis unfolding p by simp
  qed
  have small: "(of_int n :: rat) < pow2 1024"
  proof -
    have "(of_int n :: rat) \<le> of_int (2 ^ 53)"
      using assms(2) by (rule of_int_le_iff [THEN iffD2])
    also have "\<dots> < pow2 1024" by (simp add: pow2_def)
    finally show ?thesis .
  qed
  show ?thesis
    unfolding rnd_def Let_def ex using val small assms(1) by simp
qed

lemma rnd_int: "\<bar>n\<bar> \<le> 2 ^ 53 \<Longrightarrow> rnd (of_int n) = Fin (of_int n)"
proof -
  assume b: "\<bar>n\<bar> \<le> 2 ^ 53"
  consider "n = 0" | "0 < n" | "n < 0" by linarith
  then show ?thesis
  proof cases
    case 1
    then show ?thesis by (simp add: rnd_def)
  next
    case 2
    with b show ?thesis by (intro rnd_pos_int) auto
  next
    case 3
    with b have pos: "rnd (of_int (- n)) = Fin (of_int (- n))"
      by (intro rnd_pos_int) auto
    with 3 show ?thesis
      by (auto simp: rnd_def Let_def split: if_splits)
  qed
qed

lemma round_even_ge: "of_int k \<le> q \<Longrightarrow> k \<le> round_even q"
proof -
  assume "of_int k \<le> q"
  then have "k \<le> \<lfloor>q\<rfloor>" by (simp add: le_floor_iff)
  then show ?thesis by (auto simp: round_even_def Let_def)
qed

text \<open>Larger integers may be rounded, but never down into the safe range.\<close>

lemma rnd_big:
  assumes "2 ^ 53 < n"
  shows "case rnd (of_int n) of Fin q \<Rightarrow> 2 ^ 53 \<le> q | PosInf \<Rightarrow> True | _ \<Rightarrow> False"
proof -
  let ?b = "blen n"
  have pos: "0 < n" using assms by (simp add: less_le_trans [of 0 "2 ^ 53"])
  note b = blen_bounds [OF pos]
  have "(2 :: int) ^ 53 < 2 ^ ?b" using assms b by linarith
  then have b54: "54 \<le> ?b" using power_less_imp_less_exp [of "2 :: int" 53 ?b] by simp
  define s where "s = max (exp2 \<bar>of_int n\<bar> - 52) (- 1074)"
  have s: "s = int ?b - 53" using exp2_of_int [OF pos] pos b54 by (simp add: s_def)
  define k where "k = ?b - 53"
  have ps: "pow2 s = 2 ^ k" using b54 by (simp add: pow2_def s k_def nat_diff_distrib)
  have split: "(2 :: int) ^ (?b - 1) = 2 ^ 52 * 2 ^ k"
  proof -
    have "?b - 1 = 52 + k" using b54 by (simp add: k_def)
    then show ?thesis by (simp only: power_add)
  qed
  have "2 ^ 52 * 2 ^ k \<le> n" using b split by simp
  then have "of_int (2 ^ 52 * 2 ^ k) \<le> (of_int n :: rat)" by (rule of_int_le_iff [THEN iffD2])
  then have "of_int (2 ^ 52) \<le> (of_int n :: rat) / pow2 s"
    unfolding ps by (simp add: field_simps)
  then have m: "2 ^ 52 \<le> round_even (of_int n / pow2 s)" by (rule round_even_ge)
  have "(2 :: rat) * 2 ^ 52 \<le> 2 ^ k * of_int (round_even (of_int n / pow2 s))"
  proof (rule mult_mono)
    show "(2 :: rat) \<le> 2 ^ k" using b54 self_le_power [of "2 :: rat" k] by (simp add: k_def)
    show "(2 :: rat) ^ 52 \<le> of_int (round_even (of_int n / pow2 s))"
      using of_int_le_iff [where 'a = rat, THEN iffD2, OF m] by simp
  qed simp_all
  then have v: "2 ^ 53 \<le> of_int (round_even (of_int n / pow2 s)) * pow2 s"
    unfolding ps by (simp add: mult.commute)
  have r: "rnd (of_int n) = (if pow2 1024 \<le> of_int (round_even (of_int n / pow2 s)) * pow2 s
      then PosInf else Fin (of_int (round_even (of_int n / pow2 s)) * pow2 s))"
    using pos by (simp add: rnd_def Let_def s_def)
  show ?thesis using v unfolding r by simp
qed

section \<open>Arithmetic and comparison\<close>

definition num :: "int \<Rightarrow> jnum" where
  "num i = Fin (of_int i)"

lemma num_inj [simp]: "num i = num j \<longleftrightarrow> i = j"
  by (simp add: num_def)

lemma num_neq [simp]: "num i \<noteq> NaN" "num i \<noteq> PosInf" "num i \<noteq> NegInf"
  "NaN \<noteq> num i" "PosInf \<noteq> num i" "NegInf \<noteq> num i"
  by (simp_all add: num_def)

definition max_safe :: int where
  "max_safe = 9007199254740991"

definition num_neg :: "jnum \<Rightarrow> jnum" where
  "num_neg a = (case a of NaN \<Rightarrow> NaN | PosInf \<Rightarrow> NegInf | NegInf \<Rightarrow> PosInf | Fin q \<Rightarrow> Fin (- q))"

fun num_add :: "jnum \<Rightarrow> jnum \<Rightarrow> jnum" where
  "num_add (Fin a) (Fin b) = rnd (a + b)"
| "num_add NaN _ = NaN"
| "num_add _ NaN = NaN"
| "num_add PosInf NegInf = NaN"
| "num_add NegInf PosInf = NaN"
| "num_add PosInf _ = PosInf"
| "num_add NegInf _ = NegInf"
| "num_add _ PosInf = PosInf"
| "num_add _ NegInf = NegInf"

definition num_sub :: "jnum \<Rightarrow> jnum \<Rightarrow> jnum" where
  "num_sub a b = num_add a (num_neg b)"

definition signed_inf :: "bool \<Rightarrow> jnum" where
  "signed_inf pos = (if pos then PosInf else NegInf)"

definition num_sgn :: "jnum \<Rightarrow> rat" where
  "num_sgn a = (case a of NaN \<Rightarrow> 0 | PosInf \<Rightarrow> 1 | NegInf \<Rightarrow> - 1 | Fin q \<Rightarrow> sgn q)"

definition num_mul :: "jnum \<Rightarrow> jnum \<Rightarrow> jnum" where
  "num_mul a b = (case (a, b) of
      (Fin x, Fin y) \<Rightarrow> rnd (x * y)
    | _ \<Rightarrow> (if a = NaN \<or> b = NaN \<or> num_sgn a = 0 \<or> num_sgn b = 0 then NaN
           else signed_inf (num_sgn a = num_sgn b)))"

text \<open>Zero is unsigned in the model, so \<open>x / 0\<close> is the infinity of the sign of \<open>x\<close>.\<close>

definition num_div :: "jnum \<Rightarrow> jnum \<Rightarrow> jnum" where
  "num_div a b = (case (a, b) of
      (Fin x, Fin y) \<Rightarrow>
        (if y = 0 then (if x = 0 then NaN else signed_inf (0 < x)) else rnd (x / y))
    | (Fin x, _) \<Rightarrow> (if b = NaN then NaN else Fin 0)
    | (_, Fin y) \<Rightarrow> (if a = NaN then NaN else signed_inf ((a = PosInf) = (0 \<le> y)))
    | _ \<Rightarrow> NaN)"

fun num_lt :: "jnum \<Rightarrow> jnum \<Rightarrow> bool" where
  "num_lt (Fin a) (Fin b) = (a < b)"
| "num_lt NaN _ = False"
| "num_lt _ NaN = False"
| "num_lt NegInf b = (b \<noteq> NegInf)"
| "num_lt PosInf _ = False"
| "num_lt (Fin _) b = (b = PosInf)"

definition num_le :: "jnum \<Rightarrow> jnum \<Rightarrow> bool" where
  "num_le a b = (num_lt a b \<or> (a = b \<and> a \<noteq> NaN))"

definition num_eq :: "jnum \<Rightarrow> jnum \<Rightarrow> bool" where
  "num_eq a b = (a = b \<and> a \<noteq> NaN)"

definition num_max :: "jnum \<Rightarrow> jnum \<Rightarrow> jnum" where
  "num_max a b = (if a = NaN \<or> b = NaN then NaN else if num_lt a b then b else a)"

definition num_min :: "jnum \<Rightarrow> jnum \<Rightarrow> jnum" where
  "num_min a b = (if a = NaN \<or> b = NaN then NaN else if num_lt b a then b else a)"

definition num_map :: "(rat \<Rightarrow> rat) \<Rightarrow> jnum \<Rightarrow> jnum" where
  "num_map f a = (case a of Fin q \<Rightarrow> Fin (f q) | _ \<Rightarrow> a)"

definition num_floor :: "jnum \<Rightarrow> jnum" where
  "num_floor = num_map (\<lambda>q. of_int \<lfloor>q\<rfloor>)"

definition num_trunc :: "jnum \<Rightarrow> jnum" where
  "num_trunc = num_map (\<lambda>q. if 0 \<le> q then of_int \<lfloor>q\<rfloor> else of_int \<lceil>q\<rceil>)"

definition num_round :: "jnum \<Rightarrow> jnum" where
  "num_round = num_map (\<lambda>q. of_int \<lfloor>q + 1/2\<rfloor>)"

definition is_finite :: "jnum \<Rightarrow> bool" where
  "is_finite a = (case a of Fin _ \<Rightarrow> True | _ \<Rightarrow> False)"

definition is_integer :: "jnum \<Rightarrow> bool" where
  "is_integer a = (case a of Fin q \<Rightarrow> of_int \<lfloor>q\<rfloor> = q | _ \<Rightarrow> False)"

definition is_safe :: "jnum \<Rightarrow> bool" where
  "is_safe a = (case a of Fin q \<Rightarrow> of_int \<lfloor>q\<rfloor> = q \<and> \<bar>\<lfloor>q\<rfloor>\<bar> \<le> max_safe | _ \<Rightarrow> False)"

definition num_truthy :: "jnum \<Rightarrow> bool" where
  "num_truthy a = (a \<noteq> NaN \<and> a \<noteq> Fin 0)"

text \<open>\<open>a || b\<close> on numbers.\<close>

definition num_or :: "jnum \<Rightarrow> jnum \<Rightarrow> jnum" where
  "num_or a b = (if num_truthy a then a else b)"

definition int_of :: "jnum \<Rightarrow> int" where
  "int_of a = (case a of Fin q \<Rightarrow> \<lfloor>q\<rfloor> | _ \<Rightarrow> 0)"

lemma int_of_num [simp]: "int_of (num i) = i"
  by (simp add: int_of_def num_def)

lemma is_safe_num [simp]: "is_safe (num i) \<longleftrightarrow> \<bar>i\<bar> \<le> max_safe"
  by (simp add: is_safe_def num_def)

lemma is_safe_iff: "is_safe a \<longleftrightarrow> (\<exists>i. a = num i \<and> \<bar>i\<bar> \<le> max_safe)"
proof
  assume "is_safe a"
  then obtain q where "a = Fin q" "of_int \<lfloor>q\<rfloor> = q" "\<bar>\<lfloor>q\<rfloor>\<bar> \<le> max_safe"
    by (auto simp: is_safe_def split: jnum.splits)
  then show "\<exists>i. a = num i \<and> \<bar>i\<bar> \<le> max_safe" by (auto simp: num_def intro!: exI [of _ "\<lfloor>q\<rfloor>"])
qed auto

lemma is_safeE:
  assumes "is_safe a"
  obtains i where "a = num i" "\<bar>i\<bar> \<le> max_safe"
  using assms by (auto simp: is_safe_iff)

lemma num_int_of: "is_safe a \<Longrightarrow> num (int_of a) = a"
  by (auto elim: is_safeE)

lemma rnd_big_not_safe: "2 ^ 53 < n \<Longrightarrow> \<not> is_safe (rnd (of_int n))"
proof -
  assume "2 ^ 53 < n"
  from rnd_big [OF this] show ?thesis
  proof (cases "rnd (of_int n)")
    case (Fin q)
    with rnd_big [OF \<open>2 ^ 53 < n\<close>] have "2 ^ 53 \<le> q" by simp
    then have "2 ^ 53 \<le> \<lfloor>q\<rfloor>" by (simp add: le_floor_iff)
    with Fin show ?thesis by (simp add: is_safe_def max_safe_def)
  qed (simp_all add: is_safe_def)
qed

lemma is_integer_num [simp]: "is_integer (num i)"
  by (simp add: is_integer_def num_def)

lemma is_finite_num [simp]: "is_finite (num i)"
  by (simp add: is_finite_def num_def)

lemma num_lt_num [simp]: "num_lt (num i) (num j) \<longleftrightarrow> i < j"
  by (simp add: num_def)

lemma num_le_num [simp]: "num_le (num i) (num j) \<longleftrightarrow> i \<le> j"
  by (auto simp: num_le_def)

lemma num_eq_num [simp]: "num_eq (num i) (num j) \<longleftrightarrow> i = j"
  by (simp add: num_eq_def)

lemma num_truthy_num [simp]: "num_truthy (num i) \<longleftrightarrow> i \<noteq> 0"
  by (simp add: num_truthy_def num_def)

lemma num_truthy_NaN [simp]: "\<not> num_truthy NaN"
  by (simp add: num_truthy_def)

lemma num_or_num [simp]: "num_or (num i) b = (if i = 0 then b else num i)"
  by (simp add: num_or_def)

lemma num_or_NaN [simp]: "num_or NaN b = b"
  by (simp add: num_or_def)

lemma num_max_num [simp]: "num_max (num i) (num j) = num (max i j)"
  by (auto simp: num_max_def max_def)

lemma num_min_num [simp]: "num_min (num i) (num j) = num (min i j)"
  by (auto simp: num_min_def min_def)

lemma num_floor_num [simp]: "num_floor (num i) = num i"
  by (simp add: num_floor_def num_map_def num_def)

lemma num_trunc_num [simp]: "num_trunc (num i) = num i"
  by (simp add: num_trunc_def num_map_def num_def)

lemma num_round_num [simp]: "num_round (num i) = num i"
proof -
  have "\<lfloor>(1 / 2 :: rat)\<rfloor> = 0" by (simp add: floor_eq_iff)
  then show ?thesis by (simp add: num_round_def num_map_def num_def)
qed

lemma num_add_num: "\<bar>i + j\<bar> \<le> 2 ^ 53 \<Longrightarrow> num_add (num i) (num j) = num (i + j)"
  using rnd_int [of "i + j"] by (simp add: num_def)

lemma num_sub_num: "\<bar>i - j\<bar> \<le> 2 ^ 53 \<Longrightarrow> num_sub (num i) (num j) = num (i - j)"
  using rnd_int [of "i - j"] by (simp add: num_def num_sub_def num_neg_def)

lemma num_mul_num: "\<bar>i * j\<bar> \<le> 2 ^ 53 \<Longrightarrow> num_mul (num i) (num j) = num (i * j)"
  using rnd_int [of "i * j"] by (simp add: num_def num_mul_def)

text \<open>The clamp \<open>Math.max(lo, Math.min(hi, Math.floor(x) || d))\<close> used for page sizes.\<close>

lemma clamp_bounds:
  assumes "lo \<le> d" "d \<le> hi"
  shows "num_le (num lo) (num_max (num lo) (num_min (num hi) (num_or (num_floor a) (num d)))) \<and>
    num_le (num_max (num lo) (num_min (num hi) (num_or (num_floor a) (num d)))) (num hi) \<and>
    is_integer (num_max (num lo) (num_min (num hi) (num_or (num_floor a) (num d))))"
proof (cases a)
  case (Fin q)
  then have "num_floor a = num \<lfloor>q\<rfloor>" by (simp add: num_floor_def num_map_def num_def)
  with assms show ?thesis by (cases "\<lfloor>q\<rfloor> = 0") auto
next
  case NaN
  with assms show ?thesis by (simp add: num_floor_def num_map_def)
next
  case PosInf
  with assms show ?thesis
    by (simp add: num_floor_def num_map_def num_or_def num_truthy_def num_min_def)
       (simp add: num_def)
next
  case NegInf
  with assms show ?thesis
    by (simp add: num_floor_def num_map_def num_or_def num_truthy_def num_min_def num_max_def)
       (simp add: num_def)
qed

end
