(* ===== verification/JsNumText.thy ===== *)
theory JsNumText
  imports JsNumber
begin

text \<open>
  Conversions between numbers and strings: \<open>Number(s)\<close> for a string \<open>s\<close>,
  \<open>Number.prototype.toString\<close> and \<open>toFixed\<close>.
\<close>

definition pow10 :: "int \<Rightarrow> rat" where
  "pow10 e = (if 0 \<le> e then 10 ^ nat e else 1 / 10 ^ nat (- e))"

definition all_digits :: "jstr \<Rightarrow> bool" where
  "all_digits s \<longleftrightarrow> s \<noteq> [] \<and> list_all is_digit s"

section \<open>Number(s)\<close>

definition sign_of :: "jstr \<Rightarrow> int \<times> jstr" where
  "sign_of s = (case s of [] \<Rightarrow> (1, s)
     | c # t \<Rightarrow> if c = 45 then (-1, t) else if c = 43 then (1, t) else (1, s))"

text \<open>The exponent part: \<open>None\<close> when malformed, 0 when absent.\<close>

definition exponent_part :: "jstr \<Rightarrow> int option" where
  "exponent_part s = (case s of [] \<Rightarrow> Some 0
     | c # t \<Rightarrow>
         if c = 101 \<or> c = 69 then
           (let (sg, ds) = sign_of t in if all_digits ds then Some (sg * digits_value ds) else None)
         else None)"

definition decimal_literal :: "jstr \<Rightarrow> rat option" where
  "decimal_literal s =
     (let i = takeWhile is_digit s; r = dropWhile is_digit s;
          dot = (r \<noteq> [] \<and> hd r = 46);
          f = (if dot then takeWhile is_digit (tl r) else []);
          e = (if dot then dropWhile is_digit (tl r) else r)
      in if i = [] \<and> f = [] then None
         else map_option (\<lambda>x. of_int (digits_value (i @ f)) * pow10 (x - int (length f)))
                (exponent_part e))"

definition hex_value :: "int \<Rightarrow> int option" where
  "hex_value c =
     (if is_digit c then Some (c - 48)
      else if 97 \<le> c \<and> c \<le> 102 then Some (c - 87)
      else if 65 \<le> c \<and> c \<le> 70 then Some (c - 55)
      else None)"

fun radix_value :: "int \<Rightarrow> int \<Rightarrow> jstr \<Rightarrow> int option" where
  "radix_value b acc [] = Some acc"
| "radix_value b acc (c # s) =
     (case hex_value c of
        None \<Rightarrow> None
      | Some v \<Rightarrow> if v < b then radix_value b (b * acc + v) s else None)"

definition radix_of :: "int \<Rightarrow> int option" where
  "radix_of c =
     (if c = 120 \<or> c = 88 then Some 16
      else if c = 111 \<or> c = 79 then Some 8
      else if c = 98 \<or> c = 66 then Some 2
      else None)"

definition radix_literal :: "jstr \<Rightarrow> int option" where
  "radix_literal s = (case s of
      a # b # d # ds \<Rightarrow>
        if a = 48 then Option.bind (radix_of b) (\<lambda>r. radix_value r 0 (d # ds)) else None
    | _ \<Rightarrow> None)"

definition str_num :: "jstr \<Rightarrow> jnum" where
  "str_num raw =
     (let s = trim raw; (sg, u) = sign_of s
      in if s = [] then Fin 0
         else case radix_literal s of
                Some v \<Rightarrow> rnd (of_int v)
              | None \<Rightarrow>
                  if u = js ''Infinity'' then (if 0 < sg then PosInf else NegInf)
                  else case decimal_literal u of
                         None \<Rightarrow> NaN
                       | Some q \<Rightarrow> rnd (of_int sg * q))"

lemma takeWhile_all_digits: "list_all is_digit s \<Longrightarrow> takeWhile is_digit s = s"
  by (simp add: list_all_iff takeWhile_eq_all_conv)

lemma dropWhile_all_digits: "list_all is_digit s \<Longrightarrow> dropWhile is_digit s = []"
  by (simp add: list_all_iff dropWhile_eq_Nil_conv)

lemma digit_not_space: "is_digit c \<Longrightarrow> \<not> is_space c"
  by (auto simp: is_digit_def is_space_def)

lemma trim_id: "s = [] \<or> \<not> is_space (hd s) \<and> \<not> is_space (last s) \<Longrightarrow> trim s = s"
  by (auto simp: trim_def trim_left_id trim_right_id)

lemma trim_all_digits: "all_digits s \<Longrightarrow> trim s = s"
  by (intro trim_id) (auto simp: all_digits_def list_all_iff digit_not_space)

lemma radix_literal_digits: "all_digits s \<Longrightarrow> radix_literal s = None"
  by (auto simp: radix_literal_def radix_of_def all_digits_def is_digit_def split: list.splits)

lemma sign_of_digits: "all_digits s \<Longrightarrow> sign_of s = (1, s)"
  by (auto simp: sign_of_def all_digits_def is_digit_def split: list.splits)

lemma decimal_literal_digits: "all_digits s \<Longrightarrow> decimal_literal s = Some (of_int (digits_value s))"
  by (simp add: decimal_literal_def all_digits_def takeWhile_all_digits dropWhile_all_digits
      exponent_part_def pow10_def Let_def)

lemma not_Infinity_digits: "all_digits s \<Longrightarrow> s \<noteq> js ''Infinity''"
  by (auto simp: all_digits_def js_def is_digit_def)

text \<open>A string of decimal digits denotes the number of its value.\<close>

lemma str_num_digits:
  assumes "all_digits s"
  shows "str_num s = rnd (of_int (digits_value s))"
  using assms not_Infinity_digits [OF assms]
  by (auto simp: str_num_def trim_all_digits radix_literal_digits sign_of_digits
      decimal_literal_digits all_digits_def)

lemma all_digits_digits_of: "0 \<le> n \<Longrightarrow> all_digits (digits_of n)"
  by (auto simp: all_digits_def list_all_iff digits_of_digits)

lemma str_num_digits_of: "0 \<le> n \<Longrightarrow> n \<le> 2 ^ 53 \<Longrightarrow> str_num (digits_of n) = num n"
  using rnd_int [of n] by (simp add: str_num_digits all_digits_digits_of num_def)

lemma str_num_empty [simp]: "str_num [] = num 0"
  by (simp add: str_num_def sign_of_def num_def)

subsection \<open>Canonical decimal integers\<close>

text \<open>\<open>[1-9]\d*\<close>.\<close>

definition canonical_digits :: "jstr \<Rightarrow> bool" where
  "canonical_digits s \<longleftrightarrow> all_digits s \<and> hd s \<noteq> 48"

lemma digits_value_nonneg: "list_all is_digit s \<Longrightarrow> 0 \<le> digits_value s"
  by (induction s rule: rev_induct) (auto simp: digits_value_snoc is_digit_def, simp add: digits_value_def)

lemma digits_value_pos: "list_all is_digit s \<Longrightarrow> s \<noteq> [] \<Longrightarrow> hd s \<noteq> 48 \<Longrightarrow> 0 < digits_value s"
proof (induction s rule: rev_induct)
  case Nil
  then show ?case by simp
next
  case (snoc c s)
  show ?case
  proof (cases "s = []")
    case True
    with snoc show ?thesis by (auto simp: digits_value_def is_digit_def)
  next
    case False
    with snoc show ?thesis by (auto simp: digits_value_snoc is_digit_def)
  qed
qed

lemma digits_of_value: "list_all is_digit s \<Longrightarrow> s \<noteq> [] \<Longrightarrow> hd s \<noteq> 48 \<Longrightarrow> digits_of (digits_value s) = s"
proof (induction s rule: rev_induct)
  case Nil
  then show ?case by simp
next
  case (snoc c s)
  have c: "0 \<le> c - 48" "c - 48 < 10" using snoc.prems by (auto simp: is_digit_def)
  show ?case
  proof (cases "s = []")
    case True
    with c show ?thesis by (simp add: digits_value_def digits_of.simps)
  next
    case False
    with snoc.prems have s: "list_all is_digit s" "hd s \<noteq> 48" by auto
    with False have "0 < digits_value s" by (intro digits_value_pos)
    then have "\<not> digits_value (s @ [c]) < 10" using c by (simp add: digits_value_snoc)
    then have "digits_of (digits_value (s @ [c])) =
        digits_of (digits_value (s @ [c]) div 10) @ [48 + digits_value (s @ [c]) mod 10]"
      by (simp add: digits_of.simps [of "digits_value (s @ [c])"])
    also have "digits_value (s @ [c]) div 10 = digits_value s"
      using c by (simp add: digits_value_snoc)
    also have "digits_value (s @ [c]) mod 10 = c - 48"
      using c by (simp add: digits_value_snoc)
    finally show ?thesis using snoc.IH s False by simp
  qed
qed

lemma canonical_digits_iff: "canonical_digits s \<longleftrightarrow> (\<exists>n. 0 < n \<and> s = digits_of n)"
proof
  assume s: "canonical_digits s"
  then have "digits_of (digits_value s) = s" "0 < digits_value s"
    using digits_of_value digits_value_pos by (auto simp: canonical_digits_def all_digits_def)
  then show "\<exists>n. 0 < n \<and> s = digits_of n" by metis
next
  assume "\<exists>n. 0 < n \<and> s = digits_of n"
  then show "canonical_digits s"
    using all_digits_digits_of hd_digits_of by (fastforce simp: canonical_digits_def)
qed

text \<open>A string of digits denotes a safe integer only if its exact value is one.\<close>

lemma str_num_digits_safe:
  assumes "all_digits s"
  shows "is_safe (str_num s) \<longleftrightarrow> digits_value s \<le> max_safe"
    and "digits_value s \<le> max_safe \<Longrightarrow> str_num s = num (digits_value s)"
proof -
  let ?n = "digits_value s"
  have n: "0 \<le> ?n" using assms by (simp add: all_digits_def digits_value_nonneg)
  show val: "str_num s = num ?n" if "?n \<le> max_safe"
    using that n rnd_int [of ?n] by (simp add: str_num_digits [OF assms] num_def max_safe_def)
  show "is_safe (str_num s) \<longleftrightarrow> ?n \<le> max_safe"
  proof (cases "?n \<le> 2 ^ 53")
    case True
    then have "str_num s = num ?n"
      using n rnd_int [of ?n] by (simp add: str_num_digits [OF assms] num_def)
    then show ?thesis using n by simp
  next
    case False
    then show ?thesis
      using rnd_big_not_safe [of ?n] by (simp add: str_num_digits [OF assms] max_safe_def)
  qed
qed

lemma canonical_safe:
  assumes "canonical_digits s" "is_safe (str_num s)"
  shows "0 < digits_value s \<and> digits_value s \<le> max_safe \<and> str_num s = num (digits_value s) \<and>
    digits_of (digits_value s) = s"
  using assms str_num_digits_safe [of s] digits_of_value [of s] digits_value_pos [of s]
  by (auto simp: canonical_digits_def all_digits_def)

section \<open>toString and toFixed\<close>

fun decimal_shift :: "nat \<Rightarrow> rat \<Rightarrow> int" where
  "decimal_shift 0 q = 0"
| "decimal_shift (Suc n) q = (if 1 \<le> q then 0 else 1 + decimal_shift n (10 * q))"

text \<open>
  The decimal exponent \<open>n\<close> with \<open>10 ^ (n - 1) \<le> q < 10 ^ n\<close>; the least positive double is
  about \<open>5e-324\<close>, so 400 shifts are enough below one.
\<close>

definition decimal_exp :: "rat \<Rightarrow> int" where
  "decimal_exp q = (if 1 \<le> q then int (length (digits_of \<lfloor>q\<rfloor>)) else 1 - decimal_shift 400 q)"

text \<open>The shortest digits that read back as the same number: 17 always suffice for a double.\<close>

definition shortest_digits :: "rat \<Rightarrow> int \<times> int" where
  "shortest_digits q =
     (let n = decimal_exp q;
          cand = (\<lambda>k. \<lfloor>q * pow10 (k - n) + 1/2\<rfloor>)
      in case List.find (\<lambda>k. rnd (of_int (cand k) * pow10 (n - k)) = Fin q) [1..16] of
           Some k \<Rightarrow> (cand k, n)
         | None \<Rightarrow> (cand 17, n))"

definition layout_digits :: "jstr \<Rightarrow> int \<Rightarrow> jstr" where
  "layout_digits ds n =
     (let k = int (length ds)
      in if k \<le> n \<and> n \<le> 21 then ds @ replicate (nat (n - k)) 48
         else if 0 < n \<and> n \<le> 21 then take (nat n) ds @ [46] @ drop (nat n) ds
         else if -6 < n \<and> n \<le> 0 then js ''0.'' @ replicate (nat (- n)) 48 @ ds
         else (let e = n - 1; es = [101, if 0 \<le> e then 43 else 45] @ int_str \<bar>e\<bar>
               in if k = 1 then ds @ es else take 1 ds @ [46] @ drop 1 ds @ es))"

definition rat_str :: "rat \<Rightarrow> jstr" where
  "rat_str q =
     (if of_int \<lfloor>q\<rfloor> = q \<and> \<bar>\<lfloor>q\<rfloor>\<bar> \<le> 2 ^ 53 then int_str \<lfloor>q\<rfloor>
      else (let (s, n) = shortest_digits \<bar>q\<bar>; t = layout_digits (int_str s) n
            in if q < 0 then 45 # t else t))"

definition num_str :: "jnum \<Rightarrow> jstr" where
  "num_str a = (case a of
      NaN \<Rightarrow> js ''NaN'' | PosInf \<Rightarrow> js ''Infinity'' | NegInf \<Rightarrow> js ''-Infinity'' | Fin q \<Rightarrow> rat_str q)"

lemma num_str_num: "\<bar>i\<bar> \<le> 2 ^ 53 \<Longrightarrow> num_str (num i) = int_str i"
  by (simp add: num_str_def num_def rat_str_def)

text \<open>\<open>toFixed(f)\<close>: the integer nearest to \<open>x * 10 ^ f\<close>, the larger one on a tie.\<close>

definition fixed_rat :: "nat \<Rightarrow> rat \<Rightarrow> jstr" where
  "fixed_rat f q =
     (let n = \<lfloor>q * 10 ^ f + 1/2\<rfloor>; ds = digits_of n;
          padded = replicate (Suc f - length ds) 48 @ ds; k = length padded
      in if f = 0 then ds else take (k - f) padded @ [46] @ drop (k - f) padded)"

definition to_fixed :: "nat \<Rightarrow> jnum \<Rightarrow> jstr" where
  "to_fixed f a = (case a of
      Fin q \<Rightarrow> (if 10 ^ 21 \<le> \<bar>q\<bar> then num_str a
               else if q < 0 then 45 # fixed_rat f (- q) else fixed_rat f q)
    | _ \<Rightarrow> num_str a)"

end
