(* ===== verification/JsValue.thy ===== *)
theory JsValue
  imports JsNumText
begin

text \<open>
  JavaScript values as the program receives them: the values of JSON with \<open>undefined\<close>
  added. An object is its list of own properties in the language's enumeration order.
  Functions, symbols, getters and inherited properties do not occur in the data the program
  handles and are not modelled; object identity is modelled only where a component relies
  on it (there by an explicit store or by a result that says "the same object").
\<close>

datatype jsv =
    JUndef
  | JNull
  | JBool bool
  | JNum jnum
  | JStr jstr
  | JArr "jsv list"
  | JObj "(jstr \<times> jsv) list"

type_synonym jobj = "(jstr \<times> jsv) list"

section \<open>Objects\<close>

text \<open>Array-index keys come first, ascending; the others follow in insertion order.\<close>

definition is_index_key :: "jstr \<Rightarrow> bool" where
  "is_index_key k \<longleftrightarrow> all_digits k \<and> (k = [48] \<or> hd k \<noteq> 48) \<and> digits_value k < 4294967295"

definition key_before :: "jstr \<Rightarrow> jstr \<Rightarrow> bool" where
  "key_before k l \<longleftrightarrow> is_index_key k \<and> (is_index_key l \<longrightarrow> digits_value k < digits_value l)"

text \<open>Assignment \<open>o[k] = v\<close>: an existing property keeps its place.\<close>

fun oinsert :: "jstr \<Rightarrow> 'v \<Rightarrow> (jstr \<times> 'v) list \<Rightarrow> (jstr \<times> 'v) list" where
  "oinsert k v [] = [(k, v)]"
| "oinsert k v ((l, w) # o') =
     (if key_before k l then (k, v) # (l, w) # o' else (l, w) # oinsert k v o')"

fun oreplace :: "jstr \<Rightarrow> 'v \<Rightarrow> (jstr \<times> 'v) list \<Rightarrow> (jstr \<times> 'v) list" where
  "oreplace k v [] = []"
| "oreplace k v ((l, w) # o') = (if l = k then (l, v) # o' else (l, w) # oreplace k v o')"

definition ohas :: "jstr \<Rightarrow> (jstr \<times> 'v) list \<Rightarrow> bool" where
  "ohas k obj \<longleftrightarrow> k \<in> fst ` set obj"

definition oput :: "jstr \<Rightarrow> 'v \<Rightarrow> (jstr \<times> 'v) list \<Rightarrow> (jstr \<times> 'v) list" where
  "oput k v obj = (if ohas k obj then oreplace k v obj else oinsert k v obj)"

definition oget :: "jstr \<Rightarrow> jobj \<Rightarrow> jsv" where
  "oget k obj = (case map_of obj k of None \<Rightarrow> JUndef | Some v \<Rightarrow> v)"

definition odel :: "jstr \<Rightarrow> (jstr \<times> 'v) list \<Rightarrow> (jstr \<times> 'v) list" where
  "odel k obj = filter (\<lambda>(l, _). l \<noteq> k) obj"

text \<open>The spread \<open>{ ...a, ...b }\<close>: the properties of \<open>b\<close> assigned one after the other.\<close>

definition omerge :: "(jstr \<times> 'v) list \<Rightarrow> (jstr \<times> 'v) list \<Rightarrow> (jstr \<times> 'v) list" where
  "omerge a b = fold (\<lambda>(k, v) obj. oput k v obj) b a"

definition obj_of :: "(jstr \<times> 'v) list \<Rightarrow> (jstr \<times> 'v) list" where
  "obj_of kvs = omerge [] kvs"

lemma map_of_oinsert: "\<not> ohas k obj \<Longrightarrow> map_of (oinsert k v obj) = (map_of obj)(k \<mapsto> v)"
  by (induction obj) (auto simp: ohas_def fun_eq_iff)

lemma map_of_oreplace: "ohas k obj \<Longrightarrow> map_of (oreplace k v obj) = (map_of obj)(k \<mapsto> v)"
  by (induction obj) (force simp: ohas_def fun_eq_iff)+

lemma map_of_oput [simp]: "map_of (oput k v obj) = (map_of obj)(k \<mapsto> v)"
  by (simp add: oput_def map_of_oinsert map_of_oreplace)

lemma oget_oput [simp]: "oget k (oput l v obj) = (if k = l then v else oget k obj)"
  by (simp add: oget_def)

lemma map_of_odel [simp]: "map_of (odel k obj) = (map_of obj)(k := None)"
  by (induction obj) (auto simp: odel_def fun_eq_iff)

lemma oget_odel [simp]: "oget k (odel l obj) = (if k = l then JUndef else oget k obj)"
  by (simp add: oget_def)

lemma ohas_iff: "ohas k obj \<longleftrightarrow> map_of obj k \<noteq> None"
  by (induction obj) (auto simp: ohas_def)

lemma ohas_oput [simp]: "ohas k (oput l v obj) \<longleftrightarrow> k = l \<or> ohas k obj"
  by (simp add: ohas_iff)

lemma ohas_Nil [simp]: "\<not> ohas k []"
  by (simp add: ohas_def)

lemma oget_Nil [simp]: "oget k [] = JUndef"
  by (simp add: oget_def)

lemma omerge_Nil [simp]: "omerge a [] = a"
  by (simp add: omerge_def)

lemma omerge_Cons: "omerge a ((k, v) # b) = omerge (oput k v a) b"
  by (simp add: omerge_def)

lemma omerge_append: "omerge a (b @ c) = omerge (omerge a b) c"
  by (simp add: omerge_def)

lemma map_of_omerge:
  "distinct (map fst b) \<Longrightarrow> map_of (omerge a b) = map_of a ++ map_of b"
proof (induction b arbitrary: a)
  case Nil
  then show ?case by simp
next
  case (Cons kv b)
  obtain k v where kv: "kv = (k, v)" by force
  from Cons.prems kv have "map_of b k = None" by (simp add: map_of_eq_None_iff)
  with Cons kv show ?case
    by (auto simp: omerge_Cons fun_eq_iff map_add_def split: option.splits)
qed

lemma fst_oinsert: "fst ` set (oinsert k v obj) = insert k (fst ` set obj)"
  by (induction k v obj rule: oinsert.induct) (simp_all add: insert_commute)

lemma fst_oreplace [simp]: "map fst (oreplace k v obj) = map fst obj"
  by (induction obj) auto

lemma distinct_oinsert:
  "distinct (map fst obj) \<Longrightarrow> \<not> ohas k obj \<Longrightarrow> distinct (map fst (oinsert k v obj))"
proof (induction obj)
  case Nil
  then show ?case by simp
next
  case (Cons lw obj)
  obtain l w where lw: "lw = (l, w)" by force
  have "fst ` set (oinsert k v obj) = insert k (fst ` set obj)" by (rule fst_oinsert)
  with Cons lw show ?case by (auto simp: ohas_def)
qed

lemma distinct_oput: "distinct (map fst obj) \<Longrightarrow> distinct (map fst (oput k v obj))"
  by (simp add: oput_def distinct_oinsert)

lemma distinct_omerge: "distinct (map fst a) \<Longrightarrow> distinct (map fst (omerge a b))"
  by (induction b arbitrary: a) (auto simp: omerge_Cons distinct_oput)

lemma length_oreplace [simp]: "length (oreplace k v obj) = length obj"
  by (induction obj) auto

lemma length_oinsert [simp]: "length (oinsert k v obj) = Suc (length obj)"
  by (induction obj) auto

section \<open>Conversions\<close>

definition nullish :: "jsv \<Rightarrow> bool" where
  "nullish v = (v = JUndef \<or> v = JNull)"

text \<open>\<open>a ?? b\<close>.\<close>

definition coalesce :: "jsv \<Rightarrow> jsv \<Rightarrow> jsv" where
  "coalesce a b = (if nullish a then b else a)"

definition truthy :: "jsv \<Rightarrow> bool" where
  "truthy v = (case v of
      JUndef \<Rightarrow> False | JNull \<Rightarrow> False | JBool b \<Rightarrow> b | JNum n \<Rightarrow> num_truthy n
    | JStr s \<Rightarrow> s \<noteq> [] | JArr _ \<Rightarrow> True | JObj _ \<Rightarrow> True)"

text \<open>\<open>a || b\<close>.\<close>

definition jor :: "jsv \<Rightarrow> jsv \<Rightarrow> jsv" where
  "jor a b = (if truthy a then a else b)"

definition bool_str :: "bool \<Rightarrow> jstr" where
  "bool_str b = (if b then js ''true'' else js ''false'')"

text \<open>\<open>String(v)\<close>; inside an array \<open>null\<close> and \<open>undefined\<close> print as nothing.\<close>

fun to_str :: "jsv \<Rightarrow> jstr" and elem_str :: "jsv \<Rightarrow> jstr" where
  "to_str JUndef = js ''undefined''"
| "to_str JNull = js ''null''"
| "to_str (JBool b) = bool_str b"
| "to_str (JNum n) = num_str n"
| "to_str (JStr s) = s"
| "to_str (JArr vs) = join [44] (map elem_str vs)"
| "to_str (JObj _) = js ''[object Object]''"
| "elem_str JUndef = []"
| "elem_str JNull = []"
| "elem_str (JBool b) = bool_str b"
| "elem_str (JNum n) = num_str n"
| "elem_str (JStr s) = s"
| "elem_str (JArr vs) = join [44] (map elem_str vs)"
| "elem_str (JObj _) = js ''[object Object]''"

text \<open>\<open>Number(v)\<close>.\<close>

definition to_num :: "jsv \<Rightarrow> jnum" where
  "to_num v = (case v of
      JUndef \<Rightarrow> NaN | JNull \<Rightarrow> num 0 | JBool b \<Rightarrow> num (if b then 1 else 0) | JNum n \<Rightarrow> n
    | JStr s \<Rightarrow> str_num s | JArr _ \<Rightarrow> str_num (to_str v) | JObj _ \<Rightarrow> NaN)"

lemma to_num_simps [simp]:
  "to_num JUndef = NaN" "to_num JNull = num 0" "to_num (JNum n) = n" "to_num (JStr s) = str_num s"
  "to_num (JBool b) = num (if b then 1 else 0)" "to_num (JObj kv) = NaN"
  by (simp_all add: to_num_def)

lemma truthy_simps [simp]:
  "\<not> truthy JUndef" "\<not> truthy JNull" "truthy (JBool b) = b" "truthy (JNum n) = num_truthy n"
  "truthy (JStr s) = (s \<noteq> [])" "truthy (JArr vs)" "truthy (JObj kv)"
  by (simp_all add: truthy_def)

lemma nullish_simps [simp]:
  "nullish JUndef" "nullish JNull" "\<not> nullish (JBool b)" "\<not> nullish (JNum n)"
  "\<not> nullish (JStr s)" "\<not> nullish (JArr vs)" "\<not> nullish (JObj kv)"
  by (simp_all add: nullish_def)

lemma nullish_not_truthy: "nullish v \<Longrightarrow> \<not> truthy v"
  by (auto simp: nullish_def)

section \<open>Property access and comparison\<close>

text \<open>
  \<open>v?.k\<close> for a key that is neither \<open>length\<close> nor an inherited name: \<open>undefined\<close> unless \<open>v\<close>
  is an object with that own property.
\<close>

definition jprop :: "jsv \<Rightarrow> jstr \<Rightarrow> jsv" where
  "jprop v k = (case v of JObj obj \<Rightarrow> oget k obj | _ \<Rightarrow> JUndef)"

lemma jprop_simps [simp]:
  "jprop JUndef k = JUndef" "jprop JNull k = JUndef" "jprop (JBool b) k = JUndef"
  "jprop (JNum n) k = JUndef" "jprop (JStr s) k = JUndef" "jprop (JArr vs) k = JUndef"
  "jprop (JObj obj) k = oget k obj"
  by (simp_all add: jprop_def)

text \<open>\<open>v.k\<close>: a \<open>TypeError\<close> (here \<open>None\<close>) on \<open>null\<close> and \<open>undefined\<close>.\<close>

definition jprop_strict :: "jsv \<Rightarrow> jstr \<Rightarrow> jsv option" where
  "jprop_strict v k = (if nullish v then None else Some (jprop v k))"

definition is_array :: "jsv \<Rightarrow> bool" where
  "is_array v = (case v of JArr _ \<Rightarrow> True | _ \<Rightarrow> False)"

definition elems :: "jsv \<Rightarrow> jsv list" where
  "elems v = (case v of JArr vs \<Rightarrow> vs | _ \<Rightarrow> [])"

definition is_string :: "jsv \<Rightarrow> bool" where
  "is_string v = (case v of JStr _ \<Rightarrow> True | _ \<Rightarrow> False)"

text \<open>\<open>typeof v === 'object'\<close> and not \<open>null\<close>: arrays and objects.\<close>

definition is_objectlike :: "jsv \<Rightarrow> bool" where
  "is_objectlike v = (case v of JArr _ \<Rightarrow> True | JObj _ \<Rightarrow> True | _ \<Rightarrow> False)"

definition is_plain :: "jsv \<Rightarrow> bool" where
  "is_plain v = (case v of JObj _ \<Rightarrow> True | _ \<Rightarrow> False)"

lemma shape_simps [simp]:
  "is_array (JArr vs)" "\<not> is_array JUndef" "\<not> is_array JNull" "\<not> is_array (JBool b)"
  "\<not> is_array (JNum n)" "\<not> is_array (JStr s)" "\<not> is_array (JObj kv)"
  "elems (JArr vs) = vs"
  "is_string (JStr s)" "\<not> is_string JUndef" "\<not> is_string JNull" "\<not> is_string (JBool b)"
  "\<not> is_string (JNum n)" "\<not> is_string (JArr vs)" "\<not> is_string (JObj kv)"
  by (simp_all add: is_array_def elems_def is_string_def)

lemma is_array_iff: "is_array v \<longleftrightarrow> (\<exists>vs. v = JArr vs)"
  by (cases v) simp_all

lemma is_string_iff: "is_string v \<longleftrightarrow> (\<exists>s. v = JStr s)"
  by (cases v) simp_all

lemma is_plain_iff: "is_plain v \<longleftrightarrow> (\<exists>kv. v = JObj kv)"
  by (cases v) (simp_all add: is_plain_def)

text \<open>\<open>v === p\<close> against a primitive value \<open>p\<close>.\<close>

definition strict_eq :: "jsv \<Rightarrow> jsv \<Rightarrow> bool" where
  "strict_eq v p = (case (v, p) of
      (JNum a, JNum b) \<Rightarrow> num_eq a b
    | (JArr _, _) \<Rightarrow> False
    | (JObj _, _) \<Rightarrow> False
    | _ \<Rightarrow> v = p)"

text \<open>\<open>[p, ...].includes(v)\<close> for a list of primitive values (\<open>NaN\<close> equals itself there).\<close>

definition among :: "jsv list \<Rightarrow> jsv \<Rightarrow> bool" where
  "among ps v = (\<not> is_objectlike v \<and> v \<in> set ps)"

lemma strict_eq_str [simp]: "strict_eq v (JStr s) \<longleftrightarrow> v = JStr s"
  by (cases v) (auto simp: strict_eq_def)

lemma strict_eq_bool [simp]: "strict_eq v (JBool b) \<longleftrightarrow> v = JBool b"
  by (cases v) (auto simp: strict_eq_def)

lemma strict_eq_num [simp]: "strict_eq v (JNum (num i)) \<longleftrightarrow> v = JNum (num i)"
  by (cases v) (auto simp: strict_eq_def num_eq_def)

lemma strict_eq_null [simp]: "strict_eq v JNull \<longleftrightarrow> v = JNull"
  by (cases v) (auto simp: strict_eq_def)

lemma strict_eq_undef [simp]: "strict_eq v JUndef \<longleftrightarrow> v = JUndef"
  by (cases v) (auto simp: strict_eq_def)

text \<open>\<open>Number.isSafeInteger(Number(v)) \<and> Number(v) > 0\<close>, the identifier test of the whole program.\<close>

definition positive_id :: "jnum \<Rightarrow> bool" where
  "positive_id n \<longleftrightarrow> is_safe n \<and> num_lt (num 0) n"

lemma positive_id_iff: "positive_id n \<longleftrightarrow> (\<exists>i. n = num i \<and> 0 < i \<and> i \<le> max_safe)"
  by (auto simp: positive_id_def is_safe_iff)

lemma positive_id_num [simp]: "positive_id (num i) \<longleftrightarrow> 0 < i \<and> i \<le> max_safe"
  by (auto simp: positive_id_def)

lemma not_positive_id_NaN [simp]: "\<not> positive_id NaN"
  by (simp add: positive_id_def is_safe_def)

lemma max_safe_lt: "i \<le> max_safe \<Longrightarrow> i \<le> 2 ^ 53"
  by (simp add: max_safe_def)

lemma num_str_positive_id: "positive_id n \<Longrightarrow> num_str n = digits_of (int_of n)"
  by (auto simp: positive_id_iff num_str_num int_str_digits dest: max_safe_lt)

text \<open>\<open>String(v || '').trim()\<close>.\<close>

definition trimmed :: "jsv \<Rightarrow> jstr" where
  "trimmed v = trim (to_str (jor v (JStr [])))"

lemma trimmed_simps [simp]:
  "trimmed (JStr s) = trim s" "trimmed JUndef = []" "trimmed JNull = []"
  by (auto simp: trimmed_def jor_def)

lemma trim_trimmed [simp]: "trim (trimmed v) = trimmed v"
  by (simp add: trimmed_def)

lemma set_oinsert: "set (oinsert k v obj) = insert (k, v) (set obj)"
  by (induction obj rule: oinsert.induct [of _ k v]) auto

lemma set_oreplace: "set (oreplace k v obj) \<subseteq> insert (k, v) (set obj)"
  by (induction obj rule: oreplace.induct [of _ k v]) auto

lemma set_omerge_subset: "set (omerge a b) \<subseteq> set a \<union> set b"
proof (induction b arbitrary: a)
  case Nil
  show ?case by simp
next
  case (Cons kv b)
  have "set (oput (fst kv) (snd kv) a) \<subseteq> insert kv (set a)"
    using set_oinsert [of "fst kv" "snd kv" a] set_oreplace [of "fst kv" "snd kv" a] by (auto simp: oput_def)
  then show ?case using Cons.IH [of "oput (fst kv) (snd kv) a"] by (cases kv) (auto simp: omerge_Cons)
qed

lemma fst_oput: "fst ` set (oput k v obj) = insert k (fst ` set obj)"
proof -
  have "fst ` set (oreplace k v obj) = fst ` set obj"
    unfolding list.set_map [symmetric] by (simp only: fst_oreplace)
  then show ?thesis by (auto simp: oput_def fst_oinsert ohas_def)
qed

lemma fst_omerge: "fst ` set (omerge a b) = fst ` set a \<union> fst ` set b"
proof (induction b arbitrary: a)
  case (Cons kv b)
  then show ?case by (cases kv) (auto simp: omerge_Cons fst_oput)
qed simp

lemma oget_append: "oget k (a @ b) = (if ohas k a then oget k a else oget k b)"
  by (auto simp: oget_def ohas_iff map_add_def split: option.split)

lemma oget_cons: "oget k ((l, v) # b) = (if k = l then v else oget k b)"
  by (simp add: oget_def)

lemma ohas_cons: "ohas k ((l, v) # b) \<longleftrightarrow> k = l \<or> ohas k b"
  by (auto simp: ohas_def)

end
