(* ===== verification/JsJson.thy ===== *)
theory JsJson
  imports JsValue
begin

text \<open>
  \<open>JSON.stringify\<close> and \<open>JSON.parse\<close> on code units. The parser spends one unit of fuel per
  value or member; twice the length of the text is enough (\<open>json_parse\<close>, \<open>parse_fuel_enough\<close>), since every
  value and every member consumes a code unit.
\<close>

section \<open>Stringify\<close>

definition hex_digit :: "int \<Rightarrow> int" where
  "hex_digit d = (if d < 10 then 48 + d else 87 + d)"

definition hex4 :: "int \<Rightarrow> jstr" where
  "hex4 c = [hex_digit (c div 4096 mod 16), hex_digit (c div 256 mod 16),
     hex_digit (c div 16 mod 16), hex_digit (c mod 16)]"

definition escape_unit :: "int \<Rightarrow> jstr" where
  "escape_unit c =
     (if c = 34 then [92, 34] else if c = 92 then [92, 92]
      else if c = 8 then [92, 98] else if c = 12 then [92, 102]
      else if c = 10 then [92, 110] else if c = 13 then [92, 114] else if c = 9 then [92, 116]
      else if c < 32 then [92, 117] @ hex4 c else [c])"

definition is_high :: "int \<Rightarrow> bool" where
  "is_high c \<longleftrightarrow> 55296 \<le> c \<and> c \<le> 56319"

definition is_low :: "int \<Rightarrow> bool" where
  "is_low c \<longleftrightarrow> 56320 \<le> c \<and> c \<le> 57343"

text \<open>A surrogate without its partner is written as an escape.\<close>

fun escape :: "jstr \<Rightarrow> jstr" where
  "escape [] = []"
| "escape [c] = (if is_high c \<or> is_low c then [92, 117] @ hex4 c else escape_unit c)"
| "escape (c # d # s) =
     (if is_high c \<and> is_low d then c # d # escape s
      else if is_high c \<or> is_low c then [92, 117] @ hex4 c @ escape (d # s)
      else escape_unit c @ escape (d # s))"

definition quote :: "jstr \<Rightarrow> jstr" where
  "quote s = [34] @ escape s @ [34]"

definition num_json :: "jnum \<Rightarrow> jstr" where
  "num_json n = (if is_finite n then num_str n else js ''null'')"

text \<open>\<open>undefined\<close> is dropped from objects and written \<open>null\<close> in arrays (and here at the top).\<close>

fun json_str :: "jsv \<Rightarrow> jstr" where
  "json_str JUndef = js ''null''"
| "json_str JNull = js ''null''"
| "json_str (JBool b) = bool_str b"
| "json_str (JNum n) = num_json n"
| "json_str (JStr s) = quote s"
| "json_str (JArr vs) = [91] @ join [44] (map json_str vs) @ [93]"
| "json_str (JObj kvs) =
     [123] @ join [44] (map (\<lambda>(k, v). quote k @ [58] @ json_str v)
       (filter (\<lambda>(k, v). v \<noteq> JUndef) kvs)) @ [125]"

section \<open>Parse\<close>

definition json_ws :: "int \<Rightarrow> bool" where
  "json_ws c \<longleftrightarrow> c = 32 \<or> c = 9 \<or> c = 10 \<or> c = 13"

abbreviation skip_ws :: "jstr \<Rightarrow> jstr" where
  "skip_ws s \<equiv> dropWhile json_ws s"

definition simple_escape :: "int \<Rightarrow> int option" where
  "simple_escape c =
     (if c = 34 \<or> c = 92 \<or> c = 47 then Some c
      else if c = 98 then Some 8 else if c = 102 then Some 12
      else if c = 110 then Some 10 else if c = 114 then Some 13
      else if c = 116 then Some 9 else None)"

text \<open>The rest of a string after its opening quote: its content and what follows the closing one.\<close>

fun string_body :: "jstr \<Rightarrow> (jstr \<times> jstr) option" where
  "string_body [] = None"
| "string_body (c # s) =
     (if c = 34 then Some ([], s)
      else if c < 32 then None
      else if c = 92 then
        (case s of
           [] \<Rightarrow> None
         | e # t \<Rightarrow>
             if e = 117 then
               (case t of
                  a # b # c' # d # u \<Rightarrow>
                    (case (hex_value a, hex_value b, hex_value c', hex_value d) of
                       (Some i, Some j, Some k, Some l) \<Rightarrow>
                         map_option (\<lambda>(x, r). ((4096 * i + 256 * j + 16 * k + l) # x, r)) (string_body u)
                     | _ \<Rightarrow> None)
                | _ \<Rightarrow> None)
             else (case simple_escape e of
                     None \<Rightarrow> None
                   | Some x \<Rightarrow> map_option (\<lambda>(y, r). (x # y, r)) (string_body t)))
      else map_option (\<lambda>(x, r). (c # x, r)) (string_body s))"

definition is_num_char :: "int \<Rightarrow> bool" where
  "is_num_char c \<longleftrightarrow> is_digit c \<or> c = 43 \<or> c = 45 \<or> c = 46 \<or> c = 69 \<or> c = 101"

text \<open>JSON numbers: no leading plus or zero, digits on both sides of the dot.\<close>

definition json_number_ok :: "jstr \<Rightarrow> bool" where
  "json_number_ok s =
     (let u = (if s \<noteq> [] \<and> hd s = 45 then tl s else s);
          i = takeWhile is_digit u; r = dropWhile is_digit u;
          dot = (r \<noteq> [] \<and> hd r = 46);
          f = (if dot then takeWhile is_digit (tl r) else []);
          e = (if dot then dropWhile is_digit (tl r) else r)
      in i \<noteq> [] \<and> (length i = 1 \<or> hd i \<noteq> 48) \<and> (dot \<longrightarrow> f \<noteq> []) \<and> exponent_part e \<noteq> None)"

definition number_token :: "jstr \<Rightarrow> (jsv \<times> jstr) option" where
  "number_token s =
     (let t = takeWhile is_num_char s
      in if json_number_ok t then Some (JNum (str_num t), dropWhile is_num_char s) else None)"

definition keyword_token :: "jstr \<Rightarrow> (jsv \<times> jstr) option" where
  "keyword_token s =
     (if starts_with s (js ''null'') then Some (JNull, drop 4 s)
      else if starts_with s (js ''true'') then Some (JBool True, drop 4 s)
      else if starts_with s (js ''false'') then Some (JBool False, drop 5 s)
      else number_token s)"

fun parse_value :: "nat \<Rightarrow> jstr \<Rightarrow> (jsv \<times> jstr) option"
  and parse_elems :: "nat \<Rightarrow> jsv list \<Rightarrow> jstr \<Rightarrow> (jsv list \<times> jstr) option"
  and parse_members :: "nat \<Rightarrow> jobj \<Rightarrow> jstr \<Rightarrow> (jobj \<times> jstr) option" where
  "parse_value 0 s = None"
| "parse_value (Suc n) s =
     (case skip_ws s of
        [] \<Rightarrow> None
      | c # t \<Rightarrow>
          if c = 34 then map_option (\<lambda>(x, r). (JStr x, r)) (string_body t)
          else if c = 91 then
            (case skip_ws t of
               [] \<Rightarrow> None
             | d # u \<Rightarrow>
                 if d = 93 then Some (JArr [], u)
                 else map_option (\<lambda>(vs, r). (JArr vs, r)) (parse_elems n [] (d # u)))
          else if c = 123 then
            (case skip_ws t of
               [] \<Rightarrow> None
             | d # u \<Rightarrow>
                 if d = 125 then Some (JObj [], u)
                 else map_option (\<lambda>(obj, r). (JObj obj, r)) (parse_members n [] (d # u)))
          else keyword_token (c # t))"
| "parse_elems 0 acc s = None"
| "parse_elems (Suc n) acc s =
     (case parse_value n s of
        None \<Rightarrow> None
      | Some (v, r) \<Rightarrow>
          (case skip_ws r of
             [] \<Rightarrow> None
           | d # u \<Rightarrow>
               if d = 44 then parse_elems n (acc @ [v]) u
               else if d = 93 then Some (acc @ [v], u)
               else None))"
| "parse_members 0 acc s = None"
| "parse_members (Suc n) acc s =
     (case skip_ws s of
        [] \<Rightarrow> None
      | q # t \<Rightarrow>
          if q \<noteq> 34 then None
          else (case string_body t of
                  None \<Rightarrow> None
                | Some (k, r) \<Rightarrow>
                    (case skip_ws r of
                       [] \<Rightarrow> None
                     | d # u \<Rightarrow>
                         if d \<noteq> 58 then None
                         else (case parse_value n u of
                                 None \<Rightarrow> None
                               | Some (v, r') \<Rightarrow>
                                   (case skip_ws r' of
                                      [] \<Rightarrow> None
                                    | e # w \<Rightarrow>
                                        if e = 44 then parse_members n (oput k v acc) w
                                        else if e = 125 then Some (oput k v acc, w)
                                        else None)))))"

text \<open>\<open>JSON.parse\<close>: \<open>None\<close> is the \<open>SyntaxError\<close>.\<close>

definition json_parse :: "jstr \<Rightarrow> jsv option" where
  "json_parse s =
     (case parse_value (2 * length s + 2) s of
        Some (v, r) \<Rightarrow> if skip_ws r = [] then Some v else None
      | None \<Rightarrow> None)"

section \<open>The fuel is enough\<close>

lemma string_body_shorter: "string_body s = Some (x, r) \<Longrightarrow> length r < length s"
proof (induction s arbitrary: x r rule: string_body.induct)
  case 1
  then show ?case by simp
next
  case (2 c s)
  show ?case
    using 2
    by (auto split: if_splits list.splits option.splits simp: less_Suc_eq) (force dest: less_SucI)+
qed

lemma number_token_shorter: "number_token s = Some (v, r) \<Longrightarrow> length r < length s"
proof -
  assume a: "number_token s = Some (v, r)"
  then have ok: "json_number_ok (takeWhile is_num_char s)" and r: "r = dropWhile is_num_char s"
    by (auto simp: number_token_def Let_def split: if_splits)
  have "takeWhile is_num_char s \<noteq> []"
    using ok by (auto simp: json_number_ok_def)
  moreover have "length s = length (takeWhile is_num_char s) + length (dropWhile is_num_char s)"
    by (metis length_append takeWhile_dropWhile_id)
  ultimately show ?thesis using r by simp
qed

lemma keyword_token_shorter: "keyword_token s = Some (v, r) \<Longrightarrow> length r < length s"
  using number_token_shorter [of s v r]
  by (auto simp: keyword_token_def starts_with_iff split: if_splits)

lemma skip_ws_le: "length (skip_ws s) \<le> length s"
  by (rule length_dropWhile_le)

lemma skip_ws_Cons_less: "skip_ws s = c # t \<Longrightarrow> length t < length s"
  using skip_ws_le [of s] by simp

lemma parse_shorter:
  "parse_value n s = Some (v, r) \<Longrightarrow> length r < length s"
  "parse_elems n vs s = Some (ws, r) \<Longrightarrow> length r < length s"
  "parse_members n obj s = Some (obj', r) \<Longrightarrow> length r < length s"
proof (induction n s and n vs s and n obj s arbitrary: v r and ws r and obj' r
    rule: parse_value_parse_elems_parse_members.induct)
  case (2 n s)
  then obtain c t where ct: "skip_ws s = c # t" by (auto split: list.splits)
  note less = skip_ws_Cons_less [OF ct]
  consider "c = 34" | "c = 91" | "c = 123" | "c \<noteq> 34" "c \<noteq> 91" "c \<noteq> 123" by blast
  then show ?case
  proof cases
    case 1
    with "2.prems" ct less show ?thesis by (auto dest: string_body_shorter)
  next
    case 2
    then obtain d u where du: "skip_ws t = d # u" using "2.prems" ct by (auto split: list.splits)
    have "length (d # u) \<le> length t" using skip_ws_le [of t] du by simp
    then show ?thesis
      using "2.prems" ct 2 du less "2.IH"(1) [OF ct _ 2 du] by (fastforce split: if_splits)
  next
    case 3
    then obtain d u where du: "skip_ws t = d # u" using "2.prems" ct by (auto split: list.splits)
    have "length (d # u) \<le> length t" using skip_ws_le [of t] du by simp
    then show ?thesis
      using "2.prems" ct 3 du less "2.IH"(2) [OF ct _ _ 3 du] by (fastforce split: if_splits)
  next
    case 4
    then have "keyword_token (c # t) = Some (v, r)" using "2.prems" ct by simp
    then have "length r < length (c # t)" by (rule keyword_token_shorter)
    then show ?thesis using less by simp
  qed
next
  case (4 n acc s)
  then obtain v' r' where v: "parse_value n s = Some (v', r')" by (auto split: option.splits)
  then obtain d u where du: "skip_ws r' = d # u" using "4.prems" by (auto split: list.splits)
  have "length r' < length s" using "4.IH"(1) v .
  moreover have "length u < length r'" using skip_ws_Cons_less [OF du] .
  ultimately show ?case
    using "4.prems" v du "4.IH"(2) [OF v refl du] by (fastforce split: if_splits)
next
  case (6 n acc s)
  then obtain t where qt: "skip_ws s = 34 # t" by (auto split: list.splits if_splits)
  then obtain k r1 where k: "string_body t = Some (k, r1)"
    using "6.prems" by (auto split: option.splits)
  then obtain u where du: "skip_ws r1 = 58 # u"
    using "6.prems" qt by (auto split: list.splits if_splits)
  then obtain v' r' where v: "parse_value n u = Some (v', r')"
    using "6.prems" qt k by (auto split: option.splits)
  then obtain e w where ew: "skip_ws r' = e # w"
    using "6.prems" qt k du by (auto split: list.splits)
  have lens: "length t < length s" "length r1 < length t" "length u < length r1" "length w < length r'"
    using skip_ws_Cons_less [OF qt] string_body_shorter [OF k] skip_ws_Cons_less [OF du]
      skip_ws_Cons_less [OF ew] by auto
  have "length r' < length u" using "6.IH"(1) qt k du v by force
  with lens have w: "length w < length s" by linarith
  show ?case
  proof (cases "e = 44")
    case True
    then have rec: "parse_members n (oput k v' acc) w = Some (obj', r)"
      using "6.prems" qt k du v ew by simp
    have "length r < length w" using "6.IH"(2) qt k du v ew True rec by force
    with w show ?thesis by simp
  next
    case False
    then show ?thesis using "6.prems" qt k du v ew w by (auto split: if_splits)
  qed
qed simp_all

text \<open>One unit more does not change a parse that has twice the length of its text.\<close>

lemma parse_fuel_step:
  "(\<forall>s. 2 * length s < n \<longrightarrow> parse_value (Suc n) s = parse_value n s) \<and>
   (\<forall>acc s. 2 * length s + 1 < n \<longrightarrow> parse_elems (Suc n) acc s = parse_elems n acc s) \<and>
   (\<forall>acc s. 2 * length s + 1 < n \<longrightarrow> parse_members (Suc n) acc s = parse_members n acc s)"
proof (induction n)
  case 0
  show ?case by simp
next
  case (Suc n)
  have v: "parse_value (Suc n) s = parse_value n s" if "2 * length s < n" for s
    using Suc.IH that by blast
  have e: "parse_elems (Suc n) acc s = parse_elems n acc s" if "2 * length s + 1 < n" for acc s
    using Suc.IH that by blast
  have m: "parse_members (Suc n) acc s = parse_members n acc s" if "2 * length s + 1 < n" for acc s
    using Suc.IH that by blast
  have value_eq: "parse_value (Suc (Suc n)) s = parse_value (Suc n) s" if "2 * length s < Suc n" for s
  proof (cases "skip_ws s")
    case (Cons c t)
    note ct = this
    show ?thesis
    proof (cases "skip_ws t")
      case Nil
      then show ?thesis
        by (simp only: parse_value.simps ct list.case)
    next
      case (Cons d u)
      have "2 * length (d # u) + 1 < n"
        using skip_ws_Cons_less [OF ct] skip_ws_le [of t] Cons that by simp
      then show ?thesis
        by (simp only: parse_value.simps ct Cons list.case e m)
    qed
  next
    case Nil
    then show ?thesis by (simp only: parse_value.simps list.case)
  qed
  have elems: "parse_elems (Suc (Suc n)) acc s = parse_elems (Suc n) acc s" if "2 * length s + 1 < Suc n" for acc s
  proof (cases "parse_value n s")
    case None
    then show ?thesis using that by (simp only: parse_elems.simps(2) [of "Suc n" acc s] parse_elems.simps(2) [of n acc s] v option.case)
  next
    case (Some p)
    obtain x r where p: "p = (x, r)" by force
    note xr = Some [unfolded p]
    show ?thesis
    proof (cases "skip_ws r")
      case Nil
      then show ?thesis using that xr by (simp only: parse_elems.simps(2) [of "Suc n" acc s] parse_elems.simps(2) [of n acc s] v option.case prod.case list.case)
    next
      case (Cons d u)
      have "2 * length u + 1 < n"
        using parse_shorter(1) [OF xr] skip_ws_Cons_less [OF Cons] that by simp
      then show ?thesis using that xr Cons
        by (simp only: parse_elems.simps(2) [of "Suc n" acc s] parse_elems.simps(2) [of n acc s] v e option.case prod.case list.case)
    qed
  qed
  have members: "parse_members (Suc (Suc n)) acc s = parse_members (Suc n) acc s"
    if "2 * length s + 1 < Suc n" for acc s
  proof (cases "skip_ws s")
    case Nil
    then show ?thesis by (simp only: parse_members.simps(2) [of "Suc n" acc s] parse_members.simps(2) [of n acc s] list.case)
  next
    case (Cons q t)
    note qt = this
    show ?thesis
    proof (cases "string_body t")
      case None
      then show ?thesis by (simp only: parse_members.simps(2) [of "Suc n" acc s] parse_members.simps(2) [of n acc s] qt list.case option.case)
    next
      case (Some p)
      obtain k r where p: "p = (k, r)" by force
      note kr = Some [unfolded p]
      show ?thesis
      proof (cases "skip_ws r")
        case Nil
        then show ?thesis by (simp only: parse_members.simps(2) [of "Suc n" acc s] parse_members.simps(2) [of n acc s] qt kr list.case option.case prod.case)
      next
        case (Cons d u)
        note du = this
        have u: "2 * length u < n"
          using skip_ws_Cons_less [OF qt] string_body_shorter [OF kr] skip_ws_Cons_less [OF du] that by simp
        show ?thesis
        proof (cases "parse_value n u")
          case None
          then show ?thesis
            by (simp only: parse_members.simps(2) [of "Suc n" acc s] parse_members.simps(2) [of n acc s] qt kr du v [OF u] list.case option.case prod.case)
        next
          case (Some p')
          obtain x r' where p': "p' = (x, r')" by force
          note xr = Some [unfolded p']
          show ?thesis
          proof (cases "skip_ws r'")
            case Nil
            then show ?thesis
              by (simp only: parse_members.simps(2) [of "Suc n" acc s] parse_members.simps(2) [of n acc s] qt kr du v [OF u] xr list.case option.case prod.case)
          next
            case (Cons e' w)
            have w: "2 * length w + 1 < n"
              using u parse_shorter(1) [OF xr] skip_ws_Cons_less [OF Cons] by simp
            show ?thesis
              by (simp only: parse_members.simps(2) [of "Suc n" acc s] parse_members.simps(2) [of n acc s] qt kr du v [OF u] xr Cons m [OF w]
                  list.case option.case prod.case)
          qed
        qed
      qed
    qed
  qed
  show ?case using value_eq elems members by blast
qed

lemma parse_fuel_enough:
  "2 * length s < n \<Longrightarrow> n \<le> m \<Longrightarrow> parse_value m s = parse_value n s"
proof (induction m)
  case 0
  then show ?case by simp
next
  case (Suc m)
  show ?case
  proof (cases "n = Suc m")
    case False
    with Suc have "parse_value m s = parse_value n s" "2 * length s < m" by auto
    then show ?thesis using parse_fuel_step [of m] by metis
  qed simp
qed

section \<open>Reading back what was written\<close>

declare string_body.simps [simp del]

definition is_unit :: "int \<Rightarrow> bool" where
  "is_unit c \<longleftrightarrow> 0 \<le> c \<and> c < 65536"

lemma hex_value_digit: "0 \<le> d \<Longrightarrow> d < 16 \<Longrightarrow> hex_value (hex_digit d) = Some d"
  by (auto simp: hex_value_def hex_digit_def is_digit_def)

lemma hex4_sum:
  assumes "is_unit c"
  shows "4096 * (c div 4096 mod 16) + 256 * (c div 256 mod 16) + 16 * (c div 16 mod 16) + c mod 16 = c"
proof -
  have d2: "c div 256 = c div 16 div 16" and d3: "c div 4096 = c div 16 div 16 div 16"
    using zdiv_zmult2_eq [of 16 c 16] zdiv_zmult2_eq [of 16 c 256] zdiv_zmult2_eq [of 16 "c div 16" 16]
    by simp_all
  have "c div 4096 mod 16 = c div 4096" using assms by (auto simp: is_unit_def)
  moreover have "c = 16 * (c div 16) + c mod 16"
    "c div 16 = 16 * (c div 16 div 16) + c div 16 mod 16"
    "c div 16 div 16 = 16 * (c div 16 div 16 div 16) + c div 16 div 16 mod 16" by simp_all
  ultimately show ?thesis unfolding d2 d3 by linarith
qed

lemma string_body_hex4:
  "is_unit c \<Longrightarrow> string_body ([92, 117] @ hex4 c @ s) = map_option (\<lambda>(x, r). (c # x, r)) (string_body s)"
proof -
  assume "is_unit c"
  note sum = hex4_sum [OF this]
  show ?thesis
    by (simp add: hex4_def string_body.simps(2) [of 92] hex_value_digit sum)
qed

lemma string_body_unit:
  "is_unit c \<Longrightarrow> string_body (escape_unit c @ s) = map_option (\<lambda>(x, r). (c # x, r)) (string_body s)"
proof -
  assume u: "is_unit c"
  consider "c \<in> {34, 92, 8, 12, 10, 13, 9}" | "c \<notin> {34, 92, 8, 12, 10, 13, 9}" "c < 32"
    | "c \<notin> {34, 92, 8, 12, 10, 13, 9}" "\<not> c < 32" by blast
  then show ?thesis
  proof cases
    case 1
    then show ?thesis
      by (elim insertE emptyE)
         (simp_all add: escape_unit_def simple_escape_def string_body.simps(2) [of 92])
  next
    case 2
    then have "escape_unit c = [92, 117] @ hex4 c" by (simp add: escape_unit_def)
    then show ?thesis using string_body_hex4 [OF u] by simp
  next
    case 3
    then have "escape_unit c = [c]" by (simp add: escape_unit_def)
    then show ?thesis using 3 by (simp add: string_body.simps(2) [of c s])
  qed
qed

lemma high_escape_unit: "is_high c \<or> is_low c \<Longrightarrow> [c] = escape_unit c"
  by (auto simp: is_high_def is_low_def escape_unit_def)

lemma string_body_escape:
  "list_all is_unit s \<Longrightarrow> string_body (escape s @ 34 # r) = Some (s, r)"
proof (induction s rule: escape.induct)
  case 1
  show ?case by (simp add: string_body.simps)
next
  case (2 c)
  have "string_body (34 # r) = Some ([], r)" by (simp add: string_body.simps)
  then show ?case
    using 2 string_body_hex4 [of c "34 # r"] string_body_unit [of c "34 # r"] by simp
next
  case (3 c d s)
  have units: "is_unit c" "is_unit d" "list_all is_unit s" using "3.prems" by auto
  consider "is_high c" "is_low d" | "\<not> (is_high c \<and> is_low d)" "is_high c \<or> is_low c"
    | "\<not> is_high c" "\<not> is_low c" by blast
  then show ?case
  proof cases
    case 1
    then have IH: "string_body (escape s @ 34 # r) = Some (s, r)" using "3.IH"(1) units by simp
    have "string_body (escape_unit c @ escape_unit d @ escape s @ 34 # r) = Some (c # d # s, r)"
      using string_body_unit [OF units(1)] string_body_unit [OF units(2)] IH by simp
    then show ?thesis using 1 high_escape_unit [of c, symmetric] high_escape_unit [of d, symmetric] by simp
  next
    case 2
    then have "escape (c # d # s) = ([92, 117] @ hex4 c) @ escape (d # s)" by auto
    then show ?thesis
      using "3.IH"(2) [OF 2] units string_body_hex4 [OF units(1), of "escape (d # s) @ 34 # r"] by simp
  next
    case 3
    then have "escape (c # d # s) = escape_unit c @ escape (d # s)" by auto
    then show ?thesis
      using "3.IH"(3) 3 units string_body_unit [OF units(1), of "escape (d # s) @ 34 # r"] by simp
  qed
qed

lemma string_body_append_quote:
  "list_all is_unit s \<Longrightarrow> string_body (tl (quote s) @ r) = Some (s, r)"
  using string_body_escape [of s r] by (simp add: quote_def)

text \<open>
  Quoting is injective even with a text behind it, which makes every flat array of strings
  and numbers recoverable from its JSON.
\<close>

lemma quote_append_inj:
  assumes "list_all is_unit s" "list_all is_unit t" "quote s @ a = quote t @ b"
  shows "s = t \<and> a = b"
proof -
  from assms(3) have "tl (quote s) @ a = tl (quote t) @ b" by (simp add: quote_def)
  then have "string_body (tl (quote s) @ a) = string_body (tl (quote t) @ b)" by (rule arg_cong)
  then have "Some (s, a) = Some (t, b)"
    by (simp only: string_body_append_quote [OF assms(1)] string_body_append_quote [OF assms(2)])
  then show ?thesis by simp
qed

lemma quote_inj: "list_all is_unit s \<Longrightarrow> list_all is_unit t \<Longrightarrow> quote s = quote t \<longleftrightarrow> s = t"
  using quote_append_inj [of s t "[]" "[]"] by auto

text \<open>The atoms the program's cache keys are made of: strings, integers and \<open>null\<close>.\<close>

definition key_atom :: "jsv \<Rightarrow> bool" where
  "key_atom v = (case v of
      JNull \<Rightarrow> True | JStr s \<Rightarrow> list_all is_unit s
    | JNum n \<Rightarrow> (\<exists>i. n = num i \<and> \<bar>i\<bar> \<le> max_safe) | _ \<Rightarrow> False)"

definition atom_end :: "jstr \<Rightarrow> bool" where
  "atom_end s \<longleftrightarrow> s = [] \<or> (hd s \<noteq> 45 \<and> \<not> is_digit (hd s))"

lemma digits_append_inj:
  assumes "list_all is_digit d" "list_all is_digit e" "atom_end a" "atom_end b" "d @ a = e @ b"
  shows "d = e \<and> a = b"
proof -
  have "takeWhile is_digit (d @ a) = d"
    using assms(1,3) by (cases a) (auto simp: atom_end_def list_all_iff takeWhile_append2)
  moreover have "takeWhile is_digit (e @ b) = e"
    using assms(2,4) by (cases b) (auto simp: atom_end_def list_all_iff takeWhile_append2)
  ultimately show ?thesis using assms(5) by auto
qed

lemma int_str_append_inj:
  assumes "atom_end a" "atom_end b" "int_str i @ a = int_str j @ b"
  shows "i = j \<and> a = b"
proof -
  have dig: "list_all is_digit (digits_of n)" if "0 \<le> n" for n
    using digits_of_digits [OF that] by (simp add: list_all_iff)
  have no45: "digits_of n @ x \<noteq> 45 # y" if "0 \<le> n" for n x y
    using dig [OF that] by (cases "digits_of n") (auto simp: is_digit_def)
  consider "i < 0" "j < 0" | "0 \<le> i" "0 \<le> j" | "i < 0" "0 \<le> j" | "0 \<le> i" "j < 0" by linarith
  then show ?thesis
  proof cases
    case 1
    then show ?thesis
      using assms digits_append_inj [OF dig [of "- i"] dig [of "- j"] assms(1,2)]
      by (auto simp: int_str_def)
  next
    case 2
    then show ?thesis
      using assms digits_append_inj [OF dig [of i] dig [of j] assms(1,2)]
      by (auto simp: int_str_def)
  next
    case 3
    then show ?thesis using assms(3) no45 [of j b] by (auto simp: int_str_def dest: sym)
  next
    case 4
    then show ?thesis using assms(3) no45 [of i a] by (auto simp: int_str_def)
  qed
qed

lemma json_atom_append_inj:
  assumes "key_atom v" "key_atom w" "atom_end a" "atom_end b" "json_str v @ a = json_str w @ b"
  shows "v = w \<and> a = b"
proof -
  have num: "json_str (JNum (num i)) = int_str i" if "\<bar>i\<bar> \<le> max_safe" for i
    using that by (simp add: num_json_def num_str_num max_safe_def)
  have hd_int: "hd (int_str i @ x) = 45 \<or> is_digit (hd (int_str i @ x))" for i x
    using int_str_no_digit_sep [of "hd (int_str i)" i] by (simp add: hd_append)
  have hd_quote: "hd (quote s @ x) = 34" for s x by (simp add: quote_def)
  have hd_null: "hd (js ''null'' @ x) = 110" for x by (simp add: js_def)
  have qi: "quote s @ x \<noteq> int_str i @ y" for s x i y
    using hd_quote [of s x] hd_int [of i y] by (auto simp: is_digit_def dest!: arg_cong [of _ _ hd])
  have qn: "quote s @ x \<noteq> js ''null'' @ y" for s x y
    using hd_quote [of s x] hd_null [of y] by (auto dest!: arg_cong [of _ _ hd])
  have iN: "int_str i @ x \<noteq> js ''null'' @ y" for i x y
    using hd_int [of i x] hd_null [of y] by (auto simp: is_digit_def dest!: arg_cong [of _ _ hd])
  show ?thesis
    using assms(1,2)
  proof (cases v; cases w)
    fix s t assume "v = JStr s" "w = JStr t"
    then show ?thesis using assms quote_append_inj [of s t a b] by (simp add: key_atom_def)
  next
    fix m n assume "v = JNum m" "w = JNum n"
    then show ?thesis
      using assms int_str_append_inj [OF assms(3,4)] num by (auto simp: key_atom_def simp del: json_str.simps)
  next
    fix s n assume vw: "v = JStr s" "w = JNum n"
    then obtain j where "n = num j" "\<bar>j\<bar> \<le> max_safe" using assms(2) by (auto simp: key_atom_def)
    then have "quote s @ a = int_str j @ b" using assms(5) vw num by simp
    then show ?thesis using qi by blast
  next
    fix n t assume vw: "v = JNum n" "w = JStr t"
    then obtain j where "n = num j" "\<bar>j\<bar> \<le> max_safe" using assms(1) by (auto simp: key_atom_def)
    then have "quote t @ b = int_str j @ a" using assms(5) vw num by simp
    then show ?thesis using qi by blast
  next
    fix s assume "v = JStr s" "w = JNull"
    then show ?thesis using assms(5) qn by simp
  next
    fix s assume "v = JNull" "w = JStr s"
    then show ?thesis using assms(5) qn [of s b a] by simp
  next
    fix n assume vw: "v = JNum n" "w = JNull"
    then obtain j where "n = num j" "\<bar>j\<bar> \<le> max_safe" using assms(1) by (auto simp: key_atom_def)
    then show ?thesis using assms(5) vw num iN by simp
  next
    fix n assume vw: "v = JNull" "w = JNum n"
    then obtain j where "n = num j" "\<bar>j\<bar> \<le> max_safe" using assms(2) by (auto simp: key_atom_def)
    then show ?thesis using assms(5) vw num iN [of j b a] by simp
  qed (use assms(5) in \<open>auto simp: key_atom_def\<close>)
qed

lemma atom_end_sep [simp]: "atom_end (44 # s)" "atom_end (93 # s)" "atom_end []"
  by (auto simp: atom_end_def is_digit_def)

lemma join_Cons: "join sep (s # ss) = s @ (if ss = [] then [] else sep @ join sep ss)"
  by (cases ss) simp_all

lemma json_flat_append_inj:
  assumes "list_all key_atom vs" "list_all key_atom ws" "length vs = length ws"
    "join [44] (map json_str vs) @ 93 # a = join [44] (map json_str ws) @ 93 # b"
  shows "vs = ws"
  using assms
proof (induction vs arbitrary: ws)
  case Nil
  then show ?case by simp
next
  case (Cons v vs)
  then obtain w ws' where ws: "ws = w # ws'" by (cases ws) auto
  have eq: "json_str v @ (if vs = [] then 93 # a else 44 # join [44] (map json_str vs) @ 93 # a) =
      json_str w @ (if ws' = [] then 93 # b else 44 # join [44] (map json_str ws') @ 93 # b)"
    using Cons.prems(4) ws by (auto simp: join_Cons split: if_splits)
  have ends: "atom_end (if vs = [] then 93 # a else 44 # join [44] (map json_str vs) @ 93 # a)"
    "atom_end (if ws' = [] then 93 # b else 44 # join [44] (map json_str ws') @ 93 # b)" by auto
  have "v = w"
    using json_atom_append_inj [OF _ _ ends eq] Cons.prems(1,2) ws by simp
  moreover have "vs = ws'"
  proof (cases "vs = []")
    case True
    then show ?thesis using Cons.prems(3) ws by simp
  next
    case False
    then have "ws' \<noteq> []" using Cons.prems(3) ws by auto
    with False eq \<open>v = w\<close> have "join [44] (map json_str vs) @ 93 # a = join [44] (map json_str ws') @ 93 # b"
      by simp
    then show ?thesis using Cons.IH [of ws'] Cons.prems ws by simp
  qed
  ultimately show ?case using ws by simp
qed

text \<open>Two cache keys of the same length are equal only if they were made of the same fields.\<close>

lemma json_flat_inj:
  assumes "list_all key_atom vs" "list_all key_atom ws" "length vs = length ws"
  shows "json_str (JArr vs) = json_str (JArr ws) \<longleftrightarrow> vs = ws"
  using json_flat_append_inj [OF assms, of "[]" "[]"] by auto

end
