(* ===== verification/JsSet.thy ===== *)
theory JsSet
  imports JsValue
begin

text \<open>
  The interface of a JavaScript \<open>Set\<close> as its clients use it: a membership test, an insertion
  that keeps the order of first insertion, and the enumeration \<open>[...set]\<close>. The clients'
  common loop, "skip what was seen, else keep it and remember its key", is proved once here.
\<close>

locale ordered_set =
  fixes empty :: "'s"
    and add :: "'k \<Rightarrow> 's \<Rightarrow> 's"
    and has :: "'k \<Rightarrow> 's \<Rightarrow> bool"
    and to_list :: "'s \<Rightarrow> 'k list"
  assumes to_list_empty: "to_list empty = []"
    and to_list_add: "to_list (add k s) = (if has k s then to_list s else to_list s @ [k])"
    and has_iff: "has k s \<longleftrightarrow> k \<in> set (to_list s)"
begin

lemma has_empty: "\<not> has k empty"
  by (simp add: has_iff to_list_empty)

lemma has_add: "has k (add l s) \<longleftrightarrow> k = l \<or> has k s"
  by (auto simp: has_iff to_list_add)

lemma distinct_add: "distinct (to_list s) \<Longrightarrow> distinct (to_list (add k s))"
  by (auto simp: to_list_add has_iff)

lemma to_list_fold_add:
  "distinct (to_list s) \<Longrightarrow> distinct (to_list (fold add ks s)) \<and>
     set (to_list (fold add ks s)) = set (to_list s) \<union> set ks"
proof (induction ks arbitrary: s)
  case Nil
  then show ?case by simp
next
  case (Cons k ks)
  have "set (to_list (add k s)) = insert k (set (to_list s))"
    by (auto simp: to_list_add has_iff)
  with Cons.IH [OF distinct_add [OF Cons.prems, of k]] show ?case by simp
qed

lemma prefix_fold_add: "\<exists>t. to_list (fold add ks s) = to_list s @ t"
proof (induction ks arbitrary: s)
  case Nil
  show ?case by simp
next
  case (Cons k ks)
  have "\<exists>t. to_list (add k s) = to_list s @ t"
    by (simp add: to_list_add)
  with Cons.IH [of "add k s"] show ?case by (metis append.assoc fold_simps(2))
qed

end

section \<open>The list implementation\<close>

type_synonym 'k jset = "'k list"

definition set_has :: "'k \<Rightarrow> 'k jset \<Rightarrow> bool" where
  "set_has k s = (k \<in> set s)"

definition set_add :: "'k \<Rightarrow> 'k jset \<Rightarrow> 'k jset" where
  "set_add k s = (if set_has k s then s else s @ [k])"

definition set_of :: "'k list \<Rightarrow> 'k jset" where
  "set_of ks = fold set_add ks []"

interpretation jset: ordered_set "[]" set_add set_has "\<lambda>s. s"
  by unfold_locales (auto simp: set_add_def set_has_def)

lemma set_has_iff [simp]: "set_has k s \<longleftrightarrow> k \<in> set s"
  by (rule jset.has_iff)

lemma set_set_add [simp]: "set (set_add k s) = insert k (set s)"
  by (auto simp: set_add_def)

lemma distinct_set_of [simp]: "distinct (set_of ks)"
  using jset.to_list_fold_add [of "[]" ks] by (simp add: set_of_def)

lemma set_set_of [simp]: "set (set_of ks) = set ks"
  using jset.to_list_fold_add [of "[]" ks] by (simp add: set_of_def)

lemma fold_set_add_distinct:
  "distinct (s @ ks) \<Longrightarrow> fold set_add ks s = s @ ks"
  by (induction ks arbitrary: s) (auto simp: set_add_def)

lemma set_of_distinct: "distinct ks \<Longrightarrow> set_of ks = ks"
  by (simp add: set_of_def fold_set_add_distinct)

lemma set_of_idem [simp]: "set_of (set_of ks) = set_of ks"
  by (simp add: set_of_distinct)

section \<open>Keeping the first element of each key\<close>

text \<open>
  The loop \<open>if (seen.has(key)) skip; seen.add(key); keep\<close> over a list, for elements that pass
  a test.
\<close>

fun keep_first :: "('a \<Rightarrow> bool) \<Rightarrow> ('a \<Rightarrow> 'k) \<Rightarrow> 'k jset \<Rightarrow> 'a list \<Rightarrow> 'a list" where
  "keep_first p key seen [] = []"
| "keep_first p key seen (x # xs) =
     (if \<not> p x \<or> set_has (key x) seen then keep_first p key seen xs
      else x # keep_first p key (set_add (key x) seen) xs)"

lemma keep_first_distinct:
  "distinct (map key (keep_first p key seen xs)) \<and>
     key ` set (keep_first p key seen xs) \<inter> set seen = {}"
proof (induction xs arbitrary: seen)
  case Nil
  show ?case by simp
next
  case (Cons x xs)
  show ?case
  proof (cases "\<not> p x \<or> set_has (key x) seen")
    case True
    with Cons.IH [of seen] show ?thesis by simp
  next
    case False
    with Cons.IH [of "set_add (key x) seen"] show ?thesis by auto
  qed
qed

lemma keep_first_subset: "set (keep_first p key seen xs) \<subseteq> {x \<in> set xs. p x}"
  by (induction xs arbitrary: seen) auto

lemma keep_first_keys:
  "key ` set (keep_first p key seen xs) = key ` {x \<in> set xs. p x} - set seen"
proof (induction xs arbitrary: seen)
  case Nil
  show ?case by simp
next
  case (Cons x xs)
  show ?case
  proof (cases "\<not> p x \<or> set_has (key x) seen")
    case True
    with Cons.IH [of seen] show ?thesis by auto
  next
    case False
    with Cons.IH [of "set_add (key x) seen"] show ?thesis by auto
  qed
qed

lemma keep_first_sublist: "length (keep_first p key seen xs) \<le> length xs"
  by (induction xs arbitrary: seen) (auto intro: le_SucI)

end
