(* ===== verification/EntryConditions.thy ===== *)
theory EntryConditions
  imports JsJson JsSet "HOL-Library.List_Lexorder"
begin

text \<open>
  The stored conditions of a client-entry rule: \<open>pages/clientEntrySplitConditions.ts\<close> (the
  conversion of a rule into a fixed split), \<open>pages/clientEntryMatchAll.ts\<close> and
  \<open>pages/entryUserEmails.ts\<close> (the configured e-mail list and its download name).
\<close>

section \<open>Decoding\<close>

text \<open>
  A condition list may arrive as JSON text, and as text of text. \<open>decode_json n\<close> is the loop
  \<open>for (attempt = 0; attempt < n && typeof parsed === 'string'; ...)\<close>; \<open>None\<close> is a parse error.
\<close>

fun decode_json :: "nat \<Rightarrow> jsv \<Rightarrow> jsv option" where
  "decode_json 0 v = Some v"
| "decode_json (Suc n) (JStr s) = (case json_parse s of None \<Rightarrow> None | Some v \<Rightarrow> decode_json n v)"
| "decode_json (Suc n) v = Some v"

definition decodeConditions :: "jsv \<Rightarrow> jsv list option" where
  "decodeConditions value =
     (case decode_json 3 value of
        None \<Rightarrow> None
      | Some parsed \<Rightarrow>
          if \<not> is_array parsed \<or> list_ex (\<lambda>item. \<not> is_plain item) (elems parsed) then None
          else Some (elems parsed))"

text \<open>\<open>String(v || '').trim().toLowerCase()\<close>.\<close>

definition clean_str :: "jsv \<Rightarrow> jstr" where
  "clean_str v = lower (trim (to_str (jor v (JStr []))))"

record ua_condition =
  ua_operator :: jstr
  ua_values :: "jstr list option"

definition ua_empty_operator :: "jstr \<Rightarrow> jstr" where
  "ua_empty_operator operator =
     (let a = (if operator = js ''is_empty'' then js ''empty'' else operator)
      in if a = js ''is_not_empty'' then js ''not_empty'' else a)"

definition str_payload :: "jsv \<Rightarrow> jstr" where
  "str_payload v = (case v of JStr s \<Rightarrow> s | _ \<Rightarrow> [])"

definition blank_value :: "jsv \<Rightarrow> bool" where
  "blank_value v = (\<not> is_string v \<or> trim (str_payload v) = [])"

definition normalizeUA :: "jsv \<Rightarrow> ua_condition option" where
  "normalizeUA condition =
     (if clean_str (jprop condition (js ''field'')) \<noteq> js ''ua'' then None
      else
        let operator = ua_empty_operator (clean_str (jprop condition (js ''operator'')));
            values = jprop condition (js ''values'')
        in if operator = js ''empty'' \<or> operator = js ''not_empty'' then
             Some \<lparr>ua_operator = operator, ua_values = None\<rparr>
           else if operator \<notin> {js ''contains_any'', js ''excludes_any''} \<or> \<not> is_array values
               \<or> elems values = [] then None
           else if list_ex blank_value (elems values) then None
           else Some \<lparr>ua_operator = operator,
                  ua_values = Some (map (\<lambda>v. trim (str_payload v)) (elems values))\<rparr>)"

section \<open>The user-id range of a split\<close>

definition range_bound :: "jsv \<Rightarrow> bool" where
  "range_bound v =
     ((case v of JNum _ \<Rightarrow> True | JStr s \<Rightarrow> all_digits (trim s) | _ \<Rightarrow> False) \<and> positive_id (to_num v))"

definition is_id_between :: "jsv \<Rightarrow> bool" where
  "is_id_between condition =
     (clean_str (jprop condition (js ''field'')) = js ''user_id'' \<and>
      clean_str (jprop condition (js ''operator'')) = js ''between'')"

definition is_ua_condition :: "jsv \<Rightarrow> bool" where
  "is_ua_condition condition =
     (clean_str (jprop condition (js ''field'')) = js ''ua'' \<and> normalizeUA condition \<noteq> None)"

definition id_range :: "jsv \<Rightarrow> (int \<times> int) option" where
  "id_range condition =
     (let lo = jprop condition (js ''min''); hi = jprop condition (js ''max'')
      in if \<not> (range_bound lo \<and> range_bound hi) then None
         else if num_lt (to_num hi) (to_num lo) then None
         else Some (int_of (to_num lo), int_of (to_num hi)))"

text \<open>The loop over the conditions: \<open>None\<close> is the early \<open>return undefined\<close>.\<close>

fun range_loop :: "(int \<times> int) option \<Rightarrow> jsv list \<Rightarrow> (int \<times> int) option option" where
  "range_loop rg [] = Some rg"
| "range_loop rg (c # cs) =
     (if is_ua_condition c then range_loop rg cs
      else if \<not> is_id_between c \<or> rg \<noteq> None then None
      else (case id_range c of None \<Rightarrow> None | Some r \<Rightarrow> range_loop (Some r) cs))"

definition splitUserIDRange :: "jsv \<Rightarrow> (int \<times> int) option" where
  "splitUserIDRange value =
     (case decodeConditions value of
        None \<Rightarrow> None
      | Some [] \<Rightarrow> None
      | Some (c # cs) \<Rightarrow> Option.bind (range_loop None (c # cs)) (\<lambda>r. r))"

definition splitUAConditions :: "jsv \<Rightarrow> ua_condition list" where
  "splitUAConditions value =
     List.map_filter normalizeUA (case decodeConditions value of None \<Rightarrow> [] | Some cs \<Rightarrow> cs)"

definition requiresMatchAllConfirmation :: "bool \<Rightarrow> 'a list \<Rightarrow> 'a list \<Rightarrow> bool" where
  "requiresMatchAllConfirmation isNew before after =
     (length after = 0 \<and> (isNew \<or> length before > 0))"

subsection \<open>Facts\<close>

lemma decode_json_not_string: "\<not> is_string v \<Longrightarrow> decode_json n v = Some v"
  by (cases n; cases v) simp_all

lemma decodeConditions_plain: "decodeConditions v = Some cs \<Longrightarrow> c \<in> set cs \<Longrightarrow> is_plain c"
  by (auto simp: decodeConditions_def list_ex_iff split: option.splits if_splits)

lemma normalizeUA_field:
  "normalizeUA c = Some u \<Longrightarrow> clean_str (jprop c (js ''field'')) = js ''ua''"
  by (auto simp: normalizeUA_def split: if_splits)

lemma normalizeUA_operator:
  "normalizeUA c = Some u \<Longrightarrow>
     ua_operator u \<in> {js ''empty'', js ''not_empty'', js ''contains_any'', js ''excludes_any''}"
  by (auto simp: normalizeUA_def Let_def split: if_splits)

lemma normalizeUA_values:
  "normalizeUA c = Some u \<Longrightarrow>
     (case ua_values u of
        None \<Rightarrow> ua_operator u \<in> {js ''empty'', js ''not_empty''}
      | Some vs \<Rightarrow> ua_operator u \<in> {js ''contains_any'', js ''excludes_any''} \<and> vs \<noteq> [] \<and>
          (\<forall>v \<in> set vs. v \<noteq> [] \<and> trim v = v))"
  by (auto simp: normalizeUA_def Let_def list_ex_iff blank_value_def split: if_splits)

lemma range_bound_positive: "range_bound v \<Longrightarrow> \<exists>i. to_num v = num i \<and> 0 < i \<and> i \<le> max_safe"
  by (auto simp: range_bound_def positive_id_iff)

lemma id_range_bounds: "id_range c = Some (a, b) \<Longrightarrow> 0 < a \<and> a \<le> b \<and> b \<le> max_safe"
  by (auto simp: id_range_def Let_def split: if_splits dest!: range_bound_positive)

lemma ua_not_id_between: "is_ua_condition c \<Longrightarrow> \<not> is_id_between c"
  by (auto simp: is_ua_condition_def is_id_between_def)

lemma range_loop_ua: "list_all is_ua_condition cs \<Longrightarrow> range_loop rg cs = Some rg"
  by (induction cs) auto

lemma range_loop_filled:
  "range_loop (Some r) cs = Some q \<longleftrightarrow> list_all is_ua_condition cs \<and> q = Some r"
  by (induction cs) auto

lemma range_loop_Some_iff:
  "range_loop None cs = Some (Some r) \<longleftrightarrow>
     (\<exists>xs c ys. cs = xs @ c # ys \<and> list_all is_ua_condition (xs @ ys) \<and>
        \<not> is_ua_condition c \<and> is_id_between c \<and> id_range c = Some r)"
  (is "?l cs \<longleftrightarrow> ?r cs")
proof (induction cs)
  case Nil
  show ?case by simp
next
  case (Cons d ds)
  show ?case
  proof (cases "is_ua_condition d")
    case True
    have "?r (d # ds) \<longleftrightarrow> ?r ds"
    proof
      assume "?r (d # ds)"
      then obtain xs c ys where h: "d # ds = xs @ c # ys" "list_all is_ua_condition (xs @ ys)"
        "\<not> is_ua_condition c" "is_id_between c" "id_range c = Some r" by blast
      with True obtain xs' where "xs = d # xs'" by (cases xs) auto
      with h show "?r ds" by auto
    next
      assume "?r ds"
      then obtain xs c ys where "ds = xs @ c # ys" "list_all is_ua_condition (xs @ ys)"
        "\<not> is_ua_condition c" "is_id_between c" "id_range c = Some r" by blast
      with True show "?r (d # ds)"
        by (intro exI [of _ "d # xs"] exI [of _ c] exI [of _ ys]) auto
    qed
    with True Cons.IH show ?thesis by simp
  next
    case False
    have "?r (d # ds) \<longleftrightarrow> list_all is_ua_condition ds \<and> is_id_between d \<and> id_range d = Some r"
    proof
      assume "?r (d # ds)"
      then obtain xs c ys where h: "d # ds = xs @ c # ys" "list_all is_ua_condition (xs @ ys)"
        "is_id_between c" "id_range c = Some r" by blast
      with False have "xs = []" by (cases xs) auto
      with h show "list_all is_ua_condition ds \<and> is_id_between d \<and> id_range d = Some r" by auto
    next
      assume "list_all is_ua_condition ds \<and> is_id_between d \<and> id_range d = Some r"
      with False show "?r (d # ds)"
        by (intro exI [of _ "[]"] exI [of _ d] exI [of _ ds]) auto
    qed
    with False show ?thesis
      by (auto simp: range_loop_filled split: option.splits)
  qed
qed

text \<open>A normalised condition as the JSON object the server stores.\<close>

definition ua_json :: "ua_condition \<Rightarrow> jsv" where
  "ua_json u =
     JObj ([(js ''field'', JStr (js ''ua'')), (js ''operator'', JStr (ua_operator u))] @
       (case ua_values u of None \<Rightarrow> [] | Some vs \<Rightarrow> [(js ''values'', JArr (map JStr vs))]))"

lemma clean_str_lit:
  "clean_str (JStr (js ''ua'')) = js ''ua''"
  "clean_str (JStr (js ''empty'')) = js ''empty''"
  "clean_str (JStr (js ''not_empty'')) = js ''not_empty''"
  "clean_str (JStr (js ''contains_any'')) = js ''contains_any''"
  "clean_str (JStr (js ''excludes_any'')) = js ''excludes_any''"
  by code_simp+

lemma ua_json_fields:
  "jprop (ua_json u) (js ''field'') = JStr (js ''ua'')"
  "jprop (ua_json u) (js ''operator'') = JStr (ua_operator u)"
  "jprop (ua_json u) (js ''values'') =
     (case ua_values u of None \<Rightarrow> JUndef | Some vs \<Rightarrow> JArr (map JStr vs))"
  by (auto simp: ua_json_def oget_def split: option.splits)

lemma normalizeUA_ua_json: "normalizeUA c = Some u \<Longrightarrow> normalizeUA (ua_json u) = Some u"
proof -
  assume c: "normalizeUA c = Some u"
  note op = normalizeUA_operator [OF c] and vals = normalizeUA_values [OF c]
  show ?thesis
  proof (cases "ua_values u")
    case None
    then have "ua_operator u = js ''empty'' \<or> ua_operator u = js ''not_empty''"
      using vals by auto
    then show ?thesis using None
      by (cases u) (auto simp: normalizeUA_def ua_json_fields clean_str_lit ua_empty_operator_def)
  next
    case (Some vs)
    then have o': "ua_operator u = js ''contains_any'' \<or> ua_operator u = js ''excludes_any''"
      and vs: "vs \<noteq> []" "\<forall>v \<in> set vs. v \<noteq> [] \<and> trim v = v" using vals by auto
    have "map (\<lambda>v. trim (str_payload v)) (map JStr vs) = vs"
      using vs(2) by (simp add: str_payload_def map_idI)
    then show ?thesis using Some o' vs
      by (cases u) (auto simp: normalizeUA_def ua_json_fields clean_str_lit ua_empty_operator_def
          list_ex_iff blank_value_def str_payload_def map_idI)
  qed
qed

lemma splitUAConditions_in:
  "u \<in> set (splitUAConditions value) \<Longrightarrow> \<exists>c. normalizeUA c = Some u"
  by (auto simp: splitUAConditions_def List.map_filter_def)

lemma map_filter_ua_json:
  "\<forall>u \<in> set us. \<exists>c. normalizeUA c = Some u \<Longrightarrow> List.map_filter normalizeUA (map ua_json us) = us"
  by (induction us) (auto simp: List.map_filter_simps dest: normalizeUA_ua_json)

section \<open>Properties\<close>

text \<open>A rule converts to an id range exactly when its conditions decode and consist of one
  \<open>user_id between\<close> condition with valid bounds and otherwise of valid UA conditions; the range
  is then ordered and made of positive safe integers.\<close>

theorem splitUserIDRange_spec:
  "splitUserIDRange value = Some (a, b) \<longleftrightarrow>
     (\<exists>xs c ys. decodeConditions value = Some (xs @ c # ys) \<and> list_all is_ua_condition (xs @ ys) \<and>
        is_id_between c \<and> id_range c = Some (a, b) \<and> 0 < a \<and> a \<le> b \<and> b \<le> max_safe)"
  (is "?l \<longleftrightarrow> ?r")
proof
  assume ?l
  then obtain cs where "decodeConditions value = Some cs" "range_loop None cs = Some (Some (a, b))"
    by (auto simp: splitUserIDRange_def bind_eq_Some_conv split: option.splits list.splits)
  then show ?r using id_range_bounds by (fastforce simp: range_loop_Some_iff)
next
  assume ?r
  then obtain xs c ys where h: "decodeConditions value = Some (xs @ c # ys)"
    "list_all is_ua_condition (xs @ ys)" "is_id_between c" "id_range c = Some (a, b)" by blast
  then have "range_loop None (xs @ c # ys) = Some (Some (a, b))"
    using ua_not_id_between by (auto simp: range_loop_Some_iff)
  with h(1) show ?l
    by (auto simp: splitUserIDRange_def split: list.splits)
qed

text \<open>The UA conditions of a rule are a fixed point: written back as JSON conditions and read
  again they are unchanged, so a converted rule keeps its per-request guard.\<close>

theorem splitUAConditions_fixpoint:
  "splitUAConditions (JArr (map ua_json (splitUAConditions value))) = splitUAConditions value"
proof -
  let ?us = "splitUAConditions value"
  have "decodeConditions (JArr (map ua_json ?us)) = Some (map ua_json ?us)"
    by (simp add: decodeConditions_def decode_json_not_string list_ex_iff ua_json_def is_plain_def)
  then have "splitUAConditions (JArr (map ua_json ?us)) = List.map_filter normalizeUA (map ua_json ?us)"
    by (simp add: splitUAConditions_def)
  then show ?thesis
    using map_filter_ua_json [of ?us] splitUAConditions_in by auto
qed

end
