(* ===== verification/Texts.thy ===== *)
theory Texts
  imports JsString
begin

text \<open>
  The display texts outside ASCII, as UTF-16 code units. The comment of each gives its meaning.
\<close>

text \<open>rule #\<close>

definition txt_rule_hash :: jstr where
  "txt_rule_hash =
    [35268, 21017, 32, 35]"

text \<open>location unknown\<close>

definition txt_location_unknown :: jstr where
  "txt_location_unknown =
    [20301, 32622, 26410, 30693]"

text \<open>the node has not reported the user's address yet\<close>

definition txt_not_reported :: jstr where
  "txt_not_reported =
    [33410, 28857, 23578, 26410, 19978, 25253, 29992, 25143, 22320, 22336]"

text \<open>an old backend considers the location stale\<close>

definition txt_location_stale :: jstr where
  "txt_location_stale =
    [26087, 29256, 21518, 31471, 23558, 20301, 32622, 21028, 20026, 36807, 26399, 65292,
     35831, 26356, 26032, 21518, 31471]"

text \<open>abnormal report time\<close>

definition txt_invalid_timestamp :: jstr where
  "txt_invalid_timestamp =
    [20301, 32622, 19978, 25253, 26102, 38388, 24322, 24120]"

text \<open>the offline location database is not ready\<close>

definition txt_database_unavailable :: jstr where
  "txt_database_unavailable =
    [31163, 32447, 23450, 20301, 24211, 26410, 23601, 32490]"

text \<open>no region matched\<close>

definition txt_not_found :: jstr where
  "txt_not_found =
    [26410, 21305, 37197, 21040, 22320, 21306]"

text \<open>address format not recognised\<close>

definition txt_invalid_ip :: jstr where
  "txt_invalid_ip =
    [22320, 22336, 26684, 24335, 26080, 27861, 35782, 21035]"

text \<open>private or reserved address\<close>

definition txt_non_public_ip :: jstr where
  "txt_non_public_ip =
    [20869, 32593, 25110, 20445, 30041, 22320, 22336]"

text \<open>country known, province unknown\<close>

definition txt_province_unknown :: jstr where
  "txt_province_unknown =
    [24050, 35782, 21035, 22269, 23478, 32, 47, 32, 22320, 21306, 65292, 30465, 20221,
     26410, 30693]"

text \<open>province known, city unknown\<close>

definition txt_city_note_unknown :: jstr where
  "txt_city_note_unknown =
    [24050, 35782, 21035, 30465, 20221, 65292, 22478, 24066, 26410, 30693]"

text \<open>city unknown\<close>

definition txt_city_unknown :: jstr where
  "txt_city_unknown =
    [22478, 24066, 26410, 30693]"

text \<open>separator, a middle dot between spaces\<close>

definition txt_middle_dot :: jstr where
  "txt_middle_dot =
    [32, 183, 32]"

text \<open>fixed group\<close>

definition txt_fixed_group :: jstr where
  "txt_fixed_group =
    [22266, 23450, 20998, 32452]"

text \<open>plain rule\<close>

definition txt_plain_rule :: jstr where
  "txt_plain_rule =
    [26222, 36890, 35268, 21017]"

text \<open>all subgroups\<close>

definition txt_all_subgroups :: jstr where
  "txt_all_subgroups =
    [32, 183, 32, 20840, 37096, 23376, 32452]"

text \<open>(disabled)\<close>

definition txt_disabled :: jstr where
  "txt_disabled =
    [65288, 24050, 20572, 29992, 65289]"

text \<open>subgroup\<close>

definition txt_subgroup :: jstr where
  "txt_subgroup =
    [23376, 32452, 32, 183, 32]"

text \<open>fixed subgroup\<close>

definition txt_fixed_subgroup :: jstr where
  "txt_fixed_subgroup =
    [22266, 23450, 23376, 32452]"

text \<open>[entry allocation only]\<close>

definition txt_entry_only :: jstr where
  "txt_entry_only =
    [91, 20165, 20837, 21475, 20998, 37197, 93]"

text \<open>resolve setting to be unified\<close>

definition txt_resolve_pending :: jstr where
  "txt_resolve_pending =
    [35299, 26512, 35774, 32622, 24453, 32479, 19968]"

text \<open>resolved to IP\<close>

definition txt_resolve_ip :: jstr where
  "txt_resolve_ip =
    [35299, 26512, 20026, 32, 73, 80]"

text \<open>domain / IP delivered as is\<close>

definition txt_resolve_direct :: jstr where
  "txt_resolve_direct =
    [30452, 25509, 19979, 21457, 22495, 21517, 32, 47, 32, 73, 80]"

text \<open>seconds\<close>

definition txt_seconds :: jstr where
  "txt_seconds =
    [32, 31186]"

text \<open>minutes\<close>

definition txt_minutes :: jstr where
  "txt_minutes =
    [32, 20998, 38047]"

text \<open>hours\<close>

definition txt_hours :: jstr where
  "txt_hours =
    [32, 23567, 26102]"

text \<open>days\<close>

definition txt_days :: jstr where
  "txt_days =
    [32, 22825]"

text \<open>an em dash\<close>

definition txt_dash :: jstr where
  "txt_dash =
    [8212]"

text \<open>304, no new body delivered\<close>

definition txt_304 :: jstr where
  "txt_304 =
    [51, 48, 52, 32, 26410, 19979, 21457, 26032, 27491, 25991]"

text \<open>not an effective delivery\<close>

definition txt_not_delivery :: jstr where
  "txt_not_delivery =
    [32, 183, 32, 38750, 26377, 25928, 19979, 21457]"

text \<open>response not complete\<close>

definition txt_incomplete :: jstr where
  "txt_incomplete =
    [21709, 24212, 26410, 23436, 25104]"

text \<open>written, evidence partly covers\<close>

definition txt_partial :: jstr where
  "txt_partial =
    [26381, 21153, 31471, 20889, 23436, 32, 183, 32, 35777, 25454, 37096, 20998, 35206,
     30422]"

text \<open>no complete node evidence\<close>

definition txt_no_evidence :: jstr where
  "txt_no_evidence =
    [26080, 23436, 25972, 33410, 28857, 19979, 21457, 35777, 25454]"

text \<open>written by the server\<close>

definition txt_written :: jstr where
  "txt_written =
    [26381, 21153, 31471, 20889, 20837, 25104, 21151]"

text \<open>the relay's default\<close>

definition txt_effort_auto :: jstr where
  "txt_effort_auto =
    [20013, 36716, 40664, 35748]"

text \<open>no reasoning\<close>

definition txt_effort_none :: jstr where
  "txt_effort_none =
    [19981, 21551, 29992, 25512, 29702]"

text \<open>minimal\<close>

definition txt_effort_minimal :: jstr where
  "txt_effort_minimal =
    [26497, 20302]"

text \<open>low\<close>

definition txt_effort_low :: jstr where
  "txt_effort_low =
    [20302]"

text \<open>medium\<close>

definition txt_effort_medium :: jstr where
  "txt_effort_medium =
    [20013]"

text \<open>high\<close>

definition txt_effort_high :: jstr where
  "txt_effort_high =
    [39640]"

text \<open>extra high\<close>

definition txt_effort_xhigh :: jstr where
  "txt_effort_xhigh =
    [26497, 39640]"

text \<open>as in the settings, opening parenthesis\<close>

definition txt_follow_open :: jstr where
  "txt_follow_open =
    [36319, 38543, 35774, 32622, 65288]"

text \<open>closing parenthesis\<close>

definition txt_paren_close :: jstr where
  "txt_paren_close =
    [65289]"

text \<open>the yuan sign\<close>

definition txt_yuan :: jstr where
  "txt_yuan =
    [165]"

end
