(* ===== verification/EntryEmails.thy ===== *)
theory EntryEmails
  imports EntryConditions Texts
begin

text \<open>
  \<open>pages/entryUserEmails.ts\<close>: the snapshot of the e-mail addresses configured in a rule, taken for
  display and export, and the name of the exported file.
\<close>

datatype email_error =
    InvalidPolicyID
  | BadPolicies
  | RuleMissing
  | RuleDuplicate
  | NotStandardRule
  | BadConditions
  | NoEmailCondition
  | BadEmailList
  | InvalidEmail

section \<open>Conditions\<close>

text \<open>The decoding loop; \<open>Inr None\<close> is the early \<open>return []\<close> on blank text.\<close>

fun configured_loop :: "nat \<Rightarrow> jsv \<Rightarrow> email_error + jsv option" where
  "configured_loop 0 v = Inr (Some v)"
| "configured_loop (Suc n) (JStr s) =
     (if trim s = [] then Inr None
      else case json_parse s of None \<Rightarrow> Inl BadConditions | Some v \<Rightarrow> configured_loop n v)"
| "configured_loop (Suc n) v = Inr (Some v)"

definition configuredConditions :: "jsv \<Rightarrow> email_error + jsv list" where
  "configuredConditions value =
     ebind (configured_loop 3 value) (\<lambda>r. case r of
        None \<Rightarrow> Inr []
      | Some current \<Rightarrow>
          if nullish current then Inr []
          else if \<not> is_array current \<or> list_ex (\<lambda>item. \<not> is_plain item) (elems current) then
            Inl BadConditions
          else Inr (elems current))"

definition isStandardRule :: "jsv \<Rightarrow> bool" where
  "isStandardRule rule =
     (jprop rule (js ''__row_kind'') \<noteq> JStr (js ''split_group'') \<and>
      lower (trim (to_str (jor (jprop rule (js ''mode'')) (JStr (js ''standard''))))) = js ''standard'')"

definition is_email_condition :: "jsv \<Rightarrow> bool" where
  "is_email_condition c =
     (jprop c (js ''field'') = JStr (js ''email'') \<and> jprop c (js ''operator'') = JStr (js ''in''))"

definition emailConditions :: "jsv \<Rightarrow> email_error + jsv list" where
  "emailConditions rule =
     ebind (configuredConditions (jprop rule (js ''conditions''))) (\<lambda>cs. Inr (filter is_email_condition cs))"

definition hasConfiguredEmailCondition :: "jsv \<Rightarrow> bool" where
  "hasConfiguredEmailCondition rule =
     (if \<not> isStandardRule rule then False
      else case emailConditions rule of Inl _ \<Rightarrow> False | Inr cs \<Rightarrow> length cs > 0)"

section \<open>The snapshot\<close>

record email_snapshot =
  snap_policyID :: jnum
  snap_name :: jstr
  snap_conditionCount :: nat
  snap_emails :: "jstr list"
  snap_text :: jstr

text \<open>\<open>[\u0000-\u001f\u007f-\u009f\u2028\u2029]\<close>.\<close>

definition is_control :: "int \<Rightarrow> bool" where
  "is_control c \<longleftrightarrow> (0 \<le> c \<and> c \<le> 31) \<or> (127 \<le> c \<and> c \<le> 159) \<or> c = 8232 \<or> c = 8233"

definition add_email :: "jstr jset \<Rightarrow> jsv \<Rightarrow> email_error + jstr jset" where
  "add_email emails raw =
     (if \<not> is_string raw \<or> list_ex is_control (str_payload raw) then Inl InvalidEmail
      else let email = lower (trim (str_payload raw))
           in if email = [] then Inr emails
              else if 64 \<notin> set email then Inl InvalidEmail
              else Inr (set_add email emails))"

definition add_condition :: "jstr jset \<Rightarrow> jsv \<Rightarrow> email_error + jstr jset" where
  "add_condition emails condition =
     (let values = jprop condition (js ''values'')
      in if \<not> is_array values then Inl BadEmailList else efold add_email emails (elems values))"

definition rule_matches :: "jnum \<Rightarrow> jsv \<Rightarrow> bool" where
  "rule_matches policyID rule = num_eq (to_num (jprop rule (js ''id''))) policyID"

definition entryUserEmailSnapshot :: "jsv \<Rightarrow> jnum \<Rightarrow> email_error + email_snapshot" where
  "entryUserEmailSnapshot policies policyID =
     (if \<not> positive_id policyID then Inl InvalidPolicyID
      else if \<not> is_array policies then Inl BadPolicies
      else case filter (rule_matches policyID) (elems policies) of
        [] \<Rightarrow> Inl RuleMissing
      | rule # rest \<Rightarrow>
          if rest \<noteq> [] then Inl RuleDuplicate
          else if \<not> isStandardRule rule then Inl NotStandardRule
          else ebind (emailConditions rule) (\<lambda>conditions.
            if length conditions = 0 then Inl NoEmailCondition
            else ebind (efold add_condition [] conditions) (\<lambda>emails.
              let sorted = sort emails;
                  name = trim (to_str (jor (jprop rule (js ''name'')) (JStr [])))
              in Inr \<lparr>snap_policyID = policyID,
                   snap_name = (if name = [] then txt_rule_hash @ num_str policyID else name),
                   snap_conditionCount = length conditions,
                   snap_emails = sorted,
                   snap_text = join [10] sorted\<rparr>)))"

section \<open>The file name\<close>

definition unsafe_unit :: "int \<Rightarrow> bool" where
  "unsafe_unit c \<longleftrightarrow> (0 \<le> c \<and> c \<le> 31) \<or> (127 \<le> c \<and> c \<le> 159) \<or> (8203 \<le> c \<and> c \<le> 8207) \<or>
     (8232 \<le> c \<and> c \<le> 8238) \<or> (8294 \<le> c \<and> c \<le> 8297) \<or>
     c \<in> {47, 92, 58, 42, 63, 34, 60, 62, 124}"

definition trailing_unit :: "int \<Rightarrow> bool" where
  "trailing_unit c \<longleftrightarrow> c \<in> {46, 32, 95, 45}"

definition safe_name :: "jstr \<Rightarrow> jstr" where
  "safe_name name =
     (let s1 = map (\<lambda>c. if unsafe_unit c then 95 else c) (trim name);
          s2 = collapse_runs is_space 45 False s1;
          s3 = collapse_runs (\<lambda>c. c = 95) 95 False s2;
          s4 = concat (take 60 (code_points s3));
          s5 = rev (dropWhile trailing_unit (rev s4))
      in if s5 = [] then js ''rule'' else s5)"

definition entryUserEmailsFilename :: "jnum \<Rightarrow> jstr \<Rightarrow> email_error + jstr" where
  "entryUserEmailsFilename policyID name =
     (if \<not> positive_id policyID then Inl InvalidPolicyID
      else Inr (js ''entry-'' @ num_str policyID @ js ''-'' @ safe_name name @ js ''-emails.txt''))"

section \<open>Facts\<close>

lemma is_control_lower [simp]: "is_control (lower_unit c) \<longleftrightarrow> is_control c"
  by (auto simp: is_control_def lower_unit_def)

lemma email_clean:
  assumes "list_all (\<lambda>c. \<not> is_control c) s" "c \<in> set (lower (trim s))"
  shows "\<not> is_control c"
proof -
  obtain d where "c = lower_unit d" "d \<in> set (trim s)"
    using assms(2) by (auto simp: lower_def)
  then show ?thesis
    using assms(1) trim_subset [of s] by (auto simp: list_all_iff)
qed

text \<open>An address as the snapshot lists it: normalised, with an at sign, on one line.\<close>

definition clean_email :: "jstr \<Rightarrow> bool" where
  "clean_email e \<longleftrightarrow> e \<noteq> [] \<and> lower e = e \<and> trim e = e \<and> 64 \<in> set e \<and> list_all (\<lambda>c. \<not> is_control c) e"

lemma clean_email_no_newline: "clean_email e \<Longrightarrow> 10 \<notin> set e"
  by (auto simp: clean_email_def list_all_iff is_control_def)

text \<open>The addresses a configured value contributes.\<close>

definition value_emails :: "jsv list \<Rightarrow> jstr set" where
  "value_emails vs = {lower (trim (str_payload v)) | v. v \<in> set vs} - {[]}"

lemma add_email_Inr:
  assumes "add_email s raw = Inr s'"
  shows "set s' = set s \<union> value_emails [raw] \<and> (distinct s \<longrightarrow> distinct s') \<and>
    (list_all clean_email s \<longrightarrow> list_all clean_email s')"
proof -
  let ?e = "lower (trim (str_payload raw))"
  have raw: "is_string raw" "list_all (\<lambda>c. \<not> is_control c) (str_payload raw)"
    using assms by (auto simp: add_email_def list_ex_iff list_all_iff split: if_splits)
  show ?thesis
  proof (cases "?e = []")
    case True
    then show ?thesis using assms raw by (auto simp: add_email_def value_emails_def split: if_splits)
  next
    case False
    then have s': "s' = set_add ?e s" and at: "64 \<in> set ?e"
      using assms raw by (auto simp: add_email_def Let_def split: if_splits)
    have "clean_email ?e"
      using False at email_clean [OF raw(2)] by (auto simp: clean_email_def list_all_iff trim_lower)
    then show ?thesis using False s' jset.distinct_add [of s ?e]
      by (auto simp: value_emails_def list_all_iff)
  qed
qed

lemma efold_add_email:
  "efold add_email s vs = Inr s' \<Longrightarrow> set s' = set s \<union> value_emails vs \<and>
     (distinct s \<longrightarrow> distinct s') \<and> (list_all clean_email s \<longrightarrow> list_all clean_email s')"
proof (induction vs arbitrary: s)
  case Nil
  then show ?case by (simp add: value_emails_def)
next
  case (Cons v vs)
  then obtain t where t: "add_email s v = Inr t" "efold add_email t vs = Inr s'"
    by (auto simp: ebind_Inr_iff)
  have "value_emails (v # vs) = value_emails [v] \<union> value_emails vs"
    by (auto simp: value_emails_def)
  then show ?case using add_email_Inr [OF t(1)] Cons.IH [OF t(2)] by auto
qed

definition condition_values :: "jsv \<Rightarrow> jsv list" where
  "condition_values c = elems (jprop c (js ''values''))"

lemma efold_add_condition:
  "efold add_condition s cs = Inr s' \<Longrightarrow>
     set s' = set s \<union> value_emails (concat (map condition_values cs)) \<and>
     (distinct s \<longrightarrow> distinct s') \<and> (list_all clean_email s \<longrightarrow> list_all clean_email s')"
proof (induction cs arbitrary: s)
  case Nil
  then show ?case by (simp add: value_emails_def)
next
  case (Cons c cs)
  then obtain t where t: "add_condition s c = Inr t" "efold add_condition t cs = Inr s'"
    by (auto simp: ebind_Inr_iff)
  from t(1) have "efold add_email s (condition_values c) = Inr t"
    by (auto simp: add_condition_def Let_def condition_values_def split: if_splits)
  note one = efold_add_email [OF this]
  have "value_emails (concat (map condition_values (c # cs))) =
      value_emails (condition_values c) \<union> value_emails (concat (map condition_values cs))"
    by (auto simp: value_emails_def)
  then show ?case using one Cons.IH [OF t(2)] by auto
qed

lemma snapshot_InrE:
  assumes "entryUserEmailSnapshot policies policyID = Inr s"
  obtains rule cs emails where
    "filter (rule_matches policyID) (elems policies) = [rule]" "isStandardRule rule"
    "emailConditions rule = Inr cs" "cs \<noteq> []" "efold add_condition [] cs = Inr emails"
    "snap_emails s = sort emails" "snap_text s = join [10] (sort emails)"
    "snap_conditionCount s = length cs" "snap_policyID s = policyID"
proof -
  have p: "positive_id policyID" "is_array policies"
    using assms by (auto simp: entryUserEmailSnapshot_def split: if_splits)
  obtain rule where f: "filter (rule_matches policyID) (elems policies) = [rule]"
    using assms p by (auto simp: entryUserEmailSnapshot_def split: list.splits if_splits)
  have std: "isStandardRule rule"
    using assms p f by (auto simp: entryUserEmailSnapshot_def split: if_splits)
  obtain cs where cs: "emailConditions rule = Inr cs"
    using assms p f std by (auto simp: entryUserEmailSnapshot_def ebind_Inr_iff)
  have ne: "cs \<noteq> []"
    using assms p f std cs by (auto simp: entryUserEmailSnapshot_def)
  obtain emails where em: "efold add_condition [] cs = Inr emails"
    using assms p f std cs ne by (auto simp: entryUserEmailSnapshot_def ebind_Inr_iff)
  show ?thesis
    using that [OF f std cs ne em] assms p f std cs ne em
    by (auto simp: entryUserEmailSnapshot_def Let_def)
qed

lemma digit_safe: "is_digit c \<Longrightarrow> \<not> unsafe_unit c \<and> \<not> is_space c"
  by (auto simp: is_digit_def unsafe_unit_def is_space_def)

lemma safe_name_set: "c \<in> set (safe_name name) \<Longrightarrow> \<not> unsafe_unit c \<and> \<not> is_space c"
proof -
  assume c: "c \<in> set (safe_name name)"
  define s1 where "s1 = map (\<lambda>c. if unsafe_unit c then 95 else c) (trim name)"
  define s2 where "s2 = collapse_runs is_space 45 False s1"
  define s3 where "s3 = collapse_runs (\<lambda>c. c = 95) 95 False s2"
  define s4 where "s4 = concat (take 60 (code_points s3))"
  have "c \<in> set (js ''rule'') \<or> c \<in> set s4"
    using c set_dropWhileD [of c trailing_unit "rev s4"]
    by (auto simp: safe_name_def Let_def s1_def s2_def s3_def s4_def split: if_splits)
  then show ?thesis
  proof
    assume "c \<in> set (js ''rule'')"
    then show ?thesis by (auto simp: js_def unsafe_unit_def is_space_def)
  next
    assume "c \<in> set s4"
    then have "c \<in> set s3"
      unfolding s4_def using code_points_subset [of _ s3] by (auto dest: in_set_takeD)
    then have "c = 95 \<or> c \<in> set s2"
      unfolding s3_def using collapse_runs_set by fastforce
    then have "c = 95 \<or> c = 45 \<or> c \<in> set s1 \<and> \<not> is_space c"
      unfolding s2_def using collapse_runs_set by fastforce
    moreover have "\<not> unsafe_unit 95 \<and> \<not> is_space 95" "\<not> unsafe_unit 45 \<and> \<not> is_space 45"
      by (simp_all add: unsafe_unit_def is_space_def)
    moreover have "c \<in> set s1 \<Longrightarrow> c = 95 \<or> \<not> unsafe_unit c"
      by (auto simp: s1_def split: if_splits)
    ultimately show ?thesis by blast
  qed
qed

section \<open>Properties\<close>

text \<open>A snapshot lists exactly the normalised non-empty values of the e-mail conditions of the
  one matching standard rule, sorted without duplicates, every address on a single line with an
  at sign; the exported text splits at its line feeds into that same list.\<close>

theorem entryUserEmailSnapshot_spec:
  assumes "entryUserEmailSnapshot policies policyID = Inr s"
  shows "\<exists>rule cs. filter (rule_matches policyID) (elems policies) = [rule] \<and> isStandardRule rule \<and>
     emailConditions rule = Inr cs \<and> cs \<noteq> [] \<and> snap_conditionCount s = length cs \<and>
     set (snap_emails s) = value_emails (concat (map condition_values cs)) \<and>
     sorted (snap_emails s) \<and> distinct (snap_emails s) \<and> list_all clean_email (snap_emails s) \<and>
     split_on 10 (snap_text s) = (if snap_emails s = [] then [[]] else snap_emails s)"
proof -
  obtain rule cs emails where r: "filter (rule_matches policyID) (elems policies) = [rule]"
    "isStandardRule rule" "emailConditions rule = Inr cs" "cs \<noteq> []"
    "efold add_condition [] cs = Inr emails"
    "snap_emails s = sort emails" "snap_text s = join [10] (sort emails)"
    "snap_conditionCount s = length cs" using snapshot_InrE [OF assms] by metis
  note facts = efold_add_condition [OF r(5)]
  have "\<forall>e \<in> set (sort emails). 10 \<notin> set e"
    using facts clean_email_no_newline by (auto simp: list_all_iff)
  then have "split_on 10 (join [10] (sort emails)) = (if sort emails = [] then [[]] else sort emails)"
    using split_on_join [of "sort emails" 10] by auto
  then show ?thesis
    using r facts by (intro exI [of _ rule] exI [of _ cs]) (auto simp: list_all_iff)
qed

theorem entryUserEmailSnapshot_spec_witness:
  "\<exists>rule cs s. entryUserEmailSnapshot
     (JArr [JObj [(js ''id'', JNum (num 7)), (js ''conditions'',
        JArr [JObj [(js ''field'', JStr (js ''email'')), (js ''operator'', JStr (js ''in'')),
          (js ''values'', JArr [JStr (js '' B@x ''), JStr (js ''a@y''), JStr (js ''b@x'')])]])]]) (num 7) = Inr s \<and>
     isStandardRule rule \<and> emailConditions rule = Inr cs \<and> snap_conditionCount s = length cs \<and>
     sorted (snap_emails s) \<and> distinct (snap_emails s)"
proof -
  let ?p = "JArr [JObj [(js ''id'', JNum (num 7)), (js ''conditions'',
        JArr [JObj [(js ''field'', JStr (js ''email'')), (js ''operator'', JStr (js ''in'')),
          (js ''values'', JArr [JStr (js '' B@x ''), JStr (js ''a@y''), JStr (js ''b@x'')])]])]]"
  have "is_ok (entryUserEmailSnapshot ?p (num 7))" by code_simp
  then obtain s where s: "entryUserEmailSnapshot ?p (num 7) = Inr s" by (auto simp: is_ok_iff)
  show ?thesis using s entryUserEmailSnapshot_spec [OF s] by blast
qed

text \<open>The name of an exported file is refused only for an invalid rule id; otherwise it holds no
  path separator, no reserved, control or bidirectional character and no white space.\<close>

theorem entryUserEmailsFilename_safe:
  "case entryUserEmailsFilename policyID name of
     Inl e \<Rightarrow> \<not> positive_id policyID \<and> e = InvalidPolicyID
   | Inr f \<Rightarrow> positive_id policyID \<and> list_all (\<lambda>c. \<not> unsafe_unit c \<and> \<not> is_space c) f"
proof (cases "positive_id policyID")
  case True
  have dig: "list_all (\<lambda>c. \<not> unsafe_unit c \<and> \<not> is_space c) (num_str policyID)"
  proof -
    obtain i where i: "policyID = num i" "0 < i" "i \<le> max_safe"
      using True by (auto simp: positive_id_iff)
    then have "is_digit c" if "c \<in> set (num_str policyID)" for c
      using that True digits_of_digits [of i c] by (simp add: num_str_positive_id)
    then show ?thesis using digit_safe by (simp add: list_all_iff)
  qed
  have lits: "list_all (\<lambda>c. \<not> unsafe_unit c \<and> \<not> is_space c) (js ''entry-'')"
    "list_all (\<lambda>c. \<not> unsafe_unit c \<and> \<not> is_space c) (js ''-'')"
    "list_all (\<lambda>c. \<not> unsafe_unit c \<and> \<not> is_space c) (js ''-emails.txt'')" by code_simp+
  have "list_all (\<lambda>c. \<not> unsafe_unit c \<and> \<not> is_space c) (safe_name name)"
    using safe_name_set [of _ name] by (simp add: list_all_iff)
  with dig lits True show ?thesis by (simp add: entryUserEmailsFilename_def)
qed (simp add: entryUserEmailsFilename_def)

end
