(* ===== verification/EntryLayout.thy ===== *)
theory EntryLayout
  imports EntryConditions Texts
begin

text \<open>
  \<open>pages/clientEntryLayout.ts\<close> and \<open>lib/drag.ts\<close>: the rows of the client-entry page, which are
  rules (\<open>policy\<close>) and leaves of fixed splits (\<open>split_group\<close>), with their keys, the row filter and
  the reordering of rows.
\<close>

section \<open>Member keys\<close>

datatype member_kind = Policy | SplitGroup

definition kind_str :: "member_kind \<Rightarrow> jstr" where
  "kind_str k = (case k of Policy \<Rightarrow> js ''policy'' | SplitGroup \<Rightarrow> js ''split_group'')"

definition key_str :: "member_kind \<Rightarrow> jnum \<Rightarrow> jstr" where
  "key_str k n = kind_str k @ [58] @ num_str n"

text \<open>
  \<open>/^(policy|split_group):([1-9]\d*)$/\<close> followed by the safe-integer test on the second group;
  the same test guards \<open>evidenceTarget\<close>.
\<close>

definition match_prefix :: "jstr \<Rightarrow> (member_kind \<times> jstr) option" where
  "match_prefix s =
     (if starts_with s (js ''policy:'') then Some (Policy, drop 7 s)
      else if starts_with s (js ''split_group:'') then Some (SplitGroup, drop 12 s)
      else None)"

definition parse_key :: "jstr \<Rightarrow> (member_kind \<times> int) option" where
  "parse_key s =
     (case match_prefix s of
        None \<Rightarrow> None
      | Some (k, d) \<Rightarrow>
          if canonical_digits d \<and> is_safe (str_num d) then Some (k, int_of (str_num d)) else None)"

lemma match_prefix_iff: "match_prefix s = Some (k, d) \<longleftrightarrow> s = kind_str k @ [58] @ d"
proof
  assume "match_prefix s = Some (k, d)"
  then show "s = kind_str k @ [58] @ d"
    by (auto simp: match_prefix_def starts_with_iff kind_str_def js_def split: if_splits)
next
  assume "s = kind_str k @ [58] @ d"
  then show "match_prefix s = Some (k, d)"
    by (cases k) (auto simp: match_prefix_def starts_with_iff kind_str_def js_def)
qed

lemma parse_key_iff:
  "parse_key s = Some (k, i) \<longleftrightarrow> 0 < i \<and> i \<le> max_safe \<and> s = key_str k (num i)"
proof
  assume "parse_key s = Some (k, i)"
  then obtain d where d: "match_prefix s = Some (k, d)" "canonical_digits d" "is_safe (str_num d)"
    "i = int_of (str_num d)"
    by (auto simp: parse_key_def split: option.splits if_splits)
  note c = canonical_safe [OF d(2,3)]
  then have "num_str (num i) = d"
    using d(4) by (simp add: num_str_num int_str_digits max_safe_def)
  with c d show "0 < i \<and> i \<le> max_safe \<and> s = key_str k (num i)"
    by (simp add: match_prefix_iff key_str_def)
next
  assume h: "0 < i \<and> i \<le> max_safe \<and> s = key_str k (num i)"
  then have n: "num_str (num i) = digits_of i"
    by (simp add: num_str_num int_str_digits max_safe_def)
  have "canonical_digits (digits_of i)" using h canonical_digits_iff by blast
  moreover have "str_num (digits_of i) = num i"
    using h by (intro str_num_digits_of) (simp_all add: max_safe_def)
  moreover have "match_prefix s = Some (k, digits_of i)"
    using h n by (simp add: match_prefix_iff key_str_def)
  ultimately show "parse_key s = Some (k, i)" using h by (simp add: parse_key_def)
qed

section \<open>Rows\<close>

definition split_group_of :: "jsv \<Rightarrow> jsv" where
  "split_group_of row = jprop row (js ''__split_group'')"

definition isSplitRow :: "jsv \<Rightarrow> bool" where
  "isSplitRow row =
     (jprop row (js ''__row_kind'') = JStr (js ''split_group'') \<and> truthy (split_group_of row))"

definition entryRowKey :: "jsv \<Rightarrow> jstr" where
  "entryRowKey row =
     (if isSplitRow row then key_str SplitGroup (to_num (jprop (split_group_of row) (js ''id'')))
      else key_str Policy (to_num (jprop row (js ''id''))))"

definition row_rule :: "jsv \<Rightarrow> jsv" where
  "row_rule row = (if isSplitRow row then split_group_of row else row)"

definition entryRuleName :: "jsv \<Rightarrow> jstr" where
  "entryRuleName row =
     (let rule = row_rule row
      in to_str (jor (jprop rule (js ''name''))
           (JStr (txt_rule_hash @ num_str (to_num (jor (jprop rule (js ''id'')) (JNum (num 0))))))))"

definition entryRuleHost :: "jsv \<Rightarrow> jstr" where
  "entryRuleHost row = trim (to_str (jor (jprop (row_rule row) (js ''entry_host'')) (JStr [])))"

definition conditionFields :: "jsv \<Rightarrow> jstr jset" where
  "conditionFields value =
     (case decode_json 3 value of
        None \<Rightarrow> []
      | Some parsed \<Rightarrow>
          if \<not> is_array parsed then []
          else set_of (map (\<lambda>item. to_str (jor (jprop item (js ''field'')) (JStr [])))
                 (filter is_objectlike (elems parsed))))"

datatype row_status = StatusAll | StatusEnabled | StatusDisabled
datatype row_kind = KindAll | KindStandard | KindSplit | KindEmail | KindUserID | KindUA
datatype row_membership = MemberAll | MemberGrouped | MemberUngrouped

record row_filters =
  rf_query :: jstr
  rf_status :: row_status
  rf_kind :: row_kind
  rf_membership :: row_membership

definition condition_kind :: "row_kind \<Rightarrow> jstr option" where
  "condition_kind k = (case k of
      KindEmail \<Rightarrow> Some (js ''email'') | KindUserID \<Rightarrow> Some (js ''user_id'') | KindUA \<Rightarrow> Some (js ''ua'')
    | _ \<Rightarrow> None)"

definition row_enabled :: "jsv \<Rightarrow> bool" where
  "row_enabled row =
     (let e = jprop row (js ''enabled'')
      in e \<noteq> JBool False \<and> to_num (coalesce e (JNum (num 1))) \<noteq> num 0)"

definition row_search_fields :: "jsv \<Rightarrow> jsv list" where
  "row_search_fields row =
     (let collection = jprop row (js ''__entry_collection'')
      in [JStr (entryRuleName row), JStr (entryRuleHost row), jprop collection (js ''name''),
          jprop collection (js ''entry_host''), JStr (entryRowKey row)])"

definition row_passes :: "row_filters \<Rightarrow> jstr \<Rightarrow> jsv \<Rightarrow> bool" where
  "row_passes f query row =
     (let enabled = row_enabled row; split = isSplitRow row;
          grouped = truthy (jprop row (js ''__entry_collection''))
      in if rf_status f = StatusEnabled \<and> \<not> enabled then False
         else if rf_status f = StatusDisabled \<and> enabled then False
         else if rf_kind f = KindStandard \<and> split then False
         else if rf_kind f = KindSplit \<and> \<not> split then False
         else if (case condition_kind (rf_kind f) of
                    None \<Rightarrow> False
                  | Some k \<Rightarrow> (split \<and> rf_kind f \<noteq> KindUA) \<or>
                      \<not> set_has k (conditionFields (jprop row (js ''conditions'')))) then False
         else if rf_membership f = MemberGrouped \<and> \<not> grouped then False
         else if rf_membership f = MemberUngrouped \<and> grouped then False
         else if query = [] then True
         else list_ex (\<lambda>field. contains (lower (to_str (jor field (JStr [])))) query)
                (row_search_fields row))"

definition filterEntryRows :: "jsv list \<Rightarrow> row_filters \<Rightarrow> jsv list" where
  "filterEntryRows rows f = filter (row_passes f (lower (trim (rf_query f)))) rows"

section \<open>Moving rows\<close>

definition target_index :: "nat \<Rightarrow> jnum \<Rightarrow> nat" where
  "target_index n position =
     nat (int_of (num_max (num 0)
       (num_min (num (int n - 1)) (num_sub (num_trunc position) (num 1)))))"

definition moveEntryRow :: "jsv list \<Rightarrow> jstr \<Rightarrow> jnum \<Rightarrow> jsv list" where
  "moveEntryRow rows key position1based =
     (if \<not> is_finite position1based then rows
      else case find_index (\<lambda>row. entryRowKey row = key) rows of
        None \<Rightarrow> rows
      | Some source \<Rightarrow>
          (let target = target_index (length rows) position1based
           in if source = target then rows
              else insert_at target (rows ! source) (remove_at source rows)))"

definition append_key :: "jstr jset \<Rightarrow> jstr \<Rightarrow> jstr jset" where
  "append_key keys key =
     (case parse_key key of None \<Rightarrow> keys | Some (k, i) \<Rightarrow> set_add (key_str k (num i)) keys)"

text \<open>A collection item as the page holds it: an arbitrary kind and a number.\<close>

definition mergeEntryCollectionKeys :: "(jstr \<times> jnum) list \<Rightarrow> jstr list \<Rightarrow> jstr list" where
  "mergeEntryCollectionKeys items additional =
     (let own = foldl append_key [] (map (\<lambda>(kind, n). kind @ [58] @ num_str n) items)
      in foldl append_key own additional)"

section \<open>Dragging (\<open>lib/drag.ts\<close>)\<close>

text \<open>
  \<open>splice\<close> clamps its start into the array, counting from the end when negative. A start past the
  end removes nothing, and \<open>undefined\<close> (\<open>None\<close>) is what gets inserted.
\<close>

definition splice_start :: "nat \<Rightarrow> int \<Rightarrow> nat" where
  "splice_start n i = (if i < 0 then nat (max 0 (int n + i)) else min n (nat i))"

definition moveItem :: "'a option list \<Rightarrow> int \<Rightarrow> int \<Rightarrow> 'a option list" where
  "moveItem items fromIndex toIndex =
     (if fromIndex = toIndex then items
      else
        let f = splice_start (length items) fromIndex;
            item = (if f < length items then items ! f else None);
            rest = remove_at f items
        in insert_at (splice_start (length rest) toIndex) item rest)"

subsection \<open>Facts\<close>

lemma find_index_lt: "find_index p xs = Some i \<Longrightarrow> i < length xs"
  using find_index_SomeD [of p xs i] by simp

text \<open>Removing one element and inserting it elsewhere is a permutation that keeps the rest in order.\<close>

lemma move_mset:
  assumes "i < length xs" "j < length xs"
  shows "mset (insert_at j (xs ! i) (remove_at i xs)) = mset xs"
  using assms by (simp add: mset_insert_at mset_remove_at)

lemma move_nth:
  assumes "i < length xs" "j < length xs"
  shows "insert_at j (xs ! i) (remove_at i xs) ! j = xs ! i"
  using assms by (intro nth_insert_at) simp

lemma move_rest:
  assumes "i < length xs" "j < length xs"
  shows "remove_at j (insert_at j (xs ! i) (remove_at i xs)) = remove_at i xs"
  using assms by (intro remove_insert_at) simp

lemma num_max_zero_bounds:
  assumes "0 \<le> m" "is_finite a \<or> a = PosInf \<or> a = NegInf"
  shows "0 \<le> int_of (num_max (num 0) (num_min (num m) a)) \<and>
    int_of (num_max (num 0) (num_min (num m) a)) \<le> m"
proof -
  have zero: "num 0 = Fin 0" by (simp add: num_def)
  show ?thesis
  proof (cases a)
    case (Fin q)
    show ?thesis
    proof (cases "q < of_int m")
      case True
      then have mn: "num_min (num m) a = Fin q" using Fin by (simp add: num_min_def num_def)
      show ?thesis
      proof (cases "0 < q")
        case True
        then have "num_max (num 0) (Fin q) = Fin q" by (simp add: num_max_def num_def)
        moreover have "\<lfloor>q\<rfloor> \<le> m" using \<open>q < of_int m\<close> by (simp add: floor_le_iff)
        ultimately show ?thesis using mn True by (simp add: int_of_def)
      next
        case False
        then have "num_max (num 0) (Fin q) = num 0" by (auto simp: num_max_def num_def)
        then show ?thesis using mn assms(1) by simp
      qed
    next
      case False
      then have "num_min (num m) a = num m" using Fin by (simp add: num_min_def num_def)
      then show ?thesis using assms(1) by simp
    qed
  next
    case PosInf
    then have "num_min (num m) a = num m" by (simp add: num_min_def) (simp add: num_def)
    then show ?thesis using assms(1) by simp
  next
    case NegInf
    then have "num_min (num m) a = NegInf" by (simp add: num_min_def) (simp add: num_def)
    moreover have "num_max (num 0) NegInf = num 0" by (simp add: num_max_def) (simp add: num_def)
    ultimately show ?thesis using assms(1) by simp
  next
    case NaN
    with assms(2) show ?thesis by (simp add: is_finite_def)
  qed
qed

lemma rnd_not_NaN: "rnd q \<noteq> NaN"
  by (simp add: rnd_def Let_def)

lemma target_index_lt:
  assumes "0 < n" "is_finite position"
  shows "target_index n position < n"
proof -
  obtain q where "position = Fin q" using assms(2) by (auto simp: is_finite_def split: jnum.splits)
  then obtain r where "num_trunc position = Fin r" by (auto simp: num_trunc_def num_map_def)
  then have "num_sub (num_trunc position) (num 1) \<noteq> NaN"
    by (simp add: num_sub_def num_neg_def num_def rnd_not_NaN)
  then have "is_finite (num_sub (num_trunc position) (num 1)) \<or>
      num_sub (num_trunc position) (num 1) = PosInf \<or> num_sub (num_trunc position) (num 1) = NegInf"
    by (cases "num_sub (num_trunc position) (num 1)") (simp_all add: is_finite_def)
  then show ?thesis
    using num_max_zero_bounds [of "int n - 1" "num_sub (num_trunc position) (num 1)"] assms(1)
    by (simp add: target_index_def nat_less_iff)
qed

lemma target_index_num:
  assumes "0 < n" "\<bar>p\<bar> \<le> max_safe"
  shows "target_index n (num p) = nat (max 0 (min (int n - 1) (p - 1)))"
  using assms num_sub_num [of p 1] by (simp add: target_index_def max_safe_def)

definition canonical_key :: "jstr \<Rightarrow> bool" where
  "canonical_key s \<longleftrightarrow> parse_key s \<noteq> None"

lemma append_key_eq: "append_key keys key = (if canonical_key key then set_add key keys else keys)"
proof (cases "parse_key key")
  case (Some ki)
  obtain k i where ki: "ki = (k, i)" by force
  with Some have "key = key_str k (num i)" by (simp add: parse_key_iff)
  then show ?thesis using Some ki by (simp add: append_key_def canonical_key_def)
qed (simp add: append_key_def canonical_key_def)

lemma foldl_append_key:
  "foldl append_key keys ks = fold set_add (filter canonical_key ks) keys"
  by (induction ks arbitrary: keys) (auto simp: append_key_eq)

lemma merge_keys_eq:
  "mergeEntryCollectionKeys items additional =
     set_of (filter canonical_key (map (\<lambda>(kind, n). kind @ [58] @ num_str n) items @ additional))"
  by (simp add: mergeEntryCollectionKeys_def Let_def foldl_append_key set_of_def)

lemma moveEntryRow_mset: "mset (moveEntryRow rows key position) = mset rows"
proof (cases "find_index (\<lambda>row. entryRowKey row = key) rows")
  case (Some i)
  then have i: "i < length rows" by (rule find_index_lt)
  then have "0 < length rows" by linarith
  then show ?thesis using Some i by (auto simp: moveEntryRow_def Let_def intro!: move_mset target_index_lt)
qed (simp add: moveEntryRow_def)

section \<open>Properties\<close>

text \<open>Moving a row is a permutation of the rows; when the key is found and the position is a
  number, the row lands at the position clamped into the table and the other rows keep their
  order.\<close>

theorem moveEntryRow_spec:
  "mset (moveEntryRow rows key position) = mset rows \<and>
   (case find_index (\<lambda>row. entryRowKey row = key) rows of
      None \<Rightarrow> moveEntryRow rows key position = rows
    | Some i \<Rightarrow>
        if is_finite position then
          target_index (length rows) position < length rows \<and>
          moveEntryRow rows key position ! target_index (length rows) position = rows ! i \<and>
          remove_at (target_index (length rows) position) (moveEntryRow rows key position) =
            remove_at i rows
        else moveEntryRow rows key position = rows)"
proof (cases "find_index (\<lambda>row. entryRowKey row = key) rows")
  case None
  then show ?thesis by (simp add: moveEntryRow_def)
next
  case (Some i)
  then have i: "i < length rows" by (rule find_index_lt)
  show ?thesis
  proof (cases "is_finite position")
    case True
    let ?t = "target_index (length rows) position"
    have "0 < length rows" using i by linarith
    then have t: "?t < length rows" using True by (rule target_index_lt)
    have m: "moveEntryRow rows key position = insert_at ?t (rows ! i) (remove_at i rows)"
      using Some True i insert_remove_at [OF i] by (auto simp: moveEntryRow_def Let_def)
    show ?thesis
      using Some True t move_mset [OF i t] move_nth [OF i t] move_rest [OF i t] by (simp add: m)
  next
    case False
    with Some show ?thesis by (simp add: moveEntryRow_def)
  qed
qed

text \<open>Merging the keys of a collection with additional ones keeps, in order of first occurrence
  and once each, exactly the keys of the form \<open>policy:n\<close> or \<open>split_group:n\<close> with a positive safe
  integer \<open>n\<close> written canonically.\<close>

theorem mergeEntryCollectionKeys_spec:
  "distinct (mergeEntryCollectionKeys items additional) \<and>
   set (mergeEntryCollectionKeys items additional) =
     {s. s \<in> set (map (\<lambda>(kind, n). kind @ [58] @ num_str n) items @ additional) \<and>
         (\<exists>k i. 0 < i \<and> i \<le> max_safe \<and> s = key_str k (num i))} \<and>
   mergeEntryCollectionKeys [] (mergeEntryCollectionKeys items additional) =
     mergeEntryCollectionKeys items additional"
proof -
  have canon: "canonical_key s \<longleftrightarrow> (\<exists>k i. 0 < i \<and> i \<le> max_safe \<and> s = key_str k (num i))" for s
    unfolding canonical_key_def using parse_key_iff [of s] by (metis not_Some_eq old.prod.exhaust)
  let ?xs = "map (\<lambda>(kind, n). kind @ [58] @ num_str n) items @ additional"
  have m: "mergeEntryCollectionKeys items additional = set_of (filter canonical_key ?xs)"
    by (rule merge_keys_eq)
  have "filter canonical_key (set_of (filter canonical_key ?xs)) = set_of (filter canonical_key ?xs)"
    by (rule filter_True) auto
  then have "mergeEntryCollectionKeys [] (set_of (filter canonical_key ?xs)) = set_of (filter canonical_key ?xs)"
    using merge_keys_eq [of "[]" "set_of (filter canonical_key ?xs)"] by (simp del: filter_append)
  then show ?thesis unfolding m by (auto simp: canon)
qed

end
