(* ===== verification/EntryCollections.thy ===== *)
theory EntryCollections
  imports EntryLayout
begin

text \<open>
  \<open>pages/clientEntryCollections.ts\<close>: collections of entry rules. A collection owns members (rules
  and split leaves) by key; reading the server's list validates it, and attaching the collections
  to the rows of the page gives every row its owner.
\<close>

type_synonym member = "member_kind \<times> int"

record entry_collection =
  col_id :: int
  col_name :: jstr
  col_entry_host :: jstr
  col_resolve :: "bool option" \<comment> \<open>\<open>0 | 1 | null\<close>\<close>
  col_version :: int
  col_items :: "member list"

record collection_option =
  opt_value :: jstr
  opt_label :: jstr
  opt_item :: member
  opt_entry_host :: jstr
  opt_resolve :: bool
  opt_collection_id :: "int option"

datatype collection_error =
    RowTypeError
  | BadCollectionList
  | BadCollection
  | BadResolve
  | BadMember
  | MemberMissing
  | MemberDuplicate

section \<open>Resolution of the entry host\<close>

definition effectiveEntryResolveHost :: "jsv \<Rightarrow> jsv \<Rightarrow> bool" where
  "effectiveEntryResolveHost row grp =
     (let v = coalesce (jprop grp (js ''resolve_entry_host'')) (jprop row (js ''resolve_entry_host''))
      in if v = JBool True \<or> v = JStr (js ''true'') then True
         else is_finite (to_num v) \<and> to_num v \<noteq> num 0)"

definition collectionResolveDefaults ::
    "collection_option list \<Rightarrow> jstr list \<Rightarrow> entry_collection option \<Rightarrow> bool \<times> bool" where
  "collectionResolveDefaults options keys collection =
     (let values = set_of (map opt_resolve (filter (\<lambda>opt. opt_value opt \<in> set keys) options))
      in (case Option.bind collection col_resolve of
            Some r \<Rightarrow> r
          | None \<Rightarrow> length values = 1 \<and> set_has True values,
          length values > 1))"

definition entryCollectionResolveLabel :: "entry_collection \<Rightarrow> jstr" where
  "entryCollectionResolveLabel c = (case col_resolve c of
      None \<Rightarrow> txt_resolve_pending
    | Some r \<Rightarrow> if r then txt_resolve_ip else txt_resolve_direct)"

section \<open>Members\<close>

definition entryCollectionMemberKey :: "member \<Rightarrow> jstr" where
  "entryCollectionMemberKey item = key_str (fst item) (num (snd item))"

definition is_split_kind :: "jobj \<Rightarrow> bool" where
  "is_split_kind row \<longleftrightarrow> oget (js ''__row_kind'') row = JStr (js ''split_group'')"

text \<open>Reading \<open>row.__split_group.id\<close> throws when the row has no group.\<close>

definition entryCollectionMember :: "jobj \<Rightarrow> collection_error + member_kind \<times> jnum" where
  "entryCollectionMember row =
     (if is_split_kind row then
        (case jprop_strict (oget (js ''__split_group'') row) (js ''id'') of
           None \<Rightarrow> Inl RowTypeError
         | Some v \<Rightarrow> Inr (SplitGroup, to_num v))
      else Inr (Policy, to_num (oget (js ''id'') row)))"

definition row_key :: "jobj \<Rightarrow> collection_error + jstr" where
  "row_key row = ebind (entryCollectionMember row) (\<lambda>(k, n). Inr (key_str k n))"

definition canJoinEntryCollection :: "jobj \<Rightarrow> bool" where
  "canJoinEntryCollection row =
     (let action = oget (js ''action'') row
      in is_split_kind row \<or> \<not> truthy action \<or> action = JStr (js ''override''))"

definition availableEntryCollectionOptions ::
    "collection_option list \<Rightarrow> int option \<Rightarrow> collection_option list" where
  "availableEntryCollectionOptions options collectionID =
     filter (\<lambda>opt. (case opt_collection_id opt of None \<Rightarrow> True | Some i \<Rightarrow> i = 0)
       \<or> opt_collection_id opt = collectionID) options"

section \<open>Attaching collections to rows\<close>

type_synonym owners = "(jstr \<times> entry_collection) list"

definition own_member :: "jstr set \<Rightarrow> entry_collection \<Rightarrow> owners \<Rightarrow> member \<Rightarrow> collection_error + owners" where
  "own_member available collection owners item =
     (let key = entryCollectionMemberKey item
      in if key \<notin> available then Inl MemberMissing
         else if map_of owners key \<noteq> None then Inl MemberDuplicate
         else Inr (owners @ [(key, collection)]))"

definition own_collection :: "jstr set \<Rightarrow> owners \<Rightarrow> entry_collection \<Rightarrow> collection_error + owners" where
  "own_collection available owners collection =
     efold (own_member available collection) owners (col_items collection)"

definition resolve_value :: "bool option \<Rightarrow> jsv" where
  "resolve_value r = (case r of None \<Rightarrow> JNull | Some b \<Rightarrow> JNum (num (if b then 1 else 0)))"

definition member_value :: "member \<Rightarrow> jsv" where
  "member_value m = JObj [(js ''kind'', JStr (kind_str (fst m))), (js ''id'', JNum (num (snd m)))]"

definition collection_value :: "entry_collection \<Rightarrow> jsv" where
  "collection_value c = JObj
     [(js ''id'', JNum (num (col_id c))), (js ''version'', JNum (num (col_version c))),
      (js ''name'', JStr (col_name c)), (js ''entry_host'', JStr (col_entry_host c)),
      (js ''resolve_entry_host'', resolve_value (col_resolve c)),
      (js ''items'', JArr (map member_value (col_items c)))]"

definition attach_row :: "owners \<Rightarrow> jobj \<Rightarrow> collection_error + jobj" where
  "attach_row owners row =
     ebind (row_key row) (\<lambda>key. Inr (oput (js ''__entry_collection'')
       (case map_of owners key of None \<Rightarrow> JUndef | Some c \<Rightarrow> collection_value c) row))"

definition attachEntryCollections ::
    "jobj list \<Rightarrow> entry_collection list \<Rightarrow> collection_error + jobj list" where
  "attachEntryCollections rows collections =
     ebind (emap row_key rows) (\<lambda>keys.
     ebind (efold (own_collection (set keys)) [] collections) (\<lambda>owners.
       emap (attach_row owners) rows))"

section \<open>Reading the server's list\<close>

definition parse_member :: "jsv \<Rightarrow> collection_error + member" where
  "parse_member item =
     (let memberID = to_num (jprop item (js ''id'')); kind = jprop item (js ''kind'')
      in if \<not> among [JStr (js ''policy''), JStr (js ''split_group'')] kind \<or> \<not> positive_id memberID
         then Inl BadMember
         else Inr (if kind = JStr (js ''policy'') then Policy else SplitGroup, int_of memberID))"

definition blank :: "jsv \<Rightarrow> bool" where
  "blank v = (trim (to_str (jor v (JStr []))) = [])"

definition parse_resolve :: "jsv \<Rightarrow> collection_error + bool option" where
  "parse_resolve v =
     (if nullish v then Inr None
      else if v \<noteq> JNum (num 0) \<and> v \<noteq> JNum (num 1) then Inl BadResolve
      else Inr (Some (v = JNum (num 1))))"

definition parse_collection :: "jnum jset \<Rightarrow> jsv \<Rightarrow> collection_error + entry_collection \<times> jnum jset" where
  "parse_collection ids raw =
     (let id = to_num (jprop raw (js ''id'')); version = to_num (jprop raw (js ''version''));
          name = jprop raw (js ''name''); host = jprop raw (js ''entry_host'');
          items = jprop raw (js ''items'')
      in if \<not> positive_id id \<or> set_has id ids \<or> \<not> positive_id version \<or> blank name \<or> blank host
            \<or> \<not> is_array items
         then Inl BadCollection
         else ebind (parse_resolve (jprop raw (js ''resolve_entry_host''))) (\<lambda>resolve.
           ebind (emap parse_member (elems items)) (\<lambda>members.
             Inr (\<lparr>col_id = int_of id, col_name = to_str name, col_entry_host = to_str host,
                    col_resolve = resolve, col_version = int_of version, col_items = members\<rparr>,
                  set_add id ids))))"

definition parseEntryCollections :: "jsv \<Rightarrow> collection_error + entry_collection list" where
  "parseEntryCollections value =
     (if \<not> is_array value then Inl BadCollectionList
      else ebind (emap_st parse_collection [] (elems value)) (\<lambda>(cs, _). Inr cs))"

subsection \<open>Facts\<close>

definition valid_member :: "member \<Rightarrow> bool" where
  "valid_member m \<longleftrightarrow> 0 < snd m \<and> snd m \<le> max_safe"

definition valid_collection :: "entry_collection \<Rightarrow> bool" where
  "valid_collection c \<longleftrightarrow> 0 < col_id c \<and> col_id c \<le> max_safe \<and> 0 < col_version c \<and>
     col_version c \<le> max_safe \<and> trim (col_name c) \<noteq> [] \<and> trim (col_entry_host c) \<noteq> [] \<and>
     list_all valid_member (col_items c)"

lemma parse_member_valid: "parse_member v = Inr m \<Longrightarrow> valid_member m"
  by (auto simp: parse_member_def Let_def valid_member_def positive_id_iff split: if_splits)

lemma kind_str_simps [simp]: "kind_str Policy = js ''policy''" "kind_str SplitGroup = js ''split_group''"
  by (simp_all add: kind_str_def)

lemma parse_member_value: "valid_member m \<Longrightarrow> parse_member (member_value m) = Inr m"
  by (cases m; cases "fst m")
     (auto simp: parse_member_def member_value_def valid_member_def oget_def among_def is_objectlike_def)

lemma emap_parse_member_value:
  "list_all valid_member ms \<Longrightarrow> emap parse_member (map member_value ms) = Inr ms"
  by (induction ms) (simp_all add: parse_member_value)

lemma emap_parse_member_valid: "emap parse_member vs = Inr ms \<Longrightarrow> list_all valid_member ms"
  by (induction vs arbitrary: ms) (auto simp: ebind_Inr_iff parse_member_valid)

lemma not_blank_str: "trim s \<noteq> [] \<Longrightarrow> \<not> blank (JStr s)"
  by (auto simp: blank_def jor_def)

lemma to_str_not_blank: "\<not> blank v \<Longrightarrow> trim (to_str v) \<noteq> []"
  by (auto simp: blank_def jor_def split: if_splits)

lemma parse_resolve_value: "parse_resolve (resolve_value r) = Inr r"
  by (cases r) (auto simp: parse_resolve_def resolve_value_def)

lemma collection_value_fields:
  "jprop (collection_value c) (js ''id'') = JNum (num (col_id c))"
  "jprop (collection_value c) (js ''version'') = JNum (num (col_version c))"
  "jprop (collection_value c) (js ''name'') = JStr (col_name c)"
  "jprop (collection_value c) (js ''entry_host'') = JStr (col_entry_host c)"
  "jprop (collection_value c) (js ''resolve_entry_host'') = resolve_value (col_resolve c)"
  "jprop (collection_value c) (js ''items'') = JArr (map member_value (col_items c))"
  by (simp_all add: collection_value_def oget_def)

lemma parse_collection_value:
  assumes "valid_collection c" "num (col_id c) \<notin> set ids"
  shows "parse_collection ids (collection_value c) = Inr (c, set_add (num (col_id c)) ids)"
  using assms
  by (simp add: parse_collection_def collection_value_fields valid_collection_def not_blank_str
      parse_resolve_value emap_parse_member_value)

lemma parse_collection_valid:
  assumes "parse_collection ids raw = Inr (c, ids')"
  shows "valid_collection c \<and> num (col_id c) \<notin> set ids \<and> ids' = set_add (num (col_id c)) ids"
  using assms
  by (auto simp: parse_collection_def Let_def ebind_Inr_iff valid_collection_def positive_id_iff
      emap_parse_member_valid to_str_not_blank split: if_splits)

lemma emap_st_parse_collection_value:
  assumes "list_all valid_collection cs" "distinct (map col_id cs)"
    "\<forall>c \<in> set cs. num (col_id c) \<notin> set ids"
  shows "\<exists>ids'. emap_st parse_collection ids (map collection_value cs) = Inr (cs, ids')"
  using assms
proof (induction cs arbitrary: ids)
  case Nil
  then show ?case by simp
next
  case (Cons c cs)
  have "\<exists>ids'. emap_st parse_collection (set_add (num (col_id c)) ids) (map collection_value cs) = Inr (cs, ids')"
  proof (rule Cons.IH)
    have "col_id c' \<noteq> col_id c" if "c' \<in> set cs" for c'
      using that Cons.prems(2) by (metis distinct.simps(2) image_eqI list.map(2) list.set_map)
    then show "\<forall>c' \<in> set cs. num (col_id c') \<notin> set (set_add (num (col_id c)) ids)"
      using Cons.prems(1,3) by (auto simp: valid_collection_def list_all_iff)
  qed (use Cons.prems in auto)
  then show ?case using Cons.prems by (auto simp: parse_collection_value)
qed

lemma emap_st_parse_collection_valid:
  "emap_st parse_collection ids vs = Inr (cs, ids') \<Longrightarrow>
     list_all valid_collection cs \<and> distinct (map col_id cs) \<and> (\<forall>c \<in> set cs. num (col_id c) \<notin> set ids)"
proof (induction vs arbitrary: ids cs)
  case Nil
  then show ?case by simp
next
  case (Cons v vs)
  then obtain c ids1 cs' where c: "parse_collection ids v = Inr (c, ids1)"
    "emap_st parse_collection ids1 vs = Inr (cs', ids')" "cs = c # cs'"
    by (auto simp: ebind_Inr_iff)
  note one = parse_collection_valid [OF c(1)] and rest = Cons.IH [OF c(2)]
  show ?case using one rest c(3) by auto
qed

text \<open>Ownership: the folded map lists every member of every collection once.\<close>

definition owned :: "entry_collection list \<Rightarrow> owners" where
  "owned cs = concat (map (\<lambda>c. map (\<lambda>m. (entryCollectionMemberKey m, c)) (col_items c)) cs)"

lemma own_items:
  "efold (own_member av c) ow ms = Inr ow' \<longleftrightarrow>
     ow' = ow @ map (\<lambda>m. (entryCollectionMemberKey m, c)) ms \<and>
     set (map entryCollectionMemberKey ms) \<subseteq> av \<and> distinct (map entryCollectionMemberKey ms) \<and>
     set (map entryCollectionMemberKey ms) \<inter> fst ` set ow = {}"
proof (induction ms arbitrary: ow)
  case Nil
  then show ?case by auto
next
  case (Cons m ms)
  let ?k = "entryCollectionMemberKey m"
  show ?case
  proof (cases "?k \<in> av \<and> map_of ow ?k = None")
    case True
    then have "own_member av c ow m = Inr (ow @ [(?k, c)])" by (simp add: own_member_def Let_def)
    moreover have "?k \<notin> fst ` set ow" using True by (simp add: map_of_eq_None_iff)
    ultimately show ?thesis using True Cons.IH [of "ow @ [(?k, c)]"] by auto
  next
    case False
    then have "\<not> is_ok (own_member av c ow m)" by (auto simp: own_member_def Let_def)
    moreover have "?k \<notin> av \<or> ?k \<in> fst ` set ow" using False by (auto simp: map_of_eq_None_iff)
    ultimately show ?thesis by (cases "own_member av c ow m") auto
  qed
qed

lemma own_collections:
  "efold (own_collection av) ow cs = Inr ow' \<longleftrightarrow>
     ow' = ow @ owned cs \<and> fst ` set (owned cs) \<subseteq> av \<and> distinct (map fst (owned cs)) \<and>
     fst ` set (owned cs) \<inter> fst ` set ow = {}"
proof (induction cs arbitrary: ow)
  case Nil
  then show ?case by (auto simp: owned_def)
next
  case (Cons c cs)
  let ?own = "map (\<lambda>m. (entryCollectionMemberKey m, c)) (col_items c)"
  have o': "owned (c # cs) = ?own @ owned cs" by (simp add: owned_def)
  define K where "K = map entryCollectionMemberKey (col_items c)"
  have keys: "map fst ?own = K" "fst ` set ?own = set K" by (auto simp: K_def image_image)
  have keys1: "map fst (owned (c # cs)) = K @ map fst (owned cs)"
    "fst ` set (owned (c # cs)) = set K \<union> fst ` set (owned cs)"
    using keys unfolding o' by (simp_all only: map_append set_append image_Un)
  show ?case
  proof (cases "is_ok (efold (own_member av c) ow (col_items c))")
    case True
    then obtain ow1 where ow1: "efold (own_member av c) ow (col_items c) = Inr ow1" by (auto simp: is_ok_iff)
    note facts = ow1 [unfolded own_items]
    have step: "efold (own_collection av) ow (c # cs) = efold (own_collection av) ow1 cs"
      using ow1 by (simp add: own_collection_def)
    have ow1': "ow1 = ow @ ?own" "set K \<subseteq> av" "distinct K" "set K \<inter> fst ` set ow = {}"
      using facts by (simp_all add: K_def)
    have ow1'': "fst ` set ow1 = fst ` set ow \<union> set K"
      using keys unfolding ow1'(1) by (simp only: set_append image_Un)
    have lhs: "efold (own_collection av) ow (c # cs) = Inr ow' \<longleftrightarrow>
        ow' = ow @ owned (c # cs) \<and> fst ` set (owned cs) \<subseteq> av \<and> distinct (map fst (owned cs)) \<and>
        fst ` set (owned cs) \<inter> (fst ` set ow \<union> set K) = {}"
      unfolding step Cons.IH ow1'' unfolding ow1'(1) o' append_assoc ..
    show ?thesis
      unfolding lhs keys1 distinct_append set_map using ow1'(2-4) by blast
  next
    case False
    then have "\<nexists>ow1. efold (own_member av c) ow (col_items c) = Inr ow1" by (auto simp: is_ok_iff)
    then have no: "\<not> (set K \<subseteq> av \<and> distinct K \<and> set K \<inter> fst ` set ow = {})"
      unfolding own_items K_def by blast
    have "\<nexists>ow'. efold (own_collection av) ow (c # cs) = Inr ow'"
      using False by (auto simp: own_collection_def ebind_Inr_iff is_ok_iff)
    then show ?thesis unfolding keys1 distinct_append set_map using no by blast
  qed
qed

lemma attach_row_emap:
  "emap row_key rows = Inr keys \<Longrightarrow> emap (attach_row ow) rows = Inr (map2 (\<lambda>key row.
     oput (js ''__entry_collection'')
       (case map_of ow key of None \<Rightarrow> JUndef | Some c \<Rightarrow> collection_value c) row) keys rows)"
  by (induction rows arbitrary: keys) (auto simp: ebind_Inr_iff attach_row_def)

section \<open>Properties\<close>

text \<open>A list of collections that is accepted is valid (positive safe ids and versions, distinct
  ids, non-blank names and hosts, valid members), and sending it out again and reading it back
  gives the same list.\<close>

theorem parseEntryCollections_roundtrip:
  "case parseEntryCollections value of
     Inl e \<Rightarrow> e \<in> {BadCollectionList, BadCollection, BadResolve, BadMember}
   | Inr cs \<Rightarrow> list_all valid_collection cs \<and> distinct (map col_id cs) \<and>
       parseEntryCollections (JArr (map collection_value cs)) = Inr cs"
proof (cases "parseEntryCollections value")
  case (Inl e)
  have member: "parse_member v = Inl d \<Longrightarrow> d = BadMember" for v d
    by (auto simp: parse_member_def Let_def split: if_splits)
  have members: "emap parse_member vs = Inl d \<Longrightarrow> d = BadMember" for vs d
    by (induction vs) (auto simp: ebind_Inl_iff dest: member)
  have one: "parse_collection ids raw = Inl d \<Longrightarrow> d \<in> {BadCollection, BadResolve, BadMember}" for ids raw d
    by (auto simp: parse_collection_def Let_def ebind_Inl_iff parse_resolve_def dest: members split: if_splits)
  have "emap_st parse_collection ids vs = Inl d \<Longrightarrow> d \<in> {BadCollection, BadResolve, BadMember}" for ids vs d
    by (induction vs arbitrary: ids) (auto simp: ebind_Inl_iff dest: one)
  with Inl show ?thesis
    by (auto simp: parseEntryCollections_def ebind_Inl_iff split: if_splits)
next
  case (Inr cs)
  then obtain ids' where p: "emap_st parse_collection [] (elems value) = Inr (cs, ids')"
    by (auto simp: parseEntryCollections_def ebind_Inr_iff split: if_splits)
  note valid = emap_st_parse_collection_valid [OF p]
  then have "\<exists>ids. emap_st parse_collection [] (map collection_value cs) = Inr (cs, ids)"
    by (intro emap_st_parse_collection_value) auto
  then show ?thesis using Inr valid by (auto simp: parseEntryCollections_def)
qed

text \<open>C21: attaching succeeds exactly when every row has a key, no member key occurs twice in the
  collections and every member is a row; each row then carries the collection that owns its key,
  or \<open>undefined\<close>.\<close>

theorem attachEntryCollections_spec:
  "attachEntryCollections rows collections = Inr rows' \<longleftrightarrow>
     (\<exists>keys. emap row_key rows = Inr keys \<and>
        distinct (map fst (owned collections)) \<and> fst ` set (owned collections) \<subseteq> set keys \<and>
        rows' = map2 (\<lambda>key row. oput (js ''__entry_collection'')
          (case map_of (owned collections) key of
             None \<Rightarrow> JUndef | Some c \<Rightarrow> collection_value c) row) keys rows)"
proof (cases "emap row_key rows")
  case (Inl e)
  then show ?thesis by (simp add: attachEntryCollections_def)
next
  case (Inr keys)
  have "attachEntryCollections rows collections = Inr rows' \<longleftrightarrow>
      (\<exists>ow. efold (own_collection (set keys)) [] collections = Inr ow \<and> emap (attach_row ow) rows = Inr rows')"
    using Inr by (auto simp: attachEntryCollections_def ebind_Inr_iff)
  then show ?thesis
    using Inr by (auto simp: own_collections attach_row_emap [OF Inr])
qed

end
