(* ===== verification/EntryHelpers.thy ===== *)
theory EntryHelpers
  imports JsSet JsValue Texts
begin

text \<open>
  \<open>pages/clientEntryHelpers.ts\<close>: the keys of the servers of an entry, the choices a dialog offers and
  their labels.
\<close>

definition memberKey :: "jsv \<Rightarrow> jstr" where
  "memberKey member =
     (let serverType = trimmed (jor (jprop member (js ''server_type'')) (jprop member (js ''serverType'')));
          serverID = trim (to_str (coalesce
            (coalesce (jprop member (js ''server_id'')) (jprop member (js ''serverID''))) (JStr [])))
      in if serverType \<noteq> [] \<and> serverID \<noteq> [] then serverType @ [58] @ serverID else [])"

definition splitMemberKey :: "jsv \<Rightarrow> (jstr \<times> jnum) option" where
  "splitMemberKey value =
     (let raw = trimmed value
      in case index_of raw [58] of
           None \<Rightarrow> None
         | Some index \<Rightarrow>
             if index = 0 then None
             else let serverType = trim (take index raw); serverID = str_num (drop (Suc index) raw)
                  in if serverType = [] \<or> \<not> is_finite serverID \<or> num_le serverID (num 0) then None
                     else Some (serverType, serverID))"

definition isVisibleNode :: "jsv \<Rightarrow> bool" where
  "isVisibleNode row =
     (let raw = jprop row (js ''show'')
      in if nullish raw \<or> raw = JStr [] then True
         else case raw of
                JBool b \<Rightarrow> b
              | _ \<Rightarrow> lower (trim (to_str raw)) \<notin> set (map js [''0'', ''false'', ''hidden'', ''hide'']))"

definition nodeLabel :: "jsv \<Rightarrow> jstr" where
  "nodeLabel row =
     (let type = trimmed (jprop row (js ''type''));
          i = coalesce (coalesce (jprop row (js ''id'')) (jprop row (js ''server_id''))) (JStr []);
          given = trimmed (jor (jprop row (js ''name'')) (jprop row (js ''remarks'')));
          name = (if given \<noteq> [] then given
                  else (if type \<noteq> [] then type else js ''node'') @ js '' #'' @ to_str i);
          host = trimmed (jprop row (js ''host''));
          port = trimmed (jor (jprop row (js ''port'')) (jprop row (js ''server_port'')));
          endpoint = (if host \<noteq> [] then host @ (if port \<noteq> [] then [58] @ port else []) else []);
          entryOnly = (if to_num (jor (jprop row (js ''client_entry_only'')) (JNum (num 0))) \<noteq> num 0
                       then txt_entry_only else [])
      in join (js '' '') (filter (\<lambda>s. s \<noteq> [])
           [entryOnly, name, if type \<noteq> [] then [47] @ type else [],
            if truthy i then [35] @ to_str i else [],
            if endpoint \<noteq> [] then [40] @ endpoint @ [41] else []]))"

record server_option =
  so_value :: jstr
  so_label :: jstr

definition server_option_of :: "jsv \<Rightarrow> server_option option" where
  "server_option_of row =
     (let value = memberKey (JObj [(js ''server_type'', jprop row (js ''type'')), (js ''server_id'', jprop row (js ''id''))])
      in if value = [] then None else Some \<lparr>so_value = value, so_label = nodeLabel row\<rparr>)"

definition buildVisibleServerOptions :: "jsv list \<Rightarrow> server_option list" where
  "buildVisibleServerOptions nodes = List.map_filter server_option_of (filter isVisibleNode nodes)"

definition visibleMemberNames :: "jsv \<Rightarrow> (jstr \<rightharpoonup> jstr) \<Rightarrow> jstr list" where
  "visibleMemberNames row visibleServerOptionMap =
     filter (\<lambda>s. s \<noteq> []) (map (\<lambda>member.
       (let key = memberKey member
        in if key = [] then []
           else case visibleServerOptionMap key of None \<Rightarrow> [] | Some name \<Rightarrow> name))
       (elems (jprop row (js ''members''))))"

definition normalizeEntryForVisibleMembers :: "jobj \<Rightarrow> jstr set option \<Rightarrow> jobj" where
  "normalizeEntryForVisibleMembers row visibleMemberKeys =
     oput (js ''members'') (JArr (map JStr (filter
       (\<lambda>key. key \<noteq> [] \<and> (case visibleMemberKeys of None \<Rightarrow> True | Some ks \<Rightarrow> key \<in> ks))
       (map memberKey (elems (oget (js ''members'') row)))))) row"

section \<open>Facts\<close>

lemma index_of_single_None: "c \<notin> set s \<Longrightarrow> index_of s [c] = None"
  using contains_single [of s c] by (simp add: contains_def)

lemma index_of_single: "c \<notin> set s \<Longrightarrow> index_of (s @ c # t) [c] = Some (length s)"
  by (induction s) auto

lemma index_of_singleD: "index_of s [c] = Some i \<Longrightarrow> i < length s \<and> c \<notin> set (take i s)"
proof (induction s arbitrary: i)
  case Nil
  then show ?case by simp
next
  case (Cons a s)
  then show ?case by (cases i) (auto split: if_splits)
qed

lemma trim_outer: "\<not> is_space (hd s) \<Longrightarrow> \<not> is_space (last s) \<Longrightarrow> trim s = s"
  by (cases "s = []") (auto intro: trim_id)

lemma trim_key:
  assumes "trim s \<noteq> []" "all_digits d"
  shows "trim (trim s @ 58 # d) = trim s @ 58 # d"
proof (rule trim_outer)
  show "\<not> is_space (hd (trim s @ 58 # d))" using assms(1) trim_ends [of s] by simp
  have "d \<noteq> []" "is_digit (last d)" using assms(2) by (auto simp: all_digits_def list_all_iff)
  then show "\<not> is_space (last (trim s @ 58 # d))" by (simp add: digit_not_space)
qed

lemma splitMemberKey_sound:
  assumes "splitMemberKey v = Some (t, n)"
  shows "t \<noteq> [] \<and> trim t = t \<and> 58 \<notin> set t \<and> is_finite n \<and> num_lt (num 0) n"
proof -
  obtain i where i: "index_of (trimmed v) [58] = Some i" "t = trim (take i (trimmed v))"
    "t \<noteq> []" "is_finite n" "\<not> num_le n (num 0)"
    using assms by (auto simp: splitMemberKey_def Let_def split: option.splits if_splits)
  then have "58 \<notin> set t" using index_of_singleD trim_subset by blast
  moreover have "num_lt (num 0) n"
    using i(4,5) by (cases n) (auto simp: is_finite_def num_le_def num_def)
  ultimately show ?thesis using i by simp
qed

lemma memberKey_typed:
  "memberKey (JObj [(js ''server_type'', JStr s), (js ''server_id'', JNum (num i))]) =
     (if trim s = [] \<or> trim (num_str (num i)) = [] then [] else trim s @ 58 # trim (num_str (num i)))"
  by (auto simp: memberKey_def oget_def jor_def coalesce_def trimmed_def)

text \<open>The key of a server is read back as the same type and identifier, for every type without a
  colon and every positive identifier; and whatever is read from any value is a trimmed type with a
  positive finite identifier.\<close>

theorem memberKey_roundtrip:
  assumes "58 \<notin> set s" "trim s \<noteq> []" "0 < i" "i \<le> max_safe"
  shows "splitMemberKey (JStr (memberKey (JObj [(js ''server_type'', JStr s), (js ''server_id'', JNum (num i))]))) =
      Some (trim s, num i) \<and>
    (\<forall>v t n. splitMemberKey v = Some (t, n) \<longrightarrow>
      t \<noteq> [] \<and> trim t = t \<and> 58 \<notin> set t \<and> is_finite n \<and> num_lt (num 0) n)"
proof
  have i: "num_str (num i) = digits_of i"
    using assms by (simp add: num_str_num int_str_digits max_safe_def)
  have d: "all_digits (digits_of i)" using assms all_digits_digits_of by simp
  have "58 \<notin> set (trim s)" using assms(1) trim_subset by blast
  then have "index_of (trim s @ 58 # digits_of i) [58] = Some (length (trim s))" by (rule index_of_single)
  moreover have "str_num (digits_of i) = num i"
    using assms by (simp add: str_num_digits_of max_safe_def)
  ultimately show "splitMemberKey (JStr (memberKey (JObj [(js ''server_type'', JStr s), (js ''server_id'', JNum (num i))]))) =
      Some (trim s, num i)"
    using assms trim_all_digits [OF d] trim_key [OF assms(2) d]
    by (simp add: memberKey_typed i splitMemberKey_def)
qed (use splitMemberKey_sound in blast)

theorem memberKey_roundtrip_witness:
  "splitMemberKey (JStr (memberKey (JObj [(js ''server_type'', JStr (js ''vmess'')), (js ''server_id'', JNum (num 7))]))) =
     Some (js ''vmess'', num 7)"
proof -
  have t: "trim (js ''vmess'') = js ''vmess''" "58 \<notin> set (js ''vmess'')" by code_simp+
  show ?thesis
    using memberKey_roundtrip [of "js ''vmess''" 7] t by (simp add: max_safe_def)
qed

text \<open>Every option offered carries a key that names a visible node.\<close>

lemma option_value_nonempty: "opt \<in> set (buildVisibleServerOptions nodes) \<Longrightarrow> so_value opt \<noteq> []"
  by (auto simp: buildVisibleServerOptions_def server_option_of_def Let_def List.map_filter_def split: if_splits)

lemma normalize_members_visible:
  "set (elems (oget (js ''members'') (normalizeEntryForVisibleMembers row (Some ks)))) \<subseteq> JStr ` ks"
  by (auto simp: normalizeEntryForVisibleMembers_def)

end
