(* ===== verification/BackupPool.thy ===== *)
theory BackupPool
  imports EntryHelpers
begin

text \<open>
  \<open>pages/clientEntryBackupPool.ts\<close>: the backup addresses a split dialog may fill in, and the hook
  \<open>useSplitBackupIPPool\<close> that asks for them. The hook is a state machine: several requests may be under
  way, the dialog may be reset or closed in between, and only the answer of the current request counts.
\<close>

section \<open>The available addresses\<close>

definition pool_items :: "jsv \<Rightarrow> jsv list" where
  "pool_items response =
     (let payload = coalesce (jprop response (js ''data'')) response
      in if is_array payload then elems payload
         else if is_array (jprop payload (js ''items'')) then elems (jprop payload (js ''items''))
         else if is_array (jprop payload (js ''backup_ips'')) then elems (jprop payload (js ''backup_ips''))
         else [])"

definition pool_ip :: "jsv \<Rightarrow> jstr" where
  "pool_ip item = (case jprop item (js ''ip'') of JStr s \<Rightarrow> trim s | _ \<Rightarrow> [])"

definition pool_key :: "jsv \<Rightarrow> jstr" where
  "pool_key item = lower (pool_ip item)"

definition pool_usable :: "jsv \<Rightarrow> bool" where
  "pool_usable item =
     (let disabled = among [JBool False, JNum (num 0), JStr (js ''0'')] (jprop item (js ''enabled''));
          used = among [JBool True, JNum (num 1), JStr (js ''1'')] (jprop item (js ''used''));
          flag = jprop item (js ''available'');
          available = (if nullish flag then lower (trimmed (jprop item (js ''status''))) = js ''available''
                       else among [JBool True, JNum (num 1), JStr (js ''1'')] flag)
      in pool_ip item \<noteq> [] \<and> \<not> disabled \<and> \<not> used \<and> available)"

definition availableBackupPoolIPs :: "jsv \<Rightarrow> jstr list" where
  "availableBackupPoolIPs response =
     map pool_ip (keep_first pool_usable pool_key [] (pool_items response))"

text \<open>The addresses offered are trimmed, not empty, pairwise different even without regard to case,
  each comes from a usable item, and every usable item is represented.\<close>

theorem availableBackupPoolIPs_spec:
  "distinct (map lower (availableBackupPoolIPs response)) \<and>
   lower ` set (availableBackupPoolIPs response) = pool_key ` {item \<in> set (pool_items response). pool_usable item} \<and>
   set (availableBackupPoolIPs response) \<subseteq> pool_ip ` {item \<in> set (pool_items response). pool_usable item} \<and>
   (\<forall>ip \<in> set (availableBackupPoolIPs response). ip \<noteq> [] \<and> trim ip = ip)"
proof -
  let ?k = "keep_first pool_usable pool_key [] (pool_items response)"
  have keys: "map lower (map pool_ip ?k) = map pool_key ?k" by (simp add: pool_key_def)
  have sub: "set ?k \<subseteq> {item \<in> set (pool_items response). pool_usable item}" by (rule keep_first_subset)
  have "distinct (map pool_key ?k)" using keep_first_distinct [of pool_key] by blast
  moreover have "pool_key ` set ?k = pool_key ` {item \<in> set (pool_items response). pool_usable item}"
    using keep_first_keys [of pool_key] by simp
  moreover have "pool_ip item \<noteq> [] \<and> trim (pool_ip item) = pool_ip item" if "pool_usable item" for item
    using that by (auto simp: pool_usable_def Let_def pool_ip_def split: jsv.splits)
  ultimately show ?thesis
    using sub keys unfolding availableBackupPoolIPs_def
    by (auto simp: image_image pool_key_def simp del: map_map)
qed

theorem availableBackupPoolIPs_spec_witness:
  "availableBackupPoolIPs (JArr [JObj [(js ''ip'', JStr (js ''::A'')), (js ''available'', JBool True)],
     JObj [(js ''ip'', JStr (js ''::a'')), (js ''available'', JBool True)]]) = [js ''::A'']
   \<and> distinct (map lower (availableBackupPoolIPs (JArr [JObj [(js ''ip'', JStr (js ''::A'')), (js ''available'', JBool True)],
     JObj [(js ''ip'', JStr (js ''::a'')), (js ''available'', JBool True)]])))"
proof
  show "availableBackupPoolIPs (JArr [JObj [(js ''ip'', JStr (js ''::A'')), (js ''available'', JBool True)],
     JObj [(js ''ip'', JStr (js ''::a'')), (js ''available'', JBool True)]]) = [js ''::A'']"
    by code_simp
qed (rule availableBackupPoolIPs_spec [THEN conjunct1])

section \<open>The hook\<close>

text \<open>
  \<open>seq\<close> and \<open>busy\<close> are the refs \<open>requestSequence\<close> and \<open>fillingRef\<close>; \<open>filling\<close> and \<open>usePool\<close> the React
  states; \<open>pending\<close> the sequence numbers captured by the calls of \<open>fill\<close> that still wait; \<open>hosts\<close> the two
  fields of the form as the hook last set them.
\<close>

datatype notice_shown = Warned nat | Filled jstr jstr | Failed

record pool_state =
  seq :: nat
  busy :: bool
  filling :: bool
  usePool :: bool
  pending :: "nat list"
  hosts :: "(jstr \<times> jstr) option"
  shown :: "notice_shown list"

definition pool_init :: pool_state where
  "pool_init = \<lparr>seq = 0, busy = False, filling = False, usePool = False, pending = [], hosts = None, shown = []\<rparr>"

definition pool_unmount :: "pool_state \<Rightarrow> pool_state" where
  "pool_unmount st = st\<lparr>seq := Suc (seq st)\<rparr>"

definition pool_reset :: "pool_state \<Rightarrow> pool_state" where
  "pool_reset st = st\<lparr>seq := Suc (seq st), busy := False, filling := False, usePool := False\<rparr>"

definition pool_fill :: "pool_state \<Rightarrow> pool_state" where
  "pool_fill st =
     (if busy st then st
      else st\<lparr>seq := Suc (seq st), busy := True, filling := True, pending := Suc (seq st) # pending st\<rparr>)"

text \<open>What \<open>fill\<close> does with the answer (\<open>None\<close>: the request failed) while its number is current.\<close>

definition pool_apply :: "jsv option \<Rightarrow> pool_state \<Rightarrow> pool_state" where
  "pool_apply answer st =
     (case answer of
        None \<Rightarrow> st\<lparr>shown := shown st @ [Failed]\<rparr>
      | Some response \<Rightarrow>
          (case availableBackupPoolIPs response of
             hostA # hostB # _ \<Rightarrow>
               st\<lparr>hosts := Some (hostA, hostB), usePool := True, shown := shown st @ [Filled hostA hostB]\<rparr>
           | available \<Rightarrow> st\<lparr>shown := shown st @ [Warned (length available)]\<rparr>))"

definition pool_answer :: "nat \<Rightarrow> jsv option \<Rightarrow> pool_state \<Rightarrow> pool_state" where
  "pool_answer sequence answer st =
     (let waiting = st\<lparr>pending := removeAll sequence (pending st)\<rparr>
      in if sequence = seq st then (pool_apply answer waiting)\<lparr>busy := False, filling := False\<rparr> else waiting)"

inductive pool_reach :: "pool_state \<Rightarrow> pool_state \<Rightarrow> bool" where
  here: "pool_reach st st"
| reset: "pool_reach st st' \<Longrightarrow> pool_reach st (pool_reset st')"
| fill: "pool_reach st st' \<Longrightarrow> pool_reach st (pool_fill st')"
| answer: "pool_reach st st' \<Longrightarrow> n \<in> set (pending st') \<Longrightarrow> pool_reach st (pool_answer n r st')"

lemma pool_apply_fields [simp]:
  "seq (pool_apply r st) = seq st" "busy (pool_apply r st) = busy st" "filling (pool_apply r st) = filling st"
  "pending (pool_apply r st) = pending st"
  by (auto simp: pool_apply_def split: option.split list.split)

definition pool_inv :: "pool_state \<Rightarrow> bool" where
  "pool_inv st \<longleftrightarrow> (\<forall>n \<in> set (pending st). n \<le> seq st) \<and> (busy st \<longleftrightarrow> seq st \<in> set (pending st)) \<and>
     (filling st \<longleftrightarrow> busy st)"

lemma pool_inv_reach: "pool_reach st st' \<Longrightarrow> pool_inv st \<Longrightarrow> pool_inv st'"
  by (induction rule: pool_reach.induct)
     (fastforce simp: pool_inv_def pool_reset_def pool_fill_def pool_answer_def Let_def le_Suc_eq)+

lemma seq_mono: "pool_reach st st' \<Longrightarrow> seq st \<le> seq st'"
  by (induction rule: pool_reach.induct) (auto simp: pool_reset_def pool_fill_def pool_answer_def Let_def)

lemma use_pool_reach: "pool_reach st st' \<Longrightarrow> (usePool st \<longrightarrow> hosts st \<noteq> None) \<Longrightarrow> usePool st' \<longrightarrow> hosts st' \<noteq> None"
  by (induction rule: pool_reach.induct)
     (auto simp: pool_reset_def pool_fill_def pool_answer_def Let_def pool_apply_def split: option.splits list.splits)

text \<open>In every reachable state of the dialog the indicator is up exactly while the current request
  waits, and a request that was sent before a reset or before the dialog went away changes nothing but the list of waiting requests,
  whatever it answers and whatever happened since; \<open>usePool\<close> is up only with two hosts filled in.\<close>

theorem stale_pool_answer:
  assumes "pool_reach pool_init st"
  shows "(filling st \<longleftrightarrow> seq st \<in> set (pending st)) \<and> (usePool st \<longrightarrow> hosts st \<noteq> None) \<and>
    (\<forall>n st' r. n \<in> set (pending st) \<longrightarrow> pool_reach (pool_reset st) st' \<or> pool_reach (pool_unmount st) st' \<longrightarrow>
       pool_answer n r st' = st'\<lparr>pending := removeAll n (pending st')\<rparr>)"
proof -
  have inv: "pool_inv st" using pool_inv_reach [OF assms] by (simp add: pool_inv_def pool_init_def)
  have "n \<noteq> seq st'" if "n \<in> set (pending st)"
    "pool_reach (pool_reset st) st' \<or> pool_reach (pool_unmount st) st'" for n st'
    using seq_mono that inv by (fastforce simp: pool_reset_def pool_unmount_def pool_inv_def)
  then show ?thesis
    using inv use_pool_reach [OF assms] by (auto simp: pool_inv_def pool_answer_def Let_def pool_init_def)
qed

theorem stale_pool_answer_witness:
  "pool_answer 1 None (pool_fill (pool_reset (pool_fill pool_init))) =
     (pool_fill (pool_reset (pool_fill pool_init)))\<lparr>pending := [3]\<rparr>"
proof -
  have st: "pool_reach pool_init (pool_fill pool_init)" by (intro pool_reach.intros)
  have "1 \<in> set (pending (pool_fill pool_init))" by (simp add: pool_fill_def pool_init_def)
  moreover have "pool_reach (pool_reset (pool_fill pool_init)) (pool_fill (pool_reset (pool_fill pool_init)))"
    by (intro pool_reach.intros)
  ultimately show ?thesis
    using stale_pool_answer [OF st] by (simp add: pool_fill_def pool_reset_def pool_init_def)
qed

end
