(* ===== verification/AiConfig.thy ===== *)
theory AiConfig
  imports JsSet JsValue Texts
begin

text \<open>
  The configuration half of \<open>pages/aiOpsModel.ts\<close>: the relays a model is reached through, their keys,
  the reasoning levels and the Telegram bindings. Saved keys never reach the browser: a form sends an
  address and either a new key, nothing (the stored key stays) or the wish to clear it.
\<close>

text \<open>
  The URL class of the browser is not code of the repository: \<open>parse\<close> stands for \<open>new URL(..)\<close>, with
  \<open>None\<close> for its \<open>TypeError\<close>.
\<close>

record url =
  u_protocol :: jstr
  u_hostname :: jstr
  u_username :: jstr
  u_password :: jstr
  u_search :: jstr
  u_hash :: jstr
  u_pathname :: jstr

type_synonym url_parser = "jstr \<Rightarrow> url option"

datatype config_error =
    BadURL | InsecureURL | UrlTypeError
  | UnknownMode jstr | ModelRemoved jstr | BaseMissing jstr
  | KeyAndClear jstr | KeyNeeded jstr | EnableNeedsKey jstr
  | TooManyRelays | RelayChanged nat | RelayKeyAndClear nat | RelayKeyNeeded nat
  | RelayEnableNeedsKey nat | RelayUnknownModel nat
  | BadTelegramConfig | BadActor

section \<open>Addresses\<close>

definition drop_slashes :: "jstr \<Rightarrow> jstr" where
  "drop_slashes s = rev (dropWhile (\<lambda>c. c = 47) (rev s))"

definition is_octet :: "jstr \<Rightarrow> bool" where
  "is_octet s \<longleftrightarrow> all_digits s \<and> length s \<le> 3"

definition is_loopback :: "jstr \<Rightarrow> bool" where
  "is_loopback host \<longleftrightarrow> host = js ''localhost'' \<or> host = js ''[::1]'' \<or>
     (case split_on 46 host of
        [a, b, c, d] \<Rightarrow> a = js ''127'' \<and> is_octet b \<and> is_octet c \<and> is_octet d | _ \<Rightarrow> False)"

definition aiNormalizeEndpointURL :: "url_parser \<Rightarrow> jstr \<Rightarrow> config_error + jstr" where
  "aiNormalizeEndpointURL parse value =
     (let raw = drop_slashes (trim value)
      in if raw = [] then Inr []
         else case parse raw of
           None \<Rightarrow> Inl BadURL
         | Some url \<Rightarrow>
             if u_username url \<noteq> [] \<or> u_password url \<noteq> [] \<or> u_search url \<noteq> [] \<or> u_hash url \<noteq> [] \<or>
                (u_protocol url \<noteq> js ''https:'' \<and>
                 \<not> (u_protocol url = js ''http:'' \<and> is_loopback (u_hostname url)))
             then Inl InsecureURL
             else let base = (if ends_with raw (js ''/chat/completions'') then take (length raw - 17) raw else raw)
                  in (case parse base of
                        None \<Rightarrow> Inl UrlTypeError
                      | Some b \<Rightarrow> Inr (if u_pathname b = js ''/'' then drop_slashes base @ js ''/v1'' else base)))"

section \<open>Endpoints of single models\<close>

record endpoint =
  ep_base_url :: jstr
  ep_has_api_key :: bool

record endpoint_form =
  ef_mode :: jstr
  ef_base_url :: jsv
  ef_api_key :: jsv
  ef_clear :: bool

record endpoint_save =
  es_base_url :: jstr
  es_api_key :: jstr
  es_clear :: bool

type_synonym 'a by_model = "(jstr \<times> 'a) list"

definition aiModelEndpointForms :: "jstr list \<Rightarrow> endpoint by_model \<Rightarrow> endpoint_form by_model" where
  "aiModelEndpointForms models endpoints =
     obj_of (map (\<lambda>model. (model,
       case map_of endpoints model of
         None \<Rightarrow> \<lparr>ef_mode = js ''shared'', ef_base_url = JStr [], ef_api_key = JStr [], ef_clear = False\<rparr>
       | Some saved \<Rightarrow>
           \<lparr>ef_mode = js ''dedicated'', ef_base_url = JStr (ep_base_url saved), ef_api_key = JStr [], ef_clear = False\<rparr>))
       (set_of (models @ map fst endpoints)))"

definition saved_key :: "endpoint option \<Rightarrow> bool" where
  "saved_key saved = (case saved of None \<Rightarrow> False | Some s \<Rightarrow> ep_has_api_key s)"

text \<open>One turn of the loop for an entry with its own relay.\<close>

definition prepare_endpoint ::
    "url_parser \<Rightarrow> endpoint by_model \<Rightarrow> jstr list \<Rightarrow> bool \<Rightarrow> jstr \<Rightarrow> endpoint_form \<Rightarrow> config_error + endpoint_save" where
  "prepare_endpoint parse previous models enabled model entry =
     (if ef_mode entry \<noteq> js ''dedicated'' then Inl (UnknownMode model)
      else if model \<notin> set models then Inl (ModelRemoved model)
      else
        let saved = map_of previous model
        in ebind (aiNormalizeEndpointURL parse (to_str (jor (ef_base_url entry) (JStr [])))) (\<lambda>base.
           if base = [] then Inl (BaseMissing model)
           else
             let key = trimmed (ef_api_key entry); clear = ef_clear entry
             in if key \<noteq> [] \<and> clear then Inl (KeyAndClear model)
                else ebind (case saved of
                    None \<Rightarrow> Inr False
                  | Some s \<Rightarrow>
                      if \<not> ep_has_api_key s then Inr False
                      else ebind (aiNormalizeEndpointURL parse (ep_base_url s)) (\<lambda>b.
                        Inr (base \<noteq> b \<and> key = [] \<and> \<not> clear))) (\<lambda>stale.
                  if stale then Inl (KeyNeeded model)
                  else if enabled \<and> key = [] \<and> (\<not> saved_key saved \<or> clear) then Inl (EnableNeedsKey model)
                  else Inr \<lparr>es_base_url = base, es_api_key = key, es_clear = clear\<rparr>)))"

fun prepare_endpoints ::
    "url_parser \<Rightarrow> endpoint by_model \<Rightarrow> jstr list \<Rightarrow> bool \<Rightarrow> endpoint_form option by_model \<Rightarrow>
     config_error + endpoint_save by_model" where
  "prepare_endpoints parse previous models enabled [] = Inr []"
| "prepare_endpoints parse previous models enabled ((model, entry) # values) =
     (case entry of
        None \<Rightarrow> prepare_endpoints parse previous models enabled values
      | Some e \<Rightarrow>
          if ef_mode e = js ''shared'' then prepare_endpoints parse previous models enabled values
          else ebind (prepare_endpoint parse previous models enabled model e) (\<lambda>s.
               ebind (prepare_endpoints parse previous models enabled values) (\<lambda>rest. Inr ((model, s) # rest))))"

definition aiPrepareModelEndpoints ::
    "url_parser \<Rightarrow> endpoint_form option by_model \<Rightarrow> endpoint by_model \<Rightarrow> jstr list \<Rightarrow> bool \<Rightarrow>
     config_error + endpoint_save by_model" where
  "aiPrepareModelEndpoints parse values previous models enabled =
     ebind (prepare_endpoints parse previous models enabled values) (\<lambda>entries. Inr (obj_of entries))"

record ai_config =
  cf_enabled :: bool
  cf_models :: "jstr list"
  cf_has_api_key :: bool
  cf_model_endpoints :: "endpoint by_model option"
  cf_ready_models :: "jstr list option"
  cf_reasoning_efforts :: "jsv by_model option"

definition aiModelReady :: "ai_config \<Rightarrow> jstr \<Rightarrow> bool" where
  "aiModelReady config model =
     (if \<not> cf_enabled config \<or> model \<notin> set (cf_models config) then False
      else case cf_ready_models config of
        Some ready \<Rightarrow> model \<in> set ready
      | None \<Rightarrow>
          (case Option.bind (cf_model_endpoints config) (\<lambda>m. map_of m model) of
             Some e \<Rightarrow> ep_has_api_key e
           | None \<Rightarrow> cf_has_api_key config))"

section \<open>Fallback relays\<close>

record relay =
  rl_id :: jstr
  rl_name :: jstr
  rl_base_url :: jstr
  rl_models :: "jstr list"
  rl_enabled :: bool
  rl_has_api_key :: bool

record relay_form =
  rf_id :: "jstr option"
  rf_name :: jsv
  rf_base_url :: jsv
  rf_models :: "jstr list"
  rf_enabled :: bool
  rf_api_key :: jsv
  rf_clear :: bool

record relay_save =
  sv_id :: "jstr option"
  sv_name :: jstr
  sv_base_url :: jstr
  sv_models :: "jstr list"
  sv_enabled :: bool
  sv_api_key :: jstr
  sv_clear :: bool

definition aiFallbackRelayForms :: "relay list \<Rightarrow> relay_form list" where
  "aiFallbackRelayForms relays = map (\<lambda>r.
     \<lparr>rf_id = Some (rl_id r), rf_name = JStr (rl_name r), rf_base_url = JStr (rl_base_url r),
      rf_models = rl_models r, rf_enabled = rl_enabled r, rf_api_key = JStr [], rf_clear = False\<rparr>) relays"

definition saved_relay :: "relay list \<Rightarrow> jstr \<Rightarrow> relay option" where
  "saved_relay previous i = (if i = [] then None else List.find (\<lambda>item. rl_id item = i) previous)"

definition relay_key :: "relay option \<Rightarrow> bool" where
  "relay_key saved = (case saved of None \<Rightarrow> False | Some s \<Rightarrow> rl_has_api_key s)"

text \<open>The callback of \<open>map\<close>: the ids seen so far are its closure variable.\<close>

definition prepare_relay ::
    "relay list \<Rightarrow> jstr list \<Rightarrow> nat \<times> jstr jset \<Rightarrow> relay_form \<Rightarrow> config_error + relay_save \<times> (nat \<times> jstr jset)" where
  "prepare_relay previous models = (\<lambda>(index, ids) r.
     (let i = (case rf_id r of None \<Rightarrow> [] | Some i \<Rightarrow> i); saved = saved_relay previous i
      in if i \<noteq> [] \<and> (saved = None \<or> set_has i ids) then Inl (RelayChanged (Suc index))
         else
           let ids' = (if i \<noteq> [] then set_add i ids else ids);
               apiKey = trimmed (rf_api_key r); clear = rf_clear r; baseURL = trimmed (rf_base_url r)
           in if clear \<and> apiKey \<noteq> [] then Inl (RelayKeyAndClear (Suc index))
              else if relay_key saved \<and> baseURL \<noteq> rl_base_url (the saved) \<and> apiKey = [] \<and> \<not> clear
                then Inl (RelayKeyNeeded (Suc index))
              else if rf_enabled r \<and> apiKey = [] \<and> (\<not> relay_key saved \<or> clear)
                then Inl (RelayEnableNeedsKey (Suc index))
              else
                let supported = set_of (filter (\<lambda>m. m \<noteq> []) (map trim (rf_models r)))
                in if list_ex (\<lambda>m. m \<notin> set models) supported then Inl (RelayUnknownModel (Suc index))
                   else Inr (\<lparr>sv_id = (if i \<noteq> [] then Some i else None), sv_name = trimmed (rf_name r),
                              sv_base_url = baseURL, sv_models = supported, sv_enabled = rf_enabled r,
                              sv_api_key = apiKey, sv_clear = clear\<rparr>, (Suc index, ids'))))"

definition aiPrepareFallbackRelays ::
    "relay_form list \<Rightarrow> relay list \<Rightarrow> jstr list \<Rightarrow> config_error + relay_save list" where
  "aiPrepareFallbackRelays values previous models =
     (if 4 < length values then Inl TooManyRelays
      else ebind (emap_st (prepare_relay previous models) (0, []) values) (\<lambda>(saves, _). Inr saves))"

section \<open>Reasoning levels and Telegram\<close>

definition effort_labels :: "(jstr \<times> jstr) list" where
  "effort_labels =
     [(js ''auto'', txt_effort_auto), (js ''none'', txt_effort_none), (js ''minimal'', txt_effort_minimal),
      (js ''low'', txt_effort_low), (js ''medium'', txt_effort_medium), (js ''high'', txt_effort_high),
      (js ''xhigh'', txt_effort_xhigh)]"

definition is_effort :: "jsv \<Rightarrow> bool" where
  "is_effort value = list_ex (\<lambda>(v, _). strict_eq (JStr v) value) effort_labels"

definition aiReasoningEffort :: "jsv \<Rightarrow> jstr" where
  "aiReasoningEffort value = (if is_effort value then to_str value else js ''auto'')"

definition aiSessionReasoning :: "jsv \<Rightarrow> jstr" where
  "aiSessionReasoning effort = (if is_effort effort then to_str effort else js ''default'')"

definition aiReasoningDefaults :: "jstr list \<Rightarrow> jsv by_model option \<Rightarrow> jstr by_model" where
  "aiReasoningDefaults models values =
     obj_of (map (\<lambda>model. (model, aiReasoningEffort
       (case Option.bind values (\<lambda>vs. map_of vs model) of None \<Rightarrow> JUndef | Some v \<Rightarrow> v))) models)"

definition aiReasoningDefaultLabel :: "ai_config \<Rightarrow> jstr \<Rightarrow> jstr" where
  "aiReasoningDefaultLabel config model =
     txt_follow_open @
       (case Option.bind (map_of (aiReasoningDefaults [model] (cf_reasoning_efforts config)) model)
          (map_of effort_labels) of None \<Rightarrow> js ''undefined'' | Some l \<Rightarrow> l) @ txt_paren_close"

record telegram_config =
  tc_enabled :: bool
  tc_default_model :: jstr
  tc_access_mode :: jstr
  tc_stream_updates :: bool
  tc_notify_completion :: bool

definition aiTelegramConfig :: "jsv \<Rightarrow> config_error + telegram_config" where
  "aiTelegramConfig value =
     (case (jprop value (js ''enabled''), jprop value (js ''default_model''), jprop value (js ''default_access_mode''),
            jprop value (js ''stream_updates''), jprop value (js ''notify_completion'')) of
        (JBool enabled, JStr model, JStr access, JBool stream, JBool notify) \<Rightarrow>
          if access = js ''standard'' \<or> access = js ''full'' then
            Inr \<lparr>tc_enabled = enabled, tc_default_model = model, tc_access_mode = access,
                 tc_stream_updates = stream, tc_notify_completion = notify\<rparr>
          else Inl BadTelegramConfig
      | _ \<Rightarrow> Inl BadTelegramConfig)"

record binding =
  bd_actor_id :: jnum
  bd_rest :: jobj

record telegram_status =
  ts_bindings :: "binding list"
  ts_my_binding :: "binding option"

definition binding_visible :: "jnum \<Rightarrow> bool \<Rightarrow> binding \<Rightarrow> bool" where
  "binding_visible actorID isAdmin item \<longleftrightarrow>
     positive_id (bd_actor_id item) \<and> (isAdmin \<or> num_eq (bd_actor_id item) actorID)"

definition aiTelegramBindings :: "telegram_status option \<Rightarrow> jnum \<Rightarrow> bool \<Rightarrow> binding list" where
  "aiTelegramBindings status actorID isAdmin =
     (case status of
        None \<Rightarrow> []
      | Some st \<Rightarrow>
          if \<not> isAdmin \<and> \<not> positive_id actorID then []
          else keep_first (binding_visible actorID isAdmin) bd_actor_id []
                 (ts_bindings st @ (case ts_my_binding st of None \<Rightarrow> [] | Some b \<Rightarrow> [b])))"

definition aiTelegramActorID :: "jsv \<Rightarrow> config_error + jnum" where
  "aiTelegramActorID value =
     (case value of JNum n \<Rightarrow> if positive_id n then Inr n else Inl BadActor | _ \<Rightarrow> Inl BadActor)"

definition aiParseModels :: "jstr \<Rightarrow> jstr list" where
  "aiParseModels value = set_of (filter (\<lambda>l. l \<noteq> []) (map trim (split_lines value)))"

record fingerprint =
  fp_host :: jstr
  fp_port :: jnum

definition aiFingerprintMatches :: "fingerprint option \<Rightarrow> jsv \<Rightarrow> jsv \<Rightarrow> bool" where
  "aiFingerprintMatches observed host port =
     (case observed of
        None \<Rightarrow> False
      | Some f \<Rightarrow> fp_host f = trimmed host \<and> num_eq (fp_port f) (to_num (jor port (JNum (num 22)))))"

section \<open>A stored key never follows a changed address\<close>

text \<open>What the server will hold for a relay after a save.\<close>

definition has_key_after :: "bool \<Rightarrow> jstr \<Rightarrow> bool \<Rightarrow> bool" where
  "has_key_after stored key clear \<longleftrightarrow> key \<noteq> [] \<or> (stored \<and> \<not> clear)"

lemma prepare_endpoint_ok:
  assumes "prepare_endpoint parse previous models enabled model entry = Inr s"
  shows "model \<in> set models \<and> es_base_url s \<noteq> [] \<and> \<not> (es_clear s \<and> es_api_key s \<noteq> []) \<and>
    (enabled \<longrightarrow> has_key_after (saved_key (map_of previous model)) (es_api_key s) (es_clear s)) \<and>
    (\<forall>saved. map_of previous model = Some saved \<longrightarrow> ep_has_api_key saved \<longrightarrow> es_api_key s = [] \<longrightarrow>
       \<not> es_clear s \<longrightarrow> aiNormalizeEndpointURL parse (ep_base_url saved) = Inr (es_base_url s))"
  using assms unfolding prepare_endpoint_def
  by (auto simp: Let_def ebind_Inr_iff has_key_after_def split: if_splits option.splits)

lemma prepare_endpoints_ok:
  "prepare_endpoints parse previous models enabled values = Inr entries \<Longrightarrow> (model, s) \<in> set entries \<Longrightarrow>
   \<exists>entry. (model, Some entry) \<in> set values \<and> prepare_endpoint parse previous models enabled model entry = Inr s"
  by (induction "values" arbitrary: entries)
     (fastforce simp: ebind_Inr_iff split: option.splits if_splits)+

text \<open>What is sent for a model with its own relay keeps the stored key only together with the
  address the key was stored for: a changed address comes with a new key or clears the old one; a key is
  never set and cleared at once, and an enabled configuration has a key afterwards.\<close>

theorem endpoint_key_stays:
  assumes "aiPrepareModelEndpoints parse values previous models enabled = Inr saves" "(model, s) \<in> set saves"
  shows "model \<in> set models \<and> es_base_url s \<noteq> [] \<and> \<not> (es_clear s \<and> es_api_key s \<noteq> []) \<and>
    (enabled \<longrightarrow> has_key_after (saved_key (map_of previous model)) (es_api_key s) (es_clear s)) \<and>
    (\<forall>saved. map_of previous model = Some saved \<longrightarrow> ep_has_api_key saved \<longrightarrow> es_api_key s = [] \<longrightarrow>
       \<not> es_clear s \<longrightarrow> aiNormalizeEndpointURL parse (ep_base_url saved) = Inr (es_base_url s))"
proof -
  obtain entries where e: "prepare_endpoints parse previous models enabled values = Inr entries" "saves = obj_of entries"
    using assms(1) by (auto simp: aiPrepareModelEndpoints_def ebind_Inr_iff)
  then have "(model, s) \<in> set entries" using assms(2) set_omerge_subset [of "[]" entries] by (auto simp: obj_of_def)
  from prepare_endpoints_ok [OF e(1) this] show ?thesis using prepare_endpoint_ok by blast
qed

text \<open>A parser good enough for one address.\<close>

definition demo_url :: url_parser where
  "demo_url s = Some \<lparr>u_protocol = js ''https:'', u_hostname = js ''a'', u_username = [], u_password = [],
     u_search = [], u_hash = [], u_pathname = js ''/v2''\<rparr>"

definition demo_endpoint_form :: endpoint_form where
  "demo_endpoint_form = \<lparr>ef_mode = js ''dedicated'', ef_base_url = JStr (js ''https://a/v2''), ef_api_key = JUndef,
     ef_clear = False\<rparr>"

theorem endpoint_key_stays_witness:
  "aiNormalizeEndpointURL demo_url (js ''https://a/v2/'') = Inr (js ''https://a/v2'')"
proof -
  let ?s = "\<lparr>es_base_url = js ''https://a/v2'', es_api_key = [], es_clear = False\<rparr>"
  let ?p = "[(js ''m'', \<lparr>ep_base_url = js ''https://a/v2/'', ep_has_api_key = True\<rparr>)]"
  have "aiPrepareModelEndpoints demo_url [(js ''m'', Some demo_endpoint_form)] ?p [js ''m''] True = Inr [(js ''m'', ?s)]"
    by code_simp
  from endpoint_key_stays [OF this, of "js ''m''" ?s] show ?thesis by simp
qed

lemma prepare_relay_ok:
  assumes "prepare_relay previous models (n, ids) r = Inr (s, n', ids')"
  shows "\<not> (sv_clear s \<and> sv_api_key s \<noteq> []) \<and> set (sv_models s) \<subseteq> set models \<and>
    (sv_enabled s \<longrightarrow> has_key_after (relay_key (Option.bind (sv_id s) (saved_relay previous))) (sv_api_key s) (sv_clear s)) \<and>
    (\<forall>i. sv_id s = Some i \<longrightarrow> i \<notin> set ids \<and> ids' = ids @ [i] \<and>
      (\<exists>saved. saved_relay previous i = Some saved \<and>
        (rl_has_api_key saved \<longrightarrow> sv_api_key s = [] \<longrightarrow> \<not> sv_clear s \<longrightarrow> sv_base_url s = rl_base_url saved))) \<and>
    (sv_id s = None \<longrightarrow> ids' = ids)"
proof -
  define i where "i = (case rf_id r of None \<Rightarrow> [] | Some i \<Rightarrow> i)"
  define supported where "supported = set_of (filter (\<lambda>m. m \<noteq> []) (map trim (rf_models r)))"
  note unfolded = assms [unfolded prepare_relay_def Let_def prod.case, folded i_def supported_def]
  have "saved_relay previous [] = None" by (simp add: saved_relay_def)
  then have none: "i = [] \<Longrightarrow> saved_relay previous i = None" by simp
  have models: "set supported \<subseteq> set models" and fields: "sv_models s = supported" "sv_api_key s = trimmed (rf_api_key r)"
    "sv_clear s = rf_clear r" "sv_base_url s = trimmed (rf_base_url r)" "sv_enabled s = rf_enabled r"
    "sv_id s = (if i \<noteq> [] then Some i else None)" "ids' = (if i \<noteq> [] then set_add i ids else ids)"
    and old: "i \<noteq> [] \<longrightarrow> saved_relay previous i \<noteq> None \<and> i \<notin> set ids"
    and keys: "\<not> (rf_clear r \<and> trimmed (rf_api_key r) \<noteq> [])"
      "\<not> (relay_key (saved_relay previous i) \<and> trimmed (rf_base_url r) \<noteq> rl_base_url (the (saved_relay previous i)) \<and>
         trimmed (rf_api_key r) = [] \<and> \<not> rf_clear r)"
      "\<not> (rf_enabled r \<and> trimmed (rf_api_key r) = [] \<and> (\<not> relay_key (saved_relay previous i) \<or> rf_clear r))"
    using unfolded by (auto simp: list_ex_iff subset_iff split: if_splits)
  show ?thesis
  proof (cases "i = []")
    case True
    then show ?thesis using models keys none by (auto simp: fields has_key_after_def relay_key_def)
  next
    case False
    then obtain saved where "saved_relay previous i = Some saved" "i \<notin> set ids" using old by auto
    then show ?thesis using models keys False
      by (auto simp: fields has_key_after_def relay_key_def set_add_def)
  qed
qed

definition relay_safe :: "relay list \<Rightarrow> jstr list \<Rightarrow> relay_save \<Rightarrow> bool" where
  "relay_safe previous models s \<longleftrightarrow>
     \<not> (sv_clear s \<and> sv_api_key s \<noteq> []) \<and> set (sv_models s) \<subseteq> set models \<and>
     (sv_enabled s \<longrightarrow> has_key_after (relay_key (Option.bind (sv_id s) (saved_relay previous))) (sv_api_key s) (sv_clear s)) \<and>
     (case sv_id s of None \<Rightarrow> True | Some i \<Rightarrow>
       (case saved_relay previous i of None \<Rightarrow> False | Some saved \<Rightarrow>
         sv_base_url s = rl_base_url saved \<or> \<not> rl_has_api_key saved \<or> sv_api_key s \<noteq> [] \<or> sv_clear s))"

lemma emap_st_Cons_ok:
  "emap_st f s (x # xs) = Inr (ys, t) \<longleftrightarrow>
     (\<exists>y s' zs. f s x = Inr (y, s') \<and> emap_st f s' xs = Inr (zs, t) \<and> ys = y # zs)"
  by (auto simp: ebind_Inr_iff)

lemma prepare_relays_ok:
  "emap_st (prepare_relay previous models) (n, ids) values = Inr (saves, st) \<Longrightarrow>
   length saves = length values \<and> list_all (relay_safe previous models) saves \<and>
   distinct (List.map_filter sv_id saves) \<and> set (List.map_filter sv_id saves) \<inter> set ids = {}"
proof (induction "values" arbitrary: n ids saves)
  case Nil
  then show ?case by (simp add: List.map_filter_def)
next
  case (Cons r vs)
  obtain s n' ids' rest where s: "prepare_relay previous models (n, ids) r = Inr (s, n', ids')"
    "emap_st (prepare_relay previous models) (n', ids') vs = Inr (rest, st)" "saves = s # rest"
    using Cons.prems [unfolded emap_st_Cons_ok] by auto
  note ok = prepare_relay_ok [OF s(1)]
  then have "relay_safe previous models s"
    by (cases "sv_id s"; cases "saved_relay previous (the (sv_id s))") (auto simp: relay_safe_def)
  then show ?case
    using Cons.IH [OF s(2)] s(3) ok by (cases "sv_id s") (auto simp: List.map_filter_simps)
qed

text \<open>C29: the list of fallback relays that is sent has at most four relays with different ids, each id
  names a saved relay, each relay serves models of the list only, an enabled relay has a key afterwards, and a
  stored key is kept only for an unchanged address.\<close>

theorem fallback_relays_safe:
  assumes "aiPrepareFallbackRelays values previous models = Inr saves"
  shows "length saves = length values \<and> length saves \<le> 4 \<and> distinct (List.map_filter sv_id saves) \<and>
    list_all (relay_safe previous models) saves"
  using assms by (auto simp: aiPrepareFallbackRelays_def ebind_Inr_iff dest: prepare_relays_ok split: if_splits)

theorem fallback_relays_safe_witness:
  "relay_safe [\<lparr>rl_id = js ''a'', rl_name = [], rl_base_url = js ''u'', rl_models = [], rl_enabled = True, rl_has_api_key = True\<rparr>]
     [js ''m''] \<lparr>sv_id = Some (js ''a''), sv_name = [], sv_base_url = js ''w'', sv_models = [js ''m''], sv_enabled = True,
       sv_api_key = js ''k'', sv_clear = False\<rparr>"
proof -
  have "aiPrepareFallbackRelays [\<lparr>rf_id = Some (js ''a''), rf_name = JUndef, rf_base_url = JStr (js ''w ''),
      rf_models = [js '' m''], rf_enabled = True, rf_api_key = JStr (js ''k''), rf_clear = False\<rparr>]
     [\<lparr>rl_id = js ''a'', rl_name = [], rl_base_url = js ''u'', rl_models = [], rl_enabled = True, rl_has_api_key = True\<rparr>]
     [js ''m''] = Inr [\<lparr>sv_id = Some (js ''a''), sv_name = [], sv_base_url = js ''w'', sv_models = [js ''m''], sv_enabled = True,
       sv_api_key = js ''k'', sv_clear = False\<rparr>]"
    by code_simp
  from fallback_relays_safe [OF this] show ?thesis by simp
qed

end
