(* ===== verification/AiSession.thy ===== *)
theory AiSession
  imports JsSet JsValue
begin

text \<open>
  The session half of \<open>pages/aiOpsModel.ts\<close>: the state of a conversation as the page holds it, the merge of
  server snapshots and of streamed drafts into it, and the grouping of messages and actions by turn.

  The code keeps a record that did not change as the same object, so that the page need not draw it again.
  A \<open>cell\<close> is therefore a value with its identity: \<open>Old a v\<close> is the object the page already holds under
  address \<open>a\<close> (or one that just came from the server), \<open>Fresh v\<close> one made by the running operation.
  Numbers the server sends as identifiers are \<open>int\<close>; counters that are checked or may be absent are
  numbers or options. Fields no function here looks at are kept in the \<open>rest\<close> of a record.
\<close>

section \<open>Objects and snapshots\<close>

datatype 'a cell = Old nat 'a | Fresh 'a

fun val :: "'a cell \<Rightarrow> 'a" where
  "val (Old a v) = v"
| "val (Fresh v) = v"

text \<open>\<open>===\<close> on objects.\<close>

fun same :: "'a cell \<Rightarrow> 'a cell \<Rightarrow> bool" where
  "same (Old a v) (Old b w) = (a = b)"
| "same _ _ = False"

lemma zip_left_smaller: "(x, y) \<in> set (zip xs ys) \<Longrightarrow> size x < Suc (size_list size xs)"
  using set_zip_leftD size_list_estimation' [of x xs "size x" size] by fastforce

lemma member_smaller: "(k, v) \<in> set obj \<Longrightarrow> size v < Suc (size_list (size_prod (\<lambda>x. 0) size) obj)"
  using size_list_estimation' [of "(k, v)" obj "size v" "size_prod (\<lambda>x. 0) size"] by simp

text \<open>
  \<open>aiSnapshotEqual\<close> on JSON values. The records below are compared by equality, which is this
  comparison for values with the fields of the record.
\<close>

function (sequential) aiSnapshotEqual :: "jsv \<Rightarrow> jsv \<Rightarrow> bool" where
  "aiSnapshotEqual (JArr xs) (JArr ys) =
     (length xs = length ys \<and> list_all (\<lambda>(x, y). aiSnapshotEqual x y) (zip xs ys))"
| "aiSnapshotEqual (JObj a) (JObj b) =
     (length a = length b \<and>
      list_all (\<lambda>(k, v). case map_of b k of None \<Rightarrow> False | Some w \<Rightarrow> aiSnapshotEqual v w) a)"
| "aiSnapshotEqual v w = (v = w)"
  by pat_completeness auto

termination
  by (relation "measure (\<lambda>(v, _). size v)") (auto dest: zip_left_smaller member_smaller)

section \<open>Records of a conversation\<close>

record ai_session =
  ses_id :: int
  ses_created_by :: int
  ses_status :: jstr
  ses_updated_at :: jnum
  ses_access_mode :: "jstr option"
  ses_access_version :: "jnum option"
  ses_full_access_by :: "int option"
  ses_rest :: jobj

record ai_message =
  msg_id :: int
  msg_session_id :: int
  msg_turn_id :: int
  msg_role :: jstr
  msg_content :: jstr
  msg_tool_calls :: "(jstr \<times> jstr) list" \<comment> \<open>identifier and function name; absent is empty\<close>
  msg_tool_call_id :: "jstr option"
  msg_rest :: jobj

record ai_turn =
  trn_id :: int
  trn_status :: jstr
  trn_draft_content :: "jstr option"
  trn_draft_round :: "jnum option"
  trn_draft_version :: "jnum option"
  trn_rest :: jobj

record ai_action =
  act_id :: int
  act_session_id :: int
  act_authorization_turn_id :: "int option"
  act_tool_call_id :: jstr
  act_status :: jstr
  act_expires_at :: jnum
  act_rest :: jobj

record ai_detail =
  det_session :: "ai_session cell"
  det_messages :: "ai_message cell list cell"
  det_turns :: "ai_turn cell list cell"
  det_actions :: "ai_action cell list cell"
  det_truncated :: bool

definition running :: jstr where
  "running = js ''running''"

definition aiActionStatus :: "ai_action \<Rightarrow> jnum \<Rightarrow> jstr" where
  "aiActionStatus action now =
     (if act_status action = js ''pending'' \<and> num_le (num_mul (act_expires_at action) (num 1000)) now
      then js ''expired'' else act_status action)"

definition aiCanApprove :: "ai_action \<Rightarrow> bool \<Rightarrow> jnum \<Rightarrow> bool" where
  "aiCanApprove action enabled now = (enabled \<and> aiActionStatus action now = js ''pending'')"

definition aiSessionBusy :: "ai_detail option \<Rightarrow> bool" where
  "aiSessionBusy detail = (case detail of
      None \<Rightarrow> False
    | Some d \<Rightarrow> ses_status (val (det_session d)) = running \<or>
        list_ex (\<lambda>t. trn_status (val t) = running) (val (det_turns d)) \<or>
        list_ex (\<lambda>a. act_status (val a) = running) (val (det_actions d)))"

definition aiAccessMode :: "ai_session option \<Rightarrow> jstr" where
  "aiAccessMode session =
     (if Option.bind session ses_access_mode = Some (js ''full'') then js ''full'' else js ''standard'')"

definition aiCanReadSession :: "ai_session \<Rightarrow> jnum \<Rightarrow> bool \<Rightarrow> bool" where
  "aiCanReadSession session actorID isAdmin =
     (isAdmin \<or> num_lt (num 0) actorID \<and> num_eq (num (ses_created_by session)) actorID)"

definition aiOwnsFullAccess :: "ai_session option \<Rightarrow> jnum \<Rightarrow> bool" where
  "aiOwnsFullAccess session actorID =
     (aiAccessMode session = js ''full'' \<and> num_lt (num 0) actorID \<and>
      map_option num (Option.bind session ses_full_access_by) = Some actorID)"

section \<open>Merging lists of records\<close>

text \<open>
  The loop of \<open>map\<close> in \<open>aiReuseSnapshotItems\<close>: \<open>sameOrder\<close> is its closure variable, \<open>key\<close> the field \<open>id\<close>.
  A \<open>Map\<close> built from a list keeps the last entry of a key.
\<close>

definition by_id :: "('a \<Rightarrow> int) \<Rightarrow> 'a cell list \<Rightarrow> int \<Rightarrow> 'a cell option" where
  "by_id key previous i = map_of (rev (map (\<lambda>c. (key (val c), c)) previous)) i"

definition reuse_item ::
    "('a \<Rightarrow> int) \<Rightarrow> ('a cell option \<Rightarrow> 'a cell \<Rightarrow> 'a cell) \<Rightarrow> 'a cell list \<Rightarrow> 'a cell \<Rightarrow> 'a cell" where
  "reuse_item key merge previous item =
     (let before = by_id key previous (key (val item)); candidate = merge before item
      in case before of
           Some b \<Rightarrow> if val b = val candidate then b else candidate
         | None \<Rightarrow> candidate)"

definition aiReuseSnapshotItems ::
    "('a \<Rightarrow> int) \<Rightarrow> ('a cell option \<Rightarrow> 'a cell \<Rightarrow> 'a cell) \<Rightarrow> 'a cell list cell \<Rightarrow> 'a cell list cell \<Rightarrow>
     'a cell list cell" where
  "aiReuseSnapshotItems key merge previous incoming =
     (if same previous incoming then previous
      else
        let next = map (reuse_item key merge (val previous)) (val incoming);
            sameOrder = (length (val previous) = length (val incoming) \<and>
              list_all (\<lambda>(v, p). same v p) (zip next (val previous)))
        in if sameOrder then previous else Fresh next)"

text \<open>Access: the newer of the two access versions wins.\<close>

definition aiMergeSessionAccess :: "ai_session cell option \<Rightarrow> ai_session cell \<Rightarrow> ai_session cell" where
  "aiMergeSessionAccess previous incoming =
     (case previous of
        None \<Rightarrow> incoming
      | Some p \<Rightarrow>
          if ses_id (val p) \<noteq> ses_id (val incoming) then incoming
          else
            let next =
              (if num_lt (num_or (case ses_access_version (val incoming) of None \<Rightarrow> NaN | Some v \<Rightarrow> v) (num 0))
                    (num_or (case ses_access_version (val p) of None \<Rightarrow> NaN | Some v \<Rightarrow> v) (num 0))
               then Fresh ((val incoming)\<lparr>ses_access_mode := ses_access_mode (val p),
                      ses_access_version := ses_access_version (val p),
                      ses_full_access_by := ses_full_access_by (val p)\<rparr>)
               else incoming)
            in if val p = val next then p else next)"

definition aiMergeSessionList :: "ai_session cell list cell \<Rightarrow> ai_session cell \<Rightarrow> ai_session cell list cell" where
  "aiMergeSessionList items incoming =
     (case find_index (\<lambda>item. ses_id (val item) = ses_id (val incoming)) (val items) of
        None \<Rightarrow> items
      | Some index \<Rightarrow>
          let session = aiMergeSessionAccess (Some (val items ! index)) incoming
          in if same session (val items ! index) then items
             else Fresh ((val items)[index := session]))"

section \<open>Drafts\<close>

record ai_draft =
  dr_session_id :: int
  dr_turn_id :: int
  dr_round :: jnum
  dr_content :: jsv
  dr_status :: "jstr option"
  dr_version :: "jnum option"

text \<open>\<open>n || 0\<close> for a number that may be absent.\<close>

definition or_zero :: "jnum option \<Rightarrow> jnum" where
  "or_zero n = num_or (case n of None \<Rightarrow> NaN | Some v \<Rightarrow> v) (num 0)"

definition draft_ok :: "ai_draft \<Rightarrow> bool" where
  "draft_ok draft \<longleftrightarrow> is_string (dr_content draft) \<and> is_integer (dr_round draft) \<and> \<not> num_lt (dr_round draft) (num 0)"

definition draft_text :: "ai_draft \<Rightarrow> jstr" where
  "draft_text draft = (case dr_content draft of JStr s \<Rightarrow> s | _ \<Rightarrow> [])"

definition versioned :: "ai_draft \<Rightarrow> bool" where
  "versioned draft \<longleftrightarrow> (case dr_version draft of None \<Rightarrow> False | Some v \<Rightarrow> is_safe v \<and> num_le (num 0) v)"

definition outdated :: "ai_turn \<Rightarrow> ai_draft \<Rightarrow> bool" where
  "outdated turn draft \<longleftrightarrow>
     (if versioned draft then num_lt (the (dr_version draft)) (or_zero (trn_draft_version turn))
      else num_lt (dr_round draft) (or_zero (trn_draft_round turn)))"

definition finished :: "ai_draft \<Rightarrow> bool" where
  "finished draft \<longleftrightarrow> (case dr_status draft of None \<Rightarrow> False | Some s \<Rightarrow> s \<noteq> [] \<and> s \<noteq> running)"

definition next_version :: "ai_turn \<Rightarrow> ai_draft \<Rightarrow> jnum option" where
  "next_version turn draft = (case dr_version draft of None \<Rightarrow> trn_draft_version turn | Some v \<Rightarrow> Some v)"

definition aiApplyTurnDraft :: "ai_turn cell \<Rightarrow> ai_draft \<Rightarrow> ai_turn cell" where
  "aiApplyTurnDraft turn draft =
     (let t = val turn; keep = (\<lambda>next. if t = next then turn else Fresh next)
      in if trn_status t \<noteq> running \<or> \<not> draft_ok draft then turn
         else if outdated t draft then turn
         else if finished draft then
           keep (t\<lparr>trn_status := the (dr_status draft), trn_draft_content := Some [],
                   trn_draft_version := next_version t draft\<rparr>)
         else if \<not> versioned draft \<and> num_eq (dr_round draft) (or_zero (trn_draft_round t)) \<and>
              length (draft_text draft) < length (case trn_draft_content t of None \<Rightarrow> [] | Some s \<Rightarrow> s) then turn
         else keep (t\<lparr>trn_draft_round := Some (dr_round draft), trn_draft_content := Some (draft_text draft),
                      trn_draft_version := next_version t draft\<rparr>))"

definition aiApplyDraft :: "ai_detail cell option \<Rightarrow> ai_draft \<Rightarrow> ai_detail cell option" where
  "aiApplyDraft detail draft =
     (case detail of
        None \<Rightarrow> None
      | Some d \<Rightarrow>
          if dr_session_id draft \<noteq> ses_id (val (det_session (val d))) \<or> \<not> draft_ok draft then detail
          else (case find_index (\<lambda>item. trn_id (val item) = dr_turn_id draft) (val (det_turns (val d))) of
                  None \<Rightarrow> detail
                | Some index \<Rightarrow>
                    let old = val (det_turns (val d)) ! index; turn = aiApplyTurnDraft old draft
                    in if same turn old then detail
                       else Some (Fresh ((val d)\<lparr>det_turns := Fresh ((val (det_turns (val d)))[index := turn])\<rparr>))))"

section \<open>Merging snapshots\<close>

text \<open>The callback for turns: a draft that is ahead of the snapshot is applied to the snapshot's turn.\<close>

definition merge_turn :: "int \<Rightarrow> ai_turn cell option \<Rightarrow> ai_turn cell \<Rightarrow> ai_turn cell" where
  "merge_turn session before incoming =
     (case before of
        None \<Rightarrow> incoming
      | Some b \<Rightarrow>
          let t = val b
          in if trn_status t \<noteq> running \<or> trn_status (val incoming) \<noteq> running then incoming
             else if (case trn_draft_version t of None \<Rightarrow> False
                      | Some v \<Rightarrow> num_le v (or_zero (trn_draft_version (val incoming)))) then incoming
             else if (case trn_draft_content t of None \<Rightarrow> False | Some s \<Rightarrow> s \<noteq> []) \<or> trn_draft_version t \<noteq> None
               then aiApplyTurnDraft incoming
                 \<lparr>dr_session_id = session, dr_turn_id = trn_id t, dr_round = or_zero (trn_draft_round t),
                  dr_content = JStr (case trn_draft_content t of None \<Rightarrow> [] | Some s \<Rightarrow> s),
                  dr_status = None, dr_version = trn_draft_version t\<rparr>
             else incoming)"

definition deep :: "ai_detail \<Rightarrow> ai_session \<times> ai_message list \<times> ai_turn list \<times> ai_action list \<times> bool" where
  "deep d = (val (det_session d), map val (val (det_messages d)), map val (val (det_turns d)),
     map val (val (det_actions d)), det_truncated d)"

definition no_merge :: "'a cell option \<Rightarrow> 'a cell \<Rightarrow> 'a cell" where
  "no_merge before incoming = incoming"

definition aiMergeSnapshot :: "ai_detail cell option \<Rightarrow> ai_detail cell \<Rightarrow> ai_detail cell" where
  "aiMergeSnapshot previous incoming =
     (case previous of
        None \<Rightarrow> incoming
      | Some p \<Rightarrow>
          if ses_id (val (det_session (val p))) \<noteq> ses_id (val (det_session (val incoming))) then incoming
          else
            let old = val p; new = val incoming;
                next = new\<lparr>
                  det_session := aiMergeSessionAccess (Some (det_session old)) (det_session new),
                  det_messages := aiReuseSnapshotItems msg_id no_merge (det_messages old) (det_messages new),
                  det_actions := aiReuseSnapshotItems act_id no_merge (det_actions old) (det_actions new),
                  det_turns := aiReuseSnapshotItems trn_id (merge_turn (ses_id (val (det_session new))))
                    (det_turns old) (det_turns new)\<rparr>
            in if deep old = deep next then p else Fresh next)"

section \<open>What the page shows\<close>

definition aiLatestTurn :: "ai_turn cell list \<Rightarrow> ai_turn cell option" where
  "aiLatestTurn turns = fold (\<lambda>turn latest. case latest of
      None \<Rightarrow> Some turn
    | Some l \<Rightarrow> if trn_id (val l) < trn_id (val turn) then Some turn else latest) turns None"

definition aiVisibleDraft :: "ai_detail option \<Rightarrow> ai_turn cell option" where
  "aiVisibleDraft detail =
     (case detail of
        None \<Rightarrow> None
      | Some d \<Rightarrow>
          (case aiLatestTurn (val (det_turns d)) of
             None \<Rightarrow> None
           | Some turn \<Rightarrow>
               let content = (case trn_draft_content (val turn) of None \<Rightarrow> [] | Some s \<Rightarrow> s)
               in if trn_status (val turn) \<noteq> running \<or> content = [] then None
                  else if list_ex (\<lambda>m. msg_turn_id (val m) = trn_id (val turn) \<and> msg_role (val m) = js ''assistant'' \<and>
                       msg_content (val m) = content) (val (det_messages d)) then None
                  else Some turn))"

text \<open>The loop of \<open>aiToolResultName\<close>, over the messages before the result, latest first.\<close>

fun tool_name_back :: "ai_message \<Rightarrow> ai_message list \<Rightarrow> jstr" where
  "tool_name_back result [] = []"
| "tool_name_back result (m # ms) =
     (if msg_session_id m \<noteq> msg_session_id result \<or> msg_turn_id m \<noteq> msg_turn_id result \<or>
         msg_role m \<noteq> js ''assistant'' then tool_name_back result ms
      else if msg_tool_calls m \<noteq> [] then
        (case List.find (\<lambda>(i, _). Some i = msg_tool_call_id result) (msg_tool_calls m) of
           None \<Rightarrow> [] | Some (_, name) \<Rightarrow> name)
      else tool_name_back result ms)"

definition aiToolResultName :: "ai_message list \<Rightarrow> nat \<Rightarrow> jstr" where
  "aiToolResultName messages index =
     (if length messages \<le> index then []
      else let result = messages ! index
           in if msg_role result \<noteq> js ''tool'' \<or> msg_tool_call_id result = None \<or> msg_tool_call_id result = Some [] then []
              else tool_name_back result (rev (take index messages)))"

record key_event =
  ke_key :: jstr
  ke_shift :: bool
  ke_ctrl :: bool
  ke_alt :: bool
  ke_meta :: bool
  ke_repeat :: bool
  ke_composing :: bool
  ke_code :: "jnum option"

definition aiShouldSendKey :: "key_event \<Rightarrow> bool \<Rightarrow> bool" where
  "aiShouldSendKey event composing =
     (ke_key event = js ''Enter'' \<and> \<not> ke_shift event \<and> \<not> ke_ctrl event \<and> \<not> ke_alt event \<and> \<not> ke_meta event \<and>
      \<not> ke_repeat event \<and> \<not> ke_composing event \<and> ke_code event \<noteq> Some (num 229) \<and> \<not> composing)"

definition aiNearBottom :: "jnum \<Rightarrow> jnum \<Rightarrow> jnum \<Rightarrow> bool" where
  "aiNearBottom scrollTop clientHeight scrollHeight =
     num_le (num_sub (num_sub scrollHeight scrollTop) clientHeight) (num 80)"

section \<open>Drafts in any order\<close>

text \<open>What a running, numbered draft does to a running turn.\<close>

definition settle :: "ai_draft \<Rightarrow> ai_turn \<Rightarrow> ai_turn" where
  "settle draft t =
     (if num_lt (the (dr_version draft)) (or_zero (trn_draft_version t)) then t
      else t\<lparr>trn_draft_round := Some (dr_round draft), trn_draft_content := Some (draft_text draft),
             trn_draft_version := dr_version draft\<rparr>)"

definition live_draft :: "ai_draft \<Rightarrow> bool" where
  "live_draft draft \<longleftrightarrow> draft_ok draft \<and> versioned draft \<and> \<not> finished draft"

lemma versionedE:
  assumes "versioned draft"
  obtains i where "dr_version draft = Some (num i)" "0 \<le> i" "i \<le> max_safe"
proof -
  obtain v where v: "dr_version draft = Some v" "is_safe v" "num_le (num 0) v"
    using assms by (auto simp: versioned_def split: option.splits)
  then obtain i where "v = num i" "\<bar>i\<bar> \<le> max_safe" by (auto elim: is_safeE)
  then show ?thesis using that [of i] v by simp
qed

lemma val_apply_live:
  assumes "live_draft draft" "trn_status (val t) = running"
  shows "val (aiApplyTurnDraft t draft) = settle draft (val t)"
proof -
  obtain i where "dr_version draft = Some (num i)"
    using assms(1) versionedE by (auto simp: live_draft_def)
  then show ?thesis
    using assms by (auto simp: aiApplyTurnDraft_def Let_def live_draft_def settle_def outdated_def next_version_def)
qed

lemma settle_status [simp]: "trn_status (settle draft t) = trn_status t"
  by (simp add: settle_def)

lemma fold_apply_live:
  assumes "\<forall>d \<in> set ds. live_draft d" "trn_status (val t) = running"
  shows "val (fold (\<lambda>d c. aiApplyTurnDraft c d) ds t) = fold settle ds (val t)"
  using assms
proof (induction ds arbitrary: t)
  case (Cons d ds)
  then show ?case by (simp add: val_apply_live)
qed simp

lemma or_zero_num [simp]: "or_zero (Some (num i)) = num i" "or_zero None = num 0"
  by (simp_all add: or_zero_def)

lemma settle_commute:
  assumes "dr_version d = Some (num i)" "dr_version e = Some (num j)" "i \<noteq> j"
  shows "settle d (settle e t) = settle e (settle d t)"
proof -
  have asym: "num_lt a (num j) \<Longrightarrow> \<not> num_lt a (num i) \<Longrightarrow> i < j" "num_lt a (num i) \<Longrightarrow> \<not> num_lt a (num j) \<Longrightarrow> j < i"
    "num_lt (num i) a \<Longrightarrow> \<not> num_lt (num j) a \<Longrightarrow> i < j" "num_lt (num j) a \<Longrightarrow> \<not> num_lt (num i) a \<Longrightarrow> j < i" for a
    by (cases a; auto simp: num_def)+
  then show ?thesis using assms by (auto simp: settle_def)
qed

lemma settle_version:
  assumes "dr_version d = Some (num i)" "or_zero (trn_draft_version t) = num k"
  shows "\<exists>m. or_zero (trn_draft_version (settle d t)) = num m \<and> k \<le> m \<and> i \<le> m"
  using assms by (auto simp: settle_def)

text \<open>C28: the drafts of a running turn may arrive in any order: numbered drafts with different
  numbers leave the turn with the same text, round and number whatever the order they are applied in.\<close>

theorem drafts_any_order:
  assumes "\<forall>d \<in> set ds. live_draft d" "inj_on dr_version (set ds)" "mset ds = mset es"
    "trn_status (val t) = running"
  shows "val (fold (\<lambda>d c. aiApplyTurnDraft c d) ds t) = val (fold (\<lambda>d c. aiApplyTurnDraft c d) es t)"
proof -
  have "settle d \<circ> settle e = settle e \<circ> settle d" if "d \<in> set ds" "e \<in> set ds" for d e
  proof (cases "d = e")
    case False
    have "versioned d" "versioned e" using assms(1) that by (auto simp: live_draft_def)
    then obtain i j where "dr_version d = Some (num i)" "dr_version e = Some (num j)" by (metis versionedE)
    moreover have "i \<noteq> j" using inj_onD [OF assms(2), of d e] that False calculation by auto
    ultimately show ?thesis using settle_commute by (auto simp: fun_eq_iff)
  qed simp
  then have "fold settle ds = fold settle es" using assms(3) by (rule fold_multiset_equiv)
  moreover have "set es = set ds" using assms(3) by (metis mset_eq_setD)
  ultimately show ?thesis using assms(1,4) by (simp add: fold_apply_live)
qed

definition demo_draft :: "int \<Rightarrow> ai_draft" where
  "demo_draft i = \<lparr>dr_session_id = 1, dr_turn_id = 2, dr_round = num 0, dr_content = JStr (int_str i),
     dr_status = None, dr_version = Some (num i)\<rparr>"

definition demo_turn :: "ai_turn" where
  "demo_turn = \<lparr>trn_id = 2, trn_status = running, trn_draft_content = None, trn_draft_round = None,
     trn_draft_version = None, trn_rest = []\<rparr>"

theorem drafts_any_order_witness:
  "trn_draft_content (val (fold (\<lambda>d c. aiApplyTurnDraft c d) [demo_draft 7, demo_draft 5] (Old 0 demo_turn))) =
     Some (int_str 7)"
proof -
  have live: "\<forall>d \<in> set [demo_draft 5, demo_draft 7]. live_draft d"
    by (simp add: live_draft_def draft_ok_def versioned_def finished_def demo_draft_def max_safe_def)
  have "inj_on dr_version (set [demo_draft 5, demo_draft 7])" by (simp add: inj_on_def demo_draft_def)
  from drafts_any_order [OF live this, of "[demo_draft 7, demo_draft 5]" "Old 0 demo_turn"]
  show ?thesis
    using fold_apply_live [OF live, of "Old 0 demo_turn"]
    by (simp add: demo_turn_def settle_def demo_draft_def draft_text_def)
qed

section \<open>A snapshot never takes a draft back\<close>

text \<open>
  The abstract merge: of a turn that runs in both, the draft with the higher number; of the session, the
  access rights with the higher number; everything else from the server.
\<close>

definition newer_draft :: "ai_turn option \<Rightarrow> ai_turn \<Rightarrow> ai_turn" where
  "newer_draft before t =
     (case before of
        None \<Rightarrow> t
      | Some b \<Rightarrow>
          if trn_status b = running \<and> trn_status t = running \<and>
             num_lt (or_zero (trn_draft_version t)) (or_zero (trn_draft_version b))
          then t\<lparr>trn_draft_round := Some (or_zero (trn_draft_round b)),
                 trn_draft_content := Some (case trn_draft_content b of None \<Rightarrow> [] | Some s \<Rightarrow> s),
                 trn_draft_version := trn_draft_version b\<rparr>
          else t)"

definition newer_access :: "ai_session \<Rightarrow> ai_session \<Rightarrow> ai_session" where
  "newer_access p n =
     (if num_lt (or_zero (ses_access_version n)) (or_zero (ses_access_version p))
      then n\<lparr>ses_access_mode := ses_access_mode p, ses_access_version := ses_access_version p,
             ses_full_access_by := ses_full_access_by p\<rparr>
      else n)"

definition held_turn :: "ai_turn list \<Rightarrow> int \<Rightarrow> ai_turn option" where
  "held_turn turns i = map_of (rev (map (\<lambda>t. (trn_id t, t)) turns)) i"

definition merged :: "ai_detail \<Rightarrow> ai_detail \<Rightarrow> ai_session \<times> ai_message list \<times> ai_turn list \<times> ai_action list \<times> bool" where
  "merged old new =
     (newer_access (val (det_session old)) (val (det_session new)),
      map val (val (det_messages new)),
      map (\<lambda>t. newer_draft (held_turn (map val (val (det_turns old))) (trn_id t)) t) (map val (val (det_turns new))),
      map val (val (det_actions new)), det_truncated new)"

text \<open>Objects under one address have one value.\<close>

definition agree :: "'a cell list \<Rightarrow> 'a cell list \<Rightarrow> bool" where
  "agree xs ys \<longleftrightarrow> (\<forall>c \<in> set xs. \<forall>d \<in> set ys. same c d \<longrightarrow> val c = val d)"

definition linked_list :: "'a cell list cell \<Rightarrow> 'a cell list cell \<Rightarrow> bool" where
  "linked_list old new \<longleftrightarrow>
     agree (val new) (val old) \<and> agree (val old) (val old) \<and> (same old new \<longrightarrow> val old = val new)"

definition linked :: "ai_detail \<Rightarrow> ai_detail \<Rightarrow> bool" where
  "linked old new \<longleftrightarrow> linked_list (det_messages old) (det_messages new) \<and>
     linked_list (det_turns old) (det_turns new) \<and> linked_list (det_actions old) (det_actions new)"

text \<open>The server numbers every draft it holds, and rounds are natural numbers.\<close>

definition turn_ok :: "ai_turn \<Rightarrow> bool" where
  "turn_ok t \<longleftrightarrow>
     (case trn_draft_version t of
        None \<Rightarrow> trn_draft_content t = None \<or> trn_draft_content t = Some []
      | Some v \<Rightarrow> is_safe v \<and> num_le (num 0) v) \<and>
     (case trn_draft_round t of None \<Rightarrow> True | Some r \<Rightarrow> is_safe r \<and> num_le (num 0) r)"

lemma by_id_val: "map_option val (by_id key cs i) = map_of (rev (map (\<lambda>c. (key c, c)) (map val cs))) i"
proof -
  have "map_of (map (\<lambda>(k, c). (k, val c)) xs) i = map_option val (map_of xs i)" for xs
    by (induction xs) auto
  from this [of "rev (map (\<lambda>c. (key (val c), c)) cs)"] show ?thesis
    by (simp add: by_id_def rev_map comp_def)
qed

lemma by_id_in: "by_id key cs i = Some c \<Longrightarrow> c \<in> set cs \<and> key (val c) = i"
  unfolding by_id_def by (auto dest!: map_of_SomeD)

lemma val_reuse_item: "val (reuse_item key merge prev item) = val (merge (by_id key prev (key (val item))) item)"
  by (auto simp: reuse_item_def Let_def split: option.split)

lemma reuse_values:
  assumes "linked_list old new"
    and fresh: "\<And>b c. c \<in> set (val new) \<Longrightarrow> merge b c = c \<or> (\<exists>v. merge b c = Fresh v)"
    and unchanged: "\<And>b c. c \<in> set (val new) \<Longrightarrow> by_id key (val new) (key (val c)) = Some b \<Longrightarrow> val (merge (Some b) c) = val c"
  shows "map val (val (aiReuseSnapshotItems key merge old new)) =
    map (\<lambda>c. val (merge (by_id key (val old) (key (val c))) c)) (val new)"
proof (cases "same old new")
  case True
  then have eq: "val old = val new" using assms(1) by (simp add: linked_list_def)
  have "val (merge (by_id key (val new) (key (val c))) c) = val c" if "c \<in> set (val new)" for c
  proof (cases "by_id key (val new) (key (val c))")
    case None
    then have False using that by (auto simp: by_id_def map_of_eq_None_iff image_iff)
    then show ?thesis ..
  qed (use unchanged that in simp)
  then show ?thesis using True eq by (simp add: aiReuseSnapshotItems_def)
next
  case False
  let ?next = "map (reuse_item key merge (val old)) (val new)"
  have vals: "map val ?next = map (\<lambda>c. val (merge (by_id key (val old) (key (val c))) c)) (val new)"
    by (simp add: val_reuse_item)
  have "agree ?next (val old)"
    unfolding agree_def
  proof (intro ballI impI)
    fix v p assume v: "v \<in> set ?next" "p \<in> set (val old)" "same v p"
    then obtain c where c: "c \<in> set (val new)" "v = reuse_item key merge (val old) c" by auto
    let ?b = "by_id key (val old) (key (val c))"
    have "v = merge ?b c \<or> ?b = Some v"
      by (auto simp: c(2) reuse_item_def Let_def split: option.split)
    then consider "v \<in> set (val old)" | "v = c" | w where "v = Fresh w"
      using fresh [OF c(1), of ?b] by_id_in [of key "val old" "key (val c)" v] by blast
    then show "val v = val p"
      using v(2,3) c(1) assms(1) by cases (auto simp: linked_list_def agree_def)
  qed
  moreover have "map val ?next = map val (val old)"
    if "length (val old) = length (val new)" "list_all (\<lambda>(v, p). same v p) (zip ?next (val old))"
    using calculation that
    by (intro nth_equalityI) (auto simp: list_all_length agree_def)
  ultimately have "map val (val (aiReuseSnapshotItems key merge old new)) = map val ?next"
    using False by (simp add: aiReuseSnapshotItems_def Let_def del: map_map)
  then show ?thesis using vals by simp
qed

lemma apply_turn_draft_identity: "aiApplyTurnDraft t d = t \<or> (\<exists>v. aiApplyTurnDraft t d = Fresh v)"
  by (simp add: aiApplyTurnDraft_def Let_def)

lemma merge_turn_identity: "merge_turn s b c = c \<or> (\<exists>v. merge_turn s b c = Fresh v)"
  using apply_turn_draft_identity by (auto simp: merge_turn_def Let_def split: option.split)

lemma or_zero_safe:
  assumes "case n of None \<Rightarrow> True | Some v \<Rightarrow> is_safe v \<and> num_le (num 0) v"
  obtains i where "or_zero n = num i" "0 \<le> i" "n = None \<and> i = 0 \<or> n = Some (num i)"
proof (cases n)
  case None
  then show ?thesis using that [of 0] by simp
next
  case (Some v)
  then obtain i where "v = num i" using assms by (auto elim: is_safeE)
  then show ?thesis using that [of i] assms Some by simp
qed

lemma val_merge_turn:
  assumes "turn_ok (val c)" "\<And>t. b = Some t \<Longrightarrow> turn_ok (val t)"
  shows "val (merge_turn s b c) = newer_draft (map_option val b) (val c)"
proof (cases b)
  case None
  then show ?thesis by (simp add: merge_turn_def newer_draft_def)
next
  case (Some t)
  have "case trn_draft_version (val c) of None \<Rightarrow> True | Some v \<Rightarrow> is_safe v \<and> num_le (num 0) v"
    using assms(1) by (auto simp: turn_ok_def split: option.splits)
  then obtain j where j: "or_zero (trn_draft_version (val c)) = num j" "0 \<le> j" by (rule or_zero_safe)
  have t: "turn_ok (val t)" using assms(2) Some by simp
  have "case trn_draft_version (val t) of None \<Rightarrow> True | Some v \<Rightarrow> is_safe v \<and> num_le (num 0) v"
    "case trn_draft_round (val t) of None \<Rightarrow> True | Some v \<Rightarrow> is_safe v \<and> num_le (num 0) v"
    using t by (auto simp: turn_ok_def split: option.splits)
  then obtain i r where i: "or_zero (trn_draft_version (val t)) = num i"
      "trn_draft_version (val t) = None \<and> i = 0 \<or> trn_draft_version (val t) = Some (num i)"
    and r: "or_zero (trn_draft_round (val t)) = num r" "0 \<le> r"
    by (elim or_zero_safe)
  have safe: "trn_draft_version (val t) \<noteq> None \<Longrightarrow> 0 \<le> i \<and> i \<le> max_safe"
    using t i(2) by (auto simp: turn_ok_def)
  show ?thesis
  proof (cases "trn_status (val t) = running \<and> trn_status (val c) = running \<and> j < i")
    case True
    then have v: "trn_draft_version (val t) = Some (num i)" using i(2) j(2) by auto
    let ?d = "\<lparr>dr_session_id = s, dr_turn_id = trn_id (val t), dr_round = num r,
      dr_content = JStr (case trn_draft_content (val t) of None \<Rightarrow> [] | Some s \<Rightarrow> s),
      dr_status = None, dr_version = Some (num i)\<rparr>"
    have "live_draft ?d"
      using safe v r(2) by (simp add: live_draft_def draft_ok_def versioned_def finished_def)
    then show ?thesis
      using True v j r by (simp add: merge_turn_def newer_draft_def Some Let_def val_apply_live settle_def draft_text_def)
  next
    case False
    have "trn_draft_version (val t) = None \<Longrightarrow> (case trn_draft_content (val t) of None \<Rightarrow> False | Some s \<Rightarrow> s \<noteq> []) = False"
      using t by (auto simp: turn_ok_def)
    then show ?thesis
      using False i j by (auto simp: merge_turn_def newer_draft_def Some Let_def)
  qed
qed

lemma val_merge_access:
  "ses_id (val p) = ses_id (val n) \<Longrightarrow> val (aiMergeSessionAccess (Some p) n) = newer_access (val p) (val n)"
  by (simp add: aiMergeSessionAccess_def newer_access_def or_zero_def Let_def)

lemma by_id_distinct:
  assumes "distinct (map (key \<circ> val) cs)" "c \<in> set cs" "by_id key cs (key (val c)) = Some b"
  shows "b = c"
  using by_id_in [OF assms(3)] assms(1,2) using inj_onD [of "key \<circ> val" "set cs" b c] by (auto simp: distinct_map)

definition detail_ok :: "ai_detail \<Rightarrow> bool" where
  "detail_ok d \<longleftrightarrow> list_all (\<lambda>c. turn_ok (val c)) (val (det_turns d)) \<and>
     distinct (map (trn_id \<circ> val) (val (det_turns d)))"

lemma newer_draft_self: "newer_draft (Some t) t = t"
proof -
  have "\<not> num_lt a a" for a by (cases a) auto
  then show ?thesis by (simp add: newer_draft_def)
qed

lemma plain_values:
  "linked_list old new \<Longrightarrow> map val (val (aiReuseSnapshotItems key no_merge old new)) = map val (val new)"
  using reuse_values [of old new no_merge key] by (simp add: no_merge_def)

lemma turn_values:
  assumes "linked_list old new" "list_all (\<lambda>c. turn_ok (val c)) (val new)" "list_all (\<lambda>c. turn_ok (val c)) (val old)"
    "distinct (map (trn_id \<circ> val) (val new))"
  shows "map val (val (aiReuseSnapshotItems trn_id (merge_turn s) old new)) =
    map (\<lambda>t. newer_draft (held_turn (map val (val old)) (trn_id t)) t) (map val (val new))"
proof -
  have ok: "turn_ok (val c)" if "c \<in> set (val new) \<or> c \<in> set (val old)" for c
    using assms(2,3) that by (auto simp: list_all_iff)
  have "map val (val (aiReuseSnapshotItems trn_id (merge_turn s) old new)) =
      map (\<lambda>c. val (merge_turn s (by_id trn_id (val old) (trn_id (val c))) c)) (val new)"
  proof (rule reuse_values [OF assms(1)])
    fix b c assume c: "c \<in> set (val new)" "by_id trn_id (val new) (trn_id (val c)) = Some b"
    then have "b = c" using by_id_distinct [OF assms(4)] by blast
    then show "val (merge_turn s (Some b) c) = val c"
      using ok c(1) by (subst val_merge_turn) (auto simp: newer_draft_self)
  qed (rule merge_turn_identity)
  also have "\<dots> = map (\<lambda>c. newer_draft (held_turn (map val (val old)) (trn_id (val c))) (val c)) (val new)"
  proof (rule map_cong [OF refl])
    fix c assume "c \<in> set (val new)"
    then show "val (merge_turn s (by_id trn_id (val old) (trn_id (val c))) c) =
        newer_draft (held_turn (map val (val old)) (trn_id (val c))) (val c)"
      using ok by_id_in [of trn_id "val old"] by (subst val_merge_turn) (auto simp: held_turn_def by_id_val)
  qed
  finally show ?thesis by simp
qed

text \<open>C3: merging a snapshot of the server into the page's state has the values of the abstract merge
  \<open>merged\<close> (no draft and no access right goes back to an older number), and a snapshot that brings nothing new
  gives back the very object the page holds.\<close>

theorem snapshot_merge:
  assumes "ses_id (val (det_session (val p))) = ses_id (val (det_session (val n)))"
    "linked (val p) (val n)" "detail_ok (val p)" "detail_ok (val n)"
  shows "deep (val (aiMergeSnapshot (Some p) n)) = merged (val p) (val n) \<and>
    (merged (val p) (val n) = deep (val p) \<longrightarrow> aiMergeSnapshot (Some p) n = p)"
proof -
  let ?next = "(val n)\<lparr>
    det_session := aiMergeSessionAccess (Some (det_session (val p))) (det_session (val n)),
    det_messages := aiReuseSnapshotItems msg_id no_merge (det_messages (val p)) (det_messages (val n)),
    det_actions := aiReuseSnapshotItems act_id no_merge (det_actions (val p)) (det_actions (val n)),
    det_turns := aiReuseSnapshotItems trn_id (merge_turn (ses_id (val (det_session (val n)))))
      (det_turns (val p)) (det_turns (val n))\<rparr>"
  have "deep ?next = merged (val p) (val n)"
    using assms turn_values
    by (simp add: deep_def merged_def linked_def detail_ok_def plain_values val_merge_access del: map_map)
  moreover have "aiMergeSnapshot (Some p) n = (if deep (val p) = deep ?next then p else Fresh ?next)"
    using assms(1) by (simp add: aiMergeSnapshot_def Let_def)
  ultimately show ?thesis by auto
qed

definition demo_detail :: "nat \<Rightarrow> ai_turn \<Rightarrow> ai_detail" where
  "demo_detail a t = \<lparr>det_session = Old a \<lparr>ses_id = 1, ses_created_by = 1, ses_status = running, ses_updated_at = num 0,
       ses_access_mode = None, ses_access_version = None, ses_full_access_by = None, ses_rest = []\<rparr>,
     det_messages = Old a [], det_turns = Old a [Old a t], det_actions = Old a [], det_truncated = False\<rparr>"

text \<open>A streamed draft numbered 7, and a snapshot that still has draft 5.\<close>

theorem snapshot_merge_witness:
  "map (\<lambda>c. trn_draft_content (val c)) (val (det_turns (val (aiMergeSnapshot
     (Some (Old 0 (demo_detail 0 (settle (demo_draft 7) demo_turn))))
     (Old 1 (demo_detail 1 (settle (demo_draft 5) demo_turn))))))) = [Some (int_str 7)]"
proof -
  let ?p = "Old 0 (demo_detail 0 (settle (demo_draft 7) demo_turn))"
  let ?n = "Old 1 (demo_detail 1 (settle (demo_draft 5) demo_turn))"
  have "linked (val ?p) (val ?n)"
    by (simp add: linked_def linked_list_def agree_def demo_detail_def)
  moreover have "detail_ok (val ?p)" "detail_ok (val ?n)"
    by (simp_all add: detail_ok_def demo_detail_def turn_ok_def settle_def demo_draft_def demo_turn_def max_safe_def)
  moreover have "ses_id (val (det_session (val ?p))) = ses_id (val (det_session (val ?n)))"
    by (simp add: demo_detail_def)
  ultimately have "deep (val (aiMergeSnapshot (Some ?p) ?n)) = merged (val ?p) (val ?n)"
    using snapshot_merge by blast
  then have "fst (snd (snd (deep (val (aiMergeSnapshot (Some ?p) ?n))))) = fst (snd (snd (merged (val ?p) (val ?n))))"
    by (rule arg_cong)
  then have "map val (val (det_turns (val (aiMergeSnapshot (Some ?p) ?n)))) = fst (snd (snd (merged (val ?p) (val ?n))))"
    unfolding deep_def fst_conv snd_conv .
  also have "\<dots> = [settle (demo_draft 7) demo_turn]"
    by (simp add: merged_def demo_detail_def held_turn_def newer_draft_def settle_def demo_draft_def demo_turn_def draft_text_def)
  finally show ?thesis by (auto simp: settle_def demo_draft_def demo_turn_def draft_text_def)
qed

end
