(* ===== verification/AiConversation.thy ===== *)
theory AiConversation
  imports AiSession JsNumText
begin

text \<open>
  \<open>aiConversationTurns\<close> of \<open>pages/aiOpsModel.ts\<close>: the messages and the actions of a session, grouped by the
  turn they belong to.
\<close>

record conv_turn =
  cv_key :: jstr
  cv_turn_id :: int
  cv_messages :: "ai_message list"
  cv_actions :: "ai_action list"
  cv_turn :: "ai_turn option"

text \<open>The insertion-ordered map \<open>groups\<close>: a group is made when its turn is first asked for.\<close>

definition new_group :: "ai_detail \<Rightarrow> int \<Rightarrow> conv_turn" where
  "new_group detail turnID =
     \<lparr>cv_key = int_str (ses_id (val (det_session detail))) @ [58] @ int_str turnID, cv_turn_id = turnID,
      cv_messages = [], cv_actions = [], cv_turn = held_turn (map val (val (det_turns detail))) turnID\<rparr>"

fun in_group :: "ai_detail \<Rightarrow> int \<Rightarrow> (conv_turn \<Rightarrow> conv_turn) \<Rightarrow> conv_turn list \<Rightarrow> conv_turn list" where
  "in_group detail turnID f [] = [f (new_group detail turnID)]"
| "in_group detail turnID f (g # gs) =
     (if cv_turn_id g = turnID then f g # gs else g # in_group detail turnID f gs)"

definition push_message :: "ai_message \<Rightarrow> conv_turn \<Rightarrow> conv_turn" where
  "push_message m g = g\<lparr>cv_messages := cv_messages g @ [m]\<rparr>"

definition push_action :: "ai_action \<Rightarrow> conv_turn \<Rightarrow> conv_turn" where
  "push_action a g = g\<lparr>cv_actions := cv_actions g @ [a]\<rparr>"

text \<open>The map \<open>callTurns\<close>: for every tool call, the turns whose messages made it.\<close>

type_synonym call_turns = "jstr \<Rightarrow> int jset"

definition note_calls :: "ai_message \<Rightarrow> call_turns \<Rightarrow> call_turns" where
  "note_calls m = fold (\<lambda>(i, _) calls. calls(i := set_add (msg_turn_id m) (calls i))) (msg_tool_calls m)"

definition add_message :: "ai_detail \<Rightarrow> ai_message \<Rightarrow> conv_turn list \<times> call_turns \<Rightarrow> conv_turn list \<times> call_turns" where
  "add_message detail m = (\<lambda>(groups, calls).
     (if msg_session_id m \<noteq> ses_id (val (det_session detail)) then (groups, calls)
      else (in_group detail (msg_turn_id m) (push_message m) groups, note_calls m calls)))"

text \<open>\<open>Number(/^turn:(\d+):/.exec(id)?.[1] || 0)\<close>.\<close>

definition namespaced_turn :: "jstr \<Rightarrow> jnum" where
  "namespaced_turn i =
     (let digits = takeWhile is_digit (drop 5 i); rest = dropWhile is_digit (drop 5 i)
      in if starts_with i (js ''turn:'') \<and> digits \<noteq> [] \<and> rest \<noteq> [] \<and> hd rest = 58 then str_num digits else num 0)"

definition action_turn :: "ai_detail \<Rightarrow> call_turns \<Rightarrow> ai_action \<Rightarrow> int" where
  "action_turn detail calls a =
     (let authorized = (case act_authorization_turn_id a of None \<Rightarrow> 0 | Some i \<Rightarrow> i);
          namespaced = namespaced_turn (act_tool_call_id a); matching = calls (act_tool_call_id a)
      in if positive_id (num authorized) then authorized
         else if positive_id namespaced then int_of namespaced
         else if \<not> det_truncated detail \<and> length matching = 1 then hd matching
         else 0)"

definition add_action :: "ai_detail \<Rightarrow> call_turns \<Rightarrow> ai_action \<Rightarrow> conv_turn list \<Rightarrow> conv_turn list" where
  "add_action detail calls a groups =
     (if act_session_id a \<noteq> ses_id (val (det_session detail)) then groups
      else in_group detail (action_turn detail calls a) (push_action a) groups)"

definition add_running :: "ai_detail \<Rightarrow> ai_turn \<Rightarrow> conv_turn list \<Rightarrow> conv_turn list" where
  "add_running detail t groups = (if trn_status t = running then in_group detail (trn_id t) id groups else groups)"

definition conversation_groups :: "ai_detail \<Rightarrow> conv_turn list" where
  "conversation_groups detail =
     (let (groups, calls) = fold (add_message detail) (map val (val (det_messages detail))) ([], \<lambda>_. []);
          groups' = fold (add_action detail calls) (map val (val (det_actions detail))) groups
      in fold (add_running detail) (map val (val (det_turns detail))) groups')"

definition aiConversationTurns :: "ai_detail option \<Rightarrow> conv_turn list" where
  "aiConversationTurns detail =
     (case detail of
        None \<Rightarrow> []
      | Some d \<Rightarrow>
          map (\<lambda>g. g\<lparr>cv_messages := sort_key msg_id (cv_messages g), cv_actions := sort_key act_id (cv_actions g)\<rparr>)
            (sort_key cv_turn_id (conversation_groups d)))"

section \<open>Facts about groups\<close>

lemma in_group_ids:
  assumes "\<And>g. cv_turn_id (f g) = cv_turn_id g"
  shows "set (map cv_turn_id (in_group d i f gs)) = insert i (set (map cv_turn_id gs))"
    and "distinct (map cv_turn_id gs) \<Longrightarrow> distinct (map cv_turn_id (in_group d i f gs))"
proof -
  show ids: "set (map cv_turn_id (in_group d i f gs)) = insert i (set (map cv_turn_id gs))" for gs
    by (induction gs) (auto simp: assms new_group_def)
  show "distinct (map cv_turn_id gs) \<Longrightarrow> distinct (map cv_turn_id (in_group d i f gs))"
  proof (induction gs)
    case (Cons g gs)
    then show ?case using ids [of gs] by (auto simp: assms)
  qed (simp add: assms)
qed

text \<open>What a group holds: its messages carry its turn.\<close>

definition group_ok :: "conv_turn \<Rightarrow> bool" where
  "group_ok g \<longleftrightarrow> (\<forall>m \<in> set (cv_messages g). msg_turn_id m = cv_turn_id g)"

lemma in_group_ok:
  assumes "\<And>g. cv_turn_id g = i \<Longrightarrow> group_ok g \<Longrightarrow> group_ok (f g)"
  shows "list_all group_ok gs \<Longrightarrow> list_all group_ok (in_group d i f gs)"
  using assms by (induction gs) (auto simp: new_group_def group_ok_def)

definition all_messages :: "conv_turn list \<Rightarrow> ai_message multiset" where
  "all_messages gs = mset (concat (map cv_messages gs))"

definition all_actions :: "conv_turn list \<Rightarrow> ai_action multiset" where
  "all_actions gs = mset (concat (map cv_actions gs))"

lemma all_in_group:
  "all_messages (in_group d i (push_message m) gs) = add_mset m (all_messages gs)"
  "all_actions (in_group d i (push_message m) gs) = all_actions gs"
  "all_messages (in_group d i (push_action a) gs) = all_messages gs"
  "all_actions (in_group d i (push_action a) gs) = add_mset a (all_actions gs)"
  "all_messages (in_group d i id gs) = all_messages gs"
  "all_actions (in_group d i id gs) = all_actions gs"
  by (induction gs) (auto simp: all_messages_def all_actions_def push_message_def push_action_def new_group_def)

definition groups_ok :: "conv_turn list \<Rightarrow> bool" where
  "groups_ok gs \<longleftrightarrow> distinct (map cv_turn_id gs) \<and> list_all group_ok gs"

lemma push_ids [simp]: "cv_turn_id (push_message m g) = cv_turn_id g" "cv_turn_id (push_action a g) = cv_turn_id g"
  by (simp_all add: push_message_def push_action_def)

lemma groups_ok_in_group:
  "groups_ok gs \<Longrightarrow> groups_ok (in_group d (msg_turn_id m) (push_message m) gs)"
  "groups_ok gs \<Longrightarrow> groups_ok (in_group d i (push_action a) gs)"
  "groups_ok gs \<Longrightarrow> groups_ok (in_group d i id gs)"
  unfolding groups_ok_def
  by (auto intro!: in_group_ids(2) in_group_ok simp: group_ok_def push_message_def push_action_def)

lemma fold_messages:
  assumes "fold (add_message d) ms (gs, calls) = (gs', calls')" "groups_ok gs"
  shows "groups_ok gs' \<and> all_actions gs' = all_actions gs \<and>
    all_messages gs' = all_messages gs + mset (filter (\<lambda>m. msg_session_id m = ses_id (val (det_session d))) ms)"
  using assms
proof (induction ms arbitrary: gs calls)
  case (Cons m ms)
  then show ?case
    by (cases "msg_session_id m = ses_id (val (det_session d))")
       (auto simp: add_message_def all_in_group groups_ok_in_group)
qed simp

lemma fold_actions:
  "groups_ok gs \<Longrightarrow> groups_ok (fold (add_action d calls) as gs) \<and>
   all_messages (fold (add_action d calls) as gs) = all_messages gs \<and>
   all_actions (fold (add_action d calls) as gs) =
     all_actions gs + mset (filter (\<lambda>a. act_session_id a = ses_id (val (det_session d))) as)"
  by (induction as arbitrary: gs) (auto simp: add_action_def all_in_group groups_ok_in_group)

lemma fold_running:
  "groups_ok gs \<Longrightarrow> groups_ok (fold (add_running d) ts gs) \<and>
   all_messages (fold (add_running d) ts gs) = all_messages gs \<and>
   all_actions (fold (add_running d) ts gs) = all_actions gs \<and>
   set (map cv_turn_id (fold (add_running d) ts gs)) =
     set (map cv_turn_id gs) \<union> trn_id ` {t \<in> set ts. trn_status t = running}"
proof (induction ts arbitrary: gs)
  case (Cons t ts)
  have "set (map cv_turn_id (in_group d (trn_id t) id gs)) = insert (trn_id t) (set (map cv_turn_id gs))"
    by (rule in_group_ids(1)) simp
  then show ?case using Cons by (auto simp: add_running_def all_in_group groups_ok_in_group)
qed simp

lemma sorted_sort_group: "sorted (map cv_turn_id (sort_key cv_turn_id gs))" by simp

text \<open>C20: the conversation holds every message and every action of the session exactly once, a message in
  the group of its own turn; the groups have different turns in ascending order, their messages and actions
  are sorted by identifier, and every running turn has its group.\<close>

theorem conversation_partition:
  "all_messages (aiConversationTurns (Some d)) =
     mset (filter (\<lambda>m. msg_session_id m = ses_id (val (det_session d))) (map val (val (det_messages d)))) \<and>
   all_actions (aiConversationTurns (Some d)) =
     mset (filter (\<lambda>a. act_session_id a = ses_id (val (det_session d))) (map val (val (det_actions d)))) \<and>
   sorted_wrt (<) (map cv_turn_id (aiConversationTurns (Some d))) \<and>
   (\<forall>g \<in> set (aiConversationTurns (Some d)).
      (\<forall>m \<in> set (cv_messages g). msg_turn_id m = cv_turn_id g) \<and>
      sorted (map msg_id (cv_messages g)) \<and> sorted (map act_id (cv_actions g))) \<and>
   trn_id ` {t \<in> val ` set (val (det_turns d)). trn_status t = running} \<subseteq>
     cv_turn_id ` set (aiConversationTurns (Some d))"
proof -
  obtain gs calls where g: "fold (add_message d) (map val (val (det_messages d))) ([], \<lambda>_. []) = (gs, calls)" by force
  define as where "as = fold (add_action d calls) (map val (val (det_actions d))) gs"
  define r where "r = conversation_groups d"
  have r_eq: "r = fold (add_running d) (map val (val (det_turns d))) as"
    by (simp add: r_def conversation_groups_def g as_def)
  have "groups_ok []" by (simp add: groups_ok_def)
  note ms = fold_messages [OF g this]
  then have as_ok: "groups_ok as \<and> all_messages as = all_messages gs \<and> all_actions as =
      all_actions gs + mset (filter (\<lambda>a. act_session_id a = ses_id (val (det_session d))) (map val (val (det_actions d))))"
    unfolding as_def by (intro fold_actions) simp
  note rs = fold_running [OF as_ok [THEN conjunct1], of d "map val (val (det_turns d))", folded r_eq]
  let ?f = "\<lambda>g. g\<lparr>cv_messages := sort_key msg_id (cv_messages g), cv_actions := sort_key act_id (cv_actions g)\<rparr>"
  let ?s = "sort_key cv_turn_id r"
  have res: "aiConversationTurns (Some d) = map ?f ?s" by (simp add: aiConversationTurns_def r_def)
  have perm: "mset (map sel ?s) = mset (map sel r)" for sel :: "conv_turn \<Rightarrow> 'b" by simp
  have flat: "mset (concat (map sel gs)) = sum_list (map (\<lambda>g. mset (sel g)) gs)" for sel :: "conv_turn \<Rightarrow> 'c list" and gs
    by (induction gs) auto
  have sums: "sum_list (map sel ?s) = sum_list (map sel r)" for sel :: "conv_turn \<Rightarrow> 'd multiset"
    using sum_mset_sum_list [of "map sel ?s"] sum_mset_sum_list [of "map sel r"] perm [of sel] by metis
  have "all_messages (map ?f ?s) = all_messages r" "all_actions (map ?f ?s) = all_actions r"
    by (simp_all add: all_messages_def all_actions_def flat comp_def sums)
  moreover have "sorted_wrt (<) (map cv_turn_id (map ?f ?s))"
    using rs by (simp add: comp_def groups_ok_def strict_sorted_iff distinct_map)
  moreover have "\<forall>g \<in> set (map ?f ?s). (\<forall>m \<in> set (cv_messages g). msg_turn_id m = cv_turn_id g) \<and>
      sorted (map msg_id (cv_messages g)) \<and> sorted (map act_id (cv_actions g))"
    using rs by (auto simp: groups_ok_def list_all_iff group_ok_def)
  moreover have "cv_turn_id ` set (map ?f ?s) = cv_turn_id ` set r" by (auto simp: image_image)
  ultimately show ?thesis
    using ms as_ok rs unfolding res by (auto simp: all_messages_def all_actions_def image_image)
qed

definition demo_message :: ai_message where
  "demo_message = \<lparr>msg_id = 9, msg_session_id = 1, msg_turn_id = 4, msg_role = js ''user'', msg_content = js ''hi'',
     msg_tool_calls = [], msg_tool_call_id = None, msg_rest = []\<rparr>"

definition demo_talk :: ai_detail where
  "demo_talk = (demo_detail 0 demo_turn)\<lparr>det_messages := Old 1 [Old 2 demo_message]\<rparr>"

theorem conversation_partition_witness:
  "all_messages (aiConversationTurns (Some demo_talk)) = {#demo_message#} \<and>
   2 \<in> cv_turn_id ` set (aiConversationTurns (Some demo_talk))"
proof -
  have "map val (val (det_messages demo_talk)) = [demo_message]" "val ` set (val (det_turns demo_talk)) = {demo_turn}"
    "ses_id (val (det_session demo_talk)) = 1" "msg_session_id demo_message = 1"
    "trn_status demo_turn = running" "trn_id demo_turn = 2"
    by (simp_all add: demo_talk_def demo_detail_def demo_message_def demo_turn_def)
  then show ?thesis using conversation_partition [of demo_talk] by auto
qed

end
