(* ===== verification/JsStorage.thy ===== *)
theory JsStorage
  imports JsString
begin

text \<open>
  The storage of the browser. Reading and writing may throw (storage may be disabled, or full); otherwise it
  is a map from strings to strings. The clients rely only on the interface \<open>key_value\<close>.
\<close>

locale key_value =
  fixes get :: "'k \<Rightarrow> 's \<Rightarrow> 'v option"
    and put :: "'k \<Rightarrow> 'v \<Rightarrow> 's \<Rightarrow> 's"
    and del :: "'k \<Rightarrow> 's \<Rightarrow> 's"
  assumes get_put: "get k (put l v s) = (if k = l then Some v else get k s)"
    and get_del: "get k (del l s) = (if k = l then None else get k s)"
begin

lemma put_same: "get k (put k v s) = Some v"
  by (simp add: get_put)

lemma put_other: "k \<noteq> l \<Longrightarrow> get k (put l v s) = get k s"
  by (simp add: get_put)

lemma del_other: "k \<noteq> l \<Longrightarrow> get k (del l s) = get k s"
  by (simp add: get_del)

text \<open>A value kept under a key made from an owner: owners with different keys do not see each other.\<close>

lemma owners_apart:
  assumes "inj_on key A" "a \<in> A" "b \<in> A"
  shows "get (key a) (put (key b) v s) = (if a = b then Some v else get (key a) s)"
    and "get (key a) (del (key b) s) = (if a = b then None else get (key a) s)"
  using assms by (auto simp: get_put get_del dest: inj_onD)

lemma get_fold_put:
  "k \<notin> fst ` set kvs \<Longrightarrow> get k (fold (\<lambda>(l, v). put l v) kvs s) = get k s"
  by (induction kvs arbitrary: s) (auto simp: get_put)

end

record web_storage =
  ws_items :: "jstr \<rightharpoonup> jstr"
  ws_usable :: bool

definition item_get :: "jstr \<Rightarrow> web_storage \<Rightarrow> jstr option" where
  "item_get k ws = ws_items ws k"

definition item_put :: "jstr \<Rightarrow> jstr \<Rightarrow> web_storage \<Rightarrow> web_storage" where
  "item_put k v ws = ws\<lparr>ws_items := (ws_items ws)(k \<mapsto> v)\<rparr>"

definition item_del :: "jstr \<Rightarrow> web_storage \<Rightarrow> web_storage" where
  "item_del k ws = ws\<lparr>ws_items := (ws_items ws)(k := None)\<rparr>"

interpretation storage: key_value item_get item_put item_del
  by unfold_locales (simp_all add: item_get_def item_put_def item_del_def)

lemma usable_put [simp]: "ws_usable (item_put k v ws) = ws_usable ws" "ws_usable (item_del k ws) = ws_usable ws"
  by (simp_all add: item_put_def item_del_def)

end
