(* ===== verification/AiMini.thy ===== *)
theory AiMini
  imports AiSession JsStorage JsNumText
begin

text \<open>
  \<open>pages/aiOpsMiniSession.ts\<close>: which session the mini app reopens. The identifier of the last session of an
  operator is kept in the storage of the browser; a session is chosen from those the operator may read.
\<close>

definition validID :: "jsv \<Rightarrow> bool" where
  "validID value = (case value of JNum n \<Rightarrow> positive_id n | _ \<Rightarrow> False)"

definition storageKey :: "jsv \<Rightarrow> jstr" where
  "storageKey actorID = js ''forest.ai-ops-mini.last-session.v1.'' @ to_str actorID"

text \<open>\<open>None\<close>: there is no storage (outside a window, or \<open>null\<close> was passed).\<close>

definition aiReadMiniSession :: "jsv \<Rightarrow> web_storage option \<Rightarrow> jnum" where
  "aiReadMiniSession actorID ws =
     (if \<not> validID actorID then num 0
      else case ws of
        None \<Rightarrow> num 0
      | Some st \<Rightarrow>
          if \<not> ws_usable st then num 0
          else (case item_get (storageKey actorID) st of
                  None \<Rightarrow> num 0
                | Some value \<Rightarrow>
                    if \<not> canonical_digits value then num 0
                    else (let i = str_num value in if validID (JNum i) then i else num 0)))"

definition aiWriteMiniSession :: "jsv \<Rightarrow> jsv \<Rightarrow> web_storage option \<Rightarrow> bool \<times> web_storage option" where
  "aiWriteMiniSession actorID sessionID ws =
     (if \<not> validID actorID \<or> \<not> validID sessionID then (False, ws)
      else case ws of
        None \<Rightarrow> (False, ws)
      | Some st \<Rightarrow>
          if \<not> ws_usable st then (False, ws)
          else (True, Some (item_put (storageKey actorID) (to_str sessionID) st)))"

definition aiClearMiniSession :: "jsv \<Rightarrow> web_storage option \<Rightarrow> bool \<times> web_storage option" where
  "aiClearMiniSession actorID ws =
     (if \<not> validID actorID then (False, ws)
      else case ws of
        None \<Rightarrow> (False, ws)
      | Some st \<Rightarrow> if \<not> ws_usable st then (False, ws) else (True, Some (item_del (storageKey actorID) st)))"

definition updated :: "ai_session \<Rightarrow> jnum" where
  "updated session = (if is_finite (ses_updated_at session) \<and> num_lt (num 0) (ses_updated_at session)
     then ses_updated_at session else num 0)"

definition later_session :: "jsv \<Rightarrow> ai_session option \<Rightarrow> ai_session \<Rightarrow> ai_session option" where
  "later_session actorID latest session =
     (if JNum (num (ses_created_by session)) \<noteq> actorID then latest
      else case latest of
        None \<Rightarrow> Some session
      | Some l \<Rightarrow>
          if num_lt (updated l) (updated session) \<or>
             (num_eq (updated session) (updated l) \<and> ses_id l < ses_id session)
          then Some session else latest)"

definition readable :: "jsv \<Rightarrow> bool \<Rightarrow> ai_session \<Rightarrow> bool" where
  "readable actorID isAdmin session \<longleftrightarrow>
     validID (JNum (num (ses_id session))) \<and> validID (JNum (num (ses_created_by session))) \<and>
     aiCanReadSession session (to_num actorID) isAdmin"

definition aiPickMiniSession :: "ai_session list \<Rightarrow> jsv \<Rightarrow> bool \<Rightarrow> jsv \<Rightarrow> ai_session option" where
  "aiPickMiniSession sessions actorID isAdmin savedID =
     (if \<not> validID actorID then None
      else
        let visible = filter (readable actorID isAdmin) sessions;
            saved = (if validID savedID then List.find (\<lambda>s. JNum (num (ses_id s)) = savedID) visible else None)
        in case saved of
             Some s \<Rightarrow> Some s
           | None \<Rightarrow> foldl (later_session actorID) None visible)"

section \<open>Remembering\<close>

lemma validID_iff: "validID v \<longleftrightarrow> (\<exists>i. v = JNum (num i) \<and> 0 < i \<and> i \<le> max_safe)"
  by (cases v) (auto simp: validID_def positive_id_iff)

lemma storageKey_inj: "inj_on storageKey {v. validID v}"
proof (rule inj_onI)
  fix v w assume "v \<in> {v. validID v}" "w \<in> {v. validID v}" "storageKey v = storageKey w"
  then show "v = w"
    by (auto simp: storageKey_def validID_iff num_str_num max_safe_def)
qed

lemma read_written:
  assumes "validID a" "validID s" "validID b" "ws_usable st"
  shows "aiReadMiniSession b (Some (item_put (storageKey a) (to_str s) st)) =
    (if b = a then to_num s else aiReadMiniSession b (Some st))"
proof -
  obtain i where i: "s = JNum (num i)" "0 < i" "i \<le> max_safe" using assms(2) by (auto simp: validID_iff)
  then have d: "to_str s = digits_of i" by (simp add: num_str_num int_str_digits max_safe_def)
  have "canonical_digits (digits_of i)" using i by (auto simp: canonical_digits_iff)
  moreover have "str_num (digits_of i) = num i" using i by (simp add: str_num_digits_of max_safe_def)
  ultimately show ?thesis
    using assms i d storage.owners_apart(1) [OF storageKey_inj, of b a]
    by (auto simp: aiReadMiniSession_def validID_def)
qed

text \<open>A session that was remembered is read back, for this operator only; forgetting it leaves nothing
  for this operator and does not touch the others.\<close>

theorem mini_session_roundtrip:
  assumes "aiWriteMiniSession a s ws = (True, ws')" "validID b"
  shows "aiReadMiniSession b ws' = (if b = a then to_num s else aiReadMiniSession b ws) \<and>
    aiReadMiniSession b (snd (aiClearMiniSession a ws')) = (if b = a then num 0 else aiReadMiniSession b ws)"
proof -
  obtain st where st: "validID a" "validID s" "ws = Some st" "ws_usable st"
    "ws' = Some (item_put (storageKey a) (to_str s) st)"
    using assms(1) by (auto simp: aiWriteMiniSession_def split: if_splits option.splits)
  let ?p = "item_put (storageKey a) (to_str s) st"
  have "aiReadMiniSession b (Some (item_del (storageKey a) ?p)) = (if b = a then num 0 else aiReadMiniSession b (Some ?p))"
    using storage.owners_apart(2) [OF storageKey_inj, of b a ?p] st assms(2) by (auto simp: aiReadMiniSession_def)
  then show ?thesis using st read_written [OF st(1,2) assms(2) st(4)] by (simp add: aiClearMiniSession_def)
qed

theorem mini_session_roundtrip_witness:
  "aiReadMiniSession (JNum (num 3)) (snd (aiWriteMiniSession (JNum (num 3)) (JNum (num 41))
     (Some \<lparr>ws_items = \<lambda>_. None, ws_usable = True\<rparr>))) = num 41"
proof -
  let ?w = "aiWriteMiniSession (JNum (num 3)) (JNum (num 41)) (Some \<lparr>ws_items = \<lambda>_. None, ws_usable = True\<rparr>)"
  have "?w = (True, snd ?w)" by (simp add: aiWriteMiniSession_def validID_def max_safe_def)
  moreover have "validID (JNum (num 3))" by (simp add: validID_def max_safe_def)
  ultimately show ?thesis using mini_session_roundtrip [of _ _ _ "snd ?w" "JNum (num 3)"] by fastforce
qed

section \<open>Choosing\<close>

lemma updated_num: "num_le (updated s) (updated t) \<or> num_lt (updated t) (updated s)"
  by (cases "ses_updated_at s"; cases "ses_updated_at t") (auto simp: updated_def num_le_def num_def is_finite_def)

text \<open>The order of the choice: last update first, then the higher identifier.\<close>

definition not_later :: "ai_session \<Rightarrow> ai_session \<Rightarrow> bool" where
  "not_later s l \<longleftrightarrow> num_lt (updated s) (updated l) \<or> (updated s = updated l \<and> ses_id s \<le> ses_id l)"

lemma updated_Fin: "\<exists>q. updated s = Fin q"
  by (cases "ses_updated_at s") (auto simp: updated_def is_finite_def num_def)

lemma not_later_refl [simp]: "not_later s s"
  by (simp add: not_later_def)

lemma not_later_trans: "not_later s t \<Longrightarrow> not_later t u \<Longrightarrow> not_later s u"
  using updated_Fin [of s] updated_Fin [of t] updated_Fin [of u] by (auto simp: not_later_def)

lemma later_step:
  assumes "JNum (num (ses_created_by s)) = a"
  shows "\<exists>l. later_session a latest s = Some l \<and> (l = s \<or> latest = Some l) \<and> not_later s l \<and>
    (\<forall>k. latest = Some k \<longrightarrow> not_later k l)"
proof (cases latest)
  case None
  then show ?thesis using assms by (simp add: later_session_def)
next
  case (Some k)
  then show ?thesis
    using assms updated_Fin [of s] updated_Fin [of k]
    by (auto simp: later_session_def not_later_def num_eq_def)
qed

lemma fold_later:
  assumes "\<forall>k. latest = Some k \<longrightarrow> JNum (num (ses_created_by k)) = a"
  shows "case foldl (later_session a) latest ss of
      None \<Rightarrow> latest = None \<and> (\<forall>s \<in> set ss. JNum (num (ses_created_by s)) \<noteq> a)
    | Some l \<Rightarrow> (l \<in> set ss \<or> latest = Some l) \<and> JNum (num (ses_created_by l)) = a \<and>
        (\<forall>k. latest = Some k \<longrightarrow> not_later k l) \<and>
        (\<forall>s \<in> set ss. JNum (num (ses_created_by s)) = a \<longrightarrow> not_later s l)"
  using assms
proof (induction ss arbitrary: latest)
  case Nil
  then show ?case by (auto split: option.split)
next
  case (Cons s ss)
  show ?case
  proof (cases "JNum (num (ses_created_by s)) = a")
    case True
    obtain l where l: "later_session a latest s = Some l" "l = s \<or> latest = Some l" "not_later s l"
      "\<forall>k. latest = Some k \<longrightarrow> not_later k l" using later_step [OF True, of latest] by blast
    have "\<forall>k. Some l = Some k \<longrightarrow> JNum (num (ses_created_by k)) = a" using l(2) True Cons.prems by auto
    from Cons.IH [OF this] obtain m where m: "foldl (later_session a) (Some l) ss = Some m"
      "m \<in> set ss \<or> l = m" "JNum (num (ses_created_by m)) = a" "not_later l m"
      "\<forall>s \<in> set ss. JNum (num (ses_created_by s)) = a \<longrightarrow> not_later s m"
      by (auto split: option.splits)
    moreover have "not_later s m" "\<forall>k. latest = Some k \<longrightarrow> not_later k m"
      using l(3,4) m(4) not_later_trans by blast+
    ultimately show ?thesis using l by auto
  next
    case False
    then have "later_session a latest s = latest" by (simp add: later_session_def)
    then show ?thesis using Cons.IH [OF Cons.prems] False by (auto split: option.splits)
  qed
qed

text \<open>The session that is opened is one the operator may read; without a usable saved identifier it is
  one of the operator's own, the last updated of them (administrators too never land in another's session), and
  nothing is opened only when there is none.\<close>

theorem mini_session_choice:
  assumes "validID a"
  shows "(\<forall>s. aiPickMiniSession ss a adm saved = Some s \<longrightarrow> s \<in> set ss \<and> readable a adm s) \<and>
    (\<not> (\<exists>s \<in> set ss. readable a adm s \<and> JNum (num (ses_id s)) = saved) \<longrightarrow>
      (case aiPickMiniSession ss a adm saved of
         None \<Rightarrow> \<forall>s \<in> set ss. readable a adm s \<longrightarrow> JNum (num (ses_created_by s)) \<noteq> a
       | Some l \<Rightarrow> JNum (num (ses_created_by l)) = a \<and>
           (\<forall>s \<in> set ss. readable a adm s \<longrightarrow> JNum (num (ses_created_by s)) = a \<longrightarrow> not_later s l)))"
proof -
  let ?v = "filter (readable a adm) ss"
  let ?f = "if validID saved then List.find (\<lambda>s. JNum (num (ses_id s)) = saved) ?v else None"
  have pick: "aiPickMiniSession ss a adm saved = (case ?f of Some s \<Rightarrow> Some s | None \<Rightarrow> foldl (later_session a) None ?v)"
    using assms by (simp add: aiPickMiniSession_def Let_def)
  have folded: "case foldl (later_session a) None ?v of
      None \<Rightarrow> \<forall>s \<in> set ?v. JNum (num (ses_created_by s)) \<noteq> a
    | Some l \<Rightarrow> l \<in> set ?v \<and> JNum (num (ses_created_by l)) = a \<and>
        (\<forall>s \<in> set ?v. JNum (num (ses_created_by s)) = a \<longrightarrow> not_later s l)"
    using fold_later [of None a ?v] by (auto split: option.splits)
  have found: "s \<in> set ?v \<and> JNum (num (ses_id s)) = saved" if "?f = Some s" for s
    using that find_Some_in [of "\<lambda>s. JNum (num (ses_id s)) = saved" ?v s] by (auto split: if_splits)
  have none: "?f = None" if "\<not> (\<exists>s \<in> set ss. readable a adm s \<and> JNum (num (ses_id s)) = saved)"
    using that found by (cases ?f) auto
  have readable: "s \<in> set ?v" if "aiPickMiniSession ss a adm saved = Some s" for s
    using that folded found unfolding pick by (cases ?f) auto
  show ?thesis
  proof (intro conjI impI)
    show "\<forall>s. aiPickMiniSession ss a adm saved = Some s \<longrightarrow> s \<in> set ss \<and> readable a adm s"
      using readable by simp
  next
    assume "\<not> (\<exists>s \<in> set ss. readable a adm s \<and> JNum (num (ses_id s)) = saved)"
    from none [OF this] have "aiPickMiniSession ss a adm saved = foldl (later_session a) None ?v"
      unfolding pick by (simp only: option.case)
    then show "case aiPickMiniSession ss a adm saved of
         None \<Rightarrow> \<forall>s \<in> set ss. readable a adm s \<longrightarrow> JNum (num (ses_created_by s)) \<noteq> a
       | Some l \<Rightarrow> JNum (num (ses_created_by l)) = a \<and>
           (\<forall>s \<in> set ss. readable a adm s \<longrightarrow> JNum (num (ses_created_by s)) = a \<longrightarrow> not_later s l)"
      using folded by (auto split: option.splits)
  qed
qed

definition demo_session :: "int \<Rightarrow> int \<Rightarrow> int \<Rightarrow> ai_session" where
  "demo_session i owner t = \<lparr>ses_id = i, ses_created_by = owner, ses_status = running, ses_updated_at = num t,
     ses_access_mode = None, ses_access_version = None, ses_full_access_by = None, ses_rest = []\<rparr>"

theorem mini_session_choice_witness:
  "aiPickMiniSession [demo_session 1 3 50, demo_session 2 8 90, demo_session 4 3 70] (JNum (num 3)) True JUndef =
     Some (demo_session 4 3 70) \<and>
   readable (JNum (num 3)) True (demo_session 4 3 70)"
proof -
  let ?ss = "[demo_session 1 3 50, demo_session 2 8 90, demo_session 4 3 70]"
  have v: "validID (JNum (num 3))" by (simp add: validID_def max_safe_def)
  have "aiPickMiniSession ?ss (JNum (num 3)) True JUndef = Some (demo_session 4 3 70)"
    by (simp add: aiPickMiniSession_def v validID_def readable_def aiCanReadSession_def demo_session_def max_safe_def
        later_session_def updated_def)
  then show ?thesis using mini_session_choice [OF v] by blast
qed

end
