(* ===== verification/AiStream.thy ===== *)
theory AiStream
  imports JsJson
begin

text \<open>
  \<open>pages/aiOpsStream.ts\<close>: the parser of the server-sent events of an AI session, and the reader that
  feeds it with what arrives from the network.
\<close>

section \<open>Frames\<close>

text \<open>What is left behind a line break \<open>\r?\n\<close>, and behind the blank line \<open>\r?\n\r?\n\<close> that ends a frame.\<close>

fun newline :: "jstr \<Rightarrow> jstr option" where
  "newline (c # s) =
     (if c = 10 then Some s
      else if c = 13 then (case s of d # t \<Rightarrow> if d = 10 then Some t else None | [] \<Rightarrow> None)
      else None)"
| "newline [] = None"

definition blank_line :: "jstr \<Rightarrow> jstr option" where
  "blank_line s = Option.bind (newline s) newline"

text \<open>The leftmost match of the expression: the frame before it and the rest behind it.\<close>

fun frame_end :: "jstr \<Rightarrow> (jstr \<times> jstr) option" where
  "frame_end [] = None"
| "frame_end (c # s) =
     (case blank_line (c # s) of
        Some rest \<Rightarrow> Some ([], rest)
      | None \<Rightarrow> map_option (\<lambda>(frame, rest). (c # frame, rest)) (frame_end s))"

record stream_event =
  ev_event :: jstr
  ev_data :: jsv

datatype frame_result = Skipped | Malformed | Event stream_event

text \<open>One pass over the lines: the last \<open>event:\<close> line names the event, the \<open>data:\<close> lines are collected.\<close>

definition frame_line :: "jstr \<Rightarrow> jstr \<times> jstr list \<Rightarrow> jstr \<times> jstr list" where
  "frame_line line = (\<lambda>(event, data).
     (if starts_with line (js ''event:'') then trim (drop 6 line) else event,
      if starts_with line (js ''data:'') then
        data @ [if starts_with (drop 5 line) [32] then drop 6 line else drop 5 line]
      else data))"

definition stream_events :: "jstr set" where
  "stream_events = set (map js [''snapshot'', ''draft'', ''invalidate'', ''end'', ''error''])"

definition parse_frame :: "jstr \<Rightarrow> frame_result" where
  "parse_frame frame =
     (let (event, data) = fold frame_line (split_lines frame) (js ''message'', [])
      in if data = [] \<or> event \<notin> stream_events then Skipped
         else case json_parse (join [10] data) of
                None \<Rightarrow> Malformed
              | Some v \<Rightarrow> Event \<lparr>ev_event = event, ev_data = v\<rparr>)"

section \<open>The parser\<close>

datatype 'e stream_error = TooLarge | BadFrame | Thrown 'e

text \<open>
  \<open>emit\<close> is the callback: it may change the state \<open>'s\<close> of its owner and throw. The loop cuts complete
  frames off the buffer; a frame is off the buffer before anything is thrown for it.
\<close>

type_synonym ('s, 'e) emitter = "stream_event \<Rightarrow> 's \<Rightarrow> 'e option \<times> 's"
type_synonym ('s, 'e) parsed = "'e stream_error option \<times> jstr \<times> 's"

lemma newline_shorter: "newline s = Some r \<Longrightarrow> length r < length s"
  by (induction s rule: newline.induct) (auto split: if_splits list.splits)

lemma blank_line_shorter: "blank_line s = Some r \<Longrightarrow> length r < length s"
  by (auto simp: blank_line_def bind_eq_Some_conv dest!: newline_shorter)

lemma frame_end_shorter: "frame_end s = Some (f, r) \<Longrightarrow> length r < length s"
  by (induction s arbitrary: f) (auto split: option.splits dest: blank_line_shorter)

function drain :: "('s, 'e) emitter \<Rightarrow> jstr \<Rightarrow> 's \<Rightarrow> ('s, 'e) parsed" where
  "drain emit buffer st =
     (case frame_end buffer of
        None \<Rightarrow> (None, buffer, st)
      | Some (frame, rest) \<Rightarrow>
          (case parse_frame frame of
             Skipped \<Rightarrow> drain emit rest st
           | Malformed \<Rightarrow> (Some BadFrame, rest, st)
           | Event e \<Rightarrow>
               (case emit e st of
                  (Some err, st') \<Rightarrow> (Some (Thrown err), rest, st')
                | (None, st') \<Rightarrow> drain emit rest st')))"
  by pat_completeness auto
termination
  by (relation "measure (\<lambda>(_, buffer, _). length buffer)") (auto dest: frame_end_shorter)

declare drain.simps [simp del]

definition buffer_limit :: nat where
  "buffer_limit = 16 * 1024 * 1024"

definition aiStreamParser :: "('s, 'e) emitter \<Rightarrow> jstr \<Rightarrow> jstr \<times> 's \<Rightarrow> ('s, 'e) parsed" where
  "aiStreamParser emit chunk = (\<lambda>(buffer, st).
     (if buffer_limit < length buffer + length chunk then (Some TooLarge, buffer @ chunk, st)
      else drain emit (buffer @ chunk) st))"

fun feed :: "('s, 'e) emitter \<Rightarrow> jstr list \<Rightarrow> jstr \<times> 's \<Rightarrow> ('s, 'e) parsed" where
  "feed emit [] bs = (None, bs)"
| "feed emit (c # cs) bs =
     (case aiStreamParser emit c bs of
        (Some err, bs') \<Rightarrow> (Some err, bs')
      | (None, bs') \<Rightarrow> feed emit cs bs')"

section \<open>The reader\<close>

text \<open>
  What one turn of the loop finds: whether the signal is aborted when it starts, and what the read gives:
  decoded text, the end of the body with what the decoder still holds, or a failure.
\<close>

datatype read_result = Text jstr | Closed jstr | Broken

record reader =
  rd_emitted :: "stream_event list"
  rd_ended :: bool
  rd_invalidated :: bool

text \<open>The callback of \<open>aiReadSessionStream\<close>; \<open>mini\<close> is \<open>isTelegramMiniApp()\<close>.\<close>

definition session_emit :: "bool \<Rightarrow> (reader, unit) emitter" where
  "session_emit mini event rd =
     (if ev_event event = js ''error'' then
        (Some (), if mini \<and> jprop (ev_data event) (js ''code'') = JStr (js ''auth_invalid'')
                  then rd\<lparr>rd_invalidated := True\<rparr> else rd)
      else (None, rd\<lparr>rd_emitted := rd_emitted rd @ [event],
                     rd_ended := rd_ended rd \<or> ev_event event = js ''end''\<rparr>))"

datatype stream_outcome = Returned | Failed "unit stream_error option"

fun read_loop :: "bool \<Rightarrow> (bool \<times> read_result) list \<Rightarrow> jstr \<times> reader \<Rightarrow> (stream_outcome \<times> reader) option" where
  "read_loop mini turns (buffer, rd) =
     (if rd_ended rd then Some (Returned, rd)
      else case turns of
        [] \<Rightarrow> None
      | (aborted, r) # later \<Rightarrow>
          if aborted then Some (Returned, rd)
          else (case r of
            Broken \<Rightarrow> Some (Failed None, rd)
          | Closed text \<Rightarrow>
              (case aiStreamParser (session_emit mini) text (buffer, rd) of
                 (None, _, rd') \<Rightarrow> Some (Returned, rd')
               | (Some err, _, rd') \<Rightarrow> Some (Failed (Some err), rd'))
          | Text text \<Rightarrow>
              (case aiStreamParser (session_emit mini) text (buffer, rd) of
                 (None, buffer', rd') \<Rightarrow> read_loop mini later (buffer', rd')
               | (Some err, _, rd') \<Rightarrow> Some (Failed (Some err), rd'))))"

declare read_loop.simps [simp del]

record stream_response =
  rs_status :: int
  rs_content_type :: "jstr option"
  rs_body :: bool

datatype auth_effect = NoEffect | InvalidateMini | ClearAuth

definition stream_refused :: "stream_response \<Rightarrow> bool" where
  "stream_refused r = (\<not> (200 \<le> rs_status r \<and> rs_status r \<le> 299) \<or>
     (case rs_content_type r of None \<Rightarrow> True | Some t \<Rightarrow> \<not> contains t (js ''text/event-stream'')) \<or> \<not> rs_body r)"

definition reader_init :: reader where
  "reader_init = \<lparr>rd_emitted = [], rd_ended = False, rd_invalidated = False\<rparr>"

definition aiReadSessionStream ::
    "bool \<Rightarrow> stream_response \<Rightarrow> (bool \<times> read_result) list \<Rightarrow> auth_effect \<times> (stream_outcome \<times> reader) option" where
  "aiReadSessionStream mini response turns =
     (if rs_status response = 401 then (if mini then InvalidateMini else ClearAuth) else NoEffect,
      if stream_refused response then Some (Failed None, reader_init)
      else read_loop mini turns ([], reader_init))"

section \<open>The events do not depend on how the text is cut\<close>

lemma newline_append: "newline s = Some r \<Longrightarrow> newline (s @ t) = Some (r @ t)"
  by (induction s rule: newline.induct) (auto split: if_splits list.splits)

lemma blank_line_append: "blank_line s = Some r \<Longrightarrow> blank_line (s @ t) = Some (r @ t)"
  unfolding blank_line_def bind_eq_Some_conv using newline_append by blast

text \<open>A blank line that needs text beyond the buffer leaves no complete frame behind it.\<close>

lemma blank_line_cut:
  assumes "blank_line (c # s) = None" "blank_line (c # s @ t) = Some r"
  shows "frame_end s = None"
proof -
  have "length s \<le> 2"
  proof (rule ccontr)
    assume "\<not> length s \<le> 2"
    then have "Suc (Suc (Suc 0)) \<le> length s" by simp
    then obtain d e f u where "s = d # e # f # u" by (auto simp: Suc_le_length_iff)
    then show False using assms
      by (auto simp: blank_line_def split: if_splits list.splits option.splits)
  qed
  then consider "s = []" | d where "s = [d]" | d e where "s = [d, e]"
    by (auto simp: le_Suc_eq numeral_2_eq_2 length_Suc_conv)
  then show ?thesis
    using assms by cases (auto simp: blank_line_def split: if_splits list.splits option.splits)
qed

lemma frame_end_append: "frame_end s = Some (f, r) \<Longrightarrow> frame_end (s @ t) = Some (f, r @ t)"
proof (induction s arbitrary: f)
  case Nil
  then show ?case by simp
next
  case (Cons c s)
  show ?case
  proof (cases "blank_line (c # s)")
    case None
    with Cons.prems obtain f' where f': "frame_end s = Some (f', r)" "f = c # f'" by auto
    then have "blank_line (c # s @ t) = None"
      using blank_line_cut [OF None] by (cases "blank_line (c # s @ t)") auto
    then show ?thesis using Cons.IH [OF f'(1)] f'(2) by simp
  next
    case (Some rest)
    then show ?thesis using Cons.prems blank_line_append [OF Some, of t] by simp
  qed
qed

lemma drain_none: "frame_end s = None \<Longrightarrow> drain emit s st = (None, s, st)"
  by (simp add: drain.simps)

lemma drain_some:
  assumes "frame_end s = Some (f, r)"
  shows "drain emit s st =
    (case parse_frame f of
       Skipped \<Rightarrow> drain emit r st
     | Malformed \<Rightarrow> (Some BadFrame, r, st)
     | Event e \<Rightarrow> (case emit e st of (Some err, st') \<Rightarrow> (Some (Thrown err), r, st') | (None, st') \<Rightarrow> drain emit r st'))"
  using assms by (simp add: drain.simps [of emit s])

text \<open>Induction over the frames of a buffer.\<close>

lemma drain_induct [case_names Stop Frame]:
  assumes "\<And>s st. frame_end s = None \<Longrightarrow> P s st"
    and "\<And>s f r st. frame_end s = Some (f, r) \<Longrightarrow> (\<And>st'. P r st') \<Longrightarrow> P s st"
  shows "P s st"
proof (induction "length s" arbitrary: s st rule: less_induct)
  case less
  show ?case
  proof (cases "frame_end s")
    case None
    then show ?thesis by (rule assms(1))
  next
    case (Some fr)
    obtain f r where fr: "fr = (f, r)" by force
    show ?thesis
      by (rule assms(2) [OF Some [unfolded fr]]) (rule less, rule frame_end_shorter [OF Some [unfolded fr]])
  qed
qed

lemma drain_append:
  "drain emit (s @ t) st =
     (case drain emit s st of
        (None, b, st') \<Rightarrow> drain emit (b @ t) st'
      | (Some err, b, st') \<Rightarrow> (Some err, b @ t, st'))"
proof (induction s st rule: drain_induct)
  case (Stop s st)
  then show ?case by (simp add: drain_none)
next
  case (Frame s f r st)
  show ?case
    by (simp add: drain_some [OF Frame(1)] drain_some [OF frame_end_append [OF Frame(1)]] Frame(2)
        split: frame_result.split prod.split option.split)
qed

lemma drain_buffer:
  "drain emit s st = (e, b, st') \<Longrightarrow> length b \<le> length s \<and> (e = None \<longrightarrow> frame_end b = None)"
proof (induction s st rule: drain_induct)
  case (Stop s st)
  then show ?case by (auto simp: drain_none)
next
  case (Frame s f r st)
  have "length r < length s" using Frame(1) by (rule frame_end_shorter)
  then show ?case
    using Frame(3) Frame(2)
    by (fastforce simp: drain_some [OF Frame(1)] split: frame_result.splits prod.splits option.splits)
qed

text \<open>What can be seen of a run: the error, the state, and the buffer when there was no error.\<close>

definition seen :: "('s, 'e) parsed \<Rightarrow> 'e stream_error option \<times> 's \<times> jstr option" where
  "seen p = (case p of (e, b, st) \<Rightarrow> (e, st, if e = None then Some b else None))"

lemma feed_seen:
  "length b + length (concat cs) \<le> buffer_limit \<Longrightarrow> frame_end b = None \<Longrightarrow>
   seen (feed emit cs (b, st)) = seen (drain emit (b @ concat cs) st)"
proof (induction cs arbitrary: b st)
  case Nil
  then show ?case by (simp add: drain.simps seen_def)
next
  case (Cons c cs)
  obtain e b' st' where d: "drain emit (b @ c) st = (e, b', st')" by (cases "drain emit (b @ c) st") auto
  have "length b' + length (concat cs) \<le> buffer_limit" "e = None \<longrightarrow> frame_end b' = None"
    using drain_buffer [OF d] Cons.prems(1) by auto
  then show ?case
    using Cons.IH [of b' st'] Cons.prems(1) drain_append [of emit "b @ c" "concat cs" st]
    by (auto simp: aiStreamParser_def d seen_def split: option.splits)
qed

text \<open>C8: the events of a stream do not depend on how the network cuts its text: fed in any pieces it
  emits the same events in the same order, ends in the same state and with the same error, as fed at
  once (up to the limit of the buffer).\<close>

theorem stream_chunks:
  assumes "length (concat cs) \<le> buffer_limit"
  shows "seen (feed emit cs ([], st)) = seen (aiStreamParser emit (concat cs) ([], st))"
  using feed_seen [of "[]" cs emit st] assms by (simp add: aiStreamParser_def)

definition demo_chunks :: "jstr list" where
  "demo_chunks = [js ''event: en'', js ''d'' @ [13, 10] @ js ''data: null'' @ [13], [10, 13], [10, 58]]"

theorem stream_chunks_witness:
  "seen (feed (session_emit False) demo_chunks ([], reader_init)) =
     (None, \<lparr>rd_emitted = [\<lparr>ev_event = js ''end'', ev_data = JNull\<rparr>], rd_ended = True,
             rd_invalidated = False\<rparr>, Some [58])"
proof -
  have short: "length (concat demo_chunks) \<le> buffer_limit" by (simp add: demo_chunks_def buffer_limit_def)
  have "seen (drain (session_emit False) (concat demo_chunks) reader_init) =
     (None, \<lparr>rd_emitted = [\<lparr>ev_event = js ''end'', ev_data = JNull\<rparr>], rd_ended = True,
             rd_invalidated = False\<rparr>, Some [58])"
    by code_simp
  then show ?thesis using stream_chunks [OF short, of "session_emit False" reader_init] short by (simp add: aiStreamParser_def)
qed

end
