(* ===== verification/GuardSearch.thy ===== *)
theory GuardSearch
  imports JsJson JsSet Texts
begin

text \<open>
  \<open>lib/subscribeGuardSearch.ts\<close>: the search form of the subscription guard. Filters are normalised and
  checked, turned into request parameters, and fingerprinted (a result is shown only for the filters it was
  asked with); the entries one may search for are offered as options whose values are read back.
\<close>

record guard_filters =
  gf_account :: jstr
  gf_ip :: jstr
  gf_account_match :: jstr
  gf_entry :: jstr
  gf_ua :: jstr
  gf_ua_match :: jstr
  gf_start_at :: "jnum option"
  gf_end_at :: "jnum option"
  gf_result :: jstr
  gf_sort :: jstr

datatype guard_error = BadEntry | HalfTime | TimeOrder | NothingAsked

definition emptyGuardFilters :: guard_filters where
  "emptyGuardFilters = \<lparr>gf_account = [], gf_ip = [], gf_account_match = js ''contains'', gf_entry = [], gf_ua = [],
     gf_ua_match = js ''contains'', gf_start_at = None, gf_end_at = None, gf_result = js ''all'',
     gf_sort = js ''last_at''\<rparr>"

definition normalizedGuardFilters :: "guard_filters \<Rightarrow> guard_filters" where
  "normalizedGuardFilters filters = filters
     \<lparr>gf_ip := trim (gf_ip filters), gf_account := trim (gf_account filters), gf_ua := trim (gf_ua filters)\<rparr>"

text \<open>\<open>/^policy:(\d+)(?:\/group:(\d+))?$/\<close>: the digits of the policy and of the group.\<close>

definition entry_match :: "jstr \<Rightarrow> (jstr \<times> jstr option) option" where
  "entry_match value =
     (if \<not> starts_with value (js ''policy:'') then None
      else
        let policy = takeWhile is_digit (drop 7 value); rest = dropWhile is_digit (drop 7 value)
        in if policy = [] then None
           else if rest = [] then Some (policy, None)
           else if starts_with rest (js ''/group:'') \<and> all_digits (drop 7 rest) then Some (policy, Some (drop 7 rest))
           else None)"

definition entrySearchSelection :: "jstr \<Rightarrow> guard_error + (jnum \<times> jnum option) option" where
  "entrySearchSelection value =
     (if value = [] then Inr None
      else case entry_match value of
        None \<Rightarrow> Inl BadEntry
      | Some (policy, sub) \<Rightarrow>
          if \<not> num_lt (num 0) (str_num policy) \<or>
             (case sub of None \<Rightarrow> False | Some g \<Rightarrow> \<not> num_lt (num 0) (str_num g)) then Inl BadEntry
          else Inr (Some (str_num policy, map_option str_num sub)))"

definition bad_window :: "jnum \<Rightarrow> jnum \<Rightarrow> bool" where
  "bad_window from to \<longleftrightarrow> \<not> is_safe from \<or> \<not> is_safe to \<or> num_lt from (num 0) \<or> num_le to from"

definition guardFilterError :: "guard_filters \<Rightarrow> guard_error option" where
  "guardFilterError input =
     (let f = normalizedGuardFilters input
      in if \<not> is_ok (entrySearchSelection (gf_entry f)) then Some BadEntry
         else if (gf_start_at f = None) \<noteq> (gf_end_at f = None) then Some HalfTime
         else if (case (gf_start_at f, gf_end_at f) of (Some a, Some b) \<Rightarrow> bad_window a b | _ \<Rightarrow> False) then Some TimeOrder
         else if gf_ip f = [] \<and> gf_account f = [] \<and> gf_entry f = [] \<and> gf_ua f = [] \<and> gf_start_at f = None \<and>
                 gf_result f = js ''all'' then Some NothingAsked
         else None)"

text \<open>Clamped page number and page size.\<close>

definition page_current :: "jnum \<Rightarrow> jnum" where
  "page_current current = num_max (num 1) (num_or (num_floor current) (num 1))"

definition page_size_of :: "jnum \<Rightarrow> jnum" where
  "page_size_of pageSize = num_max (num 1) (num_min (num 100) (num_or (num_floor pageSize) (num 20)))"

definition selection_params :: "(jnum \<times> jnum option) option \<Rightarrow> jobj" where
  "selection_params sel = (case sel of
      None \<Rightarrow> []
    | Some (p, g) \<Rightarrow> (js ''policy_id'', JNum p) # (case g of None \<Rightarrow> [] | Some i \<Rightarrow> [(js ''group_id'', JNum i)]))"

definition guardSearchParams :: "guard_filters \<Rightarrow> jnum \<Rightarrow> jnum \<Rightarrow> guard_error + jobj" where
  "guardSearchParams filters current pageSize =
     (let f = normalizedGuardFilters filters
      in case guardFilterError f of
           Some err \<Rightarrow> Inl err
         | None \<Rightarrow> ebind (entrySearchSelection (gf_entry f)) (\<lambda>sel. Inr
             (selection_params sel @
              [(js ''result'', JStr (gf_result f)), (js ''sort'', JStr (gf_sort f)),
               (js ''current'', JNum (page_current current)), (js ''page_size'', JNum (page_size_of pageSize))] @
              (if gf_ip f \<noteq> [] then [(js ''ip'', JStr (gf_ip f))] else []) @
              (if gf_account f \<noteq> [] then
                 [(js ''account'', JStr (gf_account f)), (js ''account_match'', JStr (gf_account_match f))] else []) @
              (if gf_ua f \<noteq> [] then [(js ''ua'', JStr (gf_ua f)), (js ''ua_match'', JStr (gf_ua_match f))] else []) @
              (case gf_start_at f of None \<Rightarrow> []
               | Some a \<Rightarrow> [(js ''start_at'', JNum a),
                    (js ''end_at'', case gf_end_at f of None \<Rightarrow> JUndef | Some b \<Rightarrow> JNum b)]))))"

definition or_null :: "jnum option \<Rightarrow> jsv" where
  "or_null n = (case n of None \<Rightarrow> JNull | Some v \<Rightarrow> JNum v)"

definition fingerprint_fields :: "guard_filters \<Rightarrow> jsv list" where
  "fingerprint_fields f =
     [JStr (gf_ip f), JStr (gf_account f), JStr (if gf_account f \<noteq> [] then gf_account_match f else []),
      JStr (gf_entry f), JStr (gf_ua f), JStr (if gf_ua f \<noteq> [] then gf_ua_match f else []),
      or_null (gf_start_at f), or_null (gf_end_at f), JStr (gf_result f), JStr (gf_sort f)]"

definition guardFilterFingerprint :: "guard_filters \<Rightarrow> jstr" where
  "guardFilterFingerprint filters = json_str (JArr (fingerprint_fields (normalizedGuardFilters filters)))"

section \<open>The entries one may search for\<close>

record search_option =
  sr_value :: jstr
  sr_label :: jstr
  sr_disabled :: bool

text \<open>
  \<open>sort\<close> with the comparator of the code, stable; \<open>collate\<close> stands for \<open>localeCompare\<close> with numeric
  collation, which belongs to the browser.
\<close>

fun insert_by :: "('a \<Rightarrow> 'a \<Rightarrow> bool) \<Rightarrow> 'a \<Rightarrow> 'a list \<Rightarrow> 'a list" where
  "insert_by after x [] = [x]"
| "insert_by after x (y # ys) = (if after x y then y # insert_by after x ys else x # y # ys)"

definition sort_by :: "('a \<Rightarrow> 'a \<Rightarrow> bool) \<Rightarrow> 'a list \<Rightarrow> 'a list" where
  "sort_by after xs = foldr (insert_by after) xs []"

definition group_after :: "(jstr \<Rightarrow> jstr \<Rightarrow> int) \<Rightarrow> jsv \<Rightarrow> jsv \<Rightarrow> bool" where
  "group_after collate a b =
     (let rank = (\<lambda>g. to_num (jor (jprop g (js ''sort'')) (JNum (num 0))));
          path = (\<lambda>g. to_str (jor (jprop g (js ''path'')) (JStr [])));
          d = num_sub (rank a) (rank b)
      in if num_truthy d then num_lt (num 0) d else 0 < collate (path a) (path b))"

definition is_leaf :: "jsv \<Rightarrow> bool" where
  "is_leaf g \<longleftrightarrow> jprop g (js ''is_leaf'') = JBool True \<or> to_num (jprop g (js ''is_leaf'')) = num 1"

definition policy_value :: "jnum \<Rightarrow> jstr" where
  "policy_value i = js ''policy:'' @ num_str i"

definition group_option :: "jnum \<Rightarrow> jstr \<Rightarrow> jstr \<Rightarrow> bool \<Rightarrow> jsv \<Rightarrow> search_option option" where
  "group_option i name suffix disabled g =
     (let groupID = to_num (jprop g (js ''id''))
      in if \<not> positive_id groupID then None
         else Some \<lparr>sr_value = policy_value i @ js ''/group:'' @ num_str groupID,
           sr_label = txt_subgroup @ name @ js '' / '' @
             to_str (jor (jprop g (js ''name'')) (jor (jprop g (js ''path'')) (JStr (js ''#'' @ num_str groupID)))) @ suffix,
           sr_disabled = disabled\<rparr>)"

text \<open>Reading a field of a group that is null or undefined throws: \<open>None\<close>.\<close>

definition policy_options :: "(jstr \<Rightarrow> jstr \<Rightarrow> int) \<Rightarrow> jsv \<Rightarrow> search_option list option" where
  "policy_options collate policy =
     (let i = to_num (jprop policy (js ''id''))
      in if \<not> positive_id i then Some []
         else
           let split = (lower (to_str (jprop policy (js ''mode''))) = js ''split'');
               disabled = (\<not> num_truthy (to_num (jprop policy (js ''enabled''))));
               name = to_str (jor (jprop policy (js ''name'')) (JStr (txt_rule_hash @ num_str i)));
               suffix = (if disabled then txt_disabled else []);
               top = \<lparr>sr_value = policy_value i,
                 sr_label = (if split then txt_fixed_group else txt_plain_rule) @ txt_middle_dot @ name @
                   (if split then txt_all_subgroups else []) @ suffix, sr_disabled = disabled\<rparr>;
               groups = jprop policy (js ''split_groups'')
           in if split \<and> is_array groups then
                (if list_ex nullish (elems groups) then None
                 else Some (top # List.map_filter (group_option i name suffix disabled)
                   (sort_by (group_after collate) (filter is_leaf (elems groups)))))
              else Some [top])"

fun all_options :: "(jstr \<Rightarrow> jstr \<Rightarrow> int) \<Rightarrow> jsv list \<Rightarrow> search_option list option" where
  "all_options collate [] = Some []"
| "all_options collate (p # ps) =
     (case policy_options collate p of
        None \<Rightarrow> None
      | Some opts \<Rightarrow> map_option ((@) opts) (all_options collate ps))"

definition entrySearchOptions :: "(jstr \<Rightarrow> jstr \<Rightarrow> int) \<Rightarrow> jsv \<Rightarrow> search_option list option" where
  "entrySearchOptions collate policies = (if \<not> is_array policies then Some [] else all_options collate (elems policies))"

section \<open>Checked parameters\<close>

lemma normalized_idem [simp]: "normalizedGuardFilters (normalizedGuardFilters f) = normalizedGuardFilters f"
  by (simp add: normalizedGuardFilters_def)

lemma error_normalized [simp]: "guardFilterError (normalizedGuardFilters f) = guardFilterError f"
  by (simp add: guardFilterError_def)

lemma normalized_fields [simp]:
  "gf_entry (normalizedGuardFilters f) = gf_entry f" "gf_start_at (normalizedGuardFilters f) = gf_start_at f"
  "gf_end_at (normalizedGuardFilters f) = gf_end_at f" "gf_result (normalizedGuardFilters f) = gf_result f"
  "gf_sort (normalizedGuardFilters f) = gf_sort f" "gf_ip (normalizedGuardFilters f) = trim (gf_ip f)"
  "gf_account (normalizedGuardFilters f) = trim (gf_account f)" "gf_ua (normalizedGuardFilters f) = trim (gf_ua f)"
  "gf_account_match (normalizedGuardFilters f) = gf_account_match f" "gf_ua_match (normalizedGuardFilters f) = gf_ua_match f"
  by (simp_all add: normalizedGuardFilters_def)

lemma page_size_bounds: "num_le (num 1) (page_size_of n) \<and> num_le (page_size_of n) (num 100)"
  using clamp_bounds [of 1 20 100 n] by (simp add: page_size_of_def)

lemma page_current_ge: "num_le (num 1) (page_current n)"
  by (cases n) (auto simp: page_current_def num_max_def num_or_def num_truthy_def num_floor_def num_map_def
      num_le_def num_def)

lemma error_none_ok: "guardFilterError f = None \<Longrightarrow> \<exists>sel. entrySearchSelection (gf_entry f) = Inr sel"
  by (auto simp: guardFilterError_def Let_def is_ok_iff split: if_splits)

definition asks_something :: "jobj \<Rightarrow> bool" where
  "asks_something ps \<longleftrightarrow>
     (\<exists>k \<in> set (map js [''policy_id'', ''ip'', ''account'', ''ua'', ''start_at'']). oget k ps \<noteq> JUndef) \<or>
     oget (js ''result'') ps \<noteq> JStr (js ''all'')"

lemma entry_selected:
  "entrySearchSelection e = Inr sel \<Longrightarrow> (sel = None \<longleftrightarrow> e = []) \<and>
     (\<forall>p g. sel = Some (p, g) \<longrightarrow> num_lt (num 0) p \<and> (\<forall>i. g = Some i \<longrightarrow> num_lt (num 0) i))"
  by (auto simp: entrySearchSelection_def split: if_splits option.splits)

lemma params_fields:
  assumes "guardSearchParams f c n = Inr ps"
  shows "oget (js ''current'') ps = JNum (page_current c)" "oget (js ''page_size'') ps = JNum (page_size_of n)"
    "oget (js ''start_at'') ps = (case gf_start_at f of None \<Rightarrow> JUndef | Some a \<Rightarrow> JNum a)"
    "oget (js ''end_at'') ps = (case gf_start_at f of None \<Rightarrow> JUndef | Some a \<Rightarrow>
       (case gf_end_at f of None \<Rightarrow> JUndef | Some b \<Rightarrow> JNum b))"
    "oget (js ''result'') ps = JStr (gf_result f)"
    "oget (js ''ip'') ps = (if trim (gf_ip f) = [] then JUndef else JStr (trim (gf_ip f)))"
    "oget (js ''account'') ps = (if trim (gf_account f) = [] then JUndef else JStr (trim (gf_account f)))"
    "oget (js ''ua'') ps = (if trim (gf_ua f) = [] then JUndef else JStr (trim (gf_ua f)))"
    "oget (js ''policy_id'') ps = JUndef \<longleftrightarrow> gf_entry f = []"
    "guardFilterError f = None"
proof -
  obtain sel where sel: "guardFilterError f = None" "entrySearchSelection (gf_entry f) = Inr sel"
    and ps: "ps = selection_params sel @
              [(js ''result'', JStr (gf_result f)), (js ''sort'', JStr (gf_sort f)),
               (js ''current'', JNum (page_current c)), (js ''page_size'', JNum (page_size_of n))] @
              (if trim (gf_ip f) \<noteq> [] then [(js ''ip'', JStr (trim (gf_ip f)))] else []) @
              (if trim (gf_account f) \<noteq> [] then
                 [(js ''account'', JStr (trim (gf_account f))), (js ''account_match'', JStr (gf_account_match f))] else []) @
              (if trim (gf_ua f) \<noteq> [] then [(js ''ua'', JStr (trim (gf_ua f))), (js ''ua_match'', JStr (gf_ua_match f))] else []) @
              (case gf_start_at f of None \<Rightarrow> []
               | Some a \<Rightarrow> [(js ''start_at'', JNum a),
                    (js ''end_at'', case gf_end_at f of None \<Rightarrow> JUndef | Some b \<Rightarrow> JNum b)])"
    using assms by (auto simp: guardSearchParams_def Let_def ebind_Inr_iff split: option.splits)
  note simps = ps oget_append oget_cons ohas_cons selection_params_def
  show "oget (js ''current'') ps = JNum (page_current c)" "oget (js ''page_size'') ps = JNum (page_size_of n)"
    "oget (js ''start_at'') ps = (case gf_start_at f of None \<Rightarrow> JUndef | Some a \<Rightarrow> JNum a)"
    "oget (js ''end_at'') ps = (case gf_start_at f of None \<Rightarrow> JUndef | Some a \<Rightarrow>
       (case gf_end_at f of None \<Rightarrow> JUndef | Some b \<Rightarrow> JNum b))"
    "oget (js ''result'') ps = JStr (gf_result f)"
    "oget (js ''ip'') ps = (if trim (gf_ip f) = [] then JUndef else JStr (trim (gf_ip f)))"
    "oget (js ''account'') ps = (if trim (gf_account f) = [] then JUndef else JStr (trim (gf_account f)))"
    "oget (js ''ua'') ps = (if trim (gf_ua f) = [] then JUndef else JStr (trim (gf_ua f)))"
    by (simp_all add: simps split: option.split)
  show "oget (js ''policy_id'') ps = JUndef \<longleftrightarrow> gf_entry f = []"
    using entry_selected [OF sel(2)] by (auto simp: simps split: option.split)
  show "guardFilterError f = None" by (rule sel(1))
qed

text \<open>Parameters are made only for filters without an error; the page number is at least one and
  the page size between one and a hundred whatever was asked; a time window has two whole ends in order; and
  the request asks for something.\<close>

theorem guard_params_checked:
  assumes "guardSearchParams f c n = Inr ps"
  shows "guardFilterError f = None \<and>
    (\<exists>p s. oget (js ''current'') ps = JNum p \<and> num_le (num 1) p \<and>
       oget (js ''page_size'') ps = JNum s \<and> num_le (num 1) s \<and> num_le s (num 100)) \<and>
    (\<forall>a. oget (js ''start_at'') ps = JNum a \<longrightarrow>
       (\<exists>b. oget (js ''end_at'') ps = JNum b \<and> is_safe a \<and> is_safe b \<and> num_le (num 0) a \<and> num_lt a b)) \<and>
    asks_something ps"
proof -
  note fields = params_fields [OF assms]
  have window: "\<not> bad_window a b \<Longrightarrow> is_safe a \<and> is_safe b \<and> num_le (num 0) a \<and> num_lt a b" for a b
    by (auto simp: bad_window_def is_safe_iff not_less)
  have "\<exists>b. gf_end_at f = Some b \<and> \<not> bad_window a b" if "gf_start_at f = Some a" for a
    using fields(10) that by (auto simp: guardFilterError_def Let_def split: if_splits option.splits)
  moreover have "asks_something ps"
    using fields(10) by (auto simp: asks_something_def fields(3,5-9) guardFilterError_def Let_def split: if_splits option.splits)
  ultimately show ?thesis
    using fields(1-4,10) page_size_bounds page_current_ge window by (fastforce split: option.splits)
qed

definition demo_filters :: guard_filters where
  "demo_filters = emptyGuardFilters\<lparr>gf_start_at := Some (num 5), gf_end_at := Some (num 9)\<rparr>"

theorem guard_params_checked_witness:
  "\<exists>ps. guardSearchParams demo_filters (num 0) (num 500) = Inr ps \<and> asks_something ps"
proof -
  have "guardFilterError demo_filters = None"
    by (simp add: guardFilterError_def demo_filters_def emptyGuardFilters_def entrySearchSelection_def bad_window_def max_safe_def)
  then obtain ps where "guardSearchParams demo_filters (num 0) (num 500) = Inr ps"
    by (simp add: guardSearchParams_def demo_filters_def emptyGuardFilters_def entrySearchSelection_def)
  with guard_params_checked [OF this] show ?thesis by blast
qed

section \<open>Fingerprints\<close>

text \<open>What a search depends on: the normalised filters, without the match modes of empty fields.\<close>

definition same_search :: "guard_filters \<Rightarrow> guard_filters \<Rightarrow> bool" where
  "same_search f g \<longleftrightarrow>
     trim (gf_ip f) = trim (gf_ip g) \<and> trim (gf_account f) = trim (gf_account g) \<and> gf_entry f = gf_entry g \<and>
     trim (gf_ua f) = trim (gf_ua g) \<and> gf_start_at f = gf_start_at g \<and> gf_end_at f = gf_end_at g \<and>
     gf_result f = gf_result g \<and> gf_sort f = gf_sort g \<and>
     (trim (gf_account f) \<noteq> [] \<longrightarrow> gf_account_match f = gf_account_match g) \<and>
     (trim (gf_ua f) \<noteq> [] \<longrightarrow> gf_ua_match f = gf_ua_match g)"

text \<open>Strings of code units, times that are safe integers.\<close>

definition filters_ok :: "guard_filters \<Rightarrow> bool" where
  "filters_ok f \<longleftrightarrow>
     list_all (list_all is_unit) [gf_account f, gf_ip f, gf_account_match f, gf_entry f, gf_ua f, gf_ua_match f,
       gf_result f, gf_sort f] \<and>
     (case gf_start_at f of None \<Rightarrow> True | Some a \<Rightarrow> is_safe a) \<and> (case gf_end_at f of None \<Rightarrow> True | Some b \<Rightarrow> is_safe b)"

lemma unit_trim: "list_all is_unit s \<Longrightarrow> list_all is_unit (trim s)"
  using trim_subset [of s] by (auto simp: list_all_iff)

lemma key_atom_or_null: "(case n of None \<Rightarrow> True | Some a \<Rightarrow> is_safe a) \<Longrightarrow> key_atom (or_null n)"
  by (auto simp: or_null_def key_atom_def is_safe_iff split: option.splits)

lemma fingerprint_atoms: "filters_ok f \<Longrightarrow> list_all key_atom (fingerprint_fields (normalizedGuardFilters f))"
  by (simp add: fingerprint_fields_def filters_ok_def key_atom_or_null unit_trim) (simp add: key_atom_def unit_trim)

lemma or_null_inj [simp]: "or_null a = or_null b \<longleftrightarrow> a = b"
  by (auto simp: or_null_def split: option.splits)

text \<open>Two searches have the same fingerprint exactly when they ask for the same: a result is never
  shown for filters it was not asked with, and never dropped for filters that mean the same.\<close>

theorem fingerprint_faithful:
  assumes "filters_ok f" "filters_ok g"
  shows "guardFilterFingerprint f = guardFilterFingerprint g \<longleftrightarrow> same_search f g"
proof -
  have "guardFilterFingerprint f = guardFilterFingerprint g \<longleftrightarrow>
      fingerprint_fields (normalizedGuardFilters f) = fingerprint_fields (normalizedGuardFilters g)"
    unfolding guardFilterFingerprint_def
    by (rule json_flat_inj) (use assms fingerprint_atoms in \<open>auto simp: fingerprint_fields_def\<close>)
  then show ?thesis by (auto simp: fingerprint_fields_def same_search_def split: if_splits)
qed

theorem fingerprint_faithful_witness:
  "guardFilterFingerprint (emptyGuardFilters\<lparr>gf_ua_match := js ''equals''\<rparr>) = guardFilterFingerprint emptyGuardFilters"
proof -
  have "filters_ok emptyGuardFilters" "filters_ok (emptyGuardFilters\<lparr>gf_ua_match := js ''equals''\<rparr>)"
    by code_simp+
  from fingerprint_faithful [OF this(2,1)] show ?thesis by (simp add: same_search_def emptyGuardFilters_def)
qed

section \<open>Options\<close>

lemma entry_match_policy:
  assumes "all_digits p"
  shows "entry_match (js ''policy:'' @ p) = Some (p, None)"
    and "all_digits g \<Longrightarrow> entry_match (js ''policy:'' @ p @ js ''/group:'' @ g) = Some (p, Some g)"
proof -
  have p: "list_all is_digit p" "p \<noteq> []" using assms by (simp_all add: all_digits_def)
  have start: "starts_with (js ''policy:'' @ t) (js ''policy:'')" for t by (auto simp: starts_with_iff)
  have drop: "drop 7 (js ''policy:'' @ t) = t" for t by simp
  show "entry_match (js ''policy:'' @ p) = Some (p, None)"
    using p by (simp add: entry_match_def start drop takeWhile_all_digits dropWhile_all_digits Let_def)
  assume g: "all_digits g"
  have head: "js ''/group:'' @ g = 47 # js ''group:'' @ g" by (simp add: js_def)
  then have cut: "takeWhile is_digit (p @ js ''/group:'' @ g) = p" "dropWhile is_digit (p @ js ''/group:'' @ g) = js ''/group:'' @ g"
    using p by (simp_all add: list_all_iff takeWhile_append2 dropWhile_append2 is_digit_def)
  have "starts_with (js ''/group:'' @ g) (js ''/group:'')" by (auto simp: starts_with_iff)
  then show "entry_match (js ''policy:'' @ p @ js ''/group:'' @ g) = Some (p, Some g)"
    using p g by (simp add: entry_match_def start drop cut Let_def)
qed

lemma positive_id_text:
  assumes "positive_id n"
  shows "all_digits (num_str n)" "str_num (num_str n) = n" "num_lt (num 0) n"
  using assms by (auto simp: positive_id_iff num_str_num int_str_digits max_safe_def all_digits_digits_of str_num_digits_of)

definition readable_option :: "search_option \<Rightarrow> bool" where
  "readable_option opt \<longleftrightarrow> (\<exists>p g. positive_id p \<and> (case g of None \<Rightarrow> True | Some i \<Rightarrow> positive_id i) \<and>
     sr_value opt = policy_value p @ (case g of None \<Rightarrow> [] | Some i \<Rightarrow> js ''/group:'' @ num_str i) \<and>
     entrySearchSelection (sr_value opt) = Inr (Some (p, g)))"

lemma readable_policy: "positive_id p \<Longrightarrow> sr_value opt = policy_value p \<Longrightarrow> readable_option opt"
  unfolding readable_option_def
  by (intro exI [of _ p] exI [of _ None])
     (simp add: policy_value_def entrySearchSelection_def entry_match_policy positive_id_text)

lemma readable_group:
  "positive_id p \<Longrightarrow> positive_id i \<Longrightarrow> sr_value opt = policy_value p @ js ''/group:'' @ num_str i \<Longrightarrow> readable_option opt"
  unfolding readable_option_def
  by (intro exI [of _ p] exI [of _ "Some i"])
     (simp add: policy_value_def entrySearchSelection_def entry_match_policy positive_id_text)

lemma readable_built:
  "positive_id p \<Longrightarrow> readable_option \<lparr>sr_value = policy_value p, sr_label = l, sr_disabled = d\<rparr>"
  "positive_id p \<Longrightarrow> positive_id i \<Longrightarrow>
     readable_option \<lparr>sr_value = policy_value p @ js ''/group:'' @ num_str i, sr_label = l, sr_disabled = d\<rparr>"
  by (auto intro: readable_policy readable_group)

lemma policy_options_readable: "policy_options collate p = Some opts \<Longrightarrow> list_all readable_option opts"
proof -
  assume a: "policy_options collate p = Some opts"
  let ?i = "to_num (jprop p (js ''id''))"
  have groups: "list_all readable_option (List.map_filter (group_option ?i name suffix disabled) gs)"
    if "positive_id ?i" for name suffix disabled gs
    using that by (auto simp: list_all_iff List.map_filter_def group_option_def Let_def readable_built split: if_splits)
  show ?thesis
    using a groups by (auto simp: policy_options_def Let_def readable_built split: if_splits)
qed

text \<open>Every entry that is offered is understood when it is chosen: its value is read back as the
  policy and the group it stands for.\<close>

theorem search_options_readable:
  assumes "entrySearchOptions collate policies = Some opts" "opt \<in> set opts"
  shows "readable_option opt"
proof -
  have "all_options collate ps = Some os \<Longrightarrow> list_all readable_option os" for ps os
    by (induction ps arbitrary: os) (auto dest: policy_options_readable split: option.splits)
  then show ?thesis
    using assms by (auto simp: entrySearchOptions_def list_all_iff split: if_splits)
qed

definition demo_policy :: jsv where
  "demo_policy = JObj [(js ''id'', JNum (num 4)), (js ''mode'', JStr (js ''split'')), (js ''enabled'', JBool True),
     (js ''name'', JStr (js ''p'')),
     (js ''split_groups'', JArr [JObj [(js ''id'', JNum (num 6)), (js ''is_leaf'', JBool True), (js ''name'', JStr (js ''g''))]])]"

theorem search_options_readable_witness:
  "entrySearchSelection (js ''policy:4/group:6'') = Inr (Some (num 4, Some (num 6)))"
proof -
  have "map_option (map sr_value) (entrySearchOptions (\<lambda>_ _. 0) (JArr [demo_policy])) =
      Some [js ''policy:4'', js ''policy:4/group:6'']"
    by code_simp
  then obtain opts where opts: "entrySearchOptions (\<lambda>_ _. 0) (JArr [demo_policy]) = Some opts"
    "map sr_value opts = [js ''policy:4'', js ''policy:4/group:6'']" by auto
  have "js ''policy:4/group:6'' \<in> sr_value ` set opts" using arg_cong [OF opts(2), of set] by simp
  then obtain opt where opt: "opt \<in> set opts" "sr_value opt = js ''policy:4/group:6''" by auto
  obtain p g where pg: "entrySearchSelection (js ''policy:4/group:6'') = Inr (Some (p, g))"
    using search_options_readable [OF opts(1) opt(1)] opt(2) unfolding readable_option_def by metis
  have "entry_match (js ''policy:4/group:6'') = Some (js ''4'', Some (js ''6''))" by code_simp
  moreover have "str_num (js ''4'') = num 4" "str_num (js ''6'') = num 6"
    using str_num_digits_of [of 4] str_num_digits_of [of 6] by (simp_all add: js_def digits_of.simps [of 4] digits_of.simps [of 6])
  ultimately have "p = num 4 \<and> g = Some (num 6)" using pg by (auto simp: entrySearchSelection_def split: if_splits)
  then show ?thesis using pg by simp
qed

end
