(* ===== verification/Delivery.thy ===== *)
theory Delivery
  imports JsJson GuardSearch
begin

text \<open>
  \<open>pages/subscriptionDelivery.ts\<close>: the search for what a subscription delivered. The filters stay a
  JavaScript object (the order of its fields is the order of the request and of its cache key).
\<close>

datatype delivery_error =
    HalfTime | TimeOrder | BadHost | BadPort | TooLong | BadRuleId | BadServerId | BadProtocol
  | BadRevision | BadVersion | TooFar | NoRevision | NoVersion | BadPage | BadStatistics

definition protocols :: "jstr set" where
  "protocols = set (map js [''shadowsocks'', ''vmess'', ''vless'', ''trojan'', ''tuic'', ''hysteria'', ''hysteria2'',
     ''anytls'', ''v2node'', ''juicity'', ''mieru'', ''socks'', ''http''])"

text \<open>A field that the type of the filters says is a string.\<close>

definition str_at :: "string \<Rightarrow> jobj \<Rightarrow> jstr" where
  "str_at k o' = (case oget (js k) o' of JStr s \<Rightarrow> s | _ \<Rightarrow> [])"

definition initialDeliveryFilters :: "jnum \<Rightarrow> jobj" where
  "initialDeliveryFilters now =
     [(js ''host'', JStr []), (js ''port'', JStr (js ''54101'')), (js ''account'', JStr []), (js ''ua'', JStr []),
      (js ''from'', JNum (num_sub now (num 86400))), (js ''to'', JNum now), (js ''server_type'', JStr []),
      (js ''rule_revision'', JStr [])]"

definition trimmed_fields :: "string list" where
  "trimmed_fields = [''host'', ''port'', ''account'', ''ua'', ''server_type'', ''rule_revision'']"

definition normalizedDeliveryFilters :: "jobj \<Rightarrow> jobj" where
  "normalizedDeliveryFilters filters =
     omerge filters (map (\<lambda>k. (js k, JStr (trim (str_at k filters)))) trimmed_fields)"

definition deliveryFilterKey :: "jobj \<Rightarrow> jstr" where
  "deliveryFilterKey filters = json_str (JObj (normalizedDeliveryFilters filters))"

text \<open>\<open>/^[a-f0-9]{n}$/\<close>.\<close>

definition is_hex :: "nat \<Rightarrow> jstr \<Rightarrow> bool" where
  "is_hex n s \<longleftrightarrow> length s = n \<and> list_all (\<lambda>c. is_digit c \<or> (97 \<le> c \<and> c \<le> 102)) s"

definition port_text :: "jstr \<Rightarrow> bool" where
  "port_text s \<longleftrightarrow> 1 \<le> length s \<and> length s \<le> 64 \<and> list_all (\<lambda>c. is_digit c \<or> c = 44 \<or> c = 45) s"

definition safe_number :: "jsv \<Rightarrow> bool" where
  "safe_number v = (case v of JNum n \<Rightarrow> is_safe n | _ \<Rightarrow> False)"

definition bad_times :: "jsv \<Rightarrow> jsv \<Rightarrow> bool" where
  "bad_times from to \<longleftrightarrow> from \<noteq> JUndef \<and>
     (\<not> safe_number from \<or> \<not> safe_number to \<or> num_lt (to_num from) (num 0) \<or> num_le (to_num to) (to_num from))"

definition bad_id :: "jsv \<Rightarrow> bool" where
  "bad_id v \<longleftrightarrow> v \<noteq> JUndef \<and> (\<not> safe_number v \<or> num_lt (to_num v) (num 1))"

definition deliveryFilterError :: "jobj \<Rightarrow> delivery_error option" where
  "deliveryFilterError filters =
     (let f = normalizedDeliveryFilters filters; from = oget (js ''from'') f; to = oget (js ''to'') f;
          server = oget (js ''server_id'') f; version = oget (js ''version'') f
      in if (from = JUndef) \<noteq> (to = JUndef) then Some HalfTime
         else if bad_times from to then Some TimeOrder
         else if 255 < length (str_at ''host'' f) \<or>
           list_ex (\<lambda>c. is_space c \<or> c = 47 \<or> c = 64 \<or> c = 63 \<or> c = 35) (str_at ''host'' f) then Some BadHost
         else if str_at ''port'' f \<noteq> [] \<and> \<not> port_text (str_at ''port'' f) then Some BadPort
         else if 254 < length (str_at ''account'' f) \<or> 1024 < length (str_at ''ua'' f) then Some TooLong
         else if list_ex (\<lambda>k. bad_id (oget (js k) f)) [''policy_id'', ''group_id'', ''collection_id''] then Some BadRuleId
         else if server \<noteq> JUndef \<and> (\<not> safe_number server \<or> to_num server = num 0) then Some BadServerId
         else if str_at ''server_type'' f \<noteq> [] \<and> str_at ''server_type'' f \<notin> protocols then Some BadProtocol
         else if str_at ''rule_revision'' f \<noteq> [] \<and> \<not> is_hex 64 (str_at ''rule_revision'' f) then Some BadRevision
         else if truthy version \<and> \<not> is_hex 32 (str_at ''version'' f) then Some BadVersion
         else None)"

definition send_field :: "jstr \<times> jsv \<Rightarrow> jobj \<Rightarrow> jobj" where
  "send_field = (\<lambda>(k, v) params. if v \<noteq> JUndef \<and> v \<noteq> JStr [] then oput k v params else params)"

definition deliveryParams :: "jobj \<Rightarrow> jnum \<Rightarrow> jnum \<Rightarrow> delivery_error + jobj" where
  "deliveryParams filters current pageSize =
     (case deliveryFilterError filters of
        Some err \<Rightarrow> Inl err
      | None \<Rightarrow>
          let size = page_size_of pageSize; page = page_current current
          in if num_lt (num 10000) (num_mul (num_sub page (num 1)) size) then Inl TooFar
             else Inr (fold send_field (normalizedDeliveryFilters filters)
               [(js ''current'', JNum page), (js ''page_size'', JNum size)]))"

record delivery_version =
  dv_policy_id :: jnum
  dv_group_id :: jnum
  dv_collection_id :: jnum
  dv_provider_id :: jnum
  dv_rule_revision :: jstr
  dv_version :: jstr
  dv_resolved :: bool
  dv_source_host :: jstr
  dv_delivered_host :: jstr
  dv_port :: jstr
  dv_source :: jstr

definition deliveryVersionKey :: "delivery_version \<Rightarrow> jstr" where
  "deliveryVersionKey v =
     (if dv_version v \<noteq> [] then dv_version v
      else json_str (JArr [JNum (dv_policy_id v), JNum (dv_group_id v), JNum (dv_collection_id v), JNum (dv_provider_id v),
        JStr (dv_rule_revision v), JStr (dv_source_host v), JStr (dv_delivered_host v), JStr (dv_port v),
        JStr (dv_source v), JBool (dv_resolved v)]))"

definition deliveryVersionFilters :: "jobj \<Rightarrow> delivery_version \<Rightarrow> delivery_error + jobj" where
  "deliveryVersionFilters filters v =
     (if \<not> is_hex 64 (dv_rule_revision v) then Inl NoRevision
      else if \<not> is_hex 32 (dv_version v) then Inl NoVersion
      else Inr (normalizedDeliveryFilters (oput (js ''version'') (JStr (dv_version v)) filters)))"

definition at_least :: "int \<Rightarrow> jsv \<Rightarrow> bool" where
  "at_least m v \<longleftrightarrow> safe_number v \<and> \<not> num_lt (to_num v) (num m)"

definition deliveryPage :: "jsv \<Rightarrow> delivery_error + jsv" where
  "deliveryPage value =
     (if \<not> truthy value \<or> \<not> is_array (jprop value (js ''items'')) \<or> \<not> at_least 0 (jprop value (js ''total'')) \<or>
         \<not> at_least 1 (jprop value (js ''current'')) \<or> \<not> at_least 1 (jprop value (js ''page_size'')) \<or>
         num_lt (num 100) (to_num (jprop value (js ''page_size'')))
      then Inl BadPage else Inr value)"

definition deliveryStatistics :: "jsv \<Rightarrow> delivery_error + jsv" where
  "deliveryStatistics value =
     (if \<not> truthy value \<or>
         list_ex (\<lambda>k. \<not> at_least 0 (jprop value (js k))) [''users'', ''requests'', ''first_at'', ''last_at'']
      then Inl BadStatistics else Inr value)"

section \<open>Facts\<close>

lemma oget_normalized:
  "oget k (normalizedDeliveryFilters f) =
     (if k \<in> js ` set trimmed_fields then JStr (trim (str_at (THE t. js t = k) f)) else oget k f)"
proof -
  let ?g = "\<lambda>k. (js k, JStr (trim (str_at k f)))"
  have d: "distinct (map fst (map ?g trimmed_fields))" by (simp add: trimmed_fields_def)
  have "map_of (map ?g ts) (js t) = (if t \<in> set ts then Some (JStr (trim (str_at t f))) else None)" for ts t
    by (induction ts) auto
  moreover have "map_of (map ?g ts) k = None" if "k \<notin> js ` set ts" for ts
    using that by (induction ts) auto
  ultimately show ?thesis
    by (auto simp: oget_def normalizedDeliveryFilters_def map_of_omerge [OF d] map_add_def split: option.split)
qed

lemma normalized_str [simp]:
  "t \<in> set trimmed_fields \<Longrightarrow> oget (js t) (normalizedDeliveryFilters f) = JStr (trim (str_at t f))"
  by (simp add: oget_normalized)

lemma normalized_other [simp]:
  "t \<notin> set trimmed_fields \<Longrightarrow> oget (js t) (normalizedDeliveryFilters f) = oget (js t) f"
  by (auto simp: oget_normalized)

lemma normalized_twice [simp]:
  "oget (js t) (normalizedDeliveryFilters (normalizedDeliveryFilters f)) = oget (js t) (normalizedDeliveryFilters f)"
  by (cases "t \<in> set trimmed_fields") (simp_all add: str_at_def)

lemma check_passed [simp]: "(if c then Some e else r) = None \<longleftrightarrow> \<not> c \<and> r = None"
  by simp

lemma error_by_fields:
  assumes "\<And>t. t \<noteq> ''version'' \<Longrightarrow> oget (js t) (normalizedDeliveryFilters f) = oget (js t) (normalizedDeliveryFilters g)"
    and "truthy (oget (js ''version'') (normalizedDeliveryFilters g)) \<Longrightarrow> is_hex 32 (str_at ''version'' (normalizedDeliveryFilters g))"
    and "deliveryFilterError f = None"
  shows "deliveryFilterError g = None"
proof -
  have str: "t \<noteq> ''version'' \<Longrightarrow> str_at t (normalizedDeliveryFilters f) = str_at t (normalizedDeliveryFilters g)" for t
    using assms(1) [of t] by (simp add: str_at_def)
  show ?thesis
    using assms(3) assms(2) unfolding deliveryFilterError_def Let_def check_passed
    by (simp add: assms(1) str)
qed

text \<open>Choosing a version out of a search that was accepted gives a search that is accepted: all
  other filters stay as normalised, and exactly that version is asked for.\<close>

theorem version_search_accepted:
  assumes "deliveryFilterError f = None" "deliveryVersionFilters f v = Inr g"
  shows "deliveryFilterError g = None \<and> oget (js ''version'') g = JStr (dv_version v) \<and>
    (\<forall>t. t \<noteq> ''version'' \<longrightarrow> oget (js t) g = oget (js t) (normalizedDeliveryFilters f))"
proof -
  let ?h = "oput (js ''version'') (JStr (dv_version v)) f"
  have g: "g = normalizedDeliveryFilters ?h" "is_hex 32 (dv_version v)"
    using assms(2) by (auto simp: deliveryVersionFilters_def split: if_splits)
  have str: "t \<noteq> ''version'' \<Longrightarrow> str_at t ?h = str_at t f" for t by (simp add: str_at_def)
  have other: "oget (js t) g = oget (js t) (normalizedDeliveryFilters f)" if "t \<noteq> ''version''" for t
    using that str [OF that] by (cases "t \<in> set trimmed_fields") (simp_all add: g)
  have version: "oget (js ''version'') g = JStr (dv_version v)" by (simp add: g trimmed_fields_def)
  have "oget (js t) (normalizedDeliveryFilters f) = oget (js t) (normalizedDeliveryFilters g)" if "t \<noteq> ''version''" for t
    using other [OF that] g(1) by simp
  moreover have "oget (js ''version'') (normalizedDeliveryFilters g) = JStr (dv_version v)"
    using version by (simp add: trimmed_fields_def)
  ultimately have "deliveryFilterError g = None"
    using g(2) assms(1) by (intro error_by_fields [of f g]) (simp_all add: str_at_def)
  then show ?thesis using version other by blast
qed

definition demo_version :: delivery_version where
  "demo_version = \<lparr>dv_policy_id = num 1, dv_group_id = num 0, dv_collection_id = num 0, dv_provider_id = num 0,
     dv_rule_revision = replicate 64 97, dv_version = replicate 32 48, dv_resolved = False, dv_source_host = [],
     dv_delivered_host = [], dv_port = [], dv_source = []\<rparr>"

definition demo_search :: jobj where
  "demo_search = [(js ''host'', JStr (js '' a.example '')), (js ''port'', JStr (js ''54101''))]"

lemma demo_search_accepted: "deliveryFilterError demo_search = None"
  by code_simp

theorem version_search_accepted_witness:
  "\<exists>g. deliveryVersionFilters demo_search demo_version = Inr g \<and> deliveryFilterError g = None \<and>
     oget (js ''host'') g = JStr (js ''a.example'')"
proof -
  have "is_hex 64 (dv_rule_revision demo_version)" "is_hex 32 (dv_version demo_version)"
    by (simp_all add: demo_version_def is_hex_def list_all_iff is_digit_def)
  then obtain g where g: "deliveryVersionFilters demo_search demo_version = Inr g"
    by (simp add: deliveryVersionFilters_def)
  have "oget (js ''host'') (normalizedDeliveryFilters demo_search) = JStr (js ''a.example'')" by code_simp
  then show ?thesis using version_search_accepted [OF demo_search_accepted g] g by auto
qed

lemma fold_send:
  "fold send_field fs params = omerge params (filter (\<lambda>(k, v). v \<noteq> JUndef \<and> v \<noteq> JStr []) fs)"
  by (induction fs arbitrary: params) (auto simp: send_field_def omerge_Cons)

lemma oget_sent:
  assumes "k \<notin> fst ` set fs"
  shows "oget k (fold send_field fs params) = oget k params"
  using assms by (induction fs arbitrary: params) (auto simp: send_field_def)

lemma sent_values:
  "\<forall>(k, v) \<in> set params. v \<noteq> JUndef \<and> v \<noteq> JStr [] \<Longrightarrow>
   (k, v) \<in> set (fold send_field fs params) \<Longrightarrow> v \<noteq> JUndef \<and> v \<noteq> JStr []"
  unfolding fold_send using set_omerge_subset [of params "filter (\<lambda>(k, v). v \<noteq> JUndef \<and> v \<noteq> JStr []) fs"] by fastforce

text \<open>A delivery search is sent only for accepted filters, with a page of one to a hundred items not
  further than ten thousand into the result, and without empty fields.\<close>

theorem delivery_params_bounded:
  assumes "deliveryParams f c n = Inr ps" "\<not> ohas (js ''current'') f" "\<not> ohas (js ''page_size'') f"
  shows "deliveryFilterError f = None \<and>
    (\<exists>p s. oget (js ''current'') ps = JNum p \<and> oget (js ''page_size'') ps = JNum s \<and>
       num_le (num 1) p \<and> num_le (num 1) s \<and> num_le s (num 100) \<and>
       \<not> num_lt (num 10000) (num_mul (num_sub p (num 1)) s)) \<and>
    (\<forall>(k, v) \<in> set ps. v \<noteq> JUndef \<and> v \<noteq> JStr [])"
proof -
  let ?start = "[(js ''current'', JNum (page_current c)), (js ''page_size'', JNum (page_size_of n))]"
  have ok: "deliveryFilterError f = None" "\<not> num_lt (num 10000) (num_mul (num_sub (page_current c) (num 1)) (page_size_of n))"
    and ps: "ps = fold send_field (normalizedDeliveryFilters f) ?start"
    using assms(1) by (auto simp: deliveryParams_def Let_def split: option.splits if_splits)
  have "js t \<notin> fst ` set (normalizedDeliveryFilters f)" if "t = ''current'' \<or> t = ''page_size''" for t
  proof -
    have "js t \<notin> js ` set trimmed_fields" using that by (auto simp: trimmed_fields_def)
    then show ?thesis using assms(2,3) that
      by (auto simp: normalizedDeliveryFilters_def ohas_def fst_omerge image_image)
  qed
  then have "oget (js ''current'') ps = JNum (page_current c)" "oget (js ''page_size'') ps = JNum (page_size_of n)"
    by (simp_all add: ps oget_sent oget_cons)
  moreover have "\<forall>(k, v) \<in> set ps. v \<noteq> JUndef \<and> v \<noteq> JStr []"
    using sent_values [of ?start] unfolding ps by fastforce
  ultimately show ?thesis using ok page_size_bounds page_current_ge by blast
qed

theorem delivery_params_bounded_witness:
  "\<exists>ps p. deliveryParams demo_search (num 2) (num 1000) = Inr ps \<and> oget (js ''page_size'') ps = JNum p \<and> num_le p (num 100)"
proof -
  have "page_current (num 2) = num 2" "page_size_of (num 1000) = num 100" by (simp_all add: page_current_def page_size_of_def)
  then have "\<not> num_lt (num 10000) (num_mul (num_sub (page_current (num 2)) (num 1)) (page_size_of (num 1000)))"
    by (simp add: num_sub_num num_mul_num)
  then obtain ps where ps: "deliveryParams demo_search (num 2) (num 1000) = Inr ps"
    by (simp add: deliveryParams_def demo_search_accepted Let_def)
  have "\<not> ohas (js ''current'') demo_search" "\<not> ohas (js ''page_size'') demo_search"
    by (simp_all add: demo_search_def ohas_def)
  from delivery_params_bounded [OF ps this] show ?thesis using ps by blast
qed

end
