(* ===== verification/Api.thy ===== *)
theory Api
  imports JsJson JsStorage JsNumText
begin

text \<open>
  \<open>lib/api.ts\<close>: the client of the back end. Two worlds share it: the ordinary admin front end, whose token is
  in the storage of the browser, and the Telegram mini app, whose session is only in memory. The state of the
  module and of the browser it uses is \<open>api\<close>; every function that may throw or send is a state transformer
  with a result. A request is kept in parts: how \<open>URLSearchParams\<close> and \<open>encodeURIComponent\<close> write a query as
  text belongs to the browser. The storage is taken to be usable; a browser that refuses it makes every use throw.
\<close>

section \<open>State\<close>

record mini_identity =
  mi_id :: jnum
  mi_email :: jstr
  mi_is_admin :: jnum
  mi_is_staff :: jnum

record mini_session =
  ms_token :: jstr
  ms_expires_at :: jnum
  ms_user :: mini_identity

datatype http_method = GET | POST | PUT | PATCH | DELETE

type_synonym query = "(jstr \<times> jstr) list"

datatype request_body = NoBody | Json jsv | Form query

record request =
  rq_method :: http_method
  rq_path :: jstr
  rq_query :: query
  rq_authorization :: "jstr option"
  rq_body :: request_body
  rq_credentials :: bool \<comment> \<open>\<open>same-origin\<close>; otherwise \<open>omit\<close>\<close>
  rq_guarded :: bool \<comment> \<open>its answer goes through \<open>revalidateSupportIdentity\<close>\<close>

record response =
  rs_status :: int
  rs_text :: jstr
  rs_status_text :: jstr

datatype window_event = MiniAuthInvalid | AuthInvalid

datatype api_error =
    BadIdentity | SessionExpired | MiniOnly | CredentialInQuery | OutsideTelegram
  | Rejected jstr

record api =
  ap_storage :: web_storage
  ap_mini :: bool
  ap_session :: "mini_session option"
  ap_secure_path :: jsv \<comment> \<open>\<open>window.settings.secure_path\<close>\<close>
  ap_pathname :: jstr
  ap_now :: jnum
  ap_refresh :: "jstr option" \<comment> \<open>the token a running revalidation was started for\<close>
  ap_events :: "window_event list"
  ap_sent :: "request list"

type_synonym 'a call = "api \<Rightarrow> (api_error + 'a) \<times> api"

definition throw :: "api_error \<Rightarrow> 'a call" where
  "throw e s = (Inl e, s)"

definition return :: "'a \<Rightarrow> 'a call" where
  "return x s = (Inr x, s)"

definition andthen :: "'a call \<Rightarrow> ('a \<Rightarrow> 'b call) \<Rightarrow> 'b call" where
  "andthen m f s = (case m s of (Inl e, s') \<Rightarrow> (Inl e, s') | (Inr x, s') \<Rightarrow> f x s')"

definition dispatch_event :: "window_event \<Rightarrow> api \<Rightarrow> api" where
  "dispatch_event e s = s\<lparr>ap_events := ap_events s @ [e]\<rparr>"

definition send :: "request \<Rightarrow> request call" where
  "send r s = (Inr r, s\<lparr>ap_sent := ap_sent s @ [r]\<rparr>)"

section \<open>The session of the mini app\<close>

definition activateTelegramMiniApp :: "api \<Rightarrow> api" where
  "activateTelegramMiniApp s = s\<lparr>ap_mini := True, ap_session := None\<rparr>"

definition zero_one :: "jsv \<Rightarrow> bool" where
  "zero_one v = among [JNum (num 0), JNum (num 1)] v"

definition telegramMiniIdentity :: "jsv \<Rightarrow> api_error + mini_identity" where
  "telegramMiniIdentity user =
     (case (jprop user (js ''id''), jprop user (js ''email''), jprop user (js ''is_admin''), jprop user (js ''is_staff'')) of
        (JNum i, JStr email, JNum adm, JNum staff) \<Rightarrow>
          if positive_id i \<and> zero_one (JNum adm) \<and> zero_one (JNum staff) \<and> (num_truthy adm \<or> num_truthy staff)
          then Inr \<lparr>mi_id = i, mi_email = email, mi_is_admin = adm, mi_is_staff = staff\<rparr>
          else Inl BadIdentity
      | _ \<Rightarrow> Inl BadIdentity)"

definition millis :: "jnum \<Rightarrow> jnum" where
  "millis t = num_mul t (num 1000)"

definition setTelegramMiniSession :: "jsv \<Rightarrow> unit call" where
  "setTelegramMiniSession value s =
     (case (jprop value (js ''token''), jprop value (js ''expires_at'')) of
        (JStr token, JNum expires) \<Rightarrow>
          if \<not> ap_mini s \<or> token = [] \<or> list_ex is_space token \<or> \<not> is_safe expires \<or> num_le (millis expires) (ap_now s)
          then (Inl SessionExpired, s)
          else (case telegramMiniIdentity (jprop value (js ''user'')) of
                  Inl e \<Rightarrow> (Inl e, s)
                | Inr user \<Rightarrow>
                    (Inr (), s\<lparr>ap_session := Some \<lparr>ms_token = token, ms_expires_at = expires, ms_user = user\<rparr>\<rparr>))
      | _ \<Rightarrow> (Inl SessionExpired, s))"

definition invalidateTelegramMiniSession :: "api \<Rightarrow> api" where
  "invalidateTelegramMiniSession s =
     (if \<not> ap_mini s then s else dispatch_event MiniAuthInvalid (s\<lparr>ap_session := None\<rparr>))"

definition requireMiniSession :: "mini_session call" where
  "requireMiniSession s =
     (case ap_session s of
        Some ses \<Rightarrow>
          if \<not> ap_mini s \<or> num_le (millis (ms_expires_at ses)) (ap_now s)
          then (Inl SessionExpired, invalidateTelegramMiniSession s) else (Inr ses, s)
      | None \<Rightarrow> (Inl SessionExpired, invalidateTelegramMiniSession s))"

definition prohibitMiniRequest :: "unit call" where
  "prohibitMiniRequest s = (if ap_mini s then Inl MiniOnly else Inr (), s)"

section \<open>Where requests go\<close>

definition strip_slashes :: "jstr \<Rightarrow> jstr" where
  "strip_slashes s = rev (dropWhile (\<lambda>c. c = 47) (rev (dropWhile (\<lambda>c. c = 47) s)))"

definition default_path :: jstr where
  "default_path = js ''localadmin''"

definition normalizeAdminPath :: "jsv \<Rightarrow> jstr" where
  "normalizeAdminPath value =
     (let path = strip_slashes (to_str (jor value (JStr [])))
      in if path = [] \<or> path = js ''assets'' \<or> path = js ''admin-new'' \<or> starts_with path (js ''assets/'') then []
         else path)"

definition pathAdminSegment :: "jstr \<Rightarrow> jstr" where
  "pathAdminSegment pathname =
     (case filter (\<lambda>p. p \<noteq> []) (split_on 47 pathname) of
        [] \<Rightarrow> []
      | p # ps \<Rightarrow>
          if p = js ''assets'' \<and> ps \<noteq> [] \<and> hd ps = js ''admin-new'' then default_path else p)"

definition or_str :: "jstr \<Rightarrow> jstr \<Rightarrow> jstr" where
  "or_str a b = (if a = [] then b else a)"

definition auth_key :: jstr where "auth_key = js ''forest_admin_auth_data''"
definition user_key :: jstr where "user_key = js ''forest_admin_user_info''"
definition path_key :: jstr where "path_key = js ''forest_admin_path''"

definition item_value :: "jstr option \<Rightarrow> jsv" where
  "item_value v = (case v of None \<Rightarrow> JNull | Some s \<Rightarrow> JStr s)"

definition getAdminPath :: "api \<Rightarrow> jstr" where
  "getAdminPath s =
     (if ap_mini s then js ''ai-ops-mini''
      else
        let saved = normalizeAdminPath (item_value (item_get path_key (ap_storage s)));
            fromSettings = normalizeAdminPath (ap_secure_path s)
        in strip_slashes (or_str saved (or_str fromSettings (or_str (pathAdminSegment (ap_pathname s)) default_path))))"

definition setAdminPath :: "jstr \<Rightarrow> unit call" where
  "setAdminPath path = andthen prohibitMiniRequest (\<lambda>_ s.
     (Inr (), s\<lparr>ap_storage := item_put path_key (or_str (normalizeAdminPath (JStr path)) default_path) (ap_storage s)\<rparr>))"

definition url_char :: "int \<Rightarrow> bool" where
  "url_char c \<longleftrightarrow> is_digit c \<or> (97 \<le> c \<and> c \<le> 122) \<or> (65 \<le> c \<and> c \<le> 90) \<or> c = 47 \<or> c = 45"

definition aiOpsRequestURL :: "jstr \<Rightarrow> jstr call" where
  "aiOpsRequestURL path s =
     (if \<not> ap_mini s then (Inr (js ''/api/v1/'' @ getAdminPath s @ path), s)
      else if \<not> (starts_with (map lower_unit (take 8 path)) (js ''/ai-ops/'') \<and> drop 8 path \<noteq> [] \<and>
                 list_all url_char path) \<or> contains path (js ''//'') then (Inl MiniOnly, s)
      else (Inr (js ''/api/v1/ai-ops-mini/'' @ drop 8 path), s))"

section \<open>Credentials\<close>

definition getAuth :: "api \<Rightarrow> jstr" where
  "getAuth s =
     (if ap_mini s then (case ap_session s of None \<Rightarrow> [] | Some ses \<Rightarrow> ms_token ses)
      else (case item_get auth_key (ap_storage s) of None \<Rightarrow> [] | Some t \<Rightarrow> t))"

definition setAuth :: "jstr \<Rightarrow> unit call" where
  "setAuth token = andthen prohibitMiniRequest (\<lambda>_ s.
     (Inr (), s\<lparr>ap_storage := item_put auth_key token (ap_storage s)\<rparr>))"

definition clearAdminUserInfo :: "api \<Rightarrow> api" where
  "clearAdminUserInfo s =
     (if ap_mini s then s\<lparr>ap_session := None\<rparr> else s\<lparr>ap_storage := item_del user_key (ap_storage s)\<rparr>)"

definition clearAuth :: "api \<Rightarrow> api" where
  "clearAuth s =
     (if ap_mini s then s\<lparr>ap_session := None\<rparr>
      else clearAdminUserInfo (s\<lparr>ap_storage := item_del auth_key (ap_storage s)\<rparr>))"

definition identity_object :: "mini_identity \<Rightarrow> jobj" where
  "identity_object u = [(js ''id'', JNum (mi_id u)), (js ''email'', JStr (mi_email u)),
     (js ''is_admin'', JNum (mi_is_admin u)), (js ''is_staff'', JNum (mi_is_staff u))]"

definition getAdminUserInfo :: "api \<Rightarrow> jsv" where
  "getAdminUserInfo s =
     (if ap_mini s then (case ap_session s of None \<Rightarrow> JObj [] | Some ses \<Rightarrow> JObj (identity_object (ms_user ses)))
      else
        let text = (case item_get user_key (ap_storage s) of None \<Rightarrow> js ''{}'' | Some t \<Rightarrow> or_str t (js ''{}''))
        in case json_parse text of None \<Rightarrow> JObj [] | Some v \<Rightarrow> jor v (JObj []))"

definition setAdminUserInfo :: "jobj \<Rightarrow> unit call" where
  "setAdminUserInfo user = andthen prohibitMiniRequest (\<lambda>_ s.
     (let email = trimmed (jor (oget (js ''email'') user) (jor (oget (js ''mail'') user) (oget (js ''account'') user)))
      in (Inr (), s\<lparr>ap_storage := item_put user_key (json_str (JObj (oput (js ''email'') (JStr email) user))) (ap_storage s)\<rparr>)))"

definition bearer :: "jstr \<Rightarrow> jstr" where
  "bearer t = js ''Bearer '' @ t"

definition aiOpsRequestHeaders :: "jstr call" where
  "aiOpsRequestHeaders s =
     (if ap_mini s then andthen requireMiniSession (\<lambda>ses. return (bearer (ms_token ses))) s else (Inr (getAuth s), s))"

section \<open>Queries\<close>

text \<open>\<open>URLSearchParams.set\<close>.\<close>

fun qset :: "jstr \<Rightarrow> jstr \<Rightarrow> query \<Rightarrow> query" where
  "qset k v [] = [(k, v)]"
| "qset k v ((l, w) # q) = (if l = k then (k, v) # filter (\<lambda>(m, _). m \<noteq> k) q else (l, w) # qset k v q)"

definition entries :: "jsv \<Rightarrow> (jstr \<times> jsv) list" where
  "entries v = (case v of
      JObj kv \<Rightarrow> kv | JArr vs \<Rightarrow> map (\<lambda>(i, x). (digits_of (int i), x)) (enumerate 0 vs) | _ \<Rightarrow> [])"

definition sub_key :: "jstr \<Rightarrow> jstr \<Rightarrow> jstr" where
  "sub_key key child = key @ [91] @ child @ [93]"

lemma entries_smaller: "(k, x) \<in> set (entries v) \<Longrightarrow> size x < size v"
proof (cases v)
  case (JArr vs)
  assume "(k, x) \<in> set (entries v)"
  then have "x \<in> set vs" by (auto simp: entries_def JArr enumerate_eq_zip dest: set_zip_rightD)
  then show ?thesis using size_list_estimation' [of x vs "size x" size] JArr by simp
next
  case (JObj kv)
  assume "(k, x) \<in> set (entries v)"
  then have "(k, x) \<in> set kv" by (simp add: entries_def JObj)
  then show ?thesis
    using size_list_estimation' [of "(k, x)" kv "size x" "size_prod (\<lambda>x. 0) size"] JObj by simp
qed (simp_all add: entries_def)

text \<open>The entries of an array; of an object or array inside it, its own entries under both keys.\<close>

definition array_entries :: "jsv \<Rightarrow> (jstr \<times> jsv) list" where
  "array_entries v = concat (map (\<lambda>(i, item).
     if is_objectlike item then map (\<lambda>(c, x). (i @ [93, 91] @ c, x)) (entries item) else [(i, item)]) (entries v))"

lemma array_entries_smaller: "(k, x) \<in> set (array_entries v) \<Longrightarrow> size x < size v"
  by (fastforce simp: array_entries_def split: if_splits dest: entries_smaller)

text \<open>
  \<open>appendValue\<close>. A nested object, and an object or array inside an array, is flattened entry by entry under a
  bracketed key.
\<close>

function appendValue :: "bool \<Rightarrow> jstr \<Rightarrow> jsv \<Rightarrow> query \<Rightarrow> query" where
  "appendValue keepEmpty key value q =
     (if value = JUndef then q
      else if value = JNull \<or> value = JStr [] then (if keepEmpty then qset key [] q else q)
      else if is_array value then
        fold (\<lambda>(i, item) q. appendValue keepEmpty (sub_key key i) item q) (array_entries value) q
      else if is_plain value then
        fold (\<lambda>(c, x) q. appendValue keepEmpty (sub_key key c) x q) (entries value) q
      else qset key (to_str value) q)"
  by pat_completeness auto
termination
  by (relation "measure (\<lambda>(_, _, value, _). size value)") (auto dest: entries_smaller array_entries_smaller)

declare appendValue.simps [simp del]

definition toQuery :: "jobj \<Rightarrow> bool \<Rightarrow> api \<Rightarrow> query" where
  "toQuery params keepEmpty s =
     (let q = fold (\<lambda>(k, v). appendValue keepEmpty k v) params []; auth = getAuth s
      in if auth \<noteq> [] \<and> map_of q (js ''auth_data'') = None then qset (js ''auth_data'') auth q else q)"

definition credential_keys :: "jstr set" where
  "credential_keys = set (map js [''auth_data'', ''token'', ''init_data''])"

definition miniQuery :: "jobj \<Rightarrow> bool \<Rightarrow> query call" where
  "miniQuery params keepEmpty =
     (if list_ex (\<lambda>(k, _). k \<in> credential_keys) params then throw CredentialInQuery
      else return (fold (\<lambda>(k, v). appendValue keepEmpty k v) params []))"

section \<open>Answers\<close>

definition rs_ok :: "response \<Rightarrow> bool" where
  "rs_ok r \<longleftrightarrow> 200 \<le> rs_status r \<and> rs_status r \<le> 299"

definition normalizeError :: "jsv \<Rightarrow> jstr \<Rightarrow> jstr" where
  "normalizeError json fallback = to_str (jor (jprop json (js ''message'')) (jor (jprop json (js ''msg''))
     (jor (jprop json (js ''error'')) (JStr fallback))))"

definition note_status :: "response \<Rightarrow> api \<Rightarrow> api" where
  "note_status r s =
     (if rs_status r \<noteq> 401 then s
      else if ap_mini s then invalidateTelegramMiniSession s else dispatch_event AuthInvalid (clearAuth s))"

text \<open>\<open>text ? JSON.parse(text) : null\<close>; \<open>None\<close> for a syntax error.\<close>

definition parsed_text :: "jstr \<Rightarrow> jsv option" where
  "parsed_text text = (if text = [] then Some JNull else json_parse text)"

definition response_value :: "bool \<Rightarrow> response \<Rightarrow> api_error + jsv" where
  "response_value raw r =
     (if raw then
        (if rs_ok r then Inr (JStr (rs_text r))
         else Inl (Rejected (case parsed_text (rs_text r) of
             None \<Rightarrow> or_str (rs_text r) (rs_status_text r)
           | Some payload \<Rightarrow> normalizeError payload (rs_status_text r))))
      else (case parsed_text (rs_text r) of
          None \<Rightarrow> if rs_ok r then Inr (JStr (rs_text r)) else Inl (Rejected (or_str (rs_text r) (rs_status_text r)))
        | Some payload \<Rightarrow>
            if \<not> rs_ok r then Inl (Rejected (normalizeError payload (rs_status_text r)))
            else if truthy (jprop payload (js ''message'')) \<and> jprop payload (js ''data'') = JUndef \<and> 400 \<le> rs_status r
            then Inl (Rejected (to_str (jprop payload (js ''message''))))
            else Inr payload))"

definition parseResponse :: "bool \<Rightarrow> response \<Rightarrow> jsv call" where
  "parseResponse raw r s = (response_value raw r, note_status r s)"

definition lift_result :: "api_error + 'a \<Rightarrow> 'a call" where
  "lift_result r s = (r, s)"

section \<open>Requests\<close>

definition mini_request :: "http_method \<Rightarrow> jstr \<Rightarrow> query \<Rightarrow> request_body \<Rightarrow> request call" where
  "mini_request m url q body = andthen aiOpsRequestHeaders (\<lambda>h. send
     \<lparr>rq_method = m, rq_path = url, rq_query = q, rq_authorization = Some h, rq_body = body, rq_credentials = False, rq_guarded = False\<rparr>)"

definition admin_request :: "bool \<Rightarrow> http_method \<Rightarrow> jstr \<Rightarrow> query \<Rightarrow> jstr option \<Rightarrow> request_body \<Rightarrow> request call" where
  "admin_request guarded m path q auth body = send
     \<lparr>rq_method = m, rq_path = path, rq_query = q, rq_authorization = auth, rq_body = body, rq_credentials = True,
      rq_guarded = guarded\<rparr>"

definition apple_path :: "jstr \<Rightarrow> bool" where
  "apple_path path \<longleftrightarrow> starts_with path (js ''/apple-id/'')"

definition api_path :: "api \<Rightarrow> jstr \<Rightarrow> jstr" where
  "api_path s path = js ''/api/v1/'' @ getAdminPath s @ path"

definition apiGet :: "jstr \<Rightarrow> jobj \<Rightarrow> bool \<Rightarrow> request call" where
  "apiGet path params keepEmpty s =
     (if ap_mini s then
        andthen (aiOpsRequestURL path) (\<lambda>url. andthen (miniQuery params keepEmpty) (\<lambda>q. mini_request GET url q NoBody)) s
      else admin_request (apple_path path) GET (api_path s path) (toQuery params keepEmpty s) None NoBody s)"

definition write_body :: "http_method \<Rightarrow> jobj \<Rightarrow> request_body" where
  "write_body m body = (if m = DELETE then NoBody else Json (JObj body))"

definition apiWrite :: "http_method \<Rightarrow> jstr \<Rightarrow> jobj \<Rightarrow> request call" where
  "apiWrite m path body s =
     (if ap_mini s then andthen (aiOpsRequestURL path) (\<lambda>url. mini_request m url [] (write_body m body)) s
      else admin_request False m (api_path s path) (if getAuth s = [] then [] else [(js ''auth_data'', getAuth s)]) None
        (write_body m body) s)"

definition apiPost :: "jstr \<Rightarrow> jobj \<Rightarrow> bool \<Rightarrow> bool \<Rightarrow> request call" where
  "apiPost path body form keepEmpty s =
     (if ap_mini s then apiWrite POST path body s
      else
        let payload = oput (js ''auth_data'') (coalesce (oget (js ''auth_data'') body) (JStr (getAuth s))) body
        in admin_request (apple_path path) POST (api_path s path) [] None
             (if form then Form (toQuery payload keepEmpty s) else Json (JObj payload)) s)"

definition authenticateTelegramMiniApp :: "jstr \<Rightarrow> request call" where
  "authenticateTelegramMiniApp initData s =
     (if \<not> ap_mini s \<or> initData = [] then (Inl OutsideTelegram, s)
      else send \<lparr>rq_method = POST, rq_path = js ''/api/v1/ai-ops-mini/auth'', rq_query = [], rq_authorization = None,
             rq_body = Json (JObj [(js ''init_data'', JStr initData)]), rq_credentials = False, rq_guarded = False\<rparr> s)"

definition getTelegramMiniIdentity :: "request call" where
  "getTelegramMiniIdentity = mini_request GET (js ''/api/v1/ai-ops-mini/identity'') [] NoBody"

definition identity_answer :: "response \<Rightarrow> mini_identity call" where
  "identity_answer r s =
     (let s' = (if rs_status r = 403 then invalidateTelegramMiniSession s else s)
      in andthen (parseResponse False r) (\<lambda>v. lift_result (telegramMiniIdentity (jprop v (js ''data'')))) s')"

definition passportLogin :: "jstr \<Rightarrow> jstr \<Rightarrow> request call" where
  "passportLogin email password = andthen prohibitMiniRequest (\<lambda>_.
     admin_request False POST (js ''/api/v1/passport/auth/login'') [] None
       (Json (JObj [(js ''email'', JStr email), (js ''password'', JStr password)])))"

definition checkLogin :: "request call" where
  "checkLogin = andthen prohibitMiniRequest (\<lambda>_ s.
     admin_request False GET (js ''/api/v1/user/checkLogin'') (toQuery [] False s) None NoBody s)"

definition getCurrentUserInfo :: "request call" where
  "getCurrentUserInfo = andthen prohibitMiniRequest (\<lambda>_ s.
     admin_request False GET (js ''/api/v1/user/info'') (toQuery [] False s) None NoBody s)"

definition auth_header :: "api \<Rightarrow> jstr option" where
  "auth_header s = (if getAuth s = [] then None else Some (bearer (getAuth s)))"

definition supportGet :: "jstr \<Rightarrow> jobj \<Rightarrow> request call" where
  "supportGet path params = andthen prohibitMiniRequest (\<lambda>_ s.
     admin_request True GET (js ''/api/v1/support'' @ path) (fold (\<lambda>(k, v). appendValue False k v) params [])
       (auth_header s) NoBody s)"

definition supportPost :: "jstr \<Rightarrow> jobj \<Rightarrow> request call" where
  "supportPost path body = andthen prohibitMiniRequest (\<lambda>_ s.
     admin_request True POST (js ''/api/v1/support'' @ path) [] (auth_header s) (Json (JObj body)) s)"

section \<open>Checking a refused identity\<close>

text \<open>
  \<open>revalidateSupportIdentity\<close>: after a 403 the identity is asked for once, however many requests were
  refused; only the answer for the token still in use may sign the user out.
\<close>

definition revalidate :: "response \<Rightarrow> api \<Rightarrow> api" where
  "revalidate r s =
     (if rs_status r \<noteq> 403 \<or> ap_refresh s \<noteq> None then s
      else snd (admin_request False GET (js ''/api/v1/user/checkLogin'') (toQuery [] False s) None NoBody
        (s\<lparr>ap_refresh := Some (getAuth s)\<rparr>)))"

definition identity_revoked :: "response option \<Rightarrow> bool" where
  "identity_revoked answer =
     (case answer of
        None \<Rightarrow> False
      | Some r \<Rightarrow>
          if rs_status r = 401 \<or> rs_status r = 403 then True
          else if rs_ok r then
            (case json_parse (rs_text r) of
               None \<Rightarrow> False
             | Some payload \<Rightarrow>
                 let data = jprop payload (js ''data'')
                 in \<not> truthy (jprop data (js ''is_staff'')) \<and> \<not> truthy (jprop data (js ''is_admin'')))
          else False)"

definition revalidate_answer :: "response option \<Rightarrow> api \<Rightarrow> api" where
  "revalidate_answer answer s =
     (case ap_refresh s of
        None \<Rightarrow> s
      | Some token \<Rightarrow>
          (let s' = (if identity_revoked answer \<and> token = getAuth s then dispatch_event AuthInvalid (clearAuth s) else s)
           in s'\<lparr>ap_refresh := None\<rparr>))"

text \<open>
  The answer to request \<open>i\<close> of those sent. A refused support request waits for the check of the identity before
  its answer is read; reading a 403 changes no state, so it is done at once here.
\<close>

definition answered :: "nat \<Rightarrow> bool \<Rightarrow> response \<Rightarrow> api \<Rightarrow> api" where
  "answered i raw r s =
     (if i < length (ap_sent s)
      then snd (parseResponse raw r (if rq_guarded (ap_sent s ! i) then revalidate r s else s)) else s)"

section \<open>What a page does with the client\<close>

datatype operation =
    Get jstr jobj bool | Write http_method jstr jobj | Post jstr jobj bool bool
  | SupportGet jstr jobj | SupportPost jstr jobj | Login jstr jstr | CheckLogin | UserInfo
  | MiniAuth jstr | MiniIdentity | MiniIdentityAnswer response
  | Answer nat bool response | RevalidateAnswer "response option"
  | SetAuth jstr | ClearAuth | SetPath jstr | SetUser jobj | SetSession jsv | Invalidate | Clock jnum

fun run_operation :: "operation \<Rightarrow> api \<Rightarrow> api" where
  "run_operation (Get path params keep) s = snd (apiGet path params keep s)"
| "run_operation (Write m path body) s = snd (apiWrite m path body s)"
| "run_operation (Post path body form keep) s = snd (apiPost path body form keep s)"
| "run_operation (SupportGet path params) s = snd (supportGet path params s)"
| "run_operation (SupportPost path body) s = snd (supportPost path body s)"
| "run_operation (Login email password) s = snd (passportLogin email password s)"
| "run_operation CheckLogin s = snd (checkLogin s)"
| "run_operation UserInfo s = snd (getCurrentUserInfo s)"
| "run_operation (MiniAuth initData) s = snd (authenticateTelegramMiniApp initData s)"
| "run_operation MiniIdentity s = snd (getTelegramMiniIdentity s)"
| "run_operation (MiniIdentityAnswer r) s = snd (identity_answer r s)"
| "run_operation (Answer i raw r) s = answered i raw r s"
| "run_operation (RevalidateAnswer a) s = revalidate_answer a s"
| "run_operation (SetAuth t) s = snd (setAuth t s)"
| "run_operation ClearAuth s = clearAuth s"
| "run_operation (SetPath p) s = snd (setAdminPath p s)"
| "run_operation (SetUser u) s = snd (setAdminUserInfo u s)"
| "run_operation (SetSession v) s = snd (setTelegramMiniSession v s)"
| "run_operation Invalidate s = invalidateTelegramMiniSession s"
| "run_operation (Clock now) s = s\<lparr>ap_now := now\<rparr>"

text \<open>The module as it is loaded into a page.\<close>

definition loaded :: "jsv \<Rightarrow> jstr \<Rightarrow> jnum \<Rightarrow> web_storage \<Rightarrow> api" where
  "loaded secure_path pathname now storage =
     \<lparr>ap_storage = storage, ap_mini = False, ap_session = None, ap_secure_path = secure_path, ap_pathname = pathname,
      ap_now = now, ap_refresh = None, ap_events = [], ap_sent = []\<rparr>"

definition mini_page :: "operation list \<Rightarrow> api \<Rightarrow> api" where
  "mini_page ops s = fold run_operation ops (activateTelegramMiniApp s)"

lemma response_value_ok: "response_value False r = Inr v \<Longrightarrow> rs_ok r"
  by (auto simp: response_value_def split: option.splits if_splits)

section \<open>The mini app keeps to itself\<close>

definition under :: "jstr \<Rightarrow> jstr set" where
  "under key = insert key {sub | sub c. sub = key @ [91] @ c}"

lemma under_sub: "under (sub_key key child) \<subseteq> under key"
  by (auto simp: under_def sub_key_def)

lemma under_credential: "k \<in> under key \<Longrightarrow> k \<in> credential_keys \<Longrightarrow> key \<in> credential_keys"
  by (auto simp: under_def credential_keys_def js_def append_eq_Cons_conv)

lemma qset_keys: "fst ` set (qset k v q) \<subseteq> insert k (fst ` set q)"
  by (induction k v q rule: qset.induct) auto

lemma fold_keys:
  "(\<And>x q. x \<in> set xs \<Longrightarrow> fst ` set (f x q) \<subseteq> fst ` set q \<union> A) \<Longrightarrow> fst ` set (fold f xs q) \<subseteq> fst ` set q \<union> A"
proof (induction xs arbitrary: q)
  case (Cons x xs)
  have "fst ` set (fold f xs (f x q)) \<subseteq> fst ` set (f x q) \<union> A" by (rule Cons.IH) (simp add: Cons.prems)
  moreover have "fst ` set (f x q) \<subseteq> fst ` set q \<union> A" by (simp add: Cons.prems)
  ultimately show ?case by auto
qed simp

lemma appendValue_keys: "fst ` set (appendValue keep key v q) \<subseteq> fst ` set q \<union> under key"
proof (induction keep key v q rule: appendValue.induct)
  case (1 keep key v q)
  have leaf: "fst ` set (qset key w q) \<subseteq> fst ` set q \<union> under key" for w
    using qset_keys [of key w q] by (auto simp: under_def)
  have sub: "fst ` set (fold (\<lambda>(c, x) q. appendValue keep (sub_key key c) x q) es q) \<subseteq> fst ` set q \<union> under key"
    if "\<And>c x q. (c, x) \<in> set es \<Longrightarrow>
      fst ` set (appendValue keep (sub_key key c) x q) \<subseteq> fst ` set q \<union> under (sub_key key c)" for es
  proof (rule fold_keys)
    fix e p assume mem: "e \<in> set es"
    obtain c x where e: "e = (c, x)" by (cases e)
    have "fst ` set (appendValue keep (sub_key key c) x p) \<subseteq> fst ` set p \<union> under key"
      using that [of c x p] mem under_sub [of key c] unfolding e by blast
    then show "fst ` set ((case e of (c, x) \<Rightarrow> \<lambda>q. appendValue keep (sub_key key c) x q) p) \<subseteq> fst ` set p \<union> under key"
      by (simp add: e)
  qed
  let ?fold = "\<lambda>es. fold (\<lambda>(c, x) q. appendValue keep (sub_key key c) x q) es q"
  have arr: "fst ` set (?fold (array_entries v)) \<subseteq> fst ` set q \<union> under key"
    if "v \<noteq> JUndef" "\<not> (v = JNull \<or> v = JStr [])" "is_array v"
    by (rule sub) (rule "1.IH"(1) [OF that], simp_all)
  have obj: "fst ` set (?fold (entries v)) \<subseteq> fst ` set q \<union> under key"
    if "v \<noteq> JUndef" "\<not> (v = JNull \<or> v = JStr [])" "\<not> is_array v" "is_plain v"
    by (rule sub) (rule "1.IH"(2) [OF that], simp_all)
  show ?case
    using arr obj leaf unfolding appendValue.simps [of keep key v q]
    by (cases "v = JUndef"; cases "v = JNull \<or> v = JStr []"; cases "is_array v"; cases "is_plain v"; cases keep)
      (simp_all only: if_True if_False simp_thms, simp_all add: sup.coboundedI1)
qed

lemma params_keys: "fst ` set (fold (\<lambda>(k, v). appendValue keep k v) ps q) \<subseteq> fst ` set q \<union> (\<Union>k \<in> fst ` set ps. under k)"
proof (rule fold_keys)
  fix e p assume mem: "e \<in> set ps"
  obtain k v where e: "e = (k, v)" by (cases e)
  have "k \<in> fst ` set ps" using mem by (force simp: e)
  then show "fst ` set ((case e of (k, v) \<Rightarrow> appendValue keep k v) p) \<subseteq> fst ` set p \<union> (\<Union>k \<in> fst ` set ps. under k)"
    using appendValue_keys [of keep k v p] by (simp add: e) blast
qed

lemma miniQuery_keys:
  assumes "miniQuery ps keep s = (Inr q, s')"
  shows "fst ` set q \<inter> credential_keys = {}"
proof -
  have plain: "k \<notin> credential_keys" if "k \<in> fst ` set ps" for k
    using assms that by (auto simp: miniQuery_def throw_def return_def list_ex_iff split: if_splits)
  have "q = fold (\<lambda>(k, v). appendValue keep k v) ps []"
    using assms by (auto simp: miniQuery_def throw_def return_def split: if_splits)
  then have "fst ` set q \<subseteq> (\<Union>k \<in> fst ` set ps. under k)" using params_keys [of keep ps "[]"] by simp
  then show ?thesis using plain under_credential by blast
qed

definition mini_prefix :: jstr where
  "mini_prefix = js ''/api/v1/ai-ops-mini/''"

definition mini_safe :: "request \<Rightarrow> bool" where
  "mini_safe r \<longleftrightarrow> starts_with (rq_path r) mini_prefix \<and> \<not> rq_credentials r \<and> \<not> rq_guarded r \<and>
     fst ` set (rq_query r) \<inter> credential_keys = {}"

definition quarantined :: "api \<Rightarrow> bool" where
  "quarantined s \<longleftrightarrow> ap_mini s \<and> ap_refresh s = None \<and> list_all mini_safe (ap_sent s)"

lemma mini_prefix_starts: "starts_with (mini_prefix @ p) mini_prefix"
  by (auto simp: starts_with_iff)

lemmas mini_split = sum.splits prod.splits option.splits if_splits

lemma quarantined_storage [simp]: "quarantined (s\<lparr>ap_storage := ws\<rparr>) = quarantined s"
  by (simp add: quarantined_def)

text \<open>
  \<open>confined m P\<close>: from a quarantined state, \<open>m\<close> leads to one, neither reads nor writes the storage of the
  browser, and what it returns satisfies \<open>P\<close>.
\<close>

definition confined_step :: "(api \<Rightarrow> api) \<Rightarrow> bool" where
  "confined_step f \<longleftrightarrow> (\<forall>s ws. quarantined s \<longrightarrow>
     quarantined (f s) \<and> ap_storage (f s) = ap_storage s \<and> f (s\<lparr>ap_storage := ws\<rparr>) = (f s)\<lparr>ap_storage := ws\<rparr>)"

definition confined :: "'a call \<Rightarrow> ('a \<Rightarrow> bool) \<Rightarrow> bool" where
  "confined m P \<longleftrightarrow> confined_step (\<lambda>s. snd (m s)) \<and> (\<forall>s ws. quarantined s \<longrightarrow>
     fst (m (s\<lparr>ap_storage := ws\<rparr>)) = fst (m s) \<and> (\<forall>x. fst (m s) = Inr x \<longrightarrow> P x))"

lemma confined_andthen:
  assumes m: "confined m P" and f: "\<And>x. P x \<Longrightarrow> confined (f x) Q"
  shows "confined (andthen m f) Q"
proof -
  have step: "quarantined (snd (andthen m f s)) \<and> ap_storage (snd (andthen m f s)) = ap_storage s \<and>
      snd (andthen m f (s\<lparr>ap_storage := ws\<rparr>)) = (snd (andthen m f s))\<lparr>ap_storage := ws\<rparr> \<and>
      fst (andthen m f (s\<lparr>ap_storage := ws\<rparr>)) = fst (andthen m f s) \<and> (\<forall>x. fst (andthen m f s) = Inr x \<longrightarrow> Q x)"
    if q: "quarantined s" for s :: api and ws
  proof -
    obtain r t where r: "m s = (r, t)" by fastforce
    have t: "quarantined t" "ap_storage t = ap_storage s" "m (s\<lparr>ap_storage := ws\<rparr>) = (r, t\<lparr>ap_storage := ws\<rparr>)"
      "\<And>x. r = Inr x \<Longrightarrow> P x"
      using m q r unfolding confined_def confined_step_def by (metis fst_conv snd_conv prod.collapse)+
    show ?thesis
    proof (cases r)
      case (Inr x)
      then have "confined (f x) Q" using f t(4) by blast
      with t show ?thesis by (auto simp: andthen_def r Inr confined_def confined_step_def)
    qed (use t r in \<open>simp add: andthen_def\<close>)
  qed
  then show ?thesis unfolding confined_def confined_step_def by blast
qed

lemma confined_basic:
  "confined (return x) (\<lambda>y. y = x)" "confined (throw e) P" "mini_safe q \<Longrightarrow> confined (send q) (\<lambda>_. True)"
  "confined (lift_result res) (\<lambda>_. True)" "confined (setTelegramMiniSession v) (\<lambda>_. True)"
  "confined (parseResponse raw r) (\<lambda>_. True)" "confined prohibitMiniRequest (\<lambda>_. False)"
  by (auto simp: confined_def confined_step_def return_def throw_def send_def lift_result_def quarantined_def
      setTelegramMiniSession_def parseResponse_def note_status_def invalidateTelegramMiniSession_def dispatch_event_def
      prohibitMiniRequest_def split: mini_split jsv.splits)

lemma confined_session: "confined requireMiniSession (\<lambda>_. True)"
  by (auto simp: confined_def confined_step_def requireMiniSession_def quarantined_def
      invalidateTelegramMiniSession_def dispatch_event_def split: mini_split)

lemma confined_url: "confined (aiOpsRequestURL path) (\<lambda>url. starts_with url mini_prefix)"
  by (auto simp: confined_def confined_step_def aiOpsRequestURL_def quarantined_def mini_prefix_starts
      mini_prefix_def [symmetric] split: mini_split)

lemma confined_query: "confined (miniQuery ps keep) (\<lambda>q. fst ` set q \<inter> credential_keys = {})"
proof (cases "list_ex (\<lambda>(k, _). k \<in> credential_keys) ps")
  case False
  then have "miniQuery ps keep s = (Inr (fold (\<lambda>(k, v). appendValue keep k v) ps []), s)" for s
    by (simp add: miniQuery_def return_def)
  then show ?thesis using miniQuery_keys [of ps keep] by (simp add: confined_def confined_step_def)
qed (simp add: confined_def confined_step_def miniQuery_def throw_def)

lemma confined_mini_request:
  assumes "starts_with url mini_prefix" and "fst ` set q \<inter> credential_keys = {}"
  shows "confined (mini_request m url q body) (\<lambda>_. True)"
proof -
  have "confined (andthen requireMiniSession (\<lambda>ses. return (bearer (ms_token ses)))) (\<lambda>_. True)"
    by (rule confined_andthen [OF confined_session]) (simp add: confined_def confined_step_def return_def)
  then have "confined aiOpsRequestHeaders (\<lambda>_. True)"
    by (simp add: confined_def confined_step_def aiOpsRequestHeaders_def quarantined_def)
  then show ?thesis
    unfolding mini_request_def
    by (rule confined_andthen) (use assms in \<open>intro confined_basic, simp add: mini_safe_def\<close>)
qed

text \<open>Only the behaviour inside the mini app matters.\<close>

lemma confined_cong:
  "confined m P \<Longrightarrow> (\<And>s. ap_mini s \<Longrightarrow> m' s = m s) \<Longrightarrow> confined m' P"
  by (simp add: confined_def confined_step_def quarantined_def)

lemma confined_apiGet: "confined (apiGet path ps keep) (\<lambda>_. True)"
  by (rule confined_cong [where m = "andthen (aiOpsRequestURL path) (\<lambda>url. andthen (miniQuery ps keep) (\<lambda>q.
        mini_request GET url q NoBody))"])
    (auto simp: apiGet_def intro!: confined_andthen [OF confined_url] confined_andthen [OF confined_query]
      confined_mini_request)

lemma confined_apiWrite: "confined (apiWrite m path body) (\<lambda>_. True)"
  by (rule confined_cong [where m = "andthen (aiOpsRequestURL path) (\<lambda>url. mini_request m url [] (write_body m body))"])
    (auto simp: apiWrite_def intro!: confined_andthen [OF confined_url] confined_mini_request)

lemma confined_apiPost: "confined (apiPost path body form keep) (\<lambda>_. True)"
  by (rule confined_cong [OF confined_apiWrite]) (simp add: apiPost_def)

lemma confined_prohibited: "confined (andthen prohibitMiniRequest f) (\<lambda>_. True)"
  by (rule confined_andthen [OF confined_basic(7)]) simp

lemma confined_auth: "confined (authenticateTelegramMiniApp initData) (\<lambda>_. True)"
  by (auto simp: authenticateTelegramMiniApp_def confined_def confined_step_def send_def quarantined_def mini_safe_def
      mini_prefix_def js_Cons)

lemma confined_identity: "confined getTelegramMiniIdentity (\<lambda>_. True)"
  unfolding getTelegramMiniIdentity_def by (rule confined_mini_request) (simp_all add: mini_prefix_def js_Cons)

lemma confined_invalidate: "confined_step invalidateTelegramMiniSession"
  by (auto simp: confined_step_def quarantined_def invalidateTelegramMiniSession_def dispatch_event_def)

lemma confined_identity_answer: "confined (identity_answer r) (\<lambda>_. True)"
proof -
  have "confined (\<lambda>s. (Inr (), if rs_status r = 403 then invalidateTelegramMiniSession s else s)) (\<lambda>_. True)"
    using confined_invalidate by (simp add: confined_def confined_step_def)
  then have "confined (andthen (\<lambda>s. (Inr (), if rs_status r = 403 then invalidateTelegramMiniSession s else s))
      (\<lambda>_. andthen (parseResponse False r) (\<lambda>v. lift_result (telegramMiniIdentity (jprop v (js ''data'')))))) (\<lambda>_. True)"
    by (rule confined_andthen) (intro confined_andthen [OF confined_basic(6)] confined_basic)
  then show ?thesis by (rule confined_cong) (simp add: identity_answer_def andthen_def [of "\<lambda>s. (Inr (), F s)" for F])
qed

lemma confined_run: "confined m P \<Longrightarrow> (\<And>s. run_operation op s = snd (m s)) \<Longrightarrow> confined_step (run_operation op)"
  by (simp add: confined_def confined_step_def)

lemma confined_answered: "confined_step (answered i raw r)"
proof -
  have "answered i raw r s = (if i < length (ap_sent s) then snd (parseResponse raw r s) else s)" if "quarantined s" for s
    using that by (auto simp: answered_def quarantined_def list_all_length mini_safe_def)
  then show ?thesis
    using confined_basic(6) [of raw r] by (auto simp: confined_def confined_step_def)
qed

lemma run_operation_confined: "confined_step (run_operation op)"
proof (cases op)
  case (Answer i raw r)
  then show ?thesis using confined_answered [of i raw r] by (simp add: confined_step_def)
next
  case (RevalidateAnswer a)
  then show ?thesis by (simp add: confined_step_def revalidate_answer_def quarantined_def)
next
  case ClearAuth
  then show ?thesis by (simp add: confined_step_def clearAuth_def quarantined_def)
next
  case Invalidate
  then show ?thesis using confined_invalidate by (simp add: confined_step_def)
next
  case (Clock now)
  then show ?thesis by (simp add: confined_step_def quarantined_def)
qed (rule confined_run, rule confined_apiGet confined_apiWrite confined_apiPost confined_auth confined_identity
    confined_identity_answer confined_basic(5) confined_prohibited,
    simp add: supportGet_def supportPost_def passportLogin_def checkLogin_def getCurrentUserInfo_def
      setAuth_def setAdminPath_def setAdminUserInfo_def)+

lemma run_confined: "confined_step (fold run_operation ops)"
  using run_operation_confined by (induction ops) (auto simp: confined_step_def)


text \<open>A page of the mini app that tries everything.\<close>

definition example_user :: jsv where
  "example_user = JObj [(js ''id'', JNum (num 3)), (js ''email'', JStr (js ''e'')),
     (js ''is_admin'', JNum (num 0)), (js ''is_staff'', JNum (num 1))]"

definition example_session :: mini_session where
  "example_session = \<lparr>ms_token = js ''t'', ms_expires_at = num 9,
     ms_user = \<lparr>mi_id = num 3, mi_email = js ''e'', mi_is_admin = num 0, mi_is_staff = num 1\<rparr>\<rparr>"

definition example_operations :: "operation list" where
  "example_operations =
     [SetAuth (js ''stolen''), MiniAuth (js ''proof''),
      SetSession (JObj [(js ''token'', JStr (js ''t'')), (js ''expires_at'', JNum (num 9)), (js ''user'', example_user)]),
      Login (js ''e'') (js ''p''), MiniIdentity, SupportGet (js ''/tickets'') []]"

definition example_storage :: web_storage where
  "example_storage = \<lparr>ws_items = [auth_key \<mapsto> js ''secret''], ws_usable = True\<rparr>"

lemma millis_num: "\<bar>i * 1000\<bar> \<le> 2 ^ 53 \<Longrightarrow> millis (num i) = num (i * 1000)"
  using num_mul_num [of i 1000] by (simp add: millis_def)

lemma example_identity: "telegramMiniIdentity example_user = Inr (ms_user example_session)"
  by code_simp

lemma example_set:
  assumes "ap_mini s" and "ap_now s = num 0"
  shows "setTelegramMiniSession (JObj [(js ''token'', JStr (js ''t'')), (js ''expires_at'', JNum (num 9)), (js ''user'', example_user)]) s
    = (Inr (), s\<lparr>ap_session := Some example_session\<rparr>)"
proof -
  have "js ''t'' = [116]" by (simp add: js_def)
  then show ?thesis
    using assms by (simp add: setTelegramMiniSession_def oget_cons millis_num example_identity is_space_def example_session_def max_safe_def)
qed


end
