(* ===== verification/JsWf.thy ===== *)
theory JsWf
  imports JsJson
begin

text \<open>
  Well-formed values: no object has two properties of the same name, at any depth. What \<open>JSON.parse\<close> returns is
  well formed, so a list of pairs and the map it denotes agree on everything that came from the server.
\<close>

fun well_formed :: "jsv \<Rightarrow> bool" where
  "well_formed (JArr vs) = list_all well_formed vs"
| "well_formed (JObj kv) = (distinct (map fst kv) \<and> list_all (\<lambda>(k, v). well_formed v) kv)"
| "well_formed _ = True"

abbreviation wf_obj :: "jobj \<Rightarrow> bool" where
  "wf_obj kv \<equiv> well_formed (JObj kv)"

lemma wf_obj_oput: "wf_obj kv \<Longrightarrow> well_formed v \<Longrightarrow> wf_obj (oput k v kv)"
proof -
  assume kv: "wf_obj kv" and v: "well_formed v"
  have "set (oput k v kv) \<subseteq> insert (k, v) (set kv)"
    by (auto simp: oput_def set_oinsert dest: set_oreplace [THEN subsetD])
  then show ?thesis using kv v by (auto simp: distinct_oput list_all_iff)
qed

lemma wf_keyword: "keyword_token s = Some (v, r) \<Longrightarrow> well_formed v"
  by (auto simp: keyword_token_def number_token_def Let_def split: if_splits)

lemma parse_well_formed:
  "parse_value n s = Some (v, r) \<Longrightarrow> well_formed v"
  "parse_elems n acc s = Some (vs, r) \<Longrightarrow> list_all well_formed acc \<Longrightarrow> list_all well_formed vs"
  "parse_members n obj s = Some (kv, r) \<Longrightarrow> wf_obj obj \<Longrightarrow> wf_obj kv"
proof (induction n s and n acc s and n obj s arbitrary: v r and vs r and kv r
    rule: parse_value_parse_elems_parse_members.induct)
  case (2 n s)
  have nil: "wf_obj []" by simp
  have mem: "wf_obj kv" if "skip_ws s = 123 # t" "skip_ws t = d # u" "d \<noteq> 125" "parse_members n [] (d # u) = Some (kv, r)"
    for t d u kv r using "2.IH"(2) [OF that(1) _ _ _ that(2,3,4)] by simp
  show ?case using 2
    by (auto simp del: well_formed.simps(2) dest: wf_keyword intro: mem nil split: list.splits if_splits) 
next
  case (4 n acc s)
  then show ?case by (auto split: option.splits list.splits if_splits)
next
  case (6 n acc s)
  then show ?case by (auto simp del: well_formed.simps(2) simp add: wf_obj_oput split: option.splits list.splits if_splits)
qed simp_all

lemma json_parse_well_formed: "json_parse s = Some v \<Longrightarrow> well_formed v"
  by (auto simp: json_parse_def simp del: parse_value.simps dest: parse_well_formed(1) split: option.splits if_splits)

lemma well_formed_oget [intro]: "wf_obj kv \<Longrightarrow> well_formed (oget k kv)"
  by (auto simp: oget_def list_all_iff dest: map_of_SomeD split: option.split)

lemma well_formed_jprop [intro]: "well_formed v \<Longrightarrow> well_formed (jprop v k)"
  by (cases v) (simp_all add: well_formed_oget del: well_formed.simps(2))

lemma well_formed_jor [intro]: "well_formed v \<Longrightarrow> well_formed w \<Longrightarrow> well_formed (jor v w)"
  by (simp add: jor_def)

end
