(* ===== verification/AdminApp.thy ===== *)
theory AdminApp
  imports Api JsWf
begin

text \<open>
  \<open>App.tsx\<close> and \<open>pages/Login.tsx\<close>: who is signed in and what the front end then shows. The component is a
  state machine over the client of \<open>Api\<close>: between two events its code runs to the end, and what it waits for
  is part of the state (\<open>verifying\<close> for the effect that checks the identity, one \<open>submit\<close> per sign-in under way).
  An answer is \<open>None\<close> when the network failed. Events the client dispatches reach the listeners at once.
\<close>

section \<open>State\<close>

datatype verifying = Idle | AtLogin jstr | AtInfo jstr jsv

datatype submit = AtPassport jstr | AtCheck jstr | Over

record admin_app =
  aa_client :: api
  aa_mounted :: bool
  aa_authed :: bool
  aa_auth_checking :: bool
  aa_user :: jsv
  aa_path :: jstr
  aa_verifying :: verifying \<comment> \<open>\<open>checking\<close> is set unless this is \<open>Idle\<close>\<close>
  aa_submits :: "submit list"

definition no_user :: jsv where
  "no_user = JObj []"

definition is_flag :: "string \<Rightarrow> jsv \<Rightarrow> bool" where
  "is_flag k user = truthy (jprop user (js k))"

abbreviation is_admin :: "jsv \<Rightarrow> bool" where "is_admin \<equiv> is_flag ''is_admin''"
abbreviation is_staff :: "jsv \<Rightarrow> bool" where "is_staff \<equiv> is_flag ''is_staff''"

definition vouched :: "jsv \<Rightarrow> bool" where
  "vouched identity \<longleftrightarrow> is_admin identity \<or> is_staff identity"

section \<open>Checking the identity\<close>

definition rejectIdentity :: "admin_app \<Rightarrow> admin_app" where
  "rejectIdentity s =
     (let s' = s\<lparr>aa_client := clearAuth (aa_client s)\<rparr>
      in if aa_mounted s then s'\<lparr>aa_user := no_user, aa_authed := False, aa_auth_checking := False\<rparr> else s')"

text \<open>The listener of \<open>forest-auth-invalid\<close>; it is removed when the component unmounts.\<close>

definition deliver :: "api \<Rightarrow> admin_app \<Rightarrow> admin_app" where
  "deliver c s =
     (let s' = s\<lparr>aa_client := c\<lparr>ap_events := []\<rparr>\<rparr>
      in if AuthInvalid \<in> set (ap_events c) \<and> aa_mounted s then rejectIdentity s' else s')"

text \<open>An answer as the caller of the client sees it: \<open>None\<close> for an exception.\<close>

definition settle :: "response option \<Rightarrow> admin_app \<Rightarrow> jsv option \<times> admin_app" where
  "settle answer s =
     (case answer of
        None \<Rightarrow> (None, s)
      | Some r \<Rightarrow>
          (case parseResponse False r (aa_client s) of
             (Inl e, c) \<Rightarrow> (None, deliver c s) | (Inr v, c) \<Rightarrow> (Some v, deliver c s)))"

definition auth :: "admin_app \<Rightarrow> jstr" where
  "auth s = getAuth (aa_client s)"

definition finish :: "admin_app \<Rightarrow> admin_app" where
  "finish s = (let s' = s\<lparr>aa_verifying := Idle\<rparr> in if aa_mounted s then s'\<lparr>aa_auth_checking := False\<rparr> else s')"

text \<open>\<open>catch { if (mounted && token === getAuth()) rejectIdentity(); }\<close>.\<close>

definition verify_failed :: "jstr \<Rightarrow> admin_app \<Rightarrow> admin_app" where
  "verify_failed token s = finish (if aa_mounted s \<and> token = auth s then rejectIdentity s else s)"

definition verify :: "admin_app \<Rightarrow> admin_app" where
  "verify s =
     (if auth s = [] \<or> aa_verifying s \<noteq> Idle then s
      else (case checkLogin (aa_client s) of
          (Inl e, c) \<Rightarrow> verify_failed (auth s) (s\<lparr>aa_client := c\<rparr>)
        | (Inr r, c) \<Rightarrow> s\<lparr>aa_client := c, aa_verifying := AtLogin (auth s)\<rparr>))"

text \<open>\<open>{ ...v }\<close>.\<close>

definition spread :: "jsv \<Rightarrow> jobj" where
  "spread v = (case v of
      JStr s \<Rightarrow> map (\<lambda>(i, c). (digits_of (int i), JStr [c])) (enumerate 0 s) | _ \<Rightarrow> entries v)"

definition data_of :: "jsv \<Rightarrow> jsv" where
  "data_of payload = jor (jprop payload (js ''data'')) (JObj [])"

definition keep_user :: "jsv \<Rightarrow> admin_app \<Rightarrow> admin_app" where
  "keep_user user s = s\<lparr>aa_client := snd (setAdminUserInfo (spread user) (aa_client s)), aa_user := user\<rparr>"

definition identity_checked :: "jstr \<Rightarrow> jsv \<Rightarrow> admin_app \<Rightarrow> admin_app" where
  "identity_checked token identity s =
     (if \<not> vouched identity then finish (rejectIdentity s)
      else
        let s' = (keep_user identity s)\<lparr>aa_authed := True\<rparr>
        in if is_admin identity
           then (case getCurrentUserInfo (aa_client s') of
                   (Inl e, c) \<Rightarrow> finish (s'\<lparr>aa_client := c\<rparr>)
                 | (Inr r, c) \<Rightarrow> s'\<lparr>aa_client := c, aa_verifying := AtInfo token identity\<rparr>)
           else finish s')"

definition verify_answer :: "response option \<Rightarrow> admin_app \<Rightarrow> admin_app" where
  "verify_answer answer s =
     (case aa_verifying s of
        Idle \<Rightarrow> s
      | AtLogin token \<Rightarrow>
          (let (payload, s') = settle answer s in case payload of
             None \<Rightarrow> verify_failed token s'
           | Some v \<Rightarrow>
               if \<not> aa_mounted s' \<or> token \<noteq> auth s' then finish s'
               else if nullish v then verify_failed token s'
               else identity_checked token (data_of v) s')
      | AtInfo token identity \<Rightarrow>
          (let (payload, s') = settle answer s in case payload of
             None \<Rightarrow> finish s'
           | Some v \<Rightarrow>
               if aa_mounted s' \<and> token = auth s' \<and> \<not> nullish v
               then finish (keep_user (JObj (omerge (spread (data_of v)) (spread identity))) s')
               else finish s'))"

section \<open>Signing in and out\<close>

definition set_submit :: "nat \<Rightarrow> submit \<Rightarrow> admin_app \<Rightarrow> admin_app" where
  "set_submit i p s = s\<lparr>aa_submits := (aa_submits s)[i := p]\<rparr>"

definition submit_failed :: "nat \<Rightarrow> admin_app \<Rightarrow> admin_app" where
  "submit_failed i s = set_submit i Over (s\<lparr>aa_client := clearAuth (aa_client s)\<rparr>)"

definition start_submit :: "jstr \<Rightarrow> jstr \<Rightarrow> admin_app \<Rightarrow> admin_app" where
  "start_submit email password s =
     (let i = length (aa_submits s); s' = s\<lparr>aa_submits := aa_submits s @ [AtPassport email]\<rparr>
      in case passportLogin email password (aa_client s') of
           (Inl e, c) \<Rightarrow> submit_failed i (s'\<lparr>aa_client := c\<rparr>)
         | (Inr r, c) \<Rightarrow> s'\<lparr>aa_client := c\<rparr>)"

definition workbench :: jstr where
  "workbench = js ''/support/workbench''"

definition onDone :: "jsv \<Rightarrow> admin_app \<Rightarrow> admin_app" where
  "onDone user s =
     (let s' = s\<lparr>aa_user := user, aa_authed := True, aa_auth_checking := False\<rparr>
      in if is_admin user then s' else s'\<lparr>aa_path := workbench\<rparr>)"

definition login_token :: "jsv \<Rightarrow> jsv" where
  "login_token res =
     (let data = jor (jprop res (js ''data'')) res in jor (jprop data (js ''auth_data'')) (jprop data (js ''token'')))"

definition passport_answered :: "nat \<Rightarrow> jstr \<Rightarrow> jsv \<Rightarrow> admin_app \<Rightarrow> admin_app" where
  "passport_answered i email res s =
     (if nullish res \<or> \<not> truthy (login_token res) then submit_failed i s
      else (case andthen (setAuth (to_str (login_token res))) (\<lambda>_. checkLogin) (aa_client s) of
          (Inl e, c) \<Rightarrow> submit_failed i (s\<lparr>aa_client := c\<rparr>)
        | (Inr r, c) \<Rightarrow> set_submit i (AtCheck email) (s\<lparr>aa_client := c\<rparr>)))"

definition login_checked :: "nat \<Rightarrow> jstr \<Rightarrow> jsv \<Rightarrow> admin_app \<Rightarrow> admin_app" where
  "login_checked i email checked s =
     (if nullish checked \<or> \<not> vouched (data_of checked) then submit_failed i s
      else
        let identity = data_of checked;
            user = oput (js ''email'') (jor (jprop identity (js ''email'')) (JStr email)) (spread identity)
        in (case setAdminUserInfo user (aa_client s) of
              (Inl e, c) \<Rightarrow> submit_failed i (s\<lparr>aa_client := c\<rparr>)
            | (Inr u, c) \<Rightarrow> onDone (JObj user) (set_submit i Over (s\<lparr>aa_client := c\<rparr>))))"

definition submit_answer :: "nat \<Rightarrow> response option \<Rightarrow> admin_app \<Rightarrow> admin_app" where
  "submit_answer i answer s =
     (if length (aa_submits s) \<le> i then s
      else (case aa_submits s ! i of
          Over \<Rightarrow> s
        | AtPassport email \<Rightarrow>
            (let (payload, s') = settle answer s
             in case payload of None \<Rightarrow> submit_failed i s' | Some v \<Rightarrow> passport_answered i email v s')
        | AtCheck email \<Rightarrow>
            (let (payload, s') = settle answer s
             in case payload of None \<Rightarrow> submit_failed i s' | Some v \<Rightarrow> login_checked i email v s')))"

definition logout :: "admin_app \<Rightarrow> admin_app" where
  "logout s = s\<lparr>aa_client := clearAuth (aa_client s), aa_user := no_user, aa_authed := False\<rparr>"

definition unmount :: "admin_app \<Rightarrow> admin_app" where
  "unmount s = s\<lparr>aa_mounted := False\<rparr>"

section \<open>What is shown\<close>

datatype admin_page =
    Dashboard | OnlineAnalytics | Users | StaffOperations | Plans | Orders | AppleID | AppleFinance
  | ServerManage | ServerGroups | ServerRoutes | ClientEntry | Assignment | DNS | DNSFailover | Config | AIOps
  | Payments | SubscribeGuard | UserMigration | TicketDetail jstr | Tickets | Notices | Coupons | Giftcards
  | Knowledge | Queues | InviteCampaign

definition routes :: "(string \<times> admin_page) list" where
  "routes =
     [(''/dashboard'', Dashboard), (''/dashboard/online'', OnlineAnalytics), (''/user'', Users),
      (''/support/staff'', StaffOperations), (''/support/operations'', StaffOperations), (''/plan'', Plans),
      (''/order'', Orders), (''/apple-id'', AppleID), (''/apple-id/finance'', AppleFinance),
      (''/server/manage'', ServerManage), (''/server/group'', ServerGroups), (''/server/route'', ServerRoutes),
      (''/server/client-entry'', ClientEntry), (''/server/client-entry-user-policy'', Assignment), (''/dns'', DNS),
      (''/dns-failover'', DNSFailover), (''/config/system'', Config), (''/config/ai-ops'', AIOps),
      (''/config/payment'', Payments), (''/config/subscribe-guard'', SubscribeGuard),
      (''/config/user-migration'', UserMigration), (''/ticket'', Tickets), (''/notice'', Notices),
      (''/coupon'', Coupons), (''/giftcard'', Giftcards), (''/knowledge'', Knowledge), (''/queue'', Queues),
      (''/invite-campaign'', InviteCampaign)]"

definition route_of :: "jstr \<Rightarrow> jstr" where
  "route_of path = takeWhile (\<lambda>c. c \<noteq> 63) path"

definition ticket_id :: "jstr \<Rightarrow> jstr option" where
  "ticket_id route =
     (let digits = takeWhile is_digit (drop 8 route)
      in if starts_with route (js ''/ticket/'') \<and> digits \<noteq> [] then Some digits else None)"

definition page_of :: "jstr \<Rightarrow> admin_page" where
  "page_of path =
     (case map_of (map (\<lambda>(r, p). (js r, p)) routes) (route_of path) of
        Some p \<Rightarrow> p
      | None \<Rightarrow> (case ticket_id (route_of path) of Some i \<Rightarrow> TicketDetail i | None \<Rightarrow> Dashboard))"

datatype staff_tab = Overview | AppleProducts | AppleMoney

datatype view = Spinner | LoginForm | AdminPage admin_page | StaffAIOps | StaffWorkbench staff_tab

definition supportOnly :: "admin_app \<Rightarrow> bool" where
  "supportOnly s \<longleftrightarrow> aa_authed s \<and> \<not> is_admin (aa_user s) \<and> is_staff (aa_user s)"

definition view :: "admin_app \<Rightarrow> view" where
  "view s =
     (if aa_auth_checking s then Spinner
      else if \<not> aa_authed s then LoginForm
      else if supportOnly s then
        (let route = route_of (aa_path s)
         in if route = js ''/config/ai-ops'' then StaffAIOps
            else if route = js ''/apple-id/finance'' then StaffWorkbench AppleMoney
            else if route = js ''/apple-id'' then StaffWorkbench AppleProducts
            else StaffWorkbench Overview)
      else AdminPage (page_of (aa_path s)))"

section \<open>Events\<close>

datatype app_event =
    Visible \<comment> \<open>the page becomes visible again\<close>
  | VerifyAnswer "response option"
  | Submit jstr jstr | SubmitAnswer nat "response option" | Logout
  | Navigate jstr
  | PageCall operation \<comment> \<open>the pages shown use the client\<close>
  | OtherTab web_storage \<comment> \<open>another tab of the browser changed the storage\<close>
  | Unmount

fun react :: "app_event \<Rightarrow> admin_app \<Rightarrow> admin_app" where
  "react Visible s = (if aa_mounted s then verify s else s)"
| "react (VerifyAnswer answer) s = verify_answer answer s"
| "react (Submit email password) s = (if view s = LoginForm then start_submit email password s else s)"
| "react (SubmitAnswer i answer) s = submit_answer i answer s"
| "react Logout s = logout s"
| "react (Navigate path) s = s\<lparr>aa_path := path\<rparr>"
| "react (PageCall op) s = deliver (run_operation op (aa_client s)) s"
| "react (OtherTab ws) s = s\<lparr>aa_client := (aa_client s)\<lparr>ap_storage := ws\<rparr>\<rparr>"
| "react Unmount s = unmount s"

definition mount :: "jstr \<Rightarrow> api \<Rightarrow> admin_app" where
  "mount path c = verify
     \<lparr>aa_client = c, aa_mounted = True, aa_authed = False, aa_auth_checking = getAuth c \<noteq> [], aa_user = no_user,
      aa_path = path, aa_verifying = Idle, aa_submits = []\<rparr>"

text \<open>\<open>app_reach es s\<close>: the events \<open>es\<close>, the last one first, can lead to \<open>s\<close>.\<close>

inductive app_reach :: "app_event list \<Rightarrow> admin_app \<Rightarrow> bool" where
  mounted: "\<not> ap_mini c \<Longrightarrow> ap_events c = [] \<Longrightarrow> app_reach [] (mount path c)"
| reacts: "app_reach es s \<Longrightarrow> app_reach (e # es) (react e s)"

fun answers :: "app_event \<Rightarrow> response set" where
  "answers (VerifyAnswer (Some r)) = {r}"
| "answers (SubmitAnswer i (Some r)) = {r}"
| "answers _ = {}"

text \<open>Some answer among \<open>A\<close> succeeded with data that satisfy \<open>p\<close>.\<close>

definition granted :: "response set \<Rightarrow> (jsv \<Rightarrow> bool) \<Rightarrow> bool" where
  "granted A p \<longleftrightarrow> (\<exists>r \<in> A. \<exists>v. rs_ok r \<and> response_value False r = Inr v \<and> p (data_of v))"

section \<open>Nobody gets in unvouched\<close>

definition entitled :: "response set \<Rightarrow> jsv \<Rightarrow> bool" where
  "entitled A user \<longleftrightarrow> vouched user \<and> granted A vouched \<and> (is_admin user \<longrightarrow> granted A is_admin)"

definition trusted :: "response set \<Rightarrow> admin_app \<Rightarrow> bool" where
  "trusted A s \<longleftrightarrow> (aa_authed s \<longrightarrow> entitled A (aa_user s)) \<and>
     (case aa_verifying s of
        AtInfo token identity \<Rightarrow> is_admin identity \<and> well_formed identity \<and> granted A is_admin | _ \<Rightarrow> True)"

lemma granted_mono: "granted A p \<Longrightarrow> A \<subseteq> B \<Longrightarrow> (\<And>v. p v \<Longrightarrow> q v) \<Longrightarrow> granted B q"
  by (auto simp: granted_def)

lemma granted_admin_vouched: "granted A is_admin \<Longrightarrow> granted A vouched"
  by (erule granted_mono) (auto simp: vouched_def)

lemma trusted_mono: "trusted A s \<Longrightarrow> A \<subseteq> B \<Longrightarrow> trusted B s"
  by (auto simp: trusted_def entitled_def intro: granted_mono split: verifying.splits)

lemma trusted_update [simp]:
  "trusted A (s\<lparr>aa_client := c\<rparr>) = trusted A s" "trusted A (s\<lparr>aa_submits := subs\<rparr>) = trusted A s"
  "trusted A (s\<lparr>aa_path := p\<rparr>) = trusted A s" "trusted A (s\<lparr>aa_mounted := b\<rparr>) = trusted A s"
  "trusted A (s\<lparr>aa_auth_checking := b\<rparr>) = trusted A s"
  by (simp_all add: trusted_def)

lemma trusted_set [intro]:
  "trusted A s \<Longrightarrow> trusted A (s\<lparr>aa_verifying := Idle\<rparr>)"
  "trusted A s \<Longrightarrow> trusted A (s\<lparr>aa_verifying := AtLogin token\<rparr>)"
  "trusted A s \<Longrightarrow> is_admin identity \<Longrightarrow> well_formed identity \<Longrightarrow> granted A is_admin \<Longrightarrow>
     trusted A (s\<lparr>aa_verifying := AtInfo token identity\<rparr>)"
  "trusted A s \<Longrightarrow> entitled A user \<Longrightarrow> trusted A (s\<lparr>aa_user := user\<rparr>)"
  "trusted A s \<Longrightarrow> entitled A user \<Longrightarrow> trusted A (s\<lparr>aa_user := user, aa_authed := b\<rparr>)"
  "trusted A s \<Longrightarrow> trusted A (s\<lparr>aa_user := user, aa_authed := False\<rparr>)"
  by (simp_all add: trusted_def)

lemma trusted_reject [intro]: "trusted A s \<Longrightarrow> trusted A (rejectIdentity s)"
  by (auto simp: rejectIdentity_def Let_def)

lemma trusted_deliver [intro]: "trusted A s \<Longrightarrow> trusted A (deliver c s)"
  by (auto simp: deliver_def Let_def)

lemma trusted_settle: "trusted A s \<Longrightarrow> settle answer s = (p, s') \<Longrightarrow> trusted A s'"
  by (auto simp: settle_def split: option.splits sum.splits prod.splits)

lemma trusted_finish [intro]: "trusted A s \<Longrightarrow> trusted A (finish s)"
  by (auto simp: finish_def Let_def)

lemma trusted_failed [intro]: "trusted A s \<Longrightarrow> trusted A (verify_failed token s)"
  by (auto simp: verify_failed_def)

lemma trusted_verify [intro]: "trusted A s \<Longrightarrow> trusted A (verify s)"
  by (auto simp: verify_def split: sum.split prod.split)

text \<open>What a successful answer brings.\<close>

definition brought :: "response set \<Rightarrow> jsv \<Rightarrow> bool" where
  "brought A v \<longleftrightarrow> well_formed v \<and> (\<forall>p. p (data_of v) \<longrightarrow> granted A p)"

lemma settle_payload: "settle (Some r) s = (Some v, s') \<Longrightarrow> response_value False r = Inr v"
  by (auto simp: settle_def parseResponse_def split: sum.splits)

lemma response_value_good: "response_value False r = Inr v \<Longrightarrow> rs_ok r \<and> well_formed v"
  using response_value_ok [of r v]
  by (auto simp: response_value_def parsed_text_def dest: json_parse_well_formed split: option.splits if_splits)

lemma settle_brought: "settle (Some r) s = (Some v, s') \<Longrightarrow> r \<in> A \<Longrightarrow> brought A v"
  using settle_payload [of r s v s'] response_value_good [of r v] unfolding brought_def granted_def by blast

lemma brought_entitled: "brought A v \<Longrightarrow> vouched (data_of v) \<Longrightarrow> is_admin user = is_admin (data_of v) \<Longrightarrow>
    is_staff user = is_staff (data_of v) \<Longrightarrow> entitled A user"
  by (auto simp: brought_def entitled_def vouched_def)

lemma well_formed_data [intro]: "well_formed v \<Longrightarrow> well_formed (data_of v)"
  by (auto simp: data_of_def)

lemma flagged_object: "is_flag k v \<Longrightarrow> v = JObj (spread v)"
  by (cases v) (simp_all add: is_flag_def spread_def entries_def)

lemma merged_flag:
  assumes "is_flag k identity" and "well_formed identity"
  shows "is_flag k (JObj (omerge a (spread identity)))"
proof -
  obtain kv where kv: "identity = JObj kv" using flagged_object [OF assms(1)] by blast
  then have "distinct (map fst kv)" using assms(2) by simp
  moreover obtain w where "map_of kv (js k) = Some w"
    using assms(1) by (auto simp: is_flag_def kv oget_def split: option.splits)
  ultimately show ?thesis
    using assms(1) by (simp add: is_flag_def kv spread_def entries_def oget_def map_of_omerge)
qed

lemma trusted_checked:
  assumes s: "trusted A s" and v: "brought A v"
  shows "trusted A (identity_checked token (data_of v) s)"
proof (cases "vouched (data_of v)")
  case True
  let ?s = "(keep_user (data_of v) s)\<lparr>aa_authed := True\<rparr>"
  have s': "trusted A ?s" using s brought_entitled [OF v True] by (simp add: keep_user_def trusted_def)
  then have "trusted A (finish (?s\<lparr>aa_client := c\<rparr>))" "trusted A (finish ?s)" for c by auto
  moreover have "is_admin (data_of v) \<Longrightarrow> trusted A (?s\<lparr>aa_client := c, aa_verifying := AtInfo token (data_of v)\<rparr>)" for c
    using s' v by (intro trusted_set) (auto simp: brought_def)
  ultimately show ?thesis
    using True by (auto simp: identity_checked_def Let_def split: sum.split prod.split)
qed (use s in \<open>auto simp: identity_checked_def\<close>)

lemma trusted_verify_answer:
  assumes s: "trusted A s" and A: "answers (VerifyAnswer answer) \<subseteq> A"
  shows "trusted A (verify_answer answer s)"
proof (cases "aa_verifying s")
  case (AtLogin token)
  obtain p s' where p: "settle answer s = (p, s')" by fastforce
  have s': "trusted A s'" using trusted_settle [OF s p] .
  have "brought A v" if "p = Some v" for v
    using p that A settle_brought by (cases answer) (auto simp: settle_def)
  then show ?thesis using s'
    by (auto simp: verify_answer_def AtLogin p intro: trusted_checked split: option.split)
next
  case (AtInfo token identity)
  obtain p s' where p: "settle answer s = (p, s')" by fastforce
  have s': "trusted A s'" using trusted_settle [OF s p] .
  have "is_admin identity" "well_formed identity" "granted A is_admin" using s by (simp_all add: trusted_def AtInfo)
  then have "entitled A (JObj (omerge a (spread identity)))" for a
    using granted_admin_vouched by (simp add: entitled_def vouched_def merged_flag)
  then have "trusted A (finish (keep_user (JObj (omerge a (spread identity))) s'))" for a
    using s' unfolding keep_user_def by (intro trusted_finish trusted_set) simp_all
  then show ?thesis using s' by (auto simp: verify_answer_def AtInfo p split: option.split)
qed (use s in \<open>simp add: verify_answer_def\<close>)

lemma trusted_submit_failed [intro]: "trusted A s \<Longrightarrow> trusted A (submit_failed i s)"
  by (simp add: submit_failed_def set_submit_def)

lemma entitled_email:
  assumes "brought A v" and "vouched (data_of v)"
  shows "entitled A (JObj (oput (js ''email'') e (spread (data_of v))))"
proof -
  have "data_of v = JObj (spread (data_of v))" using assms(2) flagged_object by (auto simp: vouched_def)
  then have "jprop (data_of v) k = oget k (spread (data_of v))" for k by (metis jprop_simps(7))
  then show ?thesis by (intro brought_entitled [OF assms]) (simp_all add: is_flag_def oget_oput)
qed

lemma trusted_submit_answer:
  assumes s: "trusted A s" and A: "answers (SubmitAnswer i answer) \<subseteq> A"
  shows "trusted A (submit_answer i answer s)"
proof -
  obtain p s' where p: "settle answer s = (p, s')" by fastforce
  have s': "trusted A s'" using trusted_settle [OF s p] .
  have v: "brought A v" if "p = Some v" for v
    using p that A settle_brought by (cases answer) (auto simp: settle_def)
  have "trusted A (passport_answered i email v s')" for email v
    using s' by (auto simp: passport_answered_def set_submit_def split: sum.split prod.split)
  moreover have "trusted A (login_checked i email v s')" if "p = Some v" for email v
    using s' entitled_email [OF v [OF that]]
    by (auto simp: login_checked_def Let_def onDone_def set_submit_def split: sum.split prod.split)
  ultimately show ?thesis using s s'
    by (auto simp: submit_answer_def p split: submit.split option.split)
qed

lemma trusted_react: "trusted A s \<Longrightarrow> answers e \<subseteq> A \<Longrightarrow> trusted A (react e s)"
  by (cases e) (auto simp: logout_def unmount_def start_submit_def Let_def trusted_verify_answer trusted_submit_answer
      split: sum.split prod.split)

lemma trusted_reach: "app_reach es s \<Longrightarrow> trusted (\<Union>e \<in> set es. answers e) s"
proof (induction rule: app_reach.induct)
  case (mounted c path)
  then show ?case unfolding mount_def by (intro trusted_verify) (simp add: trusted_def)
next
  case (reacts es s e)
  then show ?case by (intro trusted_react trusted_mono [OF reacts.IH]) auto
qed

text \<open>C10: nobody sees a page without having been vouched for: whatever the order of events, an administrator page
  is shown only after some answer to a sign-in or to a check of the identity succeeded with the administrator flag,
  and a page of the staff only after one succeeded with one of the two flags.\<close>
theorem workspace_needs_identity:
  assumes "app_reach es s"
  shows "case view s of
      AdminPage p \<Rightarrow> granted (\<Union>e \<in> set es. answers e) is_admin
    | StaffAIOps \<Rightarrow> granted (\<Union>e \<in> set es. answers e) vouched
    | StaffWorkbench tab \<Rightarrow> granted (\<Union>e \<in> set es. answers e) vouched
    | _ \<Rightarrow> True"
proof -
  have "aa_authed s \<longrightarrow> entitled (\<Union>e \<in> set es. answers e) (aa_user s)"
    using trusted_reach [OF assms] by (simp add: trusted_def)
  then show ?thesis
    by (auto simp: view_def Let_def supportOnly_def entitled_def vouched_def split: view.split if_splits)
qed

definition example_client :: api where
  "example_client = loaded JUndef (js ''/admin'') (num 0)
     \<lparr>ws_items = [auth_key \<mapsto> js ''t''], ws_usable = True\<rparr>"

definition example_answer :: response where
  "example_answer = \<lparr>rs_status = 200, rs_text = js ''{'' @ [34] @ js ''data'' @ [34] @ js '':{'' @ [34] @ js ''is_admin'' @
     [34] @ js '':true}}'', rs_status_text = []\<rparr>"

lemma workspace_needs_identity_witness:
  "let es = [VerifyAnswer None, VerifyAnswer (Some example_answer)];
       s = foldr react es (mount (js ''/order?page=2'') example_client)
   in view s = AdminPage Orders \<and> granted (\<Union>e \<in> set es. answers e) is_admin"
proof -
  let ?es = "[VerifyAnswer None, VerifyAnswer (Some example_answer)]"
  let ?s = "foldr react ?es (mount (js ''/order?page=2'') example_client)"
  have "app_reach [] (mount (js ''/order?page=2'') example_client)"
    by (rule app_reach.mounted) (simp_all add: example_client_def loaded_def)
  then have "app_reach ?es ?s" by (simp only: foldr.simps o_apply id_apply app_reach.reacts)
  moreover have "view ?s = AdminPage Orders" by code_simp
  ultimately show ?thesis using workspace_needs_identity [of ?es ?s] by (simp only: Let_def view.case)
qed

lemma getAuth_clearAuth [simp]: "getAuth (clearAuth c) = []"
  by (simp add: getAuth_def clearAuth_def clearAdminUserInfo_def item_get_def item_del_def)

lemma getAuth_events [simp]: "getAuth (c\<lparr>ap_events := es\<rparr>) = getAuth c"
  by (simp add: getAuth_def)

lemma auth_reject [simp]: "auth (rejectIdentity s) = []"
  by (simp add: rejectIdentity_def auth_def Let_def)

lemma settle_unauthorized:
  assumes "rs_status r = 401" and "\<not> ap_mini (aa_client s)" and "aa_mounted s"
  shows "\<exists>c. settle (Some r) s = (None, rejectIdentity (s\<lparr>aa_client := c\<rparr>))"
proof -
  have "\<exists>e. response_value False r = Inl e"
    using response_value_good [of r] assms(1) by (cases "response_value False r") (auto simp: rs_ok_def)
  then show ?thesis
    using assms by (auto simp: settle_def parseResponse_def note_status_def deliver_def dispatch_event_def Let_def)
qed

text \<open>C32: while the identity is being checked another token may take the place of the one it is checked for. A
  late answer then changes nothing but that the check is over, unless it is a 401: the client signs out on any 401,
  so the new session is lost to an answer about the old one.\<close>
theorem stale_identity_answer:
  assumes "aa_verifying s = AtLogin token" and "token \<noteq> auth s" and "\<not> ap_mini (aa_client s)"
    and "ap_events (aa_client s) = []" and "aa_mounted s"
  shows "case answer of
      Some r \<Rightarrow> if rs_status r = 401
        then \<not> aa_authed (verify_answer answer s) \<and> auth (verify_answer answer s) = []
        else verify_answer answer s = s\<lparr>aa_verifying := Idle, aa_auth_checking := False\<rparr>
    | None \<Rightarrow> verify_answer answer s = s\<lparr>aa_verifying := Idle, aa_auth_checking := False\<rparr>"
proof (cases answer)
  case None
  then show ?thesis using assms by (simp add: verify_answer_def settle_def verify_failed_def finish_def Let_def)
next
  case (Some r)
  show ?thesis
  proof (cases "rs_status r = 401")
    case True
    then obtain c where "settle answer s = (None, rejectIdentity (s\<lparr>aa_client := c\<rparr>))"
      using settle_unauthorized assms(3,5) Some by blast
    then show ?thesis using assms True
      by (simp add: Some verify_answer_def verify_failed_def finish_def Let_def)
        (simp add: rejectIdentity_def auth_def Let_def)
  next
    case False
    then have same: "snd (settle answer s) = s" "fst (settle answer s) = None \<Longrightarrow> True"
      using assms(4) by (simp_all add: Some settle_def parseResponse_def note_status_def deliver_def split: sum.split)
    then show ?thesis using assms False
      by (cases "settle answer s"; cases "fst (settle answer s)")
        (simp_all add: Some verify_answer_def verify_failed_def finish_def Let_def)
  qed
qed

lemma stale_identity_answer_witness:
  "let s = react (OtherTab \<lparr>ws_items = [auth_key \<mapsto> js ''new''], ws_usable = True\<rparr>) (mount [] example_client);
       answer = Some \<lparr>rs_status = 401, rs_text = [], rs_status_text = []\<rparr>
   in auth s = js ''new'' \<and> auth (verify_answer answer s) = [] \<and>
      verify_answer (Some example_answer) s = s\<lparr>aa_verifying := Idle, aa_auth_checking := False\<rparr>"
proof -
  let ?s = "react (OtherTab \<lparr>ws_items = [auth_key \<mapsto> js ''new''], ws_usable = True\<rparr>) (mount [] example_client)"
  have auth: "auth ?s = js ''new''" by code_simp
  have s: "aa_verifying ?s = AtLogin (js ''t'')" "js ''t'' \<noteq> auth ?s" "\<not> ap_mini (aa_client ?s)"
    "ap_events (aa_client ?s) = []" "aa_mounted ?s"
    unfolding auth by (simp_all add: mount_def verify_def auth_def getAuth_def example_client_def loaded_def item_get_def
      checkLogin_def andthen_def prohibitMiniRequest_def admin_request_def send_def)
  show ?thesis
    using stale_identity_answer [OF s, of "Some example_answer"] auth
      stale_identity_answer [OF s, of "Some \<lparr>rs_status = 401, rs_text = [], rs_status_text = []\<rparr>"]
    by (simp add: example_answer_def del: react.simps)
qed

end
