(* ===== verification/AdminNav.thy ===== *)
theory AdminNav
  imports AdminApp
begin

text \<open>
  The addresses of \<open>App.tsx\<close>: which path an address stands for, the address a click on the menu puts into the
  browser, and the entry of the menu that is marked. The URL parser of the browser is written out for the
  characters it leaves alone (\<open>plain_url\<close>).
\<close>

record location =
  lo_pathname :: jstr
  lo_search :: jstr
  lo_hash :: jstr

definition dashboard :: jstr where
  "dashboard = js ''/dashboard''"

definition assets :: jstr where
  "assets = js ''/assets/admin-new''"

definition or_dashboard :: "jstr \<Rightarrow> jstr" where
  "or_dashboard p = or_str p dashboard"

definition cut :: "jstr \<Rightarrow> jstr \<Rightarrow> jstr" where
  "cut prefix p = (if starts_with p prefix then or_dashboard (drop (length prefix) p) else p)"

definition normalizePath :: "jsv \<Rightarrow> location \<Rightarrow> jstr" where
  "normalizePath secure loc =
     (if starts_with (lo_hash loc) (js ''#/'') then or_dashboard (drop 1 (lo_hash loc))
      else
        let adminPath = strip_slashes (to_str (jor secure (JStr (pathAdminSegment (lo_pathname loc)))));
            p = (if adminPath = [] then lo_pathname loc else cut (47 # adminPath) (lo_pathname loc));
            q = cut assets p
        in if q = js ''/'' \<or> q = [] then dashboard else or_dashboard (q @ lo_search loc))"

definition app_adminPath :: "jsv \<Rightarrow> location \<Rightarrow> jstr" where
  "app_adminPath secure loc =
     strip_slashes (to_str (jor secure (jor (JStr (pathAdminSegment (lo_pathname loc))) (JStr default_path))))"

text \<open>\<open>history.pushState\<close> with an address of plain characters.\<close>

definition plain_url :: "jstr \<Rightarrow> bool" where
  "plain_url s \<longleftrightarrow> list_all (\<lambda>c. url_char c \<or> c = 63 \<or> c = 61 \<or> c = 38) s"

definition push_state :: "jstr \<Rightarrow> location" where
  "push_state url =
     (let query = dropWhile (\<lambda>c. c \<noteq> 63) url
      in \<lparr>lo_pathname = route_of url, lo_search = (if query = [63] then [] else query), lo_hash = []\<rparr>)"

definition navigate :: "jstr \<Rightarrow> jstr \<Rightarrow> location \<times> admin_app \<Rightarrow> location \<times> admin_app" where
  "navigate adminPath key st =
     (if starts_with key (js ''/'') then (push_state (47 # adminPath @ key), (snd st)\<lparr>aa_path := key\<rparr>) else st)"

definition selected :: "jstr \<Rightarrow> jstr" where
  "selected path =
     (let route = route_of path in
      if starts_with route (js ''/dashboard/'') then dashboard
      else if route = js ''/support/staff'' \<or> route = js ''/support/operations'' then js ''/user''
      else if route = js ''/server/client-entry'' \<or> route = js ''/server/client-entry-user-policy''
      then js ''/server/manage''
      else if starts_with route (js ''/ticket/'') then js ''/ticket''
      else if route = js ''/apple-id/finance'' then js ''/apple-id'' else route)"

definition menu_keys :: "jstr list" where
  "menu_keys = map js
     [''/dashboard'', ''/config/system'', ''/config/payment'', ''/config/subscribe-guard'', ''/config/user-migration'',
      ''/config/ai-ops'', ''/server/manage'', ''/server/group'', ''/server/route'', ''/dns'', ''/dns-failover'',
      ''/plan'', ''/order'', ''/apple-id'', ''/coupon'', ''/giftcard'', ''/invite-campaign'', ''/user'', ''/notice'',
      ''/ticket'', ''/knowledge'', ''/queue'']"

definition visible_keys :: "admin_app \<Rightarrow> jstr list" where
  "visible_keys s = (if supportOnly s then [workbench, js ''/config/ai-ops''] else menu_keys)"

definition active_key :: "admin_app \<Rightarrow> jstr" where
  "active_key s =
     (if supportOnly s then (if route_of (aa_path s) = js ''/config/ai-ops'' then js ''/config/ai-ops'' else workbench)
      else selected (aa_path s))"

lemma dashboard_nonempty [simp]: "dashboard \<noteq> []"
  by (simp add: dashboard_def)

lemma route_query: "route_of url @ dropWhile (\<lambda>c. c \<noteq> 63) url = url"
  by (simp add: route_of_def)

lemma plain_segment: "list_all url_char p \<Longrightarrow> route_of (p @ key) = p @ route_of key"
  by (induction p) (auto simp: route_of_def url_char_def is_digit_def)

lemma query_segment: "list_all url_char p \<Longrightarrow> dropWhile (\<lambda>c. c \<noteq> 63) (p @ key) = dropWhile (\<lambda>c. c \<noteq> 63) key"
  by (induction p) (auto simp: url_char_def is_digit_def)

lemma cut_prefix: "cut p (p @ r) = or_dashboard r"
  by (simp add: cut_def starts_with_iff)

text \<open>An address survives a reload: the address that a click on the menu puts into the browser is read back as
  the path that was clicked, query included, whatever administrator path the site is configured with.\<close>
theorem navigate_reload:
  assumes "truthy secure" and "strip_slashes (to_str secure) = adm" and "adm \<noteq> []" and "list_all url_char adm"
    and "starts_with key (js ''/'')" and "route_of key \<noteq> js ''/''" and "\<not> starts_with (route_of key) assets"
    and "dropWhile (\<lambda>c. c \<noteq> 63) key \<noteq> [63]"
  shows "normalizePath secure (fst (navigate (app_adminPath secure loc) key (loc, s))) = key"
proof -
  let ?r = "route_of key" and ?q = "dropWhile (\<lambda>c. c \<noteq> 63) key"
  have "app_adminPath secure loc = adm" using assms by (simp add: app_adminPath_def jor_def)
  moreover have plain: "list_all url_char (47 # adm)" using assms(4) by (simp add: url_char_def)
  ultimately have loc: "fst (navigate (app_adminPath secure loc) key (loc, s))
      = \<lparr>lo_pathname = (47 # adm) @ ?r, lo_search = ?q, lo_hash = []\<rparr>"
    using assms(5,8) plain_segment [OF plain, of key] query_segment [OF plain, of key]
    by (simp add: navigate_def push_state_def)
  obtain rest where key: "key = 47 # rest" using assms(5) by (auto simp: js_Cons starts_with_iff)
  then have r: "?r \<noteq> []" by (simp add: route_of_def)
  have "cut (47 # adm) ((47 # adm) @ ?r) = ?r" using r by (simp only: cut_prefix or_dashboard_def or_str_def if_False)
  moreover have "cut assets ?r = ?r" using assms(7) by (simp add: cut_def)
  moreover have "key \<noteq> []" by (simp add: key)
  ultimately show ?thesis
    unfolding loc using assms(1-3,6) r route_query [of key]
    by (simp add: normalizePath_def jor_def or_dashboard_def or_str_def js_Cons)
qed

lemma navigate_reload_witness:
  "list_all (\<lambda>key. normalizePath (JStr (js ''/s3cret/''))
     (fst (navigate (js ''s3cret'') key (push_state (js ''/s3cret/user?page=2''), mount [] example_client))) = key) menu_keys"
  unfolding list_all_iff
proof
  fix key assume "key \<in> set menu_keys"
  moreover have "list_all (\<lambda>key. starts_with key (js ''/'') \<and> route_of key \<noteq> js ''/'' \<and> \<not> starts_with (route_of key) assets \<and>
      dropWhile (\<lambda>c. c \<noteq> 63) key \<noteq> [63]) menu_keys" by code_simp
  moreover have strip: "strip_slashes (js ''/s3cret/'') = js ''s3cret''" by code_simp
  moreover have "list_all url_char (js ''s3cret'')" by code_simp
  moreover have "app_adminPath (JStr (js ''/s3cret/'')) loc = js ''s3cret''" for loc
    by (simp add: app_adminPath_def jor_def strip)
  ultimately show "normalizePath (JStr (js ''/s3cret/''))
     (fst (navigate (js ''s3cret'') key (push_state (js ''/s3cret/user?page=2''), mount [] example_client))) = key"
    using navigate_reload [of "JStr (js ''/s3cret/'')" "js ''s3cret''" key "push_state (js ''/s3cret/user?page=2'')"
        "mount [] example_client"]
    by (simp add: list_all_iff)
qed

end
