(* ===== verification/JsRound.thy ===== *)
theory JsRound
  imports JsNumText
begin

text \<open>How far a number is from the rational it was rounded from.\<close>

section \<open>Powers of two\<close>

lemma pow2_powi: "pow2 e = 2 powi e"
  by (simp add: pow2_def power_int_def field_simps)

lemma pow2_add: "pow2 (a + b) = pow2 a * pow2 b"
  by (simp add: pow2_powi power_int_add)

lemma pow2_ge [simp]: "0 \<le> pow2 e" and pow2_neq [simp]: "pow2 e \<noteq> 0"
  using pow2_nonneg [of e] by (simp_all add: less_imp_le less_imp_neq [symmetric] del: pow2_nonneg)

lemma pow2_mono: "a \<le> b \<Longrightarrow> pow2 a \<le> pow2 b"
  by (simp add: pow2_powi power_int_increasing)

lemma pow2_less_cancel: "pow2 a < pow2 b \<Longrightarrow> a < b"
  using pow2_mono [of b a] by force

lemma pow2_of_nat: "pow2 (int n) = 2 ^ n"
  by (simp add: pow2_def)

text \<open>The binary exponent does not overshoot.\<close>

lemma pow2_exp2_le:
  assumes "0 < q"
  shows "pow2 (exp2 q) \<le> q"
proof -
  obtain n d where nd: "quotient_of q = (n, d)" by force
  then have q: "q = of_int n / of_int d" and d: "0 < d"
    using quotient_of_div quotient_of_denom_pos by blast+
  have n: "0 < n" using assms d unfolding q by (simp add: zero_less_divide_iff)
  note bn = blen_bounds [OF n] and bd = blen_bounds [OF d]
  let ?e = "int (blen n) - int (blen d)"
  have "pow2 (?e - 1) \<le> q"
  proof -
    have "int (blen n - 1) = ?e - 1 + int (blen d)" using bn by (simp add: of_nat_diff)
    then have "pow2 (?e - 1) * pow2 (int (blen d)) = pow2 (int (blen n - 1))"
      by (simp only: pow2_add [symmetric])
    also have "\<dots> \<le> of_int n"
      using bn of_int_le_iff [where 'a = rat, THEN iffD2, of "2 ^ (blen n - 1)" n]
      unfolding pow2_of_nat by simp
    finally have "pow2 (?e - 1) * pow2 (int (blen d)) \<le> of_int n" .
    moreover have "of_int d \<le> pow2 (int (blen d))"
      using bd of_int_le_iff [where 'a = rat, THEN iffD2, of d "2 ^ blen d"] by (simp add: pow2_of_nat)
    then have "pow2 (?e - 1) * of_int d \<le> pow2 (?e - 1) * pow2 (int (blen d))"
      by (intro mult_left_mono pow2_ge)
    ultimately have "pow2 (?e - 1) * of_int d \<le> of_int n" by linarith
    then show ?thesis using d unfolding q by (simp add: pos_le_divide_eq)
  qed
  then show ?thesis using nd by (simp add: exp2_def Let_def)
qed

lemma exp2_le: "0 < q \<Longrightarrow> q < pow2 (k + 1) \<Longrightarrow> exp2 q \<le> k"
  using pow2_exp2_le [of q] pow2_less_cancel [of "exp2 q" "k + 1"] by force

lemma exp2_less:
  assumes "0 < q"
  shows "q < pow2 (exp2 q + 1)"
proof -
  obtain n d where nd: "quotient_of q = (n, d)" by force
  then have q: "q = of_int n / of_int d" and d: "0 < d"
    using quotient_of_div quotient_of_denom_pos by blast+
  have n: "0 < n" using assms d unfolding q by (simp add: zero_less_divide_iff)
  note bn = blen_bounds [OF n] and bd = blen_bounds [OF d]
  let ?e = "int (blen n) - int (blen d)"
  have "q < pow2 (?e + 1)"
  proof -
    have "of_int n < pow2 (int (blen n))"
      using bn of_int_less_iff [where 'a = rat, THEN iffD2, of n "2 ^ blen n"] by (simp add: pow2_of_nat)
    also have "int (blen n) = ?e + 1 + int (blen d - 1)" using bd by (simp add: of_nat_diff)
    also have "pow2 (?e + 1 + int (blen d - 1)) = pow2 (?e + 1) * pow2 (int (blen d - 1))"
      by (rule pow2_add)
    also have "\<dots> \<le> pow2 (?e + 1) * of_int d"
      using bd of_int_le_iff [where 'a = rat, THEN iffD2, of "2 ^ (blen d - 1)" d]
      unfolding pow2_of_nat by (intro mult_left_mono) simp_all
    finally show ?thesis using d unfolding q by (simp add: pos_divide_less_eq)
  qed
  moreover have "exp2 q = (if q < pow2 ?e then ?e - 1 else ?e)" using nd by (simp add: exp2_def Let_def)
  ultimately show ?thesis by simp
qed

section \<open>The error of rounding\<close>

lemma round_even_error: "\<bar>of_int (round_even q) - q\<bar> \<le> 1/2"
proof -
  have f: "of_int \<lfloor>q\<rfloor> \<le> q" "q < of_int \<lfloor>q\<rfloor> + 1" by linarith+
  show ?thesis
  proof (cases "q - of_int \<lfloor>q\<rfloor> < 1/2 \<or> (q - of_int \<lfloor>q\<rfloor> = 1/2 \<and> even \<lfloor>q\<rfloor>)")
    case True
    then have "q - of_int \<lfloor>q\<rfloor> \<le> 1/2" by auto
    then show ?thesis using True f by (auto simp: round_even_def Let_def)
  next
    case False
    then have "1/2 \<le> q - of_int \<lfloor>q\<rfloor>" by auto
    moreover have "round_even q = \<lfloor>q\<rfloor> + 1" using False by (simp only: round_even_def Let_def if_False)
    ultimately show ?thesis using f by simp
  qed
qed

text \<open>Below \<open>2 ^ (k + 1)\<close> the result is finite and at most \<open>2 ^ (k - 53)\<close> away.\<close>

lemma rnd_error:
  assumes "\<bar>q\<bar> < pow2 (k + 1)" "- 1000 \<le> k" "k \<le> 1000"
  obtains r where "rnd q = Fin r" "\<bar>r - q\<bar> \<le> pow2 (k - 53)"
proof (cases "q = 0")
  case True
  then have "rnd q = Fin 0" by (simp add: rnd_def)
  then show ?thesis using True that less_imp_le [OF pow2_nonneg] by simp
next
  case False
  define s where "s = max (exp2 \<bar>q\<bar> - 52) (- 1074)"
  define v where "v = of_int (round_even (\<bar>q\<bar> / pow2 s)) * pow2 s"
  have s: "s \<le> k - 52" using exp2_le [of "\<bar>q\<bar>" k] False assms by (simp add: s_def)
  have "\<bar>of_int (round_even (\<bar>q\<bar> / pow2 s)) - \<bar>q\<bar> / pow2 s\<bar> * pow2 s \<le> 1/2 * pow2 s"
    by (intro mult_right_mono round_even_error) (simp add: less_imp_le)
  moreover have "\<bar>of_int (round_even (\<bar>q\<bar> / pow2 s)) - \<bar>q\<bar> / pow2 s\<bar> * pow2 s = \<bar>v - \<bar>q\<bar>\<bar>"
  proof -
    have "(of_int (round_even (\<bar>q\<bar> / pow2 s)) - \<bar>q\<bar> / pow2 s) * pow2 s = v - \<bar>q\<bar>"
      by (simp add: v_def left_diff_distrib)
    then show ?thesis by (metis abs_mult_pos pow2_ge)
  qed
  ultimately have err: "\<bar>v - \<bar>q\<bar>\<bar> \<le> 1/2 * pow2 s" by simp
  also have "\<dots> = pow2 (s - 1)" using pow2_add [of "s - 1" 1] by (simp add: pow2_def [of 1])
  also have "\<dots> \<le> pow2 (k - 53)" using s by (intro pow2_mono) simp
  finally have err: "\<bar>v - \<bar>q\<bar>\<bar> \<le> pow2 (k - 53)" .
  have "v < pow2 1024"
  proof -
    have "v \<le> \<bar>q\<bar> + pow2 (k - 53)" using err by linarith
    also have "\<dots> < pow2 (k + 1) + pow2 (k + 1)"
      using assms(1) pow2_mono [of "k - 53" "k + 1"] by linarith
    also have "\<dots> = pow2 (k + 2)" using pow2_add [of "k + 1" 1] by (simp add: pow2_def [of 1] add.commute)
    also have "\<dots> \<le> pow2 1024" using assms(3) by (intro pow2_mono) simp
    finally show ?thesis .
  qed
  then have "rnd q = Fin (sgn q * v)" using False by (simp add: rnd_def Let_def s_def v_def)
  moreover have "\<bar>sgn q * v - q\<bar> \<le> pow2 (k - 53)"
    using err False by (cases "0 < q") (auto simp: sgn_if abs_if split: if_splits)
  ultimately show ?thesis using that by blast
qed

text \<open>Far from the limits of the format the overflow test can be skipped, which makes evaluation quick.\<close>

lemma rnd_code [code]:
  "rnd q =
     (if q = 0 then Fin 0
      else let e = exp2 \<bar>q\<bar>; s = max (e - 52) (- 1074);
               v = of_int (round_even (\<bar>q\<bar> / pow2 s)) * pow2 s
           in if - 1000 \<le> e \<and> e \<le> 1000 then Fin (sgn q * v)
              else if pow2 1024 \<le> v then (if 0 < q then PosInf else NegInf)
              else Fin (sgn q * v))"
proof (cases "q = 0 \<or> \<not> (- 1000 \<le> exp2 \<bar>q\<bar> \<and> exp2 \<bar>q\<bar> \<le> 1000)")
  case True
  then show ?thesis by (auto simp: rnd_def Let_def)
next
  case False
  then have "\<bar>q\<bar> < pow2 (exp2 \<bar>q\<bar> + 1)" by (intro exp2_less) simp
  then obtain r where "rnd q = Fin r" using False by (auto elim: rnd_error)
  then show ?thesis using False by (auto simp: rnd_def Let_def split: if_splits)
qed

section \<open>Hundredths\<close>

lemma num_div_100: "num_div (num c) (num 100) = rnd (of_int c / 100)"
  by (simp add: num_div_def num_def)

text \<open>Dividing an integer by a hundred and multiplying it back is off by less than a hundredth.\<close>

lemma hundredth_error:
  assumes "\<bar>c\<bar> \<le> 2 ^ 40"
  obtains q r where "num_div (num c) (num 100) = Fin q" "num_mul (num 100) (Fin q) = Fin r"
    "\<bar>r - of_int c\<bar> < 1 / 100" "\<bar>q - of_int c / 100\<bar> < 1 / 10000"
proof -
  have c: "of_int c \<le> (1099511627776 :: rat)" "- 1099511627776 \<le> (of_int c :: rat)"
    using assms of_int_le_iff [where 'a = rat, of c 1099511627776]
      of_int_le_iff [where 'a = rat, of "- 1099511627776" c] by (simp_all add: abs_le_iff)
  have p: "pow2 (33 + 1) = 17179869184" "pow2 (33 - 53) = 1 / 1048576"
    "pow2 (40 + 1) = 2199023255552" "pow2 (40 - 53) = 1 / 8192"
    by (simp_all add: pow2_def)
  have "\<bar>of_int c / 100\<bar> < pow2 (33 + 1)" unfolding p abs_less_iff using c by simp
  then obtain q where q: "rnd (of_int c / 100) = Fin q" "\<bar>q - of_int c / 100\<bar> \<le> pow2 (33 - 53)"
    by (rule rnd_error) simp_all
  then have q': "q - of_int c / 100 \<le> 1 / 1048576" "of_int c / 100 - q \<le> 1 / 1048576"
    unfolding p abs_le_iff by simp_all
  have "\<bar>100 * q\<bar> < pow2 (40 + 1)" unfolding p abs_less_iff using q' c by linarith
  then obtain r where r: "rnd (100 * q) = Fin r" "\<bar>r - 100 * q\<bar> \<le> pow2 (40 - 53)"
    by (rule rnd_error) simp_all
  then have r': "r - 100 * q \<le> 1 / 8192" "100 * q - r \<le> 1 / 8192"
    unfolding p abs_le_iff by simp_all
  have "\<bar>r - of_int c\<bar> < 1 / 100" unfolding abs_less_iff using q' r' by linarith
  moreover have "\<bar>q - of_int c / 100\<bar> < 1 / 10000" unfolding abs_less_iff using q' by linarith
  moreover have "num_mul (num 100) (Fin q) = Fin r" using r(1) by (simp add: num_mul_def num_def)
  ultimately show ?thesis using that q(1) by (simp add: num_div_100)
qed

lemma round_near: "\<bar>r - of_int c\<bar> < 1/2 \<Longrightarrow> \<lfloor>r + 1/2 :: rat\<rfloor> = c"
  by (simp add: floor_eq_iff abs_if split: if_splits)

theorem round_hundredths:
  "\<bar>c\<bar> \<le> 2 ^ 40 \<Longrightarrow> num_round (num_mul (num 100) (num_div (num c) (num 100))) = num c"
proof -
  assume "\<bar>c\<bar> \<le> 2 ^ 40"
  then obtain q r where "num_div (num c) (num 100) = Fin q" "num_mul (num 100) (Fin q) = Fin r"
    "\<bar>r - of_int c\<bar> < 1 / 100" by (rule hundredth_error)
  moreover from this(3) have "\<lfloor>r + 1/2\<rfloor> = c" by (intro round_near) simp
  ultimately show ?thesis by (simp add: num_round_def num_map_def num_def)
qed

end
