(* ===== verification/MiniApp.thy ===== *)
theory MiniApp
  imports Api JsRound
begin

text \<open>
  \<open>TelegramMiniApp.tsx\<close>: the life of the mini app, from the sign-in with the data of Telegram over the checks of the
  identity every few seconds to the end of the session. As in the code the phase that is shown and the variables
  of the effect (\<open>live\<close>, \<open>invalid\<close>, \<open>verifying\<close>, \<open>auth\<close>) are separate. Colours and sizes are in \<open>MiniTheme\<close>.
\<close>

section \<open>State\<close>

datatype phase = Loading | Ready | Verify | Invalid | Outside

text \<open>How far the sign-in is: it waits for the answer, for the first check, or is through.\<close>

datatype starting = NotAsked | AtAuth | AtFirst | Started

record mini_app =
  ma_client :: api
  ma_phase :: phase
  ma_role_key :: jstr
  ma_live :: bool
  ma_invalid :: bool
  ma_verifying :: bool
  ma_auth :: "mini_session option"
  ma_starting :: starting
  ma_polling :: bool
  ma_expiry :: bool
  ma_hidden :: bool \<comment> \<open>\<open>document.visibilityState === 'hidden'\<close>\<close>

definition expire :: "mini_app \<Rightarrow> mini_app" where
  "expire s =
     (let s' = s\<lparr>ma_invalid := True, ma_auth := None, ma_client := clearAuth (ma_client s)\<rparr>
      in if ma_live s then s'\<lparr>ma_phase := Invalid\<rparr> else s')"

text \<open>The listener of \<open>forest-mini-auth-invalid\<close>.\<close>

definition deliver :: "api \<Rightarrow> mini_app \<Rightarrow> mini_app" where
  "deliver c s =
     (let s' = s\<lparr>ma_client := c\<lparr>ap_events := []\<rparr>\<rparr>
      in if MiniAuthInvalid \<in> set (ap_events c) \<and> ma_live s then expire s' else s')"

section \<open>Checking the identity\<close>

text \<open>The end of \<open>verify\<close>; the first one starts the polling.\<close>

definition conclude :: "mini_app \<Rightarrow> mini_app" where
  "conclude s =
     (let s' = s\<lparr>ma_verifying := False\<rparr>
      in if ma_starting s = AtFirst then s'\<lparr>ma_starting := Started, ma_polling := ma_live s \<and> \<not> ma_invalid s\<rparr> else s')"

definition verify_failed :: "mini_app \<Rightarrow> mini_app" where
  "verify_failed s = conclude (if ma_live s \<and> \<not> ma_invalid s then s\<lparr>ma_phase := Verify\<rparr> else s)"

definition verify :: "mini_app \<Rightarrow> mini_app" where
  "verify s =
     (if \<not> ma_live s \<or> ma_invalid s \<or> ma_verifying s \<or> ma_auth s = None \<or> ma_hidden s
      then (if ma_verifying s then s else conclude s)
      else (case getTelegramMiniIdentity (ma_client s) of
          (Inl e, c) \<Rightarrow> verify_failed (deliver c s)
        | (Inr r, c) \<Rightarrow> s\<lparr>ma_client := c, ma_verifying := True\<rparr>))"

definition session_value :: "mini_session \<Rightarrow> jsv" where
  "session_value ses = JObj [(js ''token'', JStr (ms_token ses)), (js ''expires_at'', JNum (ms_expires_at ses)),
     (js ''user'', JObj (identity_object (ms_user ses)))]"

definition role_key :: "mini_identity \<Rightarrow> jstr" where
  "role_key u = num_str (mi_id u) @ [58] @ num_str (mi_is_admin u) @ [58] @ num_str (mi_is_staff u)"

definition confirmed :: "mini_identity \<Rightarrow> mini_app \<Rightarrow> mini_app" where
  "confirmed user s =
     (case ma_auth s of
        None \<Rightarrow> conclude s
      | Some ses \<Rightarrow>
          if \<not> ma_live s \<or> ma_invalid s then conclude s
          else if mi_id user \<noteq> mi_id (ms_user ses)
          then conclude (deliver (invalidateTelegramMiniSession (ma_client s)) s)
          else
            let ses' = ses\<lparr>ms_user := user\<rparr>; s' = s\<lparr>ma_auth := Some ses'\<rparr>
            in (case setTelegramMiniSession (session_value ses') (ma_client s) of
                  (Inl e, c) \<Rightarrow> verify_failed (s'\<lparr>ma_client := c\<rparr>)
                | (Inr u, c) \<Rightarrow> conclude (s'\<lparr>ma_client := c, ma_role_key := role_key user, ma_phase := Ready\<rparr>)))"

text \<open>The answer to the request of \<open>verify\<close>; \<open>None\<close> when the network failed or the request was aborted.\<close>

definition identity_answered :: "response option \<Rightarrow> mini_app \<Rightarrow> mini_app" where
  "identity_answered answer s =
     (if \<not> ma_verifying s then s
      else (case answer of
          None \<Rightarrow> verify_failed s
        | Some r \<Rightarrow>
            (case identity_answer r (ma_client s) of
               (Inl e, c) \<Rightarrow> verify_failed (deliver c s)
             | (Inr user, c) \<Rightarrow> confirmed user (deliver c s))))"

section \<open>Signing in\<close>

definition give_up :: "mini_app \<Rightarrow> mini_app" where
  "give_up s = (let s' = s\<lparr>ma_starting := Started\<rparr> in if ma_live s \<and> \<not> ma_invalid s then expire s' else s')"

definition auth_answered :: "response option \<Rightarrow> mini_app \<Rightarrow> mini_app" where
  "auth_answered answer s =
     (if ma_starting s \<noteq> AtAuth then s
      else (case answer of
          None \<Rightarrow> give_up s
        | Some r \<Rightarrow>
            (case parseResponse False r (ma_client s) of
               (Inl e, c) \<Rightarrow> give_up (deliver c s)
             | (Inr v, c) \<Rightarrow>
                 let s' = deliver c s
                 in if \<not> ma_live s' \<or> ma_invalid s' then s'\<lparr>ma_starting := Started\<rparr>
                    else (case setTelegramMiniSession (jprop v (js ''data'')) (ma_client s') of
                        (Inl e, c') \<Rightarrow> give_up (s'\<lparr>ma_client := c'\<rparr>)
                      | (Inr u, c') \<Rightarrow>
                          verify (s'\<lparr>ma_client := c', ma_auth := ap_session c', ma_expiry := True, ma_starting := AtFirst\<rparr>)))))"

text \<open>The effect of the component as it is mounted.\<close>

definition mini_mount :: "jstr \<Rightarrow> bool \<Rightarrow> api \<Rightarrow> mini_app" where
  "mini_mount initData hidden c =
     (let s = \<lparr>ma_client = c, ma_phase = Loading, ma_role_key = [], ma_live = True, ma_invalid = False,
                ma_verifying = False, ma_auth = None, ma_starting = NotAsked, ma_polling = False, ma_expiry = False,
                ma_hidden = hidden\<rparr>
      in if initData = [] then s\<lparr>ma_phase := Outside\<rparr>
         else (case authenticateTelegramMiniApp initData c of
             (Inl e, c') \<Rightarrow> give_up (s\<lparr>ma_client := c'\<rparr>)
           | (Inr r, c') \<Rightarrow> s\<lparr>ma_client := c', ma_starting := AtAuth\<rparr>))"

section \<open>Events\<close>

definition visibility :: "bool \<Rightarrow> mini_app \<Rightarrow> mini_app" where
  "visibility hidden s =
     (let s' = s\<lparr>ma_hidden := hidden\<rparr>
      in if \<not> ma_live s \<or> ma_invalid s \<or> ma_auth s = None then s'
         else if hidden then s'\<lparr>ma_phase := Verify\<rparr> else verify (s'\<lparr>ma_phase := Verify\<rparr>))"

definition mini_unmount :: "mini_app \<Rightarrow> mini_app" where
  "mini_unmount s =
     s\<lparr>ma_live := False, ma_client := clearAuth (ma_client s), ma_polling := False, ma_expiry := False\<rparr>"

text \<open>What the pages of the mini app do with the client.\<close>

fun page_operation :: "operation \<Rightarrow> bool" where
  "page_operation (Get path params keep) = True"
| "page_operation (Write m path body) = True"
| "page_operation (Post path body form keep) = True"
| "page_operation (Answer i raw r) = True"
| "page_operation _ = False"

datatype mini_event =
    AuthAnswer "response option" | IdentityAnswer "response option" | Poll | ExpiryDue | Visibility bool
  | Retry | PageCall operation | Time jnum | Leave

fun mini_react :: "mini_event \<Rightarrow> mini_app \<Rightarrow> mini_app" where
  "mini_react (AuthAnswer answer) s = auth_answered answer s"
| "mini_react (IdentityAnswer answer) s = identity_answered answer s"
| "mini_react Poll s = (if ma_polling s then verify s else s)"
| "mini_react ExpiryDue s = (if ma_expiry s then deliver (invalidateTelegramMiniSession (ma_client s)) s else s)"
| "mini_react (Visibility hidden) s = visibility hidden s"
| "mini_react Retry s = (if ma_live s then verify s else s)"
| "mini_react (PageCall op) s =
     (if page_operation op then deliver (run_operation op (ma_client s)) s else s)"
| "mini_react (Time now) s = s\<lparr>ma_client := (ma_client s)\<lparr>ap_now := now\<rparr>\<rparr>"
| "mini_react Leave s = mini_unmount s"

inductive mini_reach :: "mini_app \<Rightarrow> bool" where
  start: "ap_mini c \<Longrightarrow> ap_session c = None \<Longrightarrow> ap_refresh c = None \<Longrightarrow> ap_events c = [] \<Longrightarrow> ap_sent c = [] \<Longrightarrow>
    mini_reach (mini_mount initData hidden c)"
| step: "mini_reach s \<Longrightarrow> mini_reach (mini_react e s)"

section \<open>The client under the mini app\<close>

text \<open>
  \<open>calm c d\<close>: on the way from \<open>c\<close> to \<open>d\<close> the session was kept, or it was lost and the component told so; without
  a session nothing was sent.
\<close>

definition calm :: "api \<Rightarrow> api \<Rightarrow> bool" where
  "calm c d \<longleftrightarrow> quarantined d \<and> set (ap_events c) \<subseteq> set (ap_events d) \<and>
     (ap_session d = ap_session c \<and> ap_events d = ap_events c \<or> ap_session d = None \<and> MiniAuthInvalid \<in> set (ap_events d)) \<and>
     (ap_session c = None \<longrightarrow> ap_sent d = ap_sent c)"

definition obedient :: "'a call \<Rightarrow> bool" where
  "obedient m \<longleftrightarrow> (\<forall>c. quarantined c \<longrightarrow> calm c (snd (m c)))"

lemma calm_refl: "quarantined c \<Longrightarrow> calm c c"
  by (simp add: calm_def)

lemma calm_trans: "calm c d \<Longrightarrow> calm d e \<Longrightarrow> calm c e"
  by (auto simp: calm_def)

lemma calm_invalidate: "quarantined c \<Longrightarrow> calm c (invalidateTelegramMiniSession c)"
  by (auto simp: calm_def quarantined_def invalidateTelegramMiniSession_def dispatch_event_def)

lemma obedient_andthen:
  assumes "obedient m" and "confined m P" and "\<And>x. P x \<Longrightarrow> obedient (f x)"
  shows "obedient (andthen m f)"
  unfolding obedient_def
proof (intro allI impI)
  fix c assume q: "quarantined c"
  obtain r d where r: "m c = (r, d)" by fastforce
  have d: "calm c d" using assms(1) q r unfolding obedient_def by (metis snd_conv)
  show "calm c (snd (andthen m f c))"
  proof (cases r)
    case (Inr x)
    then have "P x" using assms(2) q r by (auto simp: confined_def)
    then have "calm d (snd (f x d))" using assms(3) d by (auto simp: obedient_def calm_def)
    then show ?thesis using calm_trans [OF d] by (simp add: andthen_def r Inr)
  qed (use d in \<open>simp add: andthen_def r\<close>)
qed

lemma obedient_basic:
  "obedient (return x)" "obedient (throw e)" "obedient (lift_result res)" "obedient (aiOpsRequestURL path)"
  "obedient (parseResponse raw r)"
  using calm_invalidate
  by (auto simp: obedient_def return_def throw_def lift_result_def aiOpsRequestURL_def parseResponse_def note_status_def
      calm_refl quarantined_def)

lemma obedient_query: "obedient (miniQuery ps keep)"
  by (simp add: miniQuery_def obedient_basic)

lemma obedient_request:
  assumes "starts_with url mini_prefix" and "fst ` set q \<inter> credential_keys = {}"
  shows "obedient (mini_request m url q body)"
proof -
  have "calm c (snd (mini_request m url q body c))" if c: "quarantined c" for c
  proof (cases "fst (requireMiniSession c)")
    case (Inl e)
    then have "mini_request m url q body c = (Inl e, invalidateTelegramMiniSession c)"
      using c by (auto simp: mini_request_def andthen_def aiOpsRequestHeaders_def requireMiniSession_def quarantined_def
          split: option.splits if_splits)
    then show ?thesis using calm_invalidate [OF c] by simp
  next
    case (Inr ses)
    then have "ap_session c = Some ses" by (auto simp: requireMiniSession_def split: option.splits if_splits)
    then show ?thesis using c assms Inr
      by (auto simp: mini_request_def andthen_def aiOpsRequestHeaders_def requireMiniSession_def quarantined_def
          send_def calm_def return_def mini_safe_def split: if_splits)
  qed
  then show ?thesis by (simp add: obedient_def)
qed

lemma obedient_cong: "obedient m \<Longrightarrow> (\<And>c. ap_mini c \<Longrightarrow> m' c = m c) \<Longrightarrow> obedient m'"
  by (simp add: obedient_def quarantined_def)

lemma obedient_get: "obedient (apiGet path ps keep)"
  by (rule obedient_cong [where m = "andthen (aiOpsRequestURL path) (\<lambda>url. andthen (miniQuery ps keep) (\<lambda>q.
        mini_request GET url q NoBody))"])
    (auto simp: apiGet_def intro!: obedient_andthen [OF obedient_basic(4) confined_url]
      obedient_andthen [OF obedient_query confined_query] obedient_request)

lemma obedient_write: "obedient (apiWrite m path body)"
  by (rule obedient_cong [where m = "andthen (aiOpsRequestURL path) (\<lambda>url. mini_request m url [] (write_body m body))"])
    (auto simp: apiWrite_def intro!: obedient_andthen [OF obedient_basic(4) confined_url] obedient_request)

lemma obedient_post: "obedient (apiPost path body form keep)"
  by (rule obedient_cong [OF obedient_write]) (simp add: apiPost_def)

lemma obedient_identity: "obedient getTelegramMiniIdentity"
  unfolding getTelegramMiniIdentity_def by (rule obedient_request) (simp_all add: mini_prefix_def js_Cons)

lemma obedient_identity_answer: "obedient (identity_answer r)"
proof -
  let ?m = "\<lambda>c. (Inr () :: api_error + unit, if rs_status r = 403 then invalidateTelegramMiniSession c else c)"
  have "obedient ?m" using calm_invalidate by (simp add: obedient_def calm_refl)
  moreover have "confined ?m (\<lambda>_. True)" using confined_invalidate by (simp add: confined_def confined_step_def)
  moreover have "obedient (andthen (parseResponse False r) (\<lambda>v. lift_result (telegramMiniIdentity (jprop v (js ''data'')))))"
    by (rule obedient_andthen [OF obedient_basic(5) confined_basic(6)]) (rule obedient_basic)
  ultimately have "obedient (andthen ?m (\<lambda>_. andthen (parseResponse False r)
      (\<lambda>v. lift_result (telegramMiniIdentity (jprop v (js ''data''))))))" by (rule obedient_andthen)
  then show ?thesis by (rule obedient_cong) (simp add: identity_answer_def andthen_def [of "\<lambda>c. (Inr (), F c)" for F])
qed

lemma page_operation_calm:
  assumes "page_operation op" and c: "quarantined c"
  shows "calm c (run_operation op c)"
proof (cases op)
  case (Answer i raw r)
  then show ?thesis using c obedient_basic(5) [of raw r]
    by (auto simp: answered_def obedient_def calm_refl quarantined_def list_all_length mini_safe_def)
qed (use assms obedient_get obedient_write obedient_post in \<open>auto simp: obedient_def\<close>)

section \<open>Invariant\<close>

definition sound :: "mini_app \<Rightarrow> bool" where
  "sound s \<longleftrightarrow> quarantined (ma_client s) \<and> ap_events (ma_client s) = [] \<and>
     (ma_invalid s \<longrightarrow> ma_auth s = None \<and> ap_session (ma_client s) = None) \<and>
     (ma_live s \<longrightarrow> (ma_invalid s \<longleftrightarrow> ma_phase s = Invalid)) \<and>
     (ma_live s \<and> ma_phase s = Ready \<longrightarrow> ma_auth s \<noteq> None \<and> ap_session (ma_client s) = ma_auth s)"

lemma quarantined_update [simp]:
  "quarantined (c\<lparr>ap_events := es\<rparr>) = quarantined c" "quarantined (c\<lparr>ap_session := ses\<rparr>) = quarantined c"
  "quarantined (c\<lparr>ap_now := now\<rparr>) = quarantined c"
  by (simp_all add: quarantined_def)

lemma clearAuth_mini: "quarantined c \<Longrightarrow> clearAuth c = c\<lparr>ap_session := None\<rparr>"
  by (simp add: clearAuth_def quarantined_def)

lemma setSession_cases:
  "setTelegramMiniSession v c = (r, d) \<Longrightarrow> (case r of Inl e \<Rightarrow> d = c | Inr u \<Rightarrow> \<exists>ses. d = c\<lparr>ap_session := Some ses\<rparr>)"
  by (auto simp: setTelegramMiniSession_def split: jsv.splits sum.splits if_splits)

lemma sound_expire [intro]: "sound s \<Longrightarrow> sound (expire s)"
  by (auto simp: sound_def expire_def Let_def clearAuth_mini)

lemma sound_deliver: "sound s \<Longrightarrow> calm (ma_client s) c \<Longrightarrow> sound (deliver c s)"
  by (auto simp: sound_def deliver_def expire_def Let_def calm_def clearAuth_mini)

lemma sound_conclude [intro]: "sound s \<Longrightarrow> sound (conclude s)"
  by (auto simp: sound_def conclude_def Let_def)

lemma sound_failed [intro]: "sound s \<Longrightarrow> sound (verify_failed s)"
  unfolding verify_failed_def by (rule sound_conclude) (auto simp: sound_def)

lemma sound_give_up [intro]: "sound s \<Longrightarrow> sound (give_up s)"
  by (auto simp: give_up_def Let_def) (auto simp: sound_def expire_def clearAuth_mini Let_def)

lemma identity_sent: "getTelegramMiniIdentity c = (Inr r, d) \<Longrightarrow> ap_session d = ap_session c \<and> ap_events d = ap_events c"
  by (auto simp: getTelegramMiniIdentity_def mini_request_def andthen_def aiOpsRequestHeaders_def requireMiniSession_def
      send_def return_def split: option.splits if_splits sum.splits prod.splits)

lemma identity_calm: "sound s \<Longrightarrow> getTelegramMiniIdentity (ma_client s) = (r, d) \<Longrightarrow> calm (ma_client s) d"
  using obedient_identity unfolding obedient_def sound_def by (metis snd_conv)

lemma sound_verify [intro]:
  assumes s: "sound s"
  shows "sound (verify s)"
proof -
  obtain r d where r: "getTelegramMiniIdentity (ma_client s) = (r, d)" by fastforce
  have calm: "calm (ma_client s) d" using identity_calm [OF s r] .
  have "sound (s\<lparr>ma_client := d, ma_verifying := True\<rparr>)" if "r = Inr q" for q
    using s calm identity_sent [OF r [unfolded that]] by (auto simp: sound_def calm_def)
  then show ?thesis using s sound_deliver [OF s calm]
    by (auto simp: verify_def r split: sum.split)
qed

lemma sound_lost: "sound s \<Longrightarrow> sound (deliver (invalidateTelegramMiniSession (ma_client s)) s)"
  using calm_invalidate by (intro sound_deliver) (simp_all add: sound_def)

lemma session_kept:
  "setTelegramMiniSession (session_value ses) c = (Inr u, d) \<Longrightarrow> d = c\<lparr>ap_session := Some ses\<rparr>"
  by (auto simp: setTelegramMiniSession_def session_value_def telegramMiniIdentity_def identity_object_def oget_cons
      split: sum.splits if_splits)

lemma sound_confirmed [intro]:
  assumes s: "sound s"
  shows "sound (confirmed user s)"
proof (cases "ma_auth s = None \<or> \<not> ma_live s \<or> ma_invalid s")
  case False
  then obtain ses where ses: "ma_auth s = Some ses" by auto
  let ?s = "s\<lparr>ma_auth := Some (ses\<lparr>ms_user := user\<rparr>)\<rparr>"
  have lost: "sound (deliver (invalidateTelegramMiniSession (ma_client s)) s)" using sound_lost [OF s] .
  obtain r d where r: "setTelegramMiniSession (session_value (ses\<lparr>ms_user := user\<rparr>)) (ma_client s) = (r, d)" by fastforce
  show ?thesis
  proof (cases r)
    case (Inl e)
    then have "sound (?s\<lparr>ma_client := d, ma_phase := Verify\<rparr>)"
      using setSession_cases [OF r] s False by (auto simp: sound_def)
    then show ?thesis using False ses lost
      by (auto simp: confirmed_def r Inl verify_failed_def Let_def)
  next
    case (Inr u)
    then have "sound (?s\<lparr>ma_client := d, ma_role_key := role_key user, ma_phase := Ready\<rparr>)"
      using session_kept [OF r [unfolded Inr]] s False by (auto simp: sound_def)
    then show ?thesis using False ses lost by (auto simp: confirmed_def r Inr Let_def)
  qed
qed (use s in \<open>auto simp: confirmed_def split: option.split\<close>)

lemma sound_identity_answered: "sound s \<Longrightarrow> sound (identity_answered answer s)"
proof (cases answer)
  case (Some r)
  assume s: "sound s"
  obtain x d where x: "identity_answer r (ma_client s) = (x, d)" by fastforce
  have "calm (ma_client s) d" using obedient_identity_answer [of r] s x unfolding obedient_def sound_def by (metis snd_conv)
  then have "sound (deliver d s)" using sound_deliver [OF s] by blast
  then show ?thesis using s by (auto simp: identity_answered_def Some x split: sum.split)
qed (auto simp: identity_answered_def)

lemma sound_auth_answered: "sound s \<Longrightarrow> sound (auth_answered answer s)"
proof (cases answer)
  case (Some r)
  assume s: "sound s"
  obtain x d where x: "parseResponse False r (ma_client s) = (x, d)" by fastforce
  have "calm (ma_client s) d" using obedient_basic(5) [of False r] s x unfolding obedient_def sound_def by (metis snd_conv)
  then have s': "sound (deliver d s)" (is "sound ?s") using sound_deliver [OF s] by blast
  have "sound (?s\<lparr>ma_starting := Started\<rparr>)" using s' by (simp add: sound_def)
  moreover have "sound (case setTelegramMiniSession v (ma_client ?s) of
        (Inl e, c) \<Rightarrow> give_up (?s\<lparr>ma_client := c\<rparr>)
      | (Inr u, c) \<Rightarrow> verify (?s\<lparr>ma_client := c, ma_auth := ap_session c, ma_expiry := True, ma_starting := AtFirst\<rparr>))"
    if "\<not> (\<not> ma_live ?s \<or> ma_invalid ?s)" for v
  proof -
    obtain y c where y: "setTelegramMiniSession v (ma_client ?s) = (y, c)" by fastforce
    show ?thesis
    proof (cases y)
      case (Inl e)
      then show ?thesis using setSession_cases [OF y] s' by (auto simp: y)
    next
      case (Inr u)
      then have "sound (?s\<lparr>ma_client := c, ma_auth := ap_session c, ma_expiry := True, ma_starting := AtFirst\<rparr>)"
        using setSession_cases [OF y] s' that by (auto simp: sound_def)
      then show ?thesis by (auto simp: y Inr)
    qed
  qed
  ultimately show ?thesis using s s'
    by (auto simp: auth_answered_def Some x Let_def split: sum.split)
qed (auto simp: auth_answered_def)

lemma sound_react: "sound s \<Longrightarrow> sound (mini_react e s)"
proof (cases e)
  case (PageCall op)
  assume s: "sound s"
  then have "page_operation op \<Longrightarrow> calm (ma_client s) (run_operation op (ma_client s))"
    by (auto simp: sound_def intro: page_operation_calm)
  then show ?thesis using s by (auto simp: PageCall intro: sound_deliver)
next
  case ExpiryDue
  assume "sound s"
  then show ?thesis using sound_lost by (simp add: ExpiryDue)
next
  case (Visibility hidden)
  assume s: "sound s"
  then have "sound (s\<lparr>ma_hidden := hidden\<rparr>)" by (simp add: sound_def)
  moreover have "sound (s\<lparr>ma_hidden := hidden, ma_phase := Verify\<rparr>)" if "\<not> ma_invalid s"
    using s that by (simp add: sound_def)
  ultimately show ?thesis by (auto simp: Visibility visibility_def Let_def)
next
  case Leave
  assume "sound s"
  then show ?thesis by (auto simp: Leave mini_unmount_def sound_def clearAuth_mini)
qed (auto simp: sound_identity_answered sound_auth_answered, simp_all add: sound_def)

lemma sound_reach: "mini_reach s \<Longrightarrow> sound s"
proof (induction rule: mini_reach.induct)
  case (start c initData hidden)
  then have c: "quarantined c" by (simp add: quarantined_def)
  obtain r d where r: "authenticateTelegramMiniApp initData c = (r, d)" by fastforce
  have "quarantined d" using confined_auth [of initData] c r unfolding confined_def confined_step_def by (metis snd_conv)
  moreover have "ap_session d = None" "ap_events d = []"
    using r start by (auto simp: authenticateTelegramMiniApp_def send_def split: if_splits)
  ultimately show ?case using start c
    by (auto simp: mini_mount_def r Let_def split: sum.split intro!: sound_give_up) (auto simp: sound_def)
qed (rule sound_react)

text \<open>Only a confirmed identity makes the phase \<open>Ready\<close>.\<close>

lemma not_ready:
  assumes "ma_phase s \<noteq> Ready"
  shows "ma_phase (expire s) \<noteq> Ready" "ma_phase (deliver c s) \<noteq> Ready" "ma_phase (conclude s) \<noteq> Ready"
    "ma_phase (verify_failed s) \<noteq> Ready" "ma_phase (give_up s) \<noteq> Ready" "ma_phase (verify s) \<noteq> Ready"
proof -
  show ex: "ma_phase (expire s) \<noteq> Ready" using assms by (simp add: expire_def Let_def)
  have dl: "ma_phase t \<noteq> Ready \<Longrightarrow> ma_phase (deliver c t) \<noteq> Ready" for c t
    by (simp add: deliver_def expire_def Let_def)
  have co: "ma_phase t \<noteq> Ready \<Longrightarrow> ma_phase (conclude t) \<noteq> Ready" for t by (simp add: conclude_def Let_def)
  have vf: "ma_phase t \<noteq> Ready \<Longrightarrow> ma_phase (verify_failed t) \<noteq> Ready" for t by (simp add: verify_failed_def co)
  show "ma_phase (deliver c s) \<noteq> Ready" "ma_phase (conclude s) \<noteq> Ready" "ma_phase (verify_failed s) \<noteq> Ready"
    using assms by (simp_all add: dl co vf)
  show "ma_phase (give_up s) \<noteq> Ready" using assms by (simp add: give_up_def expire_def Let_def)
  show "ma_phase (verify s) \<noteq> Ready" using assms by (auto simp: verify_def co vf dl split: sum.split prod.split)
qed

lemma deliver_auth: "ma_auth (deliver c s) = Some ses \<Longrightarrow> ma_auth s = Some ses"
  by (auto simp: deliver_def expire_def Let_def split: if_splits)

lemma confirmed_ready:
  assumes "ma_phase (confirmed user s) = Ready" and "ma_phase s \<noteq> Ready"
  shows "\<exists>ses. ma_auth s = Some ses \<and> mi_id user = mi_id (ms_user ses) \<and>
    ap_session (ma_client (confirmed user s)) = Some (ses\<lparr>ms_user := user\<rparr>)"
proof -
  obtain ses where ses: "ma_auth s = Some ses"
    using assms not_ready(3) by (auto simp: confirmed_def split: option.splits)
  let ?v = "session_value (ses\<lparr>ms_user := user\<rparr>)"
  obtain r d where r: "setTelegramMiniSession ?v (ma_client s) = (r, d)" by fastforce
  have "ma_live s" "\<not> ma_invalid s" "mi_id user = mi_id (ms_user ses)" and "\<exists>u. r = Inr u"
    using assms not_ready(2-4) by (auto simp: confirmed_def ses r Let_def split: if_splits sum.splits)
  then show ?thesis using session_kept [of "ses\<lparr>ms_user := user\<rparr>" "ma_client s"] r
    by (auto simp: confirmed_def ses Let_def conclude_def)
qed

lemma identity_answer_ok:
  "identity_answer r c = (Inr user, d) \<Longrightarrow>
     \<exists>v. rs_ok r \<and> response_value False r = Inr v \<and> telegramMiniIdentity (jprop v (js ''data'')) = Inr user"
  using response_value_ok [of r]
  by (auto simp: identity_answer_def andthen_def parseResponse_def lift_result_def Let_def split: sum.splits)

lemma only_confirmed:
  assumes "ma_phase s \<noteq> Ready" and "ma_phase (mini_react e s) = Ready"
  obtains r user c where "e = IdentityAnswer (Some r)" "identity_answer r (ma_client s) = (Inr user, c)"
    "mini_react e s = confirmed user (deliver c s)"
proof (cases e)
  case (IdentityAnswer answer)
  then show ?thesis using assms not_ready that
    by (auto simp: identity_answered_def split: option.splits sum.splits prod.splits if_splits)
next
  case (AuthAnswer answer)
  have "ma_phase (auth_answered answer s) \<noteq> Ready"
    using assms(1) not_ready(2) [OF assms(1)]
    by (auto simp: auth_answered_def Let_def not_ready split: option.split sum.split prod.split)
  then show ?thesis using assms(2) AuthAnswer by simp
qed (use assms not_ready in \<open>auto simp: visibility_def mini_unmount_def Let_def split: if_splits\<close>)

text \<open>C11: the workspace of the mini app opens only on a fresh confirmation: the phase becomes \<open>Ready\<close> only by an
  answer of the server that succeeded and names a valid identity with the number that signed in, and the session
  of the client then carries exactly that identity; and as long as it is \<open>Ready\<close> the session has not been lost.\<close>
theorem mini_ready:
  assumes "mini_reach s"
  shows "(ma_phase s \<noteq> Ready \<and> ma_phase (mini_react e s) = Ready \<longrightarrow>
      (\<exists>r v user ses. e = IdentityAnswer (Some r) \<and> rs_ok r \<and> response_value False r = Inr v \<and>
         telegramMiniIdentity (jprop v (js ''data'')) = Inr user \<and>
         ma_auth s = Some ses \<and> mi_id user = mi_id (ms_user ses) \<and>
         ap_session (ma_client (mini_react e s)) = Some (ses\<lparr>ms_user := user\<rparr>))) \<and>
    (ma_live s \<and> ma_phase s = Ready \<longrightarrow>
      \<not> ma_invalid s \<and> ma_auth s \<noteq> None \<and> ap_session (ma_client s) = ma_auth s)"
proof (intro conjI impI)
  assume "ma_phase s \<noteq> Ready \<and> ma_phase (mini_react e s) = Ready"
  then obtain r user c where e: "e = IdentityAnswer (Some r)" and r: "identity_answer r (ma_client s) = (Inr user, c)"
    and next_state: "mini_react e s = confirmed user (deliver c s)" and quiet: "ma_phase (deliver c s) \<noteq> Ready"
    and ready: "ma_phase (confirmed user (deliver c s)) = Ready"
    using only_confirmed not_ready(2) by metis
  obtain ses where "ma_auth (deliver c s) = Some ses" "mi_id user = mi_id (ms_user ses)"
    "ap_session (ma_client (confirmed user (deliver c s))) = Some (ses\<lparr>ms_user := user\<rparr>)"
    using confirmed_ready [OF ready quiet] by blast
  then show "\<exists>r v user ses. e = IdentityAnswer (Some r) \<and> rs_ok r \<and> response_value False r = Inr v \<and>
      telegramMiniIdentity (jprop v (js ''data'')) = Inr user \<and> ma_auth s = Some ses \<and> mi_id user = mi_id (ms_user ses) \<and>
      ap_session (ma_client (mini_react e s)) = Some (ses\<lparr>ms_user := user\<rparr>)"
    unfolding next_state using e identity_answer_ok [OF r] deliver_auth [of c s ses] by blast
qed (use sound_reach [OF assms] in \<open>auto simp: sound_def\<close>)

text \<open>A sign-in with its first check; \<open>~\<close> stands for the quote.\<close>

definition json_text :: "string \<Rightarrow> jstr" where
  "json_text s = map (\<lambda>c. if c = 126 then 34 else c) (js s)"

definition answer_of :: "int \<Rightarrow> string \<Rightarrow> response" where
  "answer_of status text = \<lparr>rs_status = status, rs_text = json_text text, rs_status_text = []\<rparr>"

definition example_login :: response where
  "example_login = answer_of 200
     ''{~data~:{~token~:~t~,~expires_at~:9,~user~:{~id~:3,~email~:~e~,~is_admin~:0,~is_staff~:1}}}''"

definition example_check :: response where
  "example_check = answer_of 200 ''{~data~:{~id~:3,~email~:~e~,~is_admin~:1,~is_staff~:1}}''"

definition mini_client :: api where
  "mini_client = activateTelegramMiniApp (loaded JUndef [] (num 0) example_storage)"

definition signed_in :: mini_app where
  "signed_in = mini_react (AuthAnswer (Some example_login)) (mini_mount (js ''proof'') False mini_client)"

lemma signed_in_reach: "mini_reach signed_in"
  unfolding signed_in_def
  by (intro mini_reach.intros) (simp_all add: mini_client_def activateTelegramMiniApp_def loaded_def)

lemma signed_in_waits: "ma_phase signed_in = Loading" "ma_verifying signed_in"
  by code_simp+

lemma mini_ready_witness:
  "ma_phase signed_in \<noteq> Ready \<and> ma_phase (mini_react (IdentityAnswer (Some example_check)) signed_in) = Ready \<and>
   (\<exists>ses user. ma_auth signed_in = Some ses \<and> mi_id user = mi_id (ms_user ses) \<and>
      ap_session (ma_client (mini_react (IdentityAnswer (Some example_check)) signed_in)) = Some (ses\<lparr>ms_user := user\<rparr>))"
proof -
  have "ma_phase (mini_react (IdentityAnswer (Some example_check)) signed_in) = Ready" by code_simp
  then show ?thesis
    using mini_ready [OF signed_in_reach, of "IdentityAnswer (Some example_check)"] signed_in_waits by auto
qed

definition run_mini :: "mini_event list \<Rightarrow> mini_app \<Rightarrow> mini_app" where
  "run_mini es s = fold mini_react es s"

definition over :: "request list \<Rightarrow> mini_app \<Rightarrow> bool" where
  "over sent s \<longleftrightarrow> sound s \<and> ma_invalid s \<and> ma_phase s = Invalid \<and> ap_sent (ma_client s) = sent"

lemma over_deliver: "over sent s \<Longrightarrow> calm (ma_client s) c \<Longrightarrow> over sent (deliver c s)"
  using sound_deliver [of s c]
  by (auto simp: over_def deliver_def expire_def Let_def calm_def sound_def clearAuth_mini)

lemma over_simps:
  assumes "over sent s"
  shows "over sent (conclude s)" "over sent (verify_failed s)" "over sent (verify s)" "over sent (give_up s)"
    "over sent (confirmed user s)"
proof -
  show "over sent (conclude s)" using assms sound_conclude [of s] by (auto simp: over_def conclude_def Let_def)
  then show "over sent (verify_failed s)" "over sent (verify s)" "over sent (confirmed user s)"
    using assms by (auto simp: over_def verify_failed_def verify_def confirmed_def split: option.split)
  show "over sent (give_up s)" using assms sound_give_up [of s] by (auto simp: over_def give_up_def Let_def)
qed

lemma over_react: "over sent s \<Longrightarrow> over sent (mini_react e s)"
proof (cases e)
  case (AuthAnswer answer)
  assume s: "over sent s"
  have "over sent (auth_answered answer s)"
  proof (cases answer)
    case (Some r)
    obtain x d where x: "parseResponse False r (ma_client s) = (x, d)" by fastforce
    have "calm (ma_client s) d"
      using obedient_basic(5) [of False r] s x unfolding obedient_def sound_def over_def by (metis snd_conv)
    then have s': "over sent (deliver d s)" using over_deliver [OF s] by blast
    moreover have "over sent ((deliver d s)\<lparr>ma_starting := Started\<rparr>)" "ma_invalid (deliver d s)"
      using s' by (simp_all add: over_def sound_def)
    ultimately show ?thesis using s by (auto simp: auth_answered_def Some x over_simps Let_def split: sum.split)
  qed (auto simp: auth_answered_def over_simps s)
  then show ?thesis by (simp add: AuthAnswer)
next
  case (IdentityAnswer answer)
  assume s: "over sent s"
  have "over sent (identity_answered answer s)"
  proof (cases answer)
    case (Some r)
    obtain x d where x: "identity_answer r (ma_client s) = (x, d)" by fastforce
    have "calm (ma_client s) d"
      using obedient_identity_answer [of r] s x unfolding obedient_def sound_def over_def by (metis snd_conv)
    then have "over sent (deliver d s)" using over_deliver [OF s] by blast
    then show ?thesis using s by (auto simp: identity_answered_def Some x over_simps split: sum.split)
  qed (auto simp: identity_answered_def over_simps s)
  then show ?thesis by (simp add: IdentityAnswer)
next
  case ExpiryDue
  assume s: "over sent s"
  then have "calm (ma_client s) (invalidateTelegramMiniSession (ma_client s))"
    using calm_invalidate by (simp add: over_def sound_def)
  then show ?thesis using s over_deliver by (simp add: ExpiryDue)
next
  case (PageCall op)
  assume s: "over sent s"
  then have "page_operation op \<Longrightarrow> calm (ma_client s) (run_operation op (ma_client s))"
    using page_operation_calm by (simp add: over_def sound_def)
  then show ?thesis using s over_deliver by (simp add: PageCall)
next
  case (Visibility hidden)
  assume "over sent s"
  then show ?thesis by (simp add: Visibility visibility_def over_def sound_def)
next
  case (Time now)
  assume "over sent s"
  then show ?thesis by (simp add: Time over_def sound_def)
next
  case Leave
  assume "over sent s"
  then show ?thesis by (simp add: Leave mini_unmount_def over_def sound_def clearAuth_mini)
qed (simp_all add: over_simps)

lemma over_run: "over sent s \<Longrightarrow> over sent (run_mini es s)"
  unfolding run_mini_def by (induction es arbitrary: s) (simp_all add: over_react)

text \<open>C14: the end of the session is final: once the mini app has found its login expired or revoked, it stays in the
  phase \<open>Invalid\<close>, holds no session, and sends no request any more, neither to sign in again nor for a page, whatever
  happens and whichever answers still arrive.\<close>
theorem mini_over:
  assumes "mini_reach s" and "ma_live s" and "ma_invalid s"
  shows "ma_phase (run_mini es s) = Invalid \<and> ap_session (ma_client (run_mini es s)) = None \<and>
    ap_sent (ma_client (run_mini es s)) = ap_sent (ma_client s)"
proof -
  have "over (ap_sent (ma_client s)) s" using assms sound_reach [of s] by (simp add: over_def sound_def)
  then have "over (ap_sent (ma_client s)) (run_mini es s)" by (rule over_run)
  then show ?thesis by (simp add: over_def sound_def)
qed

lemma mini_over_witness:
  "let s = mini_react (IdentityAnswer (Some (answer_of 403 ''{}''))) signed_in;
       t = run_mini [IdentityAnswer (Some example_check), Retry, Visibility False, PageCall (Get (js ''/ai-ops/hosts'') [] False)] s
   in ma_phase t = Invalid \<and> ap_session (ma_client t) = None \<and> ap_sent (ma_client t) = ap_sent (ma_client s)"
proof -
  let ?s = "mini_react (IdentityAnswer (Some (answer_of 403 ''{}''))) signed_in"
  have "mini_reach ?s" by (rule mini_reach.step [OF signed_in_reach])
  moreover have "ma_live ?s" "ma_invalid ?s" by code_simp+
  ultimately show ?thesis unfolding Let_def by (rule mini_over)
qed

end
