(* ===== verification/MiniTheme.thy ===== *)
theory MiniTheme
  imports JsNumText JsValue
begin

text \<open>
  \<open>lib/telegramMiniTheme.ts\<close>: the colours the mini app takes over from Telegram and the sizes of its window.
  Telegram's parameters are values of any shape.
\<close>

section \<open>Colours\<close>

definition hex_unit :: "int \<Rightarrow> bool" where
  "hex_unit c \<longleftrightarrow> is_digit c \<or> (97 \<le> lower_unit c \<and> lower_unit c \<le> 102)"

definition color_text :: "jstr \<Rightarrow> bool" where
  "color_text s \<longleftrightarrow> (case s of [] \<Rightarrow> False | c # h \<Rightarrow> c = 35 \<and> length h \<in> {3, 6} \<and> list_all hex_unit h)"

definition color :: "jsv \<Rightarrow> jstr \<Rightarrow> jstr" where
  "color value fallback =
     (case value of
        JStr s \<Rightarrow>
          if \<not> color_text s then fallback
          else let hex = lower (drop 1 s)
               in 35 # (if length hex = 3 then concat (map (\<lambda>part. [part, part]) hex) else hex)
      | _ \<Rightarrow> fallback)"

type_synonym palette = "(jstr \<times> jstr) list"

record mini_theme =
  th_dark :: bool
  th_colors :: palette
  th_variables :: palette
  th_tokens :: palette

definition theme_color :: "jsv \<Rightarrow> string \<Rightarrow> jstr \<Rightarrow> jstr" where
  "theme_color params name fallback = color (jprop params (js name)) fallback"

definition theme_colors :: "bool \<Rightarrow> jsv \<Rightarrow> palette" where
  "theme_colors dark params =
     (let pick = (\<lambda>name d l. theme_color params name (js (if dark then d else l)));
          bg = pick ''bg_color'' ''#212121'' ''#ffffff'';
          text = pick ''text_color'' ''#f5f5f5'' ''#111111'';
          hint = pick ''hint_color'' ''#aaaaaa'' ''#707579'';
          button = pick ''button_color'' ''#8774e1'' ''#3390ec'';
          link = theme_color params ''link_color'' button
      in map (\<lambda>(k, v). (js k, v))
        [(''bg_color'', bg),
         (''secondary_bg_color'', pick ''secondary_bg_color'' ''#181818'' ''#f1f3f5''),
         (''section_bg_color'', theme_color params ''section_bg_color'' bg),
         (''header_bg_color'', theme_color params ''header_bg_color'' bg),
         (''bottom_bar_bg_color'', theme_color params ''bottom_bar_bg_color'' bg),
         (''text_color'', text),
         (''hint_color'', hint),
         (''subtitle_text_color'', theme_color params ''subtitle_text_color'' hint),
         (''link_color'', link),
         (''button_color'', button),
         (''button_text_color'', theme_color params ''button_text_color'' (js ''#ffffff'')),
         (''accent_text_color'', theme_color params ''accent_text_color'' link),
         (''section_header_text_color'', theme_color params ''section_header_text_color'' link),
         (''section_separator_color'', pick ''section_separator_color'' ''#353535'' ''#e7e9eb''),
         (''destructive_text_color'', pick ''destructive_text_color'' ''#ff6666'' ''#d94b4b'')])"

definition variable_name :: "jstr \<Rightarrow> jstr" where
  "variable_name name = js ''--tg-theme-'' @ map (\<lambda>c. if c = 95 then 45 else c) name"

definition token_sources :: "(string \<times> string) list" where
  "token_sources =
     [(''colorPrimary'', ''button_color''), (''colorLink'', ''link_color''), (''colorText'', ''text_color''),
      (''colorTextSecondary'', ''hint_color''), (''colorBgBase'', ''bg_color''),
      (''colorBgLayout'', ''secondary_bg_color''), (''colorBgContainer'', ''section_bg_color''),
      (''colorBgElevated'', ''section_bg_color''), (''colorBorder'', ''section_separator_color''),
      (''colorBorderSecondary'', ''section_separator_color''), (''colorError'', ''destructive_text_color''),
      (''colorTextLightSolid'', ''button_text_color'')]"

definition telegramMiniTheme :: "jsv \<Rightarrow> jsv \<Rightarrow> mini_theme" where
  "telegramMiniTheme scheme params =
     (let dark = strict_eq scheme (JStr (js ''dark'')); colors = theme_colors dark params
      in \<lparr>th_dark = dark, th_colors = colors,
          th_variables = map (\<lambda>(name, value). (variable_name name, value)) colors,
          th_tokens = map (\<lambda>(t, name). (js t, the (map_of colors (js name)))) token_sources\<rparr>)"

section \<open>Sizes\<close>

definition miniSafeInset :: "jsv \<Rightarrow> jnum" where
  "miniSafeInset value =
     (let number = to_num value in if is_finite number then num_min (num 200) (num_max (num 0) number) else num 0)"

definition miniViewportHeight :: "jsv \<Rightarrow> jnum \<Rightarrow> jnum" where
  "miniViewportHeight sdkHeight visualHeight =
     (let height = to_num sdkHeight
      in if is_finite height \<and> num_lt (num 0) height then num_min height visualHeight else visualHeight)"

section \<open>Every colour is one\<close>

text \<open>Six lower-case hexadecimal digits after \<open>#\<close>.\<close>

definition opaque_rgb :: "jstr \<Rightarrow> bool" where
  "opaque_rgb s \<longleftrightarrow> length s = 7 \<and> hd s = 35 \<and> list_all (\<lambda>c. is_digit c \<or> (97 \<le> c \<and> c \<le> 102)) (tl s)"

lemma hex_unit_lower:
  assumes "hex_unit c"
  shows "is_digit (lower_unit c) \<or> (97 \<le> lower_unit c \<and> lower_unit c \<le> 102)"
proof -
  have "is_digit c \<Longrightarrow> lower_unit c = c" by (simp add: lower_unit_def is_digit_def)
  then show ?thesis using assms by (auto simp: hex_unit_def)
qed

lemma color_opaque:
  assumes "opaque_rgb fallback"
  shows "opaque_rgb (color v fallback)"
proof -
  have short: "opaque_rgb (35 # concat (map (\<lambda>p. [p, p]) (lower h)))" if h: "length h = 3" "list_all hex_unit h" for h
  proof -
    obtain a b c where "h = [a, b, c]" using h(1) by (auto simp: length_Suc_conv numeral_3_eq_3)
    then show ?thesis using h(2) by (simp add: opaque_rgb_def lower_def hex_unit_lower)
  qed
  have long: "opaque_rgb (35 # lower h)" if "length h = 6" "list_all hex_unit h" for h
    using that by (auto simp: opaque_rgb_def lower_def list_all_iff hex_unit_lower)
  show ?thesis
  proof (cases "\<exists>h. v = JStr (35 # h) \<and> length h \<in> {3, 6} \<and> list_all hex_unit h")
    case True
    then show ?thesis using short long by (auto simp: color_def color_text_def lower_def Let_def)
  qed (use assms in \<open>auto simp: color_def color_text_def split: jsv.split list.split\<close>)
qed

lemma literal_opaque:
  "list_all (\<lambda>s. opaque_rgb (js s))
     [''#212121'', ''#ffffff'', ''#f5f5f5'', ''#111111'', ''#aaaaaa'', ''#707579'', ''#8774e1'', ''#3390ec'', ''#181818'',
      ''#f1f3f5'', ''#353535'', ''#e7e9eb'', ''#ff6666'', ''#d94b4b'']"
  by code_simp

lemma theme_color_opaque [intro]: "opaque_rgb fallback \<Longrightarrow> opaque_rgb (theme_color params name fallback)"
  by (simp add: theme_color_def color_opaque)

lemma theme_colors_opaque: "list_all (\<lambda>(name, value). opaque_rgb value) (theme_colors dark params)"
  using literal_opaque by (cases dark) (simp_all add: theme_colors_def theme_color_opaque Let_def)

lemma theme_color_names:
  "map fst (theme_colors dark params) = map fst (theme_colors True JUndef)"
  by (simp add: theme_colors_def Let_def)

lemma token_names: "\<forall>(t, name) \<in> set token_sources. js name \<in> set (map fst (theme_colors True JUndef))"
  by code_simp

text \<open>The theme is well typed: whatever Telegram sends for its parameters, every colour the mini app writes into
  the page, as a variable or as a token of its components, is a hash sign with six lower-case hexadecimal digits.\<close>
theorem theme_is_typed:
  "list_all (\<lambda>(name, value). opaque_rgb value) (th_colors (telegramMiniTheme scheme params)) \<and>
   list_all (\<lambda>(name, value). opaque_rgb value) (th_variables (telegramMiniTheme scheme params)) \<and>
   list_all (\<lambda>(name, value). opaque_rgb value) (th_tokens (telegramMiniTheme scheme params))"
proof -
  let ?dark = "strict_eq scheme (JStr (js ''dark''))"
  let ?c = "theme_colors ?dark params"
  have ok: "list_all (\<lambda>(name, value). opaque_rgb value) ?c" by (rule theme_colors_opaque)
  have "opaque_rgb (the (map_of ?c (js name)))" if "(t, name) \<in> set token_sources" for t name
  proof -
    have "js name \<in> set (map fst ?c)" using token_names that unfolding theme_color_names [of ?dark params] by blast
    then obtain v where "map_of ?c (js name) = Some v" by (metis list.set_map map_of_eq_None_iff not_None_eq)
    then show ?thesis using ok by (auto simp: list_all_iff dest: map_of_SomeD)
  qed
  then show ?thesis
    using ok unfolding telegramMiniTheme_def Let_def by (auto simp: list_all_iff)
qed

lemma inset_bounds: "num_le (num 0) (miniSafeInset v) \<and> num_le (miniSafeInset v) (num 200)"
  by (auto simp: miniSafeInset_def Let_def num_min_def num_max_def num_def is_finite_def num_le_def split: jnum.splits)

lemma viewport_bound: "visual \<noteq> NaN \<Longrightarrow> num_le (miniViewportHeight v visual) visual"
  by (cases visual) (auto simp: miniViewportHeight_def Let_def num_min_def is_finite_def num_le_def split: jnum.splits)

end
