(* ===== verification/ApiFormat.thy ===== *)
theory ApiFormat
  imports JsRound JsJson "HOL-Library.While_Combinator"
begin

text \<open>
  The helpers at the end of \<open>lib/api.ts\<close>: reading the envelope of an answer, and amounts of money and of data as
  text. How a date is printed belongs to the browser.
\<close>

section \<open>Envelopes\<close>

definition unwrapList :: "jsv \<Rightarrow> jsv list" where
  "unwrapList payload =
     (let data = jprop payload (js ''data'')
      in if is_array data then elems data
         else if is_array (jprop data (js ''data'')) then elems (jprop data (js ''data''))
         else if is_array (jprop data (js ''list'')) then elems (jprop data (js ''list''))
         else if is_array (jprop data (js ''items'')) then elems (jprop data (js ''items''))
         else [])"

definition unwrapTotal :: "jsv \<Rightarrow> jsv list \<Rightarrow> jnum" where
  "unwrapTotal payload rows =
     (let data = jprop payload (js ''data'')
      in num_or (to_num (coalesce (jprop payload (js ''total'')) (coalesce (jprop data (js ''total''))
        (coalesce (jprop data (js ''total_count'')) (JNum (num (int (length rows)))))))) (num 0))"

definition unwrapData :: "jsv \<Rightarrow> jsv" where
  "unwrapData payload = coalesce (jprop payload (js ''data'')) payload"

section \<open>Amounts\<close>

definition amount :: "jsv \<Rightarrow> jnum" where
  "amount v = to_num (jor v (JNum (num 0)))"

definition dash :: jstr where
  "dash = js ''-''"

definition money :: "jsv \<Rightarrow> jstr" where
  "money cents = (let n = amount cents in if is_finite n then 165 # to_fixed 2 (num_div n (num 100)) else dash)"

definition units :: "jstr list" where
  "units = map js [''B'', ''KB'', ''MB'', ''GB'', ''TB'', ''PB'']"

text \<open>The loop of \<open>bytes\<close>; \<open>None\<close> would be a loop that does not end.\<close>

definition bytes_loop :: "jnum \<Rightarrow> (jnum \<times> nat) option" where
  "bytes_loop n = while_option (\<lambda>(x, i). num_le (num 1024) x \<and> i < length units - 1)
     (\<lambda>(x, i). (num_div x (num 1024), i + 1)) (n, 0)"

definition bytes :: "jsv \<Rightarrow> jstr" where
  "bytes value =
     (let n = amount value
      in if \<not> is_finite n then dash
         else (case bytes_loop n of
             Some (x, i) \<Rightarrow> to_fixed (if i = 0 then 0 else 2) x @ [32] @ units ! i
           | None \<Rightarrow> []))"

definition times1024 :: "jnum \<Rightarrow> jnum" where
  "times1024 x = num_mul x (num 1024)"

definition over1024 :: "jnum \<Rightarrow> jnum" where
  "over1024 x = num_div x (num 1024)"

definition gbToBytes :: "jsv \<Rightarrow> jsv" where
  "gbToBytes value =
     (let n = amount value
      in if is_finite n then JNum (num_round (times1024 (times1024 (times1024 n)))) else value)"

definition bytesToGBText :: "jsv \<Rightarrow> jstr" where
  "bytesToGBText value =
     (let n = amount value in if is_finite n then to_fixed 2 (over1024 (over1024 (over1024 n))) else dash)"

definition bytesToGB :: "jsv \<Rightarrow> jnum" where
  "bytesToGB value =
     (let n = amount value
      in if is_finite n then str_num (to_fixed 2 (over1024 (over1024 (over1024 n)))) else num 0)"

definition unixTime :: "(jnum \<Rightarrow> jstr) \<Rightarrow> jsv \<Rightarrow> jstr" where
  "unixTime local_time value =
     (let n = amount value in if num_truthy n then local_time (num_mul n (num 1000)) else dash)"

section \<open>Loose values\<close>

definition api_truthy :: "jsv \<Rightarrow> bool" where
  "api_truthy v \<longleftrightarrow> v = JBool True \<or> v = JNum (num 1) \<or> v = JStr (js ''1'') \<or> v = JStr (js ''true'')"

definition boolNumber :: "jsv \<Rightarrow> jnum" where
  "boolNumber v = num (if api_truthy v then 1 else 0)"

definition safeJsonParse :: "jsv \<Rightarrow> jsv option \<Rightarrow> jsv" where
  "safeJsonParse value fallback =
     (let other = (case fallback of None \<Rightarrow> value | Some f \<Rightarrow> f)
      in case value of
           JStr s \<Rightarrow>
             let trimmed = trim s
             in if trimmed = [] \<or> \<not> (starts_with trimmed (js ''{'') \<or> starts_with trimmed (js ''['')) then other
                else (case json_parse trimmed of Some v \<Rightarrow> v | None \<Rightarrow> other)
         | _ \<Rightarrow> value)"

definition compactObject :: "jobj \<Rightarrow> jobj" where
  "compactObject value = filter (\<lambda>(k, v). \<not> (v = JUndef \<or> v = JStr [])) value"

section \<open>Sizes\<close>

lemma rnd_dyadic:
  assumes "0 < k" and "k < 2 ^ 53" and "j \<le> 1000"
  shows "rnd (of_int k / 2 ^ j) = Fin (of_int k / 2 ^ j)"
proof -
  let ?q = "of_int k / 2 ^ j :: rat"
  define s where "s = max (exp2 \<bar>?q\<bar> - 52) (- 1074)"
  have pos: "0 < ?q" using assms(1) by simp
  have small: "(of_int k :: rat) < of_int (2 ^ 53)" using assms(2) by (rule of_int_less_iff [THEN iffD2])
  have "?q < 2 ^ 53 / 2 ^ j" using small by (simp add: divide_strict_right_mono)
  also have "2 ^ 53 / 2 ^ j = pow2 (53 - int j)"
    using pow2_add [of "53 - int j" "int j"] pow2_of_nat [of 53] by (simp add: pow2_of_nat field_simps)
  finally have "?q < pow2 (52 - int j + 1)" by simp
  then have "exp2 ?q \<le> 52 - int j" using pos by (rule exp2_le [rotated])
  then have s: "s \<le> - int j" using pos assms(3) by (simp only: s_def abs_of_pos)
  define d where "d = nat (- int j - s)"
  have "pow2 s * 2 ^ d = pow2 (- int j)"
    using s pow2_add [of s "int d"] by (simp add: d_def pow2_of_nat [symmetric])
  also have "\<dots> = 1 / 2 ^ j" using pow2_add [of "- int j" "int j"] by (simp add: pow2_of_nat pow2_def field_simps)
  finally have d: "pow2 s = 1 / 2 ^ j / 2 ^ d" by (simp add: field_simps)
  have "?q / pow2 s = of_int (k * 2 ^ d)" unfolding d by simp
  then have v: "of_int (round_even (\<bar>?q\<bar> / pow2 s)) * pow2 s = ?q"
    using pos by (simp only: abs_of_pos round_even_of_int) (simp add: d)
  have "?q \<le> of_int k" using assms(1) by (simp add: divide_le_eq)
  also have "\<dots> < pow2 53" using small pow2_of_nat [of 53] by simp
  also have "\<dots> \<le> pow2 1024" by (rule pow2_mono) simp
  finally have "\<not> pow2 1024 \<le> ?q" by simp
  moreover have "rnd ?q =
      (let v = of_int (round_even (\<bar>?q\<bar> / pow2 s)) * pow2 s
       in if ?q = 0 then Fin 0 else if pow2 1024 \<le> v then (if 0 < ?q then PosInf else NegInf) else Fin (sgn ?q * v))"
    unfolding rnd_def s_def Let_def by (rule refl)
  moreover have "?q \<noteq> 0" "sgn ?q = 1" using pos by (simp_all only: sgn_pos)
  ultimately show ?thesis by (simp only: v Let_def if_False mult_1)
qed

text \<open>Dividing by 1024 a number of at most \<open>2 ^ 53\<close> bytes is exact.\<close>

lemma over1024_dyadic:
  assumes "0 < k" and "k < 2 ^ 53" and "i < 100"
  shows "num_div (Fin (of_int k / 1024 ^ i)) (num 1024) = Fin (of_int k / 1024 ^ Suc i)"
proof -
  have p: "(1024 :: rat) ^ n = 2 ^ (10 * n)" for n by (simp add: power_mult)
  have "of_int k / 1024 ^ i / 1024 = (of_int k / 2 ^ (10 * Suc i) :: rat)"
    unfolding p [of "Suc i", symmetric] by simp
  then show ?thesis
    using rnd_dyadic [of k "10 * Suc i"] assms unfolding p [of "Suc i"] by (simp add: num_div_def num_def)
qed

lemma bytes_step:
  assumes "while_option b c s = Some t" and "P s" and "\<And>s. P s \<Longrightarrow> b s \<Longrightarrow> P (c s)"
  shows "P t \<and> \<not> b t"
  using while_option_rule [of P b c s t] while_option_stop [OF assms(1)] assms by blast

text \<open>C33: the loop behind the sizes on the pages ends: whatever number it is given it returns after at most five
  divisions, with a value below 1024 or with the largest unit, and for a count of bytes the value is exact and the
  unit is the largest one that does not exceed the count.\<close>
theorem bytes_loop_ends:
  "(\<exists>x i. bytes_loop n = Some (x, i) \<and> i \<le> 5 \<and> (i = 5 \<or> \<not> num_le (num 1024) x)) \<and>
   (0 < k \<and> k < 2 ^ 53 \<longrightarrow>
      (\<exists>i. bytes_loop (num k) = Some (Fin (of_int k / 1024 ^ i), i) \<and> (i = 5 \<or> k < 1024 ^ Suc i) \<and> (i = 0 \<or> 1024 ^ i \<le> k)))"
  (is "?ends n \<and> _")
proof -
  let ?b = "\<lambda>(x, i). num_le (num 1024) x \<and> i < length units - 1"
  let ?c = "\<lambda>(x, i). (num_div x (num 1024), i + 1)"
  have five: "length units - 1 = 5" by (simp add: units_def)
  have ends: "?ends m" for m
  proof -
    have "\<exists>t. while_option ?b ?c (m, 0) = Some t"
      by (rule measure_while_option_Some [where P = "\<lambda>_. True" and f = "\<lambda>(x, i). 5 - i"]) (auto simp: units_def)
    then obtain x i where t: "while_option ?b ?c (m, 0) = Some (x, i)" by force
    have "(\<lambda>(x, i). i \<le> 5) (x, i) \<and> \<not> ?b (x, i)"
      by (rule bytes_step [OF t]) (auto simp: units_def)
    then show ?thesis using t by (auto simp: bytes_loop_def units_def)
  qed
  have "\<exists>i. bytes_loop (num k) = Some (Fin (of_int k / 1024 ^ i), i) \<and> (i = 5 \<or> k < 1024 ^ Suc i) \<and> (i = 0 \<or> 1024 ^ i \<le> k)"
    if k: "0 < k" "k < 2 ^ 53"
  proof -
    obtain x i where t: "while_option ?b ?c (num k, 0) = Some (x, i)" and i: "i \<le> 5" "i = 5 \<or> \<not> num_le (num 1024) x"
      using ends [of "num k"] by (auto simp: bytes_loop_def)
    let ?P = "\<lambda>(x, i). i \<le> 5 \<and> x = Fin (of_int k / 1024 ^ i) \<and> (i = 0 \<or> 1024 ^ i \<le> k)"
    have "?P (x, i) \<and> \<not> ?b (x, i)"
    proof (rule bytes_step [OF t])
      fix s assume "?P s" and "?b s"
      then obtain j where s: "s = (Fin (of_int k / 1024 ^ j), j)" and j: "j < 5" and "1024 \<le> (of_int k :: rat) / 1024 ^ j"
        by (auto simp: units_def num_le_def num_def)
      then have "of_int (1024 ^ Suc j) \<le> (of_int k :: rat)" by (simp add: field_simps)
      then have "1024 ^ Suc j \<le> k" by (rule of_int_le_iff [THEN iffD1])
      then show "?P (?c s)" using over1024_dyadic [of k j] k j by (simp add: s)
    qed (simp add: num_def)
    moreover have "k < 1024 ^ Suc i" if "\<not> num_le (num 1024) (Fin (of_int k / 1024 ^ i))"
    proof -
      have "(of_int k :: rat) / 1024 ^ i < 1024" using that by (auto simp: num_le_def num_def)
      then have "(of_int k :: rat) < of_int (1024 ^ Suc i)" by (simp add: field_simps)
      then show ?thesis by (rule of_int_less_iff [THEN iffD1])
    qed
    ultimately show ?thesis using t i by (auto simp: bytes_loop_def)
  qed
  then show ?thesis using ends by blast
qed

lemma bytes_loop_ends_witness:
  "bytes_loop (num 1536) = Some (Fin (1536 / 1024), 1) \<and> bytes (JNum (num 1536)) = js ''1.50 KB''"
proof -
  obtain i where i: "bytes_loop (num 1536) = Some (Fin (of_int 1536 / 1024 ^ i), i)" "i = 5 \<or> 1536 < (1024 :: int) ^ Suc i"
    "i = 0 \<or> 1024 ^ i \<le> (1536 :: int)"
    using bytes_loop_ends [of "num 1536" 1536] by auto
  have "i = 1"
  proof (rule ccontr)
    assume "i \<noteq> 1"
    then consider "i = 0" | "2 \<le> i" by linarith
    then show False
    proof cases
      case 2
      then have "(1024 :: int) ^ 2 \<le> 1024 ^ i" by (intro power_increasing) simp_all
      then show False using i(3) 2 by simp
    qed (use i(2) in simp)
  qed
  then have loop: "bytes_loop (num 1536) = Some (Fin (1536 / 1024), 1)" using i(1) by simp
  moreover have "to_fixed 2 (Fin (1536 / 1024)) @ [32] @ units ! 1 = js ''1.50 KB''" by code_simp
  ultimately show ?thesis by (simp add: bytes_def amount_def jor_def truthy_def to_num_def)
qed

end
