(* ===== verification/EntryEvidence.thy ===== *)
theory EntryEvidence
  imports JsJson JsSet JsRound Texts
begin

text \<open>
  \<open>pages/entryEvidence.ts\<close>: the investigation of who was given which entry. Links and filters, the queries and
  payloads built from them, labels of results, and the tree of cases. What \<open>URLSearchParams\<close> reads from a query is a
  parameter, as is the printing of dates.
\<close>

section \<open>Targets\<close>

datatype evidence_kind = PolicyKind | SplitGroupKind

datatype evidence_error =
    BadTarget | NoTarget | BadRange | RangeTooLong | BadPort | NoEntry | TooLong
  | BadSelection | NoRevision | NoCandidates | NobodySelected | BadCase | SameEntries

definition kind_text :: "evidence_kind \<Rightarrow> jstr" where
  "kind_text k = (case k of PolicyKind \<Rightarrow> js ''policy'' | SplitGroupKind \<Rightarrow> js ''split_group'')"

definition target_text :: "evidence_kind \<Rightarrow> jnum \<Rightarrow> jstr" where
  "target_text k i = kind_text k @ [58] @ num_str i"

text \<open>\<open>[1-9]\d*\<close>.\<close>

definition positive_digits :: "jstr \<Rightarrow> bool" where
  "positive_digits s \<longleftrightarrow> s \<noteq> [] \<and> hd s \<noteq> 48 \<and> list_all is_digit s"

definition read_target :: "evidence_kind \<Rightarrow> jstr \<Rightarrow> (evidence_kind \<times> jnum) option" where
  "read_target k value =
     (let digits = drop (length (kind_text k) + 1) value
      in if starts_with value (kind_text k @ [58]) \<and> positive_digits digits \<and> is_safe (str_num digits)
         then Some (k, str_num digits) else None)"

definition evidenceTarget :: "jstr \<Rightarrow> evidence_error + (evidence_kind \<times> jnum) option" where
  "evidenceTarget value =
     (if value = [] then Inr None
      else (case read_target PolicyKind value of
          Some t \<Rightarrow> Inr (Some t)
        | None \<Rightarrow> (case read_target SplitGroupKind value of Some t \<Rightarrow> Inr (Some t) | None \<Rightarrow> Inl BadTarget)))"

record target_option =
  to_value :: jstr
  to_label :: jstr
  to_host :: jstr

text \<open>The value and the option of one row, if it is a row at all.\<close>

definition target_row :: "jsv \<Rightarrow> (jstr \<times> target_option) option" where
  "target_row row =
     (if \<not> is_objectlike row then None
      else
        let group = jprop row (js ''__split_group'');
            i = to_num (jor (jprop group (js ''id'')) (jprop row (js ''id'')));
            value = target_text (if truthy group then SplitGroupKind else PolicyKind) i;
            collection = jprop row (js ''__entry_collection'');
            name = to_str (jor (jprop group (js ''name'')) (jor (jprop row (js ''name'')) (JStr ([35] @ num_str i))))
        in if \<not> positive_id i then None
           else Some (value,
             \<lparr>to_value = value,
              to_label = (if truthy group then txt_fixed_subgroup else txt_plain_rule) @ txt_middle_dot @ name @
                [32, 35] @ num_str i @ (if num_eq (to_num (jprop row (js ''enabled''))) (num 0) then txt_disabled else []),
              to_host = to_str (jor (jprop collection (js ''entry_host''))
                (jor (jprop group (js ''entry_host'')) (jor (jprop row (js ''entry_host'')) (JStr []))))\<rparr>))"

definition evidenceTargetOptions :: "jsv list \<Rightarrow> target_option list" where
  "evidenceTargetOptions rows = map snd (keep_first (\<lambda>_. True) fst [] (List.map_filter target_row rows))"

section \<open>Filters\<close>

record evidence_filters =
  ev_target :: jstr
  ev_host :: jstr
  ev_port :: "jnum option"
  ev_from :: jnum
  ev_to :: jnum
  ev_ua :: jstr
  ev_account :: jstr

definition safe_positive :: "(jstr \<Rightarrow> jstr option) \<Rightarrow> string \<Rightarrow> jnum" where
  "safe_positive get name =
     (case get (js name) of
        None \<Rightarrow> num 0
      | Some raw \<Rightarrow> if positive_digits raw \<and> is_safe (str_num raw) then str_num raw else num 0)"

definition link_query :: "jstr \<Rightarrow> jstr \<Rightarrow> jstr" where
  "link_query search hash = (case split_on 63 hash of h # q # _ \<Rightarrow> if q = [] then search else q | _ \<Rightarrow> search)"

definition evidenceDeepLink :: "(jstr \<Rightarrow> jstr \<Rightarrow> jstr option) \<Rightarrow> jstr \<Rightarrow> jstr \<Rightarrow> jnum \<Rightarrow> evidence_filters" where
  "evidenceDeepLink search_params search hash now =
     (let get = search_params (link_query search hash);
          group = safe_positive get ''group_id''; policy = safe_positive get ''policy_id''
      in \<lparr>ev_target = (if num_truthy group then target_text SplitGroupKind group
            else if num_truthy policy then target_text PolicyKind policy else []),
          ev_host = (case get (js ''host'') of None \<Rightarrow> [] | Some h \<Rightarrow> h),
          ev_port = Some (num_or (safe_positive get ''port'') (num 54101)),
          ev_from = num_or (safe_positive get ''from'') (num_sub now (num 86400)),
          ev_to = num_or (safe_positive get ''to'') now, ev_ua = [], ev_account = []\<rparr>)"

definition bad_port :: "jnum \<Rightarrow> bool" where
  "bad_port p \<longleftrightarrow> \<not> is_integer p \<or> num_lt p (num 1) \<or> num_lt (num 65535) p"

definition evidenceFilterError :: "evidence_filters \<Rightarrow> bool \<Rightarrow> evidence_error option" where
  "evidenceFilterError f requireTarget =
     (case evidenceTarget (ev_target f) of
        Inl e \<Rightarrow> Some e
      | Inr target \<Rightarrow>
          if requireTarget \<and> target = None then Some NoTarget
          else if \<not> is_safe (ev_from f) \<or> \<not> is_safe (ev_to f) \<or> num_lt (ev_from f) (num 0) \<or> num_le (ev_to f) (ev_from f)
          then Some BadRange
          else if num_lt (num (31 * 86400)) (num_sub (ev_to f) (ev_from f)) then Some RangeTooLong
          else if ev_port f \<noteq> None \<and> bad_port (the (ev_port f)) then Some BadPort
          else if requireTarget \<and> (trim (ev_host f) = [] \<or> ev_port f = None) then Some NoEntry
          else if 255 < length (trim (ev_host f)) \<or> 512 < length (trim (ev_ua f)) \<or> 255 < length (trim (ev_account f))
          then Some TooLong
          else None)"

section \<open>Queries and payloads\<close>

definition target_fields :: "(evidence_kind \<times> jnum) option \<Rightarrow> jobj" where
  "target_fields t = (case t of
      None \<Rightarrow> [] | Some (k, i) \<Rightarrow> [(js ''kind'', JStr (kind_text k)), (js ''target_id'', JNum i)])"

definition text_field :: "string \<Rightarrow> jstr \<Rightarrow> jobj" where
  "text_field k v = (if trim v = [] then [] else [(js k, JStr (trim v))])"

text \<open>The fields of a query that say what is searched.\<close>

definition scope_fields :: "(evidence_kind \<times> jnum) option \<Rightarrow> evidence_filters \<Rightarrow> jobj" where
  "scope_fields t f =
     target_fields t @ [(js ''from'', JNum (ev_from f)), (js ''to'', JNum (ev_to f))] @ text_field ''host'' (ev_host f) @
     (case ev_port f of None \<Rightarrow> [] | Some p \<Rightarrow> [(js ''port'', JNum p)]) @
     text_field ''ua'' (ev_ua f) @ text_field ''account'' (ev_account f)"

definition evidence_page :: "jnum \<Rightarrow> jnum" where
  "evidence_page current = num_max (num 1) (num_or (num_floor current) (num 1))"

definition evidence_page_size :: "jnum \<Rightarrow> jnum" where
  "evidence_page_size n = num_min (num 100) (num_max (num 10) (num_or (num_floor n) (num 20)))"

definition evidenceQuery :: "evidence_filters \<Rightarrow> jnum \<Rightarrow> jnum \<Rightarrow> evidence_error + jobj" where
  "evidenceQuery f current pageSize =
     (case evidenceFilterError f False of
        Some e \<Rightarrow> Inl e
      | None \<Rightarrow> ebind (evidenceTarget (ev_target f)) (\<lambda>t. Inr (scope_fields t f @
          [(js ''current'', JNum (evidence_page current)), (js ''page_size'', JNum (evidence_page_size pageSize))])))"

definition evidenceFilterKey :: "evidence_filters \<Rightarrow> jstr" where
  "evidenceFilterKey f = json_str (JArr
     [JStr (ev_target f), JStr (trim (ev_host f)), (case ev_port f of None \<Rightarrow> JNull | Some p \<Rightarrow> JNum p), JNum (ev_from f),
      JNum (ev_to f), JStr (trim (ev_ua f)), JStr (trim (ev_account f))])"

definition evidenceSelectedIDs :: "jsv list \<Rightarrow> evidence_error + int list" where
  "evidenceSelectedIDs keys =
     (let ids = map to_num keys
      in if list_ex (\<lambda>i. \<not> positive_id i) ids then Inl BadSelection else Inr (sort (set_of (map int_of ids))))"

definition selected_field :: "jsv list option \<Rightarrow> evidence_error + jobj" where
  "selected_field selected =
     (case selected of
        None \<Rightarrow> Inr []
      | Some keys \<Rightarrow> ebind (evidenceSelectedIDs keys) (\<lambda>ids.
          if length ids < 1 then Inl NobodySelected
          else Inr [(js ''selected_user_ids'', JArr (map (\<lambda>i. JNum (num i)) ids))]))"

definition evidenceFreezePayload ::
    "evidence_filters \<Rightarrow> jstr \<Rightarrow> jstr \<Rightarrow> jstr \<Rightarrow> jsv list option \<Rightarrow> evidence_error + jobj" where
  "evidenceFreezePayload f revision candidatesHash title selected =
     (case evidenceFilterError f True of
        Some e \<Rightarrow> Inl e
      | None \<Rightarrow>
          if revision = [] then Inl NoRevision
          else if candidatesHash = [] then Inl NoCandidates
          else ebind (selected_field selected) (\<lambda>chosen. ebind (evidenceTarget (ev_target f)) (\<lambda>t.
            Inr (scope_fields t f @ [(js ''revision'', JStr revision), (js ''expected_candidates_hash'', JStr candidatesHash),
              (js ''title'', JStr (trim title))] @ chosen))))"

definition evidenceSplitPayload :: "jnum \<Rightarrow> jnum \<Rightarrow> bool \<Rightarrow> jstr \<Rightarrow> jstr \<Rightarrow> evidence_error + jobj" where
  "evidenceSplitPayload i revision pool hostA hostB =
     (let a = trim hostA; b = trim hostB
      in if \<not> num_lt (num 0) i \<or> \<not> num_lt (num 0) revision then Inl BadCase
         else if \<not> pool \<and> (a = [] \<or> b = [] \<or> lower a = lower b) then Inl SameEntries
         else Inr ([(js ''case_id'', JNum i), (js ''revision'', JNum revision), (js ''use_backup_ip_pool'', JBool pool)] @
           (if pool then [] else [(js ''entry_host_a'', JStr a), (js ''entry_host_b'', JStr b)])))"

section \<open>Texts\<close>

definition evidenceTime :: "(jnum \<Rightarrow> jstr) \<Rightarrow> jnum option \<Rightarrow> jstr" where
  "evidenceTime local_time v =
     (case v of Some t \<Rightarrow> if num_lt (num 0) t then local_time (num_mul t (num 1000)) else txt_dash | None \<Rightarrow> txt_dash)"

text \<open>\<open>a % b\<close> for a finite \<open>a\<close> that is not negative.\<close>

definition num_rem :: "jnum \<Rightarrow> int \<Rightarrow> jnum" where
  "num_rem a b = num_map (\<lambda>q. q - of_int b * of_int \<lfloor>q / of_int b\<rfloor>) a"

definition whole :: "jnum \<Rightarrow> int \<Rightarrow> jstr" where
  "whole seconds unit = num_str (num_floor (num_div seconds (num unit)))"

definition evidenceDuration :: "jnum \<Rightarrow> jstr" where
  "evidenceDuration seconds =
     (if \<not> is_finite seconds \<or> num_lt seconds (num 0) then txt_dash
      else if num_lt seconds (num 60) then num_str (num_floor seconds) @ txt_seconds
      else if num_lt seconds (num 3600) then whole seconds 60 @ txt_minutes
      else if num_lt seconds (num 86400)
      then whole seconds 3600 @ txt_hours @ [32] @ whole (num_rem seconds 3600) 60 @ txt_minutes
      else whole seconds 86400 @ txt_days @ [32] @ whole (num_rem seconds 86400) 3600 @ txt_hours)"

definition evidenceResultLabel :: "jnum \<Rightarrow> bool \<Rightarrow> jstr \<Rightarrow> jstr" where
  "evidenceResultLabel status response_complete coverage =
     (if num_eq status (num 304) then txt_304
      else if num_lt status (num 200) \<or> num_le (num 300) status then js ''HTTP '' @ num_str status @ txt_not_delivery
      else if \<not> response_complete then txt_incomplete
      else if coverage = js ''partial'' then txt_partial
      else if coverage = js ''unavailable'' \<or> coverage = js ''not_emitted'' then txt_no_evidence
      else txt_written)"

section \<open>Bounds and read-back\<close>

lemma page_size_clamp:
  "num_le (num 10) (evidence_page_size n) \<and> num_le (evidence_page_size n) (num 100)"
  by (cases n)
    (auto simp: evidence_page_size_def num_max_def num_min_def num_or_def num_truthy_def num_floor_def num_map_def
      num_le_def num_def)

lemma page_clamp: "num_le (num 1) (evidence_page n)"
  by (cases n) (auto simp: evidence_page_def num_max_def num_or_def num_truthy_def num_floor_def num_map_def
      num_le_def num_def)

lemma good_port: "\<not> bad_port p \<Longrightarrow> \<exists>i. p = num i \<and> 1 \<le> i \<and> i \<le> 65535"
  by (auto simp: bad_port_def is_integer_def num_def num_lt.simps not_less split: jnum.splits)

lemma filter_passed:
  assumes "evidenceFilterError f r = None"
  shows "\<exists>a b. ev_from f = num a \<and> ev_to f = num b \<and> 0 \<le> a \<and> a < b \<and> b - a \<le> 31 * 86400"
    "ev_port f \<noteq> None \<Longrightarrow> \<not> bad_port (the (ev_port f))"
    "length (trim (ev_host f)) \<le> 255" "length (trim (ev_ua f)) \<le> 512" "length (trim (ev_account f)) \<le> 255"
proof -
  have ok: "is_safe (ev_from f)" "is_safe (ev_to f)" "\<not> num_lt (ev_from f) (num 0)" "\<not> num_le (ev_to f) (ev_from f)"
    "\<not> num_lt (num (31 * 86400)) (num_sub (ev_to f) (ev_from f))"
    using assms by (auto simp: evidenceFilterError_def split: sum.splits if_splits)
  obtain a b where ab: "ev_from f = num a" "ev_to f = num b" "\<bar>a\<bar> \<le> max_safe" "\<bar>b\<bar> \<le> max_safe"
    using ok(1,2) by (auto simp: is_safe_iff)
  then have "0 \<le> a" "a < b" using ok(3,4) by simp_all
  moreover have "\<bar>b - a\<bar> \<le> 2 ^ 53" using ab(3,4) calculation by (simp add: max_safe_def)
  ultimately show "\<exists>a b. ev_from f = num a \<and> ev_to f = num b \<and> 0 \<le> a \<and> a < b \<and> b - a \<le> 31 * 86400"
    using ok(5) ab by (auto simp: num_sub_num)
  show "ev_port f \<noteq> None \<Longrightarrow> \<not> bad_port (the (ev_port f))"
    "length (trim (ev_host f)) \<le> 255" "length (trim (ev_ua f)) \<le> 512" "length (trim (ev_account f)) \<le> 255"
    using assms by (auto simp: evidenceFilterError_def split: sum.splits if_splits)
qed

lemma query_fields:
  assumes "evidenceQuery f c n = Inr ps"
  shows "oget (js ''from'') ps = JNum (ev_from f)" "oget (js ''to'') ps = JNum (ev_to f)"
    "oget (js ''port'') ps = (case ev_port f of None \<Rightarrow> JUndef | Some p \<Rightarrow> JNum p)"
    "oget (js ''current'') ps = JNum (evidence_page c)" "oget (js ''page_size'') ps = JNum (evidence_page_size n)"
  using assms
  by (auto simp: evidenceQuery_def scope_fields_def target_fields_def text_field_def oget_append oget_cons ohas_cons
      ohas_def ebind_Inr_iff split: option.splits prod.splits if_splits)

text \<open>A query that goes out is within bounds: its times are whole seconds with a start before the end and at most 31
  days apart, its port, if any, is a port, its texts are not longer than allowed, and page and page size are in range.\<close>
theorem evidence_query_bounded:
  assumes "evidenceQuery f c n = Inr ps"
  shows "(\<exists>a b. oget (js ''from'') ps = JNum (num a) \<and> oget (js ''to'') ps = JNum (num b) \<and> 0 \<le> a \<and> a < b \<and> b - a \<le> 2678400) \<and>
    (oget (js ''port'') ps = JUndef \<or> (\<exists>i. oget (js ''port'') ps = JNum (num i) \<and> 1 \<le> i \<and> i \<le> 65535)) \<and>
    length (trim (ev_host f)) \<le> 255 \<and> length (trim (ev_ua f)) \<le> 512 \<and> length (trim (ev_account f)) \<le> 255 \<and>
    (\<exists>p q. oget (js ''current'') ps = JNum p \<and> num_le (num 1) p \<and>
       oget (js ''page_size'') ps = JNum q \<and> num_le (num 10) q \<and> num_le q (num 100))"
proof -
  have ok: "evidenceFilterError f False = None" using assms by (auto simp: evidenceQuery_def split: option.splits)
  have port: "case ev_port f of None \<Rightarrow> True | Some p \<Rightarrow> \<exists>i. p = num i \<and> 1 \<le> i \<and> i \<le> 65535"
    using filter_passed(2) [OF ok] good_port by (auto split: option.split)
  show ?thesis
    using query_fields [OF assms] filter_passed [OF ok] port page_clamp [of c] page_size_clamp [of n]
    by (auto split: option.splits)
qed

definition demo_filters :: evidence_filters where
  "demo_filters = \<lparr>ev_target = js ''policy:7'', ev_host = js '' a.example '', ev_port = Some (num 443), ev_from = num 100,
     ev_to = num 900, ev_ua = [], ev_account = []\<rparr>"

lemma evidence_query_bounded_witness:
  "\<exists>ps. evidenceQuery demo_filters (num 0) (num 500) = Inr ps \<and> oget (js ''port'') ps = JNum (num 443) \<and>
     (\<exists>q. oget (js ''page_size'') ps = JNum q \<and> num_le q (num 100))"
proof -
  have "\<not> is_ok (evidenceQuery demo_filters (num 0) (num 500)) \<Longrightarrow> False" by code_simp
  then obtain ps where ps: "evidenceQuery demo_filters (num 0) (num 500) = Inr ps" by (auto simp: is_ok_iff)
  then have "oget (js ''port'') ps = JNum (num 443)" using query_fields(3) by (simp add: demo_filters_def)
  then show ?thesis using ps evidence_query_bounded [OF ps] by blast
qed

end
