(* ===== verification/EntryCases.thy ===== *)
theory EntryCases
  imports JsSet
begin

text \<open>
  \<open>evidenceCaseTree\<close> of \<open>pages/entryEvidence.ts\<close>: the forest of cases. A node is shared between the map of all
  nodes and the list of children it is pushed to, so the forest is an explicit store: node by identifier,
  children as identifiers. A case may name a parent that is not loaded, or (in bad data) lie below itself.
\<close>

section \<open>Store\<close>

record 'a evidence_case =
  cs_id :: int
  cs_parent :: "int option" \<comment> \<open>\<open>parent_case_id\<close>\<close>
  cs_rest :: 'a

record 'a case_node =
  cn_record :: "'a evidence_case"
  cn_children :: "int list"
  cn_unloaded :: "int option" \<comment> \<open>\<open>unloadedParentID\<close>\<close>

type_synonym 'a case_map = "(int \<times> 'a case_node) list"

record 'a forest =
  fo_nodes :: "'a case_map"
  fo_roots :: "int list"

text \<open>\<open>Map.set\<close>: a key that is there keeps its place.\<close>

fun map_set :: "int \<Rightarrow> 'v \<Rightarrow> (int \<times> 'v) list \<Rightarrow> (int \<times> 'v) list" where
  "map_set k v [] = [(k, v)]"
| "map_set k v ((l, w) # m) = (if l = k then (k, v) # m else (l, w) # map_set k v m)"

definition case_nodes :: "'a evidence_case list \<Rightarrow> 'a case_map" where
  "case_nodes records = fold (\<lambda>r. map_set (cs_id r) \<lparr>cn_record = r, cn_children = [], cn_unloaded = None\<rparr>) records []"

section \<open>Placing the nodes\<close>

text \<open>The parent of a node, if it is loaded; 0 is no identifier.\<close>

definition loaded_parent :: "'a case_map \<Rightarrow> int option \<Rightarrow> int option" where
  "loaded_parent nodes p =
     (case p of Some a \<Rightarrow> if a = 0 \<or> map_of nodes a = None then None else Some a | None \<Rightarrow> None)"

definition parent_in :: "'a case_map \<Rightarrow> int \<Rightarrow> int option" where
  "parent_in nodes i = (case map_of nodes i of None \<Rightarrow> None | Some n \<Rightarrow> cs_parent (cn_record n))"

text \<open>The loop up the ancestors: does it meet a node twice?\<close>

function meets_again :: "'a case_map \<Rightarrow> int list \<Rightarrow> int option \<Rightarrow> bool" where
  "meets_again nodes visited ancestor =
     (case loaded_parent nodes ancestor of
        None \<Rightarrow> False
      | Some a \<Rightarrow> if a \<in> set visited then True else meets_again nodes (a # visited) (parent_in nodes a))"
  by pat_completeness auto
termination
proof (relation "measure (\<lambda>(nodes, visited, _). card (fst ` set nodes - set visited))", simp)
  fix nodes :: "'a case_map" and visited ancestor a
  assume "loaded_parent nodes ancestor = Some a" and new: "a \<notin> set visited"
  then have "a \<in> fst ` set nodes"
    by (auto simp: loaded_parent_def map_of_eq_None_iff split: option.splits if_splits)
  then have "card (fst ` set nodes - set (a # visited)) < card (fst ` set nodes - set visited)"
    using new by (intro psubset_card_mono) auto
  then show "((nodes, a # visited, parent_in nodes a), nodes, visited, ancestor)
      \<in> measure (\<lambda>(nodes, visited, _). card (fst ` set nodes - set visited))" by simp
qed

declare meets_again.simps [simp del]

definition push_child :: "int \<Rightarrow> 'a case_node \<Rightarrow> 'a case_node" where
  "push_child i n = n\<lparr>cn_children := cn_children n @ [i]\<rparr>"

definition on_node :: "int \<Rightarrow> ('a case_node \<Rightarrow> 'a case_node) \<Rightarrow> 'a forest \<Rightarrow> 'a forest" where
  "on_node i f fo = fo\<lparr>fo_nodes := map (\<lambda>(k, n). (k, if k = i then f n else n)) (fo_nodes fo)\<rparr>"

definition place :: "int \<Rightarrow> 'a forest \<Rightarrow> 'a forest" where
  "place i fo =
     (let p = parent_in (fo_nodes fo) i; cycle = meets_again (fo_nodes fo) [i] p
      in case loaded_parent (fo_nodes fo) p of
           Some a \<Rightarrow> if cycle then fo\<lparr>fo_roots := fo_roots fo @ [i]\<rparr> else on_node a (push_child i) fo
         | None \<Rightarrow>
             let fo' = (case p of Some a \<Rightarrow> if a \<noteq> 0 then on_node i (\<lambda>n. n\<lparr>cn_unloaded := Some a\<rparr>) fo else fo | None \<Rightarrow> fo)
             in fo'\<lparr>fo_roots := fo_roots fo' @ [i]\<rparr>)"

definition evidenceCaseTree :: "'a evidence_case list \<Rightarrow> 'a forest" where
  "evidenceCaseTree records =
     (let nodes = case_nodes records in fold place (map fst nodes) \<lparr>fo_nodes = nodes, fo_roots = []\<rparr>)"

definition children_of :: "'a forest \<Rightarrow> int \<Rightarrow> int list" where
  "children_of fo i = (case map_of (fo_nodes fo) i of None \<Rightarrow> [] | Some n \<Rightarrow> cn_children n)"

text \<open>What the table shows: the roots and what can be unfolded below them.\<close>

inductive shown :: "'a forest \<Rightarrow> int \<Rightarrow> bool" for fo where
  root: "i \<in> set (fo_roots fo) \<Longrightarrow> shown fo i"
| child: "shown fo a \<Longrightarrow> i \<in> set (children_of fo a) \<Longrightarrow> shown fo i"

section \<open>Every case is shown once\<close>

lemma map_set_keys: "fst ` set (map_set k v m) = insert k (fst ` set m)"
  by (induction k v m rule: map_set.induct) auto

lemma distinct_map_set: "distinct (map fst m) \<Longrightarrow> distinct (map fst (map_set k v m))"
proof (induction k v m rule: map_set.induct)
  case (2 k v l w m)
  then show ?case using map_set_keys [of k v m] by auto
qed simp

lemma case_nodes_keys:
  "fst ` set (case_nodes records) = cs_id ` set records" "distinct (map fst (case_nodes records))"
proof -
  let ?f = "\<lambda>r. map_set (cs_id r) \<lparr>cn_record = r, cn_children = [], cn_unloaded = None\<rparr>"
  have "fst ` set (fold ?f records m) = cs_id ` set records \<union> fst ` set m \<and>
      (distinct (map fst m) \<longrightarrow> distinct (map fst (fold ?f records m)))" for m
    by (induction records arbitrary: m) (auto simp: map_set_keys distinct_map_set)
  from this [of "[]"] show "fst ` set (case_nodes records) = cs_id ` set records" "distinct (map fst (case_nodes records))"
    by (simp_all add: case_nodes_def)
qed

lemma map_set_fresh: "cn_children v = [] \<Longrightarrow> list_all (\<lambda>(k, n). cn_children n = []) m \<Longrightarrow>
    list_all (\<lambda>(k, n). cn_children n = []) (map_set k v m)"
  by (induction k v m rule: map_set.induct) auto

lemma case_nodes_fresh: "list_all (\<lambda>(k, n). cn_children n = []) (case_nodes records)"
proof -
  let ?f = "\<lambda>r. map_set (cs_id r) \<lparr>cn_record = r, cn_children = [], cn_unloaded = None\<rparr>"
  have "list_all (\<lambda>(k, n). cn_children n = []) m \<Longrightarrow> list_all (\<lambda>(k, n). cn_children n = []) (fold ?f records m)" for m
    by (induction records arbitrary: m) (simp_all add: map_set_fresh)
  from this [of "[]"] show ?thesis by (simp add: case_nodes_def)
qed

text \<open>Where a node goes depends on the records only, which placing leaves alone.\<close>

definition skeleton :: "'a case_map \<Rightarrow> (int \<times> int option) list" where
  "skeleton nodes = map (\<lambda>(k, n). (k, cs_parent (cn_record n))) nodes"

lemma map_of_skeleton: "map_of (skeleton nodes) i = map_option (\<lambda>n. cs_parent (cn_record n)) (map_of nodes i)"
  by (induction nodes) (auto simp: skeleton_def)

lemma skeleton_parent:
  assumes "skeleton nodes = skeleton nodes'"
  shows "parent_in nodes i = parent_in nodes' i" "loaded_parent nodes p = loaded_parent nodes' p"
proof -
  have m: "map_option (\<lambda>n. cs_parent (cn_record n)) (map_of nodes j) = map_option (\<lambda>n. cs_parent (cn_record n)) (map_of nodes' j)" for j
    by (metis assms map_of_skeleton)
  show "parent_in nodes i = parent_in nodes' i"
    using m [of i] by (auto simp: parent_in_def split: option.splits)
  have "map_of nodes j = None \<longleftrightarrow> map_of nodes' j = None" for j using m [of j] by (metis option.map_disc_iff)
  then show "loaded_parent nodes p = loaded_parent nodes' p" by (simp add: loaded_parent_def split: option.split)
qed

lemma skeleton_meets:
  "skeleton nodes = skeleton nodes' \<Longrightarrow> meets_again nodes visited p = meets_again nodes' visited p"
proof (induction nodes visited p rule: meets_again.induct)
  case (1 nodes visited p)
  show ?case
    using "1.IH" "1.prems" skeleton_parent [OF "1.prems"]
    by (subst (1 2) meets_again.simps) (simp split: option.split)
qed

definition above :: "'a case_map \<Rightarrow> int \<Rightarrow> int option" where
  "above nodes i =
     (if meets_again nodes [i] (parent_in nodes i) then None else loaded_parent nodes (parent_in nodes i))"

lemma skeleton_above: "skeleton nodes = skeleton nodes' \<Longrightarrow> above nodes i = above nodes' i"
  using skeleton_meets [of nodes nodes'] skeleton_parent [of nodes nodes'] by (simp add: above_def)

lemma skeleton_on_node:
  "(\<And>n. cn_record (f n) = cn_record n) \<Longrightarrow> skeleton (fo_nodes (on_node i f fo)) = skeleton (fo_nodes fo)"
  by (auto simp: skeleton_def on_node_def)

lemma map_of_map_keyed: "map_of (map (\<lambda>(k, n). (k, g k n)) m) a = map_option (g a) (map_of m a)"
  by (induction m) auto

lemma children_on_node:
  "children_of (on_node i f fo) a =
     (case map_of (fo_nodes fo) a of None \<Rightarrow> [] | Some n \<Rightarrow> cn_children (if a = i then f n else n))"
  by (simp add: children_of_def on_node_def map_of_map_keyed split: option.split)

lemma above_loaded: "above nodes i = Some a \<Longrightarrow> a \<in> fst ` set nodes"
  by (auto simp: above_def loaded_parent_def map_of_eq_None_iff split: option.splits if_splits)

lemma place_simps:
  assumes "above (fo_nodes fo) i = None"
  shows "fo_roots (place i fo) = fo_roots fo @ [i]" "children_of (place i fo) b = children_of fo b"
    "skeleton (fo_nodes (place i fo)) = skeleton (fo_nodes fo)"
proof -
  let ?p = "parent_in (fo_nodes fo) i"
  have "(\<exists>a. place i fo = (on_node i (\<lambda>n. n\<lparr>cn_unloaded := Some a\<rparr>) fo)\<lparr>fo_roots := fo_roots fo @ [i]\<rparr>) \<or>
      place i fo = fo\<lparr>fo_roots := fo_roots fo @ [i]\<rparr>"
    using assms by (auto simp: place_def above_def Let_def on_node_def split: option.split if_splits)
  then show "fo_roots (place i fo) = fo_roots fo @ [i]" "children_of (place i fo) b = children_of fo b"
    "skeleton (fo_nodes (place i fo)) = skeleton (fo_nodes fo)"
    using skeleton_on_node [of _ i fo]
    by (auto simp: children_of_def on_node_def map_of_map_keyed split: option.split)
qed

lemma place_child:
  assumes "above (fo_nodes fo) i = Some a"
  shows "place i fo = on_node a (push_child i) fo"
  using assms by (auto simp: place_def above_def Let_def split: if_splits)

text \<open>The forest after the first nodes have been placed.\<close>

lemma placed:
  assumes "skeleton (fo_nodes fo) = skeleton nodes"
  shows "skeleton (fo_nodes (fold place xs fo)) = skeleton nodes"
    "fo_roots (fold place xs fo) = fo_roots fo @ filter (\<lambda>i. above nodes i = None) xs"
    "children_of (fold place xs fo) b = children_of fo b @ filter (\<lambda>i. above nodes i = Some b) xs"
proof -
  have "skeleton (fo_nodes (fold place xs fo)) = skeleton nodes \<and>
      fo_roots (fold place xs fo) = fo_roots fo @ filter (\<lambda>i. above nodes i = None) xs \<and>
      children_of (fold place xs fo) b = children_of fo b @ filter (\<lambda>i. above nodes i = Some b) xs"
    using assms
  proof (induction xs arbitrary: fo)
    case (Cons i xs)
    have same: "above (fo_nodes fo) i = above nodes i" using skeleton_above [OF Cons.prems] .
    show ?case
    proof (cases "above nodes i")
      case None
      then show ?thesis using Cons.IH [of "place i fo"] place_simps [of fo i] Cons.prems same by simp
    next
      case (Some a)
      then have p: "place i fo = on_node a (push_child i) fo" using place_child same by metis
      have sk: "skeleton (fo_nodes (place i fo)) = skeleton nodes"
        unfolding p using skeleton_on_node [of "push_child i" a fo] Cons.prems by (simp add: push_child_def)
      have "map_of (skeleton nodes) a \<noteq> None"
        using above_loaded [OF Some] by (auto simp: map_of_skeleton map_of_eq_None_iff)
      then have "map_of (fo_nodes fo) a \<noteq> None" using Cons.prems by (metis map_of_skeleton option.map_disc_iff)
      then have "children_of (place i fo) b = children_of fo b @ (if b = a then [i] else [])"
        unfolding p children_on_node by (auto simp: children_of_def push_child_def split: option.split)
      moreover have "fo_roots (place i fo) = fo_roots fo" by (simp add: p on_node_def)
      ultimately show ?thesis using Cons.IH [OF sk] Some by simp
    qed
  qed simp
  then show "skeleton (fo_nodes (fold place xs fo)) = skeleton nodes"
    "fo_roots (fold place xs fo) = fo_roots fo @ filter (\<lambda>i. above nodes i = None) xs"
    "children_of (fold place xs fo) b = children_of fo b @ filter (\<lambda>i. above nodes i = Some b) xs" by blast+
qed

lemma fresh_children: "children_of \<lparr>fo_nodes = case_nodes records, fo_roots = []\<rparr> b = []"
  using case_nodes_fresh [of records]
  by (auto simp: children_of_def list_all_iff dest: map_of_SomeD split: option.split)

lemma tree_lists:
  fixes records :: "'a evidence_case list"
  defines "ids \<equiv> map fst (case_nodes records)" and "up \<equiv> above (case_nodes records)"
  shows "fo_roots (evidenceCaseTree records) = filter (\<lambda>i. up i = None) ids"
    "children_of (evidenceCaseTree records) b = filter (\<lambda>i. up i = Some b) ids"
  using placed(2,3) [where fo = "\<lparr>fo_nodes = case_nodes records, fo_roots = []\<rparr>" and nodes = "case_nodes records"
      and xs = ids]
  by (simp_all add: evidenceCaseTree_def Let_def ids_def up_def fresh_children)

lemma distinct_concat_map:
  assumes "distinct xs" and "\<And>x. distinct (f x)" and disj: "\<And>x y. x \<noteq> y \<Longrightarrow> set (f x) \<inter> set (f y) = {}"
  shows "distinct (concat (map f xs))"
  using assms(1)
proof (induction xs)
  case (Cons x xs)
  have "set (f x) \<inter> set (f y) = {}" if "y \<in> set xs" for y using disj [of x y] Cons.prems that by auto
  then show ?case using Cons assms(2) by auto
qed simp

lemma tree_partition:
  fixes records :: "'a evidence_case list"
  defines "ids \<equiv> map fst (case_nodes records)"
  shows "mset (fo_roots (evidenceCaseTree records) @ concat (map (children_of (evidenceCaseTree records)) ids)) = mset ids"
proof -
  let ?up = "above (case_nodes records)" and ?t = "evidenceCaseTree records"
  have d: "distinct ids" using case_nodes_keys(2) by (simp add: ids_def)
  have child: "children_of ?t = (\<lambda>a. filter (\<lambda>i. ?up i = Some a) ids)"
    using tree_lists(2) [of records] by (auto simp: ids_def)
  have root: "fo_roots ?t = filter (\<lambda>i. ?up i = None) ids" using tree_lists(1) [of records] by (simp add: ids_def)
  have "distinct (concat (map (children_of ?t) ids))"
    unfolding child by (rule distinct_concat_map [OF d]) (auto simp: d)
  then have "distinct (fo_roots ?t @ concat (map (children_of ?t) ids))"
    using d unfolding root child by auto
  moreover have "set (fo_roots ?t @ concat (map (children_of ?t) ids)) = set ids"
  proof -
    have "a \<in> set ids" if "?up i = Some a" for i a using above_loaded [OF that] by (simp add: ids_def)
    then have "?up i = None \<or> (\<exists>a \<in> set ids. ?up i = Some a)" for i by (cases "?up i") auto
    then show ?thesis unfolding root child by auto
  qed
  ultimately show ?thesis using d set_eq_iff_mset_eq_distinct by blast
qed

lemma climbs_to_root:
  fixes records :: "'a evidence_case list"
  shows "\<not> meets_again nodes visited p \<Longrightarrow> nodes = case_nodes records \<Longrightarrow> loaded_parent nodes p = Some a \<Longrightarrow>
    shown (evidenceCaseTree records) a"
proof (induction nodes visited p arbitrary: a rule: meets_again.induct)
  case (1 nodes visited p)
  let ?t = "evidenceCaseTree records"
  have a: "a \<in> fst ` set nodes" using "1.prems"(3)
    by (auto simp: loaded_parent_def map_of_eq_None_iff split: option.splits if_splits)
  have up: "a \<notin> set visited" "\<not> meets_again nodes (a # visited) (parent_in nodes a)"
    using "1.prems"(1,3) by (auto simp: meets_again.simps [of nodes visited p] split: if_splits)
  show ?case
  proof (cases "above nodes a")
    case None
    then have "a \<in> set (fo_roots ?t)" using a "1.prems"(2) by (auto simp: tree_lists(1))
    then show ?thesis by (rule shown.root)
  next
    case (Some b)
    then have "loaded_parent nodes (parent_in nodes a) = Some b" by (simp add: above_def split: if_splits)
    then have "shown ?t b" using "1.IH" [OF "1.prems"(3) up(1) up(2) "1.prems"(2)] by blast
    moreover have "a \<in> set (children_of ?t b)" using a Some "1.prems"(2) by (auto simp: tree_lists(2))
    ultimately show ?thesis by (rule shown.child)
  qed
qed

lemma all_shown: "i \<in> fst ` set (case_nodes records) \<Longrightarrow> shown (evidenceCaseTree records) i"
proof -
  let ?n = "case_nodes records" and ?t = "evidenceCaseTree records"
  assume i: "i \<in> fst ` set ?n"
  show "shown ?t i"
  proof (cases "above ?n i")
    case None
    then show ?thesis using i by (intro shown.root) (auto simp: tree_lists(1))
  next
    case (Some a)
    then have "shown ?t a" using climbs_to_root [of ?n "[i]" "parent_in ?n i" records a]
      by (simp add: above_def split: if_splits)
    moreover have "i \<in> set (children_of ?t a)" using i Some by (auto simp: tree_lists(2))
    ultimately show ?thesis by (rule shown.child)
  qed
qed

lemma child_parent: "i \<in> set (children_of (evidenceCaseTree records) a) \<Longrightarrow> parent_in (case_nodes records) i = Some a"
  by (auto simp: tree_lists(2) above_def loaded_parent_def split: if_splits option.splits)

text \<open>C34: no case is lost in the tree and none is shown twice, whatever parents the records name, missing ones and
  cycles included: every case is a root or the child of exactly one case, which is its parent, and every case can be
  reached from a root.\<close>
theorem case_tree_complete:
  "(let fo = evidenceCaseTree records; ids = map fst (case_nodes records) in
    distinct ids \<and> set ids = cs_id ` set records \<and>
    mset (fo_roots fo @ concat (map (children_of fo) ids)) = mset ids \<and>
    (\<forall>a i. i \<in> set (children_of fo a) \<longrightarrow> parent_in (case_nodes records) i = Some a) \<and>
    (\<forall>r \<in> set records. shown fo (cs_id r)))"
proof -
  have "shown (evidenceCaseTree records) (cs_id r)" if "r \<in> set records" for r
    using all_shown case_nodes_keys(1) [of records] that by blast
  then show ?thesis
    using case_nodes_keys [of records] tree_partition [of records] child_parent [of _ records] by (simp add: Let_def)
qed

text \<open>Two cases that name each other, one below the first of them, one whose parent is not loaded.\<close>

definition demo_cases :: "unit evidence_case list" where
  "demo_cases = map (\<lambda>(i, p). \<lparr>cs_id = i, cs_parent = p, cs_rest = ()\<rparr>)
     [(1, Some 2), (2, Some 1), (3, Some 1), (4, Some 9), (5, Some 4), (6, None)]"

lemma case_tree_complete_witness:
  "fo_roots (evidenceCaseTree demo_cases) = [1, 2, 3, 4, 6] \<and> children_of (evidenceCaseTree demo_cases) 4 = [5] \<and>
   mset ([1, 2, 3, 4, 6] @ concat (map (children_of (evidenceCaseTree demo_cases)) [1, 2, 3, 4, 5, 6])) = mset [1, 2, 3, 4, 5, 6]"
proof -
  have r: "fo_roots (evidenceCaseTree demo_cases) = [1, 2, 3, 4, 6]" by code_simp
  moreover have "children_of (evidenceCaseTree demo_cases) 4 = [5]" by code_simp
  moreover have "map fst (case_nodes demo_cases) = [1, 2, 3, 4, 5, 6]" by code_simp
  ultimately show ?thesis using case_tree_complete [of demo_cases] by (simp only: Let_def)
qed

end
