(* ===== verification/AppleImport.thy ===== *)
theory AppleImport
  imports JsNumText JsValue JsRound JsSet
begin

text \<open>
  \<open>pages/apple-id-import.ts\<close>: the lines of an import of Apple accounts, and the price of an account in cents. Both
  are typed by hand, so both are checked before anything is sent.
\<close>

section \<open>Import\<close>

datatype import_error = NothingEntered | TooMany | EmptyLine nat | RepeatedLine nat

definition import_lines :: "jstr \<Rightarrow> jstr list" where
  "import_lines input = filter (\<lambda>line. trim line \<noteq> []) (split_lines input)"

definition fingerprint :: "jstr \<Rightarrow> jstr" where
  "fingerprint line = lower (trim line)"

text \<open>The lines from the \<open>index\<close>-th on; the fingerprints of those before are \<open>seen\<close>.\<close>

fun import_from :: "nat \<Rightarrow> jstr jset \<Rightarrow> jstr list \<Rightarrow> import_error + jstr list" where
  "import_from index seen [] = Inr []"
| "import_from index seen (line # rest) =
     (let f = fingerprint line
      in if f = [] then Inl (EmptyLine (index + 1))
         else if set_has f seen then Inl (RepeatedLine (index + 1))
         else ebind (import_from (index + 1) (set_add f seen) rest) (\<lambda>cs. Inr (line # cs)))"

definition parseAppleIDImport :: "jstr \<Rightarrow> import_error + jstr list" where
  "parseAppleIDImport input =
     (let lines = import_lines input
      in if lines = [] then Inl NothingEntered
         else if 500 < length lines then Inl TooMany
         else import_from 0 [] lines)"

lemma import_from_iff:
  "import_from index seen lines = Inr cs \<longleftrightarrow> cs = lines \<and> distinct (map fingerprint lines) \<and>
     [] \<notin> set (map fingerprint lines) \<and> set (map fingerprint lines) \<inter> set seen = {}"
  by (induction lines arbitrary: index seen cs) (auto simp: Let_def ebind_Inr_iff)

lemma fingerprint_nonempty: "trim line \<noteq> [] \<Longrightarrow> fingerprint line \<noteq> []"
  by (simp add: fingerprint_def lower_Nil_iff)

lemma import_accepts_iff:
  "parseAppleIDImport input = Inr cs \<longleftrightarrow> cs = import_lines input \<and> cs \<noteq> [] \<and> length cs \<le> 500 \<and> distinct (map fingerprint cs)"
proof -
  have "[] \<notin> set (map fingerprint (import_lines input))"
    using fingerprint_nonempty by (fastforce simp: import_lines_def)
  then show ?thesis by (auto simp: parseAppleIDImport_def Let_def import_from_iff)
qed

section \<open>Price\<close>

datatype price_error = NotAPrice | OutOfRange

text \<open>The match of \<open>^\d+(\.\d{1,2})?$\<close>: the digits before and after the point.\<close>

definition price_parts :: "jstr \<Rightarrow> (jstr \<times> jstr) option" where
  "price_parts text =
     (let whole = takeWhile is_digit text; rest = dropWhile is_digit text
      in if whole = [] then None
         else if rest = [] then Some (whole, [])
         else if hd rest = 46 \<and> list_all is_digit (tl rest) \<and> length (tl rest) \<in> {1, 2} then Some (whole, tl rest)
         else None)"

text \<open>\<open>padEnd(2, '0')\<close>.\<close>

definition pad_end :: "jstr \<Rightarrow> jstr" where
  "pad_end s = s @ replicate (2 - length s) 48"

definition price_text :: "jsv \<Rightarrow> jstr" where
  "price_text value = to_str (coalesce value (JStr []))"

definition appleIDPriceToCents :: "jsv \<Rightarrow> price_error + jnum" where
  "appleIDPriceToCents value =
     (case price_parts (price_text value) of
        None \<Rightarrow> Inl NotAPrice
      | Some (whole, fraction) \<Rightarrow>
          let cents = num_add (num_mul (str_num whole) (num 100)) (str_num (pad_end fraction))
          in if \<not> is_safe cents \<or> num_le cents (num 0) then Inl OutOfRange else Inr cents)"

text \<open>What is rounded from \<open>2 ^ 53\<close> on is never safe.\<close>

definition large :: "jnum \<Rightarrow> bool" where
  "large a \<longleftrightarrow> (case a of Fin q \<Rightarrow> 2 ^ 53 \<le> q | PosInf \<Rightarrow> True | _ \<Rightarrow> False)"

lemma large_not_safe: "large a \<Longrightarrow> \<not> is_safe a"
proof
  assume l: "large a" and s: "is_safe a"
  then obtain i where i: "a = num i" "i \<le> max_safe" by (auto simp: is_safe_iff)
  then have "(of_int i :: rat) \<le> of_int max_safe" by (intro of_int_le_iff [THEN iffD2])
  then show False using l i by (simp add: large_def num_def max_safe_def)
qed

lemma rnd_large:
  assumes "2 ^ 53 \<le> q"
  shows "large (rnd q)"
proof -
  have pos: "0 < q" using assms by (rule less_le_trans [rotated]) simp
  define s where "s = max (exp2 \<bar>q\<bar> - 52) (- 1074)"
  have "pow2 53 < pow2 (exp2 q + 1)"
    using assms exp2_less [OF pos] pow2_of_nat [of 53] by simp
  then have e: "53 \<le> exp2 q" using pow2_less_cancel [of 53 "exp2 q + 1"] by simp
  then have s: "s = exp2 q - 52" using pos by (simp add: s_def)
  have "pow2 52 * pow2 s = pow2 (exp2 q)" using pow2_add [of 52 s] by (simp add: s)
  then have "pow2 52 * pow2 s \<le> q" using pow2_exp2_le [OF pos] by simp
  then have "of_int (2 ^ 52) \<le> q / pow2 s" using pow2_of_nat [of 52] by (simp add: pos_le_divide_eq)
  then have "2 ^ 52 \<le> round_even (q / pow2 s)" by (rule round_even_ge)
  then have "of_int (2 ^ 52) \<le> (of_int (round_even (q / pow2 s)) :: rat)" by (rule of_int_le_iff [THEN iffD2])
  moreover have "pow2 1 \<le> pow2 s" using e s by (intro pow2_mono) simp
  ultimately have "of_int (2 ^ 52) * pow2 1 \<le> of_int (round_even (q / pow2 s)) * pow2 s"
    by (intro mult_mono) simp_all
  then have v: "2 ^ 53 \<le> of_int (round_even (q / pow2 s)) * pow2 s" by (simp add: pow2_def)
  have "rnd q = (let v = of_int (round_even (\<bar>q\<bar> / pow2 s)) * pow2 s
      in if q = 0 then Fin 0 else if pow2 1024 \<le> v then (if 0 < q then PosInf else NegInf) else Fin (sgn q * v))"
    unfolding rnd_def s_def Let_def by (rule refl)
  then show ?thesis using v pos by (simp add: large_def Let_def)
qed

lemma large_mul: "large a \<Longrightarrow> large (num_mul a (num 100))"
proof (cases a)
  case (Fin q)
  assume "large a"
  then have "2 ^ 53 \<le> q * 100" by (simp add: large_def Fin)
  then show ?thesis using rnd_large by (simp add: num_mul_def num_def Fin)
qed (simp_all add: large_def num_mul_def num_def num_sgn_def signed_inf_def)

lemma large_add: "large a \<Longrightarrow> 0 \<le> f \<Longrightarrow> large (num_add a (num f))"
proof (cases a)
  case (Fin q)
  assume "large a" "0 \<le> f"
  then have "2 ^ 53 \<le> q + of_int f" by (simp add: large_def Fin add_increasing2)
  then show ?thesis using rnd_large by (simp add: num_def Fin)
qed (simp_all add: large_def num_def)

lemma price_parts_digits:
  assumes "price_parts text = Some (w, f)"
  shows "all_digits w" "all_digits (pad_end f)" "length (pad_end f) = 2"
proof -
  have "list_all is_digit (takeWhile is_digit text)" by (auto simp: list_all_iff dest: set_takeWhileD)
  then show "all_digits w" using assms by (auto simp: price_parts_def all_digits_def Let_def split: if_splits)
  have "list_all is_digit f" "length f \<le> 2"
    using assms by (auto simp: price_parts_def Let_def split: if_splits)
  moreover have "is_digit 48" by (simp add: is_digit_def)
  ultimately show "all_digits (pad_end f)" "length (pad_end f) = 2"
    by (auto simp: all_digits_def pad_end_def list_all_iff)
qed

lemma two_digits: "all_digits s \<Longrightarrow> length s = 2 \<Longrightarrow> 0 \<le> digits_value s \<and> digits_value s \<le> 99"
  by (auto simp: all_digits_def is_digit_def digits_value_def length_Suc_conv numeral_2_eq_2)

text \<open>A padded fraction counts hundredths.\<close>

lemma padded_value: "digits_value (pad_end f) = digits_value f * 10 ^ (2 - length f)"
proof -
  have "digits_value (f @ replicate n 48) = digits_value f * 10 ^ n" for n
    by (induction n) (simp_all add: replicate_append_same [symmetric] digits_value_snoc flip: append_assoc)
  then show ?thesis by (simp add: pad_end_def)
qed

lemma hundreds:
  assumes "0 \<le> n"
  shows "num_mul (rnd (of_int n)) (num 100) = num (100 * n) \<and> 100 * n \<le> 2 ^ 53 \<or>
    large (num_mul (rnd (of_int n)) (num 100)) \<and> 2 ^ 53 \<le> 100 * n"
proof (cases "n \<le> 2 ^ 53")
  case True
  then have n: "rnd (of_int n) = Fin (of_int n)" using assms by (intro rnd_int) simp
  show ?thesis
  proof (cases "100 * n \<le> 2 ^ 53")
    case True
    then show ?thesis using num_mul_num [of n 100] assms n by (simp add: num_def [of n] mult.commute)
  next
    case False
    then have "of_int (2 ^ 53) \<le> (of_int (100 * n) :: rat)" by (intro of_int_le_iff [THEN iffD2]) simp
    then have "2 ^ 53 \<le> (of_int n * 100 :: rat)" by (simp add: mult.commute)
    then show ?thesis using rnd_large False n by (simp add: num_mul_def num_def)
  qed
next
  case False
  then have "of_int (2 ^ 53) \<le> (of_int n :: rat)" by (intro of_int_le_iff [THEN iffD2]) simp
  then have "large (rnd (of_int n))" by (intro rnd_large) simp
  then show ?thesis using large_mul False by auto
qed

text \<open>A price is turned into cents exactly: for a text with at most two digits after the point the result is the
  amount the digits denote, without any rounding, and every other text, nothing, and every amount that is not exact as a
  number is refused.\<close>
theorem price_cents_exact:
  "appleIDPriceToCents value =
     (case price_parts (price_text value) of
        None \<Rightarrow> Inl NotAPrice
      | Some (whole, fraction) \<Rightarrow>
          let cents = 100 * digits_value whole + digits_value fraction * 10 ^ (2 - length fraction)
          in if 0 < cents \<and> cents \<le> max_safe then Inr (num cents) else Inl OutOfRange)"
proof (cases "price_parts (price_text value)")
  case (Some p)
  obtain w f where p: "p = (w, f)" by fastforce
  note d = price_parts_digits [OF Some [unfolded p]]
  let ?n = "digits_value w" and ?g = "digits_value (pad_end f)"
  let ?P = "num_mul (rnd (of_int ?n)) (num 100)"
  have g: "0 \<le> ?g" "?g \<le> 99" using two_digits [OF d(2,3)] by simp_all
  have n: "0 \<le> ?n" using digits_value_nonneg d(1) by (simp add: all_digits_def)
  have str: "str_num w = rnd (of_int ?n)" "str_num (pad_end f) = num ?g"
    using d g rnd_int [of ?g] by (simp_all add: str_num_digits num_def)
  have "num_add ?P (num ?g) = num (100 * ?n + ?g) \<and> 100 * ?n + ?g \<le> 2 ^ 53 \<or>
      large (num_add ?P (num ?g)) \<and> 2 ^ 53 \<le> 100 * ?n + ?g"
  proof (cases "?P = num (100 * ?n) \<and> 100 * ?n \<le> 2 ^ 53")
    case True
    show ?thesis
    proof (cases "100 * ?n + ?g \<le> 2 ^ 53")
      case True
      then show ?thesis using \<open>?P = _ \<and> _\<close> num_add_num [of "100 * ?n" ?g] n g by simp
    next
      case False
      then have "of_int (2 ^ 53) \<le> (of_int (100 * ?n + ?g) :: rat)" by (intro of_int_le_iff [THEN iffD2]) simp
      then have "large (num_add (num (100 * ?n)) (num ?g))" using rnd_large by (simp add: num_def)
      then show ?thesis using \<open>?P = _ \<and> _\<close> False by simp
    qed
  next
    case False
    then have "large ?P" "2 ^ 53 \<le> 100 * ?n" using hundreds [OF n] by blast+
    then show ?thesis using large_add g by simp
  qed
  then show ?thesis
    using large_not_safe
    by (auto simp: appleIDPriceToCents_def Some p str Let_def max_safe_def padded_value [symmetric])
qed (simp add: appleIDPriceToCents_def)

end
