(* ===== verification/Knowledge.thy ===== *)
theory Knowledge
  imports JsNumText JsValue
begin

text \<open>
  \<open>pages/aiOpsKnowledgeModel.ts\<close>: the knowledge base of the assistant, whose entries staff may only propose as drafts;
  and \<open>pages/aiOpsServerIdentity.ts\<close>. Entries come from the server unchecked, so they are values.
\<close>

section \<open>Entries\<close>

datatype knowledge_error =
    BadDetail | BadList | StaffMayNotEdit | NoVersion | BadLengths | BadCategory | BadStatus

definition categories :: "jstr list" where
  "categories = map js [''architecture'', ''server'', ''network'', ''deployment'', ''troubleshooting'', ''other'']"

definition statuses :: "jstr list" where
  "statuses = map js [''active'', ''draft'', ''disabled'']"

definition known :: "jstr list \<Rightarrow> jsv \<Rightarrow> bool" where
  "known texts v \<longleftrightarrow> v \<in> JStr ` set texts"

definition is_num_with :: "(jnum \<Rightarrow> bool) \<Rightarrow> jsv \<Rightarrow> bool" where
  "is_num_with p v = (case v of JNum n \<Rightarrow> p n | _ \<Rightarrow> False)"

definition aiKnowledgeCanRead :: "jsv \<Rightarrow> jnum \<Rightarrow> bool \<Rightarrow> bool" where
  "aiKnowledgeCanRead entry actorID isAdmin \<longleftrightarrow>
     isAdmin \<or> jprop entry (js ''status'') = JStr (js ''active'') \<or>
     (jprop entry (js ''status'') = JStr (js ''draft'') \<and> num_lt (num 0) actorID \<and>
      strict_eq (jprop entry (js ''created_by'')) (JNum actorID))"

text \<open>What a row of the list must have, and the detail besides.\<close>

definition entry_ok :: "jsv \<Rightarrow> bool" where
  "entry_ok entry \<longleftrightarrow> truthy entry \<and> is_num_with positive_id (jprop entry (js ''id'')) \<and>
     is_num_with positive_id (jprop entry (js ''version'')) \<and> is_string (jprop entry (js ''title'')) \<and>
     known statuses (jprop entry (js ''status''))"

definition aiKnowledgeDetail :: "jsv \<Rightarrow> knowledge_error + jsv" where
  "aiKnowledgeDetail entry =
     (if entry_ok entry \<and> is_string (jprop entry (js ''content'')) then Inr entry else Inl BadDetail)"

definition aiKnowledgeList :: "jsv \<Rightarrow> knowledge_error + jsv" where
  "aiKnowledgeList list =
     (if is_array (jprop list (js ''data'')) \<and>
         is_num_with (\<lambda>n. is_safe n \<and> \<not> num_lt n (num 0)) (jprop list (js ''total'')) \<and>
         is_num_with (\<lambda>n. is_safe n \<and> \<not> num_lt n (num 1)) (jprop list (js ''current'')) \<and>
         is_num_with (\<lambda>n. is_safe n \<and> \<not> num_lt n (num 1)) (jprop list (js ''page_size'')) \<and>
         list_all entry_ok (elems (jprop list (js ''data'')))
      then Inr list else Inl BadList)"

section \<open>Saving\<close>

definition aiKnowledgeValues :: "jsv \<Rightarrow> jobj" where
  "aiKnowledgeValues entry =
     [(js ''title'', jor (jprop entry (js ''title'')) (JStr [])),
      (js ''summary'', jor (jprop entry (js ''summary'')) (JStr [])),
      (js ''content'', jor (jprop entry (js ''content'')) (JStr [])),
      (js ''category'', jor (jprop entry (js ''category'')) (JStr (js ''other''))),
      (js ''status'', jor (jprop entry (js ''status'')) (JStr (js ''draft''))),
      (js ''pinned'', JBool (truthy (jprop entry (js ''pinned''))))]"

definition text_of :: "jobj \<Rightarrow> string \<Rightarrow> jstr" where
  "text_of values k = to_str (jor (oget (js k) values) (JStr []))"

definition chars :: "jstr \<Rightarrow> nat" where
  "chars s = length (code_points s)"

definition versioned :: "jsv \<Rightarrow> bool" where
  "versioned existing \<longleftrightarrow> is_num_with positive_id (jprop existing (js ''id'')) \<and>
     is_num_with positive_id (jprop existing (js ''version''))"

text \<open>\<open>existing\<close> is \<open>null\<close> for a new entry.\<close>

definition aiKnowledgeSavePayload :: "jobj \<Rightarrow> jsv \<Rightarrow> bool \<Rightarrow> knowledge_error + jobj" where
  "aiKnowledgeSavePayload values existing isAdmin =
     (let title = trim (text_of values ''title''); summary = trim (text_of values ''summary'');
          content = text_of values ''content''
      in if truthy existing \<and> \<not> isAdmin then Inl StaffMayNotEdit
         else if truthy existing \<and> \<not> versioned existing then Inl NoVersion
         else if title = [] \<or> 120 < chars title \<or> 500 < chars summary \<or> trim content = [] \<or> 12000 < chars content
         then Inl BadLengths
         else if \<not> known categories (oget (js ''category'') values) then Inl BadCategory
         else if isAdmin \<and> \<not> known statuses (oget (js ''status'') values) then Inl BadStatus
         else Inr ((if truthy existing then [(js ''id'', jprop existing (js ''id'')),
                      (js ''expected_version'', jprop existing (js ''version''))] else []) @
            [(js ''title'', JStr title), (js ''summary'', JStr summary), (js ''content'', JStr content),
             (js ''category'', oget (js ''category'') values),
             (js ''status'', if isAdmin then oget (js ''status'') values else JStr (js ''draft'')),
             (js ''pinned'', JBool (isAdmin \<and> truthy (oget (js ''pinned'') values)))]))"

section \<open>Address of a server\<close>

definition aiServerConnection :: "jstr \<Rightarrow> jstr \<Rightarrow> jnum \<Rightarrow> jstr" where
  "aiServerConnection username host port =
     (let bare = contains host [58] \<and> \<not> (starts_with host [91] \<and> ends_with host [93]);
          shown = (if bare then [91] @ host @ [93] else host)
      in username @ [64] @ shown @ [58] @ num_str port)"

section \<open>What is saved\<close>

lemma save_fields:
  assumes "aiKnowledgeSavePayload values existing isAdmin = Inr p"
  shows "oget (js ''status'') p = (if isAdmin then oget (js ''status'') values else JStr (js ''draft''))"
    "oget (js ''pinned'') p = JBool (isAdmin \<and> truthy (oget (js ''pinned'') values))"
    "oget (js ''id'') p = (if truthy existing then jprop existing (js ''id'') else JUndef)"
    "oget (js ''expected_version'') p = (if truthy existing then jprop existing (js ''version'') else JUndef)"
    "oget (js ''title'') p = JStr (trim (text_of values ''title''))"
    "oget (js ''content'') p = JStr (text_of values ''content'')"
  using assms
  by (auto simp: aiKnowledgeSavePayload_def Let_def oget_append oget_cons ohas_cons ohas_def oget_Nil split: if_splits)

lemma save_checked:
  assumes "aiKnowledgeSavePayload values existing isAdmin = Inr p"
  shows "truthy existing \<Longrightarrow> isAdmin" "truthy existing \<Longrightarrow> versioned existing"
    "trim (text_of values ''title'') \<noteq> []" "chars (trim (text_of values ''title'')) \<le> 120"
    "chars (text_of values ''content'') \<le> 12000" "isAdmin \<Longrightarrow> known statuses (oget (js ''status'') values)"
  using assms by (auto simp: aiKnowledgeSavePayload_def Let_def split: if_splits)

text \<open>C35: staff can only propose: what someone without the administrator flag saves is a new entry, a draft and not
  pinned, whatever the form holds; and a change of an entry carries the number and the version it was read with.\<close>
theorem knowledge_draft_only:
  assumes "aiKnowledgeSavePayload values existing isAdmin = Inr p"
  shows "(\<not> isAdmin \<longrightarrow> \<not> truthy existing \<and> oget (js ''id'') p = JUndef \<and> oget (js ''status'') p = JStr (js ''draft'') \<and>
      oget (js ''pinned'') p = JBool False) \<and>
    (truthy existing \<longrightarrow> (\<exists>i v. oget (js ''id'') p = JNum (num i) \<and> oget (js ''expected_version'') p = JNum (num v) \<and>
      0 < i \<and> 0 < v \<and> jprop existing (js ''id'') = JNum (num i) \<and> jprop existing (js ''version'') = JNum (num v))) \<and>
    known statuses (oget (js ''status'') p)"
  using save_fields [OF assms] save_checked [OF assms]
  by (auto simp: versioned_def is_num_with_def positive_id_iff known_def statuses_def split: jsv.splits)

definition demo_values :: jobj where
  "demo_values = [(js ''title'', JStr (js '' DNS '')), (js ''content'', JStr (js ''text'')),
     (js ''category'', JStr (js ''network'')), (js ''status'', JStr (js ''active'')), (js ''pinned'', JBool True)]"

lemma knowledge_draft_only_witness:
  "\<exists>p. aiKnowledgeSavePayload demo_values JNull False = Inr p \<and> oget (js ''status'') p = JStr (js ''draft'') \<and>
     oget (js ''pinned'') p = JBool False"
proof -
  have "\<not> is_ok (aiKnowledgeSavePayload demo_values JNull False) \<Longrightarrow> False" by code_simp
  then obtain p where p: "aiKnowledgeSavePayload demo_values JNull False = Inr p" by (auto simp: is_ok_iff)
  then show ?thesis using knowledge_draft_only [OF p] by simp
qed

end
