(* ===== verification/AdminForms.thy ===== *)
theory AdminForms
  imports Api ApiFormat
begin

text \<open>
  Forms of the administrator pages: the commission log (\<open>pages/commissionLogModel.ts\<close>), the rules of the DNS
  failover (\<open>lib/dnsFailoverPayload.ts\<close>), the migration from Xboard (\<open>lib/xboardMigration.ts\<close>) and the generic
  resource page (\<open>lib/crud.ts\<close>, \<open>components/CrudPage.tsx\<close> and the helpers of \<open>lib/resources.ts\<close>).
\<close>

section \<open>Commission log\<close>

definition hasCommissionSelection :: "jsv \<Rightarrow> bool" where
  "hasCommissionSelection chosen \<longleftrightarrow>
     list_ex (\<lambda>k. case jprop chosen (js k) of JNum n \<Rightarrow> is_integer n | _ \<Rightarrow> False)
       [''id'', ''invite_user_id'', ''user_id'', ''created_from'', ''created_to'', ''commission_status''] \<or>
     (case jprop chosen (js ''trade_no'') of JStr s \<Rightarrow> trim s \<noteq> [] | _ \<Rightarrow> False) \<or>
     (case jprop chosen (js ''ids'') of JArr ids \<Rightarrow> ids \<noteq> [] | _ \<Rightarrow> False)"

record commission_draft =
  cd_action :: jstr \<comment> \<open>\<open>delete\<close> or \<open>restore\<close>\<close>
  cd_single :: "jnum option"

record commission_preview =
  cp_action :: jstr
  cp_hash :: jstr
  cp_all_records :: bool

definition single_id :: "commission_draft \<Rightarrow> jnum option" where
  "single_id d = (case cd_single d of Some i \<Rightarrow> if num_truthy i then Some i else None | None \<Rightarrow> None)"

text \<open>\<open>None\<close> for the error.\<close>

definition commissionApplyRequest ::
    "commission_draft \<Rightarrow> commission_preview \<Rightarrow> jstr \<Rightarrow> bool \<Rightarrow> (jstr \<times> jobj) option" where
  "commissionApplyRequest draft preview key confirmAll =
     (if cd_action draft \<noteq> cp_action preview \<or> cp_hash preview = [] \<or> key = [] \<or> (cp_all_records preview \<and> \<not> confirmAll)
      then None
      else
        let path = (if cd_action draft = js ''restore'' then js ''restore''
                    else if single_id draft \<noteq> None then js ''delete'' else js ''delete-many'')
        in Some (js ''/commission-log/'' @ path,
          [(js ''preview_hash'', JStr (cp_hash preview)), (js ''idempotency_key'', JStr key), (js ''confirm'', JBool True),
           (js ''confirm_all'', JBool confirmAll)] @
          (case single_id draft of Some i \<Rightarrow> [(js ''id'', JNum i)] | None \<Rightarrow> [])))"

lemma commission_all_confirmed:
  "commissionApplyRequest draft preview key confirmAll = Some (path, body) \<Longrightarrow> cp_all_records preview \<Longrightarrow>
     confirmAll \<and> oget (js ''confirm_all'') body = JBool True \<and> oget (js ''preview_hash'') body = JStr (cp_hash preview)"
  by (auto simp: commissionApplyRequest_def Let_def oget_append oget_cons ohas_cons split: if_splits)

lemma commission_path:
  "commissionApplyRequest draft preview key confirmAll = Some (path, body) \<Longrightarrow> cd_action draft \<noteq> js ''restore'' \<Longrightarrow>
     (path = js ''/commission-log/delete'' \<longleftrightarrow> (\<exists>i. oget (js ''id'') body = JNum i))"
  by (auto simp: commissionApplyRequest_def Let_def oget_append oget_cons ohas_cons ohas_def oget_Nil js_def split: if_splits option.splits)

section \<open>Rules of the DNS failover\<close>

definition copied :: "string list \<Rightarrow> jsv \<Rightarrow> jobj" where
  "copied ks v = map (\<lambda>k. (js k, jprop v (js k))) ks"

definition target_id_field :: "jsv \<Rightarrow> jobj" where
  "target_id_field target =
     (let i = jprop target (js ''id'')
      in if nullish i \<or> i = JStr [] \<or> \<not> positive_id (to_num i) then [] else [(js ''id'', JNum (to_num i))])"

definition dns_target :: "nat \<Rightarrow> jsv \<Rightarrow> jsv" where
  "dns_target index target = JObj ((js ''sort'', JNum (num (int index))) #
     copied [''name'', ''dns_type'', ''dns_value'', ''check_port'', ''enabled''] target @ target_id_field target)"

definition rule_fields :: "string list" where
  "rule_fields =
     [''name'', ''domain_id'', ''domain'', ''record_id'', ''subdomain'', ''record_line_id'', ''record_line_name'', ''ttl'',
      ''mx'', ''weight'', ''enabled'', ''auto_failback'', ''check_interval_sec'', ''tcp_timeout_ms'', ''failure_threshold'',
      ''success_threshold'', ''single_probe_failure_threshold'', ''single_probe_success_threshold'', ''probe_offline_sec'',
      ''cooldown_sec'']"

definition buildDNSFailoverRulePayload :: "jsv \<Rightarrow> jobj" where
  "buildDNSFailoverRulePayload value =
     copied rule_fields value @
     [(js ''targets'', JArr (map (\<lambda>(i, t). dns_target i t) (enumerate 0 (elems (jprop value (js ''targets'')))))),
      (js ''probe_ids'', JArr (elems (jprop value (js ''probe_ids''))))]"

lemma payload_keys:
  "fst ` set (buildDNSFailoverRulePayload value) = js ` (set rule_fields \<union> {''targets'', ''probe_ids''})"
  by (simp add: buildDNSFailoverRulePayload_def copied_def image_image image_Un)

lemma target_keys:
  "dns_target i t = JObj kv \<Longrightarrow> fst ` set kv \<subseteq> js ` set [''sort'', ''name'', ''dns_type'', ''dns_value'', ''check_port'', ''enabled'', ''id'']"
  by (auto simp: dns_target_def copied_def target_id_field_def Let_def split: if_splits)

section \<open>Migration from Xboard\<close>

datatype migration_error = NoResult int | MigrationRejected "jstr option" int jstr

definition is_bearer :: "jstr \<Rightarrow> bool" where
  "is_bearer auth \<longleftrightarrow> lower (take 6 auth) = js ''bearer'' \<and> drop 6 auth \<noteq> [] \<and> is_space (hd (drop 6 auth))"

definition migration_request :: "jstr \<Rightarrow> jsv option \<Rightarrow> request call" where
  "migration_request path body s =
     (let auth = getAuth s
      in send \<lparr>rq_method = (if body = None then GET else POST),
           rq_path = js ''/api/v1/'' @ getAdminPath s @ js ''/migration/xboard'' @ path, rq_query = [],
           rq_authorization = (if auth = [] then None else Some (if is_bearer auth then auth else bearer auth)),
           rq_body = (case body of None \<Rightarrow> NoBody | Some v \<Rightarrow> Json v), rq_credentials = True, rq_guarded = False\<rparr> s)"

definition migration_answer :: "response \<Rightarrow> api \<Rightarrow> (migration_error + jsv) \<times> api" where
  "migration_answer r s =
     (let s' = (if rs_status r = 401 then dispatch_event AuthInvalid (clearAuth s) else s);
          text = (\<lambda>v. case v of JStr t \<Rightarrow> Some t | _ \<Rightarrow> None)
      in (case json_parse (rs_text r) of
            None \<Rightarrow> Inl (NoResult (rs_status r))
          | Some payload \<Rightarrow>
              if \<not> rs_ok r then
                Inl (MigrationRejected (text (jor (jprop payload (js ''message'')) (jprop payload (js ''error'')))) (rs_status r)
                  (case jprop payload (js ''code'') of JStr c \<Rightarrow> c | _ \<Rightarrow> []))
              else Inr (coalesce (jprop payload (js ''data'')) payload), s'))"

definition inspectXboard :: "jsv \<Rightarrow> request call" where
  "inspectXboard source = migration_request (js ''/inspect'') (Some source)"

definition previewXboard :: "jsv \<Rightarrow> request call" where
  "previewXboard body = migration_request (js ''/preview'') (Some body)"

definition applyXboard :: "jstr \<Rightarrow> request call" where
  "applyXboard previewID =
     migration_request (js ''/apply'') (Some (JObj [(js ''preview_id'', JStr previewID), (js ''confirm'', JBool True)]))"

text \<open>\<open>encodeURIComponent\<close> is the browser's.\<close>

definition getXboardReceipt :: "(jstr \<Rightarrow> jstr) \<Rightarrow> jstr \<Rightarrow> request call" where
  "getXboardReceipt encode previewID = migration_request (js ''/receipt?preview_id='' @ encode previewID) None"

definition getXboardMailInfo :: "(jstr \<Rightarrow> jstr) \<Rightarrow> jstr \<Rightarrow> request call" where
  "getXboardMailInfo encode previewID = migration_request (js ''/mail/status?preview_id='' @ encode previewID) None"

definition sendXboardMail :: "jsv \<Rightarrow> request call" where
  "sendXboardMail body = migration_request (js ''/mail/send'') (Some body)"

text \<open>The source with its password is sent in the body only.\<close>

lemma inspect_in_body:
  "inspectXboard source s = (Inr r, s') \<Longrightarrow> rq_query r = [] \<and> rq_body r = Json source \<and>
     rq_path r = js ''/api/v1/'' @ getAdminPath s @ js ''/migration/xboard/inspect''"
  by (auto simp: inspectXboard_def migration_request_def send_def Let_def js_append [symmetric])

section \<open>The generic resource page\<close>

datatype field_type = TextField | NumberField | TextareaField | SwitchField | SelectField | JsonField | TagsField

record field_config =
  fc_name :: string
  fc_type :: field_type

record resource_config =
  rc_key :: string
  rc_fetch :: jstr
  rc_save :: "jstr option"
  rc_drop :: "jstr option"
  rc_id_key :: "jstr option"
  rc_form :: bool
  rc_search_key :: "jstr option"
  rc_page_size :: "jnum option"
  rc_fields :: "field_config list"
  rc_before_save :: "(jobj \<Rightarrow> jobj) option"

definition fetchResource :: "resource_config \<Rightarrow> jobj \<Rightarrow> request call" where
  "fetchResource cfg params = apiGet (rc_fetch cfg) params False"

definition fetched :: "jsv \<Rightarrow> jsv list \<times> jnum" where
  "fetched payload = (unwrapList payload, unwrapTotal payload (unwrapList payload))"

text \<open>\<open>None\<close>: the resource has no such end point.\<close>

definition saveResource :: "resource_config \<Rightarrow> jobj \<Rightarrow> request call option" where
  "saveResource cfg values = map_option (\<lambda>path. apiPost path values (rc_form cfg) False) (rc_save cfg)"

definition dropResource :: "resource_config \<Rightarrow> jsv \<Rightarrow> request call option" where
  "dropResource cfg i = map_option (\<lambda>path. apiPost path
     [(case rc_id_key cfg of Some k \<Rightarrow> if k = [] then js ''id'' else k | None \<Rightarrow> js ''id'', i)] False False) (rc_drop cfg)"

definition load_params :: "resource_config \<Rightarrow> jstr \<Rightarrow> jobj" where
  "load_params cfg query =
     (let params = [(js ''current'', JNum (num 1)),
            (js ''pageSize'', JNum (case rc_page_size cfg of Some n \<Rightarrow> num_or n (num 50) | None \<Rightarrow> num 50))]
      in case rc_search_key cfg of
           Some k \<Rightarrow> if trim query \<noteq> [] \<and> k \<noteq> [] then oput k (JStr (trim query)) params else params
         | None \<Rightarrow> params)"

text \<open>The values of the form as they are sent.\<close>

definition sent_value :: "jsv \<Rightarrow> jsv" where
  "sent_value v = (case v of
      JBool b \<Rightarrow> JNum (num (if b then 1 else 0)) | JStr s \<Rightarrow> safeJsonParse v None | _ \<Rightarrow> v)"

definition submit_payload :: "resource_config \<Rightarrow> jobj \<Rightarrow> jobj \<Rightarrow> jobj" where
  "submit_payload cfg editing values =
     (let payload = map (\<lambda>(k, v). (k, sent_value v)) (omerge editing values)
      in case rc_before_save cfg of Some f \<Rightarrow> f payload | None \<Rightarrow> payload)"

section \<open>Helpers of the resources\<close>

definition blank :: "jsv \<Rightarrow> bool" where
  "blank v \<longleftrightarrow> nullish v \<or> v = JStr []"

definition numeric_or :: "(jnum \<Rightarrow> jnum) \<Rightarrow> jsv \<Rightarrow> jsv" where
  "numeric_or f v = (if blank v \<or> \<not> is_finite (to_num v) then v else JNum (f (to_num v)))"

definition traffic_gb :: jnum where
  "traffic_gb = num (1024 * 1024 * 1024)"

definition planTrafficToGB :: "jsv \<Rightarrow> jsv" where
  "planTrafficToGB = numeric_or (\<lambda>n. if num_le traffic_gb n then str_num (to_fixed 2 (num_div n traffic_gb)) else n)"

definition centsToYuan :: "jsv \<Rightarrow> jsv" where
  "centsToYuan = numeric_or (\<lambda>n. str_num (to_fixed 2 (num_div n (num 100))))"

definition yuanToCents :: "jsv \<Rightarrow> jsv" where
  "yuanToCents = numeric_or (\<lambda>n. num_round (num_mul n (num 100)))"

definition planPriceFields :: "string list" where
  "planPriceFields =
     [''month_price'', ''quarter_price'', ''half_year_price'', ''year_price'', ''two_year_price'', ''three_year_price'',
      ''onetime_price'', ''reset_price'']"

definition plans_beforeSave :: "jobj \<Rightarrow> jobj" where
  "plans_beforeSave values =
     (let saved = oput (js ''force_update'') (JBool (truthy (oget (js ''force_update'') values))) values
      in fold (\<lambda>k saved. oput (js k) (yuanToCents (oget (js k) saved)) saved) planPriceFields saved)"

text \<open>\<open>split(/[\n,]+/)\<close>, trimmed, without the empty parts.\<close>

fun split_list :: "jstr \<Rightarrow> jstr list" where
  "split_list [] = [[]]"
| "split_list (c # s) =
     (if c = 10 \<or> c = 44 then [] # split_list s
      else (case split_list s of [] \<Rightarrow> [[c]] | p # ps \<Rightarrow> (c # p) # ps))"

definition jsonList :: "jsv \<Rightarrow> jsv list" where
  "jsonList value =
     (case safeJsonParse value (Some value) of
        JArr vs \<Rightarrow> vs
      | JStr s \<Rightarrow> map JStr (filter (\<lambda>x. x \<noteq> []) (map trim (split_list s)))
      | _ \<Rightarrow> [])"

definition with_lists :: "string list \<Rightarrow> jobj \<Rightarrow> jobj" where
  "with_lists ks values = fold (\<lambda>k saved. oput (js k) (JArr (jsonList (oget (js k) values))) saved) ks values"

definition notices_beforeSave :: "jobj \<Rightarrow> jobj" where
  "notices_beforeSave = with_lists [''tags'']"

definition coupons_beforeSave :: "jobj \<Rightarrow> jobj" where
  "coupons_beforeSave = with_lists [''limit_plan_ids'', ''limit_period'']"

definition payments_beforeSave :: "jobj \<Rightarrow> jobj" where
  "payments_beforeSave values =
     oput (js ''config'') (safeJsonParse (oget (js ''config'') values) (Some (JObj []))) values"

definition serverRoutes_beforeSave :: "jobj \<Rightarrow> jobj" where
  "serverRoutes_beforeSave = with_lists [''match'']"

definition clientEntry_beforeSave :: "jobj \<Rightarrow> jobj" where
  "clientEntry_beforeSave values = with_lists [''remote_exclude_names'', ''match'']
     (oput (js ''show'') (JNum (boolNumber (oget (js ''show'') values))) values)"

section \<open>The form of a row\<close>

text \<open>\<open>JSON.stringify(value, null, 2)\<close>; \<open>pad\<close> is the line break and the indentation of the enclosing value.\<close>

fun json_indented :: "jstr \<Rightarrow> jsv \<Rightarrow> jstr" where
  "json_indented pad (JArr vs) =
     (if vs = [] then js ''[]''
      else [91] @ pad @ [32, 32] @ join ([44] @ pad @ [32, 32]) (map (json_indented (pad @ [32, 32])) vs) @ pad @ [93])"
| "json_indented pad (JObj kvs) =
     (let shown = filter (\<lambda>(k, v). v \<noteq> JUndef) kvs
      in if shown = [] then js ''{}''
         else [123] @ pad @ [32, 32] @
           join ([44] @ pad @ [32, 32])
             (map (\<lambda>(k, v). quote k @ js '': '' @ json_indented (pad @ [32, 32]) v) shown) @ pad @ [125])"
| "json_indented pad v = json_str v"

text \<open>\<open>value.join('\n')\<close>.\<close>

definition lines_of :: "jsv list \<Rightarrow> jstr" where
  "lines_of vs = join [10] (map elem_str vs)"

definition initial_traffic :: "jsv \<Rightarrow> jsv" where
  "initial_traffic v =
     (if blank v \<or> \<not> num_le traffic_gb (to_num v) then v
      else JNum (str_num (to_fixed 2 (num_div (num_div (num_div (to_num v) (num 1024)) (num 1024)) (num 1024)))))"

definition initial_price :: "jsv \<Rightarrow> jsv" where
  "initial_price v = (if blank v then v else JNum (str_num (to_fixed 2 (num_div (to_num v) (num 100)))))"

definition initial_value :: "bool \<Rightarrow> field_config \<Rightarrow> jsv \<Rightarrow> jsv" where
  "initial_value plans field value =
     (let v = (case fc_type field of
            SwitchField \<Rightarrow> JBool (api_truthy value)
          | JsonField \<Rightarrow> if \<not> nullish value \<and> \<not> is_string value then JStr (json_indented [10] value) else value
          | TextareaField \<Rightarrow> (case value of JArr vs \<Rightarrow> JStr (lines_of vs) | _ \<Rightarrow> value)
          | _ \<Rightarrow> value)
      in if \<not> plans then v
         else if fc_name field = ''transfer_enable'' then initial_traffic v
         else if fc_name field \<in> set planPriceFields then initial_price v else v)"

text \<open>Assigning a value the row does not have leaves it \<open>undefined\<close>, which the form treats as absent.\<close>

definition prepareInitialValues :: "resource_config \<Rightarrow> jobj \<Rightarrow> jobj" where
  "prepareInitialValues cfg row = fold (\<lambda>field saved.
       let k = js (fc_name field); v = initial_value (rc_key cfg = ''plans'') field (oget k saved)
       in if v = JUndef then saved else oput k v saved) (rc_fields cfg) row"

lemma initial_values_keep_other_keys:
  "k \<notin> js ` fc_name ` set (rc_fields cfg) \<Longrightarrow> oget k (prepareInitialValues cfg row) = oget k row"
proof -
  have "k \<notin> js ` fc_name ` set fs \<Longrightarrow>
      oget k (fold (\<lambda>field saved. let l = js (fc_name field); v = initial_value p field (oget l saved)
         in if v = JUndef then saved else oput l v saved) fs r) = oget k r" for fs r p
    by (induction fs arbitrary: r) (auto simp: Let_def oget_oput)
  then show "k \<notin> js ` fc_name ` set (rc_fields cfg) \<Longrightarrow> ?thesis" by (simp add: prepareInitialValues_def)
qed

end
