(* ===== verification/PageTexts.thy ===== *)
theory PageTexts
  imports JsString
begin

text \<open>
  Display texts of the administrator pages outside ASCII, as UTF-16 code units. The comment of each gives its meaning.
\<close>

text \<open>the word for rule and a number sign\<close>

definition txt_rule_no :: jstr where
  "txt_rule_no =
    [35268, 21017, 32, 35]"

text \<open>the word for probe and a number sign\<close>

definition txt_probe_no :: jstr where
  "txt_probe_no =
    [25506, 38024, 32, 35]"

text \<open>spare address and a number sign\<close>

definition txt_backup_no :: jstr where
  "txt_backup_no =
    [22791, 29992, 32, 73, 80, 32, 35]"

text \<open>the suffix that marks a copy\<close>

definition txt_copy_suffix :: jstr where
  "txt_copy_suffix =
    [32, 45, 32, 21103, 26412]"

text \<open>place unknown\<close>

definition txt_place_unknown :: jstr where
  "txt_place_unknown =
    [20301, 32622, 26410, 30693]"

text \<open>city unknown\<close>

definition txt_city_unknown :: jstr where
  "txt_city_unknown =
    [22478, 24066, 26410, 30693]"

text \<open>no region matched\<close>

definition txt_no_region :: jstr where
  "txt_no_region =
    [26410, 21305, 37197, 21040, 22320, 21306]"

text \<open>the node has not reported the address of the user\<close>

definition txt_not_reported :: jstr where
  "txt_not_reported =
    [33410, 28857, 23578, 26410, 19978, 25253, 29992, 25143, 22320, 22336]"

text \<open>an old back end took the place for out of date\<close>

definition txt_location_stale :: jstr where
  "txt_location_stale =
    [26087, 29256, 21518, 31471, 23558, 20301, 32622, 21028, 20026, 36807, 26399, 65292,
     35831, 26356, 26032, 21518, 31471]"

text \<open>the time of the report is wrong\<close>

definition txt_invalid_timestamp :: jstr where
  "txt_invalid_timestamp =
    [20301, 32622, 19978, 25253, 26102, 38388, 24322, 24120]"

text \<open>the database of places is not ready\<close>

definition txt_database_unavailable :: jstr where
  "txt_database_unavailable =
    [31163, 32447, 23450, 20301, 24211, 26410, 23601, 32490]"

text \<open>the address cannot be read\<close>

definition txt_invalid_ip :: jstr where
  "txt_invalid_ip =
    [22320, 22336, 26684, 24335, 26080, 27861, 35782, 21035]"

text \<open>a private or reserved address\<close>

definition txt_non_public_ip :: jstr where
  "txt_non_public_ip =
    [20869, 32593, 25110, 20445, 30041, 22320, 22336]"

text \<open>the country is known, the province is not\<close>

definition txt_province_unknown :: jstr where
  "txt_province_unknown =
    [24050, 35782, 21035, 22269, 23478, 32, 47, 32, 22320, 21306, 65292, 30465, 20221,
     26410, 30693]"

text \<open>the province is known, the city is not\<close>

definition txt_province_only :: jstr where
  "txt_province_only =
    [24050, 35782, 21035, 30465, 20221, 65292, 22478, 24066, 26410, 30693]"

text \<open>a dot between two spaces\<close>

definition txt_between :: jstr where
  "txt_between =
    [32, 183, 32]"

end
