(* ===== verification/MonitorModel.thy ===== *)
theory MonitorModel
  imports JsJson JsSet PageTexts
begin

text \<open>
  \<open>pages/DNSFailoverEntryMonitorTab.tsx\<close>, the data: what the server sends about the monitored entries, made regular, the
  drafts an operator edits, the merge of a newer state into edited drafts, and the check before saving. A property that
  may be missing is read from the object the server sent; the fields the page sets itself are fields of a record.
\<close>

section \<open>Loose values\<close>

text \<open>\<open>...v\<close> inside an object.\<close>

definition spread_of :: "jsv \<Rightarrow> jobj" where
  "spread_of v = (case v of
      JObj kv \<Rightarrow> kv
    | JArr vs \<Rightarrow> map (\<lambda>(i, x). (digits_of (int i), x)) (enumerate 0 vs)
    | JStr s \<Rightarrow> map (\<lambda>(i, c). (digits_of (int i), JStr [c])) (enumerate 0 s)
    | _ \<Rightarrow> [])"

definition loose_list :: "jsv \<Rightarrow> jsv list" where
  "loose_list value =
     (case value of
        JArr vs \<Rightarrow> vs
      | JStr s \<Rightarrow> if trim s = [] then [] else (case json_parse s of Some (JArr vs) \<Rightarrow> vs | _ \<Rightarrow> [])
      | _ \<Rightarrow> [])"

definition numberValue :: "jsv \<Rightarrow> jnum \<Rightarrow> jnum" where
  "numberValue value fallback = (let parsed = to_num value in if is_finite parsed then parsed else fallback)"

abbreviation number0 :: "jsv \<Rightarrow> jnum" where
  "number0 v \<equiv> numberValue v (num 0)"

definition boolValue :: "jsv \<Rightarrow> bool \<Rightarrow> bool" where
  "boolValue value fallback =
     (if nullish value \<or> value = JStr [] then fallback
      else (case value of
          JBool b \<Rightarrow> b
        | _ \<Rightarrow> lower (trim (to_str value)) \<notin> set (map js [''0'', ''false'', ''off''])))"

definition uniqueIDs :: "jsv list \<Rightarrow> jnum list" where
  "uniqueIDs values = set_of (filter (num_lt (num 0)) (map number0 values))"

definition num_or_undef :: "jnum \<Rightarrow> jsv" where
  "num_or_undef n = (if num_truthy n then JNum n else JUndef)"

section \<open>Data\<close>

datatype policy_action = Override | Original | Hide

record entry_probe =
  pr_raw :: jobj
  pr_id :: jnum
  pr_name :: jstr
  pr_enabled :: bool

record entry_policy =
  py_raw :: jobj
  py_id :: jnum
  py_name :: jstr
  py_action :: policy_action
  py_entry_host :: jstr
  py_enabled :: bool
  py_members :: "jsv list"
  py_targets :: "jsv list"

record entry_target =
  tg_raw :: jobj
  tg_id :: jsv
  tg_source :: jstr \<comment> \<open>\<open>source_key\<close>\<close>
  tg_host :: jstr
  tg_port :: jnum
  tg_sort :: jnum
  tg_auto_split :: bool
  tg_states :: "jsv list"

record monitor_draft =
  md_policy :: jnum
  md_name :: jstr
  md_action :: policy_action
  md_enabled :: bool
  md_interval :: jnum
  md_timeout :: jnum
  md_failure :: jnum
  md_success :: jnum
  md_targets :: "entry_target list"

text \<open>A JavaScript object with numbers as keys.\<close>

type_synonym drafts = "jnum \<Rightarrow> monitor_draft option"

record monitor_payload =
  mp_revision :: jnum
  mp_policies :: "entry_policy list"
  mp_probes :: "entry_probe list"
  mp_drafts :: drafts
  mp_configured :: "jnum list"

definition default_port :: jnum where
  "default_port = num 54101"

definition normalizeAction :: "jsv \<Rightarrow> policy_action" where
  "normalizeAction value =
     (if value = JStr (js ''original'') then Original else if value = JStr (js ''hide'') then Hide else Override)"

definition action_value :: "policy_action \<Rightarrow> jsv" where
  "action_value a = JStr (case a of Override \<Rightarrow> js ''override'' | Original \<Rightarrow> js ''original'' | Hide \<Rightarrow> js ''hide'')"

definition or_text :: "jstr \<Rightarrow> jstr \<Rightarrow> jstr" where
  "or_text a b = (if a = [] then b else a)"

definition memberSourceKey :: "jsv \<Rightarrow> nat \<Rightarrow> jstr" where
  "memberSourceKey member index =
     (let explicit = trimmed (jprop member (js ''source_key''));
          serverType = lower (trimmed (jor (jprop member (js ''server_type'')) (jprop member (js ''type''))));
          serverID = number0 (coalesce (jprop member (js ''server_id'')) (jprop member (js ''id'')))
      in if explicit \<noteq> [] then explicit
         else if serverType \<noteq> [] \<and> num_lt (num 0) serverID then serverType @ [58] @ num_str serverID
         else js ''member:'' @ digits_of (int index + 1))"

definition memberHost :: "jsv \<Rightarrow> jstr" where
  "memberHost member =
     trimmed (jor (jprop member (js ''host'')) (jor (jprop member (js ''server_host'')) (jor (jprop member (js ''address''))
       (jor (jprop member (js ''entry_host'')) (jprop member (js ''dns_value''))))))"

definition normalizePolicy :: "jsv \<Rightarrow> entry_policy" where
  "normalizePolicy raw =
     \<lparr>py_raw = spread_of raw, py_id = number0 (jprop raw (js ''id'')),
      py_name = or_text (trimmed (jprop raw (js ''name''))) (txt_rule_no @ num_str (number0 (jprop raw (js ''id'')))),
      py_action = normalizeAction (jprop raw (js ''action'')),
      py_entry_host = trimmed (jprop raw (js ''entry_host'')),
      py_enabled = boolValue (jprop raw (js ''enabled'')) True,
      py_members = loose_list (jprop raw (js ''members'')),
      py_targets = loose_list (jprop raw (js ''targets''))\<rparr>"

definition or_number :: "jsv \<Rightarrow> jnum \<Rightarrow> jsv" where
  "or_number v n = coalesce v (JNum n)"

definition policy_target :: "nat \<Rightarrow> jsv \<Rightarrow> entry_target" where
  "policy_target index target =
     \<lparr>tg_raw = spread_of target, tg_id = jprop target (js ''id''),
      tg_source = trim (to_str (jor (jprop target (js ''source_key'')) (JStr (js ''target:'' @ digits_of (int index + 1))))),
      tg_host = trimmed (jprop target (js ''host'')),
      tg_port = numberValue (coalesce (jprop target (js ''port''))
        (or_number (jprop target (js ''suggested_port'')) default_port)) default_port,
      tg_sort = numberValue (jprop target (js ''sort'')) (num (int index)),
      tg_auto_split = boolValue (jprop target (js ''auto_split_enabled'')) False, tg_states = []\<rparr>"

definition plain_target :: "jstr \<Rightarrow> jstr \<Rightarrow> jnum \<Rightarrow> nat \<Rightarrow> entry_target" where
  "plain_target source host port index =
     \<lparr>tg_raw = [], tg_id = JUndef, tg_source = source, tg_host = host, tg_port = port, tg_sort = num (int index),
      tg_auto_split = False, tg_states = []\<rparr>"

definition member_target :: "nat \<Rightarrow> jsv \<Rightarrow> entry_target" where
  "member_target index member = plain_target (memberSourceKey member index) (memberHost member)
     (numberValue (jor (jprop member (js ''port'')) (jor (jprop member (js ''server_port'')) (JNum default_port))) default_port)
     index"

definition derivedPolicyTargets :: "entry_policy \<Rightarrow> entry_target list" where
  "derivedPolicyTargets policy =
     (if py_action policy = Hide then []
      else if py_targets policy \<noteq> [] then
        filter (\<lambda>t. tg_source t \<noteq> [] \<and> tg_host t \<noteq> []) (map (\<lambda>(i, t). policy_target i t) (enumerate 0 (py_targets policy)))
      else if py_action policy = Override then
        (let host = trim (py_entry_host policy)
         in if host = [] then [] else [plain_target (js ''entry_host'') host default_port 0])
      else filter (\<lambda>t. tg_host t \<noteq> []) (map (\<lambda>(i, m). member_target i m) (enumerate 0 (py_members policy))))"

definition normalizeState :: "jsv \<Rightarrow> jsv" where
  "normalizeState state = JObj (oput (js ''stale'') (JBool (boolValue (jprop state (js ''stale'')) False)) (spread_of state))"

definition normalizeTarget :: "nat \<Rightarrow> jsv \<Rightarrow> entry_target" where
  "normalizeTarget index raw =
     (let i = number0 (jprop raw (js ''id''))
      in \<lparr>tg_raw = spread_of raw, tg_id = num_or_undef i,
          tg_source = trim (to_str (jor (jprop raw (js ''source_key''))
            (JStr (js ''target:'' @ (if num_truthy i then num_str i else digits_of (int index + 1)))))),
          tg_host = trimmed (jprop raw (js ''host'')),
          tg_port = numberValue (or_number (jprop raw (js ''port'')) default_port) default_port,
          tg_sort = numberValue (jprop raw (js ''sort'')) (num (int index)),
          tg_auto_split = boolValue (jprop raw (js ''auto_split_enabled'')) False,
          tg_states = map normalizeState (loose_list (jprop raw (js ''states'')))\<rparr>)"

text \<open>\<open>sort((left, right) => left.sort - right.sort)\<close>, stable; the numbers are finite.\<close>

definition sort_value :: "entry_target \<Rightarrow> rat" where
  "sort_value t = (case tg_sort t of Fin q \<Rightarrow> q | _ \<Rightarrow> 0)"

definition sorted_targets :: "entry_target list \<Rightarrow> entry_target list" where
  "sorted_targets = sort_key sort_value"

definition configuredTargets :: "jsv \<Rightarrow> entry_target list" where
  "configuredTargets item =
     map (\<lambda>(i, t). normalizeTarget i t) (enumerate 0 (loose_list (jprop item (js ''targets''))))"

definition normalizeDraft :: "entry_policy \<Rightarrow> jsv \<Rightarrow> monitor_draft" where
  "normalizeDraft policy item =
     (let configured = configuredTargets item
      in \<lparr>md_policy = py_id policy,
          md_name = to_str (jor (jprop item (js ''policy_name'')) (JStr (py_name policy))),
          md_action = normalizeAction (jor (jprop item (js ''action'')) (action_value (py_action policy))),
          md_enabled = boolValue (jprop item (js ''enabled'')) True,
          md_interval = numberValue (jprop item (js ''check_interval_sec'')) (num 30),
          md_timeout = numberValue (jprop item (js ''tcp_timeout_ms'')) (num 5000),
          md_failure = numberValue (or_number (jprop item (js ''failure_threshold'')) (num 3)) (num 3),
          md_success = numberValue (or_number (jprop item (js ''success_threshold'')) (num 2)) (num 2),
          md_targets = sorted_targets (if configured \<noteq> [] then configured else derivedPolicyTargets policy)\<rparr>)"

definition isPolicySelectable :: "entry_policy \<Rightarrow> bool" where
  "isPolicySelectable policy \<longleftrightarrow>
     py_enabled policy \<and> py_action policy \<noteq> Hide \<and> derivedPolicyTargets policy \<noteq> []"

section \<open>The answer of the server\<close>

text \<open>A member that is \<open>null\<close> makes its address unreadable: the page throws where it derives targets from members.\<close>

definition members_readable :: "entry_policy \<Rightarrow> bool" where
  "members_readable policy \<longleftrightarrow>
     py_action policy \<noteq> Original \<or> py_targets policy \<noteq> [] \<or> list_all (\<lambda>m. \<not> nullish m) (py_members policy)"

definition item_of :: "jsv list \<Rightarrow> jnum \<Rightarrow> jsv" where
  "item_of items i =
     (case map_of (rev (map (\<lambda>item. (number0 (jprop item (js ''policy_id'')), item)) items)) i of
        None \<Rightarrow> JUndef | Some item \<Rightarrow> item)"

definition normalizeProbe :: "jsv \<Rightarrow> entry_probe" where
  "normalizeProbe probe =
     (let i = number0 (jprop probe (js ''id''))
      in \<lparr>pr_raw = spread_of probe, pr_id = i,
          pr_name = or_text (trimmed (jprop probe (js ''name''))) (txt_probe_no @ num_str i),
          pr_enabled = boolValue (jprop probe (js ''enabled'')) False\<rparr>)"

text \<open>\<open>None\<close> for an exception.\<close>

definition normalizeConfigurationPayload :: "jsv \<Rightarrow> monitor_payload option" where
  "normalizeConfigurationPayload raw =
     (let policies = filter (\<lambda>p. num_lt (num 0) (py_id p)) (map normalizePolicy (loose_list (jprop raw (js ''policies''))));
          items = loose_list (jprop raw (js ''items''));
          selectable = map py_id (filter isPolicySelectable policies)
      in if list_ex (\<lambda>p. \<not> members_readable p \<and> (configuredTargets (item_of items (py_id p)) = [] \<or> py_enabled p)) policies
         then None
         else Some \<lparr>mp_revision = number0 (jprop raw (js ''revision'')), mp_policies = policies,
           mp_probes = filter (\<lambda>p. num_lt (num 0) (pr_id p)) (map normalizeProbe (loose_list (jprop raw (js ''probes'')))),
           mp_drafts = fold (\<lambda>p d. d(py_id p := Some (normalizeDraft p (item_of items (py_id p))))) policies (\<lambda>_. None),
           mp_configured = filter (\<lambda>i. i \<in> set selectable)
             (uniqueIDs (map (\<lambda>item. jprop item (js ''policy_id'')) items))\<rparr>)"

section \<open>Merging a newer state into edited drafts\<close>

definition live_target :: "entry_target \<Rightarrow> entry_target \<Rightarrow> entry_target" where
  "live_target live target = target\<lparr>tg_id := tg_id live, tg_host := or_text (tg_host live) (tg_host target),
     tg_sort := tg_sort live, tg_states := tg_states live\<rparr>"

definition merge_targets :: "entry_target list \<Rightarrow> entry_target list \<Rightarrow> entry_target list" where
  "merge_targets existing incoming =
     (let bySource = map_of (rev (map (\<lambda>t. (tg_source t, t)) incoming))
      in sorted_targets (map (\<lambda>t. case bySource (tg_source t) of Some live \<Rightarrow> live_target live t | None \<Rightarrow> t) existing @
           filter (\<lambda>t. tg_source t \<notin> tg_source ` set existing) incoming))"

definition merge_draft :: "monitor_draft \<Rightarrow> monitor_draft \<Rightarrow> monitor_draft" where
  "merge_draft existing incoming = existing\<lparr>md_name := md_name incoming, md_action := md_action incoming,
     md_targets := merge_targets (md_targets existing) (md_targets incoming)\<rparr>"

definition mergeLiveState :: "drafts \<Rightarrow> drafts \<Rightarrow> drafts" where
  "mergeLiveState current incoming = (\<lambda>i.
     case incoming i of
       None \<Rightarrow> current i
     | Some d \<Rightarrow> (case current i of None \<Rightarrow> Some d | Some existing \<Rightarrow> Some (merge_draft existing d)))"

section \<open>The check before saving\<close>

datatype monitor_fault = NoTargets | BadInterval | BadTimeout | BadFailure | BadSuccess | BadTarget | BadTargetPort | NotALeaf

datatype monitor_error = PolicyGone | Faulty monitor_fault jstr

text \<open>\<open>/^policy:\d+:split-group:\d+$/\<close>.\<close>

definition isFixedSplitLeafTarget :: "entry_target \<Rightarrow> bool" where
  "isFixedSplitLeafTarget target \<longleftrightarrow>
     (let s = trim (tg_source target); r = drop 7 s; digits = takeWhile is_digit r; t = dropWhile is_digit r
      in starts_with s (js ''policy:'') \<and> digits \<noteq> [] \<and> starts_with t (js '':split-group:'') \<and>
         drop 13 t \<noteq> [] \<and> list_all is_digit (drop 13 t))"

definition out_of :: "jnum \<Rightarrow> int \<Rightarrow> int \<Rightarrow> bool" where
  "out_of n lo hi \<longleftrightarrow> num_lt n (num lo) \<or> num_lt (num hi) n"

definition draft_fault :: "monitor_draft \<Rightarrow> monitor_fault option" where
  "draft_fault d =
     (if md_targets d = [] then Some NoTargets
      else if out_of (md_interval d) 5 3600 then Some BadInterval
      else if out_of (md_timeout d) 100 60000 then Some BadTimeout
      else if \<not> is_integer (md_failure d) \<or> out_of (md_failure d) 2 10 then Some BadFailure
      else if \<not> is_integer (md_success d) \<or> out_of (md_success d) 1 10 then Some BadSuccess
      else if list_ex (\<lambda>t. tg_source t = [] \<or> tg_host t = []) (md_targets d) then Some BadTarget
      else if list_ex (\<lambda>t. out_of (tg_port t) 1 65535) (md_targets d) then Some BadTargetPort
      else if list_ex (\<lambda>t. tg_auto_split t \<and> \<not> isFixedSplitLeafTarget t) (md_targets d) then Some NotALeaf
      else None)"

definition policy_of :: "entry_policy list \<Rightarrow> jnum \<Rightarrow> entry_policy option" where
  "policy_of policies i = map_of (rev (map (\<lambda>p. (py_id p, p)) policies)) i"

fun monitor_validate :: "entry_policy list \<Rightarrow> jnum list \<Rightarrow> drafts \<Rightarrow> monitor_error option" where
  "monitor_validate policies [] drafts = None"
| "monitor_validate policies (i # ids) drafts =
     (case (drafts i, policy_of policies i) of
        (Some d, Some p) \<Rightarrow>
          if \<not> isPolicySelectable p then Some PolicyGone
          else (case draft_fault d of Some f \<Rightarrow> Some (Faulty f (py_name p)) | None \<Rightarrow> monitor_validate policies ids drafts)
      | _ \<Rightarrow> Some PolicyGone)"

definition target_item :: "entry_target \<Rightarrow> jsv" where
  "target_item t = JObj [(js ''source_key'', JStr (tg_source t)), (js ''port'', JNum (tg_port t)),
     (js ''auto_split_enabled'', JBool (tg_auto_split t))]"

definition monitor_item :: "jnum \<Rightarrow> monitor_draft \<Rightarrow> jobj" where
  "monitor_item i d =
     [(js ''policy_id'', JNum i), (js ''enabled'', JBool (md_enabled d)), (js ''check_interval_sec'', JNum (md_interval d)),
      (js ''tcp_timeout_ms'', JNum (md_timeout d)), (js ''failure_threshold'', JNum (md_failure d)),
      (js ''success_threshold'', JNum (md_success d)), (js ''targets'', JArr (map target_item (md_targets d)))]"

end
