(* ===== verification/NodeForms.thy ===== *)
theory NodeForms
  imports AdminForms MonitorModel
begin

text \<open>
  \<open>pages/ServerManage.tsx\<close>, the functions of the page of nodes: the values of the editor made of a node, the settings that
  are stored as JSON text, and what a node is saved with.
\<close>

section \<open>Lists and settings\<close>

definition listValue :: "jsv \<Rightarrow> jstr list" where
  "listValue value =
     (let parsed = safeJsonParse value (Some value)
      in case parsed of
           JArr vs \<Rightarrow> map to_str vs
         | _ \<Rightarrow> if blank parsed then [] else filter (\<lambda>s. s \<noteq> []) (map trim (split_list (to_str parsed))))"

definition maybeJSON :: "jsv \<Rightarrow> jsv" where
  "maybeJSON value = (if blank value then JNull else safeJsonParse value (Some value))"

definition formatTextJSON :: "jsv \<Rightarrow> jstr" where
  "formatTextJSON value =
     (if blank value then [] else case value of JStr s \<Rightarrow> s | _ \<Rightarrow> json_indented [10] value)"

text \<open>The rounds left of the loop, and whether this is the first round.\<close>

fun parse_deep :: "nat \<Rightarrow> bool \<Rightarrow> jsv \<Rightarrow> jsv \<Rightarrow> jsv" where
  "parse_deep (Suc n) first fallback (JStr s) =
     (let t = trim s
      in if t = [] then fallback
         else (case json_parse t of
             Some v \<Rightarrow> parse_deep n False fallback v
           | None \<Rightarrow> if first then safeJsonParse (JStr s) (Some fallback) else JStr s))"
| "parse_deep n first fallback v = v"

definition parseJSONDeep :: "jsv \<Rightarrow> jsv \<Rightarrow> jsv" where
  "parseJSONDeep value fallback = parse_deep 3 True fallback value"

definition jsonObjectFromField :: "jsv \<Rightarrow> jobj" where
  "jsonObjectFromField value = (case parseJSONDeep value (JObj []) of JObj o' \<Rightarrow> o' | _ \<Rightarrow> [])"

section \<open>Paths\<close>

datatype path_step = Key jstr | Item jstr nat

text \<open>\<open>/^(.+)\[(\d+)\]$/\<close>.\<close>

definition path_step :: "jstr \<Rightarrow> path_step" where
  "path_step key =
     (let body = rev (butlast key); digits = rev (takeWhile is_digit body); rest = dropWhile is_digit body
      in if key \<noteq> [] \<and> last key = 93 \<and> digits \<noteq> [] \<and> 2 \<le> length rest \<and> hd rest = 91
         then Item (rev (tl rest)) (nat (digits_value digits)) else Key key)"

fun read_step :: "path_step \<Rightarrow> jsv \<Rightarrow> jsv" where
  "read_step (Key k) current = jprop current k"
| "read_step (Item k i) current =
     (case jprop current k of JArr vs \<Rightarrow> if i < length vs then vs ! i else JUndef | _ \<Rightarrow> JUndef)"

definition readPath :: "jsv \<Rightarrow> jstr \<Rightarrow> jsv" where
  "readPath obj path = fold (\<lambda>key current. read_step (path_step key) current) (split_on 46 path) obj"

definition hasEntryRuleDSL :: "jsv \<Rightarrow> bool" where
  "hasEntryRuleDSL value \<longleftrightarrow> list_ex (\<lambda>c. c \<in> {44, 65292, 40, 41}) (trimmed value)"

definition setting_value :: "jsv \<Rightarrow> jstr \<Rightarrow> jsv" where
  "setting_value obj key = (if 46 \<in> set key \<or> 91 \<in> set key then readPath obj key else jprop obj key)"

definition first_value :: "jsv list \<Rightarrow> jsv" where
  "first_value vs = (case find (\<lambda>v. \<not> blank v) vs of None \<Rightarrow> JUndef | Some v \<Rightarrow> v)"

definition settingDisplayValue :: "jsv \<Rightarrow> jstr \<Rightarrow> jstr list \<Rightarrow> jsv" where
  "settingDisplayValue obj fieldKey aliases = first_value (map (setting_value obj) (fieldKey # aliases))"

section \<open>TLS settings\<close>

definition realityAliases :: "(string \<times> string list) list" where
  "realityAliases =
     [(''server_name'', [''serverName'', ''sni'', ''server_names[0]'', ''serverNames[0]'', ''reality.server_name'',
        ''reality.serverName'', ''reality.server_names[0]'', ''reality.serverNames[0]'',
        ''realitySettings.server_name'', ''realitySettings.serverName'', ''realitySettings.server_names[0]'',
        ''realitySettings.serverNames[0]'', ''settings.reality.server_name'', ''settings.reality.serverName'',
        ''settings.reality.serverNames[0]'']),
      (''dest'', [''server_address'', ''serverAddress'', ''target'', ''address'', ''reality.dest'',
        ''reality.server_address'', ''reality.serverAddress'', ''realitySettings.dest'',
        ''realitySettings.serverAddress'', ''settings.reality.dest'']),
      (''server_port'', [''serverPort'', ''target_port'', ''targetPort'', ''reality.server_port'', ''reality.serverPort'',
        ''reality.target_port'', ''reality.targetPort'', ''realitySettings.server_port'',
        ''realitySettings.serverPort'', ''settings.reality.serverPort'']),
      (''xver'', [''proxy_protocol'', ''proxyProtocol'', ''reality.xver'', ''realitySettings.xver'',
        ''settings.reality.xver'']),
      (''private_key'', [''privateKey'', ''reality.private_key'', ''reality.privateKey'', ''realitySettings.private_key'',
        ''realitySettings.privateKey'', ''settings.reality.privateKey'']),
      (''public_key'', [''publicKey'', ''pbk'', ''reality.public_key'', ''reality.publicKey'', ''reality.pbk'',
        ''realitySettings.public_key'', ''realitySettings.publicKey'', ''realitySettings.pbk'',
        ''settings.reality.publicKey'']),
      (''short_id'', [''shortId'', ''sid'', ''short_ids[0]'', ''shortIds[0]'', ''reality.short_id'', ''reality.shortId'',
        ''reality.sid'', ''reality.short_ids[0]'', ''reality.shortIds[0]'', ''realitySettings.short_id'',
        ''realitySettings.shortId'', ''realitySettings.short_ids[0]'', ''realitySettings.shortIds[0]'',
        ''settings.reality.shortIds[0]'']),
      (''fingerprint'', [''fp'', ''client_fingerprint'', ''clientFingerprint'', ''utls.fingerprint'', ''reality.fingerprint'',
        ''reality.fp'', ''realitySettings.fingerprint'', ''realitySettings.fp'']),
      (''allow_insecure'', [''allowInsecure'', ''insecure'', ''reality.allow_insecure'', ''reality.allowInsecure'',
        ''realitySettings.allowInsecure''])]"

text \<open>The first source is the target itself.\<close>

definition mergeAliasField :: "jsv list \<Rightarrow> string \<times> string list \<Rightarrow> jobj \<Rightarrow> jobj" where
  "mergeAliasField sources field target =
     (let (key, aliases) = field;
          v = first_value (map (\<lambda>source. settingDisplayValue source (js key) (map js aliases)) (JObj target # sources))
      in if \<not> blank (oget (js key) target) \<or> blank v then target else oput (js key) v target)"

definition tls_merged :: "jsv \<Rightarrow> jobj" where
  "tls_merged row =
     (let field = (\<lambda>k. jsonObjectFromField (jprop row (js k)));
          snake = field ''tls_settings''; camel = field ''tlsSettings'';
          sources = [JObj snake, JObj camel, JObj (field ''reality''), JObj (field ''reality_settings''),
            JObj (field ''realitySettings''), JObj (field ''settings''), jor row (JObj [])]
      in fold (mergeAliasField sources) realityAliases (omerge camel snake))"

definition normalizeTLSSettings :: "jsv \<Rightarrow> jsv" where
  "normalizeTLSSettings row =
     (if tls_merged row \<noteq> [] then JObj (tls_merged row)
      else coalesce (jprop row (js ''tls_settings'')) (jprop row (js ''tlsSettings'')))"

section \<open>The editor\<close>

definition strings :: "jstr list \<Rightarrow> jsv" where
  "strings ss = JArr (map JStr ss)"

definition normalizeInitial :: "jsv \<Rightarrow> jobj" where
  "normalizeInitial row =
     (let get = (\<lambda>k. jprop row (js k)); or_else = (\<lambda>k d. coalesce (get k) d);
          type = jor (get ''type'') (JStr (js ''v2node''));
          text_of = (\<lambda>v. JStr (formatTextJSON v))
      in omerge (spread_of row)
        [(js ''type'', type),
         (js ''protocol'', jor (get ''protocol'') (if type = JStr (js ''v2node'') then JStr (js ''vless'') else JUndef)),
         (js ''rate'', or_else ''rate'' (JNum (num 1))), (js ''show'', or_else ''show'' (JNum (num 1))),
         (js ''client_entry_only'', JBool (to_num (jor (get ''client_entry_only'') (JNum (num 0))) \<noteq> num 0)),
         (js ''tls'', or_else ''tls'' (JNum (num 0))), (js ''network'', or_else ''network'' (JStr (js ''tcp''))),
         (js ''group_id'', strings (listValue (get ''group_id''))), (js ''route_id'', strings (listValue (get ''route_id''))),
         (js ''tags'', strings (listValue (get ''tags''))),
         (js ''network_settings'', text_of (coalesce (get ''network_settings'') (get ''networkSettings''))),
         (js ''tls_settings'', text_of (normalizeTLSSettings row)),
         (js ''encryption_settings'', text_of (get ''encryption_settings'')),
         (js ''padding_scheme'', text_of (get ''padding_scheme'')), (js ''ddns_settings'', text_of (get ''ddns_settings''))])"

definition derived_fields :: "jstr list" where
  "derived_fields = map js [''type'', ''available_status'', ''online'', ''last_check_at'', ''last_push_at'', ''entry_group_name'',
     ''entry_group_names'', ''entry_group_options'', ''install_command'', ''send_through'']"

definition json_fields :: "jstr list" where
  "json_fields = map js [''network_settings'', ''tls_settings'', ''encryption_settings'', ''padding_scheme'', ''ddns_settings'']"

definition node_type :: "jobj \<Rightarrow> jsv \<Rightarrow> jsv" where
  "node_type values edit = jor (oget (js ''type'') values) (jprop edit (js ''type''))"

definition parse_setting :: "jstr \<Rightarrow> jobj \<Rightarrow> jobj" where
  "parse_setting k p = (if oget k p = JUndef then p else oput k (maybeJSON (oget k p)) p)"

definition show_flag :: "jobj \<Rightarrow> jobj" where
  "show_flag p = (case oget (js ''show'') p of JBool b \<Rightarrow> oput (js ''show'') (JNum (num (if b then 1 else 0))) p | _ \<Rightarrow> p)"

definition entry_only_flag :: "jsv \<Rightarrow> jsv" where
  "entry_only_flag v = JNum (num (if v = JBool True \<or> to_num (jor v (JNum (num 0))) \<noteq> num 0 then 1 else 0))"

definition list_field :: "string \<Rightarrow> jobj \<Rightarrow> jobj" where
  "list_field k p = oput (js k) (strings (listValue (oget (js k) p))) p"

definition normalizePayload :: "jobj \<Rightarrow> jsv \<Rightarrow> jobj" where
  "normalizePayload values edit =
     (let p = fold odel derived_fields (omerge (spread_of edit) values);
          q = list_field ''tags'' (list_field ''route_id'' (list_field ''group_id'' p));
          r = show_flag (fold parse_setting json_fields q);
          t = oput (js ''client_entry_only'') (entry_only_flag (oget (js ''client_entry_only'') r)) r
      in if node_type values edit = JStr (js ''v2node'') then t else odel (js ''listen_ip'') (odel (js ''protocol'') t))"

definition common_defaults :: "jstr \<Rightarrow> jobj" where
  "common_defaults type =
     [(js ''type'', JStr type), (js ''show'', JNum (num 1)), (js ''client_entry_only'', JBool False), (js ''rate'', JNum (num 1)),
      (js ''port'', JStr (js ''443'')), (js ''server_port'', JNum (num 443)), (js ''group_id'', JArr []), (js ''route_id'', JArr []),
      (js ''tags'', JArr [])]"

definition baseDefaults :: "jstr \<Rightarrow> jobj" where
  "baseDefaults type =
     (let zero = JNum (num 0); words = (\<lambda>s. JStr (js s)); hundred = JNum (num 100)
      in omerge (common_defaults type)
       (if type = js ''v2node'' then
          [(js ''protocol'', words ''vless''), (js ''network'', words ''tcp''), (js ''tls'', zero), (js ''disable_sni'', zero),
           (js ''zero_rtt_handshake'', zero), (js ''flow'', JNull), (js ''ddns_settings'', JStr []), (js ''install_command'', JStr [])]
        else if type = js ''vless'' then [(js ''network'', words ''tcp''), (js ''tls'', zero), (js ''flow'', JNull)]
        else if type = js ''vmess'' then [(js ''network'', words ''tcp''), (js ''tls'', zero)]
        else if type = js ''trojan'' then [(js ''network'', words ''tcp''), (js ''allow_insecure'', zero), (js ''server_name'', JStr [])]
        else if type = js ''shadowsocks'' then [(js ''cipher'', words ''aes-128-gcm'')]
        else if type = js ''hysteria'' then
          [(js ''version'', JNum (num 2)), (js ''up_mbps'', hundred), (js ''down_mbps'', hundred), (js ''insecure'', zero)]
        else if type = js ''tuic'' then
          [(js ''insecure'', zero), (js ''disable_sni'', zero), (js ''udp_relay_mode'', words ''native''),
           (js ''zero_rtt_handshake'', zero), (js ''congestion_control'', words ''cubic'')]
        else if type = js ''anytls'' then [(js ''network'', JUndef), (js ''insecure'', zero), (js ''padding_scheme'', JStr [])]
        else []))"

section \<open>Fields of the editor that write other fields\<close>

definition protocol_chosen :: "jstr \<Rightarrow> jsv \<Rightarrow> jobj" where
  "protocol_chosen protocol congestion =
     (let base = (js ''protocol'', JStr protocol) #
            (if protocol \<in> set (map js [''anytls'', ''hysteria2'', ''trojan'', ''tuic'', ''juicity'']) then [(js ''tls'', JNum (num 1))] else [])
      in if protocol = js ''juicity''
         then base @ [(js ''network'', JUndef), (js ''congestion_control'', jor congestion (JStr (js ''bbr'')))]
         else if protocol = js ''mieru''
         then base @ [(js ''tls'', JNum (num 0)), (js ''network'', JUndef),
           (js ''network_settings'', JStr (json_indented [10] (JObj [(js ''transport'', JStr (js ''TCP'')), (js ''mtu'', JNum (num 1400))])))]
         else base)"

definition changed_setting :: "jstr \<Rightarrow> jsv \<Rightarrow> jobj \<Rightarrow> jobj" where
  "changed_setting key value obj = (if blank value then odel key obj else oput key value obj)"

definition mieru_setting :: "jstr \<Rightarrow> jsv \<Rightarrow> jsv \<Rightarrow> jstr" where
  "mieru_setting key value raw = json_indented [10] (JObj (changed_setting key value (jsonObjectFromField raw)))"

definition settings_text :: "jstr \<Rightarrow> jsv \<Rightarrow> jsv \<Rightarrow> jstr" where
  "settings_text key value raw =
     (let obj = changed_setting key value (jsonObjectFromField raw) in if obj = [] then [] else json_indented [10] (JObj obj))"

definition switched_on :: "jsv \<Rightarrow> bool" where
  "switched_on v \<longleftrightarrow> v \<in> {JBool True, JStr (js ''1''), JNum (num 1)}"

definition ddns_enabled :: "jobj \<Rightarrow> bool" where
  "ddns_enabled settings \<longleftrightarrow> switched_on (oget (js ''ddns_enabled'') settings) \<or> switched_on (oget (js ''enabled'') settings)"

definition block_enabled :: "jobj \<Rightarrow> bool" where
  "block_enabled settings \<longleftrightarrow> switched_on (oget (js ''block_check_enabled'') settings)"

definition tls_template :: jobj where
  "tls_template = map (\<lambda>(k, v). (js k, JStr (js v)))
     [(''server_name'', []), (''cert_mode'', ''self''), (''provider'', []), (''dns_env'', []), (''reject_unknown_sni'', ''0''),
      (''allow_insecure'', ''0'')]"

definition encryption_template :: jobj where
  "encryption_template =
     [(js ''mode'', JStr (js ''native'')), (js ''rtt'', JStr (js ''0rtt'')), (js ''ticket'', JStr (js ''600s''))] @
     map (\<lambda>k. (js k, JNull)) [''server_padding'', ''client_padding'', ''private_key'', ''password'']"

text \<open>What the editor of a part writes when it finds nothing: the text of a template.\<close>

definition part_text :: "jobj \<Rightarrow> jsv \<Rightarrow> jsv" where
  "part_text template raw = (if trimmed raw = [] then JStr (json_indented [10] (JObj template)) else raw)"

section \<open>What is saved\<close>

definition is_strings :: "jsv \<Rightarrow> bool" where
  "is_strings v \<longleftrightarrow> (case v of JArr vs \<Rightarrow> list_all is_string vs | _ \<Rightarrow> False)"

lemma is_strings_strings [simp]: "is_strings (strings ss)"
  by (simp add: is_strings_def strings_def list_all_iff is_string_def)

lemma ohas_odel [simp]: "ohas k (odel l obj) \<longleftrightarrow> k \<noteq> l \<and> ohas k obj"
  by (simp add: ohas_iff)

lemma ohas_odels: "ohas k (fold odel ks obj) \<longleftrightarrow> k \<notin> set ks \<and> ohas k obj"
  by (induction ks arbitrary: obj) auto

lemma ohas_list_field [simp]: "ohas k (list_field f p) \<longleftrightarrow> k = js f \<or> ohas k p"
  by (simp add: list_field_def)

lemma oget_list_field [simp]: "oget k (list_field f p) = (if k = js f then strings (listValue (oget k p)) else oget k p)"
  by (simp add: list_field_def)

lemma oget_parse_setting:
  "oget k (parse_setting l p) = (if k = l \<and> oget k p \<noteq> JUndef then maybeJSON (oget k p) else oget k p)"
  by (cases "k = l") (simp_all add: parse_setting_def)

lemma ohas_parse_setting: "ohas k (parse_setting l p) \<longleftrightarrow> ohas k p"
  by (auto simp: parse_setting_def ohas_iff oget_def split: option.splits)

lemma oget_settings_other: "k \<notin> set ks \<Longrightarrow> oget k (fold parse_setting ks p) = oget k p"
  by (induction ks arbitrary: p) (simp_all add: oget_parse_setting)

lemma ohas_settings [simp]: "ohas k (fold parse_setting ks p) \<longleftrightarrow> ohas k p"
  by (induction ks arbitrary: p) (simp_all add: ohas_parse_setting)

lemma oget_settings_parsed:
  "distinct ks \<Longrightarrow> k \<in> set ks \<Longrightarrow> oget k (fold parse_setting ks p) = (if oget k p = JUndef then JUndef else maybeJSON (oget k p))"
  by (induction ks arbitrary: p) (auto simp: oget_parse_setting oget_settings_other)

lemma ohas_show_flag [simp]: "ohas k (show_flag p) \<longleftrightarrow> ohas k p"
  by (auto simp: show_flag_def ohas_iff oget_def split: jsv.split option.splits)

lemma oget_show_flag: "k \<noteq> js ''show'' \<Longrightarrow> oget k (show_flag p) = oget k p"
  by (simp add: show_flag_def split: jsv.split)

lemma show_flag_number: "oget (js ''show'') (show_flag p) \<noteq> JBool b"
  by (simp add: show_flag_def split: jsv.split)

text \<open>A body without the fields the server derives, with lists of strings where lists are meant and the two switches as numbers;
  the fields of a v2node only for a v2node.\<close>

definition clean_payload :: "jsv \<Rightarrow> jobj \<Rightarrow> bool" where
  "clean_payload type p \<longleftrightarrow>
     list_all (\<lambda>k. \<not> ohas k p) derived_fields \<and>
     list_all (\<lambda>k. is_strings (oget (js k) p)) [''group_id'', ''route_id'', ''tags''] \<and>
     oget (js ''client_entry_only'') p \<in> {JNum (num 0), JNum (num 1)} \<and>
     oget (js ''show'') p \<notin> {JBool True, JBool False} \<and>
     (if type = JStr (js ''v2node'') then True else \<not> ohas (js ''protocol'') p \<and> \<not> ohas (js ''listen_ip'') p)"

lemma payload_clean: "clean_payload (node_type values edit) (normalizePayload values edit)"
proof -
  let ?q = "list_field ''tags'' (list_field ''route_id'' (list_field ''group_id'' (fold odel derived_fields (omerge (spread_of edit) values))))"
  let ?r = "show_flag (fold parse_setting json_fields ?q)"
  have lists: "is_strings (oget (js k) ?r)" if "k \<in> {''group_id'', ''route_id'', ''tags''}" for k
  proof -
    have "js k \<noteq> js ''show''" "js k \<notin> set json_fields" using that by (auto simp: json_fields_def)
    then show ?thesis using that by (auto simp: oget_show_flag oget_settings_other)
  qed
  have gone: "\<not> ohas k ?r" if "k \<in> set derived_fields" for k
    using that by (auto simp: ohas_odels derived_fields_def)
  have keys: "js ''client_entry_only'' \<notin> set derived_fields" by (simp add: derived_fields_def)
  show ?thesis
    using lists gone keys show_flag_number [of "fold parse_setting json_fields ?q"]
    by (auto simp: clean_payload_def normalizePayload_def Let_def list_all_iff entry_only_flag_def)
qed

section \<open>The port of the node in its TLS settings\<close>

definition port_aliases :: "string list" where
  "port_aliases = [''serverPort'', ''target_port'', ''targetPort'', ''reality.server_port'', ''reality.serverPort'', ''reality.target_port'',
     ''reality.targetPort'', ''realitySettings.server_port'', ''realitySettings.serverPort'', ''settings.reality.serverPort'']"

lemma realityAliases_split:
  obtains before after where "realityAliases = before @ (''server_port'', port_aliases) # after"
    "''server_port'' \<notin> fst ` set before \<union> fst ` set after"
    "fst ` set before \<inter> {''serverPort'', ''target_port'', ''targetPort'', ''reality'', ''realitySettings'', ''settings''} = {}"
  by (rule that [of "take 2 realityAliases" "drop 3 realityAliases"]) (simp_all add: realityAliases_def port_aliases_def)

lemma merge_other: "l \<noteq> js (fst field) \<Longrightarrow> oget l (mergeAliasField sources field target) = oget l target"
  by (cases field) (simp add: mergeAliasField_def Let_def)

lemma merges_other: "l \<notin> js ` fst ` set fs \<Longrightarrow> oget l (fold (mergeAliasField sources) fs target) = oget l target"
  by (induction fs arbitrary: target) (simp_all add: merge_other)

lemma paths_read:
  "path_step (js k) = Key (js k)" if "k \<in> {''reality'', ''realitySettings'', ''settings'', ''server_port'', ''serverPort'', ''target_port'', ''targetPort''}"
proof -
  have "list_all (\<lambda>k. path_step (js k) = Key (js k))
      [''reality'', ''realitySettings'', ''settings'', ''server_port'', ''serverPort'', ''target_port'', ''targetPort'']"
    by code_simp
  then show ?thesis using that by auto
qed

definition port_unset :: "jobj \<Rightarrow> bool" where
  "port_unset obj \<longleftrightarrow> list_all (\<lambda>k. oget (js k) obj = JUndef)
     [''server_port'', ''serverPort'', ''target_port'', ''targetPort'', ''reality'', ''realitySettings'', ''settings'']"

lemma readPath_unset: "split_on 46 path = k # ks \<Longrightarrow> path_step k = Key k \<Longrightarrow> oget k obj = JUndef \<Longrightarrow> readPath (JObj obj) path = JUndef"
proof -
  have "fold (\<lambda>key current. read_step (path_step key) current) ks JUndef = JUndef" for ks
  proof (induction ks)
    case (Cons k ks)
    then show ?case by (cases "path_step k") simp_all
  qed simp
  then show "split_on 46 path = k # ks \<Longrightarrow> path_step k = Key k \<Longrightarrow> oget k obj = JUndef \<Longrightarrow> readPath (JObj obj) path = JUndef"
    by (simp add: readPath_def)
qed

lemma port_alias_heads:
  "list_all (\<lambda>a. (46 \<notin> set (js a) \<and> 91 \<notin> set (js a) \<and> a \<in> {''serverPort'', ''target_port'', ''targetPort''}) \<or>
     (46 \<in> set (js a) \<and> hd (split_on 46 (js a)) \<in> js ` {''reality'', ''realitySettings'', ''settings''})) port_aliases"
  by code_simp

lemma setting_unset:
  assumes "port_unset obj" "a \<in> set port_aliases"
  shows "setting_value (JObj obj) (js a) = JUndef"
proof (cases "46 \<in> set (js a)")
  case True
  then have "hd (split_on 46 (js a)) \<in> js ` {''reality'', ''realitySettings'', ''settings''}"
    using port_alias_heads assms(2) by (auto simp: list_all_iff)
  then obtain k where k: "hd (split_on 46 (js a)) = js k" "k \<in> {''reality'', ''realitySettings'', ''settings''}" by auto
  have "split_on 46 (js a) = js k # tl (split_on 46 (js a))"
    using k(1) split_on_nonempty [of 46 "js a"] by (metis list.collapse)
  moreover have "path_step (js k) = Key (js k)" using k(2) by (intro paths_read) auto
  moreover have "oget (js k) obj = JUndef" using assms(1) k(2) by (auto simp: port_unset_def)
  ultimately show ?thesis using True by (simp add: setting_value_def readPath_unset)
next
  case False
  then have "91 \<notin> set (js a)" "a \<in> {''serverPort'', ''target_port'', ''targetPort''}"
    using port_alias_heads assms(2) by (auto simp: list_all_iff)
  then show ?thesis using False assms(1) by (auto simp: setting_value_def port_unset_def)
qed

lemma first_value_blank: "(\<And>v. v \<in> set vs \<Longrightarrow> blank v) \<Longrightarrow> first_value vs = JUndef"
  by (auto simp: first_value_def split: option.split dest: find_Some_in)

lemma port_unset_value:
  assumes "port_unset obj"
  shows "settingDisplayValue (JObj obj) (js ''server_port'') (map js port_aliases) = JUndef"
proof -
  have "setting_value (JObj obj) (js ''server_port'') = JUndef"
    using assms by (simp add: setting_value_def port_unset_def js_def)
  then show ?thesis
    using setting_unset [OF assms] unfolding settingDisplayValue_def by (intro first_value_blank) (auto simp: blank_def)
qed

lemma no_object [simp]: "jsonObjectFromField JUndef = []"
  by (simp add: jsonObjectFromField_def parseJSONDeep_def numeral_3_eq_3)

lemma object_field [simp]: "jsonObjectFromField (JObj obj) = obj"
  by (simp add: jsonObjectFromField_def parseJSONDeep_def numeral_3_eq_3)

lemma first_value_skip: "\<forall>v \<in> set us. v = JUndef \<Longrightarrow> \<not> blank v \<Longrightarrow> first_value (us @ v # vs) = v"
  by (induction us) (simp_all add: first_value_def blank_def)

lemma merge_port:
  assumes "port_unset target" "\<forall>s \<in> set unset. \<exists>obj. s = JObj obj \<and> port_unset obj" "\<not> blank (jprop row (js ''server_port''))"
  shows "oget (js ''server_port'') (mergeAliasField (unset @ [row]) (''server_port'', port_aliases) target) = jprop row (js ''server_port'')"
proof -
  have none: "settingDisplayValue s (js ''server_port'') (map js port_aliases) = JUndef" if "s \<in> set (JObj target # unset)" for s
    using assms(1,2) that port_unset_value by auto
  have own: "settingDisplayValue row (js ''server_port'') (map js port_aliases) = jprop row (js ''server_port'')"
    using assms(3) by (simp add: settingDisplayValue_def first_value_def setting_value_def js_def)
  have "first_value (map (\<lambda>s. settingDisplayValue s (js ''server_port'') (map js port_aliases)) (JObj target # unset @ [row])) =
      jprop row (js ''server_port'')"
    using first_value_skip [of "map (\<lambda>s. settingDisplayValue s (js ''server_port'') (map js port_aliases)) (JObj target # unset)"
      "jprop row (js ''server_port'')" "[]"] none own assms(3) by simp
  then show ?thesis using assms(1,3) by (simp add: mergeAliasField_def Let_def port_unset_def blank_def)
qed

definition no_port :: "jobj \<Rightarrow> bool" where
  "no_port obj \<longleftrightarrow> list_all (\<lambda>k. \<not> ohas (js k) obj)
     [''server_port'', ''serverPort'', ''target_port'', ''targetPort'', ''reality'', ''realitySettings'', ''settings'']"

lemma not_ohas: "\<not> ohas k obj \<Longrightarrow> oget k obj = JUndef"
  by (simp add: ohas_iff oget_def)

lemma ohas_set: "ohas k obj \<longleftrightarrow> k \<in> fst ` set obj"
  by (auto simp: ohas_iff map_of_eq_None_iff)

lemma ohas_omerge: "ohas k (omerge a b) \<longleftrightarrow> ohas k a \<or> ohas k b"
  by (simp add: ohas_set fst_omerge)

lemma no_port_unset: "no_port obj \<Longrightarrow> port_unset (omerge [] obj) \<and> port_unset obj"
  by (simp add: no_port_def port_unset_def not_ohas ohas_omerge)

text \<open>C39: opening a node whose TLS settings name no port puts the port the node itself listens on into them, as the port of the
  server that REALITY imitates: the fields of the whole node are looked through for settings.\<close>
theorem node_port_taken:
  assumes "oget (js ''tls_settings'') node = JObj tls" "no_port tls"
    "list_all (\<lambda>k. oget (js k) node = JUndef) [''tlsSettings'', ''reality'', ''reality_settings'', ''realitySettings'', ''settings'']"
    "\<not> blank (oget (js ''server_port'') node)"
  shows "jprop (normalizeTLSSettings (JObj node)) (js ''server_port'') = oget (js ''server_port'') node"
proof -
  define unset where "unset = [JObj tls, JObj [], JObj [], JObj [], JObj [], JObj []]"
  obtain before after where split: "realityAliases = before @ (''server_port'', port_aliases) # after"
      "''server_port'' \<notin> fst ` set before \<union> fst ` set after"
      "fst ` set before \<inter> {''serverPort'', ''target_port'', ''targetPort'', ''reality'', ''realitySettings'', ''settings''} = {}"
    by (rule realityAliases_split)
  define target where "target = fold (mergeAliasField (unset @ [JObj node])) before (omerge [] tls)"
  have kept: "oget (js k) target = oget (js k) (omerge [] tls)" if "k \<notin> fst ` set before" for k
    unfolding target_def using that by (intro merges_other) force
  have "oget (js k) target = JUndef"
    if "k \<in> {''server_port'', ''serverPort'', ''target_port'', ''targetPort'', ''reality'', ''realitySettings'', ''settings''}" for k
  proof -
    have "k \<notin> fst ` set before" using split(2,3) that unfolding disjoint_iff by (metis Un_iff insert_iff)
    moreover have "oget (js k) (omerge [] tls) = JUndef"
      using no_port_unset [OF assms(2)] that by (auto simp: port_unset_def)
    ultimately show ?thesis by (simp add: kept)
  qed
  then have free: "port_unset target" by (simp add: port_unset_def)
  have "\<forall>s \<in> set unset. \<exists>obj. s = JObj obj \<and> port_unset obj"
    using no_port_unset [OF assms(2)] by (auto simp: unset_def) (simp add: port_unset_def)
  then have port: "oget (js ''server_port'') (mergeAliasField (unset @ [JObj node]) (''server_port'', port_aliases) target) =
      oget (js ''server_port'') node"
    using free assms(4) by (subst merge_port) auto
  have "node \<noteq> []" using assms(4) by (auto simp: blank_def)
  then have "tls_merged (JObj node) = fold (mergeAliasField (unset @ [JObj node])) realityAliases (omerge [] tls)"
    using assms(1,3) by (simp add: tls_merged_def Let_def jor_def truthy_def unset_def)
  also have "\<dots> = fold (mergeAliasField (unset @ [JObj node])) after (mergeAliasField (unset @ [JObj node]) (''server_port'', port_aliases) target)"
    by (simp add: split(1) target_def)
  finally have "oget (js ''server_port'') (tls_merged (JObj node)) = oget (js ''server_port'') node"
    using split(2) port by (simp add: merges_other image_iff)
  then show ?thesis using assms(4) by (auto simp: normalizeTLSSettings_def blank_def)
qed

lemma node_port_taken_witness:
  "jprop (normalizeTLSSettings (JObj [(js ''server_port'', JNum (num 8443)),
     (js ''tls_settings'', JObj [(js ''server_name'', JStr (js ''a.example''))])])) (js ''server_port'') = JNum (num 8443)"
proof -
  have "no_port [(js ''server_name'', JStr (js ''a.example''))]" by code_simp
  then show ?thesis by (subst node_port_taken) (simp_all add: oget_cons blank_def)
qed

end
