(* ===== verification/PageKit.thy ===== *)
theory PageKit
  imports EntryLayout
begin

text \<open>
  What the pages share: moving a row of a list (\<open>moveItem\<close> of \<open>lib/drag.ts\<close> on the items a list has) and facts on the objects that
  the form library and the spread operator make.
\<close>

section \<open>Moving a row\<close>

definition move_row :: "jsv list \<Rightarrow> nat \<Rightarrow> nat \<Rightarrow> jsv list" where
  "move_row rows i j = map the (moveItem (map Some rows) (int i) (int j))"

lemma map_insert_at: "map f (insert_at i x xs) = insert_at i (f x) (map f xs)"
  by (simp add: insert_at_def take_map drop_map)

lemma map_remove_at: "map f (remove_at i xs) = remove_at i (map f xs)"
  by (simp add: remove_at_def take_map drop_map)

lemma move_row_eq:
  assumes "i < length rows" "j < length rows" "i \<noteq> j"
  shows "move_row rows i j = insert_at j (rows ! i) (remove_at i rows)"
proof -
  have len: "length (remove_at i (map Some rows)) = length rows - 1" using assms(1) by simp
  have j: "min (length rows - 1) j = j" using assms(2) by linarith
  show ?thesis
    using assms len j
    by (simp add: move_row_def moveItem_def splice_start_def Let_def map_insert_at map_remove_at comp_def)
qed

lemma find_key:
  assumes "distinct (map f xs)" "i < length xs"
  shows "find_index (\<lambda>x. f x = f (xs ! i)) xs = Some i"
  using assms by (induction xs arbitrary: i) (auto simp: nth_Cons split: nat.splits)

section \<open>Objects\<close>

lemma oget_omerge_hit:
  assumes "distinct (map fst b)" "k \<in> fst ` set b"
  shows "oget k (omerge a b) = oget k b"
proof -
  obtain v where "map_of b k = Some v" using assms(2) by (metis map_of_eq_None_iff not_None_eq)
  then show ?thesis using assms(1) by (simp add: oget_def map_of_omerge)
qed

lemma oget_obj_of_map: "k \<in> set ks \<Longrightarrow> inj f \<Longrightarrow> oget (f k) (obj_of (map (\<lambda>k. (f k, g k)) ks)) = g k"
  by (induction ks rule: rev_induct) (auto simp: obj_of_def omerge_append omerge_Cons inj_eq)

lemma fst_obj_of: "fst ` set (obj_of kvs) = fst ` set kvs"
  by (simp add: obj_of_def fst_omerge)

lemma js_inj: "inj js"
  by (simp add: inj_def)

lemma get_merged: "distinct (map fst b) \<Longrightarrow> oget k (omerge a b) = (if k \<in> fst ` set b then oget k b else oget k a)"
proof (cases "map_of b k")
  case None
  then have "k \<notin> fst ` set b" by (simp add: map_of_eq_None_iff)
  then show "distinct (map fst b) \<Longrightarrow> ?thesis" using None by (simp add: oget_def map_of_omerge map_add_def)
next
  case (Some v)
  then have "k \<in> fst ` set b" by (force dest: map_of_SomeD)
  then show "distinct (map fst b) \<Longrightarrow> ?thesis" using Some by (simp add: oget_def map_of_omerge map_add_def)
qed

end
