(* ===== verification/NodePage.thy ===== *)
theory NodePage
  imports NodeForms PageKit JsRound
begin

text \<open>
  The page of nodes (\<open>pages/ServerManage.tsx\<close>, the component exported last) as a state machine: the list with its search and its
  order, the editor with the fields it registers and the editor of a part, the changes of many addresses. Answers arrive in any
  order. The form library is a parameter: which values its \<open>required\<close> rules accept.
\<close>

section \<open>The fields of the editor\<close>

definition externalV2nodeProtocols :: "jstr list" where
  "externalV2nodeProtocols = map js [''juicity'', ''mieru'']"

definition genericNetworks :: "jstr list" where
  "genericNetworks = map js [''tcp'', ''ws'', ''grpc'', ''kcp'', ''httpupgrade'', ''xhttp'']"

definition one_of :: "string list \<Rightarrow> jsv \<Rightarrow> bool" where
  "one_of ss v \<longleftrightarrow> v \<in> JStr ` js ` set ss"

definition actualProtocol :: "jsv \<Rightarrow> jsv \<Rightarrow> jsv" where
  "actualProtocol type protocol = (if type = JStr (js ''v2node'') then protocol else type)"

definition network_choices :: "jsv \<Rightarrow> jstr list" where
  "network_choices actual =
     (if actual = JStr (js ''shadowsocks'') then map js [''tcp'', ''http'']
      else filter (\<lambda>n. actual \<noteq> JStr (js ''trojan'') \<or> n \<in> set (map js [''tcp'', ''ws'', ''grpc''])) genericNetworks)"

definition tls_choices :: "jsv \<Rightarrow> jsv \<Rightarrow> int list" where
  "tls_choices type actual =
     (if one_of [''vless'', ''vmess''] actual then [0] else []) @ [1] @
     (if one_of [''vless''] actual \<or> one_of [''v2node''] type \<and> one_of [''anytls''] actual then [2] else [])"

text \<open>The fields of the form that depend on the type and the protocol of the node, by name.\<close>

definition protocol_fields :: "jsv \<Rightarrow> jsv \<Rightarrow> jsv \<Rightarrow> string list" where
  "protocol_fields type protocol obfs =
     (let actual = actualProtocol type protocol; v2node = one_of [''v2node''] type;
          is = (\<lambda>p. one_of [p] actual \<or> one_of [p] type)
      in [''network_settings'', ''tls_settings'', ''encryption_settings'', ''padding_scheme''] @
         (if v2node then [''ddns_settings'', ''protocol''] else []) @
         (if (one_of [''v2node'', ''vmess'', ''vless''] type \<or>
              to_str actual \<in> js ` {''vmess'', ''vless'', ''trojan'', ''hysteria2'', ''tuic''}) \<and> \<not> one_of [''shadowsocks''] actual
          then [''tls''] else []) @
         (if is ''shadowsocks'' then [''cipher''] else []) @
         (if truthy actual \<and> to_str actual \<notin> set externalV2nodeProtocols \<and>
             (v2node \<or> to_str actual \<notin> js ` {''hysteria2'', ''tuic'', ''anytls''}) then [''network''] else []) @
         (if one_of [''juicity''] actual then [''congestion_control''] else []) @
         (if one_of [''hysteria2''] actual \<or> one_of [''hysteria''] type
          then [''obfs''] @ (if obfs = JStr (js ''salamander'') then [''obfs_password''] else []) @ [''up_mbps'', ''down_mbps''] else []) @
         (if is ''tuic'' then [''disable_sni'', ''udp_relay_mode'', ''congestion_control'', ''zero_rtt_handshake''] else []) @
         (if one_of [''trojan'', ''tuic'', ''anytls''] type
          then (if one_of [''anytls''] type then [''insecure'', ''server_name''] else [''server_name'', ''insecure'']) else []) @
         (if is ''vless'' then [''encryption'', ''flow''] else []))"

text \<open>All fields, as the editor registers them; only their values are in what the form returns.\<close>

definition registered :: "jsv \<Rightarrow> jsv \<Rightarrow> jsv \<Rightarrow> string list" where
  "registered type protocol obfs =
     [''name'', ''rate'', ''tags'', ''group_id'', ''host''] @ (if one_of [''v2node''] type then [''listen_ip''] else []) @
     [''port'', ''server_port'', ''type''] @ protocol_fields type protocol obfs @
     [''parent_id'', ''show'', ''client_entry_only'', ''route_id''] @ (if one_of [''v2node''] type then [''install_command''] else [])"

definition required_fields :: "jsv \<Rightarrow> string list" where
  "required_fields type =
     [''name'', ''rate'', ''group_id'', ''host'', ''port'', ''server_port''] @ (if one_of [''v2node''] type then [''protocol''] else [])"

section \<open>State\<close>

datatype node_part = NetworkPart | TlsPart | EncryptionPart | PaddingPart

datatype node_request = LoadingNodes | SavingNode | UpdatingNode | SortingNodes | CopyingNode | DroppingNode | ChangingHosts

datatype node_notice = NodesFailed | NodeSaved | NodeUpdated | NodesSorted | NodeCopied | NodeDropped | OldHostMissing | NewHostMissing
  | NewHostRules | SameHosts | HostsChanged jsv | NoHostMatched

record node_page =
  np_rows :: "jsv list"
  np_groups :: "jsv list"
  np_routes :: "jsv list"
  np_loading :: bool
  np_sort_mode :: bool
  np_search :: jstr
  np_bulk_open :: bool
  np_add_open :: bool
  np_old_host :: jstr
  np_new_host :: jstr
  np_edit :: "jobj option"
  np_form :: jobj
  np_detail :: "jsv option"
  np_child :: "node_part option"
  np_dragging :: "jstr option"
  np_current :: jnum
  np_page_size :: jnum
  np_requests :: "node_request list"
  np_sent :: "(jstr \<times> jobj) list"
  np_notices :: "node_notice list"

definition initial_nodes :: node_page where
  "initial_nodes = \<lparr>np_rows = [], np_groups = [], np_routes = [], np_loading = False, np_sort_mode = False, np_search = [],
     np_bulk_open = False, np_add_open = False, np_old_host = [], np_new_host = [], np_edit = None, np_form = [], np_detail = None,
     np_child = None, np_dragging = None, np_current = num 1, np_page_size = num 10, np_requests = [], np_sent = [], np_notices = []\<rparr>"

definition say :: "node_notice \<Rightarrow> node_page \<Rightarrow> node_page" where
  "say n s = s\<lparr>np_notices := np_notices s @ [n]\<rparr>"

definition ask :: "jstr \<Rightarrow> jobj \<Rightarrow> node_request \<Rightarrow> node_page \<Rightarrow> node_page" where
  "ask path body r s = s\<lparr>np_sent := np_sent s @ [(path, body)], np_requests := np_requests s @ [r]\<rparr>"

section \<open>Loading\<close>

definition load_nodes :: "node_page \<Rightarrow> node_page" where
  "load_nodes s = s\<lparr>np_loading := True, np_requests := np_requests s @ [LoadingNodes]\<rparr>"

text \<open>The data of the three answers; \<open>None\<close> when the first request failed. The other two cannot fail: their \<open>catch\<close> makes an
  empty list of it.\<close>

definition nodes_loaded :: "(jsv \<times> jsv \<times> jsv) option \<Rightarrow> node_page \<Rightarrow> node_page" where
  "nodes_loaded answer s =
     (case answer of
        None \<Rightarrow> say NodesFailed s
      | Some (nodes, groups, routes) \<Rightarrow> s\<lparr>np_rows := elems nodes, np_groups := elems groups, np_routes := elems routes\<rparr>)\<lparr>np_loading := False\<rparr>"

definition filteredRows :: "node_page \<Rightarrow> jsv list" where
  "filteredRows s =
     (let key = trim (np_search s) in if key = [] then np_rows s else filter (\<lambda>row. contains (json_str row) key) (np_rows s))"

definition shown_rows :: "node_page \<Rightarrow> jsv list" where
  "shown_rows s = (if np_sort_mode s then np_rows s else filteredRows s)"

section \<open>The editor\<close>

definition openEditor :: "jsv \<Rightarrow> node_page \<Rightarrow> node_page" where
  "openEditor row s = (let initial = normalizeInitial row in s\<lparr>np_edit := Some initial, np_form := initial\<rparr>)"

definition edited :: "node_page \<Rightarrow> jsv" where
  "edited s = (case np_edit s of None \<Rightarrow> JNull | Some e \<Rightarrow> JObj e)"

definition form_value :: "string \<Rightarrow> node_page \<Rightarrow> jsv" where
  "form_value k s = oget (js k) (np_form s)"

definition currentType :: "node_page \<Rightarrow> jsv" where
  "currentType s = jor (form_value ''type'' s) (jor (jprop (edited s) (js ''type'')) (JStr (js ''v2node'')))"

definition form_values :: "node_page \<Rightarrow> jobj" where
  "form_values s = obj_of (map (\<lambda>k. (js k, form_value k s))
     (registered (currentType s) (form_value ''protocol'' s) (form_value ''obfs'' s)))"

definition form_accepts :: "(jsv \<Rightarrow> bool) \<Rightarrow> node_page \<Rightarrow> bool" where
  "form_accepts filled s \<longleftrightarrow> list_all (\<lambda>k. filled (form_value k s)) (required_fields (currentType s)) \<and>
     \<not> hasEntryRuleDSL (form_value ''host'' s)"

definition server_path :: "jsv \<Rightarrow> string \<Rightarrow> jstr" where
  "server_path type action = js ''/server/'' @ to_str type @ js ''/'' @ js action"

definition save_node :: "(jsv \<Rightarrow> bool) \<Rightarrow> node_page \<Rightarrow> node_page" where
  "save_node filled s =
     (if form_accepts filled s
      then ask (server_path (node_type (form_values s) (edited s)) ''save'') (normalizePayload (form_values s) (edited s)) SavingNode s
      else s)"

definition close_editor :: "node_page \<Rightarrow> node_page" where
  "close_editor s = s\<lparr>np_edit := None, np_child := None\<rparr>"

definition set_form :: "jobj \<Rightarrow> node_page \<Rightarrow> node_page" where
  "set_form vs s = s\<lparr>np_form := omerge (np_form s) vs\<rparr>"

text \<open>What the editor of a part does whenever it is shown and its text is empty.\<close>

definition fill_part :: "node_page \<Rightarrow> node_page" where
  "fill_part s =
     (let template = (\<lambda>k t. if trimmed (form_value k s) = [] then set_form [(js k, part_text t (form_value k s))] s else s)
      in case np_child s of
           Some TlsPart \<Rightarrow> template ''tls_settings'' tls_template
         | Some EncryptionPart \<Rightarrow> template ''encryption_settings'' encryption_template
         | _ \<Rightarrow> s)"

section \<open>Changes of one node\<close>

definition toggle_show :: "jsv \<Rightarrow> node_page \<Rightarrow> node_page" where
  "toggle_show row s = ask (server_path (jprop row (js ''type'')) ''update'')
     [(js ''id'', jprop row (js ''id'')), (js ''show'', JNum (num (if num_truthy (to_num (jprop row (js ''show''))) then 0 else 1)))]
     UpdatingNode s"

definition with_id :: "string \<Rightarrow> node_request \<Rightarrow> jsv \<Rightarrow> node_page \<Rightarrow> node_page" where
  "with_id action r row s = ask (server_path (jprop row (js ''type'')) action) [(js ''id'', jprop row (js ''id''))] r s"

section \<open>The order of the nodes\<close>

definition node_key :: "jsv \<Rightarrow> jstr" where
  "node_key row = to_str (jprop row (js ''type'')) @ [45] @ to_str (jprop row (js ''id''))"

definition add_position :: "nat \<times> jsv \<Rightarrow> jobj \<Rightarrow> jobj" where
  "add_position = (\<lambda>(index, row) payload.
     let type = to_str (jprop row (js ''type''))
     in oput type (JObj (oput (to_str (jprop row (js ''id''))) (JNum (num (int index))) (case oget type payload of JObj ids \<Rightarrow> ids | _ \<Rightarrow> []))) payload)"

definition sort_payload :: "jsv list \<Rightarrow> jobj" where
  "sort_payload rows = fold add_position (enumerate 0 rows) []"

definition saveSort :: "jsv list \<Rightarrow> node_page \<Rightarrow> node_page" where
  "saveSort nextRows s = ask (js ''/server/manage/sort'') (sort_payload nextRows) SortingNodes s"

text \<open>\<open>new Map(...)\<close>: of two rows with one key the later one counts.\<close>

definition reordered :: "jstr \<Rightarrow> jsv list \<Rightarrow> jsv list \<Rightarrow> jsv list" where
  "reordered search nextRows prev =
     (if trim search = [] then nextRows
      else map (\<lambda>row. case find (\<lambda>r. node_key r = node_key row) (rev nextRows) of Some r \<Rightarrow> r | None \<Rightarrow> row) nextRows @
        filter (\<lambda>row. node_key row \<notin> node_key ` set nextRows) prev)"

definition handleNodeDrop :: "jsv \<Rightarrow> node_page \<Rightarrow> node_page" where
  "handleNodeDrop target s =
     (case np_dragging s of
        None \<Rightarrow> s
      | Some key \<Rightarrow>
          if \<not> np_sort_mode s \<or> key = [] then s
          else
            let stopped = s\<lparr>np_dragging := None\<rparr>;
                place = (\<lambda>k. find_index (\<lambda>row. node_key row = k) (np_rows s))
            in if key = node_key target then stopped
               else (case (place key, place (node_key target)) of
                   (Some i, Some j) \<Rightarrow>
                     let nextRows = move_row (np_rows s) i j
                     in saveSort nextRows (stopped\<lparr>np_rows := reordered (np_search s) nextRows (np_rows s)\<rparr>)
                 | _ \<Rightarrow> stopped))"

section \<open>Addresses of many nodes\<close>

definition bulkUpdateHost :: "node_page \<Rightarrow> node_page" where
  "bulkUpdateHost s =
     (let oldHost = trim (np_old_host s); newHost = trim (np_new_host s)
      in if oldHost = [] then say OldHostMissing s
         else if newHost = [] then say NewHostMissing s
         else if hasEntryRuleDSL (JStr newHost) then say NewHostRules s
         else if oldHost = newHost then say SameHosts s
         else ask (js ''/server/manage/updateHost'') [(js ''old_host'', JStr oldHost), (js ''new_host'', JStr newHost)] ChangingHosts s)"

definition hosts_changed :: "jsv \<Rightarrow> node_page \<Rightarrow> node_page" where
  "hosts_changed data s =
     (let total = jor (jprop data (js ''updated_total'')) (JNum (num 0));
          t = say (if num_lt (num 0) (to_num total) then HostsChanged total else NoHostMatched) s
      in load_nodes (t\<lparr>np_bulk_open := False, np_old_host := [], np_new_host := []\<rparr>))"

section \<open>Steps\<close>

datatype node_answer = NodesAnswer "(jsv \<times> jsv \<times> jsv) option" | NodeAccepted jsv | NodeRefused

text \<open>No handler but \<open>load\<close> catches the error of a refused request.\<close>

definition node_answered :: "node_request \<Rightarrow> node_answer \<Rightarrow> node_page \<Rightarrow> node_page" where
  "node_answered r a s =
     (case r of
        LoadingNodes \<Rightarrow> nodes_loaded (case a of NodesAnswer l \<Rightarrow> l | _ \<Rightarrow> None) s
      | _ \<Rightarrow> (case a of
            NodeAccepted data \<Rightarrow> (case r of
                SavingNode \<Rightarrow> load_nodes (close_editor (say NodeSaved s))
              | UpdatingNode \<Rightarrow> load_nodes (say NodeUpdated s)
              | SortingNodes \<Rightarrow> load_nodes (say NodesSorted s)
              | CopyingNode \<Rightarrow> load_nodes (say NodeCopied s)
              | DroppingNode \<Rightarrow> load_nodes (say NodeDropped s)
              | _ \<Rightarrow> hosts_changed data s)
          | _ \<Rightarrow> s))"

datatype node_event =
    ToggleAddMenu
  | AddNode jstr
  | SearchNodes jstr
  | ToggleSort
  | ToggleShow nat
  | EditNode nat
  | CopyNode nat
  | ShowDetail nat
  | CloseDetail
  | DropNode nat
  | DragNode nat
  | DropOnNode nat
  | DragOver
  | ToggleBulk
  | CloseBulk
  | TypeOldHost jstr
  | TypeNewHost jstr
  | ChangeHosts
  | ShowPage jnum jnum
  | ChangeField string jsv
  | ChooseProtocol jstr
  | ChangeSetting string jstr jsv
  | ChangeMieru jstr jsv
  | OpenPart node_part
  | ClosePart
  | CloseEditor
  | SaveNode
  | AnswerNode nat node_answer

definition at_node :: "nat \<Rightarrow> (jsv \<Rightarrow> node_page \<Rightarrow> node_page) \<Rightarrow> node_page \<Rightarrow> node_page" where
  "at_node n f s = (if n < length (shown_rows s) then f (shown_rows s ! n) s else s)"

fun node_handler :: "(jsv \<Rightarrow> bool) \<Rightarrow> node_event \<Rightarrow> node_page \<Rightarrow> node_page" where
  "node_handler filled ToggleAddMenu s = s\<lparr>np_add_open := \<not> np_add_open s\<rparr>"
| "node_handler filled (AddNode type) s =
     (if np_add_open s then openEditor (JObj (baseDefaults type)) (s\<lparr>np_add_open := False\<rparr>) else s)"
| "node_handler filled (SearchNodes key) s = s\<lparr>np_search := key\<rparr>"
| "node_handler filled ToggleSort s = s\<lparr>np_sort_mode := \<not> np_sort_mode s\<rparr>"
| "node_handler filled (ToggleShow n) s = at_node n toggle_show s"
| "node_handler filled (EditNode n) s = at_node n (\<lambda>row. openEditor row) s"
| "node_handler filled (CopyNode n) s = at_node n (with_id ''copy'' CopyingNode) s"
| "node_handler filled (ShowDetail n) s = at_node n (\<lambda>row t. t\<lparr>np_detail := Some row\<rparr>) s"
| "node_handler filled CloseDetail s = s\<lparr>np_detail := None\<rparr>"
| "node_handler filled (DropNode n) s = at_node n (with_id ''drop'' DroppingNode) s"
| "node_handler filled (DragNode n) s = (if np_sort_mode s then at_node n (\<lambda>row t. t\<lparr>np_dragging := Some (node_key row)\<rparr>) s else s)"
| "node_handler filled (DropOnNode n) s = at_node n handleNodeDrop s"
| "node_handler filled DragOver s = s\<lparr>np_dragging := None\<rparr>"
| "node_handler filled ToggleBulk s = s\<lparr>np_bulk_open := \<not> np_bulk_open s\<rparr>"
| "node_handler filled CloseBulk s = s\<lparr>np_bulk_open := False\<rparr>"
| "node_handler filled (TypeOldHost h) s = s\<lparr>np_old_host := h\<rparr>"
| "node_handler filled (TypeNewHost h) s = s\<lparr>np_new_host := h\<rparr>"
| "node_handler filled ChangeHosts s = bulkUpdateHost s"
| "node_handler filled (ShowPage c n) s =
     s\<lparr>np_current := num_or c (num 1), np_page_size := num_or n (np_page_size s)\<rparr>"
| "node_handler filled (ChangeField k v) s = set_form [(js k, v)] s"
| "node_handler filled (ChooseProtocol p) s = set_form (protocol_chosen p (form_value ''congestion_control'' s)) s"
| "node_handler filled (ChangeSetting f k v) s = set_form [(js f, JStr (settings_text k v (form_value f s)))] s"
| "node_handler filled (ChangeMieru k v) s =
     set_form [(js ''network_settings'', JStr (mieru_setting k v (form_value ''network_settings'' s)))] s"
| "node_handler filled (OpenPart p) s = s\<lparr>np_child := Some p\<rparr>"
| "node_handler filled ClosePart s = s\<lparr>np_child := None\<rparr>"
| "node_handler filled CloseEditor s = close_editor s"
| "node_handler filled SaveNode s = (if np_edit s = None then s else save_node filled s)"
| "node_handler filled (AnswerNode n a) s =
     (if n < length (np_requests s) then node_answered (np_requests s ! n) a (s\<lparr>np_requests := remove_at n (np_requests s)\<rparr>) else s)"

text \<open>The effects that run after a change: the first page of the table, and the text of the part that is edited.\<close>

definition first_page :: "node_page \<Rightarrow> node_page \<Rightarrow> node_page" where
  "first_page old s =
     (if np_search s \<noteq> np_search old \<or> length (np_rows s) \<noteq> length (np_rows old) then s\<lparr>np_current := num 1\<rparr> else s)"

definition node_react :: "(jsv \<Rightarrow> bool) \<Rightarrow> node_event \<Rightarrow> node_page \<Rightarrow> node_page" where
  "node_react filled e s = fill_part (first_page s (node_handler filled e s))"

inductive node_reach :: "(jsv \<Rightarrow> bool) \<Rightarrow> node_page \<Rightarrow> bool" for filled where
  opened: "node_reach filled (load_nodes initial_nodes)"
| reacted: "node_reach filled s \<Longrightarrow> node_reach filled (node_react filled e s)"

end
