(* ===== verification/NodeSafety.thy ===== *)
theory NodeSafety
  imports NodePage
begin

text \<open>
  What the page of nodes (\<open>NodePage\<close>) asks the server to do: every request is one of a few well-formed ones, and the order that
  is saved is the order on the screen.
\<close>

section \<open>Well-formed requests\<close>

definition sent_as_typed :: "string list" where
  "sent_as_typed = [''name'', ''rate'', ''host'', ''port'', ''server_port'']"

lemma payload_value:
  assumes "k \<notin> set derived_fields \<union> set json_fields \<union> js ` {''group_id'', ''route_id'', ''tags'', ''show'', ''client_entry_only'', ''protocol'', ''listen_ip''}"
  shows "oget k (normalizePayload values edit) = oget k (omerge (spread_of edit) values)"
proof -
  have del: "k \<notin> set ks \<Longrightarrow> oget k (fold odel ks p) = oget k p" for ks p
    by (induction ks arbitrary: p) simp_all
  show ?thesis
    using assms by (simp add: normalizePayload_def Let_def oget_show_flag oget_settings_other del)
qed

lemma form_value_in: "k \<in> set (registered (currentType s) (form_value ''protocol'' s) (form_value ''obfs'' s)) \<Longrightarrow>
    js k \<in> fst ` set (form_values s) \<and> oget (js k) (form_values s) = form_value k s"
  by (auto simp: form_values_def fst_obj_of image_image oget_obj_of_map [OF _ js_inj])

lemma distinct_form_values: "distinct (map fst (form_values s))"
  by (simp add: form_values_def obj_of_def distinct_omerge)

lemma sent_as_typed_plain:
  "list_all (\<lambda>k. js k \<notin> set derived_fields \<union> set json_fields \<union>
     js ` {''group_id'', ''route_id'', ''tags'', ''show'', ''client_entry_only'', ''protocol'', ''listen_ip''}) sent_as_typed"
  by code_simp

lemma payload_typed:
  assumes "k \<in> set sent_as_typed"
  shows "oget (js k) (normalizePayload (form_values s) edit) = form_value k s"
proof -
  have "oget (js k) (normalizePayload (form_values s) edit) = oget (js k) (omerge (spread_of edit) (form_values s))"
    using sent_as_typed_plain assms by (intro payload_value) (simp add: list_all_iff)
  moreover have "k \<in> set (registered (currentType s) (form_value ''protocol'' s) (form_value ''obfs'' s))"
    using assms by (auto simp: registered_def sent_as_typed_def)
  ultimately show ?thesis
    using form_value_in by (simp add: oget_omerge_hit distinct_form_values)
qed

text \<open>What a request of the page may look like.\<close>

inductive proper_request :: "(jsv \<Rightarrow> bool) \<Rightarrow> jstr \<Rightarrow> jobj \<Rightarrow> bool" for filled where
  save: "clean_payload type body \<Longrightarrow> \<not> hasEntryRuleDSL (oget (js ''host'') body) \<Longrightarrow>
    list_all (\<lambda>k. filled (oget (js k) body)) sent_as_typed \<Longrightarrow> proper_request filled (server_path type ''save'') body"
| update: "flag \<in> {0, 1} \<Longrightarrow>
    proper_request filled (server_path type ''update'') [(js ''id'', i), (js ''show'', JNum (num flag))]"
| copy_drop: "action \<in> {''copy'', ''drop''} \<Longrightarrow> proper_request filled (server_path type action) [(js ''id'', i)]"
| sort: "proper_request filled (js ''/server/manage/sort'') (sort_payload rows)"
| hosts: "old \<noteq> [] \<Longrightarrow> new \<noteq> [] \<Longrightarrow> old \<noteq> new \<Longrightarrow> trim old = old \<Longrightarrow> \<not> hasEntryRuleDSL (JStr new) \<Longrightarrow>
    proper_request filled (js ''/server/manage/updateHost'') [(js ''old_host'', JStr old), (js ''new_host'', JStr new)]"

definition sent_proper :: "(jsv \<Rightarrow> bool) \<Rightarrow> node_page \<Rightarrow> bool" where
  "sent_proper filled s \<longleftrightarrow> (\<forall>(path, body) \<in> set (np_sent s). proper_request filled path body)"

lemma sent_ask [simp]:
  "sent_proper filled (ask path body r s) \<longleftrightarrow> sent_proper filled s \<and> proper_request filled path body"
  by (auto simp: sent_proper_def ask_def)

lemma sent_cong: "np_sent t = np_sent s \<Longrightarrow> sent_proper filled t \<longleftrightarrow> sent_proper filled s"
  by (simp add: sent_proper_def)

lemma sent_same [simp]:
  "np_sent (say n s) = np_sent s" "np_sent (load_nodes s) = np_sent s" "np_sent (openEditor row s) = np_sent s"
  "np_sent (close_editor s) = np_sent s" "np_sent (set_form vs s) = np_sent s" "np_sent (nodes_loaded a s) = np_sent s"
  "np_sent (hosts_changed data s) = np_sent s" "np_sent (first_page old s) = np_sent s" "np_sent (fill_part s) = np_sent s"
  by (simp_all add: say_def load_nodes_def openEditor_def close_editor_def set_form_def nodes_loaded_def hosts_changed_def
      first_page_def fill_part_def Let_def split: option.splits node_part.splits)

lemma sent_answered [simp]: "np_sent (node_answered r a s) = np_sent s"
  by (cases r; cases a) (simp_all add: node_answered_def)

lemma sent_save: "sent_proper filled s \<Longrightarrow> sent_proper filled (save_node filled s)"
  using payload_clean [of "form_values s" "edited s"]
  by (auto simp: save_node_def form_accepts_def list_all_iff payload_typed required_fields_def sent_as_typed_def intro!: proper_request.save)

lemma sent_at: "(\<And>row t. sent_proper filled t \<Longrightarrow> sent_proper filled (f row t)) \<Longrightarrow> sent_proper filled s \<Longrightarrow> sent_proper filled (at_node n f s)"
  by (simp add: at_node_def)

lemma sent_bulk: "sent_proper filled s \<Longrightarrow> sent_proper filled (bulkUpdateHost s)"
  by (auto simp: bulkUpdateHost_def Let_def sent_cong [of "say _ s" s] intro!: proper_request.hosts)

lemma sent_drop: "sent_proper filled s \<Longrightarrow> sent_proper filled (handleNodeDrop row s)"
  by (auto simp: handleNodeDrop_def saveSort_def ask_def Let_def sent_proper_def split: option.split intro: proper_request.sort)

lemma sent_handler: "sent_proper filled s \<Longrightarrow> sent_proper filled (node_handler filled e s)"
proof (cases e)
  case (ToggleShow n)
  assume "sent_proper filled s"
  with ToggleShow show ?thesis
    by (auto simp: toggle_show_def intro!: sent_at proper_request.update)
next
  case (CopyNode n)
  assume "sent_proper filled s"
  with CopyNode show ?thesis by (auto simp: with_id_def intro!: sent_at proper_request.copy_drop)
next
  case (DropNode n)
  assume "sent_proper filled s"
  with DropNode show ?thesis by (auto simp: with_id_def intro!: sent_at proper_request.copy_drop)
next
  case (DropOnNode n)
  assume "sent_proper filled s"
  with DropOnNode show ?thesis by (auto intro!: sent_at sent_drop)
next
  case ChangeHosts
  assume "sent_proper filled s"
  with ChangeHosts show ?thesis by (simp add: sent_bulk)
next
  case SaveNode
  assume "sent_proper filled s"
  with SaveNode show ?thesis by (simp add: sent_save)
qed (auto simp: sent_proper_def at_node_def)


definition demo_hosts :: node_page where
  "demo_hosts = fold (node_react (\<lambda>_. True)) [TypeOldHost (js ''a''), TypeNewHost (js ''b''), ChangeHosts] (load_nodes initial_nodes)"


section \<open>The order of the nodes\<close>

text \<open>The pair of texts a row is sent under; the key of the table is made of it.\<close>

definition node_place :: "jsv \<Rightarrow> jstr \<times> jstr" where
  "node_place row = (to_str (jprop row (js ''type'')), to_str (jprop row (js ''id'')))"

definition position_of :: "jobj \<Rightarrow> jsv \<Rightarrow> jsv" where
  "position_of payload row = jprop (oget (fst (node_place row)) payload) (snd (node_place row))"

lemma places_distinct: "distinct (map node_key rows) \<Longrightarrow> distinct (map node_place rows)"
  by (auto simp: distinct_map inj_on_def node_key_def node_place_def)

lemma position_added:
  "position_of (add_position (n, row) payload) r = (if node_place r = node_place row then JNum (num (int n)) else position_of payload r)"
  by (auto simp: position_of_def add_position_def node_place_def Let_def split: jsv.split)

lemma positions_sent:
  "distinct (map node_place rows) \<Longrightarrow> i < length rows \<Longrightarrow> position_of (sort_payload rows) (rows ! i) = JNum (num (int i))"
proof (induction rows rule: rev_induct)
  case (snoc row rows)
  have "sort_payload (rows @ [row]) = add_position (length rows, row) (sort_payload rows)"
    by (simp add: sort_payload_def enumerate_append_eq)
  moreover have "node_place (rows ! i) \<noteq> node_place row" if "i < length rows"
    using snoc.prems(1) nth_mem [OF that] by (simp add: image_iff) metis
  ultimately show ?case
    using snoc by (auto simp: position_added nth_append less_Suc_eq)
qed simp

lemma reordered_same:
  assumes "distinct (map node_key nextRows)" "set prev = set nextRows"
  shows "reordered search nextRows prev = nextRows"
proof -
  have hit: "find (\<lambda>r. node_key r = node_key row) (rev nextRows) = Some row" if row: "row \<in> set nextRows" for row
  proof -
    obtain r where r: "find (\<lambda>r. node_key r = node_key row) (rev nextRows) = Some r"
      using row by (cases "find (\<lambda>r. node_key r = node_key row) (rev nextRows)") (auto simp: find_None_iff)
    then have "r \<in> set nextRows" "node_key r = node_key row" using find_Some_in [OF r] by auto
    then show ?thesis using r row assms(1) by (auto simp: distinct_map dest: inj_onD)
  qed
  have "filter (\<lambda>row. node_key row \<notin> node_key ` set nextRows) prev = []" using assms(2) by (simp add: filter_empty_conv)
  moreover have "map (\<lambda>row. case find (\<lambda>r. node_key r = node_key row) (rev nextRows) of Some r \<Rightarrow> r | None \<Rightarrow> row) nextRows = nextRows"
    using hit by (intro map_idI) simp
  ultimately show ?thesis by (simp add: reordered_def)
qed

lemma fill_part_same [simp]:
  "np_rows (fill_part s) = np_rows s" "np_requests (fill_part s) = np_requests s" "np_notices (fill_part s) = np_notices s"
  "np_rows (first_page old s) = np_rows s" "np_requests (first_page old s) = np_requests s" "np_notices (first_page old s) = np_notices s"
  by (simp_all add: fill_part_def set_form_def first_page_def Let_def split: option.splits node_part.splits)

definition dragging_row :: "nat \<Rightarrow> node_page \<Rightarrow> bool" where
  "dragging_row i s \<longleftrightarrow> np_sort_mode s \<and> i < length (np_rows s) \<and> np_dragging s = Some (node_key (np_rows s ! i)) \<and>
     distinct (map node_key (np_rows s))"

lemma move_perm:
  assumes "dragging_row i s" "j < length (np_rows s)" "moved = insert_at j (np_rows s ! i) (remove_at i (np_rows s))"
  shows "distinct (map node_key moved)" "mset moved = mset (np_rows s)"
proof -
  have i: "i < length (np_rows s)" and dist: "distinct (map node_key (np_rows s))" using assms(1) by (auto simp: dragging_row_def)
  show perm: "mset moved = mset (np_rows s)" unfolding assms(3) using i assms(2) by (rule move_mset)
  then have "mset (map node_key moved) = mset (map node_key (np_rows s))" by simp
  then show "distinct (map node_key moved)" using dist by (metis mset_eq_imp_distinct_iff)
qed

lemma dropped:
  assumes "dragging_row i s" "j < length (np_rows s)" "i \<noteq> j" and moved: "moved = insert_at j (np_rows s ! i) (remove_at i (np_rows s))"
  shows "np_rows (node_react filled (DropOnNode j) s) = moved"
    "np_sent (node_react filled (DropOnNode j) s) = np_sent s @ [(js ''/server/manage/sort'', sort_payload moved)]"
    "np_requests (node_react filled (DropOnNode j) s) = np_requests s @ [SortingNodes]"
    "np_notices (node_react filled (DropOnNode j) s) = np_notices s"
proof -
  note perm = move_perm [OF assms(1,2,4)]
  have i: "i < length (np_rows s)" and dist: "distinct (map node_key (np_rows s))" using assms(1) by (auto simp: dragging_row_def)
  have "node_key (np_rows s ! i) \<noteq> node_key (np_rows s ! j)"
    using dist i assms(2,3) by (metis length_map nth_eq_iff_index_eq nth_map)
  moreover have "node_key (np_rows s ! i) \<noteq> []" by (simp add: node_key_def)
  moreover have "reordered (np_search s) moved (np_rows s) = moved"
    using perm by (intro reordered_same) (metis set_mset_mset)+
  ultimately have "node_handler filled (DropOnNode j) s = saveSort moved (s\<lparr>np_dragging := None, np_rows := moved\<rparr>)"
    using assms by (simp add: dragging_row_def at_node_def shown_rows_def handleNodeDrop_def find_key move_row_eq Let_def)
  then show "np_rows (node_react filled (DropOnNode j) s) = moved"
    "np_sent (node_react filled (DropOnNode j) s) = np_sent s @ [(js ''/server/manage/sort'', sort_payload moved)]"
    "np_requests (node_react filled (DropOnNode j) s) = np_requests s @ [SortingNodes]"
    "np_notices (node_react filled (DropOnNode j) s) = np_notices s"
    by (simp_all add: node_react_def saveSort_def ask_def)
qed

text \<open>C24: dropping a node on another one moves it to the place of that one and leaves the others in their order, with or without
  a search, and asks the server to give every node the position it now has on the screen.\<close>
theorem node_order_sent:
  assumes "dragging_row i s" "j < length (np_rows s)" "i \<noteq> j"
  shows "\<exists>payload. let t = node_react filled (DropOnNode j) s; rows = np_rows t
    in rows ! j = np_rows s ! i \<and> remove_at j rows = remove_at i (np_rows s) \<and> mset rows = mset (np_rows s) \<and>
       np_sent t = np_sent s @ [(js ''/server/manage/sort'', payload)] \<and>
       (\<forall>k < length rows. position_of payload (rows ! k) = JNum (num (int k)))"
proof -
  define rows where "rows = insert_at j (np_rows s ! i) (remove_at i (np_rows s))"
  note facts = dropped [OF assms rows_def, of filled] and perm = move_perm [OF assms(1,2) rows_def]
  have i: "i < length (np_rows s)" using assms(1) by (simp add: dragging_row_def)
  have "\<forall>k < length rows. position_of (sort_payload rows) (rows ! k) = JNum (num (int k))"
    using positions_sent [OF places_distinct [OF perm(1)]] by simp
  then show ?thesis
    using facts(1,2) perm(2) move_nth [OF i assms(2)] move_rest [OF i assms(2)]
    by (intro exI [of _ "sort_payload rows"]) (simp add: Let_def rows_def)
qed

definition demo_node :: "string \<Rightarrow> int \<Rightarrow> jsv" where
  "demo_node type i = JObj [(js ''type'', JStr (js type)), (js ''id'', JNum (num i))]"

definition demo_drag :: node_page where
  "demo_drag = initial_nodes\<lparr>np_rows := [demo_node ''vless'' 1, demo_node ''vless'' 2, demo_node ''tuic'' 1], np_sort_mode := True,
     np_dragging := Some (js ''tuic-1'')\<rparr>"

lemma demo_dragging: "dragging_row 2 demo_drag"
  by code_simp

lemma node_order_sent_witness:
  "\<exists>payload. let t = node_react (\<lambda>_. True) (DropOnNode 0) demo_drag; rows = np_rows t
    in rows ! 0 = np_rows demo_drag ! 2 \<and> remove_at 0 rows = remove_at 2 (np_rows demo_drag) \<and> mset rows = mset (np_rows demo_drag) \<and>
       np_sent t = np_sent demo_drag @ [(js ''/server/manage/sort'', payload)] \<and>
       (\<forall>k < length rows. position_of payload (rows ! k) = JNum (num (int k)))"
  by (rule node_order_sent [OF demo_dragging]) (simp_all add: demo_drag_def)

text \<open>C38: when the server refuses an order, the page keeps showing it, says nothing and does not load the list again.\<close>
theorem node_order_refused:
  assumes "dragging_row i s" "j < length (np_rows s)" "i \<noteq> j"
  shows "let t = node_react filled (AnswerNode (length (np_requests s)) NodeRefused) (node_react filled (DropOnNode j) s)
    in np_rows t ! j = np_rows s ! i \<and> np_rows t \<noteq> np_rows s \<and> np_notices t = np_notices s \<and> np_requests t = np_requests s"
proof -
  note facts = dropped [OF assms refl, of filled]
  have i: "i < length (np_rows s)" and dist: "distinct (np_rows s)" using assms(1) by (auto simp: dragging_row_def distinct_map)
  then have "np_rows s ! j \<noteq> np_rows s ! i" using assms(2,3) by (simp add: nth_eq_iff_index_eq)
  then show ?thesis
    using facts(1,3,4) move_nth [OF i assms(2)]
    by (auto simp: Let_def node_react_def node_answered_def remove_at_def)
qed

lemma node_order_refused_witness:
  "let t = node_react (\<lambda>_. True) (AnswerNode (length (np_requests demo_drag)) NodeRefused)
       (node_react (\<lambda>_. True) (DropOnNode 0) demo_drag)
   in np_rows t ! 0 = np_rows demo_drag ! 2 \<and> np_rows t \<noteq> np_rows demo_drag \<and> np_notices t = np_notices demo_drag \<and>
      np_requests t = np_requests demo_drag"
  by (rule node_order_refused [OF demo_dragging]) (simp_all add: demo_drag_def)

end
