(* ===== verification/JsFixed.thy ===== *)
theory JsFixed
  imports JsRound
begin

text \<open>
  What \<open>Number(x.toFixed(2))\<close> does: it is the double nearest to the hundredth that is nearest to \<open>x\<close>. The pages keep amounts of
  money and of data in this way.
\<close>

lemma all_digits_pieces:
  assumes "list_all is_digit s" "k < length s" "0 < k"
  shows "decimal_literal (take k s @ [46] @ drop k s) = Some (of_int (digits_value s) * pow10 (- int (length s - k)))"
proof -
  have t: "list_all is_digit (take k s)" "list_all is_digit (drop k s)" "take k s \<noteq> []"
    using assms by (auto simp: list_all_iff dest: in_set_takeD in_set_dropD)
  have dot: "\<not> is_digit 46" by (simp add: is_digit_def)
  have "takeWhile is_digit (take k s @ [46] @ drop k s) = take k s" "dropWhile is_digit (take k s @ [46] @ drop k s) = [46] @ drop k s"
    using t(1) dot by (simp_all add: list_all_iff takeWhile_append2 dropWhile_append2)
  then show ?thesis
    using t assms(2) by (simp add: decimal_literal_def takeWhile_all_digits dropWhile_all_digits exponent_part_def)
qed

lemma digits_value_replicate [simp]: "digits_value (replicate n 48 @ s) = digits_value s"
proof (induction s rule: rev_induct)
  case Nil
  have "digits_value (replicate n 48) = 0" by (induction n) (simp_all add: digits_value_def)
  then show ?case by (simp add: digits_value_def)
next
  case (snoc c s)
  then show ?case using digits_value_snoc [of "replicate n 48 @ s" c] digits_value_snoc [of s c] by simp
qed

lemma radix_literal_decimal: "\<forall>c \<in> set t. c = 46 \<or> is_digit c \<Longrightarrow> radix_literal t = None"
  by (auto simp: radix_literal_def radix_of_def is_digit_def split: list.splits)

lemma pieces_number:
  assumes "list_all is_digit s" "k < length s" "0 < k"
  shows "str_num (take k s @ [46] @ drop k s) = rnd (of_int (digits_value s) * pow10 (- int (length s - k)))"
    and "str_num (45 # take k s @ [46] @ drop k s) = rnd (- (of_int (digits_value s) * pow10 (- int (length s - k))))"
proof -
  let ?t = "take k s @ [46] @ drop k s"
  have d: "is_digit (hd s)" "is_digit (last s)" using assms by (cases s; auto simp: list_all_iff)+
  have ends: "hd ?t = hd s" "last ?t = last s" using assms by (auto simp: hd_append)
  have spaces: "\<not> is_space (hd ?t)" "\<not> is_space (last ?t)" "\<not> is_space 45"
    unfolding ends using d by (auto dest: digit_not_space) (simp add: is_space_def)
  have "last (45 # ?t) = last ?t" by simp
  then have tr: "trim ?t = ?t" "trim (45 # ?t) = 45 # ?t" using spaces by (intro trim_id; metis list.sel(1))+
  have sign: "sign_of ?t = (1, ?t)" using d(1) ends(1) by (auto simp: sign_of_def is_digit_def split: list.splits)
  have radix: "radix_literal ?t = None"
  proof -
    have "set ?t \<subseteq> insert 46 (set s)" by (auto dest: in_set_takeD in_set_dropD)
    then have "\<forall>c \<in> set ?t. c = 46 \<or> is_digit c" using assms(1) by (auto simp: list_all_iff)
    then show ?thesis by (rule radix_literal_decimal)
  qed
  have radix': "radix_literal (45 # ?t) = None" by (auto simp: radix_literal_def split: list.splits)
  have inf: "?t \<noteq> js ''Infinity''" using ends(1) d(1) by (auto simp: js_def is_digit_def)
  note lit = all_digits_pieces [OF assms]
  have ne: "?t \<noteq> []" by simp
  show "str_num ?t = rnd (of_int (digits_value s) * pow10 (- int (length s - k)))"
    unfolding str_num_def Let_def tr sign radix using lit inf ne by simp
  show "str_num (45 # ?t) = rnd (- (of_int (digits_value s) * pow10 (- int (length s - k))))"
    unfolding str_num_def Let_def tr radix' using lit inf ne by (simp add: sign_of_def)
qed

lemma fixed_number:
  assumes "0 \<le> q" "n = \<lfloor>q * 100 + 1/2\<rfloor>"
  shows "str_num (fixed_rat 2 q) = rnd (of_int n / 100)" "str_num (45 # fixed_rat 2 q) = rnd (- (of_int n / 100))"
proof -
  define p where "p = replicate (3 - length (digits_of n)) 48 @ digits_of n"
  have n: "0 \<le> n" using assms by simp
  have p: "list_all is_digit p" "digits_value p = n" "3 \<le> length p"
    using n digits_of_digits [of n] by (auto simp: p_def list_all_iff is_digit_def)
  have fixed: "fixed_rat 2 q = take (length p - 2) p @ [46] @ drop (length p - 2) p"
    unfolding fixed_rat_def Let_def using assms(2) by (simp add: p_def numeral_3_eq_3)
  have two: "length p - (length p - 2) = 2" using p(3) by simp
  have "pow10 (- int 2) = 1 / 100" by (simp add: pow10_def)
  then have amount: "of_int (digits_value p) * pow10 (- int (length p - (length p - 2))) = of_int n / 100" unfolding two p(2) by simp
  have k: "length p - 2 < length p" "0 < length p - 2" using p(3) by simp_all
  show "str_num (fixed_rat 2 q) = rnd (of_int n / 100)" "str_num (45 # fixed_rat 2 q) = rnd (- (of_int n / 100))"
    unfolding fixed amount [symmetric] by (rule pieces_number [OF p(1) k])+
qed

text \<open>The hundredth nearest to \<open>q\<close>; of two the one with the larger absolute value.\<close>

definition hundredths :: "rat \<Rightarrow> int" where
  "hundredths q = (if q < 0 then - \<lfloor>- q * 100 + 1/2\<rfloor> else \<lfloor>q * 100 + 1/2\<rfloor>)"

theorem fixed_is_nearest: "\<bar>q\<bar> < 10 ^ 21 \<Longrightarrow> str_num (to_fixed 2 (Fin q)) = rnd (of_int (hundredths q) / 100)"
  using fixed_number [of q, OF _ refl] fixed_number [of "- q", OF _ refl]
  by (cases "q < 0") (simp_all add: to_fixed_def hundredths_def)

lemma hundredths_error: "\<bar>of_int (hundredths q) - q * 100\<bar> \<le> 1/2"
proof -
  have near: "\<bar>of_int \<lfloor>r + 1/2\<rfloor> - r\<bar> \<le> 1/2" for r :: rat by linarith
  show ?thesis
  proof (cases "q < 0")
    case True
    have "of_int (hundredths q) - q * 100 = - (of_int \<lfloor>- q * 100 + 1/2\<rfloor> - (- q * 100))" using True by (simp add: hundredths_def)
    then show ?thesis using near [of "- q * 100"] by (simp only: abs_minus_cancel)
  qed (use near [of "q * 100"] in \<open>simp add: hundredths_def\<close>)
qed

lemma hundredths_near:
  assumes "\<bar>q * 100 - of_int c\<bar> < 1/2"
  shows "hundredths q = c"
proof -
  have "\<bar>of_int (hundredths q) - of_int c\<bar> < (1 :: rat)" using hundredths_error [of q] assms by linarith
  then have "\<bar>of_int (hundredths q - c)\<bar> < (of_int 1 :: rat)" by simp
  then show ?thesis unfolding of_int_abs [symmetric] of_int_less_iff by simp
qed

text \<open>An amount in cents shown with two decimals and read again is the amount in units.\<close>

lemma cents_shown:
  assumes "\<bar>c\<bar> \<le> 2 ^ 40"
  shows "str_num (to_fixed 2 (num_div (num c) (num 100))) = num_div (num c) (num 100)"
proof -
  obtain q r where q: "num_div (num c) (num 100) = Fin q" and near: "\<bar>q - of_int c / 100\<bar> < 1 / 10000"
    using assms by (rule hundredth_error)
  have "\<bar>q * 100 - of_int c\<bar> < 1/2" using near by linarith
  then have "hundredths q = c" by (rule hundredths_near)
  moreover have "\<bar>q\<bar> < 10 ^ 21"
  proof -
    have "\<bar>of_int c :: rat\<bar> \<le> 1099511627776" using assms of_int_le_iff [where 'a = rat, of "\<bar>c\<bar>" 1099511627776] by simp
    then have "\<bar>q\<bar> \<le> 1099511627777" using near by linarith
    then show ?thesis by (rule le_less_trans) simp
  qed
  ultimately show ?thesis by (simp add: q fixed_is_nearest) (simp add: q [symmetric] num_div_100)
qed

lemma round_cents: "\<bar>c\<bar> \<le> 2 ^ 40 \<Longrightarrow> num_round (num_mul (num_div (num c) (num 100)) (num 100)) = num c"
proof -
  assume c: "\<bar>c\<bar> \<le> 2 ^ 40"
  then obtain q where "num_div (num c) (num 100) = Fin q" by (rule hundredth_error)
  then show ?thesis using round_hundredths [OF c] by (simp add: num_mul_def num_def mult.commute)
qed

end
