(* ===== verification/ListPages.thy ===== *)
theory ListPages
  imports PageKit NodeForms JsFixed
begin

text \<open>
  Pages that show one list with an editor: the machine they share. \<open>PlanPage\<close>, \<open>CouponPage\<close>, \<open>GiftcardPage\<close>, \<open>NoticePage\<close>,
  \<open>KnowledgePage\<close>, \<open>ServerRoutePage\<close> and the generic \<open>CrudPage\<close> are written alike: \<open>load\<close>, \<open>openEdit\<close>, \<open>save\<close>, the switches and
  removals of a row and, on one page, an order by dragging. A \<open>page_code\<close> is what one of them fills in. Answers arrive in any order.
  The form library is a parameter: which values its \<open>required\<close> rules accept.
\<close>

section \<open>A page\<close>

record page_code =
  pc_load :: "jstr \<Rightarrow> (jstr \<times> jobj) list" \<comment> \<open>the requests of \<open>load\<close>; the first is for the list\<close>
  pc_rows :: "jsv \<Rightarrow> jsv list" \<comment> \<open>the rows in the answer to it\<close>
  pc_new :: jobj
  pc_new_form :: jobj
  pc_reset :: bool \<comment> \<open>\<open>resetFields\<close> when a row is opened\<close>
  pc_open :: "jsv \<Rightarrow> jobj"
  pc_detail :: "jsv \<Rightarrow> (jstr \<times> jobj) option" \<comment> \<open>what is asked when a row is opened\<close>
  pc_detailed :: "jsv \<Rightarrow> jsv option \<Rightarrow> jobj" \<comment> \<open>what the answer puts into the form\<close>
  pc_fields :: "jobj \<Rightarrow> jobj \<Rightarrow> string list" \<comment> \<open>the fields of the editor, for the row and the values\<close>
  pc_required :: "jobj \<Rightarrow> jobj \<Rightarrow> string list"
  pc_save :: "jstr \<times> bool" \<comment> \<open>where, and whether as a form\<close>
  pc_payload :: "jobj \<Rightarrow> jobj \<Rightarrow> jobj" \<comment> \<open>for the row and the values of the form\<close>
  pc_actions :: "(jsv \<Rightarrow> jstr \<times> jobj \<times> bool) list" \<comment> \<open>the switches and the removal of a row\<close>
  pc_sort :: "(jstr \<times> string) option"
  pc_tells :: bool \<comment> \<open>whether a form that is not accepted is reported\<close>
  pc_clears :: bool \<comment> \<open>\<open>resetFields\<close> after a row was saved\<close>

text \<open>A handler that loads the list when its answer is there still sees the search text of the moment it was started.\<close>

datatype page_request =
    Loading "(jstr \<times> jobj) list"
  | Detailing jsv "jstr \<times> jobj"
  | Saving jstr
  | Acting jstr
  | Ordering jstr

datatype page_notice = ListFailed | RowSaved | SaveRefused | FormIncomplete | RowChanged | OrderSaved | OrderRefused

record list_page =
  lp_rows :: "jsv list"
  lp_extra :: "jsv list list" \<comment> \<open>plans, groups, categories: the other lists\<close>
  lp_query :: jstr
  lp_loading :: bool
  lp_saving :: bool
  lp_edit :: "jobj option"
  lp_form :: jobj
  lp_dragging :: "jstr option"
  lp_requests :: "page_request list"
  lp_sent :: "(jstr \<times> jobj \<times> bool) list"
  lp_notices :: "page_notice list"

definition initial_page :: list_page where
  "initial_page = \<lparr>lp_rows = [], lp_extra = [], lp_query = [], lp_loading = False, lp_saving = False, lp_edit = None, lp_form = [],
     lp_dragging = None, lp_requests = [], lp_sent = [], lp_notices = []\<rparr>"

definition page_say :: "page_notice \<Rightarrow> list_page \<Rightarrow> list_page" where
  "page_say n s = s\<lparr>lp_notices := lp_notices s @ [n]\<rparr>"

definition page_ask :: "page_request \<Rightarrow> list_page \<Rightarrow> list_page" where
  "page_ask r s = s\<lparr>lp_requests := lp_requests s @ [r]\<rparr>"

definition page_post :: "page_request \<Rightarrow> jstr \<times> jobj \<times> bool \<Rightarrow> list_page \<Rightarrow> list_page" where
  "page_post r p s = page_ask r (s\<lparr>lp_sent := lp_sent s @ [p]\<rparr>)"

section \<open>The list\<close>

definition load_list :: "page_code \<Rightarrow> jstr \<Rightarrow> list_page \<Rightarrow> list_page" where
  "load_list c query s = page_ask (Loading (pc_load c query)) (s\<lparr>lp_loading := True\<rparr>)"

text \<open>\<open>res.data || []\<close>; a value that is no array would stop the page and counts as empty.\<close>

definition data_list :: "jsv \<Rightarrow> jsv list" where
  "data_list payload = elems (jor (jprop payload (js ''data'')) (JArr []))"

text \<open>An answer is the payloads of the requests, in their order. Only the request for the list can fail: the others have a
  \<open>catch\<close> that makes an empty list of a failure.\<close>

datatype page_answer = Answered "jsv list" | Refused

definition list_answered :: "page_code \<Rightarrow> page_answer \<Rightarrow> list_page \<Rightarrow> list_page" where
  "list_answered c a s =
     (case a of
        Answered (p # ps) \<Rightarrow> s\<lparr>lp_rows := pc_rows c p, lp_extra := map data_list ps\<rparr>
      | _ \<Rightarrow> page_say ListFailed s)\<lparr>lp_loading := False\<rparr>"

section \<open>The editor\<close>

definition page_fill :: "jobj \<Rightarrow> list_page \<Rightarrow> list_page" where
  "page_fill vs s = s\<lparr>lp_form := omerge (lp_form s) vs\<rparr>"

definition open_row :: "page_code \<Rightarrow> jsv \<Rightarrow> list_page \<Rightarrow> list_page" where
  "open_row c row s =
     (let t = page_fill (pc_open c row) (s\<lparr>lp_edit := Some (spread_of row), lp_form := (if pc_reset c then [] else lp_form s)\<rparr>)
      in case pc_detail c row of Some q \<Rightarrow> page_ask (Detailing row q) t | None \<Rightarrow> t)"

definition open_new :: "page_code \<Rightarrow> list_page \<Rightarrow> list_page" where
  "open_new c s = s\<lparr>lp_edit := Some (pc_new c), lp_form := pc_new_form c\<rparr>"

definition detail_answered :: "page_code \<Rightarrow> jsv \<Rightarrow> page_answer \<Rightarrow> list_page \<Rightarrow> list_page" where
  "detail_answered c row a s = page_fill (pc_detailed c row (case a of Answered (p # _) \<Rightarrow> Some p | _ \<Rightarrow> None)) s"

definition page_value :: "string \<Rightarrow> list_page \<Rightarrow> jsv" where
  "page_value k s = oget (js k) (lp_form s)"

definition page_values :: "page_code \<Rightarrow> jobj \<Rightarrow> list_page \<Rightarrow> jobj" where
  "page_values c edit s = obj_of (map (\<lambda>k. (js k, page_value k s)) (pc_fields c edit (lp_form s)))"

definition page_accepts :: "page_code \<Rightarrow> (jsv \<Rightarrow> bool) \<Rightarrow> jobj \<Rightarrow> list_page \<Rightarrow> bool" where
  "page_accepts c filled edit s \<longleftrightarrow> list_all (\<lambda>k. filled (page_value k s)) (pc_required c edit (lp_form s))"

text \<open>The button of the editor waits while a row is being saved.\<close>

definition save_row :: "page_code \<Rightarrow> (jsv \<Rightarrow> bool) \<Rightarrow> list_page \<Rightarrow> list_page" where
  "save_row c filled s =
     (case lp_edit s of
        None \<Rightarrow> s
      | Some edit \<Rightarrow>
          if lp_saving s then s
          else if page_accepts c filled edit s
          then page_post (Saving (lp_query s)) (fst (pc_save c), pc_payload c edit (page_values c edit s), snd (pc_save c)) (s\<lparr>lp_saving := True\<rparr>)
          else if pc_tells c then page_say FormIncomplete s else s)"

definition save_answered :: "page_code \<Rightarrow> jstr \<Rightarrow> page_answer \<Rightarrow> list_page \<Rightarrow> list_page" where
  "save_answered c query a s =
     (case a of
        Answered _ \<Rightarrow>
          load_list c query ((page_say RowSaved s)\<lparr>lp_edit := None, lp_form := (if pc_clears c then [] else lp_form s)\<rparr>)
      | Refused \<Rightarrow> page_say SaveRefused s)\<lparr>lp_saving := False\<rparr>"

section \<open>Rows\<close>

definition act_on_row :: "page_code \<Rightarrow> nat \<Rightarrow> jsv \<Rightarrow> list_page \<Rightarrow> list_page" where
  "act_on_row c n row s =
     (if n < length (pc_actions c) then page_post (Acting (lp_query s)) ((pc_actions c ! n) row) s else s)"

definition row_id :: "jsv \<Rightarrow> jstr" where
  "row_id row = to_str (jprop row (js ''id''))"

definition handle_drop :: "page_code \<Rightarrow> jsv \<Rightarrow> list_page \<Rightarrow> list_page" where
  "handle_drop c target s =
     (case (lp_dragging s, pc_sort c) of
        (Some key, Some (path, ids)) \<Rightarrow>
          if key = [] then s
          else
            let stopped = s\<lparr>lp_dragging := None\<rparr>; place = (\<lambda>k. find_index (\<lambda>row. row_id row = k) (lp_rows s))
            in if key = row_id target then stopped
               else (case (place key, place (row_id target)) of
                   (Some i, Some j) \<Rightarrow>
                     let nextRows = move_row (lp_rows s) i j
                     in page_post (Ordering (lp_query s)) (path, [(js ids, JArr (map (\<lambda>row. jprop row (js ''id'')) nextRows))], False)
                          (stopped\<lparr>lp_rows := nextRows\<rparr>)
                 | _ \<Rightarrow> stopped)
      | _ \<Rightarrow> s)"

definition order_answered :: "page_code \<Rightarrow> jstr \<Rightarrow> page_answer \<Rightarrow> list_page \<Rightarrow> list_page" where
  "order_answered c query a s = load_list c query (page_say (case a of Answered _ \<Rightarrow> OrderSaved | Refused \<Rightarrow> OrderRefused) s)"

text \<open>A refused switch or removal is caught nowhere.\<close>

definition action_answered :: "page_code \<Rightarrow> jstr \<Rightarrow> page_answer \<Rightarrow> list_page \<Rightarrow> list_page" where
  "action_answered c query a s = (case a of Answered _ \<Rightarrow> load_list c query (page_say RowChanged s) | Refused \<Rightarrow> s)"

section \<open>Steps\<close>

datatype page_event =
    Search jstr
  | Reload
  | OpenNew
  | OpenRow nat
  | CloseRow
  | Change string jsv
  | Save
  | ActOn nat nat
  | Drag nat
  | DropOn nat
  | DragEnds
  | Answer nat page_answer

definition on_row :: "nat \<Rightarrow> (jsv \<Rightarrow> list_page \<Rightarrow> list_page) \<Rightarrow> list_page \<Rightarrow> list_page" where
  "on_row n f s = (if n < length (lp_rows s) then f (lp_rows s ! n) s else s)"

definition page_answered :: "page_code \<Rightarrow> page_request \<Rightarrow> page_answer \<Rightarrow> list_page \<Rightarrow> list_page" where
  "page_answered c r a s =
     (case r of
        Loading _ \<Rightarrow> list_answered c a s
      | Detailing row _ \<Rightarrow> detail_answered c row a s
      | Saving query \<Rightarrow> save_answered c query a s
      | Acting query \<Rightarrow> action_answered c query a s
      | Ordering query \<Rightarrow> order_answered c query a s)"

fun list_react :: "page_code \<Rightarrow> (jsv \<Rightarrow> bool) \<Rightarrow> page_event \<Rightarrow> list_page \<Rightarrow> list_page" where
  "list_react c filled (Search q) s = s\<lparr>lp_query := q\<rparr>"
| "list_react c filled Reload s = load_list c (lp_query s) s"
| "list_react c filled OpenNew s = open_new c s"
| "list_react c filled (OpenRow n) s = on_row n (open_row c) s"
| "list_react c filled CloseRow s = s\<lparr>lp_edit := None\<rparr>"
| "list_react c filled (Change k v) s = (if lp_edit s = None then s else page_fill [(js k, v)] s)"
| "list_react c filled Save s = save_row c filled s"
| "list_react c filled (ActOn n i) s = on_row i (act_on_row c n) s"
| "list_react c filled (Drag n) s = (if pc_sort c = None then s else on_row n (\<lambda>row t. t\<lparr>lp_dragging := Some (row_id row)\<rparr>) s)"
| "list_react c filled (DropOn n) s = on_row n (handle_drop c) s"
| "list_react c filled DragEnds s = s\<lparr>lp_dragging := None\<rparr>"
| "list_react c filled (Answer n a) s =
     (if n < length (lp_requests s)
      then page_answered c (lp_requests s ! n) a (s\<lparr>lp_requests := remove_at n (lp_requests s)\<rparr>) else s)"

definition list_run :: "page_code \<Rightarrow> (jsv \<Rightarrow> bool) \<Rightarrow> page_event list \<Rightarrow> list_page \<Rightarrow> list_page" where
  "list_run c filled = fold (list_react c filled)"

inductive list_reach :: "page_code \<Rightarrow> (jsv \<Rightarrow> bool) \<Rightarrow> list_page \<Rightarrow> bool" for c filled where
  opened: "list_reach c filled (load_list c [] initial_page)"
| reacted: "list_reach c filled s \<Longrightarrow> list_reach c filled (list_react c filled e s)"

end
