(* ===== verification/ShopPages.thy ===== *)
theory ShopPages
  imports ListPages
begin

text \<open>
  The pages of one list: what each of \<open>pages/PlanPage.tsx\<close>, \<open>CouponPage.tsx\<close>, \<open>GiftcardPage.tsx\<close>, \<open>NoticePage.tsx\<close>,
  \<open>KnowledgePage.tsx\<close>, \<open>ServerRoutePage.tsx\<close> and \<open>components/CrudPage.tsx\<close> fills into the machine of \<open>ListPages\<close>. The dates of the
  pickers are made by a library: \<open>day\<close> is \<open>dayjs\<close> of milliseconds, \<open>unix\<close> its method of that name.
\<close>

definition path_only :: "string \<Rightarrow> jstr \<times> jobj" where
  "path_only path = (js path, [])"

definition id_body :: "jsv \<Rightarrow> jobj" where
  "id_body row = [(js ''id'', jprop row (js ''id''))]"

definition by_id :: "string \<Rightarrow> jsv \<Rightarrow> jstr \<times> jobj \<times> bool" where
  "by_id path row = (js path, id_body row, True)"

text \<open>A page without an order, without a question on opening and without reports; the others change what differs.\<close>

definition plain_page :: "string \<Rightarrow> string \<Rightarrow> string list \<Rightarrow> string list \<Rightarrow> page_code" where
  "plain_page list_path save_path names required =
     \<lparr>pc_load = (\<lambda>_. [path_only list_path]), pc_rows = data_list, pc_new = [], pc_new_form = [], pc_reset = True, pc_open = spread_of,
      pc_detail = (\<lambda>_. None), pc_detailed = (\<lambda>_ _. []), pc_fields = (\<lambda>_ _. names), pc_required = (\<lambda>_ _. required),
      pc_save = (js save_path, False), pc_payload = omerge, pc_actions = [], pc_sort = None, pc_tells = False, pc_clears = False\<rparr>"

section \<open>Plans\<close>

definition planToFormValues :: "jsv \<Rightarrow> jobj" where
  "planToFormValues row =
     (let next = fold (\<lambda>k next. oput (js k) (centsToYuan (oget (js k) next)) next) planPriceFields (spread_of row)
      in oput (js ''transfer_enable'') (planTrafficToGB (oget (js ''transfer_enable'') next)) next)"

definition planFormValuesToPayload :: "jobj \<Rightarrow> jobj" where
  "planFormValuesToPayload values = fold (\<lambda>k next. oput (js k) (yuanToCents (oget (js k) next)) next) planPriceFields values"

definition plan_fields :: "string list" where
  "plan_fields =
     [''name'', ''group_id'', ''show'', ''renew'', ''transfer_enable'', ''device_limit'', ''speed_limit'', ''capacity_limit'',
      ''reset_price'', ''reset_traffic_method'', ''month_price'', ''quarter_price'', ''half_year_price'', ''year_price'',
      ''two_year_price'', ''three_year_price'', ''onetime_price'', ''force_update'', ''content'']"

definition plan_update :: "string \<Rightarrow> jsv \<Rightarrow> jstr \<times> jobj \<times> bool" where
  "plan_update key row =
     (js ''/plan/update'',
      id_body row @ [(js key, JNum (num (if num_truthy (to_num (jprop row (js key))) then 0 else 1)))], True)"

definition plan_page :: page_code where
  "plan_page =
     (plain_page ''/plan/fetch'' ''/plan/save'' plan_fields [''name'', ''group_id'', ''transfer_enable''])\<lparr>
        pc_load := (\<lambda>_. [path_only ''/plan/fetch'', path_only ''/server/group/fetch'']),
        pc_new := [(js ''show'', JNum (num 1)), (js ''renew'', JNum (num 1))],
        pc_new_form := planToFormValues (JObj [(js ''show'', JNum (num 1)), (js ''renew'', JNum (num 1))]),
        pc_open := planToFormValues,
        pc_payload := (\<lambda>edit values. omerge edit (planFormValuesToPayload values)),
        pc_actions := [plan_update ''show'', plan_update ''renew'', by_id ''/plan/drop''],
        pc_tells := True\<rparr>"

section \<open>Coupons and gift cards\<close>

definition fetch_page :: "string \<Rightarrow> jstr \<times> jobj" where
  "fetch_page path =
     (js path, [(js ''current'', JNum (num 1)), (js ''pageSize'', JNum (num 50)), (js ''sort'', JStr (js ''id'')),
       (js ''sort_type'', JStr (js ''DESC''))])"

definition valid_range :: "(jnum \<Rightarrow> jsv) \<Rightarrow> jsv \<Rightarrow> jsv" where
  "valid_range day row =
     (let date = (\<lambda>k. day (num_mul (to_num (jprop row (js k))) (num 1000)))
      in if truthy (jprop row (js ''started_at'')) \<and> truthy (jprop row (js ''ended_at''))
         then JArr [date ''started_at'', date ''ended_at''] else JUndef)"

definition range_end :: "(jsv \<Rightarrow> jnum) \<Rightarrow> nat \<Rightarrow> jobj \<Rightarrow> jsv" where
  "range_end unix i values =
     (let range = elems (jor (oget (js ''valid_range'') values) (JArr []))
      in if i < length range \<and> truthy (range ! i) then JNum (unix (range ! i)) else JUndef)"

definition with_range :: "(jsv \<Rightarrow> jnum) \<Rightarrow> jobj \<Rightarrow> jobj \<Rightarrow> jobj" where
  "with_range unix values payload =
     odel (js ''valid_range'') (oput (js ''ended_at'') (range_end unix 1 values) (oput (js ''started_at'') (range_end unix 0 values) payload))"

definition card_fields :: "string list \<Rightarrow> jobj \<Rightarrow> jobj \<Rightarrow> string list" where
  "card_fields others edit form =
     [''name''] @ (if truthy (oget (js ''generate_count'') form) then [] else [''code'']) @ others @
     (if truthy (oget (js ''id'') edit) then [] else [''generate_count''])"

definition coupon_open :: "(jnum \<Rightarrow> jsv) \<Rightarrow> jsv \<Rightarrow> jobj" where
  "coupon_open day row =
     (let list = (\<lambda>k. jor (jprop row (js k)) (JArr []))
      in oput (js ''limit_period'') (list ''limit_period'')
           (oput (js ''limit_plan_ids'') (JArr (map (\<lambda>v. JNum (to_num v)) (elems (list ''limit_plan_ids''))))
             (oput (js ''valid_range'') (valid_range day row) (spread_of row))))"

definition coupon_page :: "(jnum \<Rightarrow> jsv) \<Rightarrow> (jsv \<Rightarrow> jnum) \<Rightarrow> page_code" where
  "coupon_page day unix =
     (let new = [(js ''type'', JNum (num 1))]
      in (plain_page ''/coupon/fetch'' ''/coupon/generate'' [] [''name'', ''value'', ''valid_range''])\<lparr>
        pc_load := (\<lambda>_. [fetch_page ''/coupon/fetch'', path_only ''/plan/fetch'']),
        pc_new := new, pc_new_form := coupon_open day (JObj new), pc_open := coupon_open day,
        pc_fields := card_fields [''type'', ''value'', ''valid_range'', ''limit_use'', ''limit_use_with_user'', ''limit_plan_ids'', ''limit_period''],
        pc_save := (js ''/coupon/generate'', True),
        pc_payload := (\<lambda>edit values. with_range unix values (omerge edit values)),
        pc_actions := [by_id ''/coupon/show'', by_id ''/coupon/drop'']\<rparr>)"

definition gift_type :: "jobj \<Rightarrow> jnum" where
  "gift_type form = to_num (jor (oget (js ''type'') form) (JNum (num 1)))"

definition gift_open :: "(jnum \<Rightarrow> jsv) \<Rightarrow> jsv \<Rightarrow> jobj" where
  "gift_open day row = oput (js ''valid_range'') (valid_range day row) (spread_of row)"

definition gift_fields :: "jobj \<Rightarrow> jobj \<Rightarrow> string list" where
  "gift_fields edit form = card_fields ([''type'', ''value''] @
     (if gift_type form = num 5 then [''plan_id''] else []) @ [''valid_range'', ''limit_use'']) edit form"

definition gift_required :: "jobj \<Rightarrow> jobj \<Rightarrow> string list" where
  "gift_required edit form =
     [''name''] @ (if gift_type form = num 4 then [] else [''value'']) @ (if gift_type form = num 5 then [''plan_id''] else []) @ [''valid_range'']"

definition gift_payload :: "(jsv \<Rightarrow> jnum) \<Rightarrow> jobj \<Rightarrow> jobj \<Rightarrow> jobj" where
  "gift_payload unix edit values =
     (let amount = (if to_num (oget (js ''type'') values) = num 4 then JNum (num 0) else oget (js ''value'') values)
      in with_range unix values (oput (js ''value'') amount (omerge edit values)))"

definition gift_page :: "(jnum \<Rightarrow> jsv) \<Rightarrow> (jsv \<Rightarrow> jnum) \<Rightarrow> page_code" where
  "gift_page day unix =
     (let new = [(js ''type'', JNum (num 1))]
      in (plain_page ''/giftcard/fetch'' ''/giftcard/generate'' [] [])\<lparr>
        pc_load := (\<lambda>_. [fetch_page ''/giftcard/fetch'', path_only ''/plan/fetch'']),
        pc_new := new, pc_new_form := gift_open day (JObj new), pc_open := gift_open day,
        pc_fields := gift_fields, pc_required := gift_required, pc_save := (js ''/giftcard/generate'', True),
        pc_payload := gift_payload unix, pc_actions := [by_id ''/giftcard/drop'']\<rparr>)"

section \<open>Notices and articles\<close>

definition notice_open :: "jsv \<Rightarrow> jobj" where
  "notice_open row = oput (js ''tags'') (jor (jprop row (js ''tags'')) (JArr [])) (spread_of row)"

definition notice_page :: page_code where
  "notice_page =
     (plain_page ''/notice/fetch'' ''/notice/save'' [''title'', ''content'', ''tags'', ''img_url''] [''title'', ''content''])\<lparr>
        pc_new_form := notice_open (JObj []), pc_open := notice_open,
        pc_actions := [by_id ''/notice/show'', by_id ''/notice/drop'']\<rparr>"

definition with_language :: "jsv \<Rightarrow> jobj" where
  "with_language data = omerge [(js ''language'', JStr (js ''zh-CN''))] (spread_of data)"

text \<open>The article is asked for when the row has an id; until the answer is there the form is empty.\<close>

definition article_open :: "jsv \<Rightarrow> jobj" where
  "article_open row = (if truthy (jprop row (js ''id'')) then [] else with_language row)"

definition article_asked :: "jsv \<Rightarrow> (jstr \<times> jobj) option" where
  "article_asked row = (if truthy (jprop row (js ''id'')) then Some (js ''/knowledge/fetch'', id_body row) else None)"

definition article_answered :: "jsv \<Rightarrow> jsv option \<Rightarrow> jobj" where
  "article_answered row answer = with_language (case answer of Some res \<Rightarrow> jor (jprop res (js ''data'')) row | None \<Rightarrow> row)"

definition article_payload :: "jobj \<Rightarrow> jobj \<Rightarrow> jobj" where
  "article_payload edit values =
     (let category = oget (js ''category'') values;
          first = (if is_array category then (case elems category of v # _ \<Rightarrow> v | [] \<Rightarrow> JUndef) else category)
      in oput (js ''category'') first (omerge edit values))"

definition knowledge_page :: page_code where
  "knowledge_page =
     (let new = [(js ''language'', JStr (js ''zh-CN''))]; names = [''title'', ''category'', ''language'', ''body'']
      in (plain_page ''/knowledge/fetch'' ''/knowledge/save'' names names)\<lparr>
        pc_load := (\<lambda>_. [path_only ''/knowledge/fetch'', path_only ''/knowledge/getCategory'']),
        pc_new := new, pc_new_form := article_open (JObj new), pc_open := article_open, pc_detail := article_asked,
        pc_detailed := article_answered, pc_save := (js ''/knowledge/save'', True), pc_payload := article_payload,
        pc_actions := [by_id ''/knowledge/show'', by_id ''/knowledge/drop''],
        pc_sort := Some (js ''/knowledge/sort'', ''knowledge_ids'')\<rparr>)"

section \<open>Routes\<close>

definition toLines :: "jsv \<Rightarrow> jstr" where
  "toLines value =
     (case safeJsonParse value (Some value) of
        JArr vs \<Rightarrow> lines_of vs
      | JStr s \<Rightarrow> join [10] (filter (\<lambda>x. x \<noteq> []) (split_on 44 s))
      | _ \<Rightarrow> [])"

definition route_open :: "jsv \<Rightarrow> jobj" where
  "route_open row = oput (js ''match'') (JStr (toLines (jprop row (js ''match'')))) (spread_of row)"

definition route_fields :: "jobj \<Rightarrow> jobj \<Rightarrow> string list" where
  "route_fields edit form =
     (let action = jor (oget (js ''action'') form) (JStr (js ''block'')); is = (\<lambda>ss. action \<in> JStr ` js ` set ss)
      in [''remarks''] @ (if is [''default_out''] then [] else [''match'']) @ [''action''] @
         (if is [''dns'', ''route'', ''route_ip'', ''default_out''] then [''action_value''] else []))"

definition match_lines :: "jsv \<Rightarrow> jsv" where
  "match_lines text = JArr (map JStr (filter (\<lambda>x. x \<noteq> []) (map trim (split_on 10 (to_str (jor text (JStr [])))))))"

definition route_page :: page_code where
  "route_page =
     (let new = [(js ''action'', JStr (js ''block''))]
      in (plain_page ''/server/route/fetch'' ''/server/route/save'' [] [])\<lparr>
        pc_new := new, pc_new_form := route_open (JObj new), pc_open := route_open,
        pc_fields := route_fields, pc_required := route_fields,
        pc_payload := (\<lambda>edit values. oput (js ''match'') (match_lines (oget (js ''match'') values)) (omerge edit values)),
        pc_actions := [by_id ''/server/route/drop'']\<rparr>)"

section \<open>The generic page\<close>

definition show_row :: "resource_config \<Rightarrow> jstr \<Rightarrow> jsv \<Rightarrow> jstr \<times> jobj \<times> bool" where
  "show_row cfg path row = (path, id_body row, rc_form cfg)"

definition drop_row :: "resource_config \<Rightarrow> jstr \<Rightarrow> jsv \<Rightarrow> jstr \<times> jobj \<times> bool" where
  "drop_row cfg path row =
     (path, [(case rc_id_key cfg of Some k \<Rightarrow> if k = [] then js ''id'' else k | None \<Rightarrow> js ''id'', jprop row (js ''id''))], False)"

definition optional :: "('a \<Rightarrow> 'b) \<Rightarrow> 'a option \<Rightarrow> 'b list" where
  "optional f v = (case v of Some a \<Rightarrow> [f a] | None \<Rightarrow> [])"

text \<open>For a resource that can be saved; \<open>required\<close> are its required fields, \<open>shown\<close> its switch.\<close>

definition crud_page :: "resource_config \<Rightarrow> jstr \<Rightarrow> jstr option \<Rightarrow> string list \<Rightarrow> page_code" where
  "crud_page cfg save_path shown required =
     (let names = map fc_name (rc_fields cfg)
      in (plain_page [] [] names required)\<lparr>
        pc_load := (\<lambda>query. [(rc_fetch cfg, load_params cfg query)]),
        pc_rows := (\<lambda>payload. fst (fetched payload)),
        pc_reset := False,
        pc_open := (\<lambda>row. prepareInitialValues cfg (spread_of row)),
        pc_save := (save_path, rc_form cfg),
        pc_payload := submit_payload cfg,
        pc_actions := optional (show_row cfg) shown @ optional (drop_row cfg) (rc_drop cfg),
        pc_clears := True\<rparr>)"

text \<open>The one resource that is reached from the menu.\<close>

definition serverGroups :: resource_config where
  "serverGroups =
     \<lparr>rc_key = ''serverGroups'', rc_fetch = js ''/server/group/fetch'', rc_save = Some (js ''/server/group/save''),
      rc_drop = Some (js ''/server/group/drop''), rc_id_key = None, rc_form = False, rc_search_key = Some (js ''name''),
      rc_page_size = None, rc_fields = [\<lparr>fc_name = ''name'', fc_type = TextField\<rparr>], rc_before_save = None\<rparr>"

definition groups_page :: page_code where
  "groups_page = crud_page serverGroups (js ''/server/group/save'') None [''name'']"

end
