(* ===== verification/ShopSafety.thy ===== *)
theory ShopSafety
  imports ShopPages
begin

text \<open>
  What the pages of one list (\<open>ListPages\<close>, \<open>ShopPages\<close>) do: their indicators, what an unchanged plan sends back, what a late answer
  does to another editor, and the units of a coupon.
\<close>

section \<open>Indicators\<close>

fun is_save :: "page_request \<Rightarrow> bool" where
  "is_save (Saving q) = True"
| "is_save _ = False"

definition page_waits :: "list_page \<Rightarrow> bool" where
  "page_waits s \<longleftrightarrow> length (filter is_save (lp_requests s)) = (if lp_saving s then 1 else 0) \<and>
     (lp_loading s \<longrightarrow> (\<exists>qs. Loading qs \<in> set (lp_requests s)))"

lemma page_waits_same:
  "page_waits (s\<lparr>lp_rows := v1\<rparr>) = page_waits s" "page_waits (s\<lparr>lp_extra := v2\<rparr>) = page_waits s"
  "page_waits (s\<lparr>lp_query := v3\<rparr>) = page_waits s" "page_waits (s\<lparr>lp_edit := v4\<rparr>) = page_waits s"
  "page_waits (s\<lparr>lp_form := v5\<rparr>) = page_waits s" "page_waits (s\<lparr>lp_dragging := v6\<rparr>) = page_waits s"
  "page_waits (s\<lparr>lp_sent := v7\<rparr>) = page_waits s" "page_waits (s\<lparr>lp_notices := v8\<rparr>) = page_waits s"
  by (simp_all add: page_waits_def)

lemma page_waits_ask: "\<not> is_save r \<Longrightarrow> page_waits s \<Longrightarrow> page_waits (page_ask r s)"
  by (auto simp: page_waits_def page_ask_def)

lemma page_waits_load: "length (filter is_save (lp_requests s)) = (if lp_saving s then 1 else 0) \<Longrightarrow> page_waits (load_list c q s)"
  by (auto simp: page_waits_def load_list_def page_ask_def)

lemma page_waits_open: "page_waits s \<Longrightarrow> page_waits (open_row c row s)"
  by (auto simp: open_row_def Let_def page_fill_def page_waits_same page_waits_ask split: option.split)

lemma page_waits_save: "page_waits s \<Longrightarrow> page_waits (save_row c filled s)"
  by (auto simp: save_row_def page_say_def page_post_def page_ask_def page_waits_def split: option.split)

lemma page_waits_act: "page_waits s \<Longrightarrow> page_waits (act_on_row c n row s)"
  by (simp add: act_on_row_def page_post_def page_waits_ask page_waits_same)

lemma page_waits_drop: "page_waits s \<Longrightarrow> page_waits (handle_drop c row s)"
  by (auto simp: handle_drop_def Let_def page_post_def page_waits_ask page_waits_same split: option.split)

lemma requests_removed:
  assumes "n < length rs" "r = rs ! n"
  shows "length (filter is_save rs) = (if is_save r then 1 else 0) + length (filter is_save (remove_at n rs))"
    "set rs = insert r (set (remove_at n rs))"
proof -
  have "mset rs = add_mset r (mset (remove_at n rs))" unfolding assms(2) by (rule mset_remove_at [OF assms(1), symmetric])
  moreover from this have "mset (filter is_save rs) = filter_mset is_save (add_mset r (mset (remove_at n rs)))" by (metis mset_filter)
  then have "size (mset (filter is_save rs)) = size (filter_mset is_save (add_mset r (mset (remove_at n rs))))" by simp
  then show "length (filter is_save rs) = (if is_save r then 1 else 0) + length (filter is_save (remove_at n rs))"
    by (auto simp flip: mset_filter)
  ultimately show "set rs = insert r (set (remove_at n rs))" by (metis set_mset_add_mset_insert set_mset_mset)
qed

lemma page_waits_answered:
  assumes "n < length (lp_requests s)" "page_waits s"
  shows "page_waits (page_answered c (lp_requests s ! n) a (s\<lparr>lp_requests := remove_at n (lp_requests s)\<rparr>))"
proof -
  let ?t = "s\<lparr>lp_requests := remove_at n (lp_requests s)\<rparr>"
  note gone = requests_removed [OF assms(1) refl]
  show ?thesis
  proof (cases "lp_requests s ! n")
    case (Saving q)
    then have none: "length (filter is_save (lp_requests ?t)) = 0" "lp_loading s \<longrightarrow> (\<exists>qs. Loading qs \<in> set (lp_requests ?t))"
      using assms(2) gone by (auto simp: page_waits_def split: if_splits)
    then show ?thesis
      using Saving by (cases a) (auto simp: page_answered_def save_answered_def load_list_def page_ask_def page_say_def page_waits_def)
  next
    case (Loading qs)
    then have "length (filter is_save (lp_requests ?t)) = (if lp_saving s then 1 else 0)" using assms(2) gone by (simp add: page_waits_def)
    then show ?thesis
      using Loading by (auto simp: page_answered_def list_answered_def page_say_def page_waits_def split: page_answer.split list.split)
  next
    case (Detailing row q)
    then have "page_waits ?t" using assms(2) gone by (auto simp: page_waits_def)
    then show ?thesis using Detailing by (simp add: page_answered_def detail_answered_def page_fill_def page_waits_same)
  next
    case (Acting q)
    then have "page_waits ?t" using assms(2) gone by (auto simp: page_waits_def)
    then show ?thesis
      using Acting by (cases a) (auto simp: page_answered_def action_answered_def page_say_def load_list_def page_ask_def page_waits_def)
  next
    case (Ordering q)
    then have "page_waits ?t" using assms(2) gone by (auto simp: page_waits_def)
    then show ?thesis
      using Ordering by (auto simp: page_answered_def order_answered_def page_say_def load_list_def page_ask_def page_waits_def)
  qed
qed

text \<open>On each of the pages: the button of the editor waits exactly while one save is under way, and there is never a second one; the
  list shows that it is loading only while a load is under way.\<close>

lemma page_waits_always: "list_reach c filled s \<Longrightarrow> page_waits s"
proof (induction rule: list_reach.induct)
  case opened
  show ?case by (rule page_waits_load) (simp add: initial_page_def)
next
  case (reacted s e)
  have load: "page_waits (load_list c q s)" for q by (rule page_waits_load) (use reacted.IH in \<open>simp add: page_waits_def\<close>)
  show ?case
    using reacted.IH load
    by (cases e) (auto simp: on_row_def open_new_def page_fill_def page_waits_same page_waits_open page_waits_save page_waits_act
        page_waits_drop page_waits_answered)
qed

section \<open>An unchanged plan\<close>

definition convert_fields :: "(jsv \<Rightarrow> jsv) \<Rightarrow> string list \<Rightarrow> jobj \<Rightarrow> jobj" where
  "convert_fields f ks vals = fold (\<lambda>k next. oput (js k) (f (oget (js k) next)) next) ks vals"

lemma convert_fields_get:
  "distinct ks \<Longrightarrow> oget x (convert_fields f ks vals) = (if x \<in> js ` set ks then f (oget x vals) else oget x vals)"
  by (induction ks arbitrary: vals) (auto simp: convert_fields_def oget_oput)

lemma convert_fields_distinct: "distinct (map fst vals) \<Longrightarrow> distinct (map fst (convert_fields f ks vals))"
  by (induction ks arbitrary: vals) (simp_all add: convert_fields_def distinct_oput)

lemma convert_fields_keys: "fst ` set vals \<subseteq> fst ` set (convert_fields f ks vals)"
proof (induction ks arbitrary: vals)
  case (Cons k ks)
  have "fst ` set vals \<subseteq> fst ` set (oput (js k) (f (oget (js k) vals)) vals)" by (auto simp: fst_oput)
  also have "\<dots> \<subseteq> fst ` set (convert_fields f (k # ks) vals)"
    using Cons [of "oput (js k) (f (oget (js k) vals)) vals"] by (simp add: convert_fields_def)
  finally show ?case .
qed (simp add: convert_fields_def)

lemma convert_fields_only: "fst ` set (convert_fields f ks vals) \<subseteq> fst ` set vals \<union> js ` set ks"
proof (induction ks arbitrary: vals)
  case (Cons k ks)
  have "fst ` set (convert_fields f (k # ks) vals) \<subseteq> fst ` set (oput (js k) (f (oget (js k) vals)) vals) \<union> js ` set ks"
    using Cons [of "oput (js k) (f (oget (js k) vals)) vals"] by (simp add: convert_fields_def)
  then show ?case by (auto simp: fst_oput)
qed (simp add: convert_fields_def)

lemma price_fields_distinct: "distinct planPriceFields" "set planPriceFields \<subseteq> set plan_fields" "''transfer_enable'' \<notin> set planPriceFields"
  "''id'' \<notin> set planPriceFields" "''id'' \<notin> set plan_fields"
  by code_simp+

definition plan_price :: "jsv \<Rightarrow> bool" where
  "plan_price v \<longleftrightarrow> nullish v \<or> v = JNum (num (int_of (to_num v))) \<and> \<bar>int_of (to_num v)\<bar> \<le> 2 ^ 40"

lemma hundredth_finite: "\<bar>c\<bar> \<le> 2 ^ 40 \<Longrightarrow> is_finite (num_div (num c) (num 100))"
  by (rule hundredth_error [of c]) (simp_all add: is_finite_def)

lemma price_there_and_back:
  assumes "plan_price v"
  shows "yuanToCents (centsToYuan v) = v"
proof (cases "nullish v")
  case True
  then show ?thesis by (simp add: yuanToCents_def centsToYuan_def numeric_or_def blank_def)
next
  case False
  then obtain c where v: "v = JNum (num c)" "\<bar>c\<bar> \<le> 2 ^ 40" using assms by (auto simp: plan_price_def)
  have fin: "is_finite (num c)" by (simp add: is_finite_def num_def)
  have "centsToYuan v = JNum (num_div (num c) (num 100))"
    using cents_shown [OF v(2)] fin by (simp add: v(1) centsToYuan_def numeric_or_def blank_def)
  then show ?thesis
    using hundredth_finite [OF v(2)] round_cents [OF v(2)] by (simp add: v(1) yuanToCents_def numeric_or_def blank_def)
qed

lemma page_values_get: "k \<in> set (pc_fields c edit (lp_form s)) \<Longrightarrow> oget (js k) (page_values c edit s) = page_value k s"
  by (simp add: page_values_def oget_obj_of_map [OF _ js_inj])

lemma page_values_keys: "js k \<in> fst ` set (page_values c edit s) \<longleftrightarrow> k \<in> set (pc_fields c edit (lp_form s))"
  by (auto simp: page_values_def fst_obj_of image_image)

lemma page_values_distinct: "distinct (map fst (page_values c edit s))"
  by (simp add: page_values_def obj_of_def distinct_omerge)

lemma opened_form:
  assumes "pc_reset c" "pc_detail c row = None" "distinct (map fst (pc_open c row))"
  shows "oget k (lp_form (open_row c row s)) = oget k (pc_open c row)"
  using assms by (simp add: open_row_def Let_def page_fill_def get_merged) (simp add: oget_def map_of_eq_None_iff [THEN iffD2])

text \<open>The request that saves a row right after it was opened.\<close>

lemma opened_and_saved:
  assumes "i < length (lp_rows s)" "\<not> lp_saving s" "lp_edit t = Some edit" "t = open_row c (lp_rows s ! i) s" "page_accepts c filled edit t"
  shows "lp_sent (list_run c filled [OpenRow i, Save] s) =
    lp_sent s @ [(fst (pc_save c), pc_payload c edit (page_values c edit t), snd (pc_save c))]"
proof -
  have "\<not> lp_saving t" "lp_sent t = lp_sent s"
    using assms(2,4) by (auto simp: open_row_def Let_def page_fill_def page_ask_def split: option.split)
  then show ?thesis
    using assms by (simp add: list_run_def on_row_def save_row_def page_post_def page_ask_def page_values_def page_value_def)
qed

lemma plan_form:
  assumes "distinct (map fst (spread_of row))"
  shows "distinct (map fst (planToFormValues row))"
    and "x \<noteq> js ''transfer_enable'' \<Longrightarrow> oget x (planToFormValues row) =
      (if x \<in> js ` set planPriceFields then centsToYuan (jprop (JObj (spread_of row)) x) else jprop (JObj (spread_of row)) x)"
    and "oget (js ''transfer_enable'') (planToFormValues row) = planTrafficToGB (jprop (JObj (spread_of row)) (js ''transfer_enable''))"
proof -
  have form: "planToFormValues row = (let next = convert_fields centsToYuan planPriceFields (spread_of row)
      in oput (js ''transfer_enable'') (planTrafficToGB (oget (js ''transfer_enable'') next)) next)"
    by (simp add: planToFormValues_def convert_fields_def)
  show "distinct (map fst (planToFormValues row))"
    using assms by (simp add: form Let_def distinct_oput convert_fields_distinct)
  note get = convert_fields_get [OF price_fields_distinct(1)]
  show "x \<noteq> js ''transfer_enable'' \<Longrightarrow> oget x (planToFormValues row) =
      (if x \<in> js ` set planPriceFields then centsToYuan (jprop (JObj (spread_of row)) x) else jprop (JObj (spread_of row)) x)"
    by (simp add: form Let_def oget_oput get)
  show "oget (js ''transfer_enable'') (planToFormValues row) = planTrafficToGB (jprop (JObj (spread_of row)) (js ''transfer_enable''))"
    using price_fields_distinct(3) by (simp add: form Let_def oget_oput get image_iff)
qed

text \<open>C18: opening a plan and saving it without a change sends every price in cents exactly as it was, and the plan's number, however
  the prices are shown in between.\<close>
theorem plan_prices_kept:
  assumes "i < length (lp_rows s)" "\<not> lp_saving s" "lp_rows s ! i = JObj plan" "distinct (map fst plan)"
    "\<forall>k \<in> set planPriceFields. plan_price (oget (js k) plan)"
    "\<forall>v \<in> {oget (js ''name'') plan, oget (js ''group_id'') plan, planTrafficToGB (oget (js ''transfer_enable'') plan)}. filled v"
  shows "\<exists>body. lp_sent (list_run plan_page filled [OpenRow i, Save] s) = lp_sent s @ [(js ''/plan/save'', body, False)] \<and>
    (\<forall>k \<in> set planPriceFields. oget (js k) body = oget (js k) plan) \<and> oget (js ''id'') body = oget (js ''id'') plan"
proof -
  define t where "t = open_row plan_page (lp_rows s ! i) s"
  let ?row = "JObj plan"
  have page: "pc_reset plan_page" "pc_detail plan_page r = None" "pc_open plan_page r = planToFormValues r"
    "pc_fields plan_page e f = plan_fields" "pc_required plan_page e f = [''name'', ''group_id'', ''transfer_enable'']"
    "pc_save plan_page = (js ''/plan/save'', False)"
    "pc_payload plan_page e vs = omerge e (convert_fields yuanToCents planPriceFields vs)" for r e f vs
    by (simp_all add: plan_page_def plain_page_def convert_fields_def planFormValuesToPayload_def)
  have row: "distinct (map fst (spread_of ?row))" "spread_of ?row = plan" using assms(4) by (simp_all add: spread_of_def)
  note form = plan_form [OF row(1), unfolded row(2), simplified]
  have edit: "lp_edit t = Some plan" using assms(3) page(2) row(2) by (simp add: t_def open_row_def Let_def page_fill_def)
  have shown: "page_value k t = oget (js k) (planToFormValues ?row)" for k
    unfolding t_def page_value_def assms(3) using opened_form [of plan_page ?row "js k" s] page form(1) by simp
  have "page_accepts plan_page filled plan t"
    using assms(6) form(2,3) price_fields_distinct by (simp add: page_accepts_def page shown) (simp add: planPriceFields_def)
  from opened_and_saved [OF assms(1,2) edit t_def this]
  have sent: "lp_sent (list_run plan_page filled [OpenRow i, Save] s) = lp_sent s @ [(js ''/plan/save'',
      omerge plan (convert_fields yuanToCents planPriceFields (page_values plan_page plan t)), False)]" by (simp add: page)
  let ?body = "omerge plan (convert_fields yuanToCents planPriceFields (page_values plan_page plan t))"
  note get = get_merged [OF convert_fields_distinct [OF page_values_distinct]]
  have "oget (js k) ?body = oget (js k) plan" if k: "k \<in> set planPriceFields" for k
  proof -
    have "js k \<in> fst ` set (page_values plan_page plan t)" using k price_fields_distinct(2) by (auto simp: page_values_keys page)
    then have "js k \<in> fst ` set (convert_fields yuanToCents planPriceFields (page_values plan_page plan t))"
      using convert_fields_keys by blast
    then have "oget (js k) ?body = yuanToCents (page_value k t)"
      using k price_fields_distinct(1,2) by (simp add: get convert_fields_get page_values_get page subset_iff)
    also have "\<dots> = yuanToCents (centsToYuan (oget (js k) plan))"
      using k price_fields_distinct(3) form(2) [of "js k"] by (cases "k = ''transfer_enable''") (simp_all add: shown)
    finally show ?thesis using assms(5) k by (simp add: price_there_and_back)
  qed
  moreover have "oget (js ''id'') ?body = oget (js ''id'') plan"
  proof -
    have "js ''id'' \<notin> fst ` set (page_values plan_page plan t)" "js ''id'' \<notin> js ` set planPriceFields"
      unfolding page_values_keys page using price_fields_distinct(4,5) by auto
    then have "js ''id'' \<notin> fst ` set (convert_fields yuanToCents planPriceFields (page_values plan_page plan t))"
      using convert_fields_only by blast
    then show ?thesis by (simp add: get)
  qed
  ultimately show ?thesis using sent by blast
qed

definition demo_plan_row :: jobj where
  "demo_plan_row = [(js ''id'', JNum (num 3)), (js ''name'', JStr (js ''basic'')), (js ''group_id'', JNum (num 1)),
     (js ''month_price'', JNum (num 29)), (js ''transfer_enable'', JNum (num 100))]"

lemma plan_prices_kept_witness:
  "\<exists>body. lp_sent (list_run plan_page (\<lambda>_. True) [OpenRow 0, Save] (initial_page\<lparr>lp_rows := [JObj demo_plan_row]\<rparr>)) =
     [(js ''/plan/save'', body, False)] \<and>
     (\<forall>k \<in> set planPriceFields. oget (js k) body = oget (js k) demo_plan_row) \<and> oget (js ''id'') body = oget (js ''id'') demo_plan_row"
proof -
  have "\<forall>k \<in> set planPriceFields. plan_price (oget (js k) demo_plan_row)"
    by (simp add: planPriceFields_def demo_plan_row_def plan_price_def oget_def int_of_def num_def)
  then show ?thesis
    using plan_prices_kept [of 0 "initial_page\<lparr>lp_rows := [JObj demo_plan_row]\<rparr>" demo_plan_row "\<lambda>_. True"]
    by (simp add: initial_page_def) (simp add: demo_plan_row_def)
qed

section \<open>Late answers\<close>

text \<open>C36: an article that is asked for late ends up in the editor of another one: when an article is opened and closed again before its
  text has come, and another one is opened, the late answer replaces the text in the form, and saving writes the first article's
  text under the second article's number.\<close>
theorem article_saved_under_another:
  assumes "i < length (lp_rows s)" "j < length (lp_rows s)" "\<not> lp_saving s" "lp_requests s = []"
    "truthy (jprop (lp_rows s ! i) (js ''id''))" "truthy (jprop (lp_rows s ! j) (js ''id''))"
    "lp_rows s ! j = JObj second" "distinct (map fst second)"
    "jprop late (js ''data'') = JObj article" "distinct (map fst article)"
    "\<forall>k \<in> {''title'', ''category'', ''language'', ''body''}. js k \<in> fst ` set article \<and> filled (oget (js k) article)"
  shows "\<exists>body. lp_sent (list_run knowledge_page filled
      [OpenRow i, CloseRow, OpenRow j, Answer 1 (Answered [soon]), Answer 0 (Answered [late]), Save] s) =
      lp_sent s @ [(js ''/knowledge/save'', body, True)] \<and>
    oget (js ''id'') body = oget (js ''id'') second \<and>
    oget (js ''title'') body = oget (js ''title'') article \<and> oget (js ''body'') body = oget (js ''body'') article"
proof -
  define form where "form = omerge (article_answered (JObj second) (Some soon)) (article_answered (lp_rows s ! i) (Some late))"
  have page: "pc_reset knowledge_page" "pc_detail knowledge_page = article_asked" "pc_open knowledge_page = article_open"
    "pc_detailed knowledge_page = article_answered" "pc_save knowledge_page = (js ''/knowledge/save'', True)"
    "pc_fields knowledge_page = (\<lambda>_ _. [''title'', ''category'', ''language'', ''body''])"
    "pc_required knowledge_page = (\<lambda>_ _. [''title'', ''category'', ''language'', ''body''])" "pc_payload knowledge_page = article_payload"
    by (simp_all add: knowledge_page_def plain_page_def Let_def)
  have late: "article_answered (lp_rows s ! i) (Some late) = omerge [(js ''language'', JStr (js ''zh-CN''))] article"
    by (simp add: article_answered_def with_language_def assms(9) jor_def spread_of_def)
  have got: "oget (js k) (omerge f (omerge [(js ''language'', JStr (js ''zh-CN''))] article)) = oget (js k) article"
    if "js k \<in> fst ` set article" for f k
    using that assms(10) by (simp add: get_merged distinct_omerge fst_omerge)
  define t where "t = list_run knowledge_page filled
    [OpenRow i, CloseRow, OpenRow j, Answer 1 (Answered [soon]), Answer 0 (Answered [late])] s"
  have t: "lp_edit t = Some second" "lp_form t = omerge (omerge [] (article_answered (JObj second) (Some soon)))
      (omerge [(js ''language'', JStr (js ''zh-CN''))] article)" "lp_sent t = lp_sent s" "\<not> lp_saving t"
    using assms(1-7) unfolding t_def late [symmetric]
    by (simp_all add: list_run_def on_row_def open_row_def page article_open_def article_asked_def page_fill_def page_ask_def
        page_answered_def detail_answered_def remove_at_def spread_of_def)
  have shown: "page_value k t = oget (js k) article" if "k \<in> {''title'', ''category'', ''language'', ''body''}" for k
    using that assms(11) got by (auto simp: page_value_def t(2))
  have vals: "oget (js k) (page_values knowledge_page second t) = oget (js k) article"
    if "k \<in> {''title'', ''category'', ''language'', ''body''}" for k
    using page_values_get [of k knowledge_page second t] that shown [OF that] by (auto simp: page)
  have "page_accepts knowledge_page filled second t" using assms(11) by (simp add: page_accepts_def page shown)
  then have "lp_sent (list_react knowledge_page filled Save t) = lp_sent s @
      [(js ''/knowledge/save'', article_payload second (page_values knowledge_page second t), True)]"
    using t by (simp add: save_row_def page_post_def page_ask_def page page_values_def page_value_def)
  moreover have "oget (js ''id'') (article_payload second (page_values knowledge_page second t)) = oget (js ''id'') second"
    using page_values_keys [of "''id''" knowledge_page second t]
    by (simp add: article_payload_def Let_def oget_oput get_merged [OF page_values_distinct] page)
  moreover have "oget (js k) (article_payload second (page_values knowledge_page second t)) = oget (js k) article"
    if "k \<in> {''title'', ''body''}" for k
    using that page_values_keys [of k knowledge_page second t] vals [of k]
    by (auto simp: article_payload_def Let_def oget_oput get_merged [OF page_values_distinct] page)
  ultimately show ?thesis by (simp add: t_def list_run_def)
qed

definition demo_article :: "int \<Rightarrow> string \<Rightarrow> jobj" where
  "demo_article i body = [(js ''id'', JNum (num i)), (js ''title'', JStr (js body)), (js ''category'', JStr (js ''c'')),
     (js ''language'', JStr (js ''en-US'')), (js ''body'', JStr (js body))]"

definition demo_articles :: list_page where
  "demo_articles = initial_page\<lparr>lp_rows := [JObj (demo_article 1 ''first''), JObj (demo_article 2 ''second'')]\<rparr>"

lemma article_saved_under_another_witness:
  "\<exists>body. lp_sent (list_run knowledge_page (\<lambda>_. True) [OpenRow 0, CloseRow, OpenRow 1,
       Answer 1 (Answered [JObj [(js ''data'', JObj (demo_article 2 ''second''))]]),
       Answer 0 (Answered [JObj [(js ''data'', JObj (demo_article 1 ''first''))]]), Save] demo_articles) =
     [(js ''/knowledge/save'', body, True)] \<and>
     oget (js ''id'') body = JNum (num 2) \<and> oget (js ''title'') body = JStr (js ''first'') \<and> oget (js ''body'') body = JStr (js ''first'')"
  using article_saved_under_another [of 0 demo_articles 1 "demo_article 2 ''second''" "JObj [(js ''data'', JObj (demo_article 1 ''first''))]"
      "demo_article 1 ''first''" "\<lambda>_. True" "JObj [(js ''data'', JObj (demo_article 2 ''second''))]"]
  by (simp add: demo_articles_def initial_page_def) (simp add: demo_article_def oget_def num_truthy_def num_def)

text \<open>The answer to a save closes whatever editor is open, with what was typed in it.\<close>

lemma late_save_closes:
  assumes "i < length (lp_rows s)" "j < length (lp_rows s)" "\<not> lp_saving s" "lp_requests s = []"
    "pc_detail c = (\<lambda>_. None)" "page_accepts c filled (spread_of (lp_rows s ! i)) (open_row c (lp_rows s ! i) s)"
  shows "let t = list_run c filled [OpenRow i, Save, CloseRow, OpenRow j, Change k v, Answer 0 (Answered ps)] s
    in lp_edit t = None \<and> length (lp_sent t) = Suc (length (lp_sent s))"
  using assms
  by (simp add: list_run_def on_row_def open_row_def page_fill_def save_row_def page_post_def page_ask_def page_answered_def
      save_answered_def load_list_def page_say_def remove_at_def page_accepts_def page_value_def)

section \<open>Routes and coupons\<close>

text \<open>The patterns of a route survive the editor.\<close>

lemma route_match_roundtrip:
  assumes "\<forall>m \<in> set ms. m \<noteq> [] \<and> trim m = m \<and> 10 \<notin> set m"
  shows "match_lines (JStr (toLines (JArr (map JStr ms)))) = JArr (map JStr ms)"
proof (cases "ms = []")
  case False
  have joined: "toLines (JArr (map JStr ms)) = join [10] ms"
    by (simp add: toLines_def safeJsonParse_def lines_of_def comp_def)
  have "jor (JStr (join [10] ms)) (JStr []) = JStr (join [10] ms)" by (simp add: jor_def)
  moreover have "map trim ms = ms" "filter (\<lambda>x. x \<noteq> []) ms = ms" using assms by (auto intro: map_idI simp: filter_id_conv)
  ultimately show ?thesis using False assms by (simp add: joined match_lines_def split_on_join)
qed (simp add: toLines_def safeJsonParse_def lines_of_def match_lines_def jor_def)

text \<open>What is typed next to the sign of the currency is sent as it is, by the pages of coupons and of gift cards; the server counts
  in cents, and \<open>coupon_params\<close> of the older front end multiplies by a hundred.\<close>

lemma amounts_sent_as_typed:
  "oget (js ''value'') (pc_payload (coupon_page day unix) edit (page_values (coupon_page day unix) edit s)) = page_value ''value'' s"
  "gift_type (lp_form s) = num 1 \<Longrightarrow> page_value ''type'' s = JNum (num 1) \<Longrightarrow>
    oget (js ''value'') (pc_payload (gift_page day unix) edit (page_values (gift_page day unix) edit s)) = page_value ''value'' s"
proof -
  have c: "''value'' \<in> set (pc_fields (coupon_page day unix) edit f)" "''value'' \<in> set (pc_fields (gift_page day unix) edit f)"
    "''type'' \<in> set (pc_fields (gift_page day unix) edit f)" for f
    by (simp_all add: coupon_page_def gift_page_def card_fields_def gift_fields_def Let_def)
  have p: "pc_payload (coupon_page day unix) = (\<lambda>edit vals. with_range unix vals (omerge edit vals))"
    "pc_payload (gift_page day unix) = gift_payload unix"
    by (simp_all add: coupon_page_def gift_page_def Let_def)
  show "oget (js ''value'') (pc_payload (coupon_page day unix) edit (page_values (coupon_page day unix) edit s)) = page_value ''value'' s"
    using c(1) by (simp add: p with_range_def oget_oput get_merged [OF page_values_distinct] page_values_keys page_values_get)
  show "gift_type (lp_form s) = num 1 \<Longrightarrow> page_value ''type'' s = JNum (num 1) \<Longrightarrow>
    oget (js ''value'') (pc_payload (gift_page day unix) edit (page_values (gift_page day unix) edit s)) = page_value ''value'' s"
    using page_values_get [OF c(2)] page_values_get [OF c(3)]
    by (simp add: p gift_payload_def with_range_def Let_def oget_oput num_def)
qed

end
