(* ===== verification/UserPage.thy ===== *)
theory UserPage
  imports ShopSafety
begin

text \<open>
  The page of users (\<open>pages/UserPage.tsx\<close>): the values of the editor and what they are sent as, the list with its filters, and the
  actions on one user and on all users that a filter selects. Answers arrive in any order. \<open>day\<close> is \<open>dayjs\<close> of milliseconds, \<open>unix\<close>
  its method of that name.
\<close>

section \<open>Values of the editor\<close>

definition moneyFromCents :: "jsv \<Rightarrow> jsv" where
  "moneyFromCents = numeric_or (\<lambda>n. str_num (to_fixed 2 (num_div n (num 100))))"

definition centsFromMoney :: "jsv \<Rightarrow> jsv" where
  "centsFromMoney = numeric_or (\<lambda>n. num_round (num_mul n (num 100)))"

lemma user_money_kept: "plan_price v \<Longrightarrow> centsFromMoney (moneyFromCents v) = v"
  using price_there_and_back [of v] by (simp add: moneyFromCents_def centsFromMoney_def centsToYuan_def yuanToCents_def)

definition bytesFromGBForm :: "jsv \<Rightarrow> jsv" where
  "bytesFromGBForm v = (if blank v then v else gbToBytes v)"

definition boolToNumber :: "jsv \<Rightarrow> jsv" where
  "boolToNumber v = JNum (num (if v = JBool True \<or> v = JNum (num 1) \<or> v = JStr (js ''1'') then 1 else 0))"

definition isNeverExpire :: "jsv \<Rightarrow> bool" where
  "isNeverExpire v \<longleftrightarrow> \<not> num_truthy (amount v)"

definition isUserBanned :: "jsv \<Rightarrow> bool" where
  "isUserBanned v \<longleftrightarrow> v = JBool True \<or> amount v = num 1"

definition put_all :: "(string \<times> jsv) list \<Rightarrow> jobj \<Rightarrow> jobj" where
  "put_all kvs obj = fold (\<lambda>(k, v). oput (js k) v) kvs obj"

definition userToAdminFormValues :: "(jnum \<Rightarrow> jsv) \<Rightarrow> jsv \<Rightarrow> jobj" where
  "userToAdminFormValues day data =
     (let expiredAt = amount (jprop data (js ''expired_at''))
      in put_all
           [(''banned'', JNum (num (if isUserBanned (jprop data (js ''banned'')) then 1 else 0))),
            (''password'', JStr []),
            (''transfer_enable'', JNum (bytesToGB (jprop data (js ''transfer_enable'')))),
            (''u'', JNum (bytesToGB (jprop data (js ''u'')))),
            (''d'', JNum (bytesToGB (jprop data (js ''d'')))),
            (''balance'', moneyFromCents (jprop data (js ''balance''))),
            (''commission_balance'', moneyFromCents (jprop data (js ''commission_balance''))),
            (''invite_user_email'',
              coalesce (jprop data (js ''invite_user_email'')) (jprop (jprop data (js ''invite_user'')) (js ''email''))),
            (''never_expire'', JBool (isNeverExpire (jprop data (js ''expired_at'')))),
            (''expired_at'', if num_lt (num 0) expiredAt then day (num_mul expiredAt (num 1000)) else JNull)]
           (spread_of data))"

definition unset_to_empty :: "jobj \<Rightarrow> string \<Rightarrow> jobj \<Rightarrow> jobj" where
  "unset_to_empty vals k payload =
     (if ohas (js k) vals \<and> nullish (oget (js k) payload) then oput (js k) (JStr []) payload else payload)"

definition as_flag :: "string \<Rightarrow> jobj \<Rightarrow> jobj" where
  "as_flag k payload = (if ohas (js k) payload then oput (js k) (boolToNumber (oget (js k) payload)) payload else payload)"

definition userFormValuesToPayload :: "(jsv \<Rightarrow> jnum) \<Rightarrow> jobj \<Rightarrow> jobj" where
  "userFormValuesToPayload unix vals =
     (let field = (\<lambda>k. oget (js k) vals);
          expiry = (if truthy (field ''never_expire'') \<or> \<not> truthy (field ''expired_at'') then JNum (num 0)
            else JNum (unix (field ''expired_at'')));
          p1 = put_all
            [(''transfer_enable'', bytesFromGBForm (field ''transfer_enable'')), (''u'', bytesFromGBForm (field ''u'')),
             (''d'', bytesFromGBForm (field ''d'')), (''balance'', centsFromMoney (field ''balance'')),
             (''commission_balance'', centsFromMoney (field ''commission_balance'')), (''expired_at'', expiry)] vals;
          p2 = odel (js ''never_expire'') p1;
          p3 = fold (unset_to_empty vals) [''plan_id'', ''device_limit'', ''commission_rate'', ''discount'', ''speed_limit''] p2;
          p4 = as_flag ''is_staff'' (as_flag ''is_admin'' p3);
          p5 = (if truthy (oget (js ''invite_user'') p4) then odel (js ''invite_user'') p4 else p4)
      in if nullish (oget (js ''invite_user_email'') p5) then oput (js ''invite_user_email'') (JStr []) p5 else p5)"

definition user_fields :: "string list" where
  "user_fields =
     [''email'', ''invite_user_email'', ''invite_code'', ''password'', ''balance'', ''commission_balance'', ''u'', ''d'', ''transfer_enable'',
      ''device_limit'', ''never_expire'', ''expired_at'', ''plan_id'', ''banned'', ''commission_type'', ''commission_rate'', ''discount'',
      ''speed_limit'', ''is_admin'', ''is_staff'', ''remarks'']"

definition user_values :: "jobj \<Rightarrow> jobj" where
  "user_values form = obj_of (map (\<lambda>k. (js k, oget (js k) form)) user_fields)"

section \<open>Filters\<close>

record user_filter =
  uf_key :: jstr
  uf_condition :: jstr
  uf_value :: jsv

definition filter_object :: "user_filter \<Rightarrow> jsv" where
  "filter_object f = JObj [(js ''key'', JStr (uf_key f)), (js ''condition'', JStr (uf_condition f)), (js ''value'', uf_value f)]"

definition is_set :: "user_filter \<Rightarrow> bool" where
  "is_set f \<longleftrightarrow> trim (to_str (coalesce (uf_value f) (JStr []))) \<noteq> []"

text \<open>The keys of \<open>filterDefinitions\<close> with their first condition; \<open>like\<close> is the word for a partial match.\<close>

definition filterDefinitions :: "jstr \<Rightarrow> (string \<times> jstr) list" where
  "filterDefinitions like =
     [(''email'', like), (''id'', js ''=''), (''plan_id'', js ''=''), (''transfer_enable'', js ''>=''), (''d'', js ''>=''),
      (''expired_at'', js ''>=''), (''uuid'', js ''=''), (''token'', js ''=''), (''banned'', js ''=''), (''invite_by_email'', like),
      (''invite_user_id'', js ''=''), (''remarks'', like), (''is_admin'', js ''=''), (''t'', js ''>='')]"

text \<open>\<open>query\<close>: the parameters of the address; an absent one and an empty one are alike here.\<close>

definition initialFilters :: "jstr \<Rightarrow> (string \<Rightarrow> jstr) \<Rightarrow> user_filter list" where
  "initialFilters like query =
     (let key = query ''filter_key'';
          first = (case find (\<lambda>(k, _). js k = key) (filterDefinitions like) of Some (_, c) \<Rightarrow> c | None \<Rightarrow> like)
      in if key = [] then []
         else [\<lparr>uf_key = key, uf_condition = (if query ''condition'' = [] then first else query ''condition''),
                uf_value = JStr (query ''value'')\<rparr>])"

section \<open>State\<close>

record users_view =
  uv_current :: jsv
  uv_size :: jsv
  uv_sort :: jsv
  uv_order :: jsv

text \<open>What the handlers of one rendering of the page see: a handler that loads the list when its answer is there still sees the values
  of the moment it was started.\<close>

record rendering =
  re_view :: users_view
  re_filters :: "user_filter list" \<comment> \<open>\<open>effectiveFilters\<close>\<close>
  re_plans :: "jsv list"
  re_groups :: "jsv list"

datatype user_request =
    LoadingUsers users_view "jsv list" "jsv list"
  | ReadingUser jsv
  | SavingUser rendering
  | ResettingSecret rendering
  | BatchRunning rendering
  | Banning bool rendering
  | Exporting
  | Mailing rendering
  | DeletingUser rendering

datatype user_notice = UsersFailed | UserSaved | SecretReset | FilterMissing | BatchDone | BanDone bool | BanRefused bool | Exported
  | ExportRefused | MailQueued | MailRefused | UserDeleted

record user_page =
  us_rows :: "jsv list"
  us_total :: jsv
  us_loading :: bool
  us_filters :: "user_filter list"
  us_view :: users_view
  us_plans :: "jsv list"
  us_groups :: "jsv list"
  us_edit :: "jsv option"
  us_form :: jobj
  us_mail :: bool \<comment> \<open>the dialog is open\<close>
  us_mailing :: bool
  us_requests :: "user_request list"
  us_asked :: "jobj list" \<comment> \<open>parameters of the requests for the list\<close>
  us_sent :: "(jstr \<times> jobj) list"
  us_notices :: "user_notice list"

definition initial_view :: users_view where
  "initial_view = \<lparr>uv_current = JNum (num 1), uv_size = JNum (num 50), uv_sort = JStr (js ''id''), uv_order = JStr (js ''DESC'')\<rparr>"

definition initial_users :: "user_filter list \<Rightarrow> user_page" where
  "initial_users fs = \<lparr>us_rows = [], us_total = JNum (num 0), us_loading = False, us_filters = fs, us_view = initial_view, us_plans = [],
     us_groups = [], us_edit = None, us_form = [], us_mail = False, us_mailing = False, us_requests = [], us_asked = [], us_sent = [],
     us_notices = []\<rparr>"

definition user_say :: "user_notice \<Rightarrow> user_page \<Rightarrow> user_page" where
  "user_say n s = s\<lparr>us_notices := us_notices s @ [n]\<rparr>"

definition user_ask :: "user_request \<Rightarrow> user_page \<Rightarrow> user_page" where
  "user_ask r s = s\<lparr>us_requests := us_requests s @ [r]\<rparr>"

definition user_post :: "user_request \<Rightarrow> string \<Rightarrow> jobj \<Rightarrow> user_page \<Rightarrow> user_page" where
  "user_post r path body s = user_ask r (s\<lparr>us_sent := us_sent s @ [(js path, body)]\<rparr>)"

section \<open>The list\<close>

definition effectiveFilters :: "user_page \<Rightarrow> user_filter list" where
  "effectiveFilters s = filter is_set (us_filters s)"

definition filters_value :: "user_filter list \<Rightarrow> jsv" where
  "filters_value fs = JArr (map filter_object fs)"

definition rendered :: "user_page \<Rightarrow> rendering" where
  "rendered s = \<lparr>re_view = us_view s, re_filters = effectiveFilters s, re_plans = us_plans s, re_groups = us_groups s\<rparr>"

definition load_users :: "rendering \<Rightarrow> users_view \<Rightarrow> user_filter list option \<Rightarrow> user_page \<Rightarrow> user_page" where
  "load_users re v override s =
     (let active = (case override of Some fs \<Rightarrow> fs | None \<Rightarrow> re_filters re);
          params = [(js ''current'', uv_current v), (js ''pageSize'', uv_size v), (js ''sort'', uv_sort v), (js ''sort_type'', uv_order v)] @
            (if active = [] then [] else [(js ''filter'', filters_value active)])
      in user_ask (LoadingUsers v (re_plans re) (re_groups re)) (s\<lparr>us_loading := True, us_asked := us_asked s @ [params]\<rparr>))"

definition reload_users :: "rendering \<Rightarrow> user_page \<Rightarrow> user_page" where
  "reload_users re s = load_users re (re_view re) None s"

text \<open>An answer: the payload for the list, the plans and the groups (they are asked for when there are none; empty when their request failed).\<close>

datatype user_answer = Users jsv "jsv list" "jsv list" | Done jsv | NotDone

definition users_answered :: "users_view \<Rightarrow> jsv list \<Rightarrow> jsv list \<Rightarrow> user_answer \<Rightarrow> user_page \<Rightarrow> user_page" where
  "users_answered v seen_plans seen_groups a s =
     (case a of
        Users res plans groups \<Rightarrow>
          s\<lparr>us_rows := data_list res,
            us_total := jor (jprop res (js ''total'')) (jor (jprop (jprop res (js ''data'')) (js ''total'')) (JNum (num 0))),
            us_plans := (if seen_plans \<noteq> [] then seen_plans else plans),
            us_groups := (if seen_groups \<noteq> [] then seen_groups else groups), us_view := v\<rparr>
      | _ \<Rightarrow> user_say UsersFailed s)\<lparr>us_loading := False\<rparr>"

definition apply_filters :: "user_filter list \<Rightarrow> user_page \<Rightarrow> user_page" where
  "apply_filters fs s = load_users (rendered s) ((us_view s)\<lparr>uv_current := JNum (num 1)\<rparr>) (Some (filter is_set fs)) (s\<lparr>us_filters := fs\<rparr>)"

definition show_invites :: "jsv \<Rightarrow> user_page \<Rightarrow> user_page" where
  "show_invites row s =
     (let fs = [\<lparr>uf_key = js ''invite_user_id'', uf_condition = js ''='', uf_value = jprop row (js ''id'')\<rparr>]
      in load_users (rendered s) ((us_view s)\<lparr>uv_current := JNum (num 1)\<rparr>) (Some fs) (s\<lparr>us_filters := fs\<rparr>))"

definition change_table :: "jsv \<Rightarrow> jsv \<Rightarrow> jsv \<Rightarrow> bool \<Rightarrow> user_page \<Rightarrow> user_page" where
  "change_table current shown field ascending s =
     load_users (rendered s) \<lparr>uv_current = current, uv_size = shown, uv_sort = jor field (uv_sort (us_view s)),
       uv_order = JStr (js (if ascending then ''ASC'' else ''DESC''))\<rparr> None s"

section \<open>One user\<close>

definition user_read :: "(jnum \<Rightarrow> jsv) \<Rightarrow> jsv \<Rightarrow> user_answer \<Rightarrow> user_page \<Rightarrow> user_page" where
  "user_read day row a s =
     (let data = (case a of Done res \<Rightarrow> jor (jprop res (js ''data'')) row | _ \<Rightarrow> row)
      in s\<lparr>us_edit := Some data, us_form := omerge [] (userToAdminFormValues day data)\<rparr>)"

definition change_user :: "string \<Rightarrow> jsv \<Rightarrow> user_page \<Rightarrow> user_page" where
  "change_user k v s =
     (if us_edit s = None then s
      else if k = ''never_expire'' \<and> truthy v then s\<lparr>us_form := omerge (us_form s) [(js k, v), (js ''expired_at'', JNull)]\<rparr>
      else s\<lparr>us_form := omerge (us_form s) [(js k, v)]\<rparr>)"

definition save_user :: "(jsv \<Rightarrow> jnum) \<Rightarrow> user_page \<Rightarrow> user_page" where
  "save_user unix s =
     (case us_edit s of
        None \<Rightarrow> s
      | Some edit \<Rightarrow> user_post (SavingUser (rendered s)) ''/user/update''
          (omerge (id_body edit) (userFormValuesToPayload unix (user_values (us_form s)))) s)"

definition setUserBanned :: "jsv \<Rightarrow> bool \<Rightarrow> user_page \<Rightarrow> user_page" where
  "setUserBanned row ban s = user_post (Banning ban (rendered s)) (if ban then ''/user/ban'' else ''/user/unban'')
     [(js ''filter'', filters_value [\<lparr>uf_key = js ''id'', uf_condition = js ''='', uf_value = jprop row (js ''id'')\<rparr>])] s"

section \<open>All users of a filter\<close>

datatype batch = BanAll | UnbanAll | DeleteAll

definition batch_path :: "batch \<Rightarrow> string" where
  "batch_path b = (case b of BanAll \<Rightarrow> ''/user/ban'' | UnbanAll \<Rightarrow> ''/user/unban'' | DeleteAll \<Rightarrow> ''/user/allDel'')"

definition filter_body :: "user_page \<Rightarrow> jobj" where
  "filter_body s = [(js ''filter'', filters_value (effectiveFilters s))]"

definition batchAction :: "batch \<Rightarrow> user_page \<Rightarrow> user_page" where
  "batchAction b s =
     (if effectiveFilters s = [] then user_say FilterMissing s else user_post (BatchRunning (rendered s)) (batch_path b) (filter_body s) s)"

definition dumpCSV :: "user_page \<Rightarrow> user_page" where
  "dumpCSV s = (if effectiveFilters s = [] then user_say FilterMissing s else user_post Exporting ''/user/dumpCSV'' (filter_body s) s)"

text \<open>Without a filter a mail goes to everybody: the dialog says so. Its button waits while a mail is being sent.\<close>

definition sendMail :: "jsv \<Rightarrow> jsv \<Rightarrow> user_page \<Rightarrow> user_page" where
  "sendMail subject content s =
     (if us_mail s \<and> \<not> us_mailing s
      then user_post (Mailing (rendered s)) ''/user/sendMail'' (filter_body s @ [(js ''subject'', subject), (js ''content'', content)])
        (s\<lparr>us_mailing := True\<rparr>)
      else s)"

section \<open>Steps\<close>

datatype user_event =
    ApplyFilters "user_filter list"
  | ChangeTable jsv jsv jsv bool
  | ShowInvites nat
  | EditUser nat
  | ChangeUser string jsv
  | CloseUser
  | SaveUser
  | ConfirmBan nat bool
  | ResetSecret nat
  | DeleteUser nat
  | Batch batch
  | Export
  | OpenMail
  | CloseMail
  | SendMail jsv jsv
  | AnswerUser nat user_answer

definition user_answered :: "(jnum \<Rightarrow> jsv) \<Rightarrow> user_request \<Rightarrow> user_answer \<Rightarrow> user_page \<Rightarrow> user_page" where
  "user_answered day r a s =
     (let ok = (case a of NotDone \<Rightarrow> False | _ \<Rightarrow> True); then_load = (\<lambda>n re t. if ok then reload_users re (user_say n t) else t)
      in case r of
           LoadingUsers v plans groups \<Rightarrow> users_answered v plans groups a s
         | ReadingUser row \<Rightarrow> user_read day row a s
         | SavingUser re \<Rightarrow> if ok then reload_users re ((user_say UserSaved s)\<lparr>us_edit := None\<rparr>) else s
         | ResettingSecret re \<Rightarrow> then_load SecretReset re s
         | BatchRunning re \<Rightarrow> then_load BatchDone re s
         | Banning ban re \<Rightarrow> if ok then reload_users re (user_say (BanDone ban) s) else user_say (BanRefused ban) s
         | Exporting \<Rightarrow> user_say (if ok then Exported else ExportRefused) s
         | Mailing re \<Rightarrow>
             if ok then (user_say MailQueued (reload_users re s))\<lparr>us_mail := False, us_mailing := False\<rparr>
             else (user_say MailRefused s)\<lparr>us_mailing := False\<rparr>
         | DeletingUser re \<Rightarrow> then_load UserDeleted re s)"

definition at_user :: "nat \<Rightarrow> (jsv \<Rightarrow> user_page \<Rightarrow> user_page) \<Rightarrow> user_page \<Rightarrow> user_page" where
  "at_user n f s = (if n < length (us_rows s) then f (us_rows s ! n) s else s)"

fun user_react :: "(jnum \<Rightarrow> jsv) \<Rightarrow> (jsv \<Rightarrow> jnum) \<Rightarrow> user_event \<Rightarrow> user_page \<Rightarrow> user_page" where
  "user_react day unix (ApplyFilters fs) s = apply_filters fs s"
| "user_react day unix (ChangeTable c n f up) s = change_table c n f up s"
| "user_react day unix (ShowInvites n) s = at_user n show_invites s"
| "user_react day unix (EditUser n) s = at_user n (\<lambda>row. user_ask (ReadingUser row)) s"
| "user_react day unix (ChangeUser k v) s = change_user k v s"
| "user_react day unix CloseUser s = s\<lparr>us_edit := None, us_form := []\<rparr>"
| "user_react day unix SaveUser s = save_user unix s"
| "user_react day unix (ConfirmBan n ban) s = at_user n (\<lambda>row. setUserBanned row ban) s"
| "user_react day unix (ResetSecret n) s = at_user n (\<lambda>row. user_post (ResettingSecret (rendered s)) ''/user/resetSecret'' (id_body row)) s"
| "user_react day unix (DeleteUser n) s = at_user n (\<lambda>row. user_post (DeletingUser (rendered s)) ''/user/delUser'' (id_body row)) s"
| "user_react day unix (Batch b) s = batchAction b s"
| "user_react day unix Export s = dumpCSV s"
| "user_react day unix OpenMail s = s\<lparr>us_mail := True\<rparr>"
| "user_react day unix CloseMail s = s\<lparr>us_mail := False\<rparr>"
| "user_react day unix (SendMail subject content) s = sendMail subject content s"
| "user_react day unix (AnswerUser n a) s =
     (if n < length (us_requests s)
      then user_answered day (us_requests s ! n) a (s\<lparr>us_requests := remove_at n (us_requests s)\<rparr>) else s)"

inductive user_reach :: "(jnum \<Rightarrow> jsv) \<Rightarrow> (jsv \<Rightarrow> jnum) \<Rightarrow> user_page \<Rightarrow> bool" for day unix where
  opened: "user_reach day unix (reload_users (rendered (initial_users fs)) (initial_users fs))"
| reacted: "user_reach day unix s \<Longrightarrow> user_reach day unix (user_react day unix e s)"

end
