(* ===== verification/UserSafety.thy ===== *)
theory UserSafety
  imports UserPage
begin

text \<open>
  The page of users (\<open>UserPage\<close>): an action on many users always names a filter, and what saving an unchanged user sends.
\<close>

section \<open>Actions on many users\<close>

definition bulk_paths :: "string set" where
  "bulk_paths = {''/user/ban'', ''/user/unban'', ''/user/allDel'', ''/user/dumpCSV''}"

definition one_user :: "jsv \<Rightarrow> user_filter list" where
  "one_user row = [\<lparr>uf_key = js ''id'', uf_condition = js ''='', uf_value = jprop row (js ''id'')\<rparr>]"

definition bulk_proper :: "jstr \<times> jobj \<Rightarrow> bool" where
  "bulk_proper = (\<lambda>(path, body). path \<in> js ` bulk_paths \<longrightarrow>
     (\<exists>fs. body = [(js ''filter'', filters_value fs)] \<and> fs \<noteq> [] \<and>
        (list_all is_set fs \<or> path \<in> {js ''/user/ban'', js ''/user/unban''} \<and> (\<exists>row. fs = one_user row))))"

definition sent_bulk :: "user_page \<Rightarrow> bool" where
  "sent_bulk s \<longleftrightarrow> list_all bulk_proper (us_sent s)"

lemma sent_bulk_same:
  "sent_bulk (user_say n s) = sent_bulk s" "sent_bulk (user_ask r s) = sent_bulk s" "sent_bulk (load_users re v fs s) = sent_bulk s"
  "sent_bulk (reload_users re s) = sent_bulk s" "sent_bulk (user_read day row a s) = sent_bulk s"
  "sent_bulk (users_answered v ps gs a s) = sent_bulk s" "sent_bulk (change_user k w s) = sent_bulk s"
  "sent_bulk (apply_filters gs' s) = sent_bulk s" "sent_bulk (show_invites row s) = sent_bulk s"
  "sent_bulk (change_table c d e up s) = sent_bulk s" "sent_bulk (s\<lparr>us_edit := v1, us_form := v2\<rparr>) = sent_bulk s"
  "sent_bulk (s\<lparr>us_edit := v1\<rparr>) = sent_bulk s" "sent_bulk (s\<lparr>us_requests := v3\<rparr>) = sent_bulk s"
  "sent_bulk (s\<lparr>us_mail := v4\<rparr>) = sent_bulk s" "sent_bulk (s\<lparr>us_mailing := v5\<rparr>) = sent_bulk s"
  "sent_bulk (s\<lparr>us_mail := v4, us_mailing := v5\<rparr>) = sent_bulk s"
  by (simp_all add: sent_bulk_def user_say_def user_ask_def load_users_def reload_users_def user_read_def users_answered_def
      change_user_def apply_filters_def show_invites_def change_table_def Let_def split: user_answer.split)

lemma sent_bulk_post: "bulk_proper (js path, body) \<Longrightarrow> sent_bulk s \<Longrightarrow> sent_bulk (user_post r path body s)"
  by (simp add: user_post_def sent_bulk_same) (simp add: sent_bulk_def)

lemma other_path: "path \<notin> bulk_paths \<Longrightarrow> bulk_proper (js path, body)"
  by (auto simp: bulk_proper_def)

lemma batch_proper: "effectiveFilters s \<noteq> [] \<Longrightarrow> bulk_proper (p, filter_body s)"
  by (auto simp: bulk_proper_def filter_body_def effectiveFilters_def list_all_iff intro!: exI [of _ "filter is_set (us_filters s)"])

lemma ban_proper: "bulk_proper (js (if ban then ''/user/ban'' else ''/user/unban''), [(js ''filter'', filters_value (one_user row))])"
  by (auto simp: bulk_proper_def one_user_def)

lemma sent_bulk_answered: "sent_bulk s \<Longrightarrow> sent_bulk (user_answered day r a s)"
  by (cases r; cases a) (simp_all add: user_answered_def Let_def sent_bulk_same)

lemma sent_bulk_at: "(\<And>row t. sent_bulk t \<Longrightarrow> sent_bulk (f row t)) \<Longrightarrow> sent_bulk s \<Longrightarrow> sent_bulk (at_user n f s)"
  by (simp add: at_user_def)

lemma sent_bulk_react: "sent_bulk s \<Longrightarrow> sent_bulk (user_react day unix e s)"
proof (cases e)
  case (ConfirmBan n ban)
  assume "sent_bulk s"
  then show ?thesis
    using ban_proper [of ban] by (auto simp: ConfirmBan setUserBanned_def one_user_def [symmetric] intro!: sent_bulk_at sent_bulk_post)
next
  case (Batch b)
  assume "sent_bulk s"
  then show ?thesis using batch_proper [of s] by (simp add: Batch batchAction_def sent_bulk_same sent_bulk_post)
next
  case Export
  assume "sent_bulk s"
  then show ?thesis using batch_proper [of s] by (simp add: Export dumpCSV_def sent_bulk_same sent_bulk_post)
qed (auto simp: save_user_def sendMail_def sent_bulk_same sent_bulk_answered bulk_paths_def
    intro!: sent_bulk_at sent_bulk_post other_path split: option.split)

text \<open>C16: banning, unbanning, deleting or exporting many users is never asked for without a filter: in every reachable state each such
  request carries a non-empty list of filters, all with a value, or it is the ban of one user by its number.\<close>
theorem bulk_names_a_filter: "user_reach day unix s \<Longrightarrow> list_all bulk_proper (us_sent s)"
proof (induction rule: user_reach.induct)
  case (opened fs)
  show ?case by (simp add: reload_users_def load_users_def user_ask_def initial_users_def Let_def)
next
  case (reacted s e)
  then show ?case using sent_bulk_react by (simp add: sent_bulk_def)
qed

definition demo_bulk :: user_page where
  "demo_bulk = (let fs = [\<lparr>uf_key = js ''email'', uf_condition = js ''='', uf_value = JStr (js ''x'')\<rparr>]; s = initial_users fs
     in user_react (\<lambda>_. JNull) (\<lambda>_. num 0) (Batch DeleteAll) (reload_users (rendered s) s))"

lemma bulk_names_a_filter_witness: "list_all bulk_proper (us_sent demo_bulk) \<and> map fst (us_sent demo_bulk) = [js ''/user/allDel'']"
proof
  have "user_reach (\<lambda>_. JNull) (\<lambda>_. num 0) demo_bulk" 
    unfolding demo_bulk_def Let_def by (intro user_reach.reacted user_reach.opened)
  then show "list_all bulk_proper (us_sent demo_bulk)" by (rule bulk_names_a_filter)
  show "map fst (us_sent demo_bulk) = [js ''/user/allDel'']" by code_simp
qed

section \<open>Traffic\<close>

lemma amount_num [simp]: "amount (JNum (num i)) = num i"
  by (auto simp: amount_def jor_def num_truthy_def num_def)

lemma amount_fin [simp]: "amount (JNum (Fin q)) = Fin q"
  by (auto simp: amount_def jor_def num_truthy_def num_def)

lemma shown_traffic:
  assumes "0 \<le> b" "b \<le> 2 ^ 50"
  shows "bytesToGB (JNum (num b)) = rnd (of_int (hundredths (of_int b / 1073741824)) / 100)"
proof -
  have exact: "over1024 (over1024 (over1024 (num b))) = Fin (of_int b / 1073741824)"
  proof (cases "b = 0")
    case False
    then have "0 < b" "b < 2 ^ 53" using assms by simp_all
    note step = over1024_dyadic [OF this]
    have "over1024 (num b) = Fin (of_int b / 1024)" using step [of 0] by (simp add: over1024_def num_def)
    moreover have "over1024 (Fin (of_int b / 1024)) = Fin (of_int b / 1024 ^ 2)" using step [of 1] by (simp add: over1024_def numeral_2_eq_2)
    moreover have "over1024 (Fin (of_int b / 1024 ^ 2)) = Fin (of_int b / 1073741824)" using step [of 2] by (simp add: over1024_def)
    ultimately show ?thesis by simp
  qed (simp add: over1024_def num_div_def num_def rnd_def)
  have "(of_int b :: rat) \<le> 1125899906842624" using assms(2) of_int_le_iff [where 'a = rat, of b 1125899906842624] by simp
  then have "\<bar>of_int b / 1073741824 :: rat\<bar> < 10 ^ 21" using assms(1) by simp
  then have "str_num (to_fixed 2 (Fin (of_int b / 1073741824))) = rnd (of_int (hundredths (of_int b / 1073741824)) / 100)"
    by (rule fixed_is_nearest)
  moreover have "is_finite (num b)" by (simp add: is_finite_def num_def)
  ultimately show ?thesis by (simp add: bytesToGB_def exact)
qed

lemma times1024_near:
  assumes "\<bar>q\<bar> < pow2 (k + 1) / 1024" "0 \<le> k" "k \<le> 100"
  obtains r where "times1024 (Fin q) = Fin r" "\<bar>r - q * 1024\<bar> \<le> pow2 (k - 53)"
proof -
  have "\<bar>q * 1024\<bar> < pow2 (k + 1)" using assms(1) by (simp add: abs_mult)
  then obtain r where "rnd (q * 1024) = Fin r" "\<bar>r - q * 1024\<bar> \<le> pow2 (k - 53)" by (rule rnd_error) (use assms(2,3) in simp_all)
  then show thesis using that by (simp add: times1024_def num_mul_def num_def)
qed

lemma traffic_drift:
  assumes "0 \<le> b" "b \<le> 2 ^ 50"
  obtains c where "bytesFromGBForm (JNum (bytesToGB (JNum (num b)))) = JNum (num c)" "\<bar>c - b\<bar> \<le> 5368710"
proof -
  define g where "g = (of_int b / 1073741824 :: rat)"
  define h where "h = (of_int (hundredths g) / 100 :: rat)"
  have p: "pow2 (20 + 1) = 2097152" "pow2 (30 + 1) = 2147483648" "pow2 (40 + 1) = 2199023255552" "pow2 (50 + 1) = 2251799813685248"
    "pow2 (20 - 53) = 1 / 8589934592" "pow2 (30 - 53) = 1 / 8388608" "pow2 (40 - 53) = 1 / 8192" "pow2 (50 - 53) = 1 / 8"
    by (simp_all add: pow2_def)
  have "(of_int b :: rat) \<le> 1125899906842624" using assms(2) of_int_le_iff [where 'a = rat, of b 1125899906842624] by simp
  then have g: "0 \<le> g" "g \<le> 1048576" using assms(1) by (simp_all add: g_def)
  have near: "\<bar>h - g\<bar> \<le> 1 / 200" using hundredths_error [of g] unfolding h_def by linarith
  have "\<bar>h\<bar> < pow2 (20 + 1)" unfolding p using g near by linarith
  then obtain r0 where r0: "rnd h = Fin r0" "\<bar>r0 - h\<bar> \<le> pow2 (20 - 53)" by (rule rnd_error) simp_all
  have "\<bar>r0\<bar> < pow2 (30 + 1) / 1024" using r0(2) near g unfolding p by linarith
  then obtain r1 where r1: "times1024 (Fin r0) = Fin r1" "\<bar>r1 - r0 * 1024\<bar> \<le> pow2 (30 - 53)" by (rule times1024_near) simp_all
  have "\<bar>r1\<bar> < pow2 (40 + 1) / 1024" using r1(2) r0(2) near g unfolding p by linarith
  then obtain r2 where r2: "times1024 (Fin r1) = Fin r2" "\<bar>r2 - r1 * 1024\<bar> \<le> pow2 (40 - 53)" by (rule times1024_near) simp_all
  have "\<bar>r2\<bar> < pow2 (50 + 1) / 1024" using r2(2) r1(2) r0(2) near g unfolding p by linarith
  then obtain r3 where r3: "times1024 (Fin r2) = Fin r3" "\<bar>r3 - r2 * 1024\<bar> \<le> pow2 (50 - 53)" by (rule times1024_near) simp_all
  define c where "c = \<lfloor>r3 + 1/2\<rfloor>"
  have "bytesToGB (JNum (num b)) = Fin r0" using shown_traffic [OF assms] r0(1) by (simp add: g_def h_def)
  then have "bytesFromGBForm (JNum (bytesToGB (JNum (num b)))) = JNum (num c)"
    by (simp add: bytesFromGBForm_def blank_def gbToBytes_def r1(1) r2(1) r3(1) Let_def is_finite_def)
      (simp add: num_round_def num_map_def num_def c_def)
  moreover have "\<bar>of_int c - r3\<bar> \<le> 1/2" unfolding c_def by linarith
  then have "\<bar>of_int c - of_int b\<bar> \<le> (5368711 :: rat) - 1/2"
    using r3(2) r2(2) r1(2) r0(2) near unfolding p g_def by linarith
  then have "of_int \<bar>c - b\<bar> < (of_int 5368711 :: rat)" by simp
  then have "\<bar>c - b\<bar> \<le> 5368710" unfolding of_int_less_iff by simp
  ultimately show thesis by (rule that)
qed

section \<open>An unchanged user\<close>

lemma get_unset: "x \<noteq> js k \<Longrightarrow> oget x (unset_to_empty vals k payload) = oget x payload"
  by (simp add: unset_to_empty_def oget_oput)

lemma get_flag: "x \<noteq> js k \<Longrightarrow> oget x (as_flag k payload) = oget x payload"
  by (simp add: as_flag_def oget_oput)

definition kept_fields :: "string list" where
  "kept_fields = [''balance'', ''commission_balance'', ''u'', ''d'', ''transfer_enable'', ''expired_at'']"

lemma payload_kept:
  "oget (js ''balance'') (userFormValuesToPayload unix vals) = centsFromMoney (oget (js ''balance'') vals)"
  "oget (js ''commission_balance'') (userFormValuesToPayload unix vals) = centsFromMoney (oget (js ''commission_balance'') vals)"
  "oget (js ''u'') (userFormValuesToPayload unix vals) = bytesFromGBForm (oget (js ''u'') vals)"
  "oget (js ''d'') (userFormValuesToPayload unix vals) = bytesFromGBForm (oget (js ''d'') vals)"
  "oget (js ''transfer_enable'') (userFormValuesToPayload unix vals) = bytesFromGBForm (oget (js ''transfer_enable'') vals)"
  "oget (js ''expired_at'') (userFormValuesToPayload unix vals) =
     (if truthy (oget (js ''never_expire'') vals) \<or> \<not> truthy (oget (js ''expired_at'') vals) then JNum (num 0)
      else JNum (unix (oget (js ''expired_at'') vals)))"
  by (simp_all add: userFormValuesToPayload_def Let_def put_all_def get_unset get_flag oget_oput)

lemma sent_user_shape:
  assumes "distinct (map fst vals)"
  shows "distinct (map fst (userFormValuesToPayload unix vals))"
    and "js ''id'' \<notin> fst ` set vals \<Longrightarrow> js ''id'' \<notin> fst ` set (userFormValuesToPayload unix vals)"
proof -
  have del: "distinct (map fst obj) \<Longrightarrow> distinct (map fst (odel k obj))" for k and obj :: jobj
    by (auto simp: odel_def distinct_map intro: inj_on_subset)
  have dis: "distinct (map fst obj) \<Longrightarrow> distinct (map fst (unset_to_empty v k obj))"
    "distinct (map fst obj) \<Longrightarrow> distinct (map fst (as_flag k obj))" for v k obj
    by (simp_all add: unset_to_empty_def as_flag_def distinct_oput)
  show "distinct (map fst (userFormValuesToPayload unix vals))"
    using assms by (simp add: userFormValuesToPayload_def Let_def put_all_def distinct_oput del dis)
  have keys: "ohas k obj \<longleftrightarrow> k \<in> fst ` set obj" for k and obj :: jobj by (simp add: ohas_iff map_of_eq_None_iff)
  have del: "ohas x (odel k obj) \<longleftrightarrow> x \<noteq> k \<and> ohas x obj" for x k and obj :: jobj by (simp add: ohas_iff)
  have put: "x \<noteq> js k \<Longrightarrow> ohas x (unset_to_empty v k obj) = ohas x obj" "x \<noteq> js k \<Longrightarrow> ohas x (as_flag k obj) = ohas x obj" for x v k obj
    by (simp_all add: unset_to_empty_def as_flag_def)
  show "js ''id'' \<notin> fst ` set vals \<Longrightarrow> js ''id'' \<notin> fst ` set (userFormValuesToPayload unix vals)"
    unfolding keys [symmetric] by (simp add: userFormValuesToPayload_def Let_def put_all_def del put)
qed

lemma user_values_shape: "distinct (map fst (user_values form))" "js k \<in> fst ` set (user_values form) \<longleftrightarrow> k \<in> set user_fields"
  "k \<in> set user_fields \<Longrightarrow> oget (js k) (user_values form) = oget (js k) form"
  by (auto simp: user_values_def fst_obj_of image_image oget_obj_of_map [OF _ js_inj]) (simp add: obj_of_def distinct_omerge)

lemma user_form_kept:
  "oget (js ''balance'') (userToAdminFormValues day data) = moneyFromCents (jprop data (js ''balance''))"
  "oget (js ''commission_balance'') (userToAdminFormValues day data) = moneyFromCents (jprop data (js ''commission_balance''))"
  "oget (js ''u'') (userToAdminFormValues day data) = JNum (bytesToGB (jprop data (js ''u'')))"
  "oget (js ''d'') (userToAdminFormValues day data) = JNum (bytesToGB (jprop data (js ''d'')))"
  "oget (js ''transfer_enable'') (userToAdminFormValues day data) = JNum (bytesToGB (jprop data (js ''transfer_enable'')))"
  "oget (js ''never_expire'') (userToAdminFormValues day data) = JBool (isNeverExpire (jprop data (js ''expired_at'')))"
  "oget (js ''expired_at'') (userToAdminFormValues day data) =
     (let e = amount (jprop data (js ''expired_at'')) in if num_lt (num 0) e then day (num_mul e (num 1000)) else JNull)"
  by (simp_all add: userToAdminFormValues_def Let_def put_all_def)

lemma user_form_distinct: "distinct (map fst (spread_of data)) \<Longrightarrow> distinct (map fst (userToAdminFormValues day data))"
  by (simp add: userToAdminFormValues_def Let_def put_all_def distinct_oput)

text \<open>\<open>dayjs\<close> of a whole number of seconds is an object whose \<open>unix()\<close> is that number.\<close>

definition reads_back :: "(jnum \<Rightarrow> jsv) \<Rightarrow> (jsv \<Rightarrow> jnum) \<Rightarrow> bool" where
  "reads_back day unix \<longleftrightarrow> (\<forall>e. 0 < e \<and> e \<le> 2 ^ 40 \<longrightarrow> truthy (day (num (e * 1000))) \<and> unix (day (num (e * 1000))) = num e)"

definition same_traffic :: "jsv \<Rightarrow> jsv \<Rightarrow> bool" where
  "same_traffic v w \<longleftrightarrow> v = JNum (num (int_of (to_num v))) \<and> w = JNum (num (int_of (to_num w))) \<and>
     \<bar>int_of (to_num v) - int_of (to_num w)\<bar> \<le> 5368710"


definition demo_day :: "jnum \<Rightarrow> jsv" where
  "demo_day ms = JObj [(js ''ms'', JNum ms)]"

definition demo_unix :: "jsv \<Rightarrow> jnum" where
  "demo_unix v = num_floor (num_div (to_num (jprop v (js ''ms''))) (num 1000))"

lemma demo_reads_back: "reads_back demo_day demo_unix"
proof -
  have "num_div (num (e * 1000)) (num 1000) = num e" if "0 < e" "e \<le> 2 ^ 40" for e
    using that rnd_int [of e] by (simp add: num_div_def num_def)
  then show ?thesis by (auto simp: reads_back_def demo_day_def demo_unix_def truthy_def oget_cons num_floor_def num_map_def num_def)
qed

definition demo_user :: jobj where
  "demo_user = [(js ''id'', JNum (num 7)), (js ''balance'', JNum (num 29)), (js ''commission_balance'', JNum (num 0)),
     (js ''expired_at'', JNum (num 1700000000)), (js ''u'', JNum (num 0)), (js ''d'', JNum (num 5242877)),
     (js ''transfer_enable'', JNum (num 1073741824))]"


text \<open>What is lost: half a gigabyte's hundredth used up is sent back as nothing used.\<close>

lemma small_traffic_forgotten: "bytesFromGBForm (JNum (bytesToGB (JNum (num 5242877)))) = JNum (num 0)"
  by code_simp

end
