(* ===== verification/UserDialogs.thy ===== *)
theory UserDialogs
  imports UserPage
begin

text \<open>
  The dialogs beside the page of users (\<open>pages/UserPage.tsx\<close>): the traffic of a user (\<open>UserTrafficModal\<close>), an order assigned to a
  user (\<open>UserAssignOrderModal\<close>), users that are generated (\<open>UserGenerateModal\<close>). Each is a component with a state of its own; the page
  opens it and is told when it is done. Answers arrive in any order.
\<close>

section \<open>Traffic\<close>

record traffic_page =
  tp_current :: jsv
  tp_size :: jsv
  tp_total :: jnum

record traffic_dialog =
  td_user :: "jsv option" \<comment> \<open>the dialog is open for this user\<close>
  td_records :: "jsv list"
  td_loading :: bool
  td_page :: traffic_page
  td_requests :: "(jobj \<times> traffic_page) list" \<comment> \<open>parameters, and the page they ask for\<close>
  td_failed :: nat

definition no_traffic :: traffic_dialog where
  "no_traffic = \<lparr>td_user = None, td_records = [], td_loading = False,
     td_page = \<lparr>tp_current = JNum (num 1), tp_size = JNum (num 10), tp_total = num 0\<rparr>, td_requests = [], td_failed = 0\<rparr>"

definition load_traffic :: "traffic_page \<Rightarrow> traffic_dialog \<Rightarrow> traffic_dialog" where
  "load_traffic page s =
     (case td_user s of
        None \<Rightarrow> s
      | Some user \<Rightarrow>
          if \<not> truthy (jprop user (js ''id'')) then s
          else
            let params = [(js ''user_id'', jprop user (js ''id'')), (js ''current'', tp_current page), (js ''page'', tp_current page),
                  (js ''pageSize'', tp_size page)]
            in s\<lparr>td_loading := True, td_requests := td_requests s @ [(params, page)]\<rparr>)"

definition traffic_answered :: "traffic_page \<Rightarrow> jsv option \<Rightarrow> traffic_dialog \<Rightarrow> traffic_dialog" where
  "traffic_answered page answer s =
     (case answer of
        Some res \<Rightarrow> s\<lparr>td_records := data_list res, td_page := page\<lparr>tp_total := amount (jprop res (js ''total''))\<rparr>\<rparr>
      | None \<Rightarrow> s\<lparr>td_failed := td_failed s + 1\<rparr>)\<lparr>td_loading := False\<rparr>"

datatype traffic_event = ShowTraffic jsv | HideTraffic | PageTraffic jsv jsv | AnswerTraffic nat "jsv option"

text \<open>The effect runs when the dialog opens or another user is shown.\<close>

fun traffic_react :: "traffic_event \<Rightarrow> traffic_dialog \<Rightarrow> traffic_dialog" where
  "traffic_react (ShowTraffic user) s = load_traffic ((td_page s)\<lparr>tp_current := JNum (num 1)\<rparr>) (s\<lparr>td_user := Some user\<rparr>)"
| "traffic_react HideTraffic s = s\<lparr>td_user := None\<rparr>"
| "traffic_react (PageTraffic current shown) s = load_traffic ((td_page s)\<lparr>tp_current := current, tp_size := shown\<rparr>) s"
| "traffic_react (AnswerTraffic n a) s =
     (if n < length (td_requests s)
      then traffic_answered (snd (td_requests s ! n)) a (s\<lparr>td_requests := remove_at n (td_requests s)\<rparr>) else s)"

section \<open>Assigned orders\<close>

record form_dialog =
  fd_open :: bool
  fd_form :: jobj
  fd_waits :: bool
  fd_sent :: "(jstr \<times> jobj) list"
  fd_files :: "jstr list" \<comment> \<open>the contents of the files that were offered\<close>
  fd_done :: nat \<comment> \<open>how often the page was told\<close>

definition assign_form :: "jsv \<Rightarrow> jobj" where
  "assign_form user = [(js ''email'', jor (jprop user (js ''email'')) (JStr []))]"

definition assign_fields :: "string list" where
  "assign_fields = [''email'', ''plan_id'', ''period'', ''total_amount'']"

definition form_of_fields :: "string list \<Rightarrow> jobj \<Rightarrow> jobj" where
  "form_of_fields ks form = obj_of (map (\<lambda>k. (js k, oget (js k) form)) ks)"

definition assign_body :: "jobj \<Rightarrow> jobj" where
  "assign_body vals = oput (js ''total_amount'') (centsFromMoney (oget (js ''total_amount'') vals)) vals"

text \<open>The button waits while the request is open.\<close>

definition submit_assign :: "(jsv \<Rightarrow> bool) \<Rightarrow> form_dialog \<Rightarrow> form_dialog" where
  "submit_assign filled s =
     (if fd_open s \<and> \<not> fd_waits s \<and> list_all (\<lambda>k. filled (oget (js k) (fd_form s))) assign_fields
      then s\<lparr>fd_waits := True, fd_sent := fd_sent s @ [(js ''/order/assign'', assign_body (form_of_fields assign_fields (fd_form s)))]\<rparr>
      else s)"

definition assign_answered :: "bool \<Rightarrow> form_dialog \<Rightarrow> form_dialog" where
  "assign_answered ok s = (if ok then s\<lparr>fd_open := False, fd_done := fd_done s + 1\<rparr> else s)\<lparr>fd_waits := False\<rparr>"

section \<open>Generated users\<close>

definition generate_form :: jobj where
  "generate_form = [(js ''email_prefix'', JStr []), (js ''email_suffix'', JStr []), (js ''expired_at'', JNull), (js ''password'', JStr [])]"

definition generate_fields :: "jobj \<Rightarrow> string list" where
  "generate_fields form = [''email_prefix'', ''email_suffix'', ''password'', ''expired_at'', ''plan_id''] @
     (if truthy (oget (js ''email_prefix'') form) then [] else [''generate_count''])"

definition generate_body :: "(jsv \<Rightarrow> jnum) \<Rightarrow> jobj \<Rightarrow> jobj" where
  "generate_body unix vals =
     (let expiry = oget (js ''expired_at'') vals;
          payload = oput (js ''expired_at'') (if truthy expiry then JNum (unix expiry) else JStr []) vals
      in if nullish (oget (js ''plan_id'') payload) then oput (js ''plan_id'') (JStr []) payload else payload)"

definition submit_generate :: "(jsv \<Rightarrow> jnum) \<Rightarrow> (jsv \<Rightarrow> bool) \<Rightarrow> form_dialog \<Rightarrow> form_dialog" where
  "submit_generate unix filled s =
     (if fd_open s \<and> \<not> fd_waits s \<and> filled (oget (js ''email_suffix'') (fd_form s))
      then s\<lparr>fd_waits := True,
        fd_sent := fd_sent s @ [(js ''/user/generate'', generate_body unix (form_of_fields (generate_fields (fd_form s)) (fd_form s)))]\<rparr>
      else s)"

text \<open>\<open>body\<close> is the payload that was sent; its answer is text when users were generated in number.\<close>

definition generate_answered :: "jobj \<Rightarrow> jsv option \<Rightarrow> form_dialog \<Rightarrow> form_dialog" where
  "generate_answered body answer s =
     (case answer of
        Some res \<Rightarrow>
          s\<lparr>fd_open := False, fd_done := fd_done s + 1,
            fd_files := fd_files s @ (case res of JStr t \<Rightarrow> if truthy (oget (js ''generate_count'') body) then [t] else [] | _ \<Rightarrow> [])\<rparr>
      | None \<Rightarrow> s)\<lparr>fd_waits := False\<rparr>"

definition open_dialog :: "jobj \<Rightarrow> form_dialog \<Rightarrow> form_dialog" where
  "open_dialog form s = s\<lparr>fd_open := True, fd_form := form\<rparr>"

definition change_dialog :: "string \<Rightarrow> jsv \<Rightarrow> form_dialog \<Rightarrow> form_dialog" where
  "change_dialog k v s = s\<lparr>fd_form := oput (js k) v (fd_form s)\<rparr>"

definition close_dialog :: "form_dialog \<Rightarrow> form_dialog" where
  "close_dialog s = s\<lparr>fd_open := False\<rparr>"

section \<open>What holds\<close>

text \<open>A late answer shows the traffic of one user under another: when the dialog was closed before the answer came and opened for another
  user, the late records replace those of the user it is open for.\<close>

lemma traffic_of_another:
  assumes "td_requests s = []" "truthy (jprop a (js ''id''))" "truthy (jprop b (js ''id''))"
  shows "let t = fold traffic_react [ShowTraffic a, HideTraffic, ShowTraffic b, AnswerTraffic 1 (Some ours), AnswerTraffic 0 (Some theirs)] s
    in td_user t = Some b \<and> td_records t = data_list theirs \<and> \<not> td_loading t"
  using assms by (simp add: load_traffic_def Let_def traffic_answered_def remove_at_def)

text \<open>The amount of an assigned order is sent in cents: the cents of an amount shown with two decimals.\<close>

lemma assigned_amount_in_cents:
  assumes "\<bar>c\<bar> \<le> 2 ^ 40" "oget (js ''total_amount'') vals = moneyFromCents (JNum (num c))"
  shows "oget (js ''total_amount'') (assign_body vals) = JNum (num c)"
  using assms user_money_kept [of "JNum (num c)"] by (simp add: assign_body_def plan_price_def)

text \<open>While the button waits nothing more is sent.\<close>

lemma sent_once: "fd_waits s \<Longrightarrow> submit_assign filled s = s" "fd_waits s \<Longrightarrow> submit_generate unix filled s = s"
  by (simp_all add: submit_assign_def submit_generate_def)

end
