(* ===== verification/EntryPolicy.thy ===== *)
theory EntryPolicy
  imports EntryCollections EntryHelpers GuardSearch MonitorModel
begin

text \<open>
  \<open>pages/ClientEntryUserPolicyPage.tsx\<close>, the functions of the page of entry rules: the conditions of a rule as the editor
  reads, cleans and checks them, the body a rule is saved with, and the rows of the table. \<open>collate\<close> stands for
  \<open>localeCompare\<close>. A field that is absent from an object and one that is undefined are told apart only where the code does.
\<close>

section \<open>Conditions\<close>

definition fieldOptions :: "jsv list" where
  "fieldOptions = map (JStr \<circ> js) [''user_id'', ''email'', ''registration_days'', ''ua'', ''plan_id'']"

definition blank_number :: "jsv \<Rightarrow> bool" where
  "blank_number v \<longleftrightarrow> v = JStr [] \<or> nullish v"

definition parsed_number :: "jsv \<Rightarrow> jsv" where
  "parsed_number v = (if blank_number v then JUndef else JNum (to_num v))"

definition parsed_condition :: "jsv \<Rightarrow> jsv" where
  "parsed_condition item =
     (let get = (\<lambda>k. jprop item (js k))
      in JObj [(js ''field'', get ''field''), (js ''operator'', get ''operator''),
           (js ''values'', if is_array (get ''values'') then get ''values'' else JUndef),
           (js ''min'', parsed_number (get ''min'')), (js ''max'', parsed_number (get ''max'')),
           (js ''value'', parsed_number (get ''value''))])"

text \<open>The loop that unpacks text in text, three times at most; \<open>None\<close> is the early \<open>return []\<close>.\<close>

fun unpacked :: "nat \<Rightarrow> jsv \<Rightarrow> jsv option" where
  "unpacked 0 v = Some v"
| "unpacked (Suc n) (JStr s) =
     (let t = trim s in if t = [] then None else Option.bind (json_parse t) (unpacked n))"
| "unpacked (Suc n) v = Some v"

definition known_condition :: "jsv \<Rightarrow> bool" where
  "known_condition c \<longleftrightarrow> among fieldOptions (jprop c (js ''field'')) \<and> truthy (jprop c (js ''operator''))"

definition parseConditions :: "jsv \<Rightarrow> jsv list" where
  "parseConditions value =
     (case unpacked 3 value of
        Some (JArr items) \<Rightarrow> filter known_condition (map parsed_condition (filter is_objectlike items))
      | _ \<Rightarrow> [])"

definition finiteNumber :: "jsv \<Rightarrow> jsv" where
  "finiteNumber v = (if blank_number v \<or> \<not> is_finite (to_num v) then JUndef else JNum (to_num v))"

definition loose_values :: "jsv \<Rightarrow> jsv list" where
  "loose_values v = (if truthy v then elems v else [])"

definition words_of :: "(jstr \<Rightarrow> jstr) \<Rightarrow> jsv \<Rightarrow> jsv" where
  "words_of f v = JArr (map JStr (filter (\<lambda>s. s \<noteq> []) (map (f \<circ> trim \<circ> to_str) (loose_values v))))"

definition positive_numbers :: "jsv \<Rightarrow> jsv" where
  "positive_numbers v =
     JArr (map JNum (filter (\<lambda>n. is_finite n \<and> num_lt (num 0) n) (map to_num (loose_values v))))"

definition cleaned_condition :: "jsv \<Rightarrow> jsv" where
  "cleaned_condition c =
     (let get = (\<lambda>k. jprop c (js k)); field = get ''field''; operator = get ''operator'';
          is = (\<lambda>f opr. field = JStr (js f) \<and> operator = JStr (js opr));
          one_of = (\<lambda>ops. operator \<in> set (map (JStr \<circ> js) ops));
          head = [(js ''field'', field), (js ''operator'', operator)]
      in JObj (head @
           (if is ''user_id'' ''in'' then [(js ''values'', positive_numbers (get ''values''))]
            else if is ''email'' ''in'' then [(js ''values'', words_of lower (get ''values''))]
            else if one_of [''between''] then
              [(js ''min'', finiteNumber (get ''min'')), (js ''max'', finiteNumber (get ''max''))]
            else if one_of [''contains_any'', ''excludes_any''] then
              [(js ''values'', words_of (\<lambda>s. s) (get ''values''))]
            else if one_of [''empty'', ''not_empty'', ''is_empty'', ''is_not_empty''] then []
            else [(js ''value'', finiteNumber (get ''value''))])))"

definition cleanConditions :: "jsv \<Rightarrow> jsv list" where
  "cleanConditions value =
     map cleaned_condition (parseConditions (if is_array value then value else JArr []))"

datatype condition_fault = Incomplete nat | NoUser nat | NoBounds nat | BoundsSwapped nat | NoKeyword nat | NoNumber nat

definition condition_fault :: "nat \<Rightarrow> jsv \<Rightarrow> condition_fault option" where
  "condition_fault n c =
     (let get = (\<lambda>k. jprop c (js k)); operator = get ''operator''; no_values = (loose_values (get ''values'') = []);
          one_of = (\<lambda>ops. operator \<in> set (map (JStr \<circ> js) ops))
      in if \<not> truthy (get ''field'') \<or> \<not> truthy operator then Some (Incomplete n)
         else if operator = JStr (js ''in'') \<and> get ''field'' \<noteq> JStr (js ''email'') \<and> no_values then Some (NoUser n)
         else if operator = JStr (js ''between'') \<and> (get ''min'' = JUndef \<or> get ''max'' = JUndef) then Some (NoBounds n)
         else if operator = JStr (js ''between'') \<and> num_lt (to_num (get ''max'')) (to_num (get ''min''))
         then Some (BoundsSwapped n)
         else if one_of [''contains_any'', ''excludes_any''] \<and> no_values then Some (NoKeyword n)
         else if one_of [''gt'', ''gte'', ''lt'', ''lte'', ''eq''] \<and> get ''value'' = JUndef then Some (NoNumber n)
         else None)"

fun first_fault :: "nat \<Rightarrow> jsv list \<Rightarrow> condition_fault option" where
  "first_fault n [] = None"
| "first_fault n (c # cs) = (case condition_fault n c of None \<Rightarrow> first_fault (Suc n) cs | Some f \<Rightarrow> Some f)"

definition validateConditionValues :: "jsv list \<Rightarrow> condition_fault option" where
  "validateConditionValues conditions = first_fault 1 conditions"

section \<open>Saving a rule\<close>

definition nonempty_lines :: "jstr \<Rightarrow> jstr list" where
  "nonempty_lines s = filter (\<lambda>l. l \<noteq> []) (map trim (split_lines s))"

fun extra_nodes_loop :: "nat \<Rightarrow> jsv \<Rightarrow> jstr list" where
  "extra_nodes_loop (Suc n) (JStr s) =
     (let t = trim s
      in if t = [] then []
         else if \<not> starts_with t (js ''['') then nonempty_lines s
         else (case json_parse t of None \<Rightarrow> nonempty_lines s | Some v \<Rightarrow> extra_nodes_loop n v))"
| "extra_nodes_loop n (JArr items) = filter (\<lambda>s. s \<noteq> []) (map trimmed items)"
| "extra_nodes_loop n v = []"

definition parseExtraNodes :: "jsv \<Rightarrow> jstr list" where
  "parseExtraNodes value = extra_nodes_loop 3 value"

definition normalizePolicyAction :: "jsv \<Rightarrow> jstr" where
  "normalizePolicyAction v =
     (if v = JStr (js ''original'') then js ''original'' else if v = JStr (js ''hide'') then js ''hide'' else js ''override'')"

definition normalizeExtraNodePosition :: "jsv \<Rightarrow> jstr" where
  "normalizeExtraNodePosition v = (if v = JStr (js ''before'') then js ''before'' else js ''after'')"

definition normalizeResolveEntryHost :: "jsv \<Rightarrow> bool" where
  "normalizeResolveEntryHost v = effectiveEntryResolveHost (JObj [(js ''resolve_entry_host'', v)]) JUndef"

definition member_object :: "jsv \<Rightarrow> jsv" where
  "member_object m =
     (if is_string m then (case splitMemberKey m of
        None \<Rightarrow> JNull
      | Some (t, i) \<Rightarrow> JObj [(js ''server_type'', JStr t), (js ''server_id'', JNum i)])
      else m)"

definition flag_num :: "bool \<Rightarrow> jsv" where
  "flag_num b = JNum (num (if b then 1 else 0))"

definition policyPayload :: "jobj \<Rightarrow> jobj \<Rightarrow> jobj" where
  "policyPayload row overrides =
     (let source = omerge row overrides; get = (\<lambda>k. oget (js k) source);
          action = normalizePolicyAction (get ''action''); override = (action = js ''override'')
      in [(js ''id'', get ''id''),
          (js ''name'', JStr (trimmed (get ''name''))),
          (js ''entry_host'', JStr (if override then trimmed (get ''entry_host'') else [])),
          (js ''resolve_entry_host'', flag_num (override \<and> normalizeResolveEntryHost (get ''resolve_entry_host''))),
          (js ''action'', JStr action),
          (js ''conditions'', JArr (cleanConditions (get ''conditions''))),
          (js ''confirm_match_all'', JBool (get ''confirm_match_all'' = JBool True)),
          (js ''members'', JArr (filter truthy (map member_object (elems (get ''members''))))),
          (js ''extra_nodes'', JArr (map JStr (parseExtraNodes (get ''extra_nodes'')))),
          (js ''extra_nodes_position'', JStr (normalizeExtraNodePosition (get ''extra_nodes_position''))),
          (js ''enabled'', flag_num (get ''enabled'' = JBool True \<or> to_num (get ''enabled'') \<noteq> num 0)),
          (js ''remarks'', JStr (trimmed (get ''remarks'')))])"

section \<open>Rows\<close>

definition isSplitPolicy :: "jsv \<Rightarrow> bool" where
  "isSplitPolicy row \<longleftrightarrow> lower (to_str (jor (jprop row (js ''mode'')) (JStr []))) = js ''split''"

definition splitGroupUserHasPlan :: "jsv \<Rightarrow> bool" where
  "splitGroupUserHasPlan user =
     (let planID = to_num (jprop user (js ''plan_id'')) in is_finite planID \<and> num_lt (num 0) planID)"

definition canConvertRangeToSplit :: "jsv \<Rightarrow> bool" where
  "canConvertRangeToSplit row =
     (if lower (to_str (jor (jprop row (js ''mode'')) (JStr (js ''standard'')))) \<noteq> js ''standard'' then False
      else if normalizePolicyAction (jprop row (js ''action'')) \<noteq> js ''override'' then False
      else if parseExtraNodes (jprop row (js ''extra_nodes'')) \<noteq> [] then False
      else splitUserIDRange (coalesce (jprop row (js ''__split_conversion_conditions'')) (jprop row (js ''conditions''))) \<noteq> None)"

definition sort_number :: "jsv \<Rightarrow> jnum" where
  "sort_number v = to_num (jor v (JNum (num 0)))"

definition leaf_after :: "(jstr \<Rightarrow> jstr \<Rightarrow> int) \<Rightarrow> jobj \<Rightarrow> jobj \<Rightarrow> bool" where
  "leaf_after collate a b =
     (let d = num_sub (sort_number (oget (js ''sort'') a)) (sort_number (oget (js ''sort'') b))
      in if d \<noteq> num 0 then num_lt (num 0) d
         else 0 < collate (to_str (oget (js ''path'') a)) (to_str (oget (js ''path'') b)))"

definition sortSplitLeaves :: "(jstr \<Rightarrow> jstr \<Rightarrow> int) \<Rightarrow> jobj list \<Rightarrow> jobj list" where
  "sortSplitLeaves collate groups = sort_by (leaf_after collate) (filter (\<lambda>g. truthy (oget (js ''is_leaf'') g)) groups)"

definition isSplitGroupDisplayRow :: "jsv \<Rightarrow> bool" where
  "isSplitGroupDisplayRow row \<longleftrightarrow>
     jprop row (js ''__row_kind'') = JStr (js ''split_group'') \<and> truthy (jprop row (js ''__split_group''))"

definition displayRowKey :: "jsv \<Rightarrow> jstr" where
  "displayRowKey row =
     (if isSplitGroupDisplayRow row
      then js ''split_group:'' @ num_str (to_num (jprop (jprop row (js ''__split_group'')) (js ''id'')))
      else js ''policy:'' @ num_str (to_num (jprop row (js ''id''))))"

definition row_after :: "(jstr \<Rightarrow> jstr \<Rightarrow> int) \<Rightarrow> jobj \<Rightarrow> jobj \<Rightarrow> bool" where
  "row_after collate a b =
     (let d = num_sub (sort_number (oget (js ''__visible_sort'') a)) (sort_number (oget (js ''__visible_sort'') b))
      in if d \<noteq> num 0 then num_lt (num 0) d
         else 0 < collate (displayRowKey (JObj a)) (displayRowKey (JObj b)))"

definition group_objects :: "jsv \<Rightarrow> jobj list" where
  "group_objects v = (case v of JArr gs \<Rightarrow> map spread_of gs | _ \<Rightarrow> [])"

definition policy_rows :: "(jstr \<Rightarrow> jstr \<Rightarrow> int) \<Rightarrow> jobj \<Rightarrow> jobj list" where
  "policy_rows collate policy =
     (let own = oget (js ''sort'') policy
      in if \<not> isSplitPolicy (JObj policy) then
           [omerge policy [(js ''__row_kind'', JStr (js ''policy'')), (js ''__visible_sort'', JNum (sort_number own))]]
         else map (\<lambda>g. omerge policy
           [(js ''__row_kind'', JStr (js ''split_group'')), (js ''__split_group'', JObj g),
            (js ''__visible_sort'', JNum (to_num (coalesce (oget (js ''global_sort'') g) (coalesce own (JNum (num 0))))))])
           (sortSplitLeaves collate (group_objects (oget (js ''split_groups'') policy))))"

definition buildPolicyDisplayRows :: "(jstr \<Rightarrow> jstr \<Rightarrow> int) \<Rightarrow> jobj list \<Rightarrow> jobj list" where
  "buildPolicyDisplayRows collate policies = sort_by (row_after collate) (concat (map (policy_rows collate) policies))"

definition row_host :: "jsv \<Rightarrow> jstr" where
  "row_host row = trimmed (jprop (if isSplitGroupDisplayRow row then jprop row (js ''__split_group'') else row) (js ''entry_host''))"

definition host_counts :: "jsv \<Rightarrow> bool" where
  "host_counts row \<longleftrightarrow> row_host row \<noteq> [] \<and>
     (isSplitGroupDisplayRow row \<or> normalizePolicyAction (jprop row (js ''action'')) = js ''override'')"

definition collectEntryHosts :: "jsv list \<Rightarrow> jstr list" where
  "collectEntryHosts rows = map row_host (keep_first host_counts row_host [] rows)"

section \<open>Reading the rules of the server\<close>

definition optional_number :: "jsv \<Rightarrow> jsv" where
  "optional_number v = (if nullish v then JUndef else JNum (to_num v))"

text \<open>Reading a field of null or undefined throws: \<open>None\<close>.\<close>

definition normalized_group :: "jsv \<Rightarrow> jsv option" where
  "normalized_group g =
     (let get = (\<lambda>k. jprop g (js k))
      in if nullish g then None
         else Some (JObj (omerge (spread_of g)
           [(js ''id'', JNum (to_num (get ''id''))), (js ''policy_id'', JNum (to_num (get ''policy_id''))),
            (js ''parent_id'', optional_number (get ''parent_id'')),
            (js ''user_count'', JNum (sort_number (get ''user_count''))),
            (js ''sort'', JNum (sort_number (get ''sort''))),
            (js ''global_sort'', optional_number (get ''global_sort'')),
            (js ''is_leaf'', JBool (get ''is_leaf'' = JBool True \<or> to_num (get ''is_leaf'') \<noteq> num 0))])))"

definition all_some :: "'a option list \<Rightarrow> 'a list option" where
  "all_some xs = (if None \<in> set xs then None else Some (map the xs))"

definition normalized_policy :: "jsv \<Rightarrow> jobj option" where
  "normalized_policy row =
     (let get = (\<lambda>k. jprop row (js k))
      in if nullish row then None
         else map_option (\<lambda>groups. omerge (spread_of row)
           [(js ''mode'', JStr (if isSplitPolicy row then js ''split'' else js ''standard'')),
            (js ''resolve_entry_host'', JBool (effectiveEntryResolveHost row (jprop row (js ''__split_group'')))),
            (js ''split_groups'', JArr groups),
            (js ''__split_conversion_conditions'', get ''conditions''),
            (js ''conditions'', JArr (parseConditions (get ''conditions''))),
            (js ''extra_nodes'', JArr (map JStr (parseExtraNodes (get ''extra_nodes'')))),
            (js ''extra_nodes_position'', JStr (normalizeExtraNodePosition (get ''extra_nodes_position'')))])
           (all_some (map normalized_group (elems (get ''split_groups'')))))"

section \<open>Choices of users\<close>

record user_choice =
  uc_value :: jnum
  uc_label :: jstr

fun choice_set :: "user_choice \<Rightarrow> user_choice list \<Rightarrow> user_choice list" where
  "choice_set c [] = [c]"
| "choice_set c (d # ds) = (if uc_value d = uc_value c then c # ds else d # choice_set c ds)"

definition mergeUserOptions :: "user_choice list \<Rightarrow> user_choice list \<Rightarrow> user_choice list" where
  "mergeUserOptions current new = fold choice_set (filter (\<lambda>c. is_finite (uc_value c)) (current @ new)) []"

section \<open>What a rule keeps when it is saved again\<close>

text \<open>A value that was sent: the fields that are undefined are gone.\<close>

definition sent_object :: "jobj \<Rightarrow> jobj" where
  "sent_object obj = filter (\<lambda>(k, v). v \<noteq> JUndef) obj"

definition sent_condition :: "jsv \<Rightarrow> jsv" where
  "sent_condition c = JObj (sent_object (spread_of c))"

lemma lower_trim_again: "lower (trim (lower (trim s))) = lower (trim s)"
  by (simp add: trim_lower lower_idem trim_idem)

lemma words_of_again:
  assumes "\<And>s. f (trim (f (trim s))) = f (trim s)"
  shows "words_of f (words_of f v) = words_of f v"
proof -
  have "map (f \<circ> trim \<circ> to_str) (map JStr (filter (\<lambda>s. s \<noteq> []) (map (f \<circ> trim \<circ> g) vs)))
      = filter (\<lambda>s. s \<noteq> []) (map (f \<circ> trim \<circ> g) vs)" for g and vs :: "jsv list"
    by (induction vs) (simp_all add: assms)
  then show ?thesis by (simp add: words_of_def loose_values_def elems_def)
qed

lemma positive_numbers_again: "positive_numbers (positive_numbers v) = positive_numbers v"
  by (simp add: positive_numbers_def loose_values_def elems_def filter_map comp_def)

lemma finiteNumber_parsed: "finiteNumber (parsed_number (finiteNumber v)) = finiteNumber v"
  by (simp add: finiteNumber_def parsed_number_def blank_number_def)

lemma sent_Cons: "sent_object ((k, v) # obj) = (if v = JUndef then sent_object obj else (k, v) # sent_object obj)"
  by (simp add: sent_object_def)

lemma oget_sent_object: "distinct (map fst obj) \<Longrightarrow> oget k (sent_object obj) = oget k obj"
proof (induction obj)
  case (Cons kv obj)
  obtain l v where kv: "kv = (l, v)" by fastforce
  have "oget l obj = JUndef" using Cons.prems by (simp add: kv oget_def map_of_eq_None_iff [THEN iffD2])
  then show ?case using Cons by (auto simp: kv sent_Cons oget_cons)
qed (simp add: sent_object_def)

text \<open>The fields of a cleaned condition.\<close>

lemma cleaned_fields:
  "jprop (cleaned_condition c) (js ''field'') = jprop c (js ''field'')"
  "jprop (cleaned_condition c) (js ''operator'') = jprop c (js ''operator'')"
  by (simp_all add: cleaned_condition_def Let_def oget_cons)

lemma cleaned_cases:
  obtains (users) "jprop c (js ''field'') = JStr (js ''user_id'')" "jprop c (js ''operator'') = JStr (js ''in'')"
  | (emails) "jprop c (js ''field'') = JStr (js ''email'')" "jprop c (js ''operator'') = JStr (js ''in'')"
  | (range) "jprop c (js ''operator'') = JStr (js ''between'')"
  | (ua_words) "jprop c (js ''operator'') \<in> {JStr (js ''contains_any''), JStr (js ''excludes_any'')}"
  | (nothing) "jprop c (js ''operator'') \<in> set (map (JStr \<circ> js) [''empty'', ''not_empty'', ''is_empty'', ''is_not_empty''])"
  | (number) "\<not> (jprop c (js ''field'') \<in> {JStr (js ''user_id''), JStr (js ''email'')} \<and> jprop c (js ''operator'') = JStr (js ''in''))"
      "jprop c (js ''operator'') \<notin> set (map (JStr \<circ> js) [''between'', ''contains_any'', ''excludes_any'', ''empty'', ''not_empty'',
        ''is_empty'', ''is_not_empty''])"
  by auto

lemma sent_condition_JObj: "sent_condition (JObj obj) = JObj (sent_object obj)"
  by (simp add: sent_condition_def spread_of_def)

lemma parsed_field:
  "jprop (parsed_condition c) (js ''field'') = jprop c (js ''field'')"
  "jprop (parsed_condition c) (js ''operator'') = jprop c (js ''operator'')"
  "jprop (parsed_condition c) (js ''values'') = (if is_array (jprop c (js ''values'')) then jprop c (js ''values'') else JUndef)"
  "jprop (parsed_condition c) (js ''min'') = parsed_number (jprop c (js ''min''))"
  "jprop (parsed_condition c) (js ''max'') = parsed_number (jprop c (js ''max''))"
  "jprop (parsed_condition c) (js ''value'') = parsed_number (jprop c (js ''value''))"
  by (simp_all add: parsed_condition_def Let_def oget_cons)

lemma cleaned_object: "\<exists>obj. cleaned_condition c = JObj obj \<and> distinct (map fst obj)"
  by (cases c rule: cleaned_cases) (simp_all add: cleaned_condition_def Let_def)

lemma jprop_sent_cleaned [simp]: "jprop (sent_condition (cleaned_condition c)) k = jprop (cleaned_condition c) k"
proof -
  obtain obj where "cleaned_condition c = JObj obj" "distinct (map fst obj)" using cleaned_object by blast
  then show ?thesis by (simp add: sent_condition_JObj oget_sent_object)
qed

lemma is_array_cleaned [simp]: "is_array (positive_numbers v)" "is_array (words_of f v)"
  by (simp_all add: positive_numbers_def words_of_def is_array_def)

lemma cleaned_values_again:
  "words_of lower (words_of lower v) = words_of lower v" "words_of (\<lambda>s. s) (words_of (\<lambda>s. s) v) = words_of (\<lambda>s. s) v"
  by (simp_all add: words_of_again lower_trim_again trim_idem)

lemmas cleaned_facts = oget_cons cleaned_values_again positive_numbers_again finiteNumber_parsed

lemma cleaned_again: "cleaned_condition (parsed_condition (sent_condition (cleaned_condition c))) = cleaned_condition c"
proof -
  have "cleaned_condition (parsed_condition (sent_condition (cleaned_condition c))) =
      cleaned_condition (JObj [(js ''field'', jprop c (js ''field'')), (js ''operator'', jprop c (js ''operator'')),
        (js ''values'', if is_array (jprop (cleaned_condition c) (js ''values'')) then jprop (cleaned_condition c) (js ''values'') else JUndef),
        (js ''min'', parsed_number (jprop (cleaned_condition c) (js ''min''))),
        (js ''max'', parsed_number (jprop (cleaned_condition c) (js ''max''))),
        (js ''value'', parsed_number (jprop (cleaned_condition c) (js ''value'')))])"
    by (simp add: parsed_condition_def Let_def cleaned_fields)
  also have "\<dots> = cleaned_condition c"
    by (cases c rule: cleaned_cases; simp add: cleaned_condition_def Let_def cleaned_facts; elim disjE; simp add: cleaned_facts)
  finally show ?thesis .
qed

lemma known_fields: "jprop c (js ''field'') = jprop d (js ''field'') \<Longrightarrow> jprop c (js ''operator'') = jprop d (js ''operator'') \<Longrightarrow>
    known_condition c = known_condition d"
  by (simp add: known_condition_def)

lemma known_parsed: "known_condition (parsed_condition c) = known_condition c"
  by (rule known_fields) (simp_all add: parsed_field)

lemma known_cleaned: "known_condition (sent_condition (cleaned_condition c)) = known_condition c"
  by (rule known_fields) (simp_all add: cleaned_fields)

lemma parse_array: "parseConditions (JArr cs) = filter known_condition (map parsed_condition (filter is_objectlike cs))"
  by (simp add: parseConditions_def numeral_3_eq_3)

lemma parsed_again: "parsed_condition (parsed_condition c) = parsed_condition c"
  by (simp add: parsed_condition_def Let_def oget_cons parsed_number_def blank_number_def)

lemma parsed_in: "c \<in> set (parseConditions v) \<Longrightarrow> known_condition c \<and> is_objectlike c \<and> parsed_condition c = c"
  by (auto simp: parseConditions_def parsed_again split: option.splits jsv.splits)
    (simp add: parsed_condition_def is_objectlike_def Let_def)

lemma parse_again: "parseConditions (JArr (parseConditions v)) = parseConditions v"
proof -
  have "filter is_objectlike (parseConditions v) = parseConditions v" "map parsed_condition (parseConditions v) = parseConditions v"
      "filter known_condition (parseConditions v) = parseConditions v"
    using parsed_in by (simp_all add: filter_id_conv map_idI)
  then show ?thesis by (simp add: parse_array)
qed

lemma clean_again: "cleanConditions (JArr (map sent_condition (cleanConditions v))) = cleanConditions v"
proof -
  let ?cs = "parseConditions (if is_array v then v else JArr [])"
  have "filter known_condition (map (parsed_condition \<circ> sent_condition \<circ> cleaned_condition) ?cs) =
      map (parsed_condition \<circ> sent_condition \<circ> cleaned_condition) ?cs"
    using parsed_in by (force simp: filter_id_conv known_parsed known_cleaned)
  moreover have "filter is_objectlike (map (sent_condition \<circ> cleaned_condition) ?cs) = map (sent_condition \<circ> cleaned_condition) ?cs"
    by (auto simp: filter_id_conv sent_condition_def is_objectlike_def)
  ultimately show ?thesis
    by (simp add: cleanConditions_def is_array_def parse_array comp_def cleaned_again)
qed

text \<open>A rule that was saved, as the server lists it: what was sent, less the confirmation, which is not stored.\<close>

definition listed_rule :: "jobj \<Rightarrow> jsv" where
  "listed_rule body = JObj (sent_object (odel (js ''confirm_match_all'')
     (oput (js ''conditions'') (JArr (map sent_condition (elems (oget (js ''conditions'') body)))) body)))"

lemma payload_keys_distinct: "distinct (map fst (policyPayload row overrides))"
  by (simp add: policyPayload_def Let_def)

lemma distinct_odel: "distinct (map fst obj) \<Longrightarrow> distinct (map fst (odel k obj))"
  by (induction obj) (auto simp: odel_def)

lemma jprop_listed:
  "jprop (listed_rule (policyPayload row o')) k = (if k = js ''confirm_match_all'' then JUndef
     else if k = js ''conditions'' then JArr (map sent_condition (elems (oget (js ''conditions'') (policyPayload row o'))))
     else oget k (policyPayload row o'))"
  by (simp add: listed_rule_def oget_sent_object distinct_odel distinct_oput payload_keys_distinct)

definition tidy :: "jstr list \<Rightarrow> bool" where
  "tidy ss \<longleftrightarrow> (\<forall>s \<in> set ss. s \<noteq> [] \<and> trim s = s)"

lemma tidy_Nil [simp]: "tidy []"
  by (simp add: tidy_def)

lemma tidy_lines [simp]: "tidy (nonempty_lines s)"
  by (auto simp: tidy_def nonempty_lines_def)

lemma tidy_loop: "tidy (extra_nodes_loop n v)"
proof (induction n v rule: extra_nodes_loop.induct)
  case (1 n s)
  then show ?case by (auto simp: Let_def split: option.split)
qed (auto simp: tidy_def)

lemma extra_nodes_again: "parseExtraNodes (JArr (map JStr (parseExtraNodes v))) = parseExtraNodes v"
proof -
  have "filter (\<lambda>s. s \<noteq> []) (map trim (parseExtraNodes v)) = parseExtraNodes v"
    using tidy_loop [of 3 v] by (auto simp: parseExtraNodes_def tidy_def filter_id_conv map_idI)
  then show ?thesis by (simp add: parseExtraNodes_def numeral_3_eq_3 comp_def)
qed

lemma member_object_again: "truthy (member_object m) \<Longrightarrow> member_object (member_object m) = member_object m"
  by (cases "is_string m"; cases "splitMemberKey m") (auto simp: member_object_def is_string_def split: prod.splits)

lemma members_again:
  "filter truthy (map member_object (filter truthy (map member_object ms))) = filter truthy (map member_object ms)"
  by (induction ms) (simp_all add: member_object_again)

lemma resolve_again [simp]: "normalizeResolveEntryHost (JBool b) = b"
  by (cases b) (simp_all add: normalizeResolveEntryHost_def effectiveEntryResolveHost_def oget_cons coalesce_def is_finite_def num_def)

lemma action_again: "normalizePolicyAction (JStr (normalizePolicyAction v)) = normalizePolicyAction v"
  by (simp add: normalizePolicyAction_def)

lemma position_again: "normalizeExtraNodePosition (JStr (normalizeExtraNodePosition v)) = normalizeExtraNodePosition v"
  by (simp add: normalizeExtraNodePosition_def)

lemma get_payload:
  "oget (js ''id'') (policyPayload row o') = oget (js ''id'') (omerge row o')"
  "oget (js ''mode'') (policyPayload row o') = JUndef" "oget (js ''split_groups'') (policyPayload row o') = JUndef"
  "oget (js ''__split_group'') (policyPayload row o') = JUndef"
  by (simp_all add: policyPayload_def Let_def oget_cons)

abbreviation rule_body :: "jsv \<Rightarrow> jstr \<Rightarrow> jstr \<Rightarrow> bool \<Rightarrow> jstr \<Rightarrow> jsv list \<Rightarrow> bool \<Rightarrow> jsv list \<Rightarrow> jstr list \<Rightarrow> jstr \<Rightarrow> bool \<Rightarrow> jstr \<Rightarrow> jobj" where
  "rule_body i n h r a cs c ms xs pos e rm \<equiv> [(js ''id'', i), (js ''name'', JStr n), (js ''entry_host'', JStr h),
       (js ''resolve_entry_host'', flag_num r), (js ''action'', JStr a), (js ''conditions'', JArr cs),
       (js ''confirm_match_all'', JBool c), (js ''members'', JArr ms), (js ''extra_nodes'', JArr (map JStr xs)),
       (js ''extra_nodes_position'', JStr pos), (js ''enabled'', flag_num e), (js ''remarks'', JStr rm)]"

definition tidy_rule :: "jstr \<Rightarrow> jstr \<Rightarrow> bool \<Rightarrow> jstr \<Rightarrow> jsv list \<Rightarrow> jsv list \<Rightarrow> jstr list \<Rightarrow> jstr \<Rightarrow> jstr \<Rightarrow> bool" where
  "tidy_rule n h r a cs ms xs pos rm \<longleftrightarrow> trim n = n \<and> trim h = h \<and> trim rm = rm \<and> normalizePolicyAction (JStr a) = a \<and>
     (a \<noteq> js ''override'' \<longrightarrow> h = [] \<and> \<not> r) \<and>
     cleanConditions (JArr (parseConditions (JArr (map sent_condition cs)))) = cs \<and>
     filter truthy (map member_object ms) = ms \<and> parseExtraNodes (JArr (map JStr xs)) = xs \<and>
     normalizeExtraNodePosition (JStr pos) = pos"

lemma payload_shape:
  obtains i n h r a cs c ms xs pos e rm where "policyPayload source o' = rule_body i n h r a cs c ms xs pos e rm"
    "tidy_rule n h r a cs ms xs pos rm"
proof -
  have "cleanConditions (JArr (parseConditions (JArr (map sent_condition (cleanConditions v))))) = cleanConditions v" for v
    using clean_again [of v] by (simp add: cleanConditions_def [of "JArr x" for x] is_array_def parse_again)
  then show ?thesis
    by (intro that [OF policyPayload_def [unfolded Let_def]])
      (simp add: tidy_rule_def action_again members_again extra_nodes_again position_again)
qed

lemma resolve_num [simp]: "effectiveEntryResolveHost row JUndef = normalizeResolveEntryHost (jprop row (js ''resolve_entry_host''))"
  by (simp add: effectiveEntryResolveHost_def normalizeResolveEntryHost_def oget_cons)

lemma resolve_flag [simp]: "normalizeResolveEntryHost (flag_num b) = b"
  by (cases b) (simp_all add: normalizeResolveEntryHost_def effectiveEntryResolveHost_def flag_num_def oget_cons coalesce_def is_finite_def num_def)

lemma listed_fields:
  assumes "policyPayload source o' = rule_body i n h r a cs c ms xs pos e rm" (is "?p = _")
  shows "jprop (listed_rule ?p) (js ''id'') = i" "jprop (listed_rule ?p) (js ''name'') = JStr n"
    "jprop (listed_rule ?p) (js ''entry_host'') = JStr h" "jprop (listed_rule ?p) (js ''resolve_entry_host'') = flag_num r"
    "jprop (listed_rule ?p) (js ''action'') = JStr a" "jprop (listed_rule ?p) (js ''conditions'') = JArr (map sent_condition cs)"
    "jprop (listed_rule ?p) (js ''confirm_match_all'') = JUndef" "jprop (listed_rule ?p) (js ''members'') = JArr ms"
    "jprop (listed_rule ?p) (js ''extra_nodes'') = JArr (map JStr xs)"
    "jprop (listed_rule ?p) (js ''extra_nodes_position'') = JStr pos" "jprop (listed_rule ?p) (js ''remarks'') = JStr rm"
  unfolding jprop_listed by (simp_all add: assms oget_cons elems_def)

text \<open>The row that the page makes of a listed rule.\<close>

definition row_of :: "jsv \<Rightarrow> jobj" where
  "row_of rule = omerge (spread_of rule)
     [(js ''mode'', JStr (js ''standard'')), (js ''resolve_entry_host'', JBool (effectiveEntryResolveHost rule JUndef)),
      (js ''split_groups'', JArr []), (js ''__split_conversion_conditions'', jprop rule (js ''conditions'')),
      (js ''conditions'', JArr (parseConditions (jprop rule (js ''conditions'')))),
      (js ''extra_nodes'', JArr (map JStr (parseExtraNodes (jprop rule (js ''extra_nodes''))))),
      (js ''extra_nodes_position'', JStr (normalizeExtraNodePosition (jprop rule (js ''extra_nodes_position''))))]"

lemma listed_JObj: "\<exists>obj. listed_rule p = JObj obj"
  by (simp add: listed_rule_def)

lemma normalized_listed: "normalized_policy (listed_rule (policyPayload source o')) = Some (row_of (listed_rule (policyPayload source o')))"
  using listed_JObj [of "policyPayload source o'"]
  by (auto simp: normalized_policy_def row_of_def Let_def isSplitPolicy_def jprop_listed get_payload all_some_def elems_def jor_def)

lemma payload_of_row:
  assumes p: "policyPayload source o' = rule_body i n h r a cs c ms xs pos e rm" (is "?p = _")
    and t: "tidy_rule n h r a cs ms xs pos rm"
  shows "policyPayload (row_of (listed_rule ?p)) [(js ''enabled'', JBool b)] = rule_body i n h r a cs False ms xs pos b rm"
proof -
  define src where "src = omerge (row_of (listed_rule ?p)) [(js ''enabled'', JBool b)]"
  have enabled: "(JBool b = JBool True \<or> to_num (JBool b) \<noteq> num 0) = b" by (cases b) simp_all
  have override: "(a = js ''override'' \<and> r) = r" "(if a = js ''override'' then h else []) = h"
    using t by (auto simp: tidy_rule_def)
  have "oget k (spread_of (listed_rule ?p)) = jprop (listed_rule ?p) k" for k
    using listed_JObj [of ?p] by (auto simp: spread_of_def)
  then have "oget (js ''id'') src = i" "oget (js ''name'') src = JStr n" "oget (js ''entry_host'') src = JStr h"
    "oget (js ''resolve_entry_host'') src = JBool r" "oget (js ''action'') src = JStr a"
    "oget (js ''conditions'') src = JArr (parseConditions (JArr (map sent_condition cs)))"
    "oget (js ''confirm_match_all'') src = JUndef" "oget (js ''members'') src = JArr ms"
    "oget (js ''extra_nodes'') src = JArr (map JStr xs)" "oget (js ''extra_nodes_position'') src = JStr pos"
    "oget (js ''enabled'') src = JBool b" "oget (js ''remarks'') src = JStr rm"
    using t by (simp_all add: src_def row_of_def omerge_Cons listed_fields [OF p] tidy_rule_def)
  then show ?thesis
    using t unfolding policyPayload_def [of "row_of x" for x] src_def [symmetric] Let_def tidy_rule_def
    by (simp add: override enabled elems_def)
qed


section \<open>The order of the table\<close>

definition position_of :: "jobj \<Rightarrow> jnum" where
  "position_of row = sort_number (oget (js ''__visible_sort'') row)"

definition whole_position :: "jobj \<Rightarrow> bool" where
  "whole_position row \<longleftrightarrow> is_safe (position_of row) \<and> \<bar>int_of (position_of row)\<bar> \<le> max_safe div 2"

lemma mset_insert_by: "mset (insert_by after x xs) = add_mset x (mset xs)"
  by (induction xs) auto

lemma mset_sort_by: "mset (sort_by after xs) = mset xs"
  by (induction xs) (simp_all add: sort_by_def mset_insert_by)

lemma set_sort_by: "set (sort_by after xs) = set xs"
  using mset_sort_by by (metis set_mset_mset)

text \<open>A comparator that never contradicts a key sorts by that key, however it decides between equal keys.\<close>

lemma sorted_insert_by:
  fixes key :: "'a \<Rightarrow> 'k :: linorder"
  assumes "\<And>y. y \<in> set ys \<Longrightarrow> (if after x y then key y \<le> key x else key x \<le> key y)" "sorted (map key ys)"
  shows "sorted (map key (insert_by after x ys))"
  using assms
proof (induction ys)
  case (Cons y ys)
  have "set (insert_by after x ys) = insert x (set ys)" by (metis mset_insert_by set_mset_add_mset_insert set_mset_mset)
  then show ?case using Cons by (force split: if_splits)
qed simp

lemma sorted_sort_by:
  fixes key :: "'a \<Rightarrow> 'k :: linorder"
  assumes "\<And>x y. x \<in> set xs \<Longrightarrow> y \<in> set xs \<Longrightarrow> (if after x y then key y \<le> key x else key x \<le> key y)"
  shows "sorted (map key (sort_by after xs))"
  using assms
proof (induction xs)
  case (Cons x xs)
  have "sorted (map key (insert_by after x (sort_by after xs)))"
    using Cons by (intro sorted_insert_by) (auto simp: set_sort_by)
  then show ?case by (simp add: sort_by_def)
qed (simp add: sort_by_def)

lemma row_after_position:
  assumes "whole_position a" "whole_position b"
  shows "if row_after collate a b then int_of (position_of b) \<le> int_of (position_of a)
    else int_of (position_of a) \<le> int_of (position_of b)"
proof -
  obtain i j where ij: "position_of a = num i" "position_of b = num j" "\<bar>i\<bar> \<le> max_safe div 2" "\<bar>j\<bar> \<le> max_safe div 2"
    using assms by (auto simp: whole_position_def elim!: is_safeE)
  have "num_sub (num i) (num j) = num (i - j)" using ij(3,4) by (intro num_sub_num) (simp add: max_safe_def)
  then show ?thesis using ij by (auto simp: row_after_def position_of_def [symmetric] num_neq)
qed

text \<open>The table of rules has one row for every plain rule and one for every leaf of a split, and when the positions are
  whole numbers the rows are in the order of their positions, whatever the collation of the browser.\<close>
theorem display_rows_ordered:
  assumes "list_all whole_position (concat (map (policy_rows collate) policies))"
  shows "mset (buildPolicyDisplayRows collate policies) = mset (concat (map (policy_rows collate) policies)) \<and>
    sorted (map (\<lambda>r. int_of (position_of r)) (buildPolicyDisplayRows collate policies))"
  unfolding buildPolicyDisplayRows_def
  using assms by (auto simp: list_all_iff mset_sort_by intro!: sorted_sort_by row_after_position)

lemma display_rows_ordered_witness:
  "sorted (map (\<lambda>r. int_of (position_of r)) (buildPolicyDisplayRows (\<lambda>_ _. 0)
     [[(js ''id'', JNum (num 1)), (js ''sort'', JNum (num 2))], [(js ''id'', JNum (num 2)), (js ''sort'', JNum (num 1))]]))"
proof -
  have "list_all whole_position (concat (map (policy_rows (\<lambda>_ _. 0))
     [[(js ''id'', JNum (num 1)), (js ''sort'', JNum (num 2))], [(js ''id'', JNum (num 2)), (js ''sort'', JNum (num 1))]]))"
    by code_simp
  from display_rows_ordered [OF this] show ?thesis by blast
qed

text \<open>C40: a rule whose condition lists plans, or days since the registration, loses the list when the page sends it again: the
  server accepts such a condition, but the page sends a condition without values, whatever the list is.\<close>
theorem listed_numbers_lost:
  assumes "field = js ''plan_id'' \<or> field = js ''registration_days''"
  shows "cleanConditions (JArr (parseConditions (JArr [JObj [(js ''field'', JStr field), (js ''operator'', JStr (js ''in'')),
      (js ''values'', JArr vs)]]))) =
    [JObj [(js ''field'', JStr field), (js ''operator'', JStr (js ''in'')), (js ''value'', JUndef)]]"
proof -
  have "known_condition (JObj ((js ''field'', JStr field) # (js ''operator'', JStr (js ''in'')) # rest))" for rest
    using assms by (auto simp: known_condition_def among_def fieldOptions_def strict_eq_def is_objectlike_def oget_cons truthy_def)
  then show ?thesis
    using assms by (auto simp: cleanConditions_def parse_array is_array_def is_objectlike_def parsed_condition_def cleaned_condition_def
        Let_def oget_cons parsed_number_def blank_number_def finiteNumber_def)
qed

lemma listed_numbers_lost_witness:
  "cleanConditions (JArr (parseConditions (JArr [JObj [(js ''field'', JStr (js ''plan_id'')), (js ''operator'', JStr (js ''in'')),
      (js ''values'', JArr [JNum (num 1)])]]))) =
    [JObj [(js ''field'', JStr (js ''plan_id'')), (js ''operator'', JStr (js ''in'')), (js ''value'', JUndef)]]"
  by (rule listed_numbers_lost) simp

end
