(* ===== verification/OnlineAnalytics.thy ===== *)
theory OnlineAnalytics
  imports EntryPolicy PageTexts
begin

text \<open>
  \<open>lib/onlineAnalytics.ts\<close>: which users are online and where. The query of the list of users, the place of a user as text, and
  the cities of a province with the users whose city is not known.
\<close>

section \<open>Queries\<close>

datatype users_selection =
    AllUsers
  | OfCountry jstr
  | OfProvince jstr
  | OfCity jstr jstr
  | OfUnknown "jstr option"

fun selection_fields :: "users_selection \<Rightarrow> jobj" where
  "selection_fields AllUsers = [(js ''scope'', JStr (js ''all''))]"
| "selection_fields (OfCountry k) = [(js ''scope'', JStr (js ''country'')), (js ''country_code'', JStr k)]"
| "selection_fields (OfProvince k) = [(js ''scope'', JStr (js ''province'')), (js ''province_code'', JStr k)]"
| "selection_fields (OfCity k c) =
     [(js ''scope'', JStr (js ''city'')), (js ''province_code'', JStr k), (js ''city'', JStr c)]"
| "selection_fields (OfUnknown reason) =
     (js ''scope'', JStr (js ''unknown'')) # (case reason of None \<Rightarrow> [] | Some r \<Rightarrow> [(js ''reason'', JStr r)])"

definition onlineUsersParams :: "users_selection \<Rightarrow> jnum \<Rightarrow> jnum \<Rightarrow> jstr \<Rightarrow> jobj" where
  "onlineUsersParams selection page pageSize search =
     selection_fields selection @ [(js ''page'', JNum page), (js ''page_size'', JNum pageSize)] @
     (if trim search \<noteq> [] then [(js ''search'', JStr (trim search))] else [])"

section \<open>The place of a user\<close>

record online_user =
  ou_country_code :: jstr
  ou_country_name :: jstr
  ou_province_code :: jstr
  ou_province_name :: jstr
  ou_city_name :: jstr
  ou_unknown_reason :: jstr

definition onlineUnknownNames :: "(string \<times> jstr) list" where
  "onlineUnknownNames =
     [(''not_reported'', txt_not_reported), (''location_stale'', txt_location_stale), (''invalid_timestamp'', txt_invalid_timestamp),
      (''database_unavailable'', txt_database_unavailable), (''not_found'', txt_no_region), (''invalid_ip'', txt_invalid_ip),
      (''non_public_ip'', txt_non_public_ip)]"

definition first_text :: "jstr list \<Rightarrow> jstr" where
  "first_text ss = (case find (\<lambda>s. s \<noteq> []) ss of None \<Rightarrow> [] | Some s \<Rightarrow> s)"

definition onlineUserLocation :: "online_user \<Rightarrow> jstr" where
  "onlineUserLocation user =
     (if ou_unknown_reason user \<noteq> [] then txt_place_unknown
      else first_text [join txt_between (set_of (filter (\<lambda>s. s \<noteq> [])
          [first_text [ou_country_name user, ou_country_code user], ou_province_name user, ou_city_name user])), txt_place_unknown])"

definition known_reason :: "jstr \<Rightarrow> jstr" where
  "known_reason reason = (case find (\<lambda>(k, _). js k = reason) onlineUnknownNames of Some (_, t) \<Rightarrow> t | None \<Rightarrow> [])"

text \<open>\<open>reasons\<close> are the names the server sends.\<close>

definition onlineUserLocationNote :: "online_user \<Rightarrow> (jstr \<rightharpoonup> jstr) \<Rightarrow> jstr" where
  "onlineUserLocationNote user reasons =
     (let reason = ou_unknown_reason user
      in if reason \<noteq> [] then first_text [case reasons reason of Some t \<Rightarrow> t | None \<Rightarrow> [], known_reason reason, txt_no_region]
         else if ou_country_code user \<in> js ` {''CN'', ''HK'', ''MO'', ''TW''} then
           (if ou_province_code user = [] then txt_province_unknown else if ou_city_name user = [] then txt_province_only else [])
         else [])"

section \<open>Cities of a province\<close>

record region =
  rg_code :: jstr
  rg_name :: jstr
  rg_users :: jnum
  rg_share :: jnum

text \<open>A city of the server is a region with its province.\<close>

type_synonym online_city = "jstr \<times> region"

definition withinProvinceShare :: "jnum \<Rightarrow> jnum \<Rightarrow> jnum" where
  "withinProvinceShare users provinceUsers =
     (if num_lt (num 0) provinceUsers then num_min (num 100) (num_mul (num_div users provinceUsers) (num 100)) else num 0)"

definition share_of :: "jnum \<Rightarrow> jnum \<Rightarrow> jnum" where
  "share_of users currentOnline = (if num_lt (num 0) currentOnline then num_mul (num_div users currentOnline) (num 100) else num 0)"

definition users_total :: "region list \<Rightarrow> jnum" where
  "users_total rows = foldl (\<lambda>sum row. num_add sum (rg_users row)) (num 0) rows"

definition add_unknown :: "jnum \<Rightarrow> jnum \<Rightarrow> region list \<Rightarrow> region list" where
  "add_unknown missing currentOnline rows =
     (case find_index (\<lambda>row. rg_code row = []) rows of
        Some i \<Rightarrow>
          let users = num_add (rg_users (rows ! i)) missing
          in rows[i := (rows ! i)\<lparr>rg_users := users, rg_share := share_of users currentOnline\<rparr>]
      | None \<Rightarrow> rows @ [\<lparr>rg_code = [], rg_name = txt_city_unknown, rg_users = missing, rg_share = share_of missing currentOnline\<rparr>])"

text \<open>\<open>b.users - a.users || a.code.localeCompare(b.code)\<close>; the comparison of texts is the browser's.\<close>

definition region_after :: "(jstr \<Rightarrow> jstr \<Rightarrow> int) \<Rightarrow> region \<Rightarrow> region \<Rightarrow> bool" where
  "region_after collate a b \<longleftrightarrow>
     (let d = num_sub (rg_users b) (rg_users a)
      in if num_truthy d then num_lt (num 0) d else 0 < collate (rg_code a) (rg_code b))"

definition provinceCityRows :: "(jstr \<Rightarrow> jstr \<Rightarrow> int) \<Rightarrow> online_city list \<Rightarrow> jstr \<Rightarrow> jnum \<Rightarrow> jnum \<Rightarrow> region list" where
  "provinceCityRows collate cities provinceCode provinceUsers currentOnline =
     (let rows = map snd (filter (\<lambda>(province, _). province = provinceCode) cities);
          missing = num_max (num 0) (num_sub provinceUsers (users_total rows))
      in sort_by (region_after collate) (if num_lt (num 0) missing then add_unknown missing currentOnline rows else rows))"

section \<open>The map of cities\<close>

definition is_feature :: "jsv \<Rightarrow> bool" where
  "is_feature feature \<longleftrightarrow>
     (let text = (\<lambda>v. is_string v \<and> truthy v); properties = jprop feature (js ''properties''); geometry = jprop feature (js ''geometry'')
      in jprop feature (js ''type'') = JStr (js ''Feature'') \<and> text (jprop properties (js ''name'')) \<and> text (jprop properties (js ''label'')) \<and>
         jprop geometry (js ''type'') \<in> {JStr (js ''Polygon''), JStr (js ''MultiPolygon'')} \<and> is_array (jprop geometry (js ''coordinates'')))"

text \<open>\<open>None\<close> for the error.\<close>

definition parseCityMap :: "jsv \<Rightarrow> jsv option" where
  "parseCityMap value =
     (let features = jprop value (js ''features'')
      in if \<not> truthy value \<or> jprop value (js ''type'') \<noteq> JStr (js ''FeatureCollection'') \<or> \<not> is_array features \<or> elems features = [] \<or>
           \<not> list_all is_feature (elems features) then None else Some value)"

section \<open>Nobody is lost\<close>

definition count_ok :: "region \<Rightarrow> bool" where
  "count_ok row \<longleftrightarrow> rg_users row = num (int_of (rg_users row)) \<and> 0 \<le> int_of (rg_users row)"

definition users_sum :: "region list \<Rightarrow> int" where
  "users_sum rows = sum_list (map (\<lambda>row. int_of (rg_users row)) rows)"

lemma users_sum_nonneg: "list_all count_ok rows \<Longrightarrow> 0 \<le> users_sum rows"
  by (induction rows) (simp_all add: users_sum_def count_ok_def)

lemma users_total_num: "list_all count_ok rows \<Longrightarrow> users_sum rows \<le> 2 ^ 53 \<Longrightarrow> users_total rows = num (users_sum rows)"
proof (induction rows rule: rev_induct)
  case (snoc row rows)
  let ?u = "int_of (rg_users row)"
  have row: "rg_users row = num ?u" "0 \<le> ?u" using snoc.prems(1) by (simp_all add: count_ok_def)
  have rows: "list_all count_ok rows" using snoc.prems(1) by simp
  have bounds: "users_sum rows + ?u \<le> 2 ^ 53" "0 \<le> users_sum rows"
    using snoc.prems(2) users_sum_nonneg [OF rows] by (simp_all add: users_sum_def)
  then have "users_total rows = num (users_sum rows)" using rows row(2) by (intro snoc.IH) auto
  moreover have "num_add (num (users_sum rows)) (num ?u) = num (users_sum rows + ?u)"
    using bounds row(2) by (intro num_add_num) simp
  ultimately show ?case using row(1) by (simp add: users_total_def users_sum_def)
qed (simp add: users_total_def users_sum_def)

lemma find_code: "find_index p xs = Some i \<Longrightarrow> i < length xs \<and> p (xs ! i)"
  using find_index_SomeD [of p xs i] by simp

lemma users_sum_update: "i < length rows \<Longrightarrow> users_sum (rows[i := row]) = users_sum rows - int_of (rg_users (rows ! i)) + int_of (rg_users row)"
  by (induction rows arbitrary: i) (auto simp: users_sum_def nth_Cons split: nat.split)

lemma users_sum_mset: "mset xs = mset ys \<Longrightarrow> users_sum xs = users_sum ys"
  unfolding users_sum_def by (metis mset_map sum_mset_sum_list)

lemma int_of_num' [simp]: "int_of (num i) = i"
  by (simp add: int_of_def num_def)

lemma user_le_sum: "list_all count_ok rows \<Longrightarrow> row \<in> set rows \<Longrightarrow> int_of (rg_users row) \<le> users_sum rows"
  unfolding users_sum_def by (rule member_le_sum_list) (auto simp: list_all_iff count_ok_def)

lemma added_sum:
  assumes "list_all count_ok rows" "0 < missing" "users_sum rows + missing \<le> 2 ^ 53"
  shows "users_sum (add_unknown (num missing) currentOnline rows) = users_sum rows + missing"
proof (cases "find_index (\<lambda>row. rg_code row = []) rows")
  case None
  then show ?thesis by (simp add: add_unknown_def users_sum_def)
next
  case (Some i)
  then have i: "i < length rows" using find_code by blast
  let ?u = "int_of (rg_users (rows ! i))"
  have row: "rg_users (rows ! i) = num ?u" "0 \<le> ?u" using assms(1) i by (auto simp: list_all_length count_ok_def)
  moreover have "?u \<le> users_sum rows" using assms(1) i by (intro user_le_sum) auto
  ultimately have "num_add (num ?u) (num missing) = num (?u + missing)" using assms by (intro num_add_num) simp
  then have "num_add (rg_users (rows ! i)) (num missing) = num (?u + missing)" using row(1) by simp
  then show ?thesis using Some i by (simp add: add_unknown_def Let_def users_sum_update)
qed

lemma known_kept:
  "filter (\<lambda>row. rg_code row \<noteq> []) (add_unknown missing currentOnline rows) = filter (\<lambda>row. rg_code row \<noteq> []) rows"
proof (cases "find_index (\<lambda>row. rg_code row = []) rows")
  case (Some i)
  then have i: "i < length rows" "rg_code (rows ! i) = []" using find_code by blast+
  then have "filter (\<lambda>row. rg_code row \<noteq> []) (rows[i := r]) = filter (\<lambda>row. rg_code row \<noteq> []) rows" if "rg_code r = []" for r
    using that by (subst (2) id_take_nth_drop [OF i(1)], subst upd_conv_take_nth_drop [OF i(1)]) simp
  then show ?thesis using Some i(2) by (simp add: add_unknown_def Let_def)
qed (simp add: add_unknown_def)

text \<open>C22: the cities of a province account for every user of the province: the users the server counted in the province but in none
  of its cities stand under the unknown city, the cities that are known keep their numbers, and there is one row per city of the
  province.\<close>
theorem city_rows_complete:
  fixes cities :: "online_city list" and provinceCode :: jstr
  defines "mine \<equiv> map snd (filter (\<lambda>(province, _). province = provinceCode) cities)"
  assumes "list_all count_ok mine" "users_sum mine \<le> 2 ^ 53" "0 \<le> n" "n \<le> 2 ^ 53"
  shows "users_sum (provinceCityRows collate cities provinceCode (num n) currentOnline) = max n (users_sum mine) \<and>
    mset (filter (\<lambda>row. rg_code row \<noteq> []) (provinceCityRows collate cities provinceCode (num n) currentOnline)) =
      mset (filter (\<lambda>row. rg_code row \<noteq> []) mine)"
proof -
  have nonneg: "0 \<le> users_sum mine" using assms(2) by (rule users_sum_nonneg)
  have total: "users_total mine = num (users_sum mine)" using assms(2,3) by (rule users_total_num)
  have "num_sub (num n) (num (users_sum mine)) = num (n - users_sum mine)" using assms(3-5) nonneg by (intro num_sub_num) simp
  then have missing: "num_max (num 0) (num_sub (num n) (users_total mine)) = num (max 0 (n - users_sum mine))" by (simp add: total)
  define rows where "rows = (if 0 < n - users_sum mine then add_unknown (num (max 0 (n - users_sum mine))) currentOnline mine else mine)"
  have rows: "provinceCityRows collate cities provinceCode (num n) currentOnline = sort_by (region_after collate) rows"
    unfolding provinceCityRows_def Let_def mine_def [symmetric] missing by (simp add: rows_def)
  have "users_sum rows = max n (users_sum mine)"
    using added_sum [OF assms(2), of "n - users_sum mine" currentOnline] assms(5) by (auto simp: rows_def)
  moreover have "filter (\<lambda>row. rg_code row \<noteq> []) rows = filter (\<lambda>row. rg_code row \<noteq> []) mine"
    by (simp add: rows_def known_kept)
  ultimately show ?thesis
    using users_sum_mset [OF mset_sort_by [of "region_after collate" rows]]
    unfolding rows mset_filter mset_sort_by by (simp flip: mset_filter)
qed

lemma city_rows_complete_witness:
  "users_sum (provinceCityRows (\<lambda>_ _. 0) [(js ''GD'', \<lparr>rg_code = js ''sz'', rg_name = js ''Shenzhen'', rg_users = num 3, rg_share = num 30\<rparr>)]
     (js ''GD'') (num 10) (num 10)) = 10"
  using city_rows_complete [of "js ''GD''" "[(js ''GD'', \<lparr>rg_code = js ''sz'', rg_name = js ''Shenzhen'', rg_users = num 3, rg_share = num 30\<rparr>)]"
      10 "\<lambda>_ _. 0" "num 10"]
  by (simp add: count_ok_def users_sum_def)

end
