(* ===== verification/ChatView.thy ===== *)
theory ChatView
  imports AiSession JsRound
begin

text \<open>
  What keeps the chat of the assistant in view (\<open>pages/aiOpsChatScroll.ts\<close>) and its input as high as its text
  (\<open>pages/aiOpsComposerSize.ts\<close>). Both ask the browser for a frame and act in it; what the browser measures comes with the event.
\<close>

section \<open>Following the chat\<close>

record pane =
  pn_node :: nat
  pn_height :: jnum
  pn_top :: jnum
  pn_scroll :: jnum

record chat_scroll =
  sc_disposed :: bool
  sc_restoring :: bool
  sc_frame :: bool
  sc_observed :: "nat option"
  sc_follow :: bool

definition visiblePane :: "pane option \<Rightarrow> pane option" where
  "visiblePane p = (case p of Some q \<Rightarrow> if num_lt (num 0) (pn_height q) then Some q else None | None \<Rightarrow> None)"

definition refresh :: "chat_scroll \<Rightarrow> chat_scroll" where
  "refresh s = (if sc_disposed s \<or> sc_frame s then s else s\<lparr>sc_frame := True\<rparr>)"

definition watchAIChatScroll :: chat_scroll where
  "watchAIChatScroll =
     refresh \<lparr>sc_disposed = False, sc_restoring = True, sc_frame = False, sc_observed = None, sc_follow = True\<rparr>"

text \<open>The frame: the new state, and the position the pane is scrolled to.\<close>

definition scroll_frame :: "pane option \<Rightarrow> chat_scroll \<Rightarrow> chat_scroll \<times> jnum option" where
  "scroll_frame p s =
     (let s1 = s\<lparr>sc_frame := False\<rparr>; s2 = s1\<lparr>sc_observed := map_option pn_node p\<rparr>
      in if \<not> sc_frame s then (s, None)
         else if sc_disposed s then (s1, None)
         else (case visiblePane p of
             Some q \<Rightarrow> if \<not> sc_restoring s \<and> \<not> sc_follow s then (s2, None)
               else (s2\<lparr>sc_follow := True, sc_restoring := False\<rparr>, Some (pn_scroll q))
           | None \<Rightarrow> (s2, None)))"

definition onScroll :: "pane option \<Rightarrow> chat_scroll \<Rightarrow> chat_scroll" where
  "onScroll p s =
     (if sc_disposed s \<or> sc_restoring s then s
      else case visiblePane p of
          Some q \<Rightarrow> s\<lparr>sc_follow := aiNearBottom (pn_top q) (pn_height q) (pn_scroll q)\<rparr>
        | None \<Rightarrow> s)"

definition dispose :: "chat_scroll \<Rightarrow> chat_scroll" where
  "dispose s = s\<lparr>sc_disposed := True, sc_frame := False\<rparr>"

datatype scroll_event = Refreshed | Resized nat | Framed | Scrolled | Disposed

text \<open>Every event comes with the pane as it is then.\<close>

definition scroll_react :: "pane option \<Rightarrow> scroll_event \<Rightarrow> chat_scroll \<Rightarrow> chat_scroll \<times> jnum option" where
  "scroll_react p e s =
     (case e of
        Refreshed \<Rightarrow> (refresh s, None)
      | Resized n \<Rightarrow> (if sc_observed s = Some n then refresh s else s, None)
      | Framed \<Rightarrow> scroll_frame p s
      | Scrolled \<Rightarrow> (onScroll p s, None)
      | Disposed \<Rightarrow> (dispose s, None))"

definition scroll_run :: "(pane option \<times> scroll_event) list \<Rightarrow> chat_scroll \<Rightarrow> chat_scroll" where
  "scroll_run es s = fold (\<lambda>(p, e) s. fst (scroll_react p e s)) es s"

section \<open>The height of the input\<close>

record box =
  bx_connected :: bool
  bx_hidden :: bool \<comment> \<open>the document\<close>
  bx_width :: jnum
  bx_border_box :: bool
  bx_style :: "string \<Rightarrow> jnum" \<comment> \<open>\<open>parseFloat\<close> of a property\<close>
  bx_text :: jstr
  bx_shadow :: "jstr \<Rightarrow> jnum" \<comment> \<open>the height a text takes\<close>

record composer =
  co_disposed :: bool
  co_recalibrate :: bool
  co_frame :: bool
  co_width :: jnum
  co_last :: jstr
  co_border_box :: bool
  co_padding :: jnum
  co_border :: jnum
  co_min :: jnum
  co_max :: jnum
  co_height :: jstr \<comment> \<open>\<open>input.style.height\<close>\<close>
  co_original :: jstr

definition css_number :: "box \<Rightarrow> string \<Rightarrow> jnum" where
  "css_number b k = num_or (bx_style b k) (num 0)"

text \<open>A new calibration; \<open>None\<close> when the input has no width.\<close>

definition recalibrated :: "box \<Rightarrow> composer \<Rightarrow> composer option" where
  "recalibrated b s =
     (let padding = num_add (css_number b ''padding-top'') (css_number b ''padding-bottom'');
          border = num_add (css_number b ''border-top-width'') (css_number b ''border-bottom-width'');
          line = (if num_truthy (css_number b ''line-height'') then css_number b ''line-height''
            else num_max (num 1) (num_sub (bx_shadow b [32]) padding));
          extra = (if bx_border_box b then num_add padding border else num 0)
      in if num_le (bx_width b) (num 0) then None
         else Some (s\<lparr>co_border_box := bx_border_box b, co_padding := padding, co_border := border, co_min := num_add line extra,
           co_max := num_add (num_mul line (num 4)) extra, co_width := bx_width b, co_recalibrate := False\<rparr>))"

definition num_ceil :: "jnum \<Rightarrow> jnum" where
  "num_ceil n = num_neg (num_floor (num_neg n))"

definition wanted_height :: "box \<Rightarrow> composer \<Rightarrow> jnum" where
  "wanted_height b s =
     (let text = (if bx_text b = [] then [32] else bx_text b);
          height = num_add (bx_shadow b text) (if co_border_box s then co_border s else num_neg (co_padding s))
      in num_ceil (num_max (co_min s) (num_min (co_max s) height)))"

definition set_height :: "box \<Rightarrow> composer \<Rightarrow> composer" where
  "set_height b s =
     (let h = num_str (wanted_height b s) @ js ''px''
      in if h \<noteq> co_last s \<or> co_height s \<noteq> h then s\<lparr>co_height := h, co_last := h\<rparr> else s)"

definition measure_composer :: "box \<Rightarrow> composer \<Rightarrow> composer" where
  "measure_composer b s =
     (let s1 = s\<lparr>co_frame := False\<rparr>
      in if co_disposed s \<or> \<not> bx_connected b \<or> bx_hidden b then s1
         else if co_recalibrate s then (case recalibrated b s1 of None \<Rightarrow> s1 | Some s2 \<Rightarrow> set_height b s2)
         else set_height b s1)"

definition refresh_composer :: "bool \<Rightarrow> composer \<Rightarrow> composer" where
  "refresh_composer stylesChanged s =
     (if co_disposed s then s else s\<lparr>co_recalibrate := co_recalibrate s \<or> stylesChanged, co_frame := True\<rparr>)"

text \<open>The width the observer reports, when it reports one.\<close>

definition composer_resized :: "jnum option \<Rightarrow> box \<Rightarrow> composer \<Rightarrow> composer" where
  "composer_resized reported b s =
     (let w = (case reported of Some n \<Rightarrow> if is_finite n then n else bx_width b | None \<Rightarrow> bx_width b);
          d = num_sub w (co_width s)
      in if num_lt (Fin (1 / 2)) (num_max d (num_neg d)) then refresh_composer True s else s)"

text \<open>The document became hidden or visible.\<close>

definition composer_visibility :: "bool \<Rightarrow> composer \<Rightarrow> composer" where
  "composer_visibility hidden s = (if hidden then s else refresh_composer True s)"

definition dispose_composer :: "composer \<Rightarrow> composer" where
  "dispose_composer s =
     (if co_disposed s then s
      else s\<lparr>co_disposed := True, co_frame := False, co_height := (if co_height s = co_last s then co_original s else co_height s)\<rparr>)"

definition watchMiniComposerSize :: "jstr \<Rightarrow> composer" where
  "watchMiniComposerSize height = refresh_composer False
     \<lparr>co_disposed = False, co_recalibrate = True, co_frame = False, co_width = num (-1), co_last = [], co_border_box = False,
       co_padding = num 0, co_border = num 0, co_min = num 46, co_max = num 112, co_height = height, co_original = height\<rparr>"

section \<open>What holds\<close>

lemma hidden_step:
  assumes "visiblePane p = None"
  shows "sc_follow (fst (scroll_react p e s)) = sc_follow s" "sc_restoring (fst (scroll_react p e s)) = sc_restoring s"
    "snd (scroll_react p e s) = None"
  using assms by (simp_all add: scroll_react_def refresh_def scroll_frame_def onScroll_def dispose_def Let_def split: scroll_event.split)

text \<open>While the pane of the chat is hidden, nothing scrolls it and nothing changes whether it is followed; the first frame
  with a visible pane then goes to the end of the chat if the reader had not scrolled away from it.\<close>
lemma hidden_chat_kept:
  assumes "\<forall>(p, e) \<in> set es. visiblePane p = None"
  shows "sc_follow (scroll_run es s) = sc_follow s \<and> sc_restoring (scroll_run es s) = sc_restoring s"
  using assms by (induction es arbitrary: s) (auto simp: scroll_run_def hidden_step)

lemma shown_chat_follows:
  assumes "sc_frame s" "\<not> sc_disposed s" "sc_restoring s \<or> sc_follow s" "visiblePane p = Some q"
  shows "snd (scroll_react p Framed s) = Some (pn_scroll q) \<and> sc_follow (fst (scroll_react p Framed s))"
  using assms by (auto simp: scroll_react_def scroll_frame_def Let_def)

text \<open>A composer that was thrown away gives the input its height back, unless something else changed it, and then does nothing.\<close>
lemma composer_restored:
  assumes "\<not> co_disposed s" "co_height s = co_last s"
  shows "co_height (dispose_composer s) = co_original s \<and> co_height (measure_composer b (dispose_composer s)) = co_original s"
  using assms by (simp add: dispose_composer_def measure_composer_def)

end
