(* ===== verification/CampaignTexts.thy ===== *)
theory CampaignTexts
  imports JsString
begin

text \<open>
  The captions of the two invite campaign pages that are outside ASCII, as UTF-16 code units under their meaning in English.
\<close>

definition captions :: "(string \<times> jstr) list" where
  "captions =
     [(''monthly'', [26376, 20184]),
      (''quarterly'', [23395, 20184]),
      (''half-yearly'', [21322, 24180, 20184]),
      (''yearly'', [24180, 20184]),
      (''two-yearly'', [20004, 24180, 20184]),
      (''three-yearly'', [19977, 24180, 20184]),
      (''once'', [19968, 27425, 24615]),
      (''running'', [36827, 34892, 20013]),
      (''reached'', [24050, 36798, 26631]),
      (''expired'', [24050, 36807, 26399]),
      (''abandoned'', [24050, 25918, 24323]),
      (''used'', [24050, 20351, 29992]),
      (''yuan'', [165]),
      (''not signed in'', [26410, 30331, 24405]),
      (''sign-in expired'', [30331, 24405, 24050, 22833, 25928]),
      (''request failed'', [35831, 27714, 22833, 36133]),
      (''traffic'', [27969, 37327]),
      (''hours of trial'', [23567, 26102, 20307, 39564, 26102, 38271]),
      (''trial defaults'', [34987, 36992, 35831, 20154, 27839, 29992, 29616, 26377, 35797, 29992, 22871, 39184, 40664, 35748, 
        27969, 37327, 19982, 26102, 38271]),
      (''invited user gets'', [34987, 36992, 35831, 20154, 33719, 24471]),
      (''comma, group'', [65292, 32452, 21035]),
      (''speed'', [36895, 29575]),
      (''device limit as in trial'', [35774, 22791, 38480, 21046, 27839, 29992, 29616, 26377, 35797, 29992, 22871, 39184]),
      (''unknown'', [26410, 30693]),
      (''nothing to copy'', [27809, 26377, 21487, 22797, 21046, 30340, 20869, 23481]),
      (''copied'', [22797, 21046, 25104, 21151]),
      (''loading'', [21152, 36733, 20013]),
      (''loading failed'', [21152, 36733, 22833, 36133]),
      (''creating order'', [27491, 22312, 21019, 24314, 35746, 21333]),
      (''order now'', [31435, 21363, 19979, 21333]),
      (''order failed'', [21019, 24314, 35746, 21333, 22833, 36133]),
      (''really abandon'', [30830, 35748, 25918, 24323, 24403, 21069, 36992, 35831, 27963, 21160, 20219, 21153, 21527, 65311]),
      (''task abandoned'', [20219, 21153, 24050, 25918, 24323]),
      (''abandoning failed'', [25918, 24323, 22833, 36133]),
      (''no task records'', [26242, 26080, 20219, 21153, 35760, 24405]),
      (''invitation task'', [36992, 35831, 27963, 21160, 20219, 21153]),
      (''after inviting, each'', [36992, 35831, 22909, 21451, 27880, 20876, 21518, 65292, 27599, 27880, 20876]),
      (''registered adds'', [20154, 32047, 35745, 25269, 25187]),
      (''stop, task valid for'', [12290, 20219, 21153, 26377, 25928, 26399]),
      (''hours, then deducted'', [23567, 26102, 65292, 36798, 26631, 21518, 36141, 20080, 32465, 23450, 22871, 39184, 20250, 33258, 
        21160, 25269, 25187, 12290]),
      (''target plan'', [30446, 26631, 22871, 39184]),
      (''countdown'', [20498, 35745, 26102]),
      (''ends at'', [25130, 27490, 20110]),
      (''target amount'', [30446, 26631, 37329, 39069]),
      (''current reduction'', [24403, 21069, 20943, 20813]),
      (''amount missing'', [36824, 24046, 37329, 39069]),
      (''reward each'', [21333, 27425, 22870, 21169]),
      (''users invited'', [24050, 36992, 20154, 25968]),
      (''deduction available'', [21487, 29992, 25269, 25187]),
      (''current progress'', [24403, 21069, 36827, 24230]),
      (''invite code'', [36992, 35831, 30721]),
      (''copy invite code'', [22797, 21046, 36992, 35831, 30721]),
      (''invite link'', [36992, 35831, 38142, 25509]),
      (''copy link'', [22797, 21046, 38142, 25509]),
      (''note on plan and period'', [21482, 26377, 27963, 21160, 32465, 23450, 30340, 22871, 39184, 21644, 21608, 26399, 19979, 21333, 
        26102, 25165, 20250, 20351, 29992, 36825, 27425, 25269, 25187, 12290, 24403, 21069, 20219, 21153, 
        20250, 32465, 23450, 21040, 20320, 21407, 26377, 38271, 26399, 36992, 35831, 30721, 65292, 34987, 
        36992, 35831, 20154, 27880, 20876, 21518, 33258, 21160, 32047, 35745, 36827, 24230, 12290]),
      (''see plans'', [26597, 30475, 22871, 39184]),
      (''abandon task'', [25918, 24323, 20219, 21153]),
      (''invite records'', [36992, 35831, 35760, 24405]),
      (''registered at'', [27880, 20876, 26102, 38388]),
      (''invited user'', [36992, 35831, 29992, 25143]),
      (''code used'', [20351, 29992, 36992, 35831, 30721]),
      (''reward in total'', [32047, 35745, 22870, 21169]),
      (''previous page'', [19978, 19968, 39029]),
      (''number'', [31532]),
      (''page'', [39029]),
      (''next page'', [19979, 19968, 39029]),
      (''about the task'', [20219, 21153, 35828, 26126]),
      (''task mode'', [20219, 21153, 27169, 24335]),
      (''single plan task'', [21333, 22871, 39184, 27963, 21160]),
      (''reward rule'', [22870, 21169, 35268, 21017]),
      (''each invitation of'', [27599, 36992, 35831]),
      (''registered, adds'', [20154, 27880, 20876, 65292, 22686, 21152]),
      (''plan deduction'', [22871, 39184, 25269, 25187]),
      (''task period'', [20219, 21153, 26399, 38480]),
      (''after creation fixed'', [21019, 24314, 21518, 22266, 23450]),
      (''hours'', [23567, 26102]),
      (''trial rule'', [35797, 29992, 35268, 21017]),
      (''bound to your code'', [32465, 23450, 21040, 20320, 24403, 21069, 38271, 26399, 36992, 35831, 30721]),
      (''shortcuts'', [24555, 25463, 20837, 21475]),
      (''back to invitations'', [36820, 22238, 36992, 35831, 39029]),
      (''back to dashboard'', [36820, 22238, 20202, 34920, 30424]),
      (''choose plan and period'', [35831, 20808, 36873, 25321, 22871, 39184, 21644, 21608, 26399]),
      (''creating'', [27491, 22312, 21019, 24314]),
      (''task created'', [27963, 21160, 20219, 21153, 24050, 21019, 24314]),
      (''start task'', [24320, 22987, 20219, 21153]),
      (''creating failed'', [21019, 24314, 22833, 36133]),
      (''no running task yet'', [20320, 24403, 21069, 36824, 27809, 26377, 36827, 34892, 20013, 30340, 20219, 21153, 12290, 30452, 
        25509, 22312, 36825, 37324, 36873, 25321, 30446, 26631, 22871, 39184, 21644, 21608, 26399, 65292, 
        23601, 33021, 31435, 21363, 29983, 25104, 19968, 20010, 26032, 30340, 36992, 35831, 20943, 20813, 
        27963, 21160, 12290]),
      (''to be created'', [24453, 21019, 24314]),
      (''purchase period'', [36141, 20080, 21608, 26399]),
      (''middle dot'', [183]),
      (''task valid for'', [20219, 21153, 26377, 25928, 26399]),
      (''note on creation'', [21019, 24314, 21518, 20250, 33258, 21160, 32465, 23450, 21040, 20320, 30340, 38271, 26399, 36992, 
        35831, 30721, 12290, 34987, 36992, 35831, 20154, 20808, 24314, 31435, 26222, 36890, 36992, 35831, 
        20851, 31995, 65292, 20877, 21028, 26029, 24403, 21069, 26159, 21542, 26377, 26377, 25928, 20219, 
        21153, 65307, 26377, 20219, 21153, 21017, 32047, 21152, 20943, 20813, 65292, 26080, 20219, 21153, 
        21017, 21482, 36208, 26222, 36890, 36820, 20323, 12290]),
      (''see plans first'', [20808, 30475, 22871, 39184]),
      (''before creating'', [21019, 24314, 39035, 30693]),
      (''task type'', [20219, 21153, 31867, 22411]),
      (''single plan task, advised'', [21333, 22871, 39184, 27963, 21160, 65288, 25512, 33616, 65289]),
      (''trial reward'', [35797, 29992, 22870, 21169]),
      (''deduction grows'', [25269, 25187, 22686, 21152]),
      (''registered more'', [20154, 22686, 21152]),
      (''trigger'', [35302, 21457, 26102, 26426]),
      (''counted on registration'', [34987, 36992, 35831, 20154, 27880, 20876, 25104, 21151, 21518, 33258, 21160, 32047, 35745]),
      (''tasks are closed'', [31649, 29702, 21592, 24050, 26242, 26102, 20851, 38381, 27963, 21160, 20219, 21153, 12290, 26222, 
        36890, 36992, 35831, 36820, 20323, 20173, 28982, 27491, 24120, 65292, 24050, 21019, 24314, 30340, 
        27963, 21160, 20219, 21153, 19981, 20250, 22312, 36825, 37324, 26032, 24314, 12290]),
      (''closed'', [24050, 20851, 38381]),
      (''note on closing'', [24403, 21069, 21482, 33021, 32487, 32493, 20351, 29992, 26222, 36890, 36992, 35831, 20851, 31995, 
        21644, 36820, 20323, 36923, 36753, 65292, 26032, 30340, 27963, 21160, 20219, 21153, 20837, 21475, 
        24050, 20851, 38381, 12290, 22914, 38656, 24674, 22797, 65292, 35831, 22312, 21518, 21488, 20219, 
        21153, 31649, 29702, 20013, 37325, 26032, 24320, 21551, 27963, 21160, 24320, 20851, 12290]),
      (''current rules'', [24403, 21069, 35268, 21017]),
      (''task state'', [27963, 21160, 29366, 24577]),
      (''closed by administrator'', [31649, 29702, 21592, 20851, 38381, 20013]),
      (''plain invitation'', [26222, 36890, 36992, 35831]),
      (''works as before'', [20173, 25353, 21407, 26377, 36820, 20323, 36923, 36753, 25191, 34892]),
      (''existing tasks'', [24050, 26377, 20219, 21153]),
      (''not affected by closing'', [24050, 21019, 24314, 20219, 21153, 19981, 21463, 26412, 27425, 20837, 21475, 20851, 38381, 24433, 
        21709]),
      (''loading task'', [27491, 22312, 21152, 36733, 27963, 21160, 20219, 21153]),
      (''no plan for tasks'', [24403, 21069, 27809, 26377, 21487, 21442, 19982, 27963, 21160, 30340, 22871, 39184]),
      (''traffic reset'', [37325, 32622, 27969, 37327]),
      (''balance deposit'', [20313, 39069, 20805, 20540]),
      (''fuzzy'', [27169, 31946]),
      (''details'', [35814, 24773]),
      (''no tasks'', [26242, 26080, 20219, 21153]),
      (''task management'', [20219, 21153, 31649, 29702]),
      (''about task management'', [26597, 30475, 36992, 35831, 20943, 20813, 27963, 21160, 20219, 21153, 12289, 32465, 23450, 36992, 
        35831, 30721, 12289, 23436, 25104, 36827, 24230, 21644, 35302, 21457, 30340, 23454, 38469, 25269, 
        25187, 35746, 21333, 12290]),
      (''back to admin'', [36820, 22238, 21518, 21488]),
      (''refresh list'', [21047, 26032, 21015, 34920]),
      (''tasks in total'', [24635, 20219, 21153, 25968]),
      (''running on this page'', [24403, 21069, 39029, 36827, 34892, 20013]),
      (''reached on this page'', [24403, 21069, 39029, 24050, 36798, 26631]),
      (''used on this page'', [24403, 21069, 39029, 24050, 20351, 29992]),
      (''or expired'', [36807, 26399]),
      (''search field'', [25628, 32034, 23383, 27573]),
      (''inviter e-mail'', [36992, 35831, 20154, 37038, 31665]),
      (''keyword'', [20851, 38190, 35789]),
      (''e-mail or code'', [37038, 31665, 25110, 36992, 35831, 30721]),
      (''state'', [29366, 24577]),
      (''all states'', [20840, 37096, 29366, 24577]),
      (''search'', [25628, 32034]),
      (''inviter'', [36992, 35831, 20154]),
      (''progress'', [36827, 24230]),
      (''order deducted'', [25269, 25187, 35746, 21333]),
      (''created at'', [21019, 24314, 26102, 38388]),
      (''action'', [25805, 20316]),
      (''no registrations'', [26242, 26080, 27880, 20876, 35760, 24405]),
      (''task details'', [20219, 21153, 35814, 24773]),
      (''bound code:'', [32465, 23450, 36992, 35831, 30721, 65306]),
      (''number of invitations'', [36992, 35831, 20154, 25968]),
      (''task time'', [20219, 21153, 26102, 25928]),
      (''to'', [33267]),
      (''bound code'', [32465, 23450, 36992, 35831, 30721]),
      (''order used'', [20351, 29992, 35746, 21333]),
      (''order deduction'', [35746, 21333, 25269, 25187]),
      (''registrations'', [27880, 20876, 35760, 24405]),
      (''user invited'', [34987, 36992, 35831, 29992, 25143]),
      (''reward'', [22870, 21169]),
      (''loading tasks'', [27491, 22312, 21152, 36733, 20219, 21153, 21015, 34920]),
      (''loading details failed'', [21152, 36733, 35814, 24773, 22833, 36133])]"

definition caption :: "string \<Rightarrow> jstr" where
  "caption k = (case map_of captions k of Some s \<Rightarrow> s | None \<Rightarrow> [])"

lemma captions_plain: "list_all (\<lambda>(k, s). list_all (\<lambda>c. 127 < c) s) captions"
  by code_simp

lemma caption_plain: "x \<in> set (caption k) \<Longrightarrow> 127 < x"
proof (cases "map_of captions k")
  case (Some s)
  assume "x \<in> set (caption k)"
  with Some captions_plain map_of_SomeD [OF Some] show ?thesis by (auto simp: caption_def list_all_iff)
qed (simp add: caption_def)

end
