(* ===== verification/CampaignMarkup.thy ===== *)
theory CampaignMarkup
  imports CampaignTexts JsRound AdminForms
begin

text \<open>
  What the two invite campaign pages share (\<open>public/assets/user-invite-campaign-page.js\<close> and
  \<open>admin-invite-campaign-page.js\<close>): texts are put into markup by concatenation, so each page escapes what it did not write
  itself. Markup is a list of pieces; a piece is markup of the program, a value that is escaped, or a number. A backquote stands
  for the quotation mark in the literals.
\<close>

section \<open>Escaping\<close>

definition replace_char :: "int \<Rightarrow> string \<Rightarrow> jstr \<Rightarrow> jstr" where
  "replace_char c r s = concat (map (\<lambda>x. if x = c then js r else [x]) s)"

definition escapeHtml :: "jsv \<Rightarrow> jstr" where
  "escapeHtml value =
     replace_char 39 ''&#39;'' (replace_char 34 ''&quot;'' (replace_char 62 ''&gt;'' (replace_char 60 ''&lt;''
       (replace_char 38 ''&amp;'' (if nullish value then [] else to_str value)))))"

datatype piece = Mark jstr | Shown jsv | Count jnum

fun piece_html :: "piece \<Rightarrow> jstr" where
  "piece_html (Mark s) = s"
| "piece_html (Shown v) = escapeHtml v"
| "piece_html (Count n) = num_str n"

definition html :: "piece list \<Rightarrow> jstr" where
  "html ps = concat (map piece_html ps)"

definition m :: "string \<Rightarrow> piece" where
  "m s = Mark (map (\<lambda>x. if x = 96 then 34 else x) (js s))"

definition c :: "string \<Rightarrow> piece" where
  "c k = Mark (caption k)"

definition mark_if :: "bool \<Rightarrow> string \<Rightarrow> piece" where
  "mark_if b s = (if b then m s else Mark [])"

definition link :: "jobj \<Rightarrow> string \<Rightarrow> string \<Rightarrow> piece" where
  "link cfg k d = Shown (jor (oget (js k) cfg) (JStr (js d)))"

definition or_dashes :: "jsv \<Rightarrow> jsv" where
  "or_dashes v = jor v (JStr (js ''--''))"

text \<open>\<open>v && v.k\<close>.\<close>

definition inner :: "jsv \<Rightarrow> string \<Rightarrow> jsv" where
  "inner v k = (if truthy v then jprop v (js k) else v)"

section \<open>Dates and numbers\<close>

text \<open>What the pages take from the browser: amounts in a currency (\<open>None\<close> when it does not know the currency), the parts of a
  time in the local time zone, the clock, the encoding of a part of an address, and the address of the site.\<close>

record browser =
  br_currency :: "jsv \<Rightarrow> jnum \<Rightarrow> jstr option"
  br_local :: "jnum \<Rightarrow> jnum \<times> jnum \<times> jnum \<times> jnum \<times> jnum \<times> jnum" \<comment> \<open>year, month from 0, day, hours, minutes, seconds\<close>
  br_now :: jnum \<comment> \<open>milliseconds\<close>
  br_encode :: "jstr \<Rightarrow> jstr"
  br_origin :: jstr
  br_type_error :: jstr \<comment> \<open>what it says of reading a property of \<open>null\<close>\<close>

definition pad2 :: "jnum \<Rightarrow> jstr" where
  "pad2 n = replicate (2 - length (num_str n)) 48 @ num_str n"

definition formatDate :: "browser \<Rightarrow> jsv \<Rightarrow> jstr" where
  "formatDate env timestamp =
     (if \<not> truthy timestamp then js ''--''
      else let (y, mo, d, h, mi, s) = br_local env (num_mul (to_num timestamp) (num 1000))
        in join [45] [num_str y, pad2 (num_add mo (num 1)), pad2 d] @ [32] @ join [58] [pad2 h, pad2 mi, pad2 s])"

text \<open>The remainder of a number that is not negative.\<close>

fun num_rem :: "jnum \<Rightarrow> int \<Rightarrow> jnum" where
  "num_rem (Fin q) k = Fin (q - of_int k * of_int \<lfloor>q / of_int k\<rfloor>)"
| "num_rem n k = NaN"

definition over_floor :: "jnum \<Rightarrow> int \<Rightarrow> jnum" where
  "over_floor n k = num_floor (num_div n (num k))"

definition countdown_parts :: "jnum \<Rightarrow> jnum list" where
  "countdown_parts remaining =
     [over_floor remaining 86400, over_floor (num_rem remaining 86400) 3600, over_floor (num_rem remaining 3600) 60, num_rem remaining 60]"

definition countdown :: "browser \<Rightarrow> jsv \<Rightarrow> jstr" where
  "countdown env expiredAt =
     (let remaining = num_max (num 0) (num_sub (to_num (jor expiredAt (JNum (num 0)))) (over_floor (br_now env) 1000))
      in join [58] (map pad2 (countdown_parts remaining)))"

definition progress_of :: "jsv \<Rightarrow> jsv \<Rightarrow> jnum" where
  "progress_of current target =
     (if num_lt (num 0) (to_num target)
      then num_min (num 100) (num_round (num_mul (num_div (to_num current) (to_num target)) (num 100))) else num 0)"

definition total_pages :: "jsv \<Rightarrow> jnum \<Rightarrow> jnum" where
  "total_pages size_of n = num_max (num 1) (num_neg (num_floor (num_neg (num_div (to_num size_of) n))))"

section \<open>States of a task\<close>

definition status_meta :: "(string \<times> string \<times> string) list" where
  "status_meta =
     [(''0'', ''status-ongoing'', ''running''), (''1'', ''status-completed'', ''reached''), (''2'', ''status-expired'', ''expired''),
      (''3'', ''status-abandoned'', ''abandoned''), (''4'', ''status-used'', ''used'')]"

text \<open>The class and the caption.\<close>

definition getStatusMeta :: "jsv \<Rightarrow> string \<times> string" where
  "getStatusMeta status =
     (case find (\<lambda>(k, _). js k = to_str status) status_meta of
        Some (_, meta) \<Rightarrow> meta | None \<Rightarrow> (''status-unknown'', ''unknown''))"

section \<open>Requests\<close>

datatype answer_body = NoJson | BadJson jstr \<comment> \<open>the message of the browser\<close> | JsonBody jsv

record page_response =
  pr_status :: int
  pr_ok :: bool
  pr_body :: answer_body

text \<open>An answer read, and whether the page goes to the sign-in. Reading a property of \<open>null\<close> throws, with a message of the
  browser.\<close>

definition failure_text :: "jstr \<Rightarrow> jsv \<Rightarrow> jstr" where
  "failure_text unreadable data =
     (if nullish data then unreadable
      else to_str (jor (jprop data (js ''message'')) (jor (jprop data (js ''msg'')) (JStr (caption ''request failed'')))))"

definition read_answer :: "bool \<Rightarrow> jstr \<Rightarrow> page_response \<Rightarrow> (jstr + jsv) \<times> bool" where
  "read_answer coded unreadable r =
     (case (case pr_body r of NoJson \<Rightarrow> Inr (JObj []) | BadJson t \<Rightarrow> Inl t | JsonBody v \<Rightarrow> Inr v) of
        Inl t \<Rightarrow> (Inl t, False)
      | Inr data \<Rightarrow>
          if pr_status r = 403 then (Inl (caption ''sign-in expired''), True)
          else if \<not> pr_ok r then (Inl (failure_text unreadable data), False)
          else if coded \<and> nullish data then (Inl unreadable, False)
          else if coded \<and> truthy (jprop data (js ''code'')) \<and> jprop data (js ''code'') \<noteq> JNum (num 200)
          then (Inl (failure_text unreadable data), False)
          else (Inr data, False))"

section \<open>Escaping is faithful\<close>

text \<open>The characters that begin and end tags and attributes.\<close>

definition markup_chars :: "jstr \<Rightarrow> jstr" where
  "markup_chars s = filter (\<lambda>x. x \<in> {60, 62, 34, 39}) s"

text \<open>How a browser reads the five character references.\<close>

definition references :: "(string \<times> int) list" where
  "references = [(''&amp;'', 38), (''&lt;'', 60), (''&gt;'', 62), (''&quot;'', 34), (''&#39;'', 39)]"

fun decoded :: "jstr \<Rightarrow> jstr" where
  "decoded [] = []"
| "decoded (x # s) =
     (case find (\<lambda>(code, _). starts_with (x # s) (js code)) references of
        Some (code, y) \<Rightarrow> y # decoded (drop (length code - 1) s) | None \<Rightarrow> x # decoded s)"

definition escaped :: "int \<Rightarrow> jstr" where
  "escaped x = (if x = 38 then js ''&amp;'' else if x = 60 then js ''&lt;'' else if x = 62 then js ''&gt;''
     else if x = 34 then js ''&quot;'' else if x = 39 then js ''&#39;'' else [x])"

lemma replace_char_concat: "replace_char k r (concat (map f s)) = concat (map (\<lambda>x. replace_char k r (f x)) s)"
  by (induction s) (simp_all add: replace_char_def)

lemma replace_char_js: "replace_char k r (x # s) = (if x = k then js r else [x]) @ replace_char k r s" "replace_char k r [] = []"
  by (simp_all add: replace_char_def)

lemma escapeHtml_concat: "escapeHtml v = concat (map escaped (if nullish v then [] else to_str v))"
proof -
  have "replace_char 39 ''&#39;'' (replace_char 34 ''&quot;'' (replace_char 62 ''&gt;'' (replace_char 60 ''&lt;''
      (if x = 38 then js ''&amp;'' else [x])))) = escaped x" for x
    by (simp add: escaped_def js_def replace_char_js)
  then show ?thesis
    unfolding escapeHtml_def by (subst replace_char_def) (simp add: replace_char_concat)
qed

lemma markup_chars_append [simp]: "markup_chars (s @ t) = markup_chars s @ markup_chars t"
  by (simp add: markup_chars_def)

lemma markup_chars_escaped: "markup_chars (escaped x) = []"
  by (simp add: escaped_def markup_chars_def js_def)

lemma markup_chars_escapes: "markup_chars (concat (map escaped s)) = []"
  by (induction s) (simp_all add: markup_chars_escaped, simp add: markup_chars_def)

lemma markup_chars_escape [simp]: "markup_chars (escapeHtml v) = []"
  by (simp add: escapeHtml_concat markup_chars_escapes)

declare decoded.simps [simp del]

lemma decoded_plain: "x \<noteq> 38 \<Longrightarrow> decoded (x # s) = x # decoded s"
  by (simp add: decoded.simps references_def js_def)

lemma decoded_references:
  "decoded (js ''&amp;'' @ s) = 38 # decoded s" "decoded (js ''&lt;'' @ s) = 60 # decoded s" "decoded (js ''&gt;'' @ s) = 62 # decoded s"
  "decoded (js ''&quot;'' @ s) = 34 # decoded s" "decoded (js ''&#39;'' @ s) = 39 # decoded s"
  by (simp_all add: decoded.simps references_def js_def)

lemma decoded_reference: "x \<in> {38, 60, 62, 34, 39} \<Longrightarrow> decoded (escaped x @ s) = x # decoded s"
  using decoded_references [of s] by (elim insertE emptyE) (simp_all add: escaped_def)

lemma decoded_escaped: "decoded (concat (map escaped s)) = s"
proof (induction s)
  case (Cons x s)
  show ?case
  proof (cases "x \<in> {38, 60, 62, 34, 39}")
    case True
    then show ?thesis using Cons by (simp add: decoded_reference)
  next
    case False
    then have "escaped x = [x]" "x \<noteq> 38" by (auto simp: escaped_def)
    then show ?thesis using Cons by (simp add: decoded_plain)
  qed
qed (simp add: decoded.simps)

end
