(* ===== verification/CampaignUser.thy ===== *)
theory CampaignUser
  imports CampaignMarkup
begin

text \<open>
  The invite campaign page of a user (\<open>public/assets/user-invite-campaign-page.js\<close>): its state, the markup it writes, and its
  handlers up to the point where they wait. Every rendering is numbered: an answer that changes a button changes the button it was
  asked from.
\<close>

section \<open>State\<close>

definition PERIODS :: "(string \<times> string) list" where
  "PERIODS =
     [(''month_price'', ''monthly''), (''quarter_price'', ''quarterly''), (''half_year_price'', ''half-yearly''), (''year_price'', ''yearly''),
      (''two_year_price'', ''two-yearly''), (''three_year_price'', ''three-yearly''), (''onetime_price'', ''once'')]"

datatype campaign_screen = Blank | Waiting | Failed | Running | Creating | Closed

datatype campaign_request = FetchingTask | FetchingRecords bool \<comment> \<open>as a part of loading the task\<close>
  | FetchingPlans | Paying nat | Abandoning nat | Making nat

record campaign =
  cu_campaign :: jsv
  cu_records :: "jsv list"
  cu_page :: jnum
  cu_total :: jsv
  cu_plans :: "jsv list"
  cu_plan :: jsv \<comment> \<open>\<open>selectedPlanId\<close>\<close>
  cu_period :: jstr
  cu_currency :: jsv
  cu_symbol :: jsv
  cu_enabled :: bool
  cu_settings :: jsv
  cu_token :: "jstr option"
  cu_screen :: campaign_screen
  cu_html :: jstr
  cu_rendered :: nat
  cu_disabled :: "string set" \<comment> \<open>the buttons of the screen that are disabled\<close>
  cu_ticking :: bool
  cu_clock :: jstr
  cu_toasts :: "jstr list"
  cu_location :: "jstr option"
  cu_requests :: "campaign_request list"
  cu_sent :: "(jstr \<times> jsv) list"

definition initial_settings :: jsv where
  "initial_settings = JObj [(js ''reward_amount'', JNum (num 1000)), (js ''expire_hours'', JNum (num 48)),
     (js ''invitee_try_out_transfer_gb'', JNum (num 0)), (js ''invitee_try_out_hours'', JNum (num 0))]"

definition initial_campaign :: "jstr option \<Rightarrow> campaign" where
  "initial_campaign token = \<lparr>cu_campaign = JNull, cu_records = [], cu_page = num 1, cu_total = JNum (num 0), cu_plans = [],
     cu_plan = JNull, cu_period = [], cu_currency = JStr (js ''CNY''), cu_symbol = JStr [165], cu_enabled = True,
     cu_settings = initial_settings, cu_token = token, cu_screen = Blank, cu_html = [], cu_rendered = 0, cu_disabled = {},
     cu_ticking = False, cu_clock = [], cu_toasts = [], cu_location = None, cu_requests = [], cu_sent = []\<rparr>"

section \<open>What is shown\<close>

definition formatMoney :: "browser \<Rightarrow> campaign \<Rightarrow> jsv \<Rightarrow> jstr" where
  "formatMoney env s cents =
     (let value = num_div (to_num (jor cents (JNum (num 0)))) (num 100)
      in case br_currency env (jor (cu_currency s) (JStr (js ''CNY''))) value of
           Some t \<Rightarrow> t | None \<Rightarrow> to_str (jor (cu_symbol s) (JStr [165])) @ to_fixed 2 value)"

definition getSettingNumber :: "string \<Rightarrow> int \<Rightarrow> campaign \<Rightarrow> jnum" where
  "getSettingNumber k fallback s =
     (let parsed = to_num (inner (cu_settings s) k) in if is_finite parsed then parsed else num fallback)"

definition getRewardAmount :: "campaign \<Rightarrow> jnum" where
  "getRewardAmount = getSettingNumber ''reward_amount'' 1000"

definition getExpireHours :: "campaign \<Rightarrow> jnum" where
  "getExpireHours = getSettingNumber ''expire_hours'' 48"

definition formatInviteeTryOutRule :: "campaign \<Rightarrow> jstr" where
  "formatInviteeTryOutRule s =
     (let transfer = getSettingNumber ''invitee_try_out_transfer_gb'' 0 s; hours = getSettingNumber ''invitee_try_out_hours'' 0 s;
          parts = (if num_lt (num 0) transfer then [num_str transfer @ js ''GB '' @ caption ''traffic''] else []) @
            (if num_lt (num 0) hours then [num_str hours @ [32] @ caption ''hours of trial''] else [])
      in if parts = [] then caption ''trial defaults''
         else caption ''invited user gets'' @ [32] @ join (js '' + '') parts @ caption ''comma, group'' @ js ''/'' @
           caption ''speed'' @ js ''/'' @ caption ''device limit as in trial'')"

definition getPlanById :: "jsv \<Rightarrow> campaign \<Rightarrow> jsv option" where
  "getPlanById planId s = find (\<lambda>plan. to_str (jprop plan (js ''id'')) = to_str planId) (rev (cu_plans s))"

definition getPlanPeriods :: "jsv \<Rightarrow> (string \<times> string) list" where
  "getPlanPeriods plan = filter (\<lambda>(k, _). truthy plan \<and> \<not> nullish (jprop plan (js k))) PERIODS"

definition currentInviteLink :: "browser \<Rightarrow> campaign \<Rightarrow> jstr" where
  "currentInviteLink env s =
     (let code = jprop (cu_campaign s) (js ''invite_code''); origin = br_origin env
      in if \<not> truthy (cu_campaign s) \<or> \<not> truthy code then []
         else (if origin \<noteq> [] \<and> last origin = 47 then butlast origin else origin) @ js ''/#/register?code='' @ br_encode env (to_str code))"

definition period_label :: "jsv \<Rightarrow> jsv" where
  "period_label period =
     (case find (\<lambda>(k, _). JStr (js k) = period) PERIODS of Some (_, l) \<Rightarrow> JStr (caption l) | None \<Rightarrow> period)"

definition record_row :: "browser \<Rightarrow> campaign \<Rightarrow> jsv \<Rightarrow> piece list" where
  "record_row env s r =
     (let get = (\<lambda>k. jprop r (js k)); cash = (\<lambda>v. Shown (JStr (formatMoney env s v)))
      in [m ''<tr>'',
          m ''<td>'', Shown (JStr (formatDate env (get ''created_at''))), m ''</td>'',
          m ''<td>'', Shown (jor (get ''invitee_email'') (JStr (35 # to_str (get ''invitee_user_id'')))), m ''</td>'',
          m ''<td>'', Shown (or_dashes (get ''invite_code'')), m ''</td>'',
          m ''<td>'', cash (jor (get ''reward_amount'') (JNum (num 0))), m ''</td>'',
          m ''</tr>''])"

definition campaign_markup :: "browser \<Rightarrow> jobj \<Rightarrow> campaign \<Rightarrow> piece list" where
  "campaign_markup env cfg s =
     (let get = (\<lambda>k. jprop (cu_campaign s) (js k)); cash = (\<lambda>v. Shown (JStr (formatMoney env s v)));
          status = getStatusMeta (get ''status''); progress = progress_of (get ''current_amount'') (get ''target_amount'');
          pages = total_pages (cu_total s) (num 10);
          rows = (if cu_records s \<noteq> [] then concat (map (record_row env s) (cu_records s))
            else [m ''<tr><td colspan=`4` class=`campaign-empty`>'', c ''no task records'', m ''</td></tr>''])
      in [m ''<div class=`campaign-grid`>'',
          m ''<div class=`campaign-main`>'',
          m ''<div class=`campaign-card`>'',
          m ''<div class=`campaign-hero`>'',
          m ''<div>'',
          m ''<h1>'', c ''invitation task'', m ''</h1>'',
          m ''<p>'', c ''after inviting, each'', m '' 1 '', c ''registered adds'', m '' '', cash (JNum (getRewardAmount s)),
            c ''stop, task valid for'', m '' '', Shown (JNum (getExpireHours s)), m '' '', c ''hours, then deducted'',
            m ''</p>'',
          m ''</div>'',
          m ''<span class=`status-badge '', Mark (js (fst status)), m ''`>'', c (snd status), m ''</span>'',
          m ''</div>'',
          m ''<div class=`campaign-meta`>'',
          m ''<div class=`campaign-meta-item`>'',
          m ''<span class=`campaign-label`>'', c ''target plan'', m ''</span>'',
          m ''<div class=`campaign-value`>'', Shown (or_dashes (inner (get ''plan'') ''name'')), m ''</div>'',
          m ''<div class=`campaign-subvalue`>'', Shown (period_label (get ''period'')), m ''</div>'',
          m ''</div>'',
          m ''<div class=`campaign-meta-item`>'',
          m ''<span class=`campaign-label`>'', c ''countdown'', m ''</span>'',
          m ''<div class=`campaign-value` id=`user-campaign-countdown`>'', (if get ''status'' = JNum (num 0) then Shown (JStr (countdown env (get ''expired_at''))) else m ''--''),
            m ''</div>'',
          m ''<div class=`campaign-subvalue`>'', c ''ends at'', m '' '', Shown (JStr (formatDate env (get ''expired_at''))),
            m ''</div>'',
          m ''</div>'',
          m ''</div>'',
          m ''<div class=`campaign-stats` style=`margin-top:14px;`>'',
          m ''<div class=`campaign-stat`><span class=`campaign-label`>'', c ''target amount'',
            m ''</span><div class=`campaign-value`>'', cash (get ''target_amount''), m ''</div></div>'',
          m ''<div class=`campaign-stat`><span class=`campaign-label`>'', c ''current reduction'',
            m ''</span><div class=`campaign-value success`>'', cash (get ''current_amount''), m ''</div></div>'',
          m ''<div class=`campaign-stat`><span class=`campaign-label`>'', c ''amount missing'',
            m ''</span><div class=`campaign-value`>'', cash (get ''remaining_amount''), m ''</div></div>'',
          m ''<div class=`campaign-stat`><span class=`campaign-label`>'', c ''reward each'',
            m ''</span><div class=`campaign-value`>'', cash (get ''reward_amount''), m ''</div></div>'',
          m ''<div class=`campaign-stat`><span class=`campaign-label`>'', c ''users invited'',
            m ''</span><div class=`campaign-value`>'', Shown (get ''invite_count''), m ''</div></div>'',
          m ''<div class=`campaign-stat`><span class=`campaign-label`>'', c ''deduction available'',
            m ''</span><div class=`campaign-value success`>'', cash (get ''discount_amount''), m ''</div></div>'',
          m ''</div>'',
          m ''<div class=`campaign-progress`>'',
          m ''<div class=`campaign-progress-bar`><div class=`campaign-progress-fill` style=`width:'', Count progress,
            m ''%;`></div></div>'',
          m ''<div class=`campaign-progress-text`>'', c ''current progress'', m '' '', Count progress, m ''%</div>'',
          m ''</div>'',
          m ''<div class=`campaign-link-row` style=`margin-top:18px;`>'',
          m ''<div class=`campaign-field`>'',
          m ''<label>'', c ''invite code'', m ''</label>'',
          m ''<input type=`text` readonly value=`'', Shown (jor (get ''invite_code'') (JStr [])), m ''`>'',
          m ''</div>'',
          m ''<button id=`user-campaign-copy-code` class=`btn btn-alt-primary`>'', c ''copy invite code'', m ''</button>'',
          m ''</div>'',
          m ''<div class=`campaign-link-row` style=`margin-top:12px;`>'',
          m ''<div class=`campaign-field`>'',
          m ''<label>'', c ''invite link'', m ''</label>'',
          m ''<input type=`text` readonly value=`'', Shown (JStr (currentInviteLink env s)), m ''`>'',
          m ''</div>'',
          m ''<button id=`user-campaign-copy-link` class=`btn btn-primary`>'', c ''copy link'', m ''</button>'',
          m ''</div>'',
          m ''<div class=`campaign-note` style=`margin-top:18px;`>'', c ''note on plan and period'', m ''</div>'',
          m ''<div class=`campaign-actions` style=`margin-top:18px;`>'',
          m ''<button id=`user-campaign-pay` class=`btn btn-primary`'',
            mark_if (get ''status'' \<in> JNum ` num ` {2, 3, 4}) '' disabled'', m ''>'', c ''order now'', m ''</button>'',
          m ''<a class=`btn btn-alt-secondary` href=`'', link cfg ''planPath'' ''/#/plan'', m ''`>'', c ''see plans'',
            m ''</a>'',
          m ''<button id=`user-campaign-abandon` class=`btn btn-alt-danger`'',
            mark_if (get ''status'' \<noteq> JNum (num 0)) '' disabled'', m ''>'', c ''abandon task'', m ''</button>'',
          m ''</div>'',
          m ''</div>'',
          m ''<div class=`campaign-card`>'',
          m ''<h3>'', c ''invite records'', m ''</h3>'',
          m ''<table class=`campaign-table`>'',
          m ''<thead><tr><th>'', c ''registered at'', m ''</th><th>'', c ''invited user'', m ''</th><th>'', c ''code used'',
            m ''</th><th>'', c ''reward in total'', m ''</th></tr></thead>'',
          m ''<tbody>''] @
         rows @
         [m ''</tbody>'',
          m ''</table>'',
          m ''<div class=`campaign-pagination`>'',
          m ''<button id=`user-campaign-records-prev` class=`btn btn-sm btn-alt-secondary`'',
            mark_if (num_le (cu_page s) (num 1)) '' disabled'', m ''>'', c ''previous page'', m ''</button>'',
          m ''<span>'', c ''number'', m '' '', Count (cu_page s), m '' / '', Count pages, m '' '', c ''page'', m ''</span>'',
          m ''<button id=`user-campaign-records-next` class=`btn btn-sm btn-alt-secondary`'',
            mark_if (num_le pages (cu_page s)) '' disabled'', m ''>'', c ''next page'', m ''</button>'',
          m ''</div>'',
          m ''</div>'',
          m ''</div>'',
          m ''<div class=`campaign-side`>'',
          m ''<div class=`campaign-card`>'',
          m ''<h3>'', c ''about the task'', m ''</h3>'',
          m ''<div class=`campaign-kv`><div class=`campaign-kv-key`>'', c ''task mode'',
            m ''</div><div class=`campaign-kv-value`>'', c ''single plan task'', m ''</div></div>'',
          m ''<div class=`campaign-kv`><div class=`campaign-kv-key`>'', c ''reward rule'',
            m ''</div><div class=`campaign-kv-value`>'', c ''each invitation of'', m '' 1 '', c ''registered, adds'',
            m '' '', cash (JNum (getRewardAmount s)), m '' '', c ''plan deduction'', m ''</div></div>'',
          m ''<div class=`campaign-kv`><div class=`campaign-kv-key`>'', c ''task period'',
            m ''</div><div class=`campaign-kv-value`>'', c ''after creation fixed'', m '' '',
            Shown (JNum (getExpireHours s)), m '' '', c ''hours'', m ''</div></div>'',
          m ''<div class=`campaign-kv`><div class=`campaign-kv-key`>'', c ''trial rule'',
            m ''</div><div class=`campaign-kv-value`>'', Shown (JStr (formatInviteeTryOutRule s)), m ''</div></div>'',
          m ''<div class=`campaign-kv`><div class=`campaign-kv-key`>'', c ''invite code'',
            m ''</div><div class=`campaign-kv-value`>'', c ''bound to your code'', m ''</div></div>'',
          m ''</div>'',
          m ''<div class=`campaign-card`>'',
          m ''<h3>'', c ''shortcuts'', m ''</h3>'',
          m ''<div class=`campaign-actions`>'',
          m ''<a class=`btn btn-alt-secondary` href=`'', link cfg ''invitePath'' ''/#/invite'', m ''`>'',
            c ''back to invitations'', m ''</a>'',
          m ''<a class=`btn btn-alt-secondary` href=`'', link cfg ''dashboardPath'' ''/#/dashboard'', m ''`>'',
            c ''back to dashboard'', m ''</a>'',
          m ''</div>'',
          m ''</div>'',
          m ''</div>'',
          m ''</div>''])"

definition shown_plan :: "campaign \<Rightarrow> jsv" where
  "shown_plan s =
     (case getPlanById (cu_plan s) s of Some plan \<Rightarrow> plan | None \<Rightarrow> (case cu_plans s of plan # _ \<Rightarrow> plan | [] \<Rightarrow> JNull))"

definition create_markup :: "browser \<Rightarrow> jobj \<Rightarrow> campaign \<Rightarrow> piece list" where
  "create_markup env cfg s =
     (let cash = (\<lambda>v. Shown (JStr (formatMoney env s v))); plan = shown_plan s;
          target = (if truthy plan \<and> cu_period s \<noteq> [] then jprop plan (cu_period s) else JNum (num 0));
          plans = concat (map (\<lambda>p. [m ''<option value=`'', Shown (jprop p (js ''id'')), m ''`'',
              mark_if (to_str (jprop p (js ''id'')) = to_str (cu_plan s)) '' selected'', m ''>'', Shown (jprop p (js ''name'')), m ''</option>'']) (cu_plans s));
          periods = concat (map (\<lambda>(k, l). [m ''<option value=`'', Shown (JStr (js k)), m ''`'',
              mark_if (js k = cu_period s) '' selected'', m ''>'', Shown (JStr (caption l)), m '' '', c ''middle dot'', m '' '',
              cash (jprop plan (js k)), m ''</option>'']) (getPlanPeriods plan))
      in [m ''<div class=`campaign-grid`>'',
          m ''<div class=`campaign-main`>'',
          m ''<div class=`campaign-card`>'',
          m ''<div class=`campaign-hero`>'',
          m ''<div>'',
          m ''<h1>'', c ''invitation task'', m ''</h1>'',
          m ''<p>'', c ''no running task yet'', m ''</p>'',
          m ''</div>'',
          m ''<span class=`status-badge status-unknown`>'', c ''to be created'', m ''</span>'',
          m ''</div>'',
          m ''<div class=`campaign-form-grid`>'',
          m ''<div class=`campaign-field`>'',
          m ''<label>'', c ''target plan'', m ''</label>'',
          m ''<select id=`user-campaign-plan`>''] @
         plans @
         [m ''</select>'',
          m ''</div>'',
          m ''<div class=`campaign-field`>'',
          m ''<label>'', c ''purchase period'', m ''</label>'',
          m ''<select id=`user-campaign-period`>''] @
         periods @
         [m ''</select>'',
          m ''</div>'',
          m ''</div>'',
          m ''<div class=`campaign-stats` style=`margin-top:14px;`>'',
          m ''<div class=`campaign-stat`><span class=`campaign-label`>'', c ''target amount'',
            m ''</span><div class=`campaign-value`>'', cash target, m ''</div></div>'',
          m ''<div class=`campaign-stat`><span class=`campaign-label`>'', c ''reward each'',
            m ''</span><div class=`campaign-value`>'', cash (JNum (getRewardAmount s)), m ''</div></div>'',
          m ''<div class=`campaign-stat`><span class=`campaign-label`>'', c ''task valid for'',
            m ''</span><div class=`campaign-value`>'', Shown (JNum (getExpireHours s)), m '' '', c ''hours'',
            m ''</div></div>'',
          m ''</div>'',
          m ''<div class=`campaign-note` style=`margin-top:18px;`>'', c ''note on creation'', m ''</div>'',
          m ''<div class=`campaign-actions` style=`margin-top:18px;`>'',
          m ''<button id=`user-campaign-create` class=`btn btn-primary`>'', c ''start task'', m ''</button>'',
          m ''<a class=`btn btn-alt-secondary` href=`'', link cfg ''planPath'' ''/#/plan'', m ''`>'', c ''see plans first'',
            m ''</a>'',
          m ''<a class=`btn btn-alt-secondary` href=`'', link cfg ''invitePath'' ''/#/invite'', m ''`>'',
            c ''back to invitations'', m ''</a>'',
          m ''</div>'',
          m ''</div>'',
          m ''</div>'',
          m ''<div class=`campaign-side`>'',
          m ''<div class=`campaign-card`>'',
          m ''<h3>'', c ''before creating'', m ''</h3>'',
          m ''<div class=`campaign-kv`><div class=`campaign-kv-key`>'', c ''task type'',
            m ''</div><div class=`campaign-kv-value`>'', c ''single plan task, advised'', m ''</div></div>'',
          m ''<div class=`campaign-kv`><div class=`campaign-kv-key`>'', c ''trial reward'',
            m ''</div><div class=`campaign-kv-value`>'', Shown (JStr (formatInviteeTryOutRule s)), m ''</div></div>'',
          m ''<div class=`campaign-kv`><div class=`campaign-kv-key`>'', c ''deduction grows'',
            m ''</div><div class=`campaign-kv-value`>'', c ''each invitation of'', m '' 1 '', c ''registered more'', m '' '',
            cash (JNum (getRewardAmount s)), m ''</div></div>'',
          m ''<div class=`campaign-kv`><div class=`campaign-kv-key`>'', c ''trigger'',
            m ''</div><div class=`campaign-kv-value`>'', c ''counted on registration'', m ''</div></div>'',
          m ''</div>'',
          m ''</div>'',
          m ''</div>''])"

definition closed_markup :: "jobj \<Rightarrow> piece list" where
  "closed_markup cfg =
     ([m ''<div class=`campaign-grid`>'',
          m ''<div class=`campaign-main`>'',
          m ''<div class=`campaign-card`>'',
          m ''<div class=`campaign-hero`>'',
          m ''<div>'',
          m ''<h1>'', c ''invitation task'', m ''</h1>'',
          m ''<p>'', c ''tasks are closed'', m ''</p>'',
          m ''</div>'',
          m ''<span class=`status-badge status-abandoned`>'', c ''closed'', m ''</span>'',
          m ''</div>'',
          m ''<div class=`campaign-note`>'', c ''note on closing'', m ''</div>'',
          m ''<div class=`campaign-actions` style=`margin-top:18px;`>'',
          m ''<a class=`btn btn-alt-secondary` href=`'', link cfg ''invitePath'' ''/#/invite'', m ''`>'',
            c ''back to invitations'', m ''</a>'',
          m ''<a class=`btn btn-alt-secondary` href=`'', link cfg ''dashboardPath'' ''/#/dashboard'', m ''`>'',
            c ''back to dashboard'', m ''</a>'',
          m ''</div>'',
          m ''</div>'',
          m ''</div>'',
          m ''<div class=`campaign-side`>'',
          m ''<div class=`campaign-card`>'',
          m ''<h3>'', c ''current rules'', m ''</h3>'',
          m ''<div class=`campaign-kv`><div class=`campaign-kv-key`>'', c ''task state'',
            m ''</div><div class=`campaign-kv-value`>'', c ''closed by administrator'', m ''</div></div>'',
          m ''<div class=`campaign-kv`><div class=`campaign-kv-key`>'', c ''plain invitation'',
            m ''</div><div class=`campaign-kv-value`>'', c ''works as before'', m ''</div></div>'',
          m ''<div class=`campaign-kv`><div class=`campaign-kv-key`>'', c ''existing tasks'',
            m ''</div><div class=`campaign-kv-value`>'', c ''not affected by closing'', m ''</div></div>'',
          m ''</div>'',
          m ''</div>'',
          m ''</div>''])"

definition message_markup :: "string \<Rightarrow> jstr \<Rightarrow> piece list" where
  "message_markup look message = [m ''<div class=`campaign-card campaign-'', m look, m ''`>'', Shown (JStr message), m ''</div>'']"

section \<open>Rendering\<close>

definition paint :: "campaign_screen \<Rightarrow> string set \<Rightarrow> piece list \<Rightarrow> campaign \<Rightarrow> campaign" where
  "paint screen disabled ps s =
     s\<lparr>cu_screen := screen, cu_disabled := disabled, cu_html := html ps, cu_rendered := Suc (cu_rendered s)\<rparr>"

definition renderLoading :: "campaign \<Rightarrow> campaign" where
  "renderLoading = paint Waiting {} (message_markup ''loading'' (caption ''loading task'' @ js ''...''))"

definition renderError :: "jstr \<Rightarrow> campaign \<Rightarrow> campaign" where
  "renderError message = paint Failed {} (message_markup ''empty'' (if message = [] then caption ''loading failed'' else message))"

definition startCountdown :: "campaign \<Rightarrow> campaign" where
  "startCountdown s = s\<lparr>cu_ticking := truthy (cu_campaign s) \<and> jprop (cu_campaign s) (js ''status'') = JNum (num 0)\<rparr>"

definition disabled_buttons :: "campaign \<Rightarrow> string set" where
  "disabled_buttons s =
     (let status = jprop (cu_campaign s) (js ''status'')
      in (if status \<in> JNum ` num ` {2, 3, 4} then {''pay''} else {}) \<union> (if status \<noteq> JNum (num 0) then {''abandon''} else {}) \<union>
         (if num_le (cu_page s) (num 1) then {''prev''} else {}) \<union>
         (if num_le (total_pages (cu_total s) (num 10)) (cu_page s) then {''next''} else {}))"

text \<open>\<open>None\<close> when there is no task: reading its state throws.\<close>

definition renderCampaign :: "browser \<Rightarrow> jobj \<Rightarrow> campaign \<Rightarrow> campaign option" where
  "renderCampaign env cfg s =
     (if nullish (cu_campaign s) then None
      else Some (startCountdown (paint Running (disabled_buttons s) (campaign_markup env cfg s) s)))"

definition renderCreateForm :: "browser \<Rightarrow> jobj \<Rightarrow> campaign \<Rightarrow> campaign" where
  "renderCreateForm env cfg s =
     (let plan = shown_plan s;
          s1 = (if truthy plan \<and> \<not> truthy (cu_plan s) then s\<lparr>cu_plan := JStr (to_str (jprop plan (js ''id'')))\<rparr> else s);
          s2 = (case getPlanPeriods plan of (k, _) # _ \<Rightarrow> if cu_period s1 = [] then s1\<lparr>cu_period := js k\<rparr> else s1 | [] \<Rightarrow> s1)
      in paint Creating {} (create_markup env cfg s2) s2)"

definition renderDisabledState :: "jobj \<Rightarrow> campaign \<Rightarrow> campaign" where
  "renderDisabledState cfg = paint Closed {} (closed_markup cfg)"

section \<open>Requests\<close>

definition showToast :: "jstr \<Rightarrow> campaign \<Rightarrow> campaign" where
  "showToast message s = s\<lparr>cu_toasts := cu_toasts s @ [message]\<rparr>"

definition or_caption :: "jstr \<Rightarrow> string \<Rightarrow> jstr" where
  "or_caption message k = (if message = [] then caption k else message)"

definition disable :: "string \<Rightarrow> campaign \<Rightarrow> campaign" where
  "disable b s = s\<lparr>cu_disabled := insert b (cu_disabled s)\<rparr>"

definition enable :: "string \<Rightarrow> nat \<Rightarrow> campaign \<Rightarrow> campaign" where
  "enable b rendering s = (if cu_rendered s = rendering then s\<lparr>cu_disabled := cu_disabled s - {b}\<rparr> else s)"

text \<open>What a handler does with an error.\<close>

fun campaign_failed :: "campaign_request \<Rightarrow> jstr \<Rightarrow> campaign \<Rightarrow> campaign" where
  "campaign_failed (FetchingRecords False) message s = s"
| "campaign_failed (Paying n) message s = showToast (or_caption message ''order failed'') (enable ''pay'' n s)"
| "campaign_failed (Abandoning n) message s = showToast (or_caption message ''abandoning failed'') (enable ''abandon'' n s)"
| "campaign_failed (Making n) message s = showToast (or_caption message ''creating failed'') (enable ''create'' n s)"
| "campaign_failed k message s = renderError message s"

definition redirectToLogin :: "jobj \<Rightarrow> campaign \<Rightarrow> campaign" where
  "redirectToLogin cfg s = s\<lparr>cu_location := Some (to_str (jor (oget (js ''loginPath'') cfg) (JStr (js ''/#/login''))))\<rparr>"

text \<open>The calls of \<open>api\<close> a handler waits for together.\<close>

definition campaign_call :: "jobj \<Rightarrow> campaign_request \<Rightarrow> (jstr \<times> jsv) list \<Rightarrow> campaign \<Rightarrow> campaign" where
  "campaign_call cfg k calls s =
     (case cu_token s of
        Some t \<Rightarrow>
          if t \<noteq> [] then s\<lparr>cu_sent := cu_sent s @ calls, cu_requests := cu_requests s @ [k]\<rparr>
          else campaign_failed k (caption ''not signed in'') (redirectToLogin cfg s)
      | None \<Rightarrow> campaign_failed k (caption ''not signed in'') (redirectToLogin cfg s))"

definition loadRecords :: "jobj \<Rightarrow> bool \<Rightarrow> jnum \<Rightarrow> campaign \<Rightarrow> campaign" where
  "loadRecords cfg loading page s =
     (if \<not> truthy (cu_campaign s) then s
      else let p = num_or page (num 1)
        in campaign_call cfg (FetchingRecords loading)
             [(js ''/user/invite/campaign/records?current='' @ num_str p @ js ''&page_size=10'', JNull)] (s\<lparr>cu_page := p\<rparr>))"

definition loadCampaign :: "jobj \<Rightarrow> campaign \<Rightarrow> campaign" where
  "loadCampaign cfg s = campaign_call cfg FetchingTask
     [(js ''/user/invite/campaign/fetch'', JNull), (js ''/user/comm/config'', JNull)] (renderLoading s)"

definition task_loaded :: "jobj \<Rightarrow> jsv \<Rightarrow> jsv \<Rightarrow> campaign \<Rightarrow> campaign" where
  "task_loaded cfg task common s =
     (let s1 = s\<lparr>cu_enabled := jprop task (js ''enabled'') \<noteq> JBool False,
            cu_settings := jor (jprop task (js ''settings'')) (cu_settings s), cu_campaign := jor (jprop task (js ''data'')) JNull,
            cu_currency := jor (inner (jprop common (js ''data'')) ''currency'') (JStr (js ''CNY'')),
            cu_symbol := jor (inner (jprop common (js ''data'')) ''currency_symbol'') (JStr [165])\<rparr>
      in if truthy (cu_campaign s1) then loadRecords cfg True (num 1) s1
         else if \<not> cu_enabled s1 then renderDisabledState cfg s1
         else campaign_call cfg FetchingPlans [(js ''/user/plan/fetch'', JNull)] s1)"

definition plans_loaded :: "browser \<Rightarrow> jobj \<Rightarrow> jsv \<Rightarrow> campaign \<Rightarrow> campaign" where
  "plans_loaded env cfg data s =
     (let plans = jor (jprop data (js ''data'')) (JArr []);
          s1 = s\<lparr>cu_plans := filter (\<lambda>plan. getPlanPeriods plan \<noteq> []) (elems plans)\<rparr>
      in if \<not> is_array plans then campaign_failed FetchingPlans (br_type_error env) s
         else (case cu_plans s1 of
             [] \<Rightarrow> renderError (caption ''no plan for tasks'') s1
           | plan # _ \<Rightarrow> renderCreateForm env cfg (s1\<lparr>cu_plan := JStr (to_str (jprop plan (js ''id''))),
               cu_period := js (fst (hd (getPlanPeriods plan)))\<rparr>)))"

text \<open>Records that are no array are shown as none.\<close>

definition records_loaded :: "browser \<Rightarrow> jobj \<Rightarrow> bool \<Rightarrow> jsv \<Rightarrow> campaign \<Rightarrow> campaign" where
  "records_loaded env cfg loading data s =
     (let s1 = s\<lparr>cu_records := elems (jor (jprop data (js ''data'')) (JArr [])), cu_total := jor (jprop data (js ''total'')) (JNum (num 0))\<rparr>
      in case renderCampaign env cfg s1 of
           Some s2 \<Rightarrow> s2 | None \<Rightarrow> campaign_failed (FetchingRecords loading) (br_type_error env) s1)"

fun campaign_loaded :: "browser \<Rightarrow> jobj \<Rightarrow> campaign_request \<Rightarrow> jsv \<Rightarrow> campaign \<Rightarrow> campaign" where
  "campaign_loaded env cfg (FetchingRecords loading) data s = records_loaded env cfg loading data s"
| "campaign_loaded env cfg FetchingPlans data s = plans_loaded env cfg data s"
| "campaign_loaded env cfg (Paying n) data s =
     s\<lparr>cu_location := Some (to_str (jor (oget (js ''orderPathPrefix'') cfg) (JStr (js ''/#/order/''))) @
       br_encode env (to_str (jprop data (js ''data''))))\<rparr>"
| "campaign_loaded env cfg (Abandoning n) data s = loadCampaign cfg (showToast (caption ''task abandoned'') s)"
| "campaign_loaded env cfg (Making n) data s = loadCampaign cfg (showToast (caption ''task created'') s)"
| "campaign_loaded env cfg FetchingTask data s = s"

section \<open>Answers\<close>

datatype reply = Unreachable jstr | Reply page_response

text \<open>One answer, or the two the task is loaded with and whether the first failed first.\<close>

datatype campaign_answer = One reply | Two reply reply bool

fun read_reply :: "browser \<Rightarrow> reply \<Rightarrow> (jstr + jsv) \<times> bool" where
  "read_reply env (Unreachable message) = (Inl message, False)"
| "read_reply env (Reply r) = read_answer True (br_type_error env) r"

definition sent_away :: "jobj \<Rightarrow> bool \<Rightarrow> campaign \<Rightarrow> campaign" where
  "sent_away cfg away s = (if away then redirectToLogin cfg s else s)"

fun campaign_answered :: "browser \<Rightarrow> jobj \<Rightarrow> campaign_request \<Rightarrow> campaign_answer \<Rightarrow> campaign \<Rightarrow> campaign" where
  "campaign_answered env cfg k (One reply) s =
     (case read_reply env reply of
        (Inl message, away) \<Rightarrow> campaign_failed k message (sent_away cfg away s)
      | (Inr data, away) \<Rightarrow> campaign_loaded env cfg k data (sent_away cfg away s))"
| "campaign_answered env cfg k (Two task common first) s =
     (let (a, away) = read_reply env task; (b, off) = read_reply env common; s1 = sent_away cfg (away \<or> off) s
      in case (a, b) of
           (Inr x, Inr y) \<Rightarrow> task_loaded cfg x y s1
         | (Inl e, Inl f) \<Rightarrow> campaign_failed k (if first then e else f) s1
         | (Inl e, Inr _) \<Rightarrow> campaign_failed k e s1
         | (Inr _, Inl f) \<Rightarrow> campaign_failed k f s1)"

definition two_calls :: "campaign_request \<Rightarrow> campaign_answer \<Rightarrow> bool" where
  "two_calls k a \<longleftrightarrow> (k = FetchingTask \<longleftrightarrow> (case a of Two _ _ _ \<Rightarrow> True | One _ \<Rightarrow> False))"

section \<open>Steps\<close>

datatype campaign_event =
    PressPay
  | PressAbandon \<comment> \<open>and confirm\<close>
  | PressPrevious
  | PressNext
  | PressCopyCode
  | PressCopyLink
  | ChoosePlan nat
  | ChoosePeriod nat
  | PressCreate
  | Tick jnum
  | AnswerCampaign nat campaign_answer

definition pressable :: "campaign_screen \<Rightarrow> string \<Rightarrow> campaign \<Rightarrow> bool" where
  "pressable screen b s \<longleftrightarrow> cu_screen s = screen \<and> b \<notin> cu_disabled s"

definition copyText :: "jsv \<Rightarrow> campaign \<Rightarrow> campaign" where
  "copyText t = showToast (caption (if truthy t then ''copied'' else ''nothing to copy''))"

text \<open>What a \<open>select\<close> gives for an option.\<close>

definition option_value :: "jsv \<Rightarrow> jstr" where
  "option_value v = (if nullish v then [] else to_str v)"

fun campaign_react :: "browser \<Rightarrow> jobj \<Rightarrow> campaign_event \<Rightarrow> campaign \<Rightarrow> campaign" where
  "campaign_react env cfg PressPay s =
     (if \<not> pressable Running ''pay'' s then s
      else if nullish (cu_campaign s) then campaign_failed (Paying (cu_rendered s)) (br_type_error env) (disable ''pay'' s)
      else campaign_call cfg (Paying (cu_rendered s))
        [(js ''/user/order/save'', JObj [(js ''plan_id'', jprop (cu_campaign s) (js ''plan_id'')), (js ''period'', jprop (cu_campaign s) (js ''period''))])]
        (disable ''pay'' s))"
| "campaign_react env cfg PressAbandon s =
     (if pressable Running ''abandon'' s
      then campaign_call cfg (Abandoning (cu_rendered s)) [(js ''/user/invite/campaign/abandon'', JObj [])] (disable ''abandon'' s) else s)"
| "campaign_react env cfg PressPrevious s =
     (if pressable Running ''prev'' s \<and> num_lt (num 1) (cu_page s)
      then loadRecords cfg False (num_sub (cu_page s) (num 1)) s else s)"
| "campaign_react env cfg PressNext s =
     (if pressable Running ''next'' s \<and> num_lt (cu_page s) (total_pages (cu_total s) (num 10))
      then loadRecords cfg False (num_add (cu_page s) (num 1)) s else s)"
| "campaign_react env cfg PressCopyCode s =
     (if cu_screen s = Running then copyText (inner (cu_campaign s) ''invite_code'') s else s)"
| "campaign_react env cfg PressCopyLink s =
     (if cu_screen s = Running then copyText (JStr (currentInviteLink env s)) s else s)"
| "campaign_react env cfg (ChoosePlan n) s =
     (if cu_screen s = Creating \<and> n < length (cu_plans s)
      then renderCreateForm env cfg (s\<lparr>cu_plan := JStr (option_value (jprop (cu_plans s ! n) (js ''id''))), cu_period := []\<rparr>) else s)"
| "campaign_react env cfg (ChoosePeriod n) s =
     (if cu_screen s = Creating \<and> n < length (getPlanPeriods (shown_plan s))
      then renderCreateForm env cfg (s\<lparr>cu_period := js (fst (getPlanPeriods (shown_plan s) ! n))\<rparr>) else s)"
| "campaign_react env cfg PressCreate s =
     (if \<not> pressable Creating ''create'' s then s
      else if \<not> truthy (cu_plan s) \<or> cu_period s = [] then showToast (caption ''choose plan and period'') s
      else campaign_call cfg (Making (cu_rendered s))
        [(js ''/user/invite/campaign/save'', JObj [(js ''plan_id'', JNum (to_num (cu_plan s))), (js ''period'', JStr (cu_period s))])]
        (disable ''create'' s))"
| "campaign_react env cfg (Tick now) s =
     (if cu_ticking s \<and> truthy (cu_campaign s)
      then s\<lparr>cu_clock := countdown (env\<lparr>br_now := now\<rparr>) (jprop (cu_campaign s) (js ''expired_at''))\<rparr> else s)"
| "campaign_react env cfg (AnswerCampaign n a) s =
     (if n < length (cu_requests s) \<and> two_calls (cu_requests s ! n) a
      then campaign_answered env cfg (cu_requests s ! n) a (s\<lparr>cu_requests := remove_at n (cu_requests s)\<rparr>) else s)"

inductive campaign_reach :: "browser \<Rightarrow> jobj \<Rightarrow> campaign \<Rightarrow> bool" for env cfg where
  opened: "campaign_reach env cfg (loadCampaign cfg (initial_campaign token))"
| reacted: "campaign_reach env cfg s \<Longrightarrow> campaign_reach env cfg (campaign_react env cfg e s)"

end
