(* ===== verification/CampaignAdmin.thy ===== *)
theory CampaignAdmin
  imports CampaignMarkup
begin

text \<open>
  The invite campaign page of the administrator (\<open>public/assets/admin-invite-campaign-page.js\<close>): the list with its filter, the
  details of a task with their records, the markup and the handlers.
\<close>

section \<open>State\<close>

datatype tasks_screen = NoScreen | TasksLoading jstr | TasksFailed jstr
  | TasksShown jstr jstr "string set" \<comment> \<open>the list, the details, the buttons that are disabled\<close>

datatype tasks_request = FetchingList | FetchingDetail | DetailRecords | PagerRecords

record tasks =
  ca_list :: "jsv list"
  ca_total :: jsv
  ca_page :: jnum
  ca_keyword :: jstr
  ca_keyword_type :: jstr
  ca_status :: jstr
  ca_detail :: jsv
  ca_records :: "jsv list"
  ca_records_total :: jsv
  ca_records_page :: jnum
  ca_token :: "jstr option"
  ca_screen :: tasks_screen
  ca_toasts :: "jstr list"
  ca_location :: "jstr option"
  ca_requests :: "tasks_request list"
  ca_sent :: "(jstr \<times> (jstr \<times> jstr) list \<times> jsv) list" \<comment> \<open>path, query, body\<close>

definition page_size :: jnum where
  "page_size = num 20"

definition initial_tasks :: "jstr option \<Rightarrow> tasks" where
  "initial_tasks token = \<lparr>ca_list = [], ca_total = JNum (num 0), ca_page = num 1, ca_keyword = [], ca_keyword_type = js ''email'',
     ca_status = [], ca_detail = JNull, ca_records = [], ca_records_total = JNum (num 0), ca_records_page = num 1, ca_token = token,
     ca_screen = NoScreen, ca_toasts = [], ca_location = None, ca_requests = [], ca_sent = []\<rparr>"

section \<open>What is shown\<close>

definition PERIOD_LABELS :: "(string \<times> string) list" where
  "PERIOD_LABELS =
     [(''month_price'', ''monthly''), (''quarter_price'', ''quarterly''), (''half_year_price'', ''half-yearly''), (''year_price'', ''yearly''),
      (''two_year_price'', ''two-yearly''), (''three_year_price'', ''three-yearly''), (''onetime_price'', ''once''),
      (''reset_price'', ''traffic reset''), (''deposit'', ''balance deposit'')]"

definition formatPeriod :: "jsv \<Rightarrow> jsv" where
  "formatPeriod period =
     (if \<not> truthy period then JStr (js ''--'')
      else case find (\<lambda>(k, _). js k = to_str period) PERIOD_LABELS of Some (_, l) \<Rightarrow> JStr (caption l) | None \<Rightarrow> period)"

definition admin_money :: "jsv \<Rightarrow> jstr" where
  "admin_money cents = 165 # to_fixed 2 (num_div (to_num (jor cents (JNum (num 0)))) (num 100))"

definition admin_countdown :: "browser \<Rightarrow> jsv \<Rightarrow> jstr" where
  "admin_countdown env expiredAt = (if \<not> truthy expiredAt then js ''--'' else countdown env expiredAt)"

definition item_row :: "browser \<Rightarrow> jsv \<Rightarrow> piece list" where
  "item_row env item =
     (let get = (\<lambda>k. jprop item (js k)); cash = (\<lambda>v. Shown (JStr (admin_money v)));
          status = getStatusMeta (JNum (to_num (get ''status'')));
          progress = progress_of (get ''current_amount'') (get ''target_amount'')
      in [m ''<tr>'',
          m ''<td>#'', Shown (get ''id''), m ''</td>'',
          m ''<td>'', Shown (or_dashes (get ''user_email'')), m ''</td>'',
          m ''<td>'', Shown (or_dashes (get ''plan_name'')), m ''<div class=`campaign-subvalue`>'',
            Shown (formatPeriod (get ''period'')), m ''</div></td>'',
          m ''<td>'', Shown (or_dashes (get ''invite_code'')), m ''</td>'',
          m ''<td><span class=`status-badge '', Mark (js (fst status)), m ''`>'', c (snd status), m ''</span></td>'',
          m ''<td>'',
          m ''<div style=`min-width:180px;`>'',
          m ''<div class=`campaign-progress-bar`><div class=`campaign-progress-fill` style=`width:'', Count progress,
            m ''%;`></div></div>'',
          m ''<div class=`campaign-progress-text`>'', cash (get ''current_amount''), m '' / '', cash (get ''target_amount''),
            m ''</div>'',
          m ''</div>'',
          m ''</td>'',
          m ''<td>'', (if to_num (get ''status'') = num 0 then Shown (JStr (admin_countdown env (get ''expired_at''))) else m ''--''),
            m ''</td>'',
          m ''<td>'', Shown (or_dashes (get ''used_order_trade_no'')), m ''</td>'',
          m ''<td>'', Shown (JStr (formatDate env (get ''created_at''))), m ''</td>'',
          m ''<td><button class=`btn btn-sm btn-alt-primary admin-campaign-detail-btn` data-id=`'', Shown (get ''id''),
            m ''`>'', c ''details'', m ''</button></td>'',
          m ''</tr>''])"

definition list_markup :: "browser \<Rightarrow> jobj \<Rightarrow> tasks \<Rightarrow> piece list" where
  "list_markup env cfg s =
     (let pages = total_pages (ca_total s) page_size;
          counted = (\<lambda>ks. Shown (JNum (num (int (length (filter (\<lambda>item. to_num (jprop item (js ''status'')) \<in> num ` set ks) (ca_list s)))))));
          rows = (if ca_list s \<noteq> [] then concat (map (item_row env) (ca_list s))
            else [m ''<tr><td colspan=`10` class=`campaign-empty`>'', c ''no tasks'', m ''</td></tr>''])
      in [m ''<div class=`campaign-shell`>'',
          m ''<div class=`campaign-hero`>'',
          m ''<div>'',
          m ''<h1>'', c ''task management'', m ''</h1>'',
          m ''<p>'', c ''about task management'', m ''</p>'',
          m ''</div>'',
          m ''<div class=`campaign-actions`>'',
          m ''<a class=`btn btn-alt-secondary` href=`'', link cfg ''backPath'' ''/'', m ''`>'', c ''back to admin'', m ''</a>'',
          m ''<button class=`btn btn-primary` id=`admin-campaign-refresh`>'', c ''refresh list'', m ''</button>'',
          m ''</div>'',
          m ''</div>'',
          m ''<div class=`campaign-quick-stats`>'',
          m ''<div class=`campaign-stat`><span class=`campaign-label`>'', c ''tasks in total'',
            m ''</span><div class=`campaign-value`>'', Shown (ca_total s), m ''</div></div>'',
          m ''<div class=`campaign-stat`><span class=`campaign-label`>'', c ''running on this page'',
            m ''</span><div class=`campaign-value`>'', counted [0], m ''</div></div>'',
          m ''<div class=`campaign-stat`><span class=`campaign-label`>'', c ''reached on this page'',
            m ''</span><div class=`campaign-value`>'', counted [1], m ''</div></div>'',
          m ''<div class=`campaign-stat`><span class=`campaign-label`>'', c ''used on this page'', m ''/'', c ''or expired'',
            m ''</span><div class=`campaign-value`>'', counted [4, 2], m ''</div></div>'',
          m ''</div>'',
          m ''<div class=`campaign-card`>'',
          m ''<div class=`campaign-toolbar`>'',
          m ''<div class=`campaign-field`>'',
          m ''<label>'', c ''search field'', m ''</label>'',
          m ''<select id=`admin-campaign-keyword-type`>'',
          m ''<option value=`email`'', mark_if (ca_keyword_type s = js ''email'') '' selected'', m ''>'',
            c ''inviter e-mail'', m ''</option>'',
          m ''<option value=`invite_code`'', mark_if (ca_keyword_type s = js ''invite_code'') '' selected'', m ''>'',
            c ''invite code'', m ''</option>'',
          m ''</select>'',
          m ''</div>'',
          m ''<div class=`campaign-field`>'',
          m ''<label>'', c ''keyword'', m ''</label>'',
          m ''<input id=`admin-campaign-keyword` value=`'', Shown (JStr (ca_keyword s)), m ''` placeholder=`'',
            c ''e-mail or code'', m ''`>'',
          m ''</div>'',
          m ''<div class=`campaign-field`>'',
          m ''<label>'', c ''state'', m ''</label>'',
          m ''<select id=`admin-campaign-status`>'',
          m ''<option value=``>'', c ''all states'', m ''</option>'',
          m ''<option value=`0`'', mark_if (ca_status s = js ''0'') '' selected'', m ''>'', c ''running'', m ''</option>'',
          m ''<option value=`1`'', mark_if (ca_status s = js ''1'') '' selected'', m ''>'', c ''reached'', m ''</option>'',
          m ''<option value=`2`'', mark_if (ca_status s = js ''2'') '' selected'', m ''>'', c ''expired'', m ''</option>'',
          m ''<option value=`3`'', mark_if (ca_status s = js ''3'') '' selected'', m ''>'', c ''abandoned'', m ''</option>'',
          m ''<option value=`4`'', mark_if (ca_status s = js ''4'') '' selected'', m ''>'', c ''used'', m ''</option>'',
          m ''</select>'',
          m ''</div>'',
          m ''<button class=`btn btn-primary` id=`admin-campaign-search`>'', c ''search'', m ''</button>'',
          m ''</div>'',
          m ''<table class=`campaign-table`>'',
          m ''<thead><tr><th>ID</th><th>'', c ''inviter'', m ''</th><th>'', c ''target plan'', m ''</th><th>'',
            c ''invite code'', m ''</th><th>'', c ''state'', m ''</th><th>'', c ''progress'', m ''</th><th>'',
            c ''countdown'', m ''</th><th>'', c ''order deducted'', m ''</th><th>'', c ''created at'', m ''</th><th>'',
            c ''action'', m ''</th></tr></thead>'',
          m ''<tbody>''] @
         rows @
         [m ''</tbody>'',
          m ''</table>'',
          m ''<div class=`campaign-pagination`>'',
          m ''<button class=`btn btn-sm btn-alt-secondary` id=`admin-campaign-prev`'',
            mark_if (num_le (ca_page s) (num 1)) '' disabled'', m ''>'', c ''previous page'', m ''</button>'',
          m ''<span>'', c ''number'', m '' '', Count (ca_page s), m '' / '', Count pages, m '' '', c ''page'', m ''</span>'',
          m ''<button class=`btn btn-sm btn-alt-secondary` id=`admin-campaign-next`'',
            mark_if (num_le pages (ca_page s)) '' disabled'', m ''>'', c ''next page'', m ''</button>'',
          m ''</div>'',
          m ''</div>'',
          m ''<div id=`admin-campaign-detail-wrap`></div>'',
          m ''</div>''])"

definition detail_row :: "browser \<Rightarrow> jsv \<Rightarrow> piece list" where
  "detail_row env item =
     (let get = (\<lambda>k. jprop item (js k)); cash = (\<lambda>v. Shown (JStr (admin_money v)))
      in [m ''<tr>'',
          m ''<td>'', Shown (JStr (formatDate env (get ''created_at''))), m ''</td>'',
          m ''<td>'', Shown (jor (get ''invitee_email'') (JStr (35 # to_str (get ''invitee_user_id'')))), m ''</td>'',
          m ''<td>'', Shown (or_dashes (get ''invite_code'')), m ''</td>'',
          m ''<td>'', cash (jor (get ''reward_amount'') (JNum (num 0))), m ''</td>'',
          m ''</tr>''])"

definition detail_markup :: "browser \<Rightarrow> tasks \<Rightarrow> piece list" where
  "detail_markup env s =
     (let get = (\<lambda>k. jprop (ca_detail s) (js k)); cash = (\<lambda>v. Shown (JStr (admin_money v)));
          status = getStatusMeta (JNum (to_num (get ''status'')));
          progress = progress_of (get ''current_amount'') (get ''target_amount''); pages = total_pages (ca_records_total s) (num 10);
          rows = (if ca_records s \<noteq> [] then concat (map (detail_row env) (ca_records s))
            else [m ''<tr><td colspan=`4` class=`campaign-empty`>'', c ''no registrations'', m ''</td></tr>''])
      in if \<not> truthy (ca_detail s) then []
         else [m ''<div class=`campaign-split` style=`margin-top:20px;`>'',
          m ''<div class=`campaign-card`>'',
          m ''<div class=`campaign-hero` style=`margin-bottom:16px;`>'',
          m ''<div><h3>'', c ''task details'', m '' #'', Shown (get ''id''), m ''</h3><p>'', c ''bound code:'',
            Shown (or_dashes (get ''invite_code'')), m ''</p></div>'',
          m ''<span class=`status-badge '', Mark (js (fst status)), m ''`>'', c (snd status), m ''</span>'',
          m ''</div>'',
          m ''<div class=`campaign-progress`>'',
          m ''<div class=`campaign-progress-bar`><div class=`campaign-progress-fill` style=`width:'', Count progress,
            m ''%;`></div></div>'',
          m ''<div class=`campaign-progress-text`>'', cash (get ''current_amount''), m '' / '', cash (get ''target_amount''),
            m ''</div>'',
          m ''</div>'',
          m ''<div style=`margin-top:16px;`>'',
          m ''<div class=`campaign-kv`><div class=`campaign-kv-key`>'', c ''inviter e-mail'',
            m ''</div><div class=`campaign-kv-value`>'',
            Shown (or_dashes (jor (inner (get ''user'') ''email'') (get ''user_email''))), m ''</div></div>'',
          m ''<div class=`campaign-kv`><div class=`campaign-kv-key`>'', c ''target plan'',
            m ''</div><div class=`campaign-kv-value`>'', Shown (or_dashes (inner (get ''plan'') ''name'')), m '' / '',
            Shown (formatPeriod (get ''period'')), m ''</div></div>'',
          m ''<div class=`campaign-kv`><div class=`campaign-kv-key`>'', c ''reward each'',
            m ''</div><div class=`campaign-kv-value`>'', cash (get ''reward_amount''), m ''</div></div>'',
          m ''<div class=`campaign-kv`><div class=`campaign-kv-key`>'', c ''number of invitations'',
            m ''</div><div class=`campaign-kv-value`>'', Shown (get ''invite_count''), m ''</div></div>'',
          m ''<div class=`campaign-kv`><div class=`campaign-kv-key`>'', c ''task time'',
            m ''</div><div class=`campaign-kv-value`>'', Shown (JStr (formatDate env (get ''started_at''))), m '' '',
            c ''to'', m '' '', Shown (JStr (formatDate env (get ''expired_at''))), m ''</div></div>'',
          m ''<div class=`campaign-kv`><div class=`campaign-kv-key`>'', c ''bound code'',
            m '' ID</div><div class=`campaign-kv-value`>'', Shown (or_dashes (get ''invite_code_id'')), m ''</div></div>'',
          m ''<div class=`campaign-kv`><div class=`campaign-kv-key`>'', c ''order used'',
            m ''</div><div class=`campaign-kv-value`>'', Shown (or_dashes (inner (get ''used_order'') ''trade_no'')),
            m ''</div></div>'',
          m ''<div class=`campaign-kv`><div class=`campaign-kv-key`>'', c ''order deduction'',
            m ''</div><div class=`campaign-kv-value`>'', (if truthy (get ''used_order'') then cash (jor (inner (get ''used_order'') ''invite_campaign_discount_amount'') (JNum (num 0))) else Shown (JStr (js ''--''))),
            m ''</div></div>'',
          m ''</div>'',
          m ''</div>'',
          m ''<div class=`campaign-card`>'',
          m ''<h3>'', c ''registrations'', m ''</h3>'',
          m ''<table class=`campaign-table`>'',
          m ''<thead><tr><th>'', c ''registered at'', m ''</th><th>'', c ''user invited'', m ''</th><th>'',
            c ''invite code'', m ''</th><th>'', c ''reward'', m ''</th></tr></thead>'',
          m ''<tbody>''] @
         rows @
         [m ''</tbody>'',
          m ''</table>'',
          m ''<div class=`campaign-pagination`>'',
          m ''<button class=`btn btn-sm btn-alt-secondary` id=`admin-record-prev`'',
            mark_if (num_le (ca_records_page s) (num 1)) '' disabled'', m ''>'', c ''previous page'', m ''</button>'',
          m ''<span>'', c ''number'', m '' '', Count (ca_records_page s), m '' / '', Count pages, m '' '', c ''page'',
            m ''</span>'',
          m ''<button class=`btn btn-sm btn-alt-secondary` id=`admin-record-next`'',
            mark_if (num_le pages (ca_records_page s)) '' disabled'', m ''>'', c ''next page'', m ''</button>'',
          m ''</div>'',
          m ''</div>'',
          m ''</div>''])"

definition notice_markup :: "string \<Rightarrow> jstr \<Rightarrow> piece list" where
  "notice_markup look message = [m ''<div class=`campaign-card campaign-'', m look, m ''`>'', Shown (JStr message), m ''</div>'']"

definition list_disabled :: "tasks \<Rightarrow> string set" where
  "list_disabled s =
     (if num_le (ca_page s) (num 1) then {''prev''} else {}) \<union>
     (if num_le (total_pages (ca_total s) page_size) (ca_page s) then {''next''} else {}) \<union>
     (if num_le (ca_records_page s) (num 1) then {''record-prev''} else {}) \<union>
     (if num_le (total_pages (ca_records_total s) (num 10)) (ca_records_page s) then {''record-next''} else {})"

definition renderList :: "browser \<Rightarrow> jobj \<Rightarrow> tasks \<Rightarrow> tasks" where
  "renderList env cfg s = s\<lparr>ca_screen := TasksShown (html (list_markup env cfg s)) (html (detail_markup env s)) (list_disabled s)\<rparr>"

section \<open>Requests\<close>

definition or_default :: "jstr \<Rightarrow> string \<Rightarrow> jstr" where
  "or_default message k = (if message = [] then caption k else message)"

definition toast :: "jstr \<Rightarrow> tasks \<Rightarrow> tasks" where
  "toast message s = s\<lparr>ca_toasts := ca_toasts s @ [message]\<rparr>"

fun tasks_failed :: "tasks_request \<Rightarrow> jstr \<Rightarrow> tasks \<Rightarrow> tasks" where
  "tasks_failed FetchingList message s =
     s\<lparr>ca_screen := TasksFailed (html (notice_markup ''empty'' (or_default message ''loading failed'')))\<rparr>"
| "tasks_failed PagerRecords message s = s"
| "tasks_failed k message s = toast (or_default message ''loading details failed'') s"

definition tasks_login :: "jobj \<Rightarrow> tasks \<Rightarrow> tasks" where
  "tasks_login cfg s = s\<lparr>ca_location := Some (to_str (jor (oget (js ''loginPath'') cfg) (JStr (js ''/''))))\<rparr>"

definition tasks_call :: "jobj \<Rightarrow> tasks_request \<Rightarrow> jstr \<Rightarrow> (jstr \<times> jstr) list \<Rightarrow> jsv \<Rightarrow> tasks \<Rightarrow> tasks" where
  "tasks_call cfg k path query body s =
     (if (case ca_token s of Some t \<Rightarrow> t \<noteq> [] | None \<Rightarrow> False)
      then s\<lparr>ca_sent := ca_sent s @ [(js ''/'' @ to_str (oget (js ''securePath'') cfg) @ path, query, body)], ca_requests := ca_requests s @ [k]\<rparr>
      else tasks_failed k (caption ''not signed in'') (tasks_login cfg s))"

definition buildFilterQuery :: "tasks \<Rightarrow> (jstr \<times> jstr) list" where
  "buildFilterQuery s =
     (let field = (\<lambda>i k. js ''filter['' @ digits_of (int i) @ js ''][''  @ js k @ js '']'');
          filters = (\<lambda>i key condition value. [(field i ''key'', key), (field i ''condition'', condition), (field i ''value'', value)]);
          keyword = (if ca_keyword s \<noteq> [] then filters 0 (ca_keyword_type s)
            (if ca_keyword_type s = js ''email'' then js ''='' else caption ''fuzzy'') (ca_keyword s) else [])
      in [(js ''current'', num_str (ca_page s)), (js ''pageSize'', num_str page_size)] @ keyword @
         (if ca_status s \<noteq> [] then filters (if keyword = [] then 0 else 1) (js ''status'') (js ''='') (ca_status s) else []))"

definition loadList :: "jobj \<Rightarrow> tasks \<Rightarrow> tasks" where
  "loadList cfg s = tasks_call cfg FetchingList (js ''/invite/campaign/fetch'') (buildFilterQuery s) JNull
     (s\<lparr>ca_screen := TasksLoading (html (notice_markup ''loading'' (caption ''loading tasks'' @ js ''...'')))\<rparr>)"

definition loadDetail :: "jobj \<Rightarrow> jstr \<Rightarrow> tasks \<Rightarrow> tasks" where
  "loadDetail cfg i = tasks_call cfg FetchingDetail (js ''/invite/campaign/detail'') [] (JObj [(js ''id'', JNum (to_num (JStr i)))])"

text \<open>\<open>None\<close> when there are no details: the call returns at once.\<close>

definition loadTaskRecords :: "jobj \<Rightarrow> tasks_request \<Rightarrow> jnum \<Rightarrow> tasks \<Rightarrow> tasks option" where
  "loadTaskRecords cfg k page s =
     (if \<not> truthy (ca_detail s) then None
      else let p = num_or page (num 1)
        in Some (tasks_call cfg k (js ''/invite/campaign/records?campaign_id='' @ to_str (jprop (ca_detail s) (js ''id'')) @
               js ''&current='' @ num_str p @ js ''&page_size=10'') [] JNull
             (s\<lparr>ca_records_page := p\<rparr>)))"

definition records_stored :: "jsv \<Rightarrow> tasks \<Rightarrow> tasks" where
  "records_stored data s =
     s\<lparr>ca_records := elems (jor (jprop data (js ''data'')) (JArr [])), ca_records_total := jor (jprop data (js ''total'')) (JNum (num 0))\<rparr>"

text \<open>A list that is no array is shown as an empty one.\<close>

fun tasks_loaded :: "browser \<Rightarrow> jobj \<Rightarrow> tasks_request \<Rightarrow> jsv \<Rightarrow> tasks \<Rightarrow> tasks" where
  "tasks_loaded env cfg FetchingList data s = renderList env cfg
     (s\<lparr>ca_list := elems (jor (jprop data (js ''data'')) (JArr [])), ca_total := jor (jprop data (js ''total'')) (JNum (num 0))\<rparr>)"
| "tasks_loaded env cfg FetchingDetail data s =
     (let s1 = s\<lparr>ca_detail := jor (jprop data (js ''data'')) JNull, ca_records_page := num 1\<rparr>
      in case loadTaskRecords cfg DetailRecords (num 1) s1 of None \<Rightarrow> renderList env cfg s1 | Some s2 \<Rightarrow> s2)"
| "tasks_loaded env cfg DetailRecords data s = renderList env cfg (records_stored data s)"
| "tasks_loaded env cfg PagerRecords data s = records_stored data s"

text \<open>\<open>Inl\<close> is what the browser says of an answer that does not arrive.\<close>

definition tasks_answered :: "browser \<Rightarrow> jobj \<Rightarrow> tasks_request \<Rightarrow> jstr + page_response \<Rightarrow> tasks \<Rightarrow> tasks" where
  "tasks_answered env cfg k a s =
     (case a of
        Inl message \<Rightarrow> tasks_failed k message s
      | Inr r \<Rightarrow> (case read_answer False (br_type_error env) r of
            (Inl message, away) \<Rightarrow> tasks_failed k message (if away then tasks_login cfg s else s)
          | (Inr data, away) \<Rightarrow>
              if nullish data then tasks_failed k (br_type_error env) s else tasks_loaded env cfg k data s))"

section \<open>Steps\<close>

datatype tasks_event =
    PressSearch jstr jstr jstr \<comment> \<open>the field, the word and the state in the form\<close>
  | PressRefresh
  | PressPrev
  | PressNext
  | PressDetail nat
  | PressRecordPrev
  | PressRecordNext
  | AnswerTasks nat "jstr + page_response"

definition listed :: "tasks \<Rightarrow> bool" where
  "listed s \<longleftrightarrow> (case ca_screen s of TasksShown _ _ _ \<Rightarrow> True | _ \<Rightarrow> False)"

definition pushable :: "string \<Rightarrow> tasks \<Rightarrow> bool" where
  "pushable b s \<longleftrightarrow> (case ca_screen s of TasksShown _ _ disabled \<Rightarrow> b \<notin> disabled | _ \<Rightarrow> False)"

definition detail_pushable :: "string \<Rightarrow> tasks \<Rightarrow> bool" where
  "detail_pushable b s \<longleftrightarrow> (case ca_screen s of TasksShown _ shown disabled \<Rightarrow> shown \<noteq> [] \<and> b \<notin> disabled | _ \<Rightarrow> False)"

definition paged :: "jobj \<Rightarrow> jnum \<Rightarrow> tasks \<Rightarrow> tasks" where
  "paged cfg page s = (case loadTaskRecords cfg PagerRecords page s of None \<Rightarrow> s | Some t \<Rightarrow> t)"

text \<open>The number of a task in its button: the text of an attribute.\<close>

definition data_id :: "jsv \<Rightarrow> jstr" where
  "data_id item = (let i = jprop item (js ''id'') in if nullish i then [] else to_str i)"

fun tasks_react :: "browser \<Rightarrow> jobj \<Rightarrow> tasks_event \<Rightarrow> tasks \<Rightarrow> tasks" where
  "tasks_react env cfg (PressSearch field word status) s =
     (if listed s then loadList cfg (s\<lparr>ca_page := num 1, ca_keyword_type := field, ca_keyword := trim word, ca_status := status\<rparr>) else s)"
| "tasks_react env cfg PressRefresh s = (if listed s then loadList cfg s else s)"
| "tasks_react env cfg PressPrev s =
     (if pushable ''prev'' s \<and> num_lt (num 1) (ca_page s) then loadList cfg (s\<lparr>ca_page := num_sub (ca_page s) (num 1)\<rparr>) else s)"
| "tasks_react env cfg PressNext s =
     (if pushable ''next'' s \<and> num_lt (ca_page s) (total_pages (ca_total s) page_size)
      then loadList cfg (s\<lparr>ca_page := num_add (ca_page s) (num 1)\<rparr>) else s)"
| "tasks_react env cfg (PressDetail n) s =
     (if listed s \<and> n < length (ca_list s) then loadDetail cfg (data_id (ca_list s ! n)) s else s)"
| "tasks_react env cfg PressRecordPrev s =
     (if detail_pushable ''record-prev'' s \<and> num_lt (num 1) (ca_records_page s)
      then paged cfg (num_sub (ca_records_page s) (num 1)) s else s)"
| "tasks_react env cfg PressRecordNext s =
     (if detail_pushable ''record-next'' s \<and> num_lt (ca_records_page s) (total_pages (ca_records_total s) (num 10))
      then paged cfg (num_add (ca_records_page s) (num 1)) s else s)"
| "tasks_react env cfg (AnswerTasks n a) s =
     (if n < length (ca_requests s)
      then tasks_answered env cfg (ca_requests s ! n) a (s\<lparr>ca_requests := remove_at n (ca_requests s)\<rparr>) else s)"

inductive tasks_reach :: "browser \<Rightarrow> jobj \<Rightarrow> tasks \<Rightarrow> bool" for env cfg where
  opened: "tasks_reach env cfg (loadList cfg (initial_tasks token))"
| reacted: "tasks_reach env cfg s \<Longrightarrow> tasks_reach env cfg (tasks_react env cfg e s)"

end
