(* ===== verification/CampaignSafety.thy ===== *)
theory CampaignSafety
  imports CampaignUser CampaignAdmin
begin

text \<open>
  What holds of the two invite campaign pages: nothing a server sends can become markup, a task is only created for a plan and a
  period on offer, and two places where the pages do not do what they mean to.
\<close>

section \<open>Numbers as text\<close>

definition number_chars :: "int set" where
  "number_chars = {43, 45, 46, 101} \<union> {48..57}"

lemma digits_chars: "x \<in> set (digits_of n) \<Longrightarrow> 0 \<le> n \<Longrightarrow> x \<in> number_chars"
  using digits_of_digits by (fastforce simp: number_chars_def is_digit_def)

lemma int_str_chars: "x \<in> set (int_str n) \<Longrightarrow> x \<in> number_chars"
  by (auto simp: int_str_def digits_chars split: if_splits) (simp add: number_chars_def)

lemma layout_chars: "x \<in> set (layout_digits ds n) \<Longrightarrow> set ds \<subseteq> number_chars \<Longrightarrow> x \<in> number_chars"
  by (auto simp: layout_digits_def Let_def number_chars_def js_def dest!: in_set_takeD in_set_dropD split: if_splits
      dest: int_str_chars [unfolded number_chars_def])

lemma rat_str_chars: "x \<in> set (rat_str q) \<Longrightarrow> x \<in> number_chars"
proof -
  have "x \<in> set (layout_digits (int_str a) b) \<Longrightarrow> x \<in> number_chars" for a b x
    by (rule layout_chars) (auto simp: int_str_chars)
  then show "x \<in> set (rat_str q) \<Longrightarrow> x \<in> number_chars"
    by (auto simp: rat_str_def Let_def int_str_chars split: prod.splits if_splits) (simp_all add: number_chars_def)
qed

lemma markup_num_str [simp]: "markup_chars (num_str n) = []"
proof (cases n)
  case (Fin q)
  have "x \<notin> {60, 62, 34, 39}" if "x \<in> set (rat_str q)" for x
    using rat_str_chars [OF that] by (auto simp: number_chars_def)
  then show ?thesis using Fin by (auto simp: num_str_def markup_chars_def filter_empty_conv)
qed (simp_all add: num_str_def markup_chars_def js_def)

section \<open>Markup\<close>

definition marks :: "piece list \<Rightarrow> jstr" where
  "marks ps = markup_chars (html ps)"

definition tag_chars :: "string \<Rightarrow> jstr" where
  "tag_chars s = marks [m s]"

lemma markup_caption [simp]: "markup_chars (caption k) = []"
  using caption_plain [of _ k] by (fastforce simp: markup_chars_def filter_empty_conv)

lemma markup_Nil [simp]: "markup_chars [] = []"
  by (simp add: markup_chars_def)

lemma marks_simps [simp]:
  "marks [] = []" "marks (m s # ps) = tag_chars s @ marks ps" "marks (c k # ps) = marks ps" "marks (Shown v # ps) = marks ps"
  "marks (Count n # ps) = marks ps" "marks (ps @ qs) = marks ps @ marks qs" "marks (link cfg k d # ps) = marks ps"
  "marks ((if b then p else q) # ps) = (if b then marks [p] else marks [q]) @ marks ps"
  by (simp_all add: marks_def tag_chars_def html_def c_def link_def)

lemma marks_If: "marks (if b then ps else qs) = (if b then marks ps else marks qs)"
  by simp

lemma tag_words: "list_all (\<lambda>s. tag_chars s = []) ['' disabled'', '' selected'', ''--'', '' '', '' 1 '', ''#'', ''%'']"
  by code_simp

lemma marks_words [simp]:
  "tag_chars '' disabled'' = []" "tag_chars '' selected'' = []" "tag_chars ''--'' = []" "tag_chars '' '' = []"
  using tag_words by simp_all

lemma marks_if [simp]: "marks (mark_if b s # ps) = (if b then tag_chars s else []) @ marks ps"
  by (simp add: mark_if_def) (simp add: marks_def html_def)

lemma status_classes: "list_all (\<lambda>(_, k, _). markup_chars (js k) = []) status_meta" "markup_chars (js ''status-unknown'') = []"
  by code_simp+

lemma marks_status [simp]: "marks (Mark (js (fst (getStatusMeta v))) # ps) = marks ps"
proof -
  have "markup_chars (js (fst (getStatusMeta v))) = []"
    using status_classes by (auto simp: getStatusMeta_def list_all_iff split: option.split dest: find_Some_in)
  then show ?thesis by (simp add: marks_def html_def)
qed

lemmas marks_only = Let_def marks_simps marks_if marks_If marks_status marks_words if_cancel append.simps append_assoc

lemma marks_rows: "(\<And>x. x \<in> set xs \<Longrightarrow> marks (f x) = row) \<Longrightarrow> marks (concat (map f xs)) = concat (replicate (length xs) row)"
  by (induction xs) simp_all

lemma marks_record_row: "marks (record_row env s r) = marks (record_row env' t r')"
  by (simp only: record_row_def marks_only)

lemma marks_detail_row: "marks (detail_row env r) = marks (detail_row env' r')"
  by (simp only: detail_row_def marks_only)

lemma marks_item_row: "marks (item_row env r) = marks (item_row env' r')"
  by (simp only: item_row_def marks_only)

lemma marks_campaign:
  assumes "length (cu_records s) = length (cu_records t)"
  shows "marks (campaign_markup env cfg s) = marks (campaign_markup env' cfg' t)"
proof -
  have rows: "marks (concat (map (record_row e x) (cu_records x))) =
      concat (replicate (length (cu_records x)) (marks (record_row env s JNull)))" for e x
    by (rule marks_rows) (rule marks_record_row)
  have "cu_records s = [] \<longleftrightarrow> cu_records t = []" using assms by (metis length_0_conv)
  then show ?thesis by (simp only: campaign_markup_def marks_only rows assms)
qed

lemma marks_create:
  assumes "length (cu_plans s) = length (cu_plans t)" "length (getPlanPeriods (shown_plan s)) = length (getPlanPeriods (shown_plan t))"
  shows "marks (create_markup env cfg s) = marks (create_markup env' cfg' t)"
proof -
  have option: "marks [m ''<option value=`'', Shown v, m ''`'', mark_if b '' selected'', m ''>'', Shown w, m ''</option>''] =
      tag_chars ''<option value=`'' @ tag_chars ''`'' @ tag_chars ''>'' @ tag_chars ''</option>''" for v b w
    by simp
  have plans: "marks (concat (map (\<lambda>p. [m ''<option value=`'', Shown (g p), m ''`'', mark_if (b p) '' selected'', m ''>'', Shown (h p),
      m ''</option>'']) ps)) = concat (replicate (length ps) (marks [m ''<option value=`'', Shown JNull, m ''`'', m ''>'', m ''</option>'']))"
    for g b h and ps :: "jsv list"
    by (rule marks_rows) simp
  have periods: "marks (concat (map (\<lambda>(k, l). [m ''<option value=`'', Shown (g k), m ''`'', mark_if (b k) '' selected'', m ''>'',
        Shown (h l), m '' '', c ''middle dot'', m '' '', Shown (j k), m ''</option>'']) ps)) =
      concat (replicate (length ps) (marks [m ''<option value=`'', Shown JNull, m ''`'', m ''>'', m ''</option>'']))"
    for g b h j and ps :: "(string \<times> string) list"
    by (rule marks_rows) auto
  show ?thesis by (simp only: create_markup_def marks_only plans periods assms)
qed

lemma marks_list:
  assumes "length (ca_list s) = length (ca_list t)"
  shows "marks (list_markup env cfg s) = marks (list_markup env' cfg' t)"
proof -
  have rows: "marks (concat (map (item_row e) (ca_list x))) = concat (replicate (length (ca_list x)) (marks (item_row env JNull)))" for e x
    by (rule marks_rows) (rule marks_item_row)
  have "ca_list s = [] \<longleftrightarrow> ca_list t = []" using assms by (metis length_0_conv)
  then show ?thesis by (simp only: list_markup_def marks_only rows assms)
qed

lemma marks_detail:
  assumes "length (ca_records s) = length (ca_records t)" "truthy (ca_detail s) = truthy (ca_detail t)"
  shows "marks (detail_markup env s) = marks (detail_markup env' t)"
proof -
  have rows: "marks (concat (map (detail_row e) (ca_records x))) = concat (replicate (length (ca_records x)) (marks (detail_row env JNull)))" for e x
    by (rule marks_rows) (rule marks_detail_row)
  have "ca_records s = [] \<longleftrightarrow> ca_records t = []" using assms(1) by (metis length_0_conv)
  then show ?thesis by (simp only: detail_markup_def marks_only rows assms not_False_eq_True)
qed

text \<open>C25: escaping loses nothing and leaves nothing to read as markup: a browser that reads the five character references gets the
  text back, and no character that begins or ends a tag or an attribute is left.\<close>
theorem escape_faithful:
  "decoded (escapeHtml v) = (if nullish v then [] else to_str v) \<and> markup_chars (escapeHtml v) = []"
  by (simp add: escapeHtml_concat decoded_escaped markup_chars_escapes)


definition demo_browser :: browser where
  "demo_browser = \<lparr>br_currency = (\<lambda>_ _. None), br_local = (\<lambda>_. (num 2024, num 0, num 1, num 0, num 0, num 0)), br_now = num 0,
     br_encode = id, br_origin = js ''https://a.example'', br_type_error = js ''TypeError''\<rparr>"

definition demo_task :: "jsv \<Rightarrow> campaign" where
  "demo_task name = (initial_campaign (Some (js ''t'')))\<lparr>cu_campaign := JObj [(js ''status'', JNum (num 0)), (js ''plan'', JObj [(js ''name'', name)])],
     cu_screen := Running, cu_total := JNum (num 20)\<rparr>"


section \<open>Tasks on offer\<close>

definition on_offer :: "campaign \<Rightarrow> jsv \<Rightarrow> jstr \<Rightarrow> bool" where
  "on_offer s plan_id period \<longleftrightarrow>
     (\<exists>plan \<in> set (cu_plans s). plan_id = JStr (to_str (jprop plan (js ''id''))) \<and> period \<in> js ` fst ` set (getPlanPeriods plan))"

definition offer_ok :: "campaign \<Rightarrow> bool" where
  "offer_ok s \<longleftrightarrow> (\<forall>plan \<in> set (cu_plans s). getPlanPeriods plan \<noteq> []) \<and>
     (cu_screen s = Creating \<longrightarrow> on_offer s (cu_plan s) (cu_period s))"

lemma shown_plan_in: "cu_plans s \<noteq> [] \<Longrightarrow> shown_plan s \<in> set (cu_plans s)"
  by (auto simp: shown_plan_def getPlanById_def dest!: find_Some_in split: option.split list.split)

lemma shown_plan_id:
  assumes "cu_plan s = JStr (to_str (jprop plan (js ''id'')))" "plan \<in> set (cu_plans s)"
  shows "to_str (jprop (shown_plan s) (js ''id'')) = to_str (jprop plan (js ''id''))"
  using assms by (cases "getPlanById (cu_plan s) s") (auto simp: shown_plan_def getPlanById_def find_None_iff dest: find_Some_in)

lemma periods_truthy: "getPlanPeriods plan \<noteq> [] \<Longrightarrow> truthy plan"
  by (auto simp: getPlanPeriods_def filter_empty_conv)

lemma form_offers:
  assumes "\<forall>plan \<in> set (cu_plans s). getPlanPeriods plan \<noteq> []" "cu_plans s \<noteq> []"
    "cu_plan s = JStr [] \<or> (\<exists>plan \<in> set (cu_plans s). cu_plan s = JStr (to_str (jprop plan (js ''id''))))"
    "cu_period s = [] \<or> on_offer s (JStr (to_str (jprop (shown_plan s) (js ''id'')))) (cu_period s)"
  shows "offer_ok (renderCreateForm env cfg s)"
proof -
  let ?plan = "shown_plan s"
  have plan: "?plan \<in> set (cu_plans s)" using assms(2) by (rule shown_plan_in)
  then have periods: "getPlanPeriods ?plan \<noteq> []" using assms(1) by blast
  then obtain k l rest where kl: "getPlanPeriods ?plan = (k, l) # rest" by (metis list.exhaust surj_pair)
  have sel: "(if truthy ?plan \<and> \<not> truthy (cu_plan s) then JStr (to_str (jprop ?plan (js ''id''))) else cu_plan s) =
      JStr (to_str (jprop ?plan (js ''id'')))"
    using assms(3) periods_truthy [OF periods] shown_plan_id [of s] by auto
  have "on_offer s (JStr (to_str (jprop ?plan (js ''id'')))) (if cu_period s = [] then js k else cu_period s)"
    using assms(4) plan kl by (auto simp: on_offer_def)
  then show ?thesis
    using assms(1) kl sel
    by (auto simp: offer_ok_def on_offer_def renderCreateForm_def paint_def Let_def split: if_splits)
qed

lemma offer_left: "cu_plans t = cu_plans s \<Longrightarrow> cu_screen t \<noteq> Creating \<Longrightarrow> offer_ok s \<Longrightarrow> offer_ok t"
  by (simp add: offer_ok_def)

lemma offer_basic [simp]:
  "offer_ok (showToast t s) = offer_ok s" "offer_ok (enable b n s) = offer_ok s" "offer_ok (disable b s) = offer_ok s"
  "offer_ok (redirectToLogin cfg s) = offer_ok s" "offer_ok (sent_away cfg away s) = offer_ok s" "offer_ok (copyText v s) = offer_ok s"
  by (simp_all add: offer_ok_def on_offer_def showToast_def enable_def disable_def redirectToLogin_def sent_away_def copyText_def)

lemma offer_paint: "screen \<noteq> Creating \<Longrightarrow> offer_ok s \<Longrightarrow> offer_ok (paint screen disabled ps s)"
  by (rule offer_left) (simp_all add: paint_def)

lemma offer_failed: "offer_ok s \<Longrightarrow> offer_ok (campaign_failed k message s)"
  by (cases "(k, message, s)" rule: campaign_failed.cases) (simp_all add: renderError_def offer_paint)

lemma offer_call: "offer_ok s \<Longrightarrow> offer_ok (campaign_call cfg k calls s)"
  by (auto simp: campaign_call_def offer_failed split: option.split) (simp add: offer_ok_def on_offer_def)

lemma offer_update [simp]:
  "offer_ok (s\<lparr>cu_page := p\<rparr>) = offer_ok s" "offer_ok (s\<lparr>cu_location := l\<rparr>) = offer_ok s" "offer_ok (s\<lparr>cu_clock := k\<rparr>) = offer_ok s"
  "offer_ok (s\<lparr>cu_requests := r\<rparr>) = offer_ok s" "offer_ok (s\<lparr>cu_ticking := b\<rparr>) = offer_ok s"
  "offer_ok (s\<lparr>cu_records := vs, cu_total := v\<rparr>) = offer_ok s"
  "offer_ok (s\<lparr>cu_enabled := b, cu_settings := v, cu_campaign := w, cu_currency := x, cu_symbol := y\<rparr>) = offer_ok s"
  by (simp_all add: offer_ok_def on_offer_def)

lemma offer_records: "offer_ok s \<Longrightarrow> offer_ok (loadRecords cfg loading page s)"
  by (simp add: loadRecords_def Let_def offer_call)

lemma offer_load: "offer_ok s \<Longrightarrow> offer_ok (loadCampaign cfg s)"
  by (simp add: loadCampaign_def renderLoading_def offer_call offer_paint)

lemma offer_task: "offer_ok s \<Longrightarrow> offer_ok (task_loaded cfg task common s)"
  by (simp add: task_loaded_def Let_def offer_records offer_call renderDisabledState_def offer_paint)

lemma offer_plans: "offer_ok s \<Longrightarrow> offer_ok (plans_loaded env cfg data s)"
proof -
  assume ok: "offer_ok s"
  let ?plans = "filter (\<lambda>plan. getPlanPeriods plan \<noteq> []) (elems (jor (jprop data (js ''data'')) (JArr [])))"
  show ?thesis
  proof (cases "is_array (jor (jprop data (js ''data'')) (JArr []))")
    case True
    show ?thesis
    proof (cases ?plans)
      case Nil
      then show ?thesis using True by (simp add: plans_loaded_def Let_def renderError_def paint_def offer_ok_def)
    next
      case (Cons plan rest)
      let ?s = "s\<lparr>cu_plans := plan # rest, cu_plan := JStr (to_str (jprop plan (js ''id''))), cu_period := js (fst (hd (getPlanPeriods plan)))\<rparr>"
      have all: "\<forall>p \<in> set (plan # rest). getPlanPeriods p \<noteq> []" using Cons [symmetric] by auto
      have "offer_ok (renderCreateForm env cfg ?s)"
      proof (rule form_offers)
        have plan: "cu_plan ?s = JStr (to_str (jprop plan (js ''id'')))" "plan \<in> set (cu_plans ?s)" by simp_all
        have "getPlanPeriods plan \<noteq> []" using all by simp
        then have "js (fst (hd (getPlanPeriods plan))) \<in> js ` fst ` set (getPlanPeriods plan)" by simp
        then show "cu_period ?s = [] \<or> on_offer ?s (JStr (to_str (jprop (shown_plan ?s) (js ''id'')))) (cu_period ?s)"
          by (simp add: shown_plan_id [OF plan] on_offer_def)
      qed (use all in auto)
      then show ?thesis using True Cons by (simp add: plans_loaded_def Let_def)
    qed
  qed (use ok in \<open>simp add: plans_loaded_def Let_def renderError_def offer_paint\<close>)
qed

lemma offer_loaded: "offer_ok s \<Longrightarrow> offer_ok (campaign_loaded env cfg k data s)"
proof (cases k)
  case (FetchingRecords loading)
  assume "offer_ok s"
  then show ?thesis
    using FetchingRecords
    by (auto simp: records_loaded_def renderCampaign_def startCountdown_def Let_def offer_paint offer_failed split: option.split)
qed (auto simp: offer_plans offer_load)

lemma offer_answered: "offer_ok s \<Longrightarrow> offer_ok (campaign_answered env cfg k a s)"
  by (cases a) (auto simp: offer_failed offer_loaded offer_task Let_def split: sum.split prod.split)

lemma offer_react: "offer_ok s \<Longrightarrow> offer_ok (campaign_react env cfg e s)"
proof (cases e)
  case (ChoosePlan n)
  assume ok: "offer_ok s"
  show ?thesis
  proof (cases "cu_screen s = Creating \<and> n < length (cu_plans s)")
    case True
    define v where "v = jprop (cu_plans s ! n) (js ''id'')"
    have "cu_plans s ! n \<in> set (cu_plans s)" using True by simp
    then have "JStr (option_value v) = JStr [] \<or> (\<exists>plan \<in> set (cu_plans s). JStr (option_value v) = JStr (to_str (jprop plan (js ''id''))))"
      by (auto simp: option_value_def v_def)
    moreover have "cu_plans s \<noteq> []" using True by auto
    ultimately have "offer_ok (renderCreateForm env cfg (s\<lparr>cu_plan := JStr (option_value v), cu_period := []\<rparr>))"
      using ok by (intro form_offers) (auto simp: offer_ok_def)
    then show ?thesis using True ChoosePlan by (simp add: v_def)
  qed (use ok ChoosePlan in auto)
next
  case (ChoosePeriod n)
  assume ok: "offer_ok s"
  show ?thesis
  proof (cases "cu_screen s = Creating \<and> n < length (getPlanPeriods (shown_plan s))")
    case True
    define k where "k = js (fst (getPlanPeriods (shown_plan s) ! n))"
    let ?s = "s\<lparr>cu_period := k\<rparr>"
    have offer: "on_offer s (cu_plan s) (cu_period s)" using True ok by (simp add: offer_ok_def)
    then have "cu_plans s \<noteq> []" by (auto simp: on_offer_def)
    moreover have same: "shown_plan ?s = shown_plan s" by (simp add: shown_plan_def getPlanById_def split: list.split)
    moreover have "k \<in> js ` fst ` set (getPlanPeriods (shown_plan s))" unfolding k_def using True by (intro imageI nth_mem) simp
    ultimately have "on_offer ?s (JStr (to_str (jprop (shown_plan ?s) (js ''id'')))) (cu_period ?s)"
      using shown_plan_in [of s] by (auto simp: on_offer_def)
    then have "offer_ok (renderCreateForm env cfg ?s)"
      using ok offer \<open>cu_plans s \<noteq> []\<close> by (intro form_offers) (auto simp: offer_ok_def on_offer_def)
    then show ?thesis using True ChoosePeriod by (simp add: k_def)
  qed (use ok ChoosePeriod in auto)
next
  case (AnswerCampaign n a)
  assume "offer_ok s"
  then show ?thesis using AnswerCampaign by (simp add: offer_answered)
qed (auto simp: offer_call offer_failed offer_records)

lemma offer_initial: "offer_ok (initial_campaign token)"
  by (simp add: offer_ok_def initial_campaign_def)

text \<open>C23: the page only asks for a task with a plan and a period on offer: the plan is one of those that were loaded, and it has a
  price for the period, however the operator switches between plans and periods and whenever answers arrive.\<close>
theorem task_on_offer:
  assumes "campaign_reach env cfg s"
  shows "cu_sent (campaign_react env cfg PressCreate s) = cu_sent s \<or>
     (\<exists>plan \<in> set (cu_plans s). \<exists>(k, label) \<in> set (getPlanPeriods plan).
        cu_sent (campaign_react env cfg PressCreate s) = cu_sent s @ [(js ''/user/invite/campaign/save'',
          JObj [(js ''plan_id'', JNum (to_num (JStr (to_str (jprop plan (js ''id'')))))), (js ''period'', JStr (js k))])])"
proof (cases "pressable Creating ''create'' s \<and> truthy (cu_plan s) \<and> cu_period s \<noteq> []")
  case True
  have "offer_ok s"
    using assms by induction (simp_all add: offer_load offer_react offer_initial)
  then have "on_offer s (cu_plan s) (cu_period s)" using True by (simp add: offer_ok_def pressable_def)
  then show ?thesis
    using True by (fastforce simp: on_offer_def campaign_call_def redirectToLogin_def disable_def showToast_def enable_def split: option.split)
next
  case False
  then show ?thesis by (auto simp: showToast_def)
qed

definition json_reply :: "jsv \<Rightarrow> reply" where
  "json_reply v = Reply \<lparr>pr_status = 200, pr_ok = True, pr_body = JsonBody v\<rparr>"

definition demo_plan :: jsv where
  "demo_plan = JObj [(js ''id'', JNum (num 7)), (js ''name'', JStr (js ''basic'')), (js ''month_price'', JNum (num 900))]"

definition demo_offer :: campaign where
  "demo_offer = fold (campaign_react demo_browser [])
     [AnswerCampaign 0 (Two (json_reply (JObj [])) (json_reply (JObj [])) True),
      AnswerCampaign 0 (One (json_reply (JObj [(js ''data'', JArr [demo_plan])])))]
     (loadCampaign [] (initial_campaign (Some (js ''t''))))"

lemma demo_plan_facts:
  "getPlanPeriods demo_plan = [(''month_price'', ''monthly'')]" "to_str (jprop demo_plan (js ''id'')) = js ''7''"
  "str_num (js ''7'') = num 7" "truthy demo_plan"
  by code_simp+

lemma demo_offer_facts:
  "cu_screen demo_offer = Creating" "''create'' \<notin> cu_disabled demo_offer" "cu_plan demo_offer = JStr (js ''7'')"
  "cu_period demo_offer = js ''month_price''" "cu_token demo_offer = Some (js ''t'')" "cu_plans demo_offer = [demo_plan]"
  by (simp_all add: demo_offer_def initial_campaign_def loadCampaign_def renderLoading_def paint_def campaign_call_def two_calls_def
      json_reply_def read_answer_def sent_away_def task_loaded_def inner_def jor_def oget_cons remove_at_def plans_loaded_def demo_plan_facts
      renderCreateForm_def shown_plan_def getPlanById_def Let_def)

lemma task_on_offer_witness:
  "cu_sent (campaign_react demo_browser [] PressCreate demo_offer) = cu_sent demo_offer @ [(js ''/user/invite/campaign/save'',
     JObj [(js ''plan_id'', JNum (num 7)), (js ''period'', JStr (js ''month_price''))])]"
proof -
  have "campaign_reach demo_browser [] demo_offer" unfolding demo_offer_def fold_simps by (intro campaign_reach.intros)
  from task_on_offer [OF this] show ?thesis
    by (elim disjE) (simp_all add: demo_offer_facts demo_plan_facts pressable_def campaign_call_def disable_def)
qed

section \<open>Two orders\<close>

text \<open>C37: the button that orders is disabled only on the screen it was pressed on. When the records of another page arrive while the
  order is under way, the screen is written again with the button enabled, and a second press sends a second order.\<close>
theorem order_sent_twice:
  assumes "cu_screen s = Running" "''pay'' \<notin> cu_disabled s" "cu_token s = Some token" "token \<noteq> []"
    "cu_campaign s = JObj task" "oget (js ''status'') task = JNum (num 0)" "cu_requests s = [FetchingRecords False]" "oget (js ''code'') records = JUndef"
  shows "\<exists>order. cu_sent (fold (campaign_react env cfg) [PressPay, AnswerCampaign 0 (One (json_reply (JObj records))), PressPay] s) =
    cu_sent s @ [(js ''/user/order/save'', order), (js ''/user/order/save'', order)]"
  using assms
  by (simp add: pressable_def campaign_call_def disable_def two_calls_def json_reply_def read_answer_def sent_away_def records_loaded_def
      renderCampaign_def startCountdown_def paint_def disabled_buttons_def remove_at_def Let_def image_iff split: if_splits)

definition demo_turning :: campaign where
  "demo_turning = (demo_task (JStr (js ''basic'')))\<lparr>cu_requests := [FetchingRecords False]\<rparr>"

lemma order_sent_twice_witness:
  "\<exists>order. cu_sent (fold (campaign_react demo_browser []) [PressPay, AnswerCampaign 0 (One (json_reply (JObj []))), PressPay] demo_turning) =
    cu_sent demo_turning @ [(js ''/user/order/save'', order), (js ''/user/order/save'', order)]"
  by (rule order_sent_twice [of _ "js ''t''" "[(js ''status'', JNum (num 0)), (js ''plan'', JObj [(js ''name'', JStr (js ''basic''))])]"]) (simp_all add: demo_turning_def demo_task_def initial_campaign_def oget_cons)

section \<open>Pages of the records\<close>

text \<open>Turning the page of the records of a task loads them and shows nothing: whatever the server answers, the administrator
  keeps seeing the page before, because only loading the details writes the screen.\<close>
lemma admin_records_unseen:
  assumes "n < length (ca_requests s)" "ca_requests s ! n = PagerRecords"
  shows "ca_screen (tasks_react env cfg (AnswerTasks n a) s) = ca_screen s"
  using assms
  by (simp add: tasks_answered_def records_stored_def tasks_login_def split: sum.split prod.split)

definition demo_records :: tasks where
  "demo_records = (initial_tasks (Some (js ''t'')))\<lparr>ca_requests := [PagerRecords]\<rparr>"

lemma admin_records_unseen_witness:
  "ca_screen (tasks_react demo_browser [] (AnswerTasks 0 (Inr \<lparr>pr_status = 200, pr_ok = True,
     pr_body = JsonBody (JObj [(js ''data'', JArr [demo_plan])])\<rparr>)) demo_records) = ca_screen demo_records"
  by (rule admin_records_unseen) (simp_all add: demo_records_def)

end
