(* ===== verification/BackupEndpoints.thy ===== *)
theory BackupEndpoints
  imports MonitorModel JsRound
begin

text \<open>
  \<open>pages/DNSFailoverEntryMonitorTab.tsx\<close>, the pool of spare addresses: reading addresses and lines of addresses, and the
  addresses the server lists. Whether a text with a colon is an IPv6 literal is decided by the URL parser of the browser:
  \<open>host_of s\<close> is the host it reads from \<open>http://[s]/\<close>, \<open>None\<close> where it throws.
\<close>

section \<open>Addresses\<close>

definition strip_brackets :: "jstr \<Rightarrow> jstr" where
  "strip_brackets s =
     (let t = (if s \<noteq> [] \<and> hd s = 91 then tl s else s) in if t \<noteq> [] \<and> last t = 93 then butlast t else t)"

definition ipv4_part :: "jstr \<Rightarrow> bool" where
  "ipv4_part p \<longleftrightarrow> list_all is_digit p \<and> p \<noteq> [] \<and> length p \<le> 3 \<and> num_le (str_num p) (num 255) \<and>
     (p = [48] \<or> hd p \<noteq> 48)"

definition isIPv4Literal :: "jstr \<Rightarrow> bool" where
  "isIPv4Literal s \<longleftrightarrow> length (split_on 46 s) = 4 \<and> list_all ipv4_part (split_on 46 s) \<and> s \<noteq> js ''0.0.0.0''"

definition ipv6_unit :: "int \<Rightarrow> bool" where
  "ipv6_unit c \<longleftrightarrow> is_digit c \<or> (97 \<le> c \<and> c \<le> 102) \<or> (65 \<le> c \<and> c \<le> 70) \<or> c = 58 \<or> c = 46"

type_synonym url_host = "jstr \<Rightarrow> jstr option"

definition isIPv6Literal :: "url_host \<Rightarrow> jstr \<Rightarrow> bool" where
  "isIPv6Literal host_of s \<longleftrightarrow> 58 \<in> set s \<and> list_all ipv6_unit s \<and>
     (case host_of s of None \<Rightarrow> False | Some h \<Rightarrow> 2 < length h \<and> h \<noteq> js ''[::]'' \<and> h \<noteq> js ''::'')"

definition normalizeIPLiteral :: "url_host \<Rightarrow> jstr \<Rightarrow> jstr" where
  "normalizeIPLiteral host_of value =
     (let ip = strip_brackets (trim value) in if isIPv4Literal ip \<or> isIPv6Literal host_of ip then ip else [])"

text \<open>\<open>/^\[([^\]]+)\](?::(\d+))?$/\<close>: what is between the brackets, and the port if there is one.\<close>

definition bracketed :: "jstr \<Rightarrow> (jstr \<times> jstr option) option" where
  "bracketed s =
     (let body = takeWhile (\<lambda>c. c \<noteq> 93) (tl s); rest = dropWhile (\<lambda>c. c \<noteq> 93) (tl s)
      in if s = [] \<or> hd s \<noteq> 91 \<or> body = [] \<or> rest = [] then None
         else if tl rest = [] then Some (body, None)
         else if hd (tl rest) = 58 \<and> all_digits (tl (tl rest)) then Some (body, Some (tl (tl rest)))
         else None)"

definition parseBackupEndpoint :: "url_host \<Rightarrow> jstr \<Rightarrow> jnum \<Rightarrow> jstr \<times> jnum" where
  "parseBackupEndpoint host_of value defaultPort =
     (let endpoint = trim value; before = takeWhile (\<lambda>c. c \<noteq> 58) endpoint; after = dropWhile (\<lambda>c. c \<noteq> 58) endpoint
      in case bracketed endpoint of
           Some (ip, port) \<Rightarrow>
             (normalizeIPLiteral host_of ip,
              numberValue (case port of Some p \<Rightarrow> JStr p | None \<Rightarrow> JUndef) defaultPort)
         | None \<Rightarrow>
             if after \<noteq> [] \<and> 58 \<notin> set (tl after) \<and> all_digits (tl after)
             then (normalizeIPLiteral host_of before, number0 (JStr (tl after)))
             else (normalizeIPLiteral host_of endpoint, defaultPort))"

definition formatBackupEndpoint :: "jstr \<Rightarrow> jnum \<Rightarrow> jstr" where
  "formatBackupEndpoint ip port = (if 58 \<in> set ip then [91] @ ip @ [93, 58] else ip @ [58]) @ num_str port"

section \<open>Lines\<close>

record backup_input =
  bi_name :: jstr
  bi_ip :: jstr
  bi_port :: jnum

datatype line_error = BadFormat nat | BadAddress nat | BadPortNumber nat | RepeatedAddress nat

record parsed_lines =
  pl_items :: "backup_input list"
  pl_errors :: "line_error list"
  pl_seen :: "jstr jset"

text \<open>\<open>split(/[,\uff0c]/)\<close>: the ASCII comma and the full-width one.\<close>

fun split_commas :: "jstr \<Rightarrow> jstr list" where
  "split_commas [] = [[]]"
| "split_commas (c # s) =
     (if c = 44 \<or> c = 65292 then [] # split_commas s
      else (case split_commas s of [] \<Rightarrow> [[c]] | p # ps \<Rightarrow> (c # p) # ps))"

text \<open>Name, address and port a line asks for; \<open>None\<close> for too many parts.\<close>

definition line_request :: "url_host \<Rightarrow> jstr \<Rightarrow> jnum \<Rightarrow> (jstr \<times> jstr \<times> jnum) option" where
  "line_request host_of line defaultPort =
     (case map trim (split_commas line) of
        [name, endpoint, port] \<Rightarrow> Some (name, endpoint, number0 (JStr port))
      | [a, b] \<Rightarrow>
          if all_digits b \<and> normalizeIPLiteral host_of a \<noteq> [] then Some ([], a, number0 (JStr b))
          else Some (a, b, defaultPort)
      | [_] \<Rightarrow> Some ([], line, defaultPort)
      | _ \<Rightarrow> None)"

definition parse_line :: "url_host \<Rightarrow> jnum \<Rightarrow> nat \<Rightarrow> jstr \<Rightarrow> parsed_lines \<Rightarrow> parsed_lines" where
  "parse_line host_of defaultPort index rawLine st =
     (let line = trim rawLine; fail = (\<lambda>e. st\<lparr>pl_errors := pl_errors st @ [e]\<rparr>)
      in if line = [] then st
         else (case line_request host_of line defaultPort of
             None \<Rightarrow> fail (BadFormat (index + 1))
           | Some (name, endpoint, requestedPort) \<Rightarrow>
               let (ip, port) = parseBackupEndpoint host_of endpoint requestedPort
               in if ip = [] then fail (BadAddress (index + 1))
                  else if out_of port 1 65535 then fail (BadPortNumber (index + 1))
                  else if set_has (lower ip) (pl_seen st) then fail (RepeatedAddress (index + 1))
                  else st\<lparr>pl_seen := set_add (lower ip) (pl_seen st),
                     pl_items := pl_items st @ [\<lparr>bi_name = or_text name ip, bi_ip = ip, bi_port = port\<rparr>]\<rparr>))"

definition parseBackupIPLines :: "url_host \<Rightarrow> jstr \<Rightarrow> jnum \<Rightarrow> parsed_lines" where
  "parseBackupIPLines host_of value defaultPort =
     fold (\<lambda>(i, l). parse_line host_of defaultPort i l) (enumerate 0 (split_lines value))
       \<lparr>pl_items = [], pl_errors = [], pl_seen = []\<rparr>"

section \<open>The list of the server\<close>

record backup_ip =
  bk_raw :: jobj
  bk_id :: jnum
  bk_name :: jstr
  bk_ip :: jstr
  bk_port :: jnum
  bk_enabled :: bool
  bk_status :: jstr
  bk_used :: bool
  bk_used_by :: "jsv list"
  bk_quarantine :: jsv
  bk_states :: "jsv list"

definition backup_state :: "jsv \<Rightarrow> jsv" where
  "backup_state state = JObj
     (oput (js ''stale'') (JBool (boolValue (jprop state (js ''stale'')) False))
     (oput (js ''probe_name'') (let n = trimmed (jprop state (js ''probe_name'')) in if n = [] then JUndef else JStr n)
     (oput (js ''probe_id'') (num_or_undef (number0 (jprop state (js ''probe_id''))))
     (spread_of state))))"

definition normalizeBackupIP :: "nat \<Rightarrow> jsv \<Rightarrow> backup_ip" where
  "normalizeBackupIP index raw =
     (let usage = coalesce (jprop raw (js ''used_by'')) (coalesce (jprop raw (js ''usages''))
            (coalesce (jprop raw (js ''assignments'')) (jprop raw (js ''usage''))));
          usedBy = (case usage of JArr us \<Rightarrow> us | JObj kv \<Rightarrow> [usage] | _ \<Rightarrow> []);
          states = map backup_state (loose_list (coalesce (jprop raw (js ''states''))
            (coalesce (jprop raw (js ''probe_states'')) (jprop raw (js ''results'')))));
          ip = strip_brackets (trimmed (jor (jprop raw (js ''ip'')) (jor (jprop raw (js ''address'')) (jprop raw (js ''host'')))));
          i = number0 (jprop raw (js ''id''))
      in \<lparr>bk_raw = spread_of raw, bk_id = num_or i (num (- (int index + 1))),
          bk_name = or_text (trimmed (jprop raw (js ''name''))) (or_text ip (txt_backup_no @ digits_of (int index + 1))),
          bk_ip = ip, bk_port = numberValue (jprop raw (js ''port'')) default_port,
          bk_enabled = boolValue (jprop raw (js ''enabled'')) True,
          bk_status = lower (trimmed (jor (jprop raw (js ''status''))
            (jor (jprop raw (js ''availability_status'')) (jprop raw (js ''health_status''))))),
          bk_used = (boolValue (coalesce (jprop raw (js ''used'')) (jprop raw (js ''in_use''))) False \<or> usedBy \<noteq> []),
          bk_used_by = usedBy, bk_quarantine = jprop raw (js ''quarantine_until''), bk_states = states\<rparr>)"

definition healthy_statuses :: "jstr set" where
  "healthy_statuses = set (map js [''available'', ''healthy'', ''ready'', ''success'', ''online''])"

definition failed_statuses :: "jstr set" where
  "failed_statuses = set (map js [''failed'', ''failure'', ''unhealthy'', ''offline'', ''error''])"

definition isBackupIPAvailable :: "backup_ip \<Rightarrow> bool" where
  "isBackupIPAvailable item \<longleftrightarrow> \<not> bk_used item \<and> bk_enabled item \<and>
     (boolValue (oget (js ''available'') (bk_raw item)) False \<or> bk_status item \<in> healthy_statuses)"

datatype backup_status = Disabled | InUse | Quarantined | Available | Failed | NoProbe | ProbeOffline | Testing

text \<open>\<open>/^\d+(?:\.\d+)?$/\<close>.\<close>

definition plain_decimal :: "jstr \<Rightarrow> bool" where
  "plain_decimal s \<longleftrightarrow> (case split_on 46 s of [a] \<Rightarrow> all_digits a | [a, b] \<Rightarrow> all_digits a \<and> all_digits b | _ \<Rightarrow> False)"

text \<open>\<open>date_of\<close> is \<open>new Date(s).getTime()\<close>, \<open>NaN\<close> for a text that is no date.\<close>

definition timestampMilliseconds :: "(jstr \<Rightarrow> jnum) \<Rightarrow> jsv \<Rightarrow> jnum" where
  "timestampMilliseconds date_of value =
     (let timestamp = number0 value;
          scaled = (if num_lt (num 0) timestamp \<and> num_lt timestamp (num 1000000000000)
                    then num_mul timestamp (num 1000) else timestamp)
      in if nullish value \<or> value = JStr [] then num 0
         else (case value of
             JStr s \<Rightarrow> if \<not> plain_decimal (trim s) then (if date_of s = NaN then num 0 else date_of s) else scaled
           | _ \<Rightarrow> scaled))"

definition backupStatusMeta :: "(jstr \<Rightarrow> jnum) \<Rightarrow> jnum \<Rightarrow> backup_ip \<Rightarrow> backup_status" where
  "backupStatusMeta date_of now item =
     (if \<not> bk_enabled item then Disabled
      else if bk_used item then InUse
      else if boolValue (oget (js ''quarantined'') (bk_raw item)) False \<or> bk_status item = js ''quarantined'' \<or>
              num_lt now (timestampMilliseconds date_of (bk_quarantine item)) then Quarantined
      else if bk_status item \<in> healthy_statuses then Available
      else if bk_status item \<in> failed_statuses then Failed
      else if bk_status item = js ''no_probe'' then NoProbe
      else if bk_status item = js ''probe_offline'' then ProbeOffline
      else Testing)"

definition copied_ips :: "backup_ip list \<Rightarrow> jstr list" where
  "copied_ips items = keep_first (\<lambda>ip. ip \<noteq> []) lower [] (map (\<lambda>i. trim (bk_ip i)) (filter isBackupIPAvailable items))"

section \<open>What is accepted\<close>

lemma normalize_literal:
  "normalizeIPLiteral h s \<noteq> [] \<Longrightarrow> isIPv4Literal (normalizeIPLiteral h s) \<or> isIPv6Literal h (normalizeIPLiteral h s)"
  by (auto simp: normalizeIPLiteral_def Let_def)

definition accepted :: "url_host \<Rightarrow> backup_input \<Rightarrow> bool" where
  "accepted h i \<longleftrightarrow> (isIPv4Literal (bi_ip i) \<or> isIPv6Literal h (bi_ip i)) \<and> \<not> out_of (bi_port i) 1 65535 \<and> bi_name i \<noteq> []"

definition lines_ok :: "url_host \<Rightarrow> parsed_lines \<Rightarrow> bool" where
  "lines_ok h st \<longleftrightarrow> list_all (accepted h) (pl_items st) \<and> distinct (map (\<lambda>i. lower (bi_ip i)) (pl_items st)) \<and>
     set (pl_seen st) = (\<lambda>i. lower (bi_ip i)) ` set (pl_items st)"

lemma endpoint_literal: "parseBackupEndpoint h s p = (ip, port) \<Longrightarrow> ip \<noteq> [] \<Longrightarrow> isIPv4Literal ip \<or> isIPv6Literal h ip"
  using normalize_literal by (auto simp: parseBackupEndpoint_def Let_def split: option.splits if_splits)

lemma parse_line_ok: "lines_ok h st \<Longrightarrow> lines_ok h (parse_line h p i l st)"
  by (auto simp: parse_line_def lines_ok_def accepted_def Let_def or_text_def split: option.splits prod.splits
      dest: endpoint_literal)

lemma parse_line_counts:
  "length (pl_items (parse_line h p i l st)) + length (pl_errors (parse_line h p i l st)) =
     length (pl_items st) + length (pl_errors st) + (if trim l = [] then 0 else 1)"
  by (auto simp: parse_line_def Let_def split: option.splits prod.splits)

text \<open>Whatever is pasted into the box of spare addresses, what is taken from it is usable: every item has an IPv4 or
  IPv6 literal as its address, a port from 1 to 65535 and a name, no address is taken twice (letter case aside), and every
  line that is not blank either gives exactly one item or is reported.\<close>
theorem backup_lines_sound:
  "let st = parseBackupIPLines h value p
   in list_all (accepted h) (pl_items st) \<and> distinct (map (\<lambda>i. lower (bi_ip i)) (pl_items st)) \<and>
      length (pl_items st) + length (pl_errors st) = length (filter (\<lambda>l. trim l \<noteq> []) (split_lines value))"
proof -
  let ?step = "\<lambda>(i, l). parse_line h p i l"
  have ok: "lines_ok h st \<Longrightarrow> lines_ok h (fold ?step ls st)" for ls st
    by (induction ls arbitrary: st) (auto simp: parse_line_ok)
  have counts: "length (pl_items (fold ?step (enumerate n ls) st)) + length (pl_errors (fold ?step (enumerate n ls) st)) =
      length (pl_items st) + length (pl_errors st) + length (filter (\<lambda>l. trim l \<noteq> []) ls)" for n ls st
    by (induction ls arbitrary: n st) (simp_all add: parse_line_counts)
  show ?thesis
    using ok [of "\<lparr>pl_items = [], pl_errors = [], pl_seen = []\<rparr>" "enumerate 0 (split_lines value)"]
      counts [of 0 "split_lines value" "\<lparr>pl_items = [], pl_errors = [], pl_seen = []\<rparr>"]
    by (simp add: parseBackupIPLines_def lines_ok_def Let_def)
qed

section \<open>Reading back what is copied\<close>

lemma split_on_units: "c \<in> set s \<Longrightarrow> c = d \<or> (\<exists>p \<in> set (split_on d s). c \<in> set p)"
  by (induction s) (auto split: list.splits)

lemma literal_units:
  assumes "isIPv4Literal ip \<or> isIPv6Literal h ip"
  shows "ip \<noteq> []" "list_all ipv6_unit ip"
proof -
  show "ip \<noteq> []" using assms by (auto simp: isIPv4Literal_def isIPv6Literal_def)
  have "list_all ipv6_unit ip" if "isIPv4Literal ip"
    using that split_on_units [of _ ip 46]
    by (fastforce simp: isIPv4Literal_def ipv4_part_def ipv6_unit_def list_all_iff)
  then show "list_all ipv6_unit ip" using assms by (auto simp: isIPv6Literal_def)
qed

lemma ipv6_unit_plain:
  "ipv6_unit c \<Longrightarrow> \<not> is_space c \<and> c \<noteq> 91 \<and> c \<noteq> 93 \<and> c \<noteq> 44 \<and> c \<noteq> 65292 \<and> c \<noteq> 10 \<and> c \<noteq> 13"
  by (auto simp: ipv6_unit_def is_digit_def is_space_def)

lemma normalize_again:
  assumes "isIPv4Literal ip \<or> isIPv6Literal h ip"
  shows "normalizeIPLiteral h ip = ip"
proof -
  note u = literal_units [OF assms]
  then have "\<not> is_space (hd ip)" "\<not> is_space (last ip)" "hd ip \<noteq> 91" "last ip \<noteq> 93"
    using ipv6_unit_plain by (auto simp: list_all_iff)
  then show ?thesis using assms by (simp add: normalizeIPLiteral_def strip_brackets_def trim_id Let_def)
qed

definition endpoint_text :: "backup_input \<Rightarrow> jstr" where
  "endpoint_text i = formatBackupEndpoint (bi_ip i) (bi_port i)"

text \<open>An input as it is shown: a literal and a whole port.\<close>

definition plain_input :: "url_host \<Rightarrow> backup_input \<Rightarrow> bool" where
  "plain_input h i \<longleftrightarrow> accepted h i \<and> is_integer (bi_port i)"

lemma whole_port:
  assumes "plain_input h i"
  obtains n where "bi_port i = num n" "1 \<le> n" "n \<le> 65535" "num_str (bi_port i) = digits_of n"
proof -
  obtain q where q: "bi_port i = Fin q" "q \<in> \<int>"
    using assms by (cases "bi_port i") (auto simp: plain_input_def is_integer_def)
  then obtain n where n: "bi_port i = num n" by (auto simp: num_def elim: Ints_cases)
  moreover have "1 \<le> n" "n \<le> 65535" using assms n by (auto simp: plain_input_def accepted_def out_of_def)
  moreover have "num_str (num n) = digits_of n" using \<open>1 \<le> n\<close> \<open>n \<le> 65535\<close> by (simp add: num_str_num int_str_digits)
  ultimately show ?thesis using that by simp
qed

lemma endpoint_units:
  assumes "plain_input h i"
  shows "endpoint_text i \<noteq> []" "list_all (\<lambda>c. ipv6_unit c \<or> c = 91 \<or> c = 93) (endpoint_text i)"
proof -
  obtain n where n: "bi_port i = num n" "1 \<le> n" "num_str (bi_port i) = digits_of n" using whole_port [OF assms] by metis
  have "list_all ipv6_unit (bi_ip i)" using assms literal_units [of "bi_ip i" h] by (auto simp: plain_input_def accepted_def)
  moreover have "list_all ipv6_unit (digits_of n)"
    using all_digits_digits_of [of n] n by (auto simp: all_digits_def list_all_iff ipv6_unit_def)
  moreover have "ipv6_unit 58" by (simp add: ipv6_unit_def)
  ultimately show "endpoint_text i \<noteq> []" "list_all (\<lambda>c. ipv6_unit c \<or> c = 91 \<or> c = 93) (endpoint_text i)"
    by (auto simp: endpoint_text_def formatBackupEndpoint_def n(3) list_all_iff)
qed

lemma endpoint_unit:
  assumes "plain_input h i" "c \<in> set (endpoint_text i)"
  shows "\<not> is_space c \<and> c \<noteq> 44 \<and> c \<noteq> 65292 \<and> c \<noteq> 10 \<and> c \<noteq> 13"
proof -
  have "ipv6_unit c \<or> c = 91 \<or> c = 93" using endpoint_units(2) [OF assms(1)] assms(2) by (simp add: list_all_iff)
  then show ?thesis using ipv6_unit_plain [of c] by (auto simp: is_space_def)
qed

lemma split_commas_id: "44 \<notin> set s \<Longrightarrow> 65292 \<notin> set s \<Longrightarrow> split_commas s = [s]"
  by (induction s) auto

lemma trim_endpoint: "plain_input h i \<Longrightarrow> trim (endpoint_text i) = endpoint_text i"
  using endpoint_units(1) [of h i] endpoint_unit [of h i] by (intro trim_id) (meson hd_in_set last_in_set)

lemma parse_endpoint:
  assumes "plain_input h i"
  shows "parseBackupEndpoint h (endpoint_text i) p = (bi_ip i, bi_port i)"
proof -
  have lit: "isIPv4Literal (bi_ip i) \<or> isIPv6Literal h (bi_ip i)" using assms by (simp add: plain_input_def accepted_def)
  obtain n where n: "bi_port i = num n" "1 \<le> n" "n \<le> 65535" "num_str (bi_port i) = digits_of n"
    using whole_port [OF assms] by metis
  have d: "all_digits (digits_of n)" "str_num (digits_of n) = num n"
    using n by (auto simp: all_digits_digits_of str_num_digits_of)
  then have digits: "58 \<notin> set (digits_of n)" "digits_of n \<noteq> []"
    by (auto simp: all_digits_def list_all_iff is_digit_def)
  note u = literal_units [OF lit]
  then have no: "91 \<notin> set (bi_ip i)" "93 \<notin> set (bi_ip i)" by (auto simp: list_all_iff ipv6_unit_def is_digit_def)
  show ?thesis
  proof (cases "58 \<in> set (bi_ip i)")
    case True
    have "bracketed (endpoint_text i) = Some (bi_ip i, Some (digits_of n))"
      using True no d(1) u(1) n(4) by (auto simp: bracketed_def endpoint_text_def formatBackupEndpoint_def takeWhile_append dropWhile_append)
    then show ?thesis
      using d(2) n(1) normalize_again [OF lit] by (simp add: parseBackupEndpoint_def trim_endpoint [OF assms] numberValue_def)
  next
    case False
    then have shape: "endpoint_text i = bi_ip i @ 58 # digits_of n"
      using n(4) by (simp add: endpoint_text_def formatBackupEndpoint_def)
    have "bracketed (endpoint_text i) = None" using no u(1) by (cases "bi_ip i") (auto simp: bracketed_def shape)
    moreover have "takeWhile (\<lambda>c. c \<noteq> 58) (endpoint_text i) = bi_ip i" "dropWhile (\<lambda>c. c \<noteq> 58) (endpoint_text i) = 58 # digits_of n"
      using False by (auto simp: shape takeWhile_append dropWhile_append)
    ultimately show ?thesis
      using d digits n(1) normalize_again [OF lit]
      by (simp add: parseBackupEndpoint_def trim_endpoint [OF assms] numberValue_def)
  qed
qed

lemma parse_own_line:
  assumes "plain_input h i" and "lower (bi_ip i) \<notin> set (pl_seen st)"
  shows "parse_line h p k (endpoint_text i) st = st\<lparr>pl_seen := pl_seen st @ [lower (bi_ip i)],
    pl_items := pl_items st @ [i\<lparr>bi_name := bi_ip i\<rparr>]\<rparr>"
proof -
  have "c \<noteq> 44 \<and> c \<noteq> 65292" if "c \<in> set (endpoint_text i)" for c
    using endpoint_unit [OF assms(1) that] by simp
  then have "line_request h (endpoint_text i) p = Some ([], endpoint_text i, p)"
    by (subst line_request_def, subst split_commas_id) (auto simp: line_request_def)
  moreover have "bi_ip i \<noteq> []" "\<not> out_of (bi_port i) 1 65535"
    using assms(1) literal_units(1) by (auto simp: plain_input_def accepted_def)
  ultimately show ?thesis
    using assms endpoint_units(1) [OF assms(1)] parse_endpoint [OF assms(1)]
    by (simp add: parse_line_def trim_endpoint [OF assms(1)] Let_def set_add_def or_text_def)
qed

lemma parse_own_lines:
  "list_all (plain_input h) items \<Longrightarrow> distinct (pl_seen st @ map (\<lambda>i. lower (bi_ip i)) items) \<Longrightarrow>
   fold (\<lambda>(i, l). parse_line h p i l) (enumerate n (map endpoint_text items)) st =
     st\<lparr>pl_seen := pl_seen st @ map (\<lambda>i. lower (bi_ip i)) items,
        pl_items := pl_items st @ map (\<lambda>i. i\<lparr>bi_name := bi_ip i\<rparr>) items\<rparr>"
  by (induction items arbitrary: n st) (auto simp: parse_own_line)

lemma split_lines_join:
  "ls \<noteq> [] \<Longrightarrow> list_all (\<lambda>l. 10 \<notin> set l \<and> 13 \<notin> set l) ls \<Longrightarrow> split_lines (join [10] ls) = ls"
proof (induction "[10] :: jstr" ls rule: join.induct)
  case (2 s)
  have "10 \<notin> set s \<Longrightarrow> 13 \<notin> set s \<Longrightarrow> split_lines s = [s]" for s by (induction s) auto
  then show ?case using 2 by simp
next
  case (3 s t ss)
  have "10 \<notin> set s \<Longrightarrow> 13 \<notin> set s \<Longrightarrow> split_lines (s @ 10 # r) = s # split_lines r" for s r by (induction s) auto
  then show ?case using 3 by simp
qed simp


definition demo_inputs :: "backup_input list" where
  "demo_inputs = [\<lparr>bi_name = js ''a'', bi_ip = js ''192.0.2.7'', bi_port = num 443\<rparr>,
     \<lparr>bi_name = js ''b'', bi_ip = js ''2001:db8::1'', bi_port = num 54101\<rparr>]"


text \<open>A port given after a second comma is not checked for being whole.\<close>

lemma fractional_port_taken:
  "map bi_port (pl_items (parseBackupIPLines (\<lambda>_. None) (js ''a,192.0.2.7,80.5'') (num 80))) = [Fin (161 / 2)]"
  by code_simp

end
