(* ===== verification/MonitorTab.thy ===== *)
theory MonitorTab
  imports BackupEndpoints Api ApiFormat
begin

text \<open>
  \<open>pages/DNSFailoverEntryMonitorTab.tsx\<close>, the tab itself, as a state machine: what its handlers do until they wait, and
  what they do when an answer arrives. Answers arrive in any order; a handler that waits is an element of the list of
  pending requests. A value kept both in a ref and in a state of React is one field, since the code sets them together.
  An answer is \<open>None\<close> where the client threw.
\<close>

section \<open>State\<close>

text \<open>What happens when a list was fetched: the handler that waits for it goes on.\<close>

datatype after = Nothing | PartOf nat | EndRun | EndClear | EndBatchSave | EndAction bool | EndDelete

datatype pending =
    Configuration nat nat bool after \<comment> \<open>sequence number, edit version, quiet\<close>
  | Runs nat bool after
  | Backups nat bool after
  | Saving nat "jnum list" bool \<comment> \<open>edit version, enabled policies, whether a run follows\<close>
  | Starting
  | Clearing
  | Creating nat
  | Updating bool \<comment> \<open>whether the dialog asked for it\<close>
  | Deleting jnum
  | DeletingMany
  | Checking

datatype notice =
    ConfigurationFailed | RunsFailed | BackupsFailed | Refused monitor_error | SaveFailed | Saved | SavedPartly
  | NothingEnabled | RunStarted jsv | RunFailed | Cleared jnum | ClearFailed | LinesRefused "line_error list"
  | NothingEntered | Created nat | CreateFailed | BadBackupIP | BadBackupPort | BackupUpdated | UpdateFailed
  | BackupGone | BackupDeleted | DeleteFailed | NothingSelected | ManyDeleted jnum jnum jnum | ManyFailed
  | CheckAsked | CheckFailed

record edited_backup =
  eb_id :: jnum
  eb_name :: jstr
  eb_ip :: jstr
  eb_port :: jnum

record tab =
  mt_policies :: "entry_policy list"
  mt_probes :: "entry_probe list"
  mt_drafts :: drafts
  mt_selected :: "jnum list"
  mt_revision :: jnum
  mt_dirty :: bool
  mt_loaded :: bool
  mt_saving :: bool
  mt_running :: bool
  mt_edit_version :: nat
  mt_sequence :: nat \<comment> \<open>of the configuration\<close>
  mt_runs :: "jsv list"
  mt_runs_sequence :: nat
  mt_clearing :: bool
  mt_backups :: "backup_ip list"
  mt_backup_sequence :: nat
  mt_backup_loading :: bool
  mt_chosen :: "jnum list" \<comment> \<open>\<open>selectedBackupIPIDs\<close>\<close>
  mt_action :: "jnum option"
  mt_editing :: "edited_backup option"
  mt_batch_open :: bool
  mt_batch_text :: jstr
  mt_batch_port :: jnum
  mt_batch_saving :: bool
  mt_batch_deleting :: bool
  mt_loading :: bool
  mt_loading_sequence :: nat
  mt_refreshes :: "(nat \<times> nat) list" \<comment> \<open>parts still waited for, number of the loading indicator or 0\<close>
  mt_pending :: "pending list"
  mt_sent :: "(http_method \<times> jstr \<times> jobj) list"
  mt_notices :: "notice list"

definition initial_tab :: tab where
  "initial_tab = \<lparr>mt_policies = [], mt_probes = [], mt_drafts = (\<lambda>_. None), mt_selected = [], mt_revision = num 0,
     mt_dirty = False, mt_loaded = False, mt_saving = False, mt_running = False, mt_edit_version = 0, mt_sequence = 0,
     mt_runs = [], mt_runs_sequence = 0, mt_clearing = False, mt_backups = [], mt_backup_sequence = 0,
     mt_backup_loading = False, mt_chosen = [], mt_action = None, mt_editing = None, mt_batch_open = False,
     mt_batch_text = [], mt_batch_port = default_port, mt_batch_saving = False, mt_batch_deleting = False,
     mt_loading = False, mt_loading_sequence = 0, mt_refreshes = [], mt_pending = [], mt_sent = [], mt_notices = []\<rparr>"

definition monitor_path :: jstr where
  "monitor_path = js ''/dns-failover/entry-monitors''"

definition runs_path :: jstr where
  "runs_path = monitor_path @ js ''/runs''"

definition backup_path :: jstr where
  "backup_path = monitor_path @ js ''/backup-ips''"

definition notify :: "notice \<Rightarrow> tab \<Rightarrow> tab" where
  "notify n s = s\<lparr>mt_notices := mt_notices s @ [n]\<rparr>"

definition ask :: "http_method \<Rightarrow> jstr \<Rightarrow> jobj \<Rightarrow> pending \<Rightarrow> tab \<Rightarrow> tab" where
  "ask m path body p s = s\<lparr>mt_sent := mt_sent s @ [(m, path, body)], mt_pending := mt_pending s @ [p]\<rparr>"

text \<open>\<open>unwrapData(answer) || {}\<close>.\<close>

definition payload_of :: "jsv \<Rightarrow> jsv" where
  "payload_of v = jor (unwrapData v) (JObj [])"

section \<open>Loading\<close>

definition part_done :: "nat \<Rightarrow> bool \<Rightarrow> tab \<Rightarrow> tab" where
  "part_done i thrown s =
     (let (left, q) = mt_refreshes s ! i; left' = (if thrown then 0 else left - 1);
          s' = s\<lparr>mt_refreshes := (mt_refreshes s)[i := (left', q)]\<rparr>
      in if left = 0 then s
         else if left' = 0 \<and> q \<noteq> 0 \<and> q = mt_loading_sequence s then s'\<lparr>mt_loading := False\<rparr> else s')"

fun go_on :: "after \<Rightarrow> bool \<Rightarrow> tab \<Rightarrow> tab" where
  "go_on Nothing thrown s = s"
| "go_on (PartOf i) thrown s = part_done i thrown s"
| "go_on EndRun thrown s = (if thrown then notify RunFailed s else s)\<lparr>mt_running := False\<rparr>"
| "go_on EndClear thrown s = s\<lparr>mt_clearing := False\<rparr>"
| "go_on EndBatchSave thrown s = s\<lparr>mt_batch_saving := False\<rparr>"
| "go_on (EndAction dialog) thrown s =
     s\<lparr>mt_action := None, mt_editing := (if dialog then None else mt_editing s)\<rparr>"
| "go_on EndDelete thrown s = s\<lparr>mt_batch_deleting := False\<rparr>"

definition fetchConfiguration :: "bool \<Rightarrow> after \<Rightarrow> tab \<Rightarrow> tab" where
  "fetchConfiguration quiet k s =
     (let n = mt_sequence s + 1
      in ask GET monitor_path [] (Configuration n (mt_edit_version s) quiet k) (s\<lparr>mt_sequence := n\<rparr>))"

definition merge_configuration :: "monitor_payload \<Rightarrow> tab \<Rightarrow> tab" where
  "merge_configuration n s = s\<lparr>mt_policies := mp_policies n, mt_probes := mp_probes n,
     mt_drafts := mergeLiveState (mt_drafts s) (mp_drafts n), mt_loaded := True\<rparr>"

definition replace_configuration :: "monitor_payload \<Rightarrow> tab \<Rightarrow> tab" where
  "replace_configuration n s = s\<lparr>mt_policies := mp_policies n, mt_probes := mp_probes n, mt_drafts := mp_drafts n,
     mt_selected := mp_configured n, mt_revision := mp_revision n, mt_dirty := False, mt_loaded := True\<rparr>"

definition normalized :: "jsv option \<Rightarrow> monitor_payload option" where
  "normalized answer = (case answer of None \<Rightarrow> None | Some v \<Rightarrow> normalizeConfigurationPayload (payload_of v))"

definition configuration_answered :: "nat \<Rightarrow> nat \<Rightarrow> bool \<Rightarrow> after \<Rightarrow> jsv option \<Rightarrow> tab \<Rightarrow> tab" where
  "configuration_answered n version quiet k answer s =
     (if n \<noteq> mt_sequence s then go_on k False s
      else (case normalized answer of
          None \<Rightarrow> go_on k True (if quiet then s else notify ConfigurationFailed s)
        | Some p \<Rightarrow> go_on k False
            (if mt_dirty s \<or> mt_edit_version s \<noteq> version then merge_configuration p s else replace_configuration p s)))"

definition fetchRuns :: "bool \<Rightarrow> after \<Rightarrow> tab \<Rightarrow> tab" where
  "fetchRuns quiet k s =
     (let n = mt_runs_sequence s + 1
      in ask GET runs_path [(js ''limit'', JNum (num 20))] (Runs n quiet k) (s\<lparr>mt_runs_sequence := n\<rparr>))"

definition items_of :: "jsv \<Rightarrow> jsv \<Rightarrow> jsv list" where
  "items_of payload items = (case payload of JArr vs \<Rightarrow> vs | _ \<Rightarrow> loose_list items)"

definition runs_answered :: "nat \<Rightarrow> bool \<Rightarrow> after \<Rightarrow> jsv option \<Rightarrow> tab \<Rightarrow> tab" where
  "runs_answered n quiet k answer s =
     (if n \<noteq> mt_runs_sequence s then go_on k False s
      else (case answer of
          None \<Rightarrow> go_on k True (if quiet then s else notify RunsFailed s)
        | Some v \<Rightarrow> let p = payload_of v in go_on k False (s\<lparr>mt_runs := items_of p (jprop p (js ''items''))\<rparr>)))"

definition fetchBackupIPs :: "bool \<Rightarrow> after \<Rightarrow> tab \<Rightarrow> tab" where
  "fetchBackupIPs quiet k s =
     (let n = mt_backup_sequence s + 1
      in ask GET backup_path [] (Backups n quiet k)
           (s\<lparr>mt_backup_sequence := n, mt_backup_loading := (mt_backup_loading s \<or> \<not> quiet)\<rparr>))"

definition listed_backups :: "jsv \<Rightarrow> backup_ip list" where
  "listed_backups p =
     filter (\<lambda>i. num_lt (num 0) (bk_id i) \<and> bk_ip i \<noteq> []) (map (\<lambda>(i, raw). normalizeBackupIP i raw)
       (enumerate 0 (items_of p (coalesce (jprop p (js ''items''))
          (coalesce (jprop p (js ''backup_ips'')) (jprop p (js ''data'')))))))"

definition backups_answered :: "nat \<Rightarrow> bool \<Rightarrow> after \<Rightarrow> jsv option \<Rightarrow> tab \<Rightarrow> tab" where
  "backups_answered n quiet k answer s =
     (let quieten = (\<lambda>t. if quiet then t else t\<lparr>mt_backup_loading := False\<rparr>)
      in if n \<noteq> mt_backup_sequence s then go_on k False s
         else (case answer of
             None \<Rightarrow> go_on k True (quieten (if quiet then s else notify BackupsFailed s))
           | Some v \<Rightarrow>
               let items = listed_backups (payload_of v)
               in go_on k False (quieten (s\<lparr>mt_backups := items,
                    mt_chosen := filter (\<lambda>i. list_ex (\<lambda>b. bk_id b = i \<and> \<not> bk_used b) items) (mt_chosen s)\<rparr>))))"

definition refresh :: "bool \<Rightarrow> tab \<Rightarrow> tab" where
  "refresh quiet s =
     (let q = (if quiet then 0 else mt_loading_sequence s + 1); i = length (mt_refreshes s);
          s' = s\<lparr>mt_loading_sequence := (if quiet then mt_loading_sequence s else q), mt_loading := (mt_loading s \<or> \<not> quiet),
            mt_refreshes := mt_refreshes s @ [(3, q)]\<rparr>
      in fetchBackupIPs quiet (PartOf i) (fetchRuns quiet (PartOf i) (fetchConfiguration quiet (PartOf i) s')))"

definition clearRuns :: "tab \<Rightarrow> tab" where
  "clearRuns s =
     (if mt_clearing s then s
      else ask DELETE runs_path [] Clearing (s\<lparr>mt_clearing := True, mt_runs_sequence := mt_runs_sequence s + 1\<rparr>))"

text \<open>\<open>run.status\<close> on \<open>null\<close> throws inside the updater of React; runs are taken to be objects here.\<close>

definition still_running :: "jsv \<Rightarrow> bool" where
  "still_running run \<longleftrightarrow> lower (to_str (jor (jprop run (js ''status'')) (JStr []))) = js ''running''"

definition clear_answered :: "jsv option \<Rightarrow> tab \<Rightarrow> tab" where
  "clear_answered answer s =
     (case answer of
        None \<Rightarrow> (notify ClearFailed s)\<lparr>mt_clearing := False\<rparr>
      | Some v \<Rightarrow> fetchRuns True EndClear (notify (Cleared (number0 (jprop (payload_of v) (js ''deleted''))))
          (s\<lparr>mt_runs := filter still_running (mt_runs s)\<rparr>)))"

section \<open>Editing\<close>

definition markEdited :: "tab \<Rightarrow> tab" where
  "markEdited s = s\<lparr>mt_edit_version := mt_edit_version s + 1, mt_dirty := True\<rparr>"

definition updateDraft :: "jnum \<Rightarrow> (monitor_draft \<Rightarrow> monitor_draft) \<Rightarrow> tab \<Rightarrow> tab" where
  "updateDraft i patch s =
     (case mt_drafts s i of None \<Rightarrow> s | Some d \<Rightarrow> markEdited (s\<lparr>mt_drafts := (mt_drafts s)(i := Some (patch d))\<rparr>))"

datatype setting = Enabled bool | Interval jsv | Timeout jsv | FailureThreshold jsv | SuccessThreshold jsv

fun apply_setting :: "setting \<Rightarrow> monitor_draft \<Rightarrow> monitor_draft" where
  "apply_setting (Enabled b) d = d\<lparr>md_enabled := b\<rparr>"
| "apply_setting (Interval v) d = d\<lparr>md_interval := number0 v\<rparr>"
| "apply_setting (Timeout v) d = d\<lparr>md_timeout := number0 v\<rparr>"
| "apply_setting (FailureThreshold v) d = d\<lparr>md_failure := number0 v\<rparr>"
| "apply_setting (SuccessThreshold v) d = d\<lparr>md_success := number0 v\<rparr>"

definition on_source :: "jstr \<Rightarrow> (entry_target \<Rightarrow> entry_target) \<Rightarrow> monitor_draft \<Rightarrow> monitor_draft" where
  "on_source key f d = d\<lparr>md_targets := map (\<lambda>t. if tg_source t = key then f t else t) (md_targets d)\<rparr>"

definition set_port :: "jstr \<Rightarrow> jsv \<Rightarrow> monitor_draft \<Rightarrow> monitor_draft" where
  "set_port key port = on_source key (\<lambda>t. t\<lparr>tg_port := number0 port\<rparr>)"

definition set_auto_split :: "jstr \<Rightarrow> bool \<Rightarrow> monitor_draft \<Rightarrow> monitor_draft" where
  "set_auto_split key enabled = on_source key (\<lambda>t. t\<lparr>tg_auto_split := enabled\<rparr>)"

definition selectPolicies :: "jsv list \<Rightarrow> tab \<Rightarrow> tab" where
  "selectPolicies keys s =
     (let selectable = map py_id (filter isPolicySelectable (mt_policies s))
      in markEdited (s\<lparr>mt_selected := filter (\<lambda>i. i \<in> set selectable) (uniqueIDs keys)\<rparr>))"

definition selectPolicy :: "jnum \<Rightarrow> bool \<Rightarrow> tab \<Rightarrow> tab" where
  "selectPolicy i selected s =
     selectPolicies (map JNum (if selected then mt_selected s @ [i] else filter (\<lambda>j. j \<noteq> i) (mt_selected s))) s"

section \<open>Saving and running\<close>

definition enabled_in :: "drafts \<Rightarrow> jnum \<Rightarrow> bool" where
  "enabled_in drafts i = (case drafts i of None \<Rightarrow> False | Some d \<Rightarrow> md_enabled d)"

definition save_body :: "tab \<Rightarrow> jobj" where
  "save_body s = [(js ''revision'', JNum (mt_revision s)), (js ''items'', JArr (List.map_filter
     (\<lambda>i. map_option (\<lambda>d. JObj (monitor_item i d)) (mt_drafts s i)) (mt_selected s)))]"

text \<open>What a handler does after a save that did not come about.\<close>

definition save_given_up :: "bool \<Rightarrow> tab \<Rightarrow> tab" where
  "save_given_up run s = (if run then s\<lparr>mt_running := False\<rparr> else s)"

definition saveMonitors :: "bool \<Rightarrow> tab \<Rightarrow> tab" where
  "saveMonitors run s =
     (if mt_saving s then save_given_up run s
      else (case monitor_validate (mt_policies s) (mt_selected s) (mt_drafts s) of
          Some e \<Rightarrow> save_given_up run (notify (Refused e) s)
        | None \<Rightarrow> ask PUT monitor_path (save_body s)
            (Saving (mt_edit_version s) (filter (enabled_in (mt_drafts s)) (mt_selected s)) run)
            (s\<lparr>mt_saving := True, mt_sequence := mt_sequence s + 1\<rparr>)))"

definition start_run :: "jnum list \<Rightarrow> tab \<Rightarrow> tab" where
  "start_run ids = ask POST (monitor_path @ js ''/run'') [(js ''policy_ids'', JArr (map JNum ids))] Starting"

definition save_answered :: "nat \<Rightarrow> jnum list \<Rightarrow> bool \<Rightarrow> jsv option \<Rightarrow> tab \<Rightarrow> tab" where
  "save_answered version ids run answer s =
     (let s' = (if answer = None then s else s\<lparr>mt_sequence := mt_sequence s + 1\<rparr>)
      in case normalized answer of
           None \<Rightarrow> save_given_up run ((notify SaveFailed s')\<lparr>mt_saving := False\<rparr>)
         | Some p \<Rightarrow>
             let newer = mt_edit_version s \<noteq> version;
                 t = (if newer then (merge_configuration p s')\<lparr>mt_revision := mp_revision p, mt_dirty := True\<rparr>
                      else replace_configuration p s');
                 u = (if run then t else notify (if newer then SavedPartly else Saved) t)\<lparr>mt_saving := False\<rparr>
             in if run then start_run ids u else u)"

definition runNow :: "tab \<Rightarrow> tab" where
  "runNow s =
     (if mt_running s \<or> mt_saving s then s
      else if \<not> list_ex (enabled_in (mt_drafts s)) (mt_selected s) then notify NothingEnabled s
      else saveMonitors True (s\<lparr>mt_running := True\<rparr>))"

definition start_answered :: "jsv option \<Rightarrow> tab \<Rightarrow> tab" where
  "start_answered answer s =
     (case answer of
        None \<Rightarrow> (notify RunFailed s)\<lparr>mt_running := False\<rparr>
      | Some v \<Rightarrow> let p = payload_of v
          in fetchRuns True EndRun (notify (RunStarted (coalesce (jprop p (js ''run_id'')) (jprop p (js ''id'')))) s))"

section \<open>Spare addresses\<close>

definition new_backup :: "backup_input \<Rightarrow> jsv" where
  "new_backup i = JObj [(js ''name'', JStr (bi_name i)), (js ''ip'', JStr (bi_ip i)), (js ''port'', JNum (bi_port i)),
     (js ''enabled'', JBool True)]"

definition createBackupIPs :: "url_host \<Rightarrow> tab \<Rightarrow> tab" where
  "createBackupIPs h s =
     (let parsed = parseBackupIPLines h (mt_batch_text s) (mt_batch_port s)
      in if mt_batch_saving s then s
         else if pl_errors parsed \<noteq> [] then notify (LinesRefused (pl_errors parsed)) s
         else if pl_items parsed = [] then notify NothingEntered s
         else ask POST backup_path [(js ''items'', JArr (map new_backup (pl_items parsed)))]
           (Creating (length (pl_items parsed))) (s\<lparr>mt_batch_saving := True\<rparr>))"

definition create_answered :: "nat \<Rightarrow> jsv option \<Rightarrow> tab \<Rightarrow> tab" where
  "create_answered asked answer s =
     (case answer of
        None \<Rightarrow> (notify CreateFailed s)\<lparr>mt_batch_saving := False\<rparr>
      | Some v \<Rightarrow>
          let n = length (loose_list (jprop (payload_of v) (js ''items'')))
          in fetchBackupIPs True EndBatchSave (notify (Created (if n = 0 then asked else n))
               (s\<lparr>mt_batch_open := False, mt_batch_text := []\<rparr>)))"

datatype backup_patch = Enable bool | Edited jstr jstr jnum

definition backup_body :: "jstr \<Rightarrow> jnum \<Rightarrow> backup_patch \<Rightarrow> backup_ip \<Rightarrow> jobj" where
  "backup_body ip port patch item =
     [(js ''name'', JStr (or_text (trim (case patch of Enable _ \<Rightarrow> bk_name item | Edited name _ _ \<Rightarrow> name)) ip)),
      (js ''ip'', JStr ip), (js ''port'', JNum port),
      (js ''enabled'', JBool (case patch of Enable b \<Rightarrow> b | Edited _ _ _ \<Rightarrow> bk_enabled item)),
      (js ''check_interval_sec'', JNum (numberValue (oget (js ''check_interval_sec'') (bk_raw item)) (num 30))),
      (js ''tcp_timeout_ms'', JNum (numberValue (oget (js ''tcp_timeout_ms'') (bk_raw item)) (num 3000))),
      (js ''sort'', JNum (number0 (oget (js ''sort'') (bk_raw item))))]"

definition backup_item_path :: "jnum \<Rightarrow> jstr" where
  "backup_item_path i = backup_path @ [47] @ num_str i"

definition updateBackupIP :: "url_host \<Rightarrow> bool \<Rightarrow> backup_ip \<Rightarrow> backup_patch \<Rightarrow> tab \<Rightarrow> tab" where
  "updateBackupIP h dialog item patch s =
     (let ip = normalizeIPLiteral h (case patch of Enable _ \<Rightarrow> bk_ip item | Edited _ ip _ \<Rightarrow> ip);
          port = number0 (JNum (case patch of Enable _ \<Rightarrow> bk_port item | Edited _ _ port \<Rightarrow> port))
      in if mt_action s \<noteq> None then s
         else if ip = [] then notify BadBackupIP s
         else if out_of port 1 65535 then notify BadBackupPort s
         else ask PUT (backup_item_path (bk_id item)) (backup_body ip port patch item) (Updating dialog)
           (s\<lparr>mt_action := Some (bk_id item)\<rparr>))"

definition update_answered :: "bool \<Rightarrow> jsv option \<Rightarrow> tab \<Rightarrow> tab" where
  "update_answered dialog answer s =
     (case answer of
        None \<Rightarrow> (notify UpdateFailed s)\<lparr>mt_action := None\<rparr>
      | Some v \<Rightarrow> fetchBackupIPs True (EndAction dialog) (notify BackupUpdated s))"

definition saveEditingBackupIP :: "url_host \<Rightarrow> tab \<Rightarrow> tab" where
  "saveEditingBackupIP h s =
     (case mt_editing s of
        None \<Rightarrow> s
      | Some d \<Rightarrow> (case find (\<lambda>b. bk_id b = eb_id d) (mt_backups s) of
            None \<Rightarrow> (notify BackupGone s)\<lparr>mt_editing := None\<rparr>
          | Some item \<Rightarrow> updateBackupIP h True item (Edited (eb_name d) (eb_ip d) (eb_port d)) s))"

definition deleteBackupIP :: "jnum \<Rightarrow> tab \<Rightarrow> tab" where
  "deleteBackupIP i s =
     (if mt_action s \<noteq> None then s
      else ask DELETE (backup_item_path i) [] (Deleting i) (s\<lparr>mt_action := Some i\<rparr>))"

definition delete_answered :: "jnum \<Rightarrow> jsv option \<Rightarrow> tab \<Rightarrow> tab" where
  "delete_answered i answer s =
     (case answer of
        None \<Rightarrow> (notify DeleteFailed s)\<lparr>mt_action := None\<rparr>
      | Some v \<Rightarrow> fetchBackupIPs True (EndAction False) ((notify BackupDeleted s)\<lparr>
          mt_backups := filter (\<lambda>b. bk_id b \<noteq> i) (mt_backups s), mt_chosen := filter (\<lambda>j. j \<noteq> i) (mt_chosen s)\<rparr>))"

datatype scope = Selected | Faulted | All

definition scope_value :: "scope \<Rightarrow> jsv" where
  "scope_value sc = JStr (case sc of Selected \<Rightarrow> js ''selected'' | Faulted \<Rightarrow> js ''faulty'' | All \<Rightarrow> js ''all'')"

definition deleteBackupIPs :: "scope \<Rightarrow> tab \<Rightarrow> tab" where
  "deleteBackupIPs sc s =
     (let ids = uniqueIDs (map JNum (mt_chosen s))
      in if mt_batch_deleting s \<or> mt_action s \<noteq> None then s
         else if sc = Selected \<and> ids = [] then notify NothingSelected s
         else ask POST (backup_path @ js ''/delete'')
           ((js ''scope'', scope_value sc) # (if sc = Selected then [(js ''ids'', JArr (map JNum ids))] else []))
           DeletingMany (s\<lparr>mt_batch_deleting := True\<rparr>))"

definition delete_many_answered :: "jsv option \<Rightarrow> tab \<Rightarrow> tab" where
  "delete_many_answered answer s =
     (case answer of
        None \<Rightarrow> (notify ManyFailed s)\<lparr>mt_batch_deleting := False\<rparr>
      | Some v \<Rightarrow>
          let p = payload_of v; n = (\<lambda>k. number0 (jprop p (js k)))
          in fetchBackupIPs True EndDelete
               ((notify (ManyDeleted (n ''deleted'') (n ''skipped_in_use'') (n ''skipped_not_found'')) s)\<lparr>mt_chosen := []\<rparr>))"

definition refreshBackupIP :: "jnum \<Rightarrow> tab \<Rightarrow> tab" where
  "refreshBackupIP i s =
     (if mt_action s \<noteq> None then s
      else ask POST (backup_path @ js ''/refresh'') [(js ''ids'', JArr [JNum i])] Checking (s\<lparr>mt_action := Some i\<rparr>))"

definition check_answered :: "jsv option \<Rightarrow> tab \<Rightarrow> tab" where
  "check_answered answer s =
     (case answer of
        None \<Rightarrow> (notify CheckFailed s)\<lparr>mt_action := None\<rparr>
      | Some v \<Rightarrow> fetchBackupIPs True (EndAction False) (notify CheckAsked s))"

section \<open>Steps\<close>

datatype monitor_event =
    Refresh bool
  | Setting jnum setting
  | Port jnum jstr jsv
  | AutoSplit jnum jstr bool
  | SelectPolicies "jsv list"
  | SelectPolicy jnum bool
  | Save
  | RunNow
  | ClearRuns
  | BatchText jstr
  | BatchPort jsv
  | OpenBatch bool
  | CreateBackups
  | UpdateBackup backup_ip bool
  | EditBackup "edited_backup option"
  | SaveEditing
  | DeleteBackup jnum
  | DeleteBackups scope
  | RecheckBackup jnum
  | ChooseBackups "jsv list"
  | Answer nat "jsv option" \<comment> \<open>the answer to one of the pending requests\<close>

definition answered :: "pending \<Rightarrow> jsv option \<Rightarrow> tab \<Rightarrow> tab" where
  "answered p answer = (case p of
      Configuration n version quiet k \<Rightarrow> configuration_answered n version quiet k answer
    | Runs n quiet k \<Rightarrow> runs_answered n quiet k answer
    | Backups n quiet k \<Rightarrow> backups_answered n quiet k answer
    | Saving version ids run \<Rightarrow> save_answered version ids run answer
    | Starting \<Rightarrow> start_answered answer
    | Clearing \<Rightarrow> clear_answered answer
    | Creating n \<Rightarrow> create_answered n answer
    | Updating dialog \<Rightarrow> update_answered dialog answer
    | Deleting i \<Rightarrow> delete_answered i answer
    | DeletingMany \<Rightarrow> delete_many_answered answer
    | Checking \<Rightarrow> check_answered answer)"

definition react :: "url_host \<Rightarrow> monitor_event \<Rightarrow> tab \<Rightarrow> tab" where
  "react h e s = (case e of
      Refresh quiet \<Rightarrow> refresh quiet s
    | Setting i x \<Rightarrow> updateDraft i (apply_setting x) s
    | Port i key v \<Rightarrow> updateDraft i (set_port key v) s
    | AutoSplit i key b \<Rightarrow> updateDraft i (set_auto_split key b) s
    | SelectPolicies keys \<Rightarrow> selectPolicies keys s
    | SelectPolicy i b \<Rightarrow> selectPolicy i b s
    | Save \<Rightarrow> saveMonitors False s
    | RunNow \<Rightarrow> runNow s
    | ClearRuns \<Rightarrow> clearRuns s
    | BatchText t \<Rightarrow> s\<lparr>mt_batch_text := t\<rparr>
    | BatchPort v \<Rightarrow> s\<lparr>mt_batch_port := numberValue v default_port\<rparr>
    | OpenBatch b \<Rightarrow> if b \<or> \<not> mt_batch_saving s then s\<lparr>mt_batch_open := b\<rparr> else s
    | CreateBackups \<Rightarrow> createBackupIPs h s
    | UpdateBackup item b \<Rightarrow> updateBackupIP h False item (Enable b) s
    | EditBackup d \<Rightarrow> if d = None \<and> mt_action s \<noteq> None then s else s\<lparr>mt_editing := d\<rparr>
    | SaveEditing \<Rightarrow> saveEditingBackupIP h s
    | DeleteBackup i \<Rightarrow> deleteBackupIP i s
    | DeleteBackups sc \<Rightarrow> deleteBackupIPs sc s
    | RecheckBackup i \<Rightarrow> refreshBackupIP i s
    | ChooseBackups keys \<Rightarrow> s\<lparr>mt_chosen := uniqueIDs keys\<rparr>
    | Answer n a \<Rightarrow>
        if n < length (mt_pending s)
        then answered (mt_pending s ! n) a (s\<lparr>mt_pending := remove_at n (mt_pending s)\<rparr>) else s)"

inductive monitor_reach :: "url_host \<Rightarrow> tab \<Rightarrow> tab \<Rightarrow> bool" for h s where
  here: "monitor_reach h s s"
| step: "monitor_reach h s t \<Longrightarrow> monitor_reach h s (react h e t)"

end
