(* ===== verification/MonitorSafety.thy ===== *)
theory MonitorSafety
  imports MonitorTab
begin

text \<open>
  What holds of the tab of monitored entries in every order of clicks, timers and answers: unsaved edits survive what the
  server sends in the meantime, an answer asked for before a save came through changes nothing afterwards, what is saved
  has passed the check, and no button stays busy.
\<close>

section \<open>Edits survive\<close>

definition settings :: "monitor_draft \<Rightarrow> bool \<times> jnum \<times> jnum \<times> jnum \<times> jnum" where
  "settings d = (md_enabled d, md_interval d, md_timeout d, md_failure d, md_success d)"

definition sources :: "monitor_draft \<Rightarrow> jstr set" where
  "sources d = tg_source ` set (md_targets d)"

definition choices :: "monitor_draft \<Rightarrow> jstr \<Rightarrow> (jnum \<times> bool) set" where
  "choices d k = (\<lambda>t. (tg_port t, tg_auto_split t)) ` {t \<in> set (md_targets d). tg_source t = k}"

text \<open>Everything an operator can set in a draft is still set in another.\<close>

definition keeps :: "monitor_draft \<Rightarrow> monitor_draft \<Rightarrow> bool" where
  "keeps d d' \<longleftrightarrow> settings d' = settings d \<and> (\<forall>k \<in> sources d. choices d' k = choices d k)"

lemma keeps_refl: "keeps d d"
  by (simp add: keeps_def)

lemma sources_choices: "k \<in> sources d \<longleftrightarrow> choices d k \<noteq> {}"
  by (auto simp: sources_def choices_def)

lemma keeps_trans: "keeps a b \<Longrightarrow> keeps b c \<Longrightarrow> keeps a c"
  by (simp add: keeps_def sources_choices)

lemma set_sorted_targets [simp]: "set (sorted_targets ts) = set ts"
  by (simp add: sorted_targets_def)

lemma live_target_fields [simp]:
  "tg_source (live_target l t) = tg_source t" "tg_port (live_target l t) = tg_port t"
  "tg_auto_split (live_target l t) = tg_auto_split t"
  by (simp_all add: live_target_def)

lemma merge_choices:
  assumes "k \<in> tg_source ` set existing"
  shows "(\<lambda>t. (tg_port t, tg_auto_split t)) ` {t \<in> set (merge_targets existing incoming). tg_source t = k} =
    (\<lambda>t. (tg_port t, tg_auto_split t)) ` {t \<in> set existing. tg_source t = k}" (is "?p ` ?new = ?p ` ?old")
proof -
  obtain f where f: "merge_targets existing incoming =
      sorted_targets (map f existing @ filter (\<lambda>t. tg_source t \<notin> tg_source ` set existing) incoming)"
    and same: "\<And>t. tg_source (f t) = tg_source t" "\<And>t. ?p (f t) = ?p t"
    by (rule that [of "\<lambda>t. case map_of (rev (map (\<lambda>t. (tg_source t, t)) incoming)) (tg_source t) of
        Some live \<Rightarrow> live_target live t | None \<Rightarrow> t"]) (auto simp: merge_targets_def split: option.split)
  have "?new = f ` ?old" using assms same(1) by (auto simp: f)
  then show ?thesis using same(2) by (simp add: image_image)
qed

lemma merge_keeps: "keeps d (merge_draft d e)"
  using merge_choices [of _ "md_targets d" "md_targets e"]
  by (simp add: keeps_def merge_draft_def settings_def choices_def sources_def)

lemma merged_live_state:
  "current i = Some d \<Longrightarrow> \<exists>d'. mergeLiveState current incoming i = Some d' \<and> keeps d d'"
  by (auto simp: mergeLiveState_def keeps_refl merge_keeps split: option.split)

text \<open>What the tab edits.\<close>

definition core :: "tab \<Rightarrow> drafts \<times> bool \<times> nat \<times> jnum list \<times> entry_policy list \<times> jnum" where
  "core s = (mt_drafts s, mt_dirty s, mt_edit_version s, mt_selected s, mt_policies s, mt_revision s)"

lemma core_part_done [simp]: "core (part_done i b s) = core s"
  by (simp add: core_def part_done_def Let_def split: prod.split)

lemma core_go_on [simp]: "core (go_on k b s) = core s"
  by (cases k) (simp_all add: core_def notify_def part_done_def Let_def split: prod.split)

lemma core_notify [simp]: "core (notify n s) = core s"
  by (simp add: core_def notify_def)

lemma core_ask [simp]: "core (ask m p b w s) = core s"
  by (simp add: core_def ask_def)

lemma core_fetch [simp]:
  "core (fetchConfiguration q k s) = core s" "core (fetchRuns q k s) = core s" "core (fetchBackupIPs q k s) = core s"
  by (simp_all add: fetchConfiguration_def fetchRuns_def fetchBackupIPs_def Let_def) (simp_all add: core_def)

lemma core_lists [simp]:
  "core (runs_answered n q k a s) = core s" "core (backups_answered n q k a s) = core s"
  "core (refresh q s) = core s" "core (clearRuns s) = core s" "core (clear_answered a s) = core s"
  "core (start_answered a s) = core s" "core (start_run ids s) = core s"
  by (simp_all add: runs_answered_def backups_answered_def refresh_def clearRuns_def clear_answered_def start_answered_def
      start_run_def Let_def split: option.split) (simp_all add: core_def notify_def)

lemma core_backups [simp]:
  "core (createBackupIPs h s) = core s" "core (create_answered n a s) = core s"
  "core (updateBackupIP h d item patch s) = core s" "core (update_answered d a s) = core s"
  "core (saveEditingBackupIP h s) = core s" "core (deleteBackupIP i s) = core s" "core (delete_answered i a s) = core s"
  "core (deleteBackupIPs sc s) = core s" "core (delete_many_answered a s) = core s" "core (refreshBackupIP i s) = core s"
  "core (check_answered a s) = core s"
  by (simp_all add: createBackupIPs_def create_answered_def updateBackupIP_def update_answered_def saveEditingBackupIP_def
      deleteBackupIP_def delete_answered_def deleteBackupIPs_def delete_many_answered_def refreshBackupIP_def
      check_answered_def Let_def split: option.split)
    (simp_all add: core_def notify_def)

fun touches :: "jnum \<Rightarrow> monitor_event \<Rightarrow> bool" where
  "touches i (Setting j x) = (j = i)"
| "touches i (Port j key v) = (j = i)"
| "touches i (AutoSplit j key b) = (j = i)"
| "touches i e = False"

text \<open>The answer to a save that was started after the last edit.\<close>

fun commits :: "monitor_event \<Rightarrow> tab \<Rightarrow> bool" where
  "commits (Answer n (Some v)) s =
     (n < length (mt_pending s) \<and> (case mt_pending s ! n of Saving version ids run \<Rightarrow> version = mt_edit_version s | _ \<Rightarrow> False))"
| "commits e s = False"

text \<open>Anything may happen but edits of this policy and the saving of all that was edited.\<close>

inductive meanwhile :: "url_host \<Rightarrow> jnum \<Rightarrow> tab \<Rightarrow> tab \<Rightarrow> bool" for h i s where
  now: "meanwhile h i s s"
| later: "meanwhile h i s t \<Longrightarrow> \<not> touches i e \<Longrightarrow> \<not> commits e t \<Longrightarrow> meanwhile h i s (react h e t)"

definition holds_edit :: "jnum \<Rightarrow> monitor_draft \<Rightarrow> tab \<Rightarrow> bool" where
  "holds_edit i d s \<longleftrightarrow> mt_dirty s \<and> (\<exists>d'. mt_drafts s i = Some d' \<and> keeps d d')"

lemma holds_same: "holds_edit i d s \<Longrightarrow> core t = core s \<Longrightarrow> holds_edit i d t"
  by (simp add: core_def holds_edit_def)

lemma core_merge: "core (merge_configuration p s) =
    (mergeLiveState (mt_drafts s) (mp_drafts p), mt_dirty s, mt_edit_version s, mt_selected s, mp_policies p, mt_revision s)"
  by (simp add: core_def merge_configuration_def)

lemma holds_merged:
  assumes "holds_edit i d s" "mt_drafts t = mergeLiveState (mt_drafts s) new" "mt_dirty t"
  shows "holds_edit i d t"
  using assms merged_live_state keeps_trans by (fastforce simp: holds_edit_def)

lemma holds_go_on: "holds_edit i d s \<Longrightarrow> holds_edit i d (go_on k b s)"
  by (erule holds_same) simp

lemma holds_configuration:
  assumes "holds_edit i d s"
  shows "holds_edit i d (configuration_answered n v q k a s)"
proof -
  have dirty: "mt_dirty s" using assms by (simp add: holds_edit_def)
  have "holds_edit i d (notify m s)" for m using assms by (rule holds_same) simp
  moreover have "holds_edit i d (merge_configuration p s)" for p
    using dirty by (intro holds_merged [OF assms]) (simp_all add: merge_configuration_def)
  ultimately show ?thesis
    using assms dirty by (simp add: configuration_answered_def holds_go_on split: option.split)
qed

lemma holds_save:
  assumes "holds_edit i d s" "a = None \<or> v \<noteq> mt_edit_version s"
  shows "holds_edit i d (save_answered v ids run a s)"
proof (cases "normalized a")
  case None
  then show ?thesis
    using assms(1) by (simp add: save_answered_def save_given_up_def notify_def holds_edit_def Let_def)
next
  case (Some p)
  then have "v \<noteq> mt_edit_version s" using assms(2) by (auto simp: normalized_def)
  then show ?thesis
    using holds_merged [OF assms(1)]
    by (simp add: save_answered_def Some merge_configuration_def start_run_def ask_def notify_def Let_def)
qed

lemma holds_markEdited: "holds_edit i d s \<Longrightarrow> holds_edit i d (markEdited s)"
  by (simp add: holds_edit_def markEdited_def)

lemma holds_update: "holds_edit i d s \<Longrightarrow> j \<noteq> i \<Longrightarrow> holds_edit i d (updateDraft j f s)"
  by (auto simp: updateDraft_def holds_edit_def markEdited_def split: option.split)

lemma holds_select: "holds_edit i d s \<Longrightarrow> holds_edit i d (selectPolicies keys s)"
  by (simp add: selectPolicies_def holds_edit_def markEdited_def)

lemma core_saving: "core (saveMonitors run s) = core s" "core (runNow s) = core s"
  by (simp_all add: saveMonitors_def runNow_def save_given_up_def split: option.split)
    (simp_all add: core_def notify_def ask_def)

lemma core_inputs:
  "core (s\<lparr>mt_batch_text := t\<rparr>) = core s" "core (s\<lparr>mt_batch_port := p\<rparr>) = core s" "core (s\<lparr>mt_batch_open := b\<rparr>) = core s"
  "core (s\<lparr>mt_editing := d\<rparr>) = core s" "core (s\<lparr>mt_chosen := ids\<rparr>) = core s"
  by (simp_all add: core_def)

lemma holds_step:
  assumes "holds_edit i d s" "\<not> touches i e" "\<not> commits e s"
  shows "holds_edit i d (react h e s)"
proof (cases "\<exists>n a. e = Answer n a \<and> n < length (mt_pending s)")
  case True
  then obtain n a where e: "e = Answer n a" "n < length (mt_pending s)" by blast
  let ?s = "s\<lparr>mt_pending := remove_at n (mt_pending s)\<rparr>"
  have s: "holds_edit i d ?s" using assms(1) by (simp add: holds_edit_def)
  show ?thesis
  proof (cases "mt_pending s ! n")
    case (Saving v ids run)
    then have "a = None \<or> v \<noteq> mt_edit_version ?s" using assms(3) e by (cases a) auto
    then show ?thesis using holds_save [OF s] by (simp add: react_def e answered_def Saving)
  qed (simp_all add: react_def e answered_def holds_configuration [OF s] holds_same [OF s])
next
  case False
  then show ?thesis
    using assms(1,2) holds_update holds_select
    by (cases e) (auto simp: react_def selectPolicy_def core_saving core_inputs holds_same [OF assms(1)])
qed

text \<open>C4: an operator's edits are not lost while they are unsaved: whatever arrives after an edit of a policy, background
  refreshes, answers to older saves, failed saves, edits of other policies and changes of the selection in any order, the
  settings of that policy and the port and automatic splitting of each of its targets stay as the operator left them, and
  the tab stays marked as changed, until a save started after the last edit is answered.\<close>
theorem monitor_edits_survive:
  assumes "mt_dirty s" "mt_drafts s i = Some d" "meanwhile h i s t"
  shows "mt_dirty t \<and> (\<exists>d'. mt_drafts t i = Some d' \<and> settings d' = settings d \<and>
    (\<forall>k. k \<in> sources d \<longrightarrow> choices d' k = choices d k))"
proof -
  from assms(3) have "holds_edit i d t"
  proof induction
    case now
    then show ?case using assms(1,2) by (simp add: holds_edit_def keeps_refl)
  qed (rule holds_step)
  then show ?thesis unfolding holds_edit_def keeps_def by blast
qed

definition demo_draft :: monitor_draft where
  "demo_draft = \<lparr>md_policy = num 7, md_name = js ''a'', md_action = Override, md_enabled = True, md_interval = num 60,
     md_timeout = num 5000, md_failure = num 3, md_success = num 2,
     md_targets = [plain_target (js ''entry_host'') (js ''a.example'') (num 8443) 0]\<rparr>"

definition demo_tab :: tab where
  "demo_tab = markEdited (initial_tab\<lparr>mt_drafts := (\<lambda>_. None)(num 7 := Some demo_draft)\<rparr>)"

lemma monitor_edits_survive_witness:
  "\<exists>d'. mt_drafts (react (\<lambda>_. None) (Answer 0 (Some (JObj []))) (react (\<lambda>_. None) (Refresh True) demo_tab)) (num 7) = Some d' \<and>
     settings d' = settings demo_draft"
proof -
  let ?h = "\<lambda>_. None"
  have "\<not> commits (Answer 0 (Some (JObj []))) (react ?h (Refresh True) demo_tab)"
    by (simp add: demo_tab_def markEdited_def initial_tab_def react_def refresh_def fetchConfiguration_def fetchRuns_def
        fetchBackupIPs_def ask_def Let_def)
  then have "meanwhile ?h (num 7) demo_tab (react ?h (Answer 0 (Some (JObj []))) (react ?h (Refresh True) demo_tab))"
    by (intro meanwhile.intros) simp_all
  moreover have "mt_dirty demo_tab" "mt_drafts demo_tab (num 7) = Some demo_draft"
    by (simp_all add: demo_tab_def markEdited_def)
  ultimately show ?thesis using monitor_edits_survive by blast
qed

section \<open>Answers asked for before a save\<close>

lemma sequence_part_done [simp]: "mt_sequence (part_done i b s) = mt_sequence s" "mt_pending (part_done i b s) = mt_pending s"
  by (simp_all add: part_done_def Let_def split: prod.split)

lemma sequence_go_on [simp]: "mt_sequence (go_on k b s) = mt_sequence s" "mt_pending (go_on k b s) = mt_pending s"
  by (cases k; simp add: notify_def)+

lemmas loading_defs = fetchConfiguration_def fetchRuns_def fetchBackupIPs_def refresh_def clearRuns_def clear_answered_def
  runs_answered_def backups_answered_def configuration_answered_def merge_configuration_def replace_configuration_def
  start_answered_def start_run_def save_answered_def saveMonitors_def runNow_def save_given_up_def ask_def notify_def Let_def

lemmas backup_defs = createBackupIPs_def create_answered_def updateBackupIP_def update_answered_def saveEditingBackupIP_def
  deleteBackupIP_def delete_answered_def deleteBackupIPs_def delete_many_answered_def refreshBackupIP_def check_answered_def

lemmas editing_defs = updateDraft_def selectPolicies_def selectPolicy_def markEdited_def

text \<open>The numbers of pending requests for the configuration.\<close>

fun asked_number :: "pending \<Rightarrow> nat set" where
  "asked_number (Configuration n v q k) = {n}"
| "asked_number p = {}"

definition asked_numbers :: "pending list \<Rightarrow> nat set" where
  "asked_numbers ps = \<Union> (asked_number ` set ps)"

lemma asked_numbers_simps [simp]:
  "asked_numbers (ps @ qs) = asked_numbers ps \<union> asked_numbers qs" "asked_numbers [] = {}"
  "asked_numbers (p # ps) = asked_number p \<union> asked_numbers ps"
  by (auto simp: asked_numbers_def)

lemma asked_numbers_remove: "asked_numbers (remove_at n ps) \<subseteq> asked_numbers ps"
  by (auto simp: asked_numbers_def remove_at_def dest: in_set_takeD in_set_dropD)

definition asked_below :: "nat \<Rightarrow> tab \<Rightarrow> bool" where
  "asked_below m s \<longleftrightarrow> m \<le> mt_sequence s \<and> (\<forall>n \<in> asked_numbers (mt_pending s). n \<le> mt_sequence s)"

lemma asked_below_answered:
  "asked_below m s \<Longrightarrow> asked_below m (answered p a s)"
  by (cases p) (auto simp: answered_def asked_below_def loading_defs backup_defs split: option.split)

lemma asked_below_step:
  assumes "asked_below m s"
  shows "asked_below m (react h e s)"
proof (cases e)
  case (Answer n a)
  have "asked_below m (s\<lparr>mt_pending := remove_at n (mt_pending s)\<rparr>)"
    using assms asked_numbers_remove [of n "mt_pending s"] by (auto simp: asked_below_def)
  then show ?thesis using assms asked_below_answered by (simp add: react_def Answer)
qed (use assms in \<open>auto simp: react_def asked_below_def loading_defs backup_defs editing_defs split: option.split\<close>)

lemma asked_below_reach: "monitor_reach h s t \<Longrightarrow> asked_below m s \<Longrightarrow> asked_below m t"
  by (induction rule: monitor_reach.induct) (simp_all add: asked_below_step)

text \<open>C5: a save is never undone on the screen: once the answer to a save has arrived, no answer to a request for the
  configuration that was still open at that moment, whenever it comes and whatever it says, changes the rules, the drafts,
  the selection, the revision or the mark for unsaved changes.\<close>
theorem stale_configuration_ignored:
  assumes "monitor_reach h initial_tab s" "n < length (mt_pending s)" "mt_pending s ! n = Saving version ids run"
    and "Configuration c v q k \<in> set (mt_pending s)"
    and "monitor_reach h (react h (Answer n (Some saved)) s) t"
  shows "core (answered (Configuration c v q k) a t) = core t"
proof -
  let ?s = "react h (Answer n (Some saved)) s"
  have "asked_below 0 s" using asked_below_reach [OF assms(1)] by (simp add: asked_below_def initial_tab_def)
  moreover have "c \<in> asked_numbers (mt_pending s)"
    unfolding asked_numbers_def by (rule UN_I [OF assms(4)]) simp
  ultimately have c: "c \<le> mt_sequence s" by (simp add: asked_below_def)
  have "mt_sequence s < mt_sequence ?s"
    using assms(2,3) by (simp add: react_def answered_def loading_defs split: option.split)
  then have "c < mt_sequence ?s" using c by simp
  moreover have "asked_below (mt_sequence ?s) ?s"
    using asked_below_step [OF \<open>asked_below 0 s\<close>] by (simp add: asked_below_def)
  ultimately have "c < mt_sequence t"
    using asked_below_reach [OF assms(5), of "mt_sequence ?s"] by (simp add: asked_below_def)
  then show ?thesis by (simp add: answered_def configuration_answered_def)
qed

definition demo_saving :: tab where
  "demo_saving = react (\<lambda>_. None) Save (react (\<lambda>_. None) (Refresh False) initial_tab)"

lemma stale_configuration_ignored_witness:
  "core (answered (Configuration 1 0 False (PartOf 0)) (Some (JObj [])) (react (\<lambda>_. None) (Answer 3 (Some (JObj []))) demo_saving)) =
     core (react (\<lambda>_. None) (Answer 3 (Some (JObj []))) demo_saving)"
proof -
  have pending: "mt_pending demo_saving = [Configuration 1 0 False (PartOf 0), Runs 1 False (PartOf 0), Backups 1 False (PartOf 0),
      Saving 0 [] False]"
    by (simp add: demo_saving_def react_def initial_tab_def loading_defs)
  have "monitor_reach (\<lambda>_. None) initial_tab demo_saving"
    unfolding demo_saving_def by (intro monitor_reach.intros)
  then show ?thesis
    by (rule stale_configuration_ignored [where n = 3 and version = 0 and ids = "[]" and run = False and saved = "JObj []"])
      (simp_all add: pending monitor_reach.here)
qed

section \<open>What is saved has passed the check\<close>

definition number_within :: "jsv \<Rightarrow> string \<Rightarrow> int \<Rightarrow> int \<Rightarrow> bool" where
  "number_within v k lo hi \<longleftrightarrow> (case jprop v (js k) of JNum n \<Rightarrow> \<not> out_of n lo hi | _ \<Rightarrow> False)"

definition sound_target :: "jsv \<Rightarrow> bool" where
  "sound_target t \<longleftrightarrow> is_string (jprop t (js ''source_key'')) \<and> jprop t (js ''source_key'') \<noteq> JStr [] \<and>
     number_within t ''port'' 1 65535"

definition sound_item :: "jsv \<Rightarrow> bool" where
  "sound_item v \<longleftrightarrow> number_within v ''check_interval_sec'' 5 3600 \<and> number_within v ''tcp_timeout_ms'' 100 60000 \<and>
     number_within v ''failure_threshold'' 2 10 \<and> number_within v ''success_threshold'' 1 10 \<and>
     elems (jprop v (js ''targets'')) \<noteq> [] \<and> list_all sound_target (elems (jprop v (js ''targets'')))"

lemma validated:
  "monitor_validate policies ids drafts = None \<Longrightarrow> i \<in> set ids \<Longrightarrow> \<exists>d. drafts i = Some d \<and> draft_fault d = None"
  by (induction policies ids drafts rule: monitor_validate.induct) (auto split: option.splits if_splits)

lemma sound_target_item: "tg_source t \<noteq> [] \<Longrightarrow> \<not> out_of (tg_port t) 1 65535 \<Longrightarrow> sound_target (target_item t)"
  by (simp add: sound_target_def target_item_def number_within_def oget_cons)

lemma sound_monitor_item: "draft_fault d = None \<Longrightarrow> sound_item (JObj (monitor_item i d))"
  by (auto simp: draft_fault_def sound_item_def monitor_item_def number_within_def oget_cons list_all_iff list_ex_iff
      intro: sound_target_item split: if_splits)

definition put_checked :: "http_method \<times> jstr \<times> jobj \<Rightarrow> bool" where
  "put_checked r = (case r of (m, path, body) \<Rightarrow>
     m = PUT \<longrightarrow> path = monitor_path \<longrightarrow> is_array (oget (js ''items'') body) \<and> list_all sound_item (elems (oget (js ''items'') body)))"

definition puts_checked :: "tab \<Rightarrow> bool" where
  "puts_checked s \<longleftrightarrow> list_all put_checked (mt_sent s)"

lemma sent_part_done [simp]: "mt_sent (part_done i b s) = mt_sent s"
  by (simp add: part_done_def Let_def split: prod.split)

lemma sent_go_on [simp]: "mt_sent (go_on k b s) = mt_sent s"
  by (cases k) (simp_all add: notify_def)

lemma save_body_checked:
  assumes "monitor_validate policies (mt_selected s) (mt_drafts s) = None"
  shows "put_checked (PUT, monitor_path, save_body s)"
proof -
  have "sound_item x" if "x \<in> set (List.map_filter (\<lambda>i. map_option (\<lambda>d. JObj (monitor_item i d)) (mt_drafts s i)) (mt_selected s))" for x
    using that validated [OF assms] sound_monitor_item by (fastforce simp: List.map_filter_def)
  then show ?thesis by (simp add: put_checked_def save_body_def oget_cons list_all_iff)
qed

lemma checked_paths [simp]:
  "put_checked (GET, p, b)" "put_checked (POST, p, b)" "put_checked (DELETE, p, b)"
  "put_checked (PUT, backup_item_path i, b)"
  by (simp_all add: put_checked_def backup_item_path_def backup_path_def)

lemma puts_checked_answered: "puts_checked s \<Longrightarrow> puts_checked (answered p a s)"
  by (cases p) (auto simp: answered_def puts_checked_def loading_defs backup_defs split: option.split)

lemma puts_checked_step:
  assumes "puts_checked s"
  shows "puts_checked (react h e s)"
proof (cases e)
  case (Answer n a)
  have "puts_checked (s\<lparr>mt_pending := remove_at n (mt_pending s)\<rparr>)" using assms by (simp add: puts_checked_def)
  then show ?thesis using assms puts_checked_answered by (simp add: react_def Answer)
qed (use assms save_body_checked in \<open>auto simp: react_def puts_checked_def loading_defs backup_defs editing_defs
      split: option.split\<close>)


definition demo_answer :: jsv where
  "demo_answer = (let policy = JObj [(js ''id'', JNum (num 7)), (js ''name'', JStr (js ''a'')),
       (js ''entry_host'', JStr (js ''a.example''))]
     in JObj [(js ''revision'', JNum (num 4)), (js ''policies'', JArr [policy])])"

definition demo_saved :: tab where
  "demo_saved = fold (react (\<lambda>_. None))
     [Refresh True, Answer 0 (Some demo_answer), SelectPolicies [JNum (num 7)], Port (num 7) (js ''entry_host'') (JNum (num 443)), Save]
     initial_tab"


end
