(* ===== verification/MonitorBusy.thy ===== *)
theory MonitorBusy
  imports MonitorSafety
begin

text \<open>
  The busy marks of the tab of monitored entries, and the requests that hold them.
\<close>

section \<open>No button stays busy\<close>

definition held :: "(pending \<Rightarrow> bool) \<Rightarrow> tab \<Rightarrow> nat" where
  "held holder s = length (filter holder (mt_pending s))"

locale busy_flag =
  fixes flag :: "tab \<Rightarrow> bool"
    and holder :: "pending \<Rightarrow> bool"
  assumes off: "\<not> flag initial_tab"
    and kept: "held holder s = of_bool (flag s) \<Longrightarrow> held holder (react h e s) = of_bool (flag (react h e s))"
begin

lemma exact: "monitor_reach h initial_tab s \<Longrightarrow> held holder s = of_bool (flag s)"
proof (induction rule: monitor_reach.induct)
  case here
  then show ?case using off by (simp add: held_def initial_tab_def)
qed (rule kept)

lemma idle: "monitor_reach h initial_tab s \<Longrightarrow> mt_pending s = [] \<Longrightarrow> \<not> flag s"
  using exact by (fastforce simp: held_def)

lemma single: "monitor_reach h initial_tab s \<Longrightarrow> held holder s \<le> 1"
  using exact by fastforce

end

fun saves :: "pending \<Rightarrow> bool" where
  "saves (Saving v ids run) = True"
| "saves p = False"

fun runs_now :: "pending \<Rightarrow> bool" where
  "runs_now (Saving v ids run) = run"
| "runs_now Starting = True"
| "runs_now (Configuration n v q k) = (k = EndRun)"
| "runs_now (Runs n q k) = (k = EndRun)"
| "runs_now (Backups n q k) = (k = EndRun)"
| "runs_now p = False"

fun clears :: "pending \<Rightarrow> bool" where
  "clears Clearing = True"
| "clears (Configuration n v q k) = (k = EndClear)"
| "clears (Runs n q k) = (k = EndClear)"
| "clears (Backups n q k) = (k = EndClear)"
| "clears p = False"

fun creates :: "pending \<Rightarrow> bool" where
  "creates (Creating n) = True"
| "creates (Configuration n v q k) = (k = EndBatchSave)"
| "creates (Runs n q k) = (k = EndBatchSave)"
| "creates (Backups n q k) = (k = EndBatchSave)"
| "creates p = False"

fun is_action :: "after \<Rightarrow> bool" where
  "is_action (EndAction d) = True"
| "is_action k = False"

fun acts :: "pending \<Rightarrow> bool" where
  "acts (Updating d) = True"
| "acts (Deleting i) = True"
| "acts Checking = True"
| "acts (Configuration n v q k) = is_action k"
| "acts (Runs n q k) = is_action k"
| "acts (Backups n q k) = is_action k"
| "acts p = False"

fun deletes :: "pending \<Rightarrow> bool" where
  "deletes DeletingMany = True"
| "deletes (Configuration n v q k) = (k = EndDelete)"
| "deletes (Runs n q k) = (k = EndDelete)"
| "deletes (Backups n q k) = (k = EndDelete)"
| "deletes p = False"

text \<open>An answer takes the request away and lets its handler go on.\<close>

lemma held_remove_at:
  assumes "n < length (mt_pending s)"
  shows "held P s = held P (s\<lparr>mt_pending := remove_at n (mt_pending s)\<rparr>) + of_bool (P (mt_pending s ! n))"
proof -
  have "mt_pending s = take n (mt_pending s) @ (mt_pending s ! n) # drop (Suc n) (mt_pending s)"
    using assms by (rule id_take_nth_drop)
  then have "filter P (mt_pending s) = filter P (take n (mt_pending s)) @ filter P [mt_pending s ! n] @
      filter P (drop (Suc n) (mt_pending s))"
    by (metis append_Cons append_Nil filter_append)
  then show ?thesis by (simp add: held_def remove_at_def)
qed

lemma flags_part_done [simp]:
  "mt_saving (part_done i b s) = mt_saving s" "mt_running (part_done i b s) = mt_running s"
  "mt_clearing (part_done i b s) = mt_clearing s" "mt_batch_saving (part_done i b s) = mt_batch_saving s"
  "mt_action (part_done i b s) = mt_action s" "mt_batch_deleting (part_done i b s) = mt_batch_deleting s"
  by (simp_all add: part_done_def Let_def split: prod.split)

lemma flags_go_on [simp]:
  "mt_saving (go_on k b s) = mt_saving s" "mt_running (go_on k b s) = (mt_running s \<and> k \<noteq> EndRun)"
  "mt_clearing (go_on k b s) = (mt_clearing s \<and> k \<noteq> EndClear)"
  "mt_batch_saving (go_on k b s) = (mt_batch_saving s \<and> k \<noteq> EndBatchSave)"
  "mt_action (go_on k b s) = (if is_action k then None else mt_action s)"
  "mt_batch_deleting (go_on k b s) = (mt_batch_deleting s \<and> k \<noteq> EndDelete)"
  by (cases k; simp add: notify_def)+

lemma held_of_bool [simp]: "Suc n = of_bool b \<longleftrightarrow> b \<and> n = 0" "of_bool b = Suc n \<longleftrightarrow> b \<and> n = 0"
  by auto

lemma normalized_None [simp]: "normalized None = None"
  by (simp add: normalized_def)

lemmas flag_defs = answered_def loading_defs backup_defs editing_defs held_def

lemma saving_answered:
  "held saves s + of_bool (saves p) = of_bool (mt_saving s) \<Longrightarrow> held saves (answered p a s) = of_bool (mt_saving (answered p a s))"
  by (cases p) (auto simp: flag_defs split: option.split)

lemma running_answered:
  "held runs_now s + of_bool (runs_now p) = of_bool (mt_running s) \<Longrightarrow>
   held runs_now (answered p a s) = of_bool (mt_running (answered p a s))"
  by (cases p) (auto simp: flag_defs split: option.split)

lemma clearing_answered:
  "held clears s + of_bool (clears p) = of_bool (mt_clearing s) \<Longrightarrow>
   held clears (answered p a s) = of_bool (mt_clearing (answered p a s))"
  by (cases p) (auto simp: flag_defs split: option.split)

lemma creating_answered:
  "held creates s + of_bool (creates p) = of_bool (mt_batch_saving s) \<Longrightarrow>
   held creates (answered p a s) = of_bool (mt_batch_saving (answered p a s))"
  by (cases p) (auto simp: flag_defs split: option.split)

lemma acting_answered:
  "held acts s + of_bool (acts p) = of_bool (mt_action s \<noteq> None) \<Longrightarrow>
   held acts (answered p a s) = of_bool (mt_action (answered p a s) \<noteq> None)"
  by (cases p) (auto simp: flag_defs split: option.split)

lemma deleting_answered:
  "held deletes s + of_bool (deletes p) = of_bool (mt_batch_deleting s) \<Longrightarrow>
   held deletes (answered p a s) = of_bool (mt_batch_deleting (answered p a s))"
  by (cases p) (auto simp: flag_defs split: option.split)

lemma kept_by_answer:
  assumes "\<And>p a s. held P s + of_bool (P p) = of_bool (f s) \<Longrightarrow> held P (answered p a s) = of_bool (f (answered p a s))"
    and "\<And>s x. f (s\<lparr>mt_pending := x\<rparr>) = f s"
    and "held P s = of_bool (f s)"
  shows "held P (react h (Answer n a) s) = of_bool (f (react h (Answer n a) s))"
  using assms(3) assms(1) [of "s\<lparr>mt_pending := remove_at n (mt_pending s)\<rparr>" "mt_pending s ! n" a]
  by (simp add: react_def assms(2) flip: held_remove_at)

interpretation saving: busy_flag mt_saving saves
proof unfold_locales
  fix s h e
  assume k: "held saves s = of_bool (mt_saving s)"
  show "held saves (react h e s) = of_bool (mt_saving (react h e s))"
  proof (cases e)
    case (Answer n a)
    show ?thesis unfolding Answer by (rule kept_by_answer) (use k saving_answered in simp_all)
  qed (use k in \<open>auto simp: react_def flag_defs split: option.split\<close>)
qed (simp add: initial_tab_def)

interpretation running: busy_flag mt_running runs_now
proof unfold_locales
  fix s h e
  assume k: "held runs_now s = of_bool (mt_running s)"
  show "held runs_now (react h e s) = of_bool (mt_running (react h e s))"
  proof (cases e)
    case (Answer n a)
    show ?thesis unfolding Answer by (rule kept_by_answer) (use k running_answered in simp_all)
  qed (use k in \<open>auto simp: react_def flag_defs split: option.split\<close>)
qed (simp add: initial_tab_def)

interpretation clearing: busy_flag mt_clearing clears
proof unfold_locales
  fix s h e
  assume k: "held clears s = of_bool (mt_clearing s)"
  show "held clears (react h e s) = of_bool (mt_clearing (react h e s))"
  proof (cases e)
    case (Answer n a)
    show ?thesis unfolding Answer by (rule kept_by_answer) (use k clearing_answered in simp_all)
  qed (use k in \<open>auto simp: react_def flag_defs split: option.split\<close>)
qed (simp add: initial_tab_def)

interpretation creating: busy_flag mt_batch_saving creates
proof unfold_locales
  fix s h e
  assume k: "held creates s = of_bool (mt_batch_saving s)"
  show "held creates (react h e s) = of_bool (mt_batch_saving (react h e s))"
  proof (cases e)
    case (Answer n a)
    show ?thesis unfolding Answer by (rule kept_by_answer) (use k creating_answered in simp_all)
  qed (use k in \<open>auto simp: react_def flag_defs split: option.split\<close>)
qed (simp add: initial_tab_def)

interpretation acting: busy_flag "\<lambda>s. mt_action s \<noteq> None" acts
proof unfold_locales
  fix s h e
  assume k: "held acts s = of_bool (mt_action s \<noteq> None)"
  show "held acts (react h e s) = of_bool (mt_action (react h e s) \<noteq> None)"
  proof (cases e)
    case (Answer n a)
    show ?thesis unfolding Answer by (rule kept_by_answer) (use k acting_answered in simp_all)
  qed (use k in \<open>auto simp: react_def flag_defs split: option.split\<close>)
qed (simp add: initial_tab_def)

interpretation deleting: busy_flag mt_batch_deleting deletes
proof unfold_locales
  fix s h e
  assume k: "held deletes s = of_bool (mt_batch_deleting s)"
  show "held deletes (react h e s) = of_bool (mt_batch_deleting (react h e s))"
  proof (cases e)
    case (Answer n a)
    show ?thesis unfolding Answer by (rule kept_by_answer) (use k deleting_answered in simp_all)
  qed (use k in \<open>auto simp: react_def flag_defs split: option.split\<close>)
qed (simp add: initial_tab_def)

text \<open>The indicator of the whole tab: a refresh that raised it still waits for a part.\<close>

fun part_of :: "nat \<Rightarrow> pending \<Rightarrow> bool" where
  "part_of i (Configuration n v q k) = (k = PartOf i)"
| "part_of i (Runs n q k) = (k = PartOf i)"
| "part_of i (Backups n q k) = (k = PartOf i)"
| "part_of i p = False"

definition raised :: "tab \<Rightarrow> bool" where
  "raised s \<longleftrightarrow> (mt_loading s \<longrightarrow> 0 < mt_loading_sequence s \<and>
     (\<exists>i < length (mt_refreshes s). snd (mt_refreshes s ! i) = mt_loading_sequence s \<and> 0 < fst (mt_refreshes s ! i)))"

text \<open>The requests of each refresh are at least as many as the parts it waits for; \<open>extra\<close> is one that was just answered.\<close>

definition waited :: "(nat \<Rightarrow> nat) \<Rightarrow> tab \<Rightarrow> bool" where
  "waited extra s \<longleftrightarrow>
     (\<forall>i < length (mt_refreshes s). fst (mt_refreshes s ! i) \<le> length (filter (part_of i) (mt_pending s)) + extra i) \<and>
     (\<forall>i \<ge> length (mt_refreshes s). filter (part_of i) (mt_pending s) = [])"

lemma raised_part_done:
  assumes "raised s"
  shows "raised (part_done i b s)"
proof -
  obtain left q where r: "mt_refreshes s ! i = (left, q)" by fastforce
  let ?left = "if b then 0 else left - 1"
  show ?thesis
  proof (cases "left = 0 \<or> ?left = 0 \<and> q \<noteq> 0 \<and> q = mt_loading_sequence s")
    case True
    then show ?thesis using assms by (auto simp: part_done_def r raised_def Let_def)
  next
    case False
    let ?t = "s\<lparr>mt_refreshes := (mt_refreshes s)[i := (?left, q)]\<rparr>"
    have t: "part_done i b s = ?t" using False by (auto simp: part_done_def r Let_def)
    have "raised ?t"
      unfolding raised_def
    proof
      assume "mt_loading ?t"
      then obtain j where j: "j < length (mt_refreshes s)" "snd (mt_refreshes s ! j) = mt_loading_sequence s"
          "0 < fst (mt_refreshes s ! j)" "0 < mt_loading_sequence s"
        using assms by (auto simp: raised_def)
      have "snd (mt_refreshes ?t ! j) = mt_loading_sequence s \<and> 0 < fst (mt_refreshes ?t ! j)"
        using j r False by (cases "i = j") auto
      then show "0 < mt_loading_sequence ?t \<and> (\<exists>i < length (mt_refreshes ?t).
          snd (mt_refreshes ?t ! i) = mt_loading_sequence ?t \<and> 0 < fst (mt_refreshes ?t ! i))"
        using j by auto
    qed
    then show ?thesis by (simp add: t)
  qed
qed

lemma length_part_done [simp]: "length (mt_refreshes (part_done i b s)) = length (mt_refreshes s)"
  by (simp add: part_done_def Let_def split: prod.split)

lemma waited_part_done:
  assumes "waited (\<lambda>j. of_bool (j = i)) s" "i < length (mt_refreshes s)"
  shows "waited (\<lambda>j. 0) (part_done i b s)"
proof -
  obtain left q where r: "mt_refreshes s ! i = (left, q)" by fastforce
  have "fst (mt_refreshes (part_done i b s) ! j) = (if j = i then (if b \<or> left = 0 then 0 else left - 1) else fst (mt_refreshes s ! j))" for j
    using assms(2) r by (simp add: part_done_def Let_def)
  moreover have "left \<le> length (filter (part_of i) (mt_pending s)) + 1"
    using assms r unfolding waited_def by (metis fst_conv of_bool_eq(2))
  moreover have "j < length (mt_refreshes s) \<Longrightarrow> j \<noteq> i \<Longrightarrow> fst (mt_refreshes s ! j) \<le> length (filter (part_of j) (mt_pending s))" for j
    using assms(1) by (auto simp: waited_def)
  ultimately show ?thesis using assms(1) by (auto simp: waited_def)
qed

definition loading_inv :: "tab \<Rightarrow> bool" where
  "loading_inv s \<longleftrightarrow> raised s \<and> waited (\<lambda>j. 0) s"

lemma loading_go_on:
  assumes "raised s" "waited (\<lambda>i. of_bool (k = PartOf i)) s" "\<And>i. k = PartOf i \<Longrightarrow> i < length (mt_refreshes s)"
  shows "loading_inv (go_on k b s)"
proof (cases k)
  case (PartOf i)
  then show ?thesis
    using assms raised_part_done waited_part_done [of i s b] by (simp add: loading_inv_def eq_commute)
qed (use assms in \<open>simp_all add: loading_inv_def raised_def waited_def notify_def\<close>)

lemma loading_answered:
  assumes "raised s" "waited (\<lambda>i. of_bool (part_of i p)) s" "\<And>i. part_of i p \<Longrightarrow> i < length (mt_refreshes s)"
  shows "loading_inv (answered p a s)"
proof -
  have cont: "loading_inv (go_on k b t)" if "\<And>i. part_of i p = (k = PartOf i)" "mt_loading t = mt_loading s"
      "mt_loading_sequence t = mt_loading_sequence s" "mt_refreshes t = mt_refreshes s" "mt_pending t = mt_pending s" for k b t
    using assms that by (intro loading_go_on) (simp_all add: raised_def waited_def)
  show ?thesis
  proof (cases p)
    case (Configuration n v q k)
    then show ?thesis using cont [of k] by (simp add: answered_def loading_defs split: option.split)
  next
    case (Runs n q k)
    then show ?thesis using cont [of k] by (simp add: answered_def loading_defs split: option.split)
  next
    case (Backups n q k)
    then show ?thesis using cont [of k] by (simp add: answered_def loading_defs split: option.split)
  qed (use assms in \<open>auto simp: flag_defs loading_inv_def raised_def waited_def split: option.split\<close>)
qed

lemma loading_step:
  assumes "loading_inv s"
  shows "loading_inv (react h e s)"
proof (cases e)
  case (Refresh q)
  then show ?thesis
    using assms by (auto simp: react_def flag_defs loading_inv_def raised_def waited_def nth_append less_Suc_eq)
next
  case (Answer n a)
  show ?thesis
  proof (cases "n < length (mt_pending s)")
    case True
    let ?s = "s\<lparr>mt_pending := remove_at n (mt_pending s)\<rparr>" and ?p = "mt_pending s ! n"
    have count: "length (filter (part_of i) (mt_pending s)) =
        length (filter (part_of i) (mt_pending ?s)) + of_bool (part_of i ?p)" for i
      using held_remove_at [OF True] by (simp add: held_def)
    have "i < length (mt_refreshes s)" if "part_of i ?p" for i
      using assms count [of i] that by (fastforce simp: loading_inv_def waited_def not_less [symmetric])
    moreover have "filter (part_of i) (mt_pending ?s) = []" if "length (mt_refreshes s) \<le> i" for i
      using assms count [of i] that by (auto simp: loading_inv_def waited_def)
    then have "waited (\<lambda>i. of_bool (part_of i ?p)) ?s"
      using assms count by (simp add: loading_inv_def waited_def)
    moreover have "raised ?s" using assms by (simp add: loading_inv_def raised_def)
    ultimately show ?thesis using True loading_answered by (simp add: react_def Answer)
  qed (use assms in \<open>simp add: react_def Answer\<close>)
qed (use assms in \<open>auto simp: react_def flag_defs loading_inv_def raised_def waited_def split: option.split\<close>)

text \<open>C7: no button of the tab stays busy and nothing is done twice at once: at any time at most one save and one run are
  under way, and once every request is answered, in whatever order and with whatever result, the tab is not saving, running,
  clearing, adding, changing or deleting any more and its loading indicator is down.\<close>
theorem monitor_never_stuck:
  assumes "monitor_reach h initial_tab s"
  shows "held saves s \<le> 1 \<and> held runs_now s \<le> 1 \<and>
    (mt_pending s = [] \<longrightarrow> \<not> mt_saving s \<and> \<not> mt_running s \<and> \<not> mt_clearing s \<and> \<not> mt_batch_saving s \<and>
       mt_action s = None \<and> \<not> mt_batch_deleting s \<and> \<not> mt_loading s)"
proof -
  have "loading_inv s"
    using assms
  proof (induction rule: monitor_reach.induct)
    case here
    show ?case by (simp add: loading_inv_def raised_def waited_def initial_tab_def)
  qed (rule loading_step)
  then have "\<not> mt_loading s" if "mt_pending s = []"
    using that by (auto simp: loading_inv_def raised_def waited_def)
  moreover note saving.single [OF assms] running.single [OF assms]
  moreover note saving.idle [OF assms] running.idle [OF assms] clearing.idle [OF assms] creating.idle [OF assms]
    acting.idle [OF assms] deleting.idle [OF assms]
  ultimately show ?thesis by simp
qed

lemma monitor_never_stuck_witness:
  "held saves (react (\<lambda>_. None) (Refresh False) initial_tab) \<le> 1"
  using monitor_never_stuck [OF monitor_reach.step [OF monitor_reach.here]] by blast

text \<open>The list of spare addresses has an indicator of its own, which is lowered by its last request only, and only if that
  was not a background refresh: one that starts while the operator's refresh is open leaves it up for good.\<close>
theorem backup_indicator_stuck:
  "let s = fold (react (\<lambda>_. None)) (Refresh False # Refresh True # replicate 6 (Answer 0 (Some (JObj [])))) initial_tab
   in mt_pending s = [] \<and> mt_backup_loading s"
  by code_simp

end
