(* ===== verification/EntryPage.thy ===== *)
theory EntryPage
  imports EntryPolicy JsRound
begin

text \<open>
  The page of entry rules itself (\<open>pages/ClientEntryUserPolicyPage.tsx\<close>, the component exported last) as a state machine:
  its handlers up to the point where they wait, and what they do when an answer arrives. Answers arrive in any order. The
  confirmation dialogs of the browser are left out: an event is a confirmed action.
\<close>

section \<open>State\<close>

text \<open>What goes on when the rules were loaded again.\<close>

datatype follow = NoFollow | FinishRule jnum

datatype request =
    Loading follow
  | Toggling jnum bool
  | Dropping jnum
  | Sorting "jobj list" \<comment> \<open>the rows before the move\<close>
  | Dissolving
  | Removing

datatype notification = LoadFailed | RuleDropped | DropFailed | RuleEnabled bool | ToggleFailed | OrderSaved | OrderFailed
  | Dissolved | DissolveFailed | MemberRemoved | RemoveFailed

datatype page_view = Manage | SortView | EvidenceView

record page =
  pg_rows :: "jobj list"
  pg_collections :: "entry_collection list"
  pg_servers :: "server_option list"
  pg_loading :: bool
  pg_failed :: bool \<comment> \<open>\<open>loadError\<close> is not empty\<close>
  pg_view :: page_view
  pg_dragging :: "jstr option"
  pg_selected :: "jstr list"
  pg_pending :: "jnum jset" \<comment> \<open>\<open>pendingRef\<close>, and \<open>pendingIDs\<close> that follows it\<close>
  pg_sort_saving :: bool
  pg_moving :: "jobj option"
  pg_requests :: "request list"
  pg_sent :: "(jstr \<times> jobj) list"
  pg_notices :: "notification list"

definition initial_page :: page where
  "initial_page = \<lparr>pg_rows = [], pg_collections = [], pg_servers = [], pg_loading = False, pg_failed = False,
     pg_view = Manage, pg_dragging = None, pg_selected = [], pg_pending = [], pg_sort_saving = False, pg_moving = None,
     pg_requests = [], pg_sent = [], pg_notices = []\<rparr>"

definition tell :: "notification \<Rightarrow> page \<Rightarrow> page" where
  "tell n s = s\<lparr>pg_notices := pg_notices s @ [n]\<rparr>"

definition post :: "string \<Rightarrow> jobj \<Rightarrow> request \<Rightarrow> page \<Rightarrow> page" where
  "post path body r s = s\<lparr>pg_sent := pg_sent s @ [(js path, body)], pg_requests := pg_requests s @ [r]\<rparr>"

definition beginPending :: "jnum \<Rightarrow> page \<Rightarrow> page option" where
  "beginPending i s = (if set_has i (pg_pending s) then None else Some (s\<lparr>pg_pending := set_add i (pg_pending s)\<rparr>))"

definition finishPending :: "jnum \<Rightarrow> page \<Rightarrow> page" where
  "finishPending i s = s\<lparr>pg_pending := filter (\<lambda>j. j \<noteq> i) (pg_pending s)\<rparr>"

fun follow_up :: "follow \<Rightarrow> page \<Rightarrow> page" where
  "follow_up NoFollow s = s"
| "follow_up (FinishRule i) s = finishPending i s"

section \<open>Loading\<close>

definition load :: "follow \<Rightarrow> page \<Rightarrow> page" where
  "load k s =
     (if pg_sort_saving s then follow_up k s
      else s\<lparr>pg_loading := True, pg_requests := pg_requests s @ [Loading k]\<rparr>)"

text \<open>
  The three answers a load waits for; \<open>None\<close> when the first or the third request failed. The second cannot fail: its
  \<open>catch\<close> makes an empty list of it.
\<close>

type_synonym load_answer = "(jsv \<times> jsv \<times> jsv) option"

definition loaded_rows :: "(jstr \<Rightarrow> jstr \<Rightarrow> int) \<Rightarrow> jsv \<Rightarrow> jsv \<Rightarrow> (jobj list \<times> entry_collection list) option" where
  "loaded_rows collate policies collections =
     (case parseEntryCollections collections of
        Inl e \<Rightarrow> None
      | Inr cs \<Rightarrow> (case all_some (map normalized_policy (elems policies)) of
            None \<Rightarrow> None
          | Some ps \<Rightarrow> (case attachEntryCollections (buildPolicyDisplayRows collate ps) cs of
                Inl e \<Rightarrow> None
              | Inr rows \<Rightarrow> Some (rows, cs))))"

definition load_answered :: "(jstr \<Rightarrow> jstr \<Rightarrow> int) \<Rightarrow> follow \<Rightarrow> load_answer \<Rightarrow> page \<Rightarrow> page" where
  "load_answered collate k answer s =
     (let loaded = Option.bind answer (\<lambda>(policies, _, collections). loaded_rows collate policies collections);
          nodes = (case answer of None \<Rightarrow> [] | Some (_, ns, _) \<Rightarrow> elems ns)
      in follow_up k ((case loaded of
            None \<Rightarrow> (tell LoadFailed s)\<lparr>pg_failed := True\<rparr>
          | Some (rows, cs) \<Rightarrow> s\<lparr>pg_rows := rows, pg_collections := cs, pg_selected := [], pg_failed := False,
              pg_servers := buildVisibleServerOptions nodes\<rparr>)\<lparr>pg_loading := False\<rparr>))"

section \<open>Changing rules\<close>

definition row_id :: "jobj \<Rightarrow> jnum" where
  "row_id row = to_num (oget (js ''id'') row)"

definition toggle :: "jobj \<Rightarrow> bool \<Rightarrow> page \<Rightarrow> page" where
  "toggle row enabled s =
     (case beginPending (row_id row) s of
        None \<Rightarrow> s
      | Some s' \<Rightarrow>
          if isSplitPolicy (JObj row)
          then post ''/server/client-entry-user-policy/enabled''
            [(js ''id'', oget (js ''id'') row), (js ''enabled'', flag_num enabled)] (Toggling (row_id row) enabled) s'
          else post ''/server/client-entry-user-policy/save''
            (policyPayload row [(js ''enabled'', JBool enabled)]) (Toggling (row_id row) enabled) s')"

definition toggle_answered :: "jnum \<Rightarrow> bool \<Rightarrow> bool \<Rightarrow> page \<Rightarrow> page" where
  "toggle_answered i enabled ok s =
     (if ok then load (FinishRule i) (tell (RuleEnabled enabled) s) else finishPending i (tell ToggleFailed s))"

definition drop_rule :: "jobj \<Rightarrow> page \<Rightarrow> page" where
  "drop_rule row s =
     (case beginPending (row_id row) s of
        None \<Rightarrow> s
      | Some s' \<Rightarrow> post ''/server/client-entry-user-policy/drop'' [(js ''id'', oget (js ''id'') row)] (Dropping (row_id row)) s')"

definition drop_answered :: "jnum \<Rightarrow> bool \<Rightarrow> page \<Rightarrow> page" where
  "drop_answered i ok s =
     (if ok then load (FinishRule i) (tell RuleDropped s) else finishPending i (tell DropFailed s))"

section \<open>The order of the rules\<close>

definition moved :: "jobj list \<Rightarrow> jstr \<Rightarrow> jnum \<Rightarrow> jobj list" where
  "moved rows key position = map spread_of (moveEntryRow (map JObj rows) key position)"

definition key_of :: "jobj \<Rightarrow> jstr" where
  "key_of row = displayRowKey (JObj row)"

definition order_item :: "jobj \<Rightarrow> collection_error + jsv" where
  "order_item row = ebind (entryCollectionMember row)
     (\<lambda>(k, n). Inr (JObj [(js ''kind'', JStr (kind_str k)), (js ''id'', JNum n)]))"

definition order_failed :: "jobj list \<Rightarrow> page \<Rightarrow> page" where
  "order_failed previous s = (tell OrderFailed (s\<lparr>pg_rows := previous\<rparr>))\<lparr>pg_sort_saving := False\<rparr>"

definition applySort :: "jstr \<Rightarrow> jnum \<Rightarrow> page \<Rightarrow> page" where
  "applySort key position s =
     (let nextRows = moved (pg_rows s) key position
      in if pg_sort_saving s \<or> pg_loading s then s
         else if map key_of nextRows = map key_of (pg_rows s) then s\<lparr>pg_moving := None\<rparr>
         else let s' = s\<lparr>pg_sort_saving := True, pg_dragging := None, pg_rows := nextRows\<rparr>
           in case emap order_item nextRows of
                Inl e \<Rightarrow> order_failed (pg_rows s) s'
              | Inr items \<Rightarrow> post ''/server/client-entry-user-policy/sort'' [(js ''items'', JArr items)] (Sorting (pg_rows s)) s')"

definition sort_answered :: "jobj list \<Rightarrow> bool \<Rightarrow> page \<Rightarrow> page" where
  "sort_answered previous ok s =
     (if ok then (tell OrderSaved s)\<lparr>pg_moving := None, pg_sort_saving := False\<rparr> else order_failed previous s)"

text \<open>\<open>priorityMap.get(key) || 1\<close>: of two rows with one key the later position counts.\<close>

definition priority :: "jobj list \<Rightarrow> jstr \<Rightarrow> jnum" where
  "priority rows key =
     (case find (\<lambda>i. key_of (rows ! i) = key) (rev [0..<length rows]) of None \<Rightarrow> num 1 | Some i \<Rightarrow> num (int i + 1))"

definition handleDrop :: "jobj \<Rightarrow> page \<Rightarrow> page" where
  "handleDrop target s =
     (case pg_dragging s of
        None \<Rightarrow> s
      | Some key \<Rightarrow>
          if pg_view s \<noteq> SortView \<or> key = [] \<or> pg_sort_saving s then s
          else (applySort key (priority (pg_rows s) (key_of target)) s)\<lparr>pg_dragging := None\<rparr>)"

section \<open>Collections\<close>

definition dissolveCollection :: "entry_collection \<Rightarrow> page \<Rightarrow> page" where
  "dissolveCollection c s = post ''/server/client-entry-user-policy/collection/drop''
     [(js ''id'', JNum (num (col_id c))), (js ''version'', JNum (num (col_version c)))] Dissolving s"

definition dissolve_answered :: "bool \<Rightarrow> page \<Rightarrow> page" where
  "dissolve_answered ok s = (if ok then load NoFollow (tell Dissolved s) else tell DissolveFailed s)"

text \<open>Reading the collection of a row that has none throws inside the \<open>try\<close> of the handler.\<close>

definition removeCollectionMember :: "jobj \<Rightarrow> page \<Rightarrow> page" where
  "removeCollectionMember row s =
     (case (jprop_strict (oget (js ''__entry_collection'') row) (js ''id''), order_item row) of
        (Some i, Inr item) \<Rightarrow> post ''/server/client-entry-user-policy/collection/remove''
          [(js ''id'', i), (js ''version'', jprop (oget (js ''__entry_collection'') row) (js ''version'')), (js ''item'', item)]
          Removing s
      | _ \<Rightarrow> tell RemoveFailed s)"

definition remove_answered :: "bool \<Rightarrow> page \<Rightarrow> page" where
  "remove_answered ok s = (if ok then load NoFollow (tell MemberRemoved s) else tell RemoveFailed s)"

section \<open>Steps\<close>

datatype page_answer = LoadAnswer load_answer | Accepted | Rejected

definition answered_request :: "(jstr \<Rightarrow> jstr \<Rightarrow> int) \<Rightarrow> request \<Rightarrow> page_answer \<Rightarrow> page \<Rightarrow> page" where
  "answered_request collate r a s =
     (let ok = (a = Accepted)
      in case r of
           Loading k \<Rightarrow> load_answered collate k (case a of LoadAnswer l \<Rightarrow> l | _ \<Rightarrow> None) s
         | Toggling i enabled \<Rightarrow> toggle_answered i enabled ok s
         | Dropping i \<Rightarrow> drop_answered i ok s
         | Sorting previous \<Rightarrow> sort_answered previous ok s
         | Dissolving \<Rightarrow> dissolve_answered ok s
         | Removing \<Rightarrow> remove_answered ok s)"

datatype page_event =
    Reload
  | Toggle nat bool
  | DropRule nat
  | Move jstr jnum
  | DropOn nat
  | DragStart jstr
  | DragEnd
  | ChooseView page_view
  | AskMove nat
  | CloseMove
  | ConfirmMove jnum
  | SelectRows "jstr list"
  | Dissolve entry_collection
  | RemoveMember nat
  | AnswerTo nat page_answer

definition at_row :: "nat \<Rightarrow> (jobj \<Rightarrow> page \<Rightarrow> page) \<Rightarrow> page \<Rightarrow> page" where
  "at_row n f s = (if n < length (pg_rows s) then f (pg_rows s ! n) s else s)"

fun page_react :: "(jstr \<Rightarrow> jstr \<Rightarrow> int) \<Rightarrow> page_event \<Rightarrow> page \<Rightarrow> page" where
  "page_react collate Reload s = load NoFollow s"
| "page_react collate (Toggle n enabled) s = at_row n (\<lambda>row. toggle row enabled) s"
| "page_react collate (DropRule n) s = at_row n drop_rule s"
| "page_react collate (Move key position) s = applySort key position s"
| "page_react collate (DropOn n) s = at_row n handleDrop s"
| "page_react collate (DragStart key) s = s\<lparr>pg_dragging := Some key\<rparr>"
| "page_react collate DragEnd s = s\<lparr>pg_dragging := None\<rparr>"
| "page_react collate (ChooseView v) s = s\<lparr>pg_view := v, pg_dragging := None\<rparr>"
| "page_react collate (AskMove n) s = at_row n (\<lambda>row t. t\<lparr>pg_moving := Some row\<rparr>) s"
| "page_react collate CloseMove s = (if pg_sort_saving s then s else s\<lparr>pg_moving := None\<rparr>)"
| "page_react collate (ConfirmMove position) s =
     (case pg_moving s of
        None \<Rightarrow> s
      | Some row \<Rightarrow> if num_truthy position then applySort (key_of row) position s else s)"
| "page_react collate (SelectRows keys) s = s\<lparr>pg_selected := keys\<rparr>"
| "page_react collate (Dissolve c) s = dissolveCollection c s"
| "page_react collate (RemoveMember n) s = at_row n removeCollectionMember s"
| "page_react collate (AnswerTo n a) s =
     (if n < length (pg_requests s)
      then answered_request collate (pg_requests s ! n) a (s\<lparr>pg_requests := remove_at n (pg_requests s)\<rparr>) else s)"

inductive page_reach :: "(jstr \<Rightarrow> jstr \<Rightarrow> int) \<Rightarrow> page \<Rightarrow> bool" for collate where
  opened: "page_reach collate (load NoFollow initial_page)"
| reacted: "page_reach collate s \<Longrightarrow> page_reach collate (page_react collate e s)"

section \<open>One change of a rule at a time\<close>

fun works_on :: "jnum \<Rightarrow> request \<Rightarrow> bool" where
  "works_on i (Toggling j b) = (i = j)"
| "works_on i (Dropping j) = (i = j)"
| "works_on i (Loading (FinishRule j)) = (i = j)"
| "works_on i r = False"

fun orders :: "request \<Rightarrow> bool" where
  "orders (Sorting rows) = True"
| "orders r = False"

fun loads :: "request \<Rightarrow> bool" where
  "loads (Loading k) = True"
| "loads r = False"

definition open_requests :: "(request \<Rightarrow> bool) \<Rightarrow> page \<Rightarrow> nat" where
  "open_requests P s = length (filter P (pg_requests s))"

definition busy_exact :: "page \<Rightarrow> bool" where
  "busy_exact s \<longleftrightarrow> (\<forall>i. open_requests (works_on i) s = of_bool (i \<in> set (pg_pending s))) \<and>
     open_requests orders s = of_bool (pg_sort_saving s) \<and> (pg_loading s \<longrightarrow> 0 < open_requests loads s)"

lemma filter_remove_at:
  "n < length rs \<Longrightarrow> length (filter P rs) = length (filter P (remove_at n rs)) + of_bool (P (rs ! n))"
  unfolding remove_at_def by (subst id_take_nth_drop [of n rs]) simp_all

lemma filter_post [simp]:
  "open_requests P (post path body r s) = open_requests P s + of_bool (P r)" "pg_pending (post path body r s) = pg_pending s"
  "pg_sort_saving (post path body r s) = pg_sort_saving s" "pg_loading (post path body r s) = pg_loading s"
  by (simp_all add: post_def open_requests_def)

lemma open_update [simp]:
  "open_requests P (s\<lparr>pg_rows := x0\<rparr>) = open_requests P s"
  "open_requests P (s\<lparr>pg_collections := x1\<rparr>) = open_requests P s"
  "open_requests P (s\<lparr>pg_servers := x2\<rparr>) = open_requests P s"
  "open_requests P (s\<lparr>pg_loading := x3\<rparr>) = open_requests P s"
  "open_requests P (s\<lparr>pg_failed := x4\<rparr>) = open_requests P s"
  "open_requests P (s\<lparr>pg_view := x5\<rparr>) = open_requests P s"
  "open_requests P (s\<lparr>pg_dragging := x6\<rparr>) = open_requests P s"
  "open_requests P (s\<lparr>pg_selected := x7\<rparr>) = open_requests P s"
  "open_requests P (s\<lparr>pg_pending := x8\<rparr>) = open_requests P s"
  "open_requests P (s\<lparr>pg_sort_saving := x9\<rparr>) = open_requests P s"
  "open_requests P (s\<lparr>pg_moving := x10\<rparr>) = open_requests P s"
  by (simp_all add: open_requests_def)

lemma fields_tell [simp]:
  "open_requests P (tell n s) = open_requests P s" "pg_pending (tell n s) = pg_pending s"
  "pg_sort_saving (tell n s) = pg_sort_saving s" "pg_loading (tell n s) = pg_loading s" "pg_requests (tell n s) = pg_requests s"
  by (simp_all add: tell_def open_requests_def)

lemma fields_finish [simp]:
  "open_requests P (finishPending i s) = open_requests P s" "set (pg_pending (finishPending i s)) = set (pg_pending s) - {i}"
  "pg_sort_saving (finishPending i s) = pg_sort_saving s" "pg_loading (finishPending i s) = pg_loading s"
  by (auto simp: finishPending_def open_requests_def)

lemma suc_of_bool: "Suc n = of_bool b \<longleftrightarrow> b \<and> n = 0"
  by auto

lemma slack: "(n :: nat) + of_bool b = of_bool c \<longleftrightarrow> n = of_bool (c \<and> \<not> b) \<and> (b \<longrightarrow> c)"
  by (cases b; cases c) auto

text \<open>The invariant while the handler of \<open>r\<close> runs: its request is answered and no longer open.\<close>

definition busy_with :: "request \<Rightarrow> page \<Rightarrow> bool" where
  "busy_with r s \<longleftrightarrow>
     (\<forall>i. open_requests (works_on i) s + of_bool (works_on i r) = of_bool (i \<in> set (pg_pending s))) \<and>
     open_requests orders s + of_bool (orders r) = of_bool (pg_sort_saving s) \<and>
     (pg_loading s \<longrightarrow> 0 < open_requests loads s + of_bool (loads r))"

lemma busy_with_exact: "n < length (pg_requests s) \<Longrightarrow> busy_exact s \<Longrightarrow>
    busy_with (pg_requests s ! n) (s\<lparr>pg_requests := remove_at n (pg_requests s)\<rparr>)"
  using filter_remove_at [of n "pg_requests s"] by (simp add: busy_exact_def busy_with_def open_requests_def)

lemma exact_cong: "busy_exact s \<Longrightarrow> (\<And>P. open_requests P t = open_requests P s) \<Longrightarrow> set (pg_pending t) = set (pg_pending s) \<Longrightarrow>
    pg_sort_saving t = pg_sort_saving s \<Longrightarrow> pg_loading t = pg_loading s \<Longrightarrow> busy_exact t"
  by (simp add: busy_exact_def)

lemma exact_load_none: "busy_exact s \<Longrightarrow> busy_exact (load NoFollow s)"
  by (simp add: busy_exact_def load_def open_requests_def)

lemma exact_finish:
  assumes "busy_with r s" "\<not> orders r" "\<not> loads r \<or> \<not> pg_loading s" "\<And>j. works_on j r = (j = i)"
  shows "busy_exact (finishPending i s)"
  using assms by (auto simp: busy_with_def busy_exact_def slack intro!: arg_cong [of _ _ of_bool])

lemma exact_load_finish:
  assumes "busy_with r s" "\<not> orders r" "\<not> loads r" "\<And>j. works_on j r = (j = i)"
  shows "busy_exact (load (FinishRule i) s)"
proof (cases "pg_sort_saving s")
  case True
  then show ?thesis using exact_finish [OF assms(1,2) _ assms(4)] assms(3) by (simp add: load_def)
next
  case False
  then show ?thesis using assms by (auto simp: busy_with_def busy_exact_def load_def open_requests_def slack)
qed

lemma busy_with_tell [simp]: "busy_with r (tell n s) = busy_with r s"
  by (simp add: busy_with_def)

lemma busy_with_none: "\<forall>j. \<not> works_on j r \<Longrightarrow> \<not> orders r \<Longrightarrow> \<not> loads r \<Longrightarrow> busy_with r s = busy_exact s"
  by (simp add: busy_with_def busy_exact_def)

lemma exact_answered:
  assumes "busy_with r s"
  shows "busy_exact (answered_request collate r a s)"
proof (cases r)
  case (Loading k)
  have "busy_exact (follow_up k (t\<lparr>pg_loading := False\<rparr>))"
    if "\<And>P. open_requests P t = open_requests P s" "pg_pending t = pg_pending s" "pg_sort_saving t = pg_sort_saving s" for t
  proof (cases k)
    case NoFollow
    then show ?thesis using assms that Loading by (simp add: busy_with_def busy_exact_def open_requests_def)
  next
    case (FinishRule i)
    have "busy_with r (t\<lparr>pg_loading := False\<rparr>)"
      using assms that by (simp add: busy_with_def open_requests_def)
    from exact_finish [OF this] show ?thesis using FinishRule Loading by auto
  qed
  then show ?thesis
    by (auto simp: answered_request_def load_answered_def Loading Let_def open_requests_def split: option.split)
next
  case (Toggling i b)
  then show ?thesis using assms exact_load_finish [of r _ i] exact_finish [of r _ i]
    by (simp add: answered_request_def toggle_answered_def)
next
  case (Dropping i)
  then show ?thesis using assms exact_load_finish [of r _ i] exact_finish [of r _ i]
    by (simp add: answered_request_def drop_answered_def)
next
  case (Sorting rows)
  then show ?thesis using assms
    by (auto simp: answered_request_def sort_answered_def order_failed_def busy_with_def busy_exact_def open_requests_def suc_of_bool tell_def)
next
  case Dissolving
  then show ?thesis using assms by (auto simp: answered_request_def dissolve_answered_def busy_with_none intro!: exact_load_none)
    (auto intro: exact_cong)
next
  case Removing
  then show ?thesis using assms by (auto simp: answered_request_def remove_answered_def busy_with_none intro!: exact_load_none)
    (auto intro: exact_cong)
qed

lemma exact_begin:
  assumes "busy_exact s" "beginPending i s = Some s'" "\<not> orders r" "\<And>j. works_on j r = (j = i)"
  shows "busy_exact (post path body r s')"
proof -
  have s': "s' = s\<lparr>pg_pending := set_add i (pg_pending s)\<rparr>" and free: "i \<notin> set (pg_pending s)"
    using assms(2) by (auto simp: beginPending_def split: if_splits)
  then have same: "open_requests P s' = open_requests P s" for P by (simp add: open_requests_def)
  have "open_requests (works_on j) s + of_bool (j = i) = of_bool (j = i \<or> j \<in> set (pg_pending s))" for j
    using assms(1) free by (auto simp: busy_exact_def)
  then show ?thesis using assms(1,3) by (simp add: busy_exact_def same assms(4)) (simp add: s')
qed

lemma exact_sort: "busy_exact s \<Longrightarrow> busy_exact (applySort key position s)"
  by (simp add: applySort_def Let_def busy_exact_def order_failed_def split: sum.split)

lemma exact_step:
  assumes "busy_exact s"
  shows "busy_exact (page_react collate e s)"
proof (cases e)
  case (Toggle n b)
  then show ?thesis using assms
    by (auto simp: at_row_def toggle_def split: option.split intro: exact_begin)
next
  case (DropRule n)
  then show ?thesis using assms by (auto simp: at_row_def drop_rule_def split: option.split intro: exact_begin)
next
  case (DropOn n)
  have "busy_exact (t\<lparr>pg_dragging := None\<rparr>)" if "busy_exact t" for t
    using that by (rule exact_cong) (simp_all add: open_requests_def)
  then show ?thesis using assms DropOn by (auto simp: at_row_def handleDrop_def exact_sort split: option.split)
next
  case (RemoveMember n)
  have "busy_exact (post path body Removing s)" for path body
    using assms by (simp add: busy_exact_def)
  then show ?thesis using assms RemoveMember
    by (auto simp: at_row_def removeCollectionMember_def busy_exact_def split: option.split sum.split)
next
  case (Dissolve c)
  then show ?thesis using assms by (simp add: dissolveCollection_def busy_exact_def)
next
  case (AnswerTo n a)
  then show ?thesis using assms by (simp add: exact_answered busy_with_exact)
next
  case (ConfirmMove position)
  then show ?thesis using assms by (simp add: exact_sort split: option.split)
next
  case Reload
  then show ?thesis using assms by (simp add: exact_load_none)
next
  case (Move key position)
  then show ?thesis using assms by (simp add: exact_sort)
qed (use assms in \<open>auto simp: at_row_def intro: exact_cong\<close>)

lemma exact_reach: "page_reach collate s \<Longrightarrow> busy_exact s"
proof (induction rule: page_reach.induct)
  case opened
  show ?case by (simp add: busy_exact_def load_def initial_page_def open_requests_def)
qed (rule exact_step)

text \<open>C13: a rule is changed by one request at a time: the switch of a rule is busy exactly while one request that turns it, deletes
  it or reloads the list after that is open, and there is never a second; at most one order is being saved; and when all
  requests are answered, whatever the answers and their order, nothing on the page is busy.\<close>
theorem rules_changed_one_at_a_time:
  assumes "page_reach collate s"
  shows "open_requests (works_on i) s \<le> 1 \<and> (i \<in> set (pg_pending s) \<longleftrightarrow> open_requests (works_on i) s = 1) \<and>
    open_requests orders s \<le> 1 \<and>
    (pg_requests s = [] \<longrightarrow> pg_pending s = [] \<and> \<not> pg_sort_saving s \<and> \<not> pg_loading s)"
proof -
  have "busy_exact s" using assms by (rule exact_reach)
  then have e: "open_requests (works_on i) s = of_bool (i \<in> set (pg_pending s))" for i
    by (simp add: busy_exact_def)
  have ol: "open_requests orders s = of_bool (pg_sort_saving s)" "pg_loading s \<longrightarrow> 0 < open_requests loads s"
    using \<open>busy_exact s\<close> by (simp_all add: busy_exact_def)
  have "pg_pending s = []" if "pg_requests s = []"
  proof (rule ccontr)
    assume "pg_pending s \<noteq> []"
    then have "hd (pg_pending s) \<in> set (pg_pending s)" by simp
    then show False using e [of "hd (pg_pending s)"] that by (simp add: open_requests_def)
  qed
  then show ?thesis using e [of i] ol by (auto simp: open_requests_def)
qed

lemma rules_changed_one_at_a_time_witness:
  "open_requests (works_on (num 1)) (page_react (\<lambda>_ _. 0) Reload (load NoFollow initial_page)) \<le> 1"
  using rules_changed_one_at_a_time [OF page_reach.reacted [OF page_reach.opened]] by blast

section \<open>The order shown and the order saved\<close>

lemma map_spread: "map spread_of (map JObj rows) = rows"
  by (simp add: comp_def spread_of_def)

lemma mset_moved: "mset (moved rows key position) = mset rows"
proof -
  have "mset (moveEntryRow (map JObj rows) key position) = mset (map JObj rows)"
    by (rule moveEntryRow_mset)
  then have "image_mset spread_of (mset (moveEntryRow (map JObj rows) key position)) = image_mset spread_of (mset (map JObj rows))"
    by simp
  then show ?thesis unfolding moved_def mset_map [symmetric] map_spread .
qed

text \<open>C27: a move shows the new order at once and sends all the rows in it, each once; when the server refuses, the old order is
  shown again, and when it accepts, the new one stays.\<close>
theorem order_saved_or_restored:
  assumes "\<not> pg_sort_saving s" "pg_sort_saving (applySort key position s)" (is "pg_sort_saving ?t")
  shows "mset (pg_rows ?t) = mset (pg_rows s) \<and>
    (\<exists>items. emap order_item (pg_rows ?t) = Inr items \<and> pg_sent ?t = pg_sent s @
       [(js ''/server/client-entry-user-policy/sort'', [(js ''items'', JArr items)])]) \<and>
    (let answer = (\<lambda>a. page_react collate (AnswerTo (length (pg_requests s)) a) ?t)
     in pg_rows (answer Rejected) = pg_rows s \<and> pg_rows (answer Accepted) = pg_rows ?t \<and>
       \<not> pg_sort_saving (answer Rejected) \<and> \<not> pg_sort_saving (answer Accepted))"
proof -
  let ?rows = "moved (pg_rows s) key position"
  have "\<not> pg_loading s" "map key_of ?rows \<noteq> map key_of (pg_rows s)"
    using assms by (auto simp: applySort_def Let_def split: if_splits)
  moreover have "\<exists>items. emap order_item ?rows = Inr items"
    using assms by (auto simp: applySort_def Let_def order_failed_def split: if_splits sum.splits)
  ultimately show ?thesis
    using assms(1) by (auto simp: applySort_def post_def mset_moved answered_request_def sort_answered_def order_failed_def tell_def)
qed

definition demo_rules :: jsv where
  "demo_rules = JArr [JObj [(js ''id'', JNum (num 1)), (js ''sort'', JNum (num 1))], JObj [(js ''id'', JNum (num 2)), (js ''sort'', JNum (num 2))]]"

definition demo_load :: page_answer where
  "demo_load = LoadAnswer (Some (demo_rules, JArr [], JArr []))"

definition demo_page :: page where
  "demo_page = page_react (\<lambda>_ _. 0) (AnswerTo 0 demo_load) (load NoFollow initial_page)"

lemma order_saved_or_restored_witness:
  "pg_rows (page_react (\<lambda>_ _. 0) (AnswerTo 0 Rejected) (applySort (js ''policy:2'') (num 1) demo_page)) = pg_rows demo_page"
proof -
  have "\<not> pg_sort_saving demo_page" "pg_sort_saving (applySort (js ''policy:2'') (num 1) demo_page)" "length (pg_requests demo_page) = 0"
    by code_simp+
  with order_saved_or_restored [OF this(1,2), of "\<lambda>_ _. 0"] show ?thesis by (simp only: Let_def)
qed

text \<open>Two loads may be open at once, and the answer to the first lets rows be moved while the second is still open: its answer,
  which the server gave before the move was saved, then shows the old order as if it were the saved one.\<close>
theorem saved_order_overwritten:
  "let s = fold (page_react (\<lambda>_ _. 0))
     [Reload, AnswerTo 0 demo_load, Move (js ''policy:2'') (num 1), AnswerTo 1 Accepted, AnswerTo 0 demo_load] (load NoFollow initial_page)
   in map row_id (pg_rows s) = [num 1, num 2] \<and> pg_requests s = [] \<and> pg_notices s = [OrderSaved] \<and>
     pg_sent s = [(js ''/server/client-entry-user-policy/sort'', [(js ''items'', JArr
       [JObj [(js ''kind'', JStr (js ''policy'')), (js ''id'', JNum (num 2))],
        JObj [(js ''kind'', JStr (js ''policy'')), (js ''id'', JNum (num 1))]])])]"
  by code_simp

end
