(* ===== verification/EntryDialogs.thy ===== *)
theory EntryDialogs
  imports EntryPage PageTexts
begin

text \<open>
  The dialogs of the page of entry rules (\<open>pages/ClientEntryUserPolicyPage.tsx\<close>): the rule editor with its search for
  e-mails, the preview of a fixed split, the list of the users of a group with their details, and what the dialogs send.
  What the forms of the component library check before a handler goes on is not modelled: a handler starts from checked values.
\<close>

section \<open>The rule editor\<close>

text \<open>The values the form is filled with when it is opened.\<close>

definition normalizedMembers :: "jsv \<Rightarrow> jstr list" where
  "normalizedMembers row = filter (\<lambda>k. k \<noteq> []) (map memberKey (elems (jprop row (js ''members''))))"

definition editor_values :: "jsv \<Rightarrow> jobj" where
  "editor_values row =
     (let get = (\<lambda>k. jprop row (js k)); empty = JStr []
      in [(js ''id'', get ''id''), (js ''name'', jor (get ''name'') empty),
          (js ''entry_host'', jor (jprop (get ''__entry_collection'') (js ''entry_host'')) (jor (get ''entry_host'') empty)),
          (js ''resolve_entry_host'', JBool (effectiveEntryResolveHost row (get ''__split_group''))),
          (js ''action'', JStr (normalizePolicyAction (get ''action''))),
          (js ''conditions'', JArr (parseConditions (get ''conditions''))),
          (js ''confirm_match_all'', JBool False),
          (js ''members'', JArr (map JStr (normalizedMembers row))),
          (js ''extra_nodes'', JStr (join [10] (parseExtraNodes (get ''extra_nodes'')))),
          (js ''extra_nodes_position'', JStr (normalizeExtraNodePosition (get ''extra_nodes_position''))),
          (js ''enabled'', JBool (get ''enabled'' = JUndef \<or> to_num (get ''enabled'') \<noteq> num 0)),
          (js ''remarks'', jor (get ''remarks'') empty)])"

definition selected_values :: "string \<Rightarrow> jsv list \<Rightarrow> jsv list" where
  "selected_values field conditions =
     concat (map (\<lambda>c. loose_values (jprop c (js ''values'')))
       (filter (\<lambda>c. jprop c (js ''field'') = JStr (js field) \<and> jprop c (js ''operator'') = JStr (js ''in'')) conditions))"

definition selected_users :: "jsv list \<Rightarrow> user_choice list" where
  "selected_users conditions =
     map (\<lambda>n. \<lparr>uc_value = n, uc_label = 35 # num_str n\<rparr>)
       (filter (\<lambda>n. is_finite n \<and> num_lt (num 0) n) (map to_num (selected_values ''user_id'' conditions)))"

definition selected_emails :: "jsv list \<Rightarrow> jstr list" where
  "selected_emails conditions =
     filter (\<lambda>s. s \<noteq> []) (map (lower \<circ> trim \<circ> to_str) (selected_values ''email'' conditions))"

text \<open>A copy is a new rule with the values of another.\<close>

definition copied_row :: "jobj \<Rightarrow> jobj" where
  "copied_row row = omerge row [(js ''id'', JUndef), (js ''__entry_collection'', JUndef),
     (js ''name'', JStr (to_str (jor (oget (js ''name'') row) (JStr (txt_rule_hash @ to_str (oget (js ''id'') row)))) @ txt_copy_suffix))]"

definition editor_body :: "jobj \<Rightarrow> condition_fault + jobj" where
  "editor_body values =
     (let conditions = cleanConditions (jor (oget (js ''conditions'') values) (JArr []))
      in case validateConditionValues conditions of
           Some f \<Rightarrow> Inl f
         | None \<Rightarrow> Inr (policyPayload (omerge values [(js ''conditions'', JArr conditions)]) []))"

definition needsMatchAllConfirmation :: "jsv \<Rightarrow> jsv list \<Rightarrow> bool" where
  "needsMatchAllConfirmation row conditions =
     requiresMatchAllConfirmation (\<not> truthy (jprop row (js ''id''))) (parseConditions (jprop row (js ''conditions''))) conditions"

section \<open>What the other dialogs send\<close>

definition chosen_members :: "jsv \<Rightarrow> jsv list" where
  "chosen_members v = filter truthy (map (\<lambda>m. case splitMemberKey m of
       None \<Rightarrow> JNull | Some (t, i) \<Rightarrow> JObj [(js ''server_type'', JStr t), (js ''server_id'', JNum i)]) (loose_values v))"

definition split_create_body :: "jobj \<Rightarrow> jobj" where
  "split_create_body values =
     (let get = (\<lambda>k. oget (js k) values); tidied = (\<lambda>k. JStr (trimmed (get k))); flag = (\<lambda>k. flag_num (truthy (get k)))
      in [(js ''name'', tidied ''name''), (js ''minutes'', JNum (to_num (get ''minutes''))),
          (js ''members'', JArr (chosen_members (get ''members''))), (js ''entry_host_a'', tidied ''entry_host_a''),
          (js ''entry_host_b'', tidied ''entry_host_b''), (js ''resolve_entry_host'', flag ''resolve_entry_host''),
          (js ''enabled'', flag ''enabled''), (js ''remarks'', tidied ''remarks'')])"

definition split_convert_body :: "jsv \<Rightarrow> jobj \<Rightarrow> bool \<Rightarrow> jobj" where
  "split_convert_body policy values usePool =
     [(js ''policy_id'', policy), (js ''entry_host_a'', JStr (trimmed (oget (js ''entry_host_a'') values))),
      (js ''entry_host_b'', JStr (trimmed (oget (js ''entry_host_b'') values))), (js ''use_backup_ip_pool'', JBool usePool)]"

definition split_group_body :: "jsv \<Rightarrow> jsv \<Rightarrow> jobj \<Rightarrow> bool \<Rightarrow> jobj" where
  "split_group_body policy g values usePool =
     [(js ''policy_id'', policy), (js ''group_id'', g), (js ''entry_host_a'', JStr (trimmed (oget (js ''entry_host_a'') values))),
      (js ''entry_host_b'', JStr (trimmed (oget (js ''entry_host_b'') values))), (js ''use_backup_ip_pool'', JBool usePool)]"

definition splitGroupDisplayName :: "jsv \<Rightarrow> jstr" where
  "splitGroupDisplayName g =
     to_str (jor (jprop g (js ''name'')) (JStr (txt_rule_hash @ num_str (sort_number (jprop g (js ''id''))))))"

definition group_editor_values :: "jsv \<Rightarrow> jsv \<Rightarrow> jobj" where
  "group_editor_values row g =
     [(js ''name'', JStr (splitGroupDisplayName g)),
      (js ''entry_host'', jor (jprop (jprop row (js ''__entry_collection'')) (js ''entry_host'')) (jprop g (js ''entry_host''))),
      (js ''resolve_entry_host'', JBool (effectiveEntryResolveHost row (jprop row (js ''__split_group'')))),
      (js ''members'', JArr (map JStr (normalizedMembers row))),
      (js ''enabled'', JBool (to_num (jprop row (js ''enabled'')) \<noteq> num 0)),
      (js ''remarks'', jor (jprop row (js ''remarks'')) (JStr []))]"

definition group_edit_body :: "jsv \<Rightarrow> jsv \<Rightarrow> jobj \<Rightarrow> jobj" where
  "group_edit_body policy g values =
     (let get = (\<lambda>k. oget (js k) values); tidied = (\<lambda>k. JStr (trimmed (get k))); flag = (\<lambda>k. flag_num (truthy (get k)))
      in [(js ''policy_id'', policy), (js ''group_id'', g), (js ''name'', tidied ''name''),
          (js ''entry_host'', tidied ''entry_host''), (js ''resolve_entry_host'', flag ''resolve_entry_host''),
          (js ''members'', JArr (chosen_members (get ''members''))), (js ''enabled'', flag ''enabled''),
          (js ''remarks'', tidied ''remarks'')])"

definition simulate_query :: "jobj \<Rightarrow> jobj" where
  "simulate_query values =
     (let text_of = (\<lambda>k. to_str (jor (oget (js k) values) (JStr [])))
      in [(js ''email'', JStr (lower (trim (text_of ''email'')))), (js ''ua'', JStr (text_of ''ua'')),
          (js ''member'', JStr (text_of ''member''))])"

datatype simulation = NoUserFound | NothingMatched | Matched jsv

definition simulation_of :: "jsv \<Rightarrow> simulation" where
  "simulation_of simulation =
     (if \<not> truthy (jprop simulation (js ''found'')) then NoUserFound
      else let m = jprop simulation (js ''matched'') in if truthy m then Matched m else NothingMatched)"

section \<open>Requests with a number\<close>

text \<open>
  The dialogs number their requests and use an answer only if no newer request was made. A dialog is what it shows, the
  number of the last request, whether it shows itself as busy, and the requests still open.
\<close>

record 'v lookup =
  lk_shown :: 'v
  lk_sequence :: nat
  lk_busy :: bool
  lk_open :: "nat list"

definition fresh_request :: "'v lookup \<Rightarrow> 'v lookup" where
  "fresh_request s = s\<lparr>lk_sequence := Suc (lk_sequence s), lk_busy := True, lk_open := lk_open s @ [Suc (lk_sequence s)]\<rparr>"

definition give_up :: "'v lookup \<Rightarrow> 'v lookup" where
  "give_up s = s\<lparr>lk_sequence := Suc (lk_sequence s)\<rparr>"

text \<open>The answer to the open request at position \<open>i\<close>; \<open>use\<close> is what the dialog shows after it.\<close>

definition settle_at :: "nat \<Rightarrow> ('v \<Rightarrow> 'v) \<Rightarrow> 'v lookup \<Rightarrow> 'v lookup" where
  "settle_at i use s =
     (if length (lk_open s) \<le> i then s
      else let rest = s\<lparr>lk_open := remove_at i (lk_open s)\<rparr>
        in if lk_open s ! i = lk_sequence s then rest\<lparr>lk_shown := use (lk_shown s), lk_busy := False\<rparr> else rest)"

definition waits :: "bool \<Rightarrow> 'v lookup \<Rightarrow> bool" where
  "waits busy s \<longleftrightarrow> (busy \<longrightarrow> lk_sequence s \<in> set (lk_open s)) \<and>
     list_all (\<lambda>n. n \<le> lk_sequence s) (lk_open s) \<and> distinct (lk_open s)"

locale numbered =
  fixes step :: "'e \<Rightarrow> 's \<Rightarrow> 's"
    and dialog :: "'s \<Rightarrow> 'v lookup"
    and shown_busy :: "'s \<Rightarrow> bool"
    and start :: 's
  assumes begin_idle: "\<not> shown_busy start" "lk_open (dialog start) = []"
    and step_waits: "waits (shown_busy s) (dialog s) \<Longrightarrow> waits (shown_busy (step e s)) (dialog (step e s))"
begin

lemma busy_waits: "waits (shown_busy (fold step es start)) (dialog (fold step es start))"
proof (induction es rule: rev_induct)
  case Nil
  show ?case using begin_idle by (simp add: waits_def)
next
  case (snoc e es)
  then show ?case using step_waits [of "fold step es start" e] by simp
qed

lemma settles: "lk_open (dialog (fold step es start)) = [] \<Longrightarrow> \<not> shown_busy (fold step es start)"
  using busy_waits [of es] by (auto simp: waits_def)

end

lemma set_remove_at:
  assumes "distinct xs" "i < length xs"
  shows "set (remove_at i xs) = set xs - {xs ! i} \<and> distinct (remove_at i xs)"
proof -
  have xs: "xs = take i xs @ xs ! i # drop (Suc i) xs" using assms(2) by (rule id_take_nth_drop)
  have "distinct (take i xs @ xs ! i # drop (Suc i) xs)" using assms(1) xs by simp
  then have "xs ! i \<notin> set (remove_at i xs)" "distinct (remove_at i xs)" by (auto simp: remove_at_def)
  moreover have "set xs = insert (xs ! i) (set (remove_at i xs))"
    by (subst xs) (simp add: remove_at_def)
  ultimately show ?thesis by auto
qed

lemma waits_fresh: "waits b s \<Longrightarrow> waits c (fresh_request s)"
  by (auto simp: waits_def fresh_request_def list_all_iff)

lemma waits_give_up: "waits b s \<Longrightarrow> waits False (give_up s)"
  by (auto simp: waits_def give_up_def list_all_iff)

lemma waits_settle: "waits (c \<and> lk_busy s) s \<Longrightarrow> waits (c \<and> lk_busy (settle_at i f s)) (settle_at i f s)"
  using set_remove_at [of "lk_open s" i] by (auto simp: waits_def settle_at_def Let_def list_all_iff)

lemma waits_update [simp]: "waits b (s\<lparr>lk_shown := x\<rparr>) = waits b s" "waits b (s\<lparr>lk_busy := y\<rparr>) = waits b s"
  by (simp_all add: waits_def)

lemma waits_False: "waits b s \<Longrightarrow> waits False s"
  by (simp add: waits_def)

lemma busy_fresh [simp]: "lk_busy (fresh_request s)"
  by (simp add: fresh_request_def)

subsection \<open>Searching for an e-mail\<close>

datatype search_event = SearchText jstr | SearchAnswer nat "jsv option"

definition email_rank :: "jstr \<Rightarrow> jstr \<Rightarrow> int" where
  "email_rank wanted email = (if email = wanted then 0 else if starts_with email wanted then 1 else 2)"

definition email_after :: "(jstr \<Rightarrow> jstr \<Rightarrow> int) \<Rightarrow> jstr \<Rightarrow> jstr \<Rightarrow> jstr \<Rightarrow> bool" where
  "email_after collate wanted a b =
     (let d = email_rank wanted a - email_rank wanted b in if d \<noteq> 0 then 0 < d else 0 < collate a b)"

text \<open>The choices made of an answer; \<open>None\<close> where reading a null item throws.\<close>

definition email_choices :: "(jstr \<Rightarrow> jstr \<Rightarrow> int) \<Rightarrow> jstr \<Rightarrow> jsv \<Rightarrow> jstr list option" where
  "email_choices collate keyword answer =
     (let items = elems (jprop answer (js ''data''))
      in if nullish answer \<or> list_ex nullish items then None
         else Some (sort_by (email_after collate (lower keyword))
           (filter (\<lambda>s. s \<noteq> []) (map (\<lambda>item. lower (trimmed (jprop item (js ''email'')))) items))))"

text \<open>The search keeps, beside the choices, the text of every open request.\<close>

record email_search = "jstr list lookup" +
  es_texts :: "nat \<Rightarrow> jstr"

definition searchEmails :: "jstr \<Rightarrow> email_search \<Rightarrow> email_search" where
  "searchEmails keyword s =
     (let value = trim keyword; n = Suc (lk_sequence s); s' = s\<lparr>lk_sequence := n\<rparr>
      in if value = [] then s'\<lparr>lk_shown := []\<rparr>
         else s'\<lparr>lk_busy := True, lk_open := lk_open s @ [n], es_texts := (es_texts s)(n := value)\<rparr>)"

definition emails_answered :: "(jstr \<Rightarrow> jstr \<Rightarrow> int) \<Rightarrow> nat \<Rightarrow> jsv option \<Rightarrow> email_search \<Rightarrow> email_search" where
  "emails_answered collate i answer s =
     (if length (lk_open s) \<le> i then s
      else
        let n = lk_open s ! i; rest = s\<lparr>lk_open := remove_at i (lk_open s)\<rparr>;
            choices = Option.bind answer (email_choices collate (es_texts s n))
        in if n \<noteq> lk_sequence s then rest
           else (case choices of None \<Rightarrow> rest | Some emails \<Rightarrow> rest\<lparr>lk_shown := emails\<rparr>)\<lparr>lk_busy := False\<rparr>)"

fun search_step :: "(jstr \<Rightarrow> jstr \<Rightarrow> int) \<Rightarrow> search_event \<Rightarrow> email_search \<Rightarrow> email_search" where
  "search_step collate (SearchText keyword) s = searchEmails keyword s"
| "search_step collate (SearchAnswer i answer) s = emails_answered collate i answer s"

definition no_search :: email_search where
  "no_search = \<lparr>lk_shown = [], lk_sequence = 0, lk_busy = False, lk_open = [], es_texts = (\<lambda>_. [])\<rparr>"

subsection \<open>The preview of a split\<close>

definition preview_minutes :: "jsv \<Rightarrow> jnum" where
  "preview_minutes minutes =
     (let n = num_or (to_num (if truthy minutes then minutes else JNum (num 60))) (num 60) in num_max (num 1) (num_floor n))"

datatype preview_event = AskPreview | ShowDialog | PreviewAnswer nat "jsv option"

fun preview_step :: "preview_event \<Rightarrow> jsv lookup \<Rightarrow> jsv lookup" where
  "preview_step AskPreview s = fresh_request s"
| "preview_step ShowDialog s = s\<lparr>lk_shown := JUndef\<rparr>"
| "preview_step (PreviewAnswer i answer) s =
     settle_at i (\<lambda>_. case answer of
       None \<Rightarrow> JUndef | Some v \<Rightarrow> if nullish v then JUndef else jor (jprop v (js ''data'')) (JObj [])) s"

definition no_preview :: "jsv lookup" where
  "no_preview = \<lparr>lk_shown = JUndef, lk_sequence = 0, lk_busy = False, lk_open = []\<rparr>"

subsection \<open>The users of a group\<close>

record user_list =
  ul_users :: "jobj list"
  ul_total :: jnum
  ul_current :: jnum
  ul_page_size :: jnum
  ul_search :: jstr
  ul_applied :: jstr

definition empty_users :: user_list where
  "empty_users = \<lparr>ul_users = [], ul_total = num 0, ul_current = num 1, ul_page_size = num 20, ul_search = [], ul_applied = []\<rparr>"

record users_dialog =
  ud_open :: bool
  ud_list :: "user_list lookup"
  ud_detail :: "jobj option lookup"
  ud_sent :: "jobj list"

definition listed_user :: "jsv \<Rightarrow> jobj" where
  "listed_user user = omerge (spread_of user)
     (map (\<lambda>k. (js k, JNum (sort_number (jprop user (js k)))))
       [''user_id'', ''banned'', ''transfer_enable'', ''u'', ''d'', ''created_at'', ''assigned_at''])"

definition users_query :: "jsv \<Rightarrow> jsv \<Rightarrow> jnum \<Rightarrow> jnum \<Rightarrow> jstr \<Rightarrow> jobj" where
  "users_query policy g current psize search =
     [(js ''policy_id'', policy), (js ''group_id'', g), (js ''current'', JNum current), (js ''page_size'', JNum psize),
      (js ''search'', JStr (trim search))]"

definition loadUsers :: "jsv \<Rightarrow> jsv \<Rightarrow> jnum \<Rightarrow> jnum \<Rightarrow> jstr \<Rightarrow> users_dialog \<Rightarrow> users_dialog" where
  "loadUsers policy g current psize search s =
     s\<lparr>ud_list := fresh_request (ud_list s), ud_sent := ud_sent s @ [users_query policy g current psize search]\<rparr>"

text \<open>\<open>current\<close> and \<open>psize\<close> are those that were asked for; a null user makes the handler throw, like a failed request.\<close>

definition users_answered :: "jnum \<Rightarrow> jnum \<Rightarrow> jsv option \<Rightarrow> user_list \<Rightarrow> user_list" where
  "users_answered current psize answer l =
     (let v = (case answer of None \<Rightarrow> JNull | Some v \<Rightarrow> v); users = elems (jprop v (js ''data''));
          field = (\<lambda>k d. to_num (jor (jprop v (js k)) (JNum d)))
      in if answer = None \<or> list_ex nullish users then l\<lparr>ul_users := [], ul_total := num 0\<rparr>
         else l\<lparr>ul_users := map listed_user users, ul_total := field ''total'' (num 0),
           ul_current := field ''current'' current, ul_page_size := field ''page_size'' psize\<rparr>)"

definition close_detail :: "users_dialog \<Rightarrow> users_dialog" where
  "close_detail s = s\<lparr>ud_detail := (give_up (ud_detail s))\<lparr>lk_shown := None, lk_busy := False\<rparr>\<rparr>"

definition close_users :: "users_dialog \<Rightarrow> users_dialog" where
  "close_users s = close_detail (s\<lparr>ud_open := False, ud_list := give_up (ud_list s)\<rparr>)"

definition open_users :: "jsv \<Rightarrow> jsv \<Rightarrow> users_dialog \<Rightarrow> users_dialog" where
  "open_users policy g s =
     loadUsers policy g (num 1) (num 20) [] (s\<lparr>ud_open := True, ud_list := (ud_list s)\<lparr>lk_shown := empty_users\<rparr>,
       ud_detail := (ud_detail s)\<lparr>lk_shown := None, lk_busy := False\<rparr>\<rparr>)"

definition search_users :: "jsv \<Rightarrow> jsv \<Rightarrow> jstr \<Rightarrow> users_dialog \<Rightarrow> users_dialog" where
  "search_users policy g value s =
     loadUsers policy g (num 1) (ul_page_size (lk_shown (ud_list s))) value
       (s\<lparr>ud_list := (ud_list s)\<lparr>lk_shown := (lk_shown (ud_list s))\<lparr>ul_search := value, ul_applied := trim value\<rparr>\<rparr>\<rparr>)"

definition showUserDetail :: "jobj \<Rightarrow> users_dialog \<Rightarrow> users_dialog" where
  "showUserDetail user s =
     (let userID = sort_number (oget (js ''user_id'') user)
      in if \<not> num_truthy userID then s
         else s\<lparr>ud_detail := (fresh_request (ud_detail s))\<lparr>lk_shown :=
             Some [(js ''user'', JObj (omerge user [(js ''id'', JNum userID)])), (js ''stats'', JObj [])]\<rparr>,
           ud_sent := ud_sent s @ [[(js ''id'', JNum userID)]]\<rparr>)"

definition detail_answered :: "jobj \<Rightarrow> jsv option \<Rightarrow> jobj option \<Rightarrow> jobj option" where
  "detail_answered user answer d =
     (case answer of
        None \<Rightarrow> None
      | Some v \<Rightarrow>
          let payload = coalesce (jprop v (js ''data'')) (coalesce v (JObj []))
          in Some (omerge (spread_of payload) [(js ''user'', JObj (omerge (omerge user (spread_of (jor (jprop payload (js ''user'')) (JObj []))))
               [(js ''id'', JNum (sort_number (oget (js ''user_id'') user)))]))]))"

datatype users_event =
    OpenUsers
  | CloseUsers
  | SearchUsers jstr
  | ChangePage jnum jnum
  | UsersAnswer nat jnum jnum "jsv option"
  | ShowDetail nat
  | CloseDetail
  | DetailAnswer nat jobj "jsv option"

text \<open>The events that need the dialog to be open are ignored when it is not, as its controls are not shown then.\<close>

fun users_step :: "jsv \<Rightarrow> jsv \<Rightarrow> users_event \<Rightarrow> users_dialog \<Rightarrow> users_dialog" where
  "users_step policy g OpenUsers s = (if ud_open s then s else open_users policy g s)"
| "users_step policy g CloseUsers s = (if ud_open s then close_users s else s)"
| "users_step policy g (SearchUsers value) s = (if ud_open s then search_users policy g value s else s)"
| "users_step policy g (ChangePage page n) s =
     (if ud_open s then loadUsers policy g page n (ul_applied (lk_shown (ud_list s))) s else s)"
| "users_step policy g (UsersAnswer i current n answer) s =
     s\<lparr>ud_list := settle_at i (users_answered current n answer) (ud_list s)\<rparr>"
| "users_step policy g (ShowDetail n) s =
     (let users = ul_users (lk_shown (ud_list s)) in if ud_open s \<and> n < length users then showUserDetail (users ! n) s else s)"
| "users_step policy g CloseDetail s = (if ud_open s then close_detail s else s)"
| "users_step policy g (DetailAnswer i user answer) s =
     s\<lparr>ud_detail := settle_at i (detail_answered user answer) (ud_detail s)\<rparr>"

definition no_users :: users_dialog where
  "no_users = \<lparr>ud_open = False, ud_list = \<lparr>lk_shown = empty_users, lk_sequence = 0, lk_busy = False, lk_open = []\<rparr>,
     ud_detail = \<lparr>lk_shown = None, lk_sequence = 0, lk_busy = False, lk_open = []\<rparr>, ud_sent = []\<rparr>"

section \<open>What is busy waits\<close>

interpretation preview: numbered preview_step "\<lambda>s. s" lk_busy no_preview
proof unfold_locales
  fix s :: "jsv lookup" and e
  assume w: "waits (lk_busy s) s"
  then show "waits (lk_busy (preview_step e s)) (preview_step e s)"
    by (cases e) (use waits_settle [where c = True and s = s] in \<open>simp_all add: waits_fresh\<close>)
qed (simp_all add: no_preview_def)

text \<open>While the dialog is closed its list may still be marked as busy; nothing shows it.\<close>

lemma users_list_waits:
  assumes "waits (ud_open s \<and> lk_busy (ud_list s)) (ud_list s)"
  shows "waits (ud_open (users_step policy g e s) \<and> lk_busy (ud_list (users_step policy g e s))) (ud_list (users_step policy g e s))"
  using assms
  by (cases e) (auto simp: open_users_def close_users_def close_detail_def search_users_def loadUsers_def showUserDetail_def Let_def
      intro: waits_settle waits_fresh waits_False waits_give_up)

lemma users_detail_waits:
  assumes "waits (ud_open s \<and> lk_busy (ud_detail s)) (ud_detail s)"
  shows "waits (ud_open (users_step policy g e s) \<and> lk_busy (ud_detail (users_step policy g e s))) (ud_detail (users_step policy g e s))"
  using assms
  by (cases e) (auto simp: open_users_def close_users_def close_detail_def search_users_def loadUsers_def showUserDetail_def Let_def
      intro: waits_settle waits_fresh waits_False waits_give_up)

interpretation users: numbered "users_step policy g" ud_list "\<lambda>s. ud_open s \<and> lk_busy (ud_list s)" no_users for policy g
  by unfold_locales (simp_all add: no_users_def users_list_waits)

interpretation details: numbered "users_step policy g" ud_detail "\<lambda>s. ud_open s \<and> lk_busy (ud_detail s)" no_users for policy g
  by unfold_locales (simp_all add: no_users_def users_detail_waits)

text \<open>Once every request of the user list is answered, an open dialog shows neither the list nor the details as busy, whatever
  was searched, opened and closed meanwhile; the same holds of the preview of a split; and an answer to an older request
  changes nothing that is shown.\<close>
theorem dialogs_settle:
  "let s = fold (users_step policy g) es no_users; t = fold preview_step ps no_preview
   in \<not> (ud_open s \<and> lk_open (ud_list s) = [] \<and> lk_busy (ud_list s)) \<and>
      \<not> (ud_open s \<and> lk_open (ud_detail s) = [] \<and> lk_busy (ud_detail s)) \<and>
      \<not> (lk_open t = [] \<and> lk_busy t) \<and>
      (lk_open (ud_list s) ! i = lk_sequence (ud_list s) \<or>
       lk_shown (ud_list (users_step policy g (UsersAnswer i current n answer) s)) = lk_shown (ud_list s))"
  using users.settles [of policy g es] details.settles [of policy g es] preview.settles [of ps]
  by (auto simp: Let_def settle_at_def)

text \<open>The indicator of the search for an e-mail stays up when the text is cleared while a search is open: the answer to
  that search is no longer wanted and does not lower it.\<close>
theorem email_search_stuck:
  "let s = fold (search_step collate) [SearchText (js ''a''), SearchText [], SearchAnswer 0 answer] no_search
   in lk_open s = [] \<and> lk_shown s = [] \<and> lk_busy s"
proof -
  have "trim (js ''a'') \<noteq> []" by code_simp
  then show ?thesis by (simp add: searchEmails_def emails_answered_def no_search_def Let_def remove_at_def)
qed

end
