(* ===== verification/Dva.thy ===== *)
theory Dva
  imports JsValue
begin

text \<open>
  The data layer of the legacy administration bundle (\<open>public/assets/admin/umi.js\<close>): a store of
  named slices, each with reducers, and effects that are generators driven by redux-saga. A generator
  is modelled by the tree of what it yields (\<open>saga\<close>), the machinery around it by a step function
  on a \<open>system\<close>: the slices, the heap of the arrays and objects that they refer to, the running
  effects and the log of what was sent, called and shown.

  Arrays and objects are references into an explicit heap, because effects update some of them in
  place (\<open>o.current = 1\<close>, \<open>filter.push(..)\<close>, \<open>list.splice(..)\<close>) while other running effects and
  the default state still refer to them; primitive values are immediate.
\<close>

section \<open>Slices and the heap\<close>

datatype slot = Imm jsv | Ref nat

type_synonym slice = "(jstr \<times> slot) list"
type_synonym heap = "jsv list"

datatype field = New jsv | Same slot \<comment> \<open>a fresh value, or one that was read before\<close>

definition deref :: "heap \<Rightarrow> slot \<Rightarrow> jsv" where
  "deref h s = (case s of Imm v \<Rightarrow> v | Ref l \<Rightarrow> if l < length h then h ! l else JUndef)"

definition slot_of :: "slice \<Rightarrow> jstr \<Rightarrow> slot" where
  "slot_of t k = (case map_of t k of None \<Rightarrow> Imm JUndef | Some s \<Rightarrow> s)"

definition read :: "heap \<Rightarrow> slice \<Rightarrow> jstr \<Rightarrow> jsv" where
  "read h t k = deref h (slot_of t k)"

fun store_field :: "jstr \<times> field \<Rightarrow> slice \<times> heap \<Rightarrow> slice \<times> heap" where
  "store_field (k, Same s) (t, h) = (oput k s t, h)"
| "store_field (k, New (JArr vs)) (t, h) = (oput k (Ref (length h)) t, h @ [JArr vs])"
| "store_field (k, New (JObj kv)) (t, h) = (oput k (Ref (length h)) t, h @ [JObj kv])"
| "store_field (k, New v) (t, h) = (oput k (Imm v) t, h)"

text \<open>\<open>{...slice, ...payload}\<close>: the reducers \<open>setState\<close> and \<open>save\<close>.\<close>

definition store_fields :: "(jstr \<times> field) list \<Rightarrow> slice \<times> heap \<Rightarrow> slice \<times> heap" where
  "store_fields fs th = fold store_field fs th"

section \<open>Actions, events and effects\<close>

record action =
  act_type :: "jstr option"
  act_payload :: "(jstr \<times> field) list"
  act_args :: jobj
  act_callback :: "nat option" \<comment> \<open>which function was passed as \<open>callback\<close> or \<open>complete\<close>\<close>

datatype verb = GET | POST | POST_JSON

datatype endpoint = Secure jstr | Open jstr \<comment> \<open>below \<open>/<secure_path>\<close>, or not\<close>

datatype event =
    Sent verb endpoint jsv
  | Called nat "jsv list"
  | Toast jstr jstr
  | ToastsCleared
  | Dialog bool jsv
  | Downloaded jstr jsv
  | Navigated jstr
  | TokenStored jsv

record env =
  env_hash :: jstr
  env_path :: jstr
  env_token :: jsv

datatype saga =
    Finish
  | Fail
  | Put action saga
  | Select jstr "slice \<Rightarrow> saga"
  | Peek "heap \<Rightarrow> saga"
  | Poke nat "jsv \<Rightarrow> jsv" saga
  | Ask "env \<Rightarrow> saga"
  | Emit event saga
  | Request verb endpoint jsv "jobj \<Rightarrow> saga"

text \<open>A reducer also sees the module's default state, which the reducers \<open>empty\<close> go back to.\<close>

type_synonym reducer = "action \<Rightarrow> slice \<Rightarrow> slice \<times> heap \<Rightarrow> slice \<times> heap"

record model =
  m_name :: jstr
  m_state :: "(jstr \<times> field) list"
  m_reducers :: "(jstr \<times> reducer) list"
  m_effects :: "(jstr \<times> (action \<Rightarrow> saga)) list"

type_synonym app = "model list"

section \<open>The system\<close>

datatype progress = Ready saga | Awaiting "jobj \<Rightarrow> saga" | Done | Crashed

record task =
  t_model :: model
  t_code :: progress

record system =
  slices :: "(jstr \<times> slice) list"
  defaults :: "(jstr \<times> slice) list"
  heap :: heap
  tasks :: "task list"
  log :: "event list"

definition slice_in :: "(jstr \<times> slice) list \<Rightarrow> jstr \<Rightarrow> slice" where
  "slice_in ts ns = (case map_of ts ns of None \<Rightarrow> [] | Some t \<Rightarrow> t)"

definition slice_of :: "system \<Rightarrow> jstr \<Rightarrow> slice" where
  "slice_of \<sigma> ns = slice_in (slices \<sigma>) ns"

text \<open>At the start the slice of a model has the fields of its default state, and refers to the very
  same arrays and objects.\<close>

definition add_model :: "model \<Rightarrow> system \<Rightarrow> system" where
  "add_model m \<sigma> = (case store_fields (m_state m) ([], heap \<sigma>) of (t, h) \<Rightarrow>
     \<sigma>\<lparr>slices := oput (m_name m) t (slices \<sigma>), defaults := oput (m_name m) t (defaults \<sigma>), heap := h\<rparr>)"

definition init_system :: "app \<Rightarrow> system" where
  "init_system app = fold add_model app
     \<lparr>slices = [], defaults = [], heap = [], tasks = [], log = []\<rparr>"

text \<open>Types are \<open>namespace/name\<close>; a type put by an effect of a model is completed with the model's
  namespace when the model has a reducer or an effect of that name.\<close>

definition full_type :: "jstr \<Rightarrow> jstr \<Rightarrow> jstr" where
  "full_type ns ty = ns @ js ''/'' @ ty"

definition prefixType :: "jstr \<Rightarrow> model \<Rightarrow> jstr" where
  "prefixType ty m =
     (if map_of (m_reducers m) ty \<noteq> None \<or> map_of (m_effects m) ty \<noteq> None
      then full_type (m_name m) ty else ty)"

definition app_reducers :: "app \<Rightarrow> (jstr \<times> model \<times> reducer) list" where
  "app_reducers app = concat (map (\<lambda>m. map (\<lambda>(ty, f). (full_type (m_name m) ty, m, f)) (m_reducers m)) app)"

definition app_effects :: "app \<Rightarrow> (jstr \<times> model \<times> (action \<Rightarrow> saga)) list" where
  "app_effects app = concat (map (\<lambda>m. map (\<lambda>(ty, f). (full_type (m_name m) ty, m, f)) (m_effects m)) app)"

definition reduce :: "app \<Rightarrow> jstr \<Rightarrow> action \<Rightarrow> system \<Rightarrow> system" where
  "reduce app ty a \<sigma> = (case map_of (app_reducers app) ty of
      None \<Rightarrow> \<sigma>
    | Some (m, f) \<Rightarrow> (case f a (slice_in (defaults \<sigma>) (m_name m)) (slice_of \<sigma> (m_name m), heap \<sigma>) of
        (t, h) \<Rightarrow> \<sigma>\<lparr>slices := oput (m_name m) t (slices \<sigma>), heap := h\<rparr>))"

definition spawn :: "app \<Rightarrow> jstr \<Rightarrow> action \<Rightarrow> system \<Rightarrow> system" where
  "spawn app ty a \<sigma> = (case map_of (app_effects app) ty of
      None \<Rightarrow> \<sigma>
    | Some (m, f) \<Rightarrow> \<sigma>\<lparr>tasks := tasks \<sigma> @ [\<lparr>t_model = m, t_code = Ready (f a)\<rparr>]\<rparr>)"

definition dispatch :: "app \<Rightarrow> jstr \<Rightarrow> action \<Rightarrow> system \<Rightarrow> system" where
  "dispatch app ty a \<sigma> = spawn app ty a (reduce app ty a \<sigma>)"

text \<open>Between two yields to the scheduler an effect runs without interruption: selections, reads,
  in-place updates and callbacks up to the next dispatched action or request. A put without a type
  raises (\<open>assertAction\<close>), and the failed effect is abandoned.\<close>

primrec segment :: "app \<Rightarrow> env \<Rightarrow> model \<Rightarrow> saga \<Rightarrow> system \<Rightarrow> progress \<times> system" where
  "segment app e m Finish \<sigma> = (Done, \<sigma>)"
| "segment app e m Fail \<sigma> = (Crashed, \<sigma>)"
| "segment app e m (Put a k) \<sigma> = (case act_type a of
     None \<Rightarrow> (Crashed, \<sigma>)
   | Some ty \<Rightarrow> (Ready k, dispatch app (prefixType ty m) a \<sigma>))"
| "segment app e m (Select ns f) \<sigma> = segment app e m (f (slice_of \<sigma> ns)) \<sigma>"
| "segment app e m (Peek f) \<sigma> = segment app e m (f (heap \<sigma>)) \<sigma>"
| "segment app e m (Poke l g k) \<sigma> =
     segment app e m k (\<sigma>\<lparr>heap := (heap \<sigma>)[l := g (deref (heap \<sigma>) (Ref l))]\<rparr>)"
| "segment app e m (Ask f) \<sigma> = segment app e m (f e) \<sigma>"
| "segment app e m (Emit ev k) \<sigma> = segment app e m k (\<sigma>\<lparr>log := log \<sigma> @ [ev]\<rparr>)"
| "segment app e m (Request v u b f) \<sigma> = (Awaiting f, \<sigma>\<lparr>log := log \<sigma> @ [Sent v u b]\<rparr>)"

datatype reply = Rejected | Reply jobj

datatype label = Dispatch jstr action | Run nat | Answer nat reply

definition set_code :: "nat \<Rightarrow> progress \<Rightarrow> system \<Rightarrow> system" where
  "set_code i p \<sigma> = \<sigma>\<lparr>tasks := (tasks \<sigma>)[i := (tasks \<sigma> ! i)\<lparr>t_code := p\<rparr>]\<rparr>"

definition answer :: "reply \<Rightarrow> (jobj \<Rightarrow> saga) \<Rightarrow> progress" where
  "answer r f = (case r of Rejected \<Rightarrow> Crashed | Reply resp \<Rightarrow> Ready (f resp))"

text \<open>One step: an action dispatched by a page, a running effect up to its next yield, or the answer
  to a request, in any order.\<close>

definition fire :: "app \<Rightarrow> env \<Rightarrow> label \<Rightarrow> system \<Rightarrow> system option" where
  "fire app e lab \<sigma> = (case lab of
      Dispatch ty a \<Rightarrow> Some (dispatch app ty a \<sigma>)
    | Run i \<Rightarrow>
        (if i < length (tasks \<sigma>) then
           (case t_code (tasks \<sigma> ! i) of
              Ready k \<Rightarrow> (case segment app e (t_model (tasks \<sigma> ! i)) k \<sigma> of
                           (p, \<sigma>') \<Rightarrow> Some (set_code i p \<sigma>'))
            | _ \<Rightarrow> None)
         else None)
    | Answer i r \<Rightarrow>
        (if i < length (tasks \<sigma>) then
           (case t_code (tasks \<sigma> ! i) of
              Awaiting f \<Rightarrow> Some (set_code i (answer r f) \<sigma>)
            | _ \<Rightarrow> None)
         else None))"

inductive dva_step :: "app \<Rightarrow> env \<Rightarrow> system \<Rightarrow> label \<Rightarrow> system \<Rightarrow> bool" for app e where
  by_dispatch: "dva_step app e \<sigma> (Dispatch ty a) (dispatch app ty a \<sigma>)"
| by_run: "i < length (tasks \<sigma>) \<Longrightarrow> t_code (tasks \<sigma> ! i) = Ready k \<Longrightarrow>
    segment app e (t_model (tasks \<sigma> ! i)) k \<sigma> = (p, \<sigma>') \<Longrightarrow>
    dva_step app e \<sigma> (Run i) (set_code i p \<sigma>')"
| by_answer: "i < length (tasks \<sigma>) \<Longrightarrow> t_code (tasks \<sigma> ! i) = Awaiting f \<Longrightarrow>
    dva_step app e \<sigma> (Answer i r) (set_code i (answer r f) \<sigma>)"

inductive_cases dva_stepE: "dva_step app e \<sigma> lab \<sigma>'"

inductive_simps dva_step_Dispatch: "dva_step app e \<sigma> (Dispatch ty a) \<sigma>'"
inductive_simps dva_step_Run: "dva_step app e \<sigma> (Run i) \<sigma>'"
inductive_simps dva_step_Answer: "dva_step app e \<sigma> (Answer i r) \<sigma>'"

inductive dva_reach :: "app \<Rightarrow> env \<Rightarrow> system \<Rightarrow> label list \<Rightarrow> system \<Rightarrow> bool" for app e where
  dva_start: "dva_reach app e \<sigma> [] \<sigma>"
| dva_more: "dva_reach app e \<sigma> labs \<sigma>' \<Longrightarrow> dva_step app e \<sigma>' lab \<sigma>'' \<Longrightarrow>
    dva_reach app e \<sigma> (labs @ [lab]) \<sigma>''"

lemma fire_iff: "fire app e lab \<sigma> = Some \<sigma>' \<longleftrightarrow> dva_step app e \<sigma> lab \<sigma>'"
  by (cases lab)
     (auto simp: fire_def dva_step_Dispatch dva_step_Run dva_step_Answer
       split: if_splits progress.splits prod.splits)

text \<open>Running one effect alone, through all the actions it puts, to its end or to its next request.\<close>

primrec run :: "app \<Rightarrow> env \<Rightarrow> model \<Rightarrow> saga \<Rightarrow> system \<Rightarrow> progress \<times> system" where
  "run app e m Finish \<sigma> = (Done, \<sigma>)"
| "run app e m Fail \<sigma> = (Crashed, \<sigma>)"
| "run app e m (Put a k) \<sigma> = (case act_type a of
     None \<Rightarrow> (Crashed, \<sigma>)
   | Some ty \<Rightarrow> run app e m k (dispatch app (prefixType ty m) a \<sigma>))"
| "run app e m (Select ns f) \<sigma> = run app e m (f (slice_of \<sigma> ns)) \<sigma>"
| "run app e m (Peek f) \<sigma> = run app e m (f (heap \<sigma>)) \<sigma>"
| "run app e m (Poke l g k) \<sigma> =
     run app e m k (\<sigma>\<lparr>heap := (heap \<sigma>)[l := g (deref (heap \<sigma>) (Ref l))]\<rparr>)"
| "run app e m (Ask f) \<sigma> = run app e m (f e) \<sigma>"
| "run app e m (Emit ev k) \<sigma> = run app e m k (\<sigma>\<lparr>log := log \<sigma> @ [ev]\<rparr>)"
| "run app e m (Request v u b f) \<sigma> = (Awaiting f, \<sigma>\<lparr>log := log \<sigma> @ [Sent v u b]\<rparr>)"

fun play :: "app \<Rightarrow> env \<Rightarrow> model \<Rightarrow> saga \<Rightarrow> reply list \<Rightarrow> system \<Rightarrow> progress \<times> system" where
  "play app e m k [] \<sigma> = run app e m k \<sigma>"
| "play app e m k (r # rs) \<sigma> = (case run app e m k \<sigma> of
     (Awaiting f, \<sigma>') \<Rightarrow>
       (case r of Rejected \<Rightarrow> (Crashed, \<sigma>') | Reply resp \<Rightarrow> play app e m (f resp) rs \<sigma>')
   | other \<Rightarrow> other)"

section \<open>What effects are written with\<close>

definition put_action :: "jstr \<Rightarrow> (jstr \<times> field) list \<Rightarrow> action" where
  "put_action ty fs = \<lparr>act_type = Some ty, act_payload = fs, act_args = [], act_callback = None\<rparr>"

definition setState :: "(jstr \<times> field) list \<Rightarrow> saga \<Rightarrow> saga" where
  "setState fs k = Put (put_action (js ''setState'') fs) k"

definition saveState :: "(jstr \<times> field) list \<Rightarrow> saga \<Rightarrow> saga" where
  "saveState fs k = Put (put_action (js ''save'') fs) k"

definition trigger :: "jstr \<Rightarrow> saga \<Rightarrow> saga" where
  "trigger ty k = Put (put_action ty []) k"

definition trigger_with :: "jstr \<Rightarrow> jobj \<Rightarrow> saga \<Rightarrow> saga" where
  "trigger_with ty args k = Put ((put_action ty [])\<lparr>act_args := args\<rparr>) k"

definition flag :: "string \<Rightarrow> bool \<Rightarrow> jstr \<times> field" where
  "flag k b = (js k, New (JBool b))"

definition arg :: "action \<Rightarrow> string \<Rightarrow> jsv" where
  "arg a k = oget (js k) (act_args a)"

definition code_ok :: "jobj \<Rightarrow> bool" where
  "code_ok r \<longleftrightarrow> oget (js ''code'') r = JNum (num 200)"

definition data_of :: "jobj \<Rightarrow> jsv" where
  "data_of r = oget (js ''data'') r"

text \<open>\<open>"function" === typeof callback && callback(..)\<close>, and a plain call.\<close>

definition call_if :: "action \<Rightarrow> jsv list \<Rightarrow> saga \<Rightarrow> saga" where
  "call_if a vs k = (case act_callback a of None \<Rightarrow> k | Some f \<Rightarrow> Emit (Called f vs) k)"

definition call :: "action \<Rightarrow> jsv list \<Rightarrow> saga \<Rightarrow> saga" where
  "call a vs k = (case act_callback a of None \<Rightarrow> Fail | Some f \<Rightarrow> Emit (Called f vs) k)"

text \<open>\<open>{...v}\<close>.\<close>

definition spread :: "jsv \<Rightarrow> jobj" where
  "spread v = (case v of
      JObj kv \<Rightarrow> kv
    | JArr vs \<Rightarrow> map (\<lambda>(i, x). (int_str (int i), x)) (enumerate 0 vs)
    | JStr s \<Rightarrow> map (\<lambda>(i, c). (int_str (int i), JStr [c])) (enumerate 0 s)
    | _ \<Rightarrow> [])"

definition news :: "jobj \<Rightarrow> (jstr \<times> field) list" where
  "news kv = map (\<lambda>(k, v). (k, New v)) kv"

text \<open>Assigning a property of, or calling an array method on, something that was read from a slice;
  anything but an object (an array) there is a \<open>TypeError\<close>.\<close>

definition assign_in :: "slot \<Rightarrow> string \<Rightarrow> jsv \<Rightarrow> saga \<Rightarrow> saga" where
  "assign_in s k v rest = Peek (\<lambda>h. case (s, deref h s) of
      (Ref l, JObj _) \<Rightarrow> Poke l (\<lambda>c. JObj (oput (js k) v (spread c))) rest
    | _ \<Rightarrow> Fail)"

definition update_array :: "slot \<Rightarrow> (jsv list \<Rightarrow> jsv list) \<Rightarrow> saga \<Rightarrow> saga" where
  "update_array s g rest = Peek (\<lambda>h. case (s, deref h s) of
      (Ref l, JArr _) \<Rightarrow> Poke l (\<lambda>c. JArr (g (elems c))) rest
    | _ \<Rightarrow> Fail)"

text \<open>\<open>list.splice(to + 1, 0, list[from]), list.splice(from, 1)\<close> or its mirror: moving a row by
  inserting it at its new place and removing it from its old one.\<close>

definition splice_index :: "nat \<Rightarrow> jnum \<Rightarrow> nat" where
  "splice_index len n = (case n of
      NaN \<Rightarrow> 0 | PosInf \<Rightarrow> len | NegInf \<Rightarrow> 0
    | Fin q \<Rightarrow> (let i = int_of (num_trunc n)
               in if i < 0 then nat (max 0 (int len + i)) else min len (nat i)))"

definition elem_at :: "jsv list \<Rightarrow> jnum \<Rightarrow> jsv" where
  "elem_at vs n = (if is_integer n \<and> 0 \<le> int_of n \<and> nat (int_of n) < length vs
     then vs ! nat (int_of n) else JUndef)"

definition drag_move :: "jsv \<Rightarrow> jsv \<Rightarrow> jsv list \<Rightarrow> jsv list" where
  "drag_move fromIndex toIndex vs =
     (let n = to_num fromIndex; r = to_num toIndex; x = elem_at vs n
      in if num_lt n r then
           (let ws = insert_at (splice_index (length vs) (num_add r (num 1))) x vs
            in remove_at (splice_index (length ws) n) ws)
         else
           (let ws = insert_at (splice_index (length vs) r) x vs
            in remove_at (splice_index (length ws) (num_add n (num 1))) ws))"

definition merge_reducer :: reducer where
  "merge_reducer a def th = store_fields (act_payload a) th"

end
