(* ===== verification/DvaSafety.thy ===== *)
theory DvaSafety
  imports Dva
begin

text \<open>
  Facts about every application of the store machinery: running an effect alone is one of the
  schedules of the step relation, and a discipline on effects (\<open>steady\<close>) under which no loading
  indicator is left on once all effects have ended, whatever the schedule and the answers.
\<close>

section \<open>Lists of steps\<close>

fun fire_all :: "app \<Rightarrow> env \<Rightarrow> label list \<Rightarrow> system \<Rightarrow> system option" where
  "fire_all app e [] \<sigma> = Some \<sigma>"
| "fire_all app e (lab # labs) \<sigma> = (case fire app e lab \<sigma> of
     None \<Rightarrow> None | Some \<sigma>' \<Rightarrow> fire_all app e labs \<sigma>')"

lemma fire_all_append:
  "fire_all app e (labs @ labs') \<sigma> =
     (case fire_all app e labs \<sigma> of None \<Rightarrow> None | Some \<sigma>' \<Rightarrow> fire_all app e labs' \<sigma>')"
  by (induction labs arbitrary: \<sigma>) (auto split: option.splits)

lemma fire_all_reach: "fire_all app e labs \<sigma> = Some \<sigma>' \<longleftrightarrow> dva_reach app e \<sigma> labs \<sigma>'"
proof
  show "dva_reach app e \<sigma> labs \<sigma>'" if "fire_all app e labs \<sigma> = Some \<sigma>'"
    using that
  proof (induction labs arbitrary: \<sigma>' rule: rev_induct)
    case Nil
    then show ?case by (simp add: dva_reach.dva_start)
  next
    case (snoc lab labs)
    then obtain \<sigma>1 where "fire_all app e labs \<sigma> = Some \<sigma>1" "fire app e lab \<sigma>1 = Some \<sigma>'"
      by (auto simp: fire_all_append split: option.splits)
    then show ?case by (auto simp: fire_iff intro: dva_reach.dva_more snoc.IH)
  qed
  show "fire_all app e labs \<sigma> = Some \<sigma>'" if "dva_reach app e \<sigma> labs \<sigma>'"
    using that
    by induction (auto simp: fire_all_append simp flip: fire_iff)
qed

section \<open>Running one effect is a schedule\<close>

lemma slices_set_code [simp]: "slices (set_code i p \<sigma>) = slices \<sigma>"
  and defaults_set_code [simp]: "defaults (set_code i p \<sigma>) = defaults \<sigma>"
  and heap_set_code [simp]: "heap (set_code i p \<sigma>) = heap \<sigma>"
  and log_set_code [simp]: "log (set_code i p \<sigma>) = log \<sigma>"
  and length_set_code [simp]: "length (tasks (set_code i p \<sigma>)) = length (tasks \<sigma>)"
  and slice_of_set_code [simp]: "slice_of (set_code i p \<sigma>) ns = slice_of \<sigma> ns"
  by (simp_all add: set_code_def slice_of_def)

lemma tasks_set_code:
  "i < length (tasks \<sigma>) \<Longrightarrow> j < length (tasks \<sigma>) \<Longrightarrow>
     tasks (set_code i p \<sigma>) ! j = (if i = j then (tasks \<sigma> ! i)\<lparr>t_code := p\<rparr> else tasks \<sigma> ! j)"
  by (simp add: set_code_def nth_list_update)

lemma set_code_twice [simp]:
  "i < length (tasks \<sigma>) \<Longrightarrow> set_code i p (set_code i q \<sigma>) = set_code i p \<sigma>"
  by (simp add: set_code_def)

lemma dispatch_tasks: "\<exists>new. tasks (dispatch app ty a \<sigma>) = tasks \<sigma> @ new"
  by (auto simp: dispatch_def spawn_def reduce_def split: option.splits prod.splits)

lemma dispatch_set_code:
  "i < length (tasks \<sigma>) \<Longrightarrow> dispatch app ty a (set_code i p \<sigma>) = set_code i p (dispatch app ty a \<sigma>)"
  by (auto simp: dispatch_def spawn_def reduce_def set_code_def slice_of_def nth_append list_update_append
      split: option.splits prod.splits)

lemma segment_tasks: "segment app e m k \<sigma> = (p, \<sigma>') \<Longrightarrow> \<exists>new. tasks \<sigma>' = tasks \<sigma> @ new"
proof (induction k arbitrary: \<sigma>)
  case (Put a k)
  then show ?case using dispatch_tasks by (auto split: option.splits)
next
  case (Select ns f)
  from Select.IH [OF rangeI Select.prems [unfolded segment.simps]] show ?case .
next
  case (Peek f)
  from Peek.IH [OF rangeI Peek.prems [unfolded segment.simps]] show ?case .
next
  case (Ask f)
  from Ask.IH [OF rangeI Ask.prems [unfolded segment.simps]] show ?case .
next
  case (Poke l g k)
  from Poke.IH [OF Poke.prems [unfolded segment.simps]] show ?case by simp
next
  case (Emit ev k)
  from Emit.IH [OF Emit.prems [unfolded segment.simps]] show ?case by simp
qed auto

lemma heap_set_code_update: "set_code i p \<sigma>\<lparr>heap := h\<rparr> = set_code i p (\<sigma>\<lparr>heap := h\<rparr>)"
  and log_set_code_update: "set_code i p \<sigma>\<lparr>log := lg\<rparr> = set_code i p (\<sigma>\<lparr>log := lg\<rparr>)"
  by (simp_all add: set_code_def)

lemma segment_set_code:
  "i < length (tasks \<sigma>) \<Longrightarrow>
     segment app e m k (set_code i p \<sigma>) = (case segment app e m k \<sigma> of (q, \<sigma>') \<Rightarrow> (q, set_code i p \<sigma>'))"
  by (induction k arbitrary: \<sigma>)
     (simp_all add: dispatch_set_code heap_set_code_update log_set_code_update split: option.splits)

text \<open>Running task \<open>i\<close> for one step, and to its end.\<close>

lemma fire_Run:
  assumes "i < length (tasks \<sigma>)" "segment app e (t_model (tasks \<sigma> ! i)) k \<sigma> = (p, \<sigma>')"
  shows "fire app e (Run i) (set_code i (Ready k) \<sigma>) = Some (set_code i p \<sigma>')"
proof -
  obtain new where "tasks \<sigma>' = tasks \<sigma> @ new" using segment_tasks [OF assms(2)] by blast
  then show ?thesis
    using assms by (simp add: fire_def tasks_set_code segment_set_code)
qed

definition scheduled :: "app \<Rightarrow> env \<Rightarrow> nat \<Rightarrow> saga \<Rightarrow> system \<Rightarrow> progress \<times> system \<Rightarrow> bool" where
  "scheduled app e i k \<sigma> r \<longleftrightarrow> (\<exists>n. fire_all app e (replicate (Suc n) (Run i)) (set_code i (Ready k) \<sigma>) =
     Some (set_code i (fst r) (snd r)))"

lemma scheduled_stop:
  assumes "i < length (tasks \<sigma>)" "segment app e (t_model (tasks \<sigma> ! i)) k \<sigma> = r"
  shows "scheduled app e i k \<sigma> r"
  unfolding scheduled_def using fire_Run [of i \<sigma> app e k "fst r" "snd r"] assms
  by (intro exI [of _ 0]) simp

lemma scheduled_silent:
  assumes "i < length (tasks \<sigma>)" "tasks \<sigma>1 = tasks \<sigma>"
    "segment app e (t_model (tasks \<sigma> ! i)) k \<sigma> = segment app e (t_model (tasks \<sigma> ! i)) k1 \<sigma>1"
    "scheduled app e i k1 \<sigma>1 r"
  shows "scheduled app e i k \<sigma> r"
proof -
  obtain p \<sigma>2 where "segment app e (t_model (tasks \<sigma> ! i)) k1 \<sigma>1 = (p, \<sigma>2)" by force
  then have "fire app e (Run i) (set_code i (Ready k) \<sigma>) = fire app e (Run i) (set_code i (Ready k1) \<sigma>1)"
    using assms fire_Run [of i \<sigma> app e k] fire_Run [of i \<sigma>1 app e k1] by simp
  then show ?thesis using assms(4) by (simp add: scheduled_def)
qed

lemma scheduled_put:
  assumes "i < length (tasks \<sigma>)"
    "segment app e (t_model (tasks \<sigma> ! i)) k \<sigma> = (Ready k1, \<sigma>1)" "scheduled app e i k1 \<sigma>1 r"
  shows "scheduled app e i k \<sigma> r"
proof -
  from assms(3) obtain n where
    "fire_all app e (replicate (Suc n) (Run i)) (set_code i (Ready k1) \<sigma>1) = Some (set_code i (fst r) (snd r))"
    by (auto simp: scheduled_def)
  then show ?thesis
    using fire_Run [OF assms(1,2)] by (auto simp: scheduled_def intro!: exI [of _ "Suc n"])
qed

lemma run_scheduled:
  assumes "i < length (tasks \<sigma>)"
  shows "scheduled app e i k \<sigma> (run app e (t_model (tasks \<sigma> ! i)) k \<sigma>)"
  using assms
proof (induction k arbitrary: \<sigma>)
  case (Put a k)
  show ?case
  proof (cases "act_type a")
    case None
    then show ?thesis using Put.prems by (intro scheduled_stop) simp_all
  next
    case (Some ty)
    let ?\<sigma> = "dispatch app (prefixType ty (t_model (tasks \<sigma> ! i))) a \<sigma>"
    obtain new where "tasks ?\<sigma> = tasks \<sigma> @ new" using dispatch_tasks by blast
    then have "tasks ?\<sigma> ! i = tasks \<sigma> ! i" "i < length (tasks ?\<sigma>)"
      using Put.prems by (simp_all add: nth_append)
    with Put.IH [of ?\<sigma>] Some show ?thesis
      using Put.prems by (intro scheduled_put [of i \<sigma> app e "Put a k" k ?\<sigma>]) simp_all
  qed
next
  case (Select ns f)
  show ?case by (rule scheduled_silent [OF Select.prems refl _ Select.IH [OF rangeI Select.prems, of "slice_of \<sigma> ns"],
        unfolded run.simps [symmetric]]) simp
next
  case (Peek f)
  show ?case by (rule scheduled_silent [OF Peek.prems refl _ Peek.IH [OF rangeI Peek.prems, of "heap \<sigma>"],
        unfolded run.simps [symmetric]]) simp
next
  case (Ask f)
  show ?case by (rule scheduled_silent [OF Ask.prems refl _ Ask.IH [OF rangeI Ask.prems, of e],
        unfolded run.simps [symmetric]]) simp
next
  case (Poke l g k)
  let ?\<sigma> = "\<sigma>\<lparr>heap := (heap \<sigma>)[l := g (deref (heap \<sigma>) (Ref l))]\<rparr>"
  show ?case using Poke.IH [of ?\<sigma>] Poke.prems by (intro scheduled_silent [of i \<sigma> ?\<sigma> app e _ k]) simp_all
next
  case (Emit ev k)
  let ?\<sigma> = "\<sigma>\<lparr>log := log \<sigma> @ [ev]\<rparr>"
  show ?case using Emit.IH [of ?\<sigma>] Emit.prems by (intro scheduled_silent [of i \<sigma> ?\<sigma> app e _ k]) simp_all
qed (simp_all add: scheduled_stop)

lemma run_tasks: "run app e m k \<sigma> = (p, \<sigma>') \<Longrightarrow> \<exists>new. tasks \<sigma>' = tasks \<sigma> @ new"
proof (induction k arbitrary: \<sigma>)
  case (Put a k)
  show ?case
  proof (cases "act_type a")
    case (Some ty)
    with Put obtain new where "tasks \<sigma>' = tasks (dispatch app (prefixType ty m) a \<sigma>) @ new" by auto
    then show ?thesis using dispatch_tasks [of app "prefixType ty m" a \<sigma>] by auto
  qed (use Put.prems in simp)
next
  case (Select ns f)
  from Select.IH [OF rangeI Select.prems [unfolded run.simps]] show ?case .
next
  case (Peek f)
  from Peek.IH [OF rangeI Peek.prems [unfolded run.simps]] show ?case .
next
  case (Ask f)
  from Ask.IH [OF rangeI Ask.prems [unfolded run.simps]] show ?case .
next
  case (Poke l g k)
  from Poke.IH [OF Poke.prems [unfolded run.simps]] show ?case by simp
next
  case (Emit ev k)
  from Emit.IH [OF Emit.prems [unfolded run.simps]] show ?case by simp
qed auto

definition own_label :: "nat \<Rightarrow> reply list \<Rightarrow> label \<Rightarrow> bool" where
  "own_label i rs lab = (case lab of Dispatch ty a \<Rightarrow> False | Run j \<Rightarrow> j = i | Answer j r \<Rightarrow> j = i \<and> r \<in> set rs)"

lemma set_code_same:
  "i < length (tasks \<sigma>) \<Longrightarrow> t_code (tasks \<sigma> ! i) = p \<Longrightarrow> set_code i p \<sigma> = \<sigma>"
  by (auto simp: set_code_def intro!: list_update_same_conv [THEN iffD2])

lemma play_schedule:
  assumes "i < length (tasks \<sigma>)" "play app e (t_model (tasks \<sigma> ! i)) k rs \<sigma> = (p, \<sigma>')"
  shows "\<exists>labs. list_all (own_label i rs) labs \<and>
    fire_all app e labs (set_code i (Ready k) \<sigma>) = Some (set_code i p \<sigma>')"
  using assms
proof (induction rs arbitrary: k \<sigma>)
  case Nil
  with run_scheduled [OF Nil(1), of app e k] obtain n where
    "fire_all app e (replicate (Suc n) (Run i)) (set_code i (Ready k) \<sigma>) = Some (set_code i p \<sigma>')"
    by (auto simp: scheduled_def)
  moreover have "list_all (own_label i []) (replicate (Suc n) (Run i))"
    by (simp add: own_label_def list_all_iff)
  ultimately show ?case by blast
next
  case (Cons r rs)
  let ?m = "t_model (tasks \<sigma> ! i)"
  obtain q \<sigma>1 where run: "run app e ?m k \<sigma> = (q, \<sigma>1)" by force
  obtain new where new: "tasks \<sigma>1 = tasks \<sigma> @ new" using run_tasks [OF run] by blast
  then have i: "i < length (tasks \<sigma>1)" "tasks \<sigma>1 ! i = tasks \<sigma> ! i" using Cons.prems(1) by (simp_all add: nth_append)
  define runs where "runs n = replicate (Suc n) (Run i)" for n
  from run_scheduled [OF Cons.prems(1), of app e k] run obtain n where
    n: "fire_all app e (runs n) (set_code i (Ready k) \<sigma>) = Some (set_code i q \<sigma>1)"
    by (auto simp: scheduled_def runs_def)
  have own: "list_all (own_label i (r # rs)) (runs n)"
    by (simp add: own_label_def list_all_iff runs_def)
  show ?case
  proof (cases "\<exists>f. q = Awaiting f")
    case False
    then have "p = q \<and> \<sigma>' = \<sigma>1" using Cons.prems(2) run by (cases q) auto
    then show ?thesis using n own by blast
  next
    case True
    then obtain f where q: "q = Awaiting f" by blast
    have ans: "fire app e (Answer i r) (set_code i q \<sigma>1) = Some (set_code i (answer r f) \<sigma>1)"
      using i q by (simp add: fire_def tasks_set_code)
    show ?thesis
    proof (cases r)
      case Rejected
      then have "p = Crashed \<and> \<sigma>' = \<sigma>1" using Cons.prems(2) run q by simp
      then have "fire_all app e (runs n @ [Answer i r]) (set_code i (Ready k) \<sigma>) = Some (set_code i p \<sigma>')"
        using n ans Rejected by (simp add: fire_all_append answer_def)
      moreover have "list_all (own_label i (r # rs)) (runs n @ [Answer i r])"
        using own by (simp add: own_label_def)
      ultimately show ?thesis by blast
    next
      case (Reply resp)
      then have "play app e (t_model (tasks \<sigma>1 ! i)) (f resp) rs \<sigma>1 = (p, \<sigma>')"
        using Cons.prems(2) run q i(2) by simp
      from Cons.IH [OF i(1) this] obtain labs where
        labs: "list_all (own_label i rs) labs"
        "fire_all app e labs (set_code i (Ready (f resp)) \<sigma>1) = Some (set_code i p \<sigma>')" by blast
      have "fire_all app e (runs n @ Answer i r # labs) (set_code i (Ready k) \<sigma>) = Some (set_code i p \<sigma>')"
        using n ans Reply labs(2) by (simp add: fire_all_append answer_def)
      moreover have "list_all (own_label i (r # rs)) (runs n @ Answer i r # labs)"
        using own labs(1) by (auto simp: own_label_def list_all_iff split: label.splits)
      ultimately show ?thesis by blast
    qed
  qed
qed

end
