(* ===== verification/DvaSteady.thy ===== *)
theory DvaSteady
  imports DvaSafety
begin

text \<open>
  Loading indicators. Every store shows that it waits with fields named \<open>...Loading\<close> (\<open>switchLoading\<close>, an
  object that no effect writes, is none of them); several effects
  of one store may raise and lower the same one. \<open>steady\<close> is a discipline on the code of an effect
  under which it lowers what it raised on every path to its end; a store all of whose effects follow
  it shows no indicator once its effects have ended, in every schedule (\<open>indicators_off\<close>).
\<close>

section \<open>Indicators\<close>

definition is_flag :: "jstr \<Rightarrow> bool" where
  "is_flag k \<longleftrightarrow> ends_with k (js ''Loading'') \<and> k \<noteq> js ''switchLoading''"

definition raised :: "slice \<Rightarrow> jstr set" where
  "raised t = {k. is_flag k \<and> slot_of t k = Imm (JBool True)}"

definition plain_flag :: "jstr \<times> field \<Rightarrow> bool" where
  "plain_flag kf = (is_flag (fst kf) \<longrightarrow> snd kf = New (JBool True) \<or> snd kf = New (JBool False))"

definition raise :: "jstr \<times> field \<Rightarrow> jstr set \<Rightarrow> jstr set" where
  "raise kf F = (if \<not> is_flag (fst kf) then F
     else if snd kf = New (JBool True) then insert (fst kf) F else F - {fst kf})"

lemma slot_of_oput [simp]: "slot_of (oput k s t) l = (if l = k then s else slot_of t l)"
  by (simp add: slot_of_def)

lemma store_field_shape: "\<exists>sl. fst (store_field (k, f) (t, h)) = oput k sl t \<and> (sl = Imm (JBool True) \<longrightarrow>
     f = New (JBool True) \<or> f = Same (Imm (JBool True)))"
  by (cases "((k, f), t, h)" rule: store_field.cases) auto

lemma raised_store_field:
  assumes "plain_flag kf"
  shows "raised (fst (store_field kf (t, h))) = raise kf (raised t)"
proof -
  obtain k f where kf: "kf = (k, f)" by force
  have other: "raised (oput k s t) = raised t" if "\<not> is_flag k" for s
    using that by (auto simp: raised_def)
  show ?thesis
  proof (cases "is_flag k")
    case True
    then have "f = New (JBool True) \<or> f = New (JBool False)" using assms kf by (simp add: plain_flag_def)
    then show ?thesis using True kf by (auto simp: raised_def raise_def split: if_splits)
  next
    case False
    then show ?thesis
      using other kf by (cases f; (cases "case f of New v \<Rightarrow> v | Same _ \<Rightarrow> JUndef")?) (auto simp: raise_def)
  qed
qed

lemma raised_store_fields:
  assumes "list_all plain_flag fs"
  shows "raised (fst (store_fields fs (t, h))) = fold raise fs (raised t)"
  using assms
proof (induction fs arbitrary: t h)
  case Nil
  then show ?case by (simp add: store_fields_def)
next
  case (Cons kf fs)
  obtain t' h' where th: "store_field kf (t, h) = (t', h')" by force
  from raised_store_field [of kf t h] Cons.prems th have "raised t' = raise kf (raised t)" by simp
  moreover have "store_fields (kf # fs) (t, h) = store_fields fs (t', h')" using th by (simp add: store_fields_def)
  ultimately show ?case using Cons by simp
qed

lemma raise_split: "X \<subseteq> (Y - F) \<union> G \<Longrightarrow> raise kf X \<subseteq> (Y - F) \<union> raise kf G"
  by (auto simp: raise_def)

lemma fold_raise_split: "X \<subseteq> (Y - F) \<union> G \<Longrightarrow> fold raise fs X \<subseteq> (Y - F) \<union> fold raise fs G"
  by (induction fs arbitrary: X G) (simp_all add: raise_split)

section \<open>The discipline\<close>

definition setters :: "jstr list" where
  "setters = [js ''setState'', js ''save'']"

definition resetters :: "jstr list" where
  "resetters = setters @ [js ''empty'']"

text \<open>What follows the last slash of a type.\<close>

definition op_of :: "jstr \<Rightarrow> jstr" where
  "op_of ty = rev (takeWhile (\<lambda>c. c \<noteq> 47) (rev ty))"

text \<open>Effects write only the own store, by a setter that it has (\<open>R\<close>).\<close>

definition local_put :: "jstr list \<Rightarrow> action \<Rightarrow> bool" where
  "local_put R a = (case act_type a of None \<Rightarrow> True
     | Some ty \<Rightarrow> ty \<in> set setters \<inter> set R \<or> op_of ty \<notin> set resetters)"

primrec local :: "jstr list \<Rightarrow> saga \<Rightarrow> bool" where
  "local R Finish = True"
| "local R Fail = True"
| "local R (Put a k) = (local_put R a \<and> local R k)"
| "local R (Select ns f) = (\<forall>t. local R (f t))"
| "local R (Peek f) = (\<forall>h. local R (f h))"
| "local R (Poke l g k) = local R k"
| "local R (Ask f) = (\<forall>e. local R (f e))"
| "local R (Emit ev k) = local R k"
| "local R (Request v u b f) = (\<forall>r. local R (f r))"

definition steady_put :: "action \<Rightarrow> bool" where
  "steady_put a = (case act_type a of None \<Rightarrow> True
     | Some ty \<Rightarrow> ty \<in> set setters \<longrightarrow> list_all plain_flag (act_payload a))"

definition after_put :: "action \<Rightarrow> jstr set \<Rightarrow> jstr set" where
  "after_put a F = (case act_type a of None \<Rightarrow> F
     | Some ty \<Rightarrow> if ty \<in> set setters then fold raise (act_payload a) F else F)"

primrec steady :: "saga \<Rightarrow> jstr set \<Rightarrow> bool" where
  "steady Finish F = (F = {})"
| "steady Fail F = True"
| "steady (Put a k) F = (steady_put a \<and> steady k (after_put a F))"
| "steady (Select ns f) F = (\<forall>t. steady (f t) F)"
| "steady (Peek f) F = (\<forall>h. steady (f h) F)"
| "steady (Poke l g k) F = steady k F"
| "steady (Ask f) F = (\<forall>e. steady (f e) F)"
| "steady (Emit ev k) F = steady k F"
| "steady (Request v u b f) F = (\<forall>r. steady (f r) F)"

text \<open>An action dispatched by a page does not touch the indicators.\<close>

definition benign :: "action \<Rightarrow> bool" where
  "benign a = list_all (\<lambda>kf. \<not> is_flag (fst kf)) (act_payload a)"

definition low :: "slice \<Rightarrow> bool" where
  "low t \<longleftrightarrow> list_all (\<lambda>(k, s). is_flag k \<longrightarrow> s \<noteq> Imm (JBool True)) t"

definition calm :: "reducer \<Rightarrow> bool" where
  "calm f = (\<forall>a d t h. benign a \<longrightarrow> low d \<longrightarrow> raised (fst (f a d (t, h))) \<subseteq> raised t)"

text \<open>The requirements on an application; \<open>S\<close> are the stores that follow the discipline.\<close>

definition reducer_names :: "model \<Rightarrow> jstr list" where
  "reducer_names m = map fst (m_reducers m)"

definition disciplined :: "jstr set \<Rightarrow> model \<Rightarrow> bool" where
  "disciplined S m \<longleftrightarrow>
     47 \<notin> set (m_name m) \<and>
     (\<forall>(ty, f) \<in> set (m_reducers m). ty \<in> set resetters \<and> calm f \<and> (ty \<in> set setters \<longrightarrow> f = merge_reducer)) \<and>
     (\<forall>(ty, f) \<in> set (m_effects m). \<forall>a. local (reducer_names m) (f a) \<and> (m_name m \<in> S \<longrightarrow> steady (f a) {})) \<and>
     list_all (\<lambda>kf. is_flag (fst kf) \<longrightarrow> snd kf = New (JBool False)) (m_state m)"

subsection \<open>Types\<close>

lemma slash: "js ''/'' = [47]"
  by (simp add: js_Cons)

lemma takeWhile_slash: "47 \<notin> set t \<Longrightarrow> takeWhile (\<lambda>c. c \<noteq> 47) (t @ 47 # xs) = (t :: jstr)"
  by (induction t) auto

lemma op_of_slash: "47 \<notin> set ty \<Longrightarrow> op_of (ns @ 47 # ty) = ty"
  using takeWhile_slash [of "rev ty" "rev ns"] by (simp add: op_of_def)

lemma op_of_plain: "47 \<notin> set ty \<Longrightarrow> op_of ty = ty"
  by (subst op_of_def, subst takeWhile_eq_all_conv [THEN iffD2]) auto

lemma op_of_full_type: "op_of (full_type ns ty) = op_of ty"
proof (cases "47 \<in> set ty")
  case True
  then have "\<exists>x \<in> set (rev ty). \<not> x \<noteq> (47 :: int)" by simp
  then have "takeWhile (\<lambda>c. c \<noteq> 47) (rev ty @ 47 # rev ns) = takeWhile (\<lambda>c. c \<noteq> 47) (rev ty)"
    by (intro takeWhile_append1) auto
  then show ?thesis by (simp add: op_of_def full_type_def slash)
next
  case False
  then show ?thesis by (simp add: full_type_def slash op_of_slash op_of_plain)
qed

lemma full_type_inj:
  assumes "47 \<notin> set ns" "47 \<notin> set ns'" "full_type ns ty = full_type ns' ty'"
  shows "ns = ns' \<and> ty = ty'"
proof -
  have "ns = ns'"
    using assms takeWhile_slash [of ns ty] takeWhile_slash [of ns' ty'] by (simp add: full_type_def slash)
  with assms(3) show ?thesis by (simp add: full_type_def)
qed

lemma resetters_plain: "ty \<in> set resetters \<Longrightarrow> 47 \<notin> set ty \<and> op_of ty = ty"
  by (auto simp: resetters_def setters_def js_Cons op_of_def)

lemma setters_resetters: "ty \<in> set setters \<Longrightarrow> ty \<in> set resetters"
  by (simp add: resetters_def)

lemma app_reducersD:
  assumes "map_of (app_reducers app) full = Some (m, f)"
  obtains ty where "m \<in> set app" "(ty, f) \<in> set (m_reducers m)" "full = full_type (m_name m) ty"
  using map_of_SomeD [OF assms] by (auto simp: app_reducers_def)

lemma app_effectsD:
  assumes "map_of (app_effects app) full = Some (m, f)"
  obtains ty where "m \<in> set app" "(ty, f) \<in> set (m_effects m)" "full = full_type (m_name m) ty"
  using map_of_SomeD [OF assms] by (auto simp: app_effects_def)

lemma op_of_prefixType: "op_of (prefixType ty m) = op_of ty"
  by (simp add: prefixType_def op_of_full_type)

text \<open>What a put can change: a setter changes the own store, anything else no store.\<close>

lemma put_reducer:
  assumes app: "\<forall>m' \<in> set app. disciplined S m'" and m: "m \<in> set app"
    and ty: "ty \<in> set setters \<or> op_of ty \<notin> set resetters"
    and red: "map_of (app_reducers app) (prefixType ty m) = Some (m', f)"
  shows "m_name m' = m_name m \<and> ty \<in> set setters \<and> f = merge_reducer"
proof -
  from red obtain r where r: "m' \<in> set app" "(r, f) \<in> set (m_reducers m')"
    "prefixType ty m = full_type (m_name m') r" by (rule app_reducersD)
  have m': "47 \<notin> set (m_name m')" "r \<in> set resetters" "r \<in> set setters \<longrightarrow> f = merge_reducer"
    using app r(1,2) by (auto simp: disciplined_def)
  have mm: "47 \<notin> set (m_name m)" using app m by (simp add: disciplined_def)
  have "op_of ty = r"
    using op_of_prefixType [of ty m] r(3) m'(2) by (simp add: op_of_full_type resetters_plain)
  with ty m'(2) have setter: "ty \<in> set setters" by auto
  then have plain: "47 \<notin> set ty" using resetters_plain setters_resetters by blast
  have "prefixType ty m = full_type (m_name m) ty"
    using r(3) plain by (auto simp: prefixType_def full_type_def slash split: if_splits)
  with r(3) have "m_name m' = m_name m \<and> r = ty" using full_type_inj [OF m'(1) mm] by metis
  with setter m'(3) show ?thesis by blast
qed

lemma app_reducers_some:
  assumes "m \<in> set app" "ty \<in> set (reducer_names m)"
  shows "map_of (app_reducers app) (full_type (m_name m) ty) \<noteq> None"
proof -
  have "full_type (m_name m) ty \<in> fst ` set (app_reducers app)"
    using assms by (force simp: app_reducers_def reducer_names_def)
  then show ?thesis by (simp add: map_of_eq_None_iff)
qed

lemma prefixType_reducer: "ty \<in> set (reducer_names m) \<Longrightarrow> prefixType ty m = full_type (m_name m) ty"
  by (auto simp: prefixType_def reducer_names_def map_of_eq_None_iff)

section \<open>One segment\<close>

lemma slice_of_update [simp]:
  "slice_of (\<sigma>\<lparr>heap := h\<rparr>) ns = slice_of \<sigma> ns" "slice_of (\<sigma>\<lparr>log := lg\<rparr>) ns = slice_of \<sigma> ns"
  "slice_of (\<sigma>\<lparr>tasks := ts\<rparr>) ns = slice_of \<sigma> ns"
  by (simp_all add: slice_of_def)

lemma slice_of_reduce:
  "slice_of (reduce app ty a \<sigma>) ns = (case map_of (app_reducers app) ty of
      None \<Rightarrow> slice_of \<sigma> ns
    | Some (m, f) \<Rightarrow> if ns = m_name m
        then fst (f a (slice_in (defaults \<sigma>) (m_name m)) (slice_of \<sigma> (m_name m), heap \<sigma>))
        else slice_of \<sigma> ns)"
  by (auto simp: reduce_def slice_of_def slice_in_def split: option.splits prod.splits)

lemma slice_of_dispatch: "slice_of (dispatch app ty a \<sigma>) ns = slice_of (reduce app ty a \<sigma>) ns"
  by (simp add: dispatch_def spawn_def slice_of_def split: option.splits prod.splits)

lemma defaults_dispatch [simp]: "defaults (dispatch app ty a \<sigma>) = defaults \<sigma>"
  by (simp add: dispatch_def spawn_def reduce_def split: option.splits prod.splits)

definition covered :: "jstr set \<Rightarrow> model \<Rightarrow> jstr set \<Rightarrow> progress \<Rightarrow> bool" where
  "covered S m F p = (case p of
      Ready k \<Rightarrow> local (reducer_names m) k \<and> (m_name m \<in> S \<longrightarrow> steady k F)
    | Awaiting f \<Rightarrow> \<forall>r. local (reducer_names m) (f r) \<and> (m_name m \<in> S \<longrightarrow> steady (f r) F)
    | Done \<Rightarrow> m_name m \<in> S \<longrightarrow> F = {}
    | Crashed \<Rightarrow> True)"

text \<open>How a segment of an effect that owed the flags \<open>F\<close>, and then owes \<open>F'\<close>, may change a store.\<close>

definition owes :: "jstr set \<Rightarrow> model \<Rightarrow> jstr set \<Rightarrow> jstr set \<Rightarrow> system \<Rightarrow> system \<Rightarrow> bool" where
  "owes S m F F' \<sigma> \<sigma>' \<longleftrightarrow> (\<forall>ns \<in> S. raised (slice_of \<sigma>' ns) \<subseteq>
     (if ns = m_name m then (raised (slice_of \<sigma> ns) - F) \<union> F' else raised (slice_of \<sigma> ns)))"

lemma owes_update [simp]:
  "owes S m F F' (\<sigma>\<lparr>heap := h\<rparr>) \<sigma>' = owes S m F F' \<sigma> \<sigma>'"
  "owes S m F F' (\<sigma>\<lparr>log := lg\<rparr>) \<sigma>' = owes S m F F' \<sigma> \<sigma>'"
  by (simp_all add: owes_def)

lemma disciplined_effect:
  "disciplined S m \<Longrightarrow> (op, f) \<in> set (m_effects m) \<Longrightarrow>
     local (reducer_names m) (f a) \<and> (m_name m \<in> S \<longrightarrow> steady (f a) {})"
  by (auto simp: disciplined_def)

lemma owes_put:
  assumes app: "\<forall>m' \<in> set app. disciplined S m'" and m: "m \<in> set app"
    and loc: "local_put (reducer_names m) a" and st: "m_name m \<in> S \<longrightarrow> steady_put a"
    and ty: "act_type a = Some ty"
  shows "owes S m F (after_put a F) \<sigma> (dispatch app (prefixType ty m) a \<sigma>)"
proof -
  let ?red = "map_of (app_reducers app) (prefixType ty m)"
  have cond: "ty \<in> set setters \<or> op_of ty \<notin> set resetters"
    using loc ty by (auto simp: local_put_def)
  show ?thesis
  proof (cases ?red)
    case None
    have "ty \<notin> set setters"
    proof
      assume "ty \<in> set setters"
      then have "op_of ty \<in> set resetters" using resetters_plain setters_resetters by auto
      with loc ty have "ty \<in> set (reducer_names m)" by (auto simp: local_put_def)
      with app_reducers_some [OF m this] None prefixType_reducer show False by simp
    qed
    then show ?thesis
      using None ty by (auto simp: owes_def slice_of_dispatch slice_of_reduce after_put_def)
  next
    case (Some mf)
    then obtain m' f where mf: "?red = Some (m', f)" by (cases mf) simp
    from put_reducer [OF app m cond mf]
    have f: "m_name m' = m_name m" "ty \<in> set setters" "f = merge_reducer" by simp_all
    have "raised (slice_of (dispatch app (prefixType ty m) a \<sigma>) (m_name m)) \<subseteq>
        (raised (slice_of \<sigma> (m_name m)) - F) \<union> after_put a F" if "m_name m \<in> S"
    proof -
      have "list_all plain_flag (act_payload a)" using st that ty f(2) by (simp add: steady_put_def)
      then have "raised (slice_of (dispatch app (prefixType ty m) a \<sigma>) (m_name m)) =
          fold raise (act_payload a) (raised (slice_of \<sigma> (m_name m)))"
        using mf f by (simp add: slice_of_dispatch slice_of_reduce merge_reducer_def raised_store_fields)
      then show ?thesis using f(2) ty by (simp add: after_put_def fold_raise_split)
    qed
    then show ?thesis using mf f by (auto simp: owes_def slice_of_dispatch slice_of_reduce)
  qed
qed

lemma segment_owes:
  assumes app: "\<forall>m' \<in> set app. disciplined S m'" and m: "m \<in> set app"
  shows "local (reducer_names m) k \<Longrightarrow> m_name m \<in> S \<longrightarrow> steady k F \<Longrightarrow>
    segment app e m k \<sigma> = (p, \<sigma>') \<Longrightarrow> \<exists>F'. covered S m F' p \<and> owes S m F F' \<sigma> \<sigma>'"
proof (induction k arbitrary: \<sigma>)
  case Finish
  then show ?case by (auto simp: covered_def owes_def intro!: exI [of _ F])
next
  case Fail
  then show ?case by (auto simp: covered_def owes_def intro!: exI [of _ F])
next
  case (Put a k)
  show ?case
  proof (cases "act_type a")
    case None
    then show ?thesis using Put.prems by (auto simp: covered_def owes_def intro!: exI [of _ F])
  next
    case (Some ty)
    with Put.prems have p: "p = Ready k" "\<sigma>' = dispatch app (prefixType ty m) a \<sigma>" by simp_all
    have "owes S m F (after_put a F) \<sigma> \<sigma>'"
      unfolding p(2) by (rule owes_put [OF app m _ _ Some]) (use Put.prems in auto)
    moreover have "covered S m (after_put a F) p" using Put.prems p(1) by (simp add: covered_def)
    ultimately show ?thesis by blast
  qed
next
  case (Select ns f)
  from Select.IH [OF rangeI] Select.prems show ?case by simp
next
  case (Peek f)
  from Peek.IH [OF rangeI] Peek.prems show ?case by simp
next
  case (Ask f)
  from Ask.IH [OF rangeI] Ask.prems show ?case by simp
next
  case (Poke l g k)
  from Poke.IH [of "\<sigma>\<lparr>heap := (heap \<sigma>)[l := g (deref (heap \<sigma>) (Ref l))]\<rparr>"] Poke.prems
  show ?case by simp
next
  case (Emit ev k)
  from Emit.IH [of "\<sigma>\<lparr>log := log \<sigma> @ [ev]\<rparr>"] Emit.prems
  show ?case by simp
next
  case (Request v u b f)
  then show ?case by (auto simp: covered_def owes_def intro!: exI [of _ F])
qed

section \<open>All schedules\<close>

text \<open>Every flag that is up belongs to an effect that will lower it, or that has crashed.\<close>

definition accounted :: "app \<Rightarrow> jstr set \<Rightarrow> system \<Rightarrow> jstr set list \<Rightarrow> bool" where
  "accounted app S \<sigma> Fs \<longleftrightarrow> length Fs = length (tasks \<sigma>) \<and>
     (\<forall>i < length Fs. t_model (tasks \<sigma> ! i) \<in> set app \<and>
        covered S (t_model (tasks \<sigma> ! i)) (Fs ! i) (t_code (tasks \<sigma> ! i))) \<and>
     (\<forall>ns \<in> S. \<forall>k \<in> raised (slice_of \<sigma> ns).
        \<exists>i < length Fs. m_name (t_model (tasks \<sigma> ! i)) = ns \<and> k \<in> Fs ! i) \<and>
     (\<forall>ns. low (slice_in (defaults \<sigma>) ns))"

definition steady_system :: "app \<Rightarrow> jstr set \<Rightarrow> system \<Rightarrow> bool" where
  "steady_system app S \<sigma> \<longleftrightarrow> (\<exists>Fs. accounted app S \<sigma> Fs)"

definition page_label :: "label \<Rightarrow> bool" where
  "page_label lab = (case lab of Dispatch ty a \<Rightarrow> benign a | _ \<Rightarrow> True)"

lemma spawn_covered:
  assumes "\<forall>m \<in> set app. disciplined S m" "tasks (spawn app ty a \<sigma>) = tasks \<sigma> @ new" "t \<in> set new"
  shows "t_model t \<in> set app \<and> covered S (t_model t) {} (t_code t)"
proof (cases "map_of (app_effects app) ty")
  case None
  then show ?thesis using assms(2,3) by (simp add: spawn_def)
next
  case (Some mf)
  then obtain m f where mf: "map_of (app_effects app) ty = Some (m, f)" by (cases mf) simp
  then obtain op where m: "m \<in> set app" "(op, f) \<in> set (m_effects m)" by (rule app_effectsD)
  have "t = \<lparr>t_model = m, t_code = Ready (f a)\<rparr>" using assms(2,3) mf by (auto simp: spawn_def)
  then show ?thesis
    using disciplined_effect [of S m op f a] assms(1) m by (simp add: covered_def)
qed

lemma tasks_reduce [simp]: "tasks (reduce app ty a \<sigma>) = tasks \<sigma>"
  by (simp add: reduce_def split: option.splits prod.splits)

lemma dispatch_covered:
  assumes "\<forall>m \<in> set app. disciplined S m" "tasks (dispatch app ty a \<sigma>) = tasks \<sigma> @ new" "t \<in> set new"
  shows "t_model t \<in> set app \<and> covered S (t_model t) {} (t_code t)"
  using spawn_covered [of app S ty a "reduce app ty a \<sigma>" new t] assms by (simp add: dispatch_def)

lemma segment_covered:
  assumes "\<forall>m \<in> set app. disciplined S m"
  shows "segment app e m k \<sigma> = (p, \<sigma>') \<Longrightarrow> \<exists>new. tasks \<sigma>' = tasks \<sigma> @ new \<and>
    (\<forall>t \<in> set new. t_model t \<in> set app \<and> covered S (t_model t) {} (t_code t)) \<and> defaults \<sigma>' = defaults \<sigma>"
proof (induction k arbitrary: \<sigma>)
  case (Put a k)
  show ?case
  proof (cases "act_type a")
    case (Some ty)
    obtain new where "tasks (dispatch app (prefixType ty m) a \<sigma>) = tasks \<sigma> @ new"
      using dispatch_tasks by blast
    with dispatch_covered [OF assms this] Put.prems Some show ?thesis by auto
  qed (use Put.prems in simp)
next
  case (Select ns f)
  from Select.IH [OF rangeI] Select.prems show ?case by simp
next
  case (Peek f)
  from Peek.IH [OF rangeI] Peek.prems show ?case by simp
next
  case (Ask f)
  from Ask.IH [OF rangeI] Ask.prems show ?case by simp
next
  case (Poke l g k)
  from Poke.IH [OF Poke.prems [unfolded segment.simps]] show ?case by simp
next
  case (Emit ev k)
  from Emit.IH [OF Emit.prems [unfolded segment.simps]] show ?case by simp
qed auto

lemma accounted_append:
  assumes acc: "accounted app S \<sigma> Fs" and ts: "tasks \<sigma>' = tasks \<sigma> @ new"
    and new: "\<forall>t \<in> set new. t_model t \<in> set app \<and> covered S (t_model t) {} (t_code t)"
    and flags: "\<forall>ns \<in> S. raised (slice_of \<sigma>' ns) \<subseteq> raised (slice_of \<sigma> ns)"
    and dflt: "defaults \<sigma>' = defaults \<sigma>"
  shows "accounted app S \<sigma>' (Fs @ replicate (length new) {})"
  unfolding accounted_def
proof (intro conjI allI ballI impI)
  show "length (Fs @ replicate (length new) {}) = length (tasks \<sigma>')"
    using acc ts by (simp add: accounted_def)
  fix i assume i: "i < length (Fs @ replicate (length new) {})"
  have "length Fs = length (tasks \<sigma>)" using acc by (simp add: accounted_def)
  then show "t_model (tasks \<sigma>' ! i) \<in> set app"
    "covered S (t_model (tasks \<sigma>' ! i)) ((Fs @ replicate (length new) {}) ! i) (t_code (tasks \<sigma>' ! i))"
    using i acc new ts by (auto simp: accounted_def nth_append)
next
  fix ns k assume "ns \<in> S" "k \<in> raised (slice_of \<sigma>' ns)"
  with flags acc obtain i where "i < length Fs" "m_name (t_model (tasks \<sigma> ! i)) = ns" "k \<in> Fs ! i"
    unfolding accounted_def by blast
  moreover have "length Fs = length (tasks \<sigma>)" using acc by (simp add: accounted_def)
  ultimately show "\<exists>i < length (Fs @ replicate (length new) {}).
      m_name (t_model (tasks \<sigma>' ! i)) = ns \<and> k \<in> (Fs @ replicate (length new) {}) ! i"
    using ts by (intro exI [of _ i]) (simp add: nth_append)
next
  fix ns show "low (slice_in (defaults \<sigma>') ns)" using acc dflt by (simp add: accounted_def)
qed

lemma reduce_benign:
  assumes app: "\<forall>m \<in> set app. disciplined S m" and a: "benign a"
    and d: "\<forall>ns. low (slice_in (defaults \<sigma>) ns)"
  shows "raised (slice_of (dispatch app ty a \<sigma>) ns) \<subseteq> raised (slice_of \<sigma> ns)"
proof (cases "map_of (app_reducers app) ty")
  case None
  then show ?thesis by (simp add: slice_of_dispatch slice_of_reduce)
next
  case (Some mf)
  then obtain m f where mf: "map_of (app_reducers app) ty = Some (m, f)" by (cases mf) simp
  then obtain op where "m \<in> set app" "(op, f) \<in> set (m_reducers m)" by (rule app_reducersD)
  then have "calm f" using app by (auto simp: disciplined_def)
  then show ?thesis
    using a d mf by (simp add: slice_of_dispatch slice_of_reduce calm_def)
qed

lemma accounted_owes:
  assumes acc: "accounted app S \<sigma> Fs" and i: "i < length (tasks \<sigma>)"
    and ts: "tasks \<sigma>' = tasks \<sigma>" and dflt: "defaults \<sigma>' = defaults \<sigma>"
    and ow: "owes S (t_model (tasks \<sigma> ! i)) (Fs ! i) F' \<sigma> \<sigma>'"
    and p: "covered S (t_model (tasks \<sigma> ! i)) F' p"
  shows "accounted app S (set_code i p \<sigma>') (Fs[i := F'])"
  unfolding accounted_def
proof (intro conjI allI ballI impI)
  have len: "length Fs = length (tasks \<sigma>)" using acc by (simp add: accounted_def)
  show "length (Fs[i := F']) = length (tasks (set_code i p \<sigma>'))" using len ts by simp
  fix j assume j: "j < length (Fs[i := F'])"
  then show "t_model (tasks (set_code i p \<sigma>') ! j) \<in> set app"
    "covered S (t_model (tasks (set_code i p \<sigma>') ! j)) (Fs[i := F'] ! j) (t_code (tasks (set_code i p \<sigma>') ! j))"
    using acc i ts p len by (auto simp: accounted_def tasks_set_code nth_list_update)
next
  fix ns k assume ns: "ns \<in> S" and k: "k \<in> raised (slice_of (set_code i p \<sigma>') ns)"
  have len: "length Fs = length (tasks \<sigma>)" using acc by (simp add: accounted_def)
  have mine: "\<exists>j < length (Fs[i := F']). m_name (t_model (tasks (set_code i p \<sigma>') ! j)) = ns \<and> k \<in> Fs[i := F'] ! j"
    if "j < length Fs" "m_name (t_model (tasks \<sigma> ! j)) = ns" "k \<in> Fs[i := F'] ! j" for j
    using that i ts len by (intro exI [of _ j]) (simp add: tasks_set_code)
  show "\<exists>j < length (Fs[i := F']). m_name (t_model (tasks (set_code i p \<sigma>') ! j)) = ns \<and> k \<in> Fs[i := F'] ! j"
  proof (cases "ns = m_name (t_model (tasks \<sigma> ! i)) \<and> k \<in> F'")
    case True
    then show ?thesis using i len by (intro mine [of i]) simp_all
  next
    case False
    with ow ns k have up: "k \<in> raised (slice_of \<sigma> ns)"
      and out: "ns = m_name (t_model (tasks \<sigma> ! i)) \<Longrightarrow> k \<notin> Fs ! i"
      by (auto simp: owes_def split: if_splits)
    then obtain j where "j < length Fs" "m_name (t_model (tasks \<sigma> ! j)) = ns" "k \<in> Fs ! j"
      using acc ns unfolding accounted_def by blast
    moreover have "j \<noteq> i" using out calculation by blast
    ultimately show ?thesis by (intro mine [of j]) simp_all
  qed
next
  fix ns show "low (slice_in (defaults (set_code i p \<sigma>')) ns)"
    using acc dflt by (simp add: accounted_def)
qed

lemma accounted_set_code:
  assumes acc: "accounted app S \<sigma> Fs" and i: "i < length (tasks \<sigma>)"
    and p: "covered S (t_model (tasks \<sigma> ! i)) (Fs ! i) p"
  shows "accounted app S (set_code i p \<sigma>) Fs"
  using accounted_owes [OF acc i refl refl _ p] by (simp add: owes_def subset_iff)

lemma steady_step:
  assumes app: "\<forall>m \<in> set app. disciplined S m"
    and step: "dva_step app e \<sigma> lab \<sigma>'" and lab: "page_label lab" and inv: "steady_system app S \<sigma>"
  shows "steady_system app S \<sigma>'"
proof -
  from inv obtain Fs where acc: "accounted app S \<sigma> Fs" by (auto simp: steady_system_def)
  from step show ?thesis
  proof (cases rule: dva_step.cases)
    case (by_dispatch ty a)
    obtain new where new: "tasks (dispatch app ty a \<sigma>) = tasks \<sigma> @ new" using dispatch_tasks by blast
    have "accounted app S \<sigma>' (Fs @ replicate (length new) {})"
      using acc new dispatch_covered [OF app new] lab by_dispatch reduce_benign [OF app]
      by (intro accounted_append [of app S \<sigma>]) (auto simp: page_label_def accounted_def)
    then show ?thesis by (auto simp: steady_system_def)
  next
    case (by_run i k p \<sigma>1)
    let ?m = "t_model (tasks \<sigma> ! i)"
    have m: "?m \<in> set app" and cov: "covered S ?m (Fs ! i) (Ready k)"
      using acc by_run by (auto simp: accounted_def)
    then have "local (reducer_names ?m) k" "m_name ?m \<in> S \<longrightarrow> steady k (Fs ! i)"
      by (simp_all add: covered_def)
    from segment_owes [OF app m this by_run(5)]
    obtain F' where F': "covered S ?m F' p" "owes S ?m (Fs ! i) F' \<sigma> \<sigma>1" by blast
    from segment_covered [OF app by_run(5)] obtain new where new: "tasks \<sigma>1 = tasks \<sigma> @ new"
      "\<forall>t \<in> set new. t_model t \<in> set app \<and> covered S (t_model t) {} (t_code t)" "defaults \<sigma>1 = defaults \<sigma>"
      by blast
    define \<sigma>2 where "\<sigma>2 = \<sigma>1\<lparr>tasks := tasks \<sigma>\<rparr>"
    have "accounted app S (set_code i p \<sigma>2) (Fs[i := F'])"
      using acc by_run(3) new(3) F' by (intro accounted_owes) (simp_all add: \<sigma>2_def owes_def)
    then have "accounted app S (set_code i p \<sigma>1) (Fs[i := F'] @ replicate (length new) {})"
      using new by_run(3)
      by (intro accounted_append [of app S "set_code i p \<sigma>2"])
         (simp_all add: \<sigma>2_def set_code_def nth_append list_update_append)
    then show ?thesis using by_run by (auto simp: steady_system_def)
  next
    case (by_answer i f r)
    then have len: "i < length Fs" using acc by (simp add: accounted_def)
    have "covered S (t_model (tasks \<sigma> ! i)) (Fs ! i) (Awaiting f)"
      using acc len by_answer(4) by (auto simp: accounted_def)
    then have "covered S (t_model (tasks \<sigma> ! i)) (Fs ! i) (answer r f)"
      by (cases r) (simp_all add: covered_def answer_def)
    then have "accounted app S \<sigma>' Fs"
      unfolding by_answer(2) using by_answer(3) by (intro accounted_set_code [OF acc])
    then show ?thesis by (auto simp: steady_system_def)
  qed
qed

lemma steady_reach:
  assumes "dva_reach app e \<sigma> labs \<sigma>'" "\<forall>m \<in> set app. disciplined S m" "list_all page_label labs"
    "steady_system app S \<sigma>"
  shows "steady_system app S \<sigma>'"
  using assms by induction (auto intro: steady_step)

lemma indicators_off:
  assumes "steady_system app S \<sigma>" "\<forall>t \<in> set (tasks \<sigma>). t_code t = Done" "ns \<in> S"
  shows "raised (slice_of \<sigma> ns) = {}"
proof -
  from assms(1) obtain Fs where acc: "accounted app S \<sigma> Fs" by (auto simp: steady_system_def)
  have "Fs ! i = {}" if "i < length Fs" "m_name (t_model (tasks \<sigma> ! i)) = ns" for i
  proof -
    have "t_code (tasks \<sigma> ! i) = Done" using assms(2) acc that(1) by (simp add: accounted_def)
    moreover have "covered S (t_model (tasks \<sigma> ! i)) (Fs ! i) (t_code (tasks \<sigma> ! i))"
      using acc that(1) by (simp add: accounted_def)
    ultimately show ?thesis using that(2) assms(3) by (simp add: covered_def)
  qed
  then show ?thesis using acc assms(3) unfolding accounted_def by fastforce
qed

subsection \<open>The start\<close>

lemma raised_initial:
  assumes "list_all (\<lambda>kf. is_flag (fst kf) \<longrightarrow> snd kf = New (JBool False)) fs"
  shows "raised (fst (store_fields fs ([], h))) = {}"
proof -
  have "list_all plain_flag fs" using assms by (auto simp: list_all_iff plain_flag_def)
  moreover have "fold raise fs X = {}" if "X = {}" for X
    using assms that by (induction fs arbitrary: X) (auto simp: raise_def)
  moreover have "raised [] = {}" by (simp add: raised_def slot_of_def)
  ultimately show ?thesis by (simp add: raised_store_fields)
qed

lemma low_oput: "low t \<Longrightarrow> (is_flag k \<longrightarrow> s \<noteq> Imm (JBool True)) \<Longrightarrow> low (oput k s t)"
proof -
  have "set (oreplace k s t) \<subseteq> insert (k, s) (set t)" by (induction t) (auto split: if_splits)
  moreover have "set (oinsert k s t) = insert (k, s) (set t)"
    by (induction k s t rule: oinsert.induct) auto
  ultimately show "low t \<Longrightarrow> (is_flag k \<longrightarrow> s \<noteq> Imm (JBool True)) \<Longrightarrow> low (oput k s t)"
    by (auto simp: low_def list_all_iff oput_def)
qed

lemma low_initial:
  assumes "list_all (\<lambda>kf. is_flag (fst kf) \<longrightarrow> snd kf = New (JBool False)) fs" "low t"
  shows "low (fst (store_fields fs (t, h)))"
  using assms
proof (induction fs arbitrary: t h)
  case Nil
  then show ?case by (simp add: store_fields_def)
next
  case (Cons kf fs)
  obtain k f where kf: "kf = (k, f)" by force
  obtain t' h' where th: "store_field kf (t, h) = (t', h')" by force
  have "low (fst (store_field (k, f) (t, h)))"
    using Cons.prems kf store_field_shape [of k f t h] by (auto intro!: low_oput)
  then have "low t'" using th kf by simp
  then show ?case using Cons th by (simp add: store_fields_def)
qed

lemma low_raised: "low d \<Longrightarrow> raised (omerge t d) \<subseteq> raised t"
proof (induction d arbitrary: t)
  case (Cons ks d)
  obtain k s where ks: "ks = (k, s)" by force
  from Cons have "raised (omerge (oput k s t) d) \<subseteq> raised (oput k s t)" by (simp add: low_def)
  also have "\<dots> \<subseteq> raised t" using Cons.prems ks by (auto simp: low_def raised_def)
  finally show ?case using ks by (simp add: omerge_Cons)
qed simp

lemma slice_in_oput [simp]: "slice_in (oput n t ts) ns = (if ns = n then t else slice_in ts ns)"
  by (simp add: slice_in_def)

lemma steady_init:
  assumes "\<forall>m \<in> set app. disciplined S m"
  shows "steady_system app' S (init_system app)"
proof -
  define quiet where "quiet \<sigma> \<longleftrightarrow> tasks \<sigma> = [] \<and> (\<forall>ns. raised (slice_of \<sigma> ns) = {}) \<and>
      (\<forall>ns. low (slice_in (defaults \<sigma>) ns))" for \<sigma>
  have one: "quiet (add_model m \<sigma>)" if "disciplined S m" "quiet \<sigma>" for m \<sigma>
  proof -
    obtain t h where th: "store_fields (m_state m) ([], heap \<sigma>) = (t, h)" by force
    moreover have "low t" using low_initial [of "m_state m" "[]" "heap \<sigma>"] that(1) th
      by (simp add: disciplined_def low_def)
    moreover have "raised t = {}" using raised_initial [of "m_state m" "heap \<sigma>"] that(1) th by (simp add: disciplined_def)
    ultimately show ?thesis using that(2) by (auto simp: quiet_def add_model_def slice_of_def)
  qed
  have "quiet (fold add_model ms \<sigma>)" if "\<forall>m \<in> set ms. disciplined S m" "quiet \<sigma>" for ms \<sigma>
    using that by (induction ms arbitrary: \<sigma>) (simp_all add: one)
  moreover have "quiet \<lparr>slices = [], defaults = [], heap = [], tasks = [], log = []\<rparr>"
    by (simp add: quiet_def slice_of_def slice_in_def raised_def slot_of_def low_def)
  ultimately have "quiet (init_system app)" using assms by (simp add: init_system_def)
  then show ?thesis
    by (auto simp: steady_system_def accounted_def quiet_def intro!: exI [of _ "[]"])
qed

section \<open>Deciding the discipline\<close>

text \<open>The combinators the effects are written with.\<close>

lemma ends_with_drop: "ends_with s p \<longleftrightarrow> drop (length s - length p) s = p"
  unfolding ends_with_iff by (auto, metis append_take_drop_id)

lemma slash_js [simp]: "47 \<in> set (js s) \<longleftrightarrow> CHR ''/'' \<in> set s"
  using of_char_eq_iff_int [of "CHR ''/''"] by (induction s) (auto simp: js_Cons)

lemma is_flag_js [simp]:
  "is_flag (js k) \<longleftrightarrow> drop (length k - 7) k = ''Loading'' \<and> k \<noteq> ''switchLoading''"
proof -
  have "drop n (js k) = js (drop n k)" for n by (simp add: js_def drop_map)
  then show ?thesis by (simp add: is_flag_def ends_with_drop numeral_eq_Suc)
qed

lemma op_of_js [simp]: "op_of (js ty) = js (rev (takeWhile (\<lambda>c. c \<noteq> CHR ''/'') (rev ty)))"
proof -
  have "takeWhile (\<lambda>c. c \<noteq> 47) (map of_char s) = (map of_char (takeWhile (\<lambda>c. c \<noteq> CHR ''/'') s) :: jstr)" for s
    using of_char_eq_iff_int [of _ "CHR ''/''"] by (induction s) auto
  then show ?thesis by (simp add: op_of_def js_def rev_map)
qed

definition setter_name :: "string \<Rightarrow> bool" where
  "setter_name s \<longleftrightarrow> s = ''setState'' \<or> s = ''save''"

lemma in_setters [simp]: "js s \<in> set setters \<longleftrightarrow> setter_name s"
  by (auto simp: setters_def setter_name_def)

lemma in_resetters [simp]: "js s \<in> set resetters \<longleftrightarrow> setter_name s \<or> s = ''empty''"
  by (auto simp: resetters_def setters_def setter_name_def)

lemma steady_setState [simp]:
  "steady (setState fs k) F \<longleftrightarrow> list_all plain_flag fs \<and> steady k (fold raise fs F)"
  by (simp add: setState_def put_action_def steady_put_def after_put_def setter_name_def)

lemma steady_saveState [simp]:
  "steady (saveState fs k) F \<longleftrightarrow> list_all plain_flag fs \<and> steady k (fold raise fs F)"
  by (simp add: saveState_def put_action_def steady_put_def after_put_def setter_name_def)

lemma steady_trigger [simp]:
  "\<not> setter_name s \<Longrightarrow> steady (trigger (js s) k) F \<longleftrightarrow> steady k F"
  "\<not> setter_name s \<Longrightarrow> steady (trigger_with (js s) args k) F \<longleftrightarrow> steady k F"
  by (simp_all add: trigger_def trigger_with_def put_action_def steady_put_def after_put_def)

lemma steady_calls [simp]:
  "steady (call_if a vs k) F \<longleftrightarrow> steady k F" "steady k F \<Longrightarrow> steady (call a vs k) F"
  by (simp_all add: call_if_def call_def split: option.splits)

lemma steady_updates [simp]:
  "steady k F \<Longrightarrow> steady (assign_in sl key v k) F" "steady k F \<Longrightarrow> steady (update_array sl g k) F"
  by (simp_all add: assign_in_def update_array_def split: slot.splits jsv.splits)

lemma local_setState [simp]:
  "local R (setState fs k) \<longleftrightarrow> js ''setState'' \<in> set R \<and> local R k"
  by (simp add: setState_def put_action_def local_put_def setter_name_def)

lemma local_saveState [simp]:
  "local R (saveState fs k) \<longleftrightarrow> js ''save'' \<in> set R \<and> local R k"
  by (simp add: saveState_def put_action_def local_put_def setter_name_def)

definition foreign_op :: "string \<Rightarrow> bool" where
  "foreign_op ty \<longleftrightarrow> \<not> setter_name (rev (takeWhile (\<lambda>c. c \<noteq> CHR ''/'') (rev ty))) \<and>
     rev (takeWhile (\<lambda>c. c \<noteq> CHR ''/'') (rev ty)) \<noteq> ''empty''"

lemma local_trigger [simp]:
  "foreign_op s \<Longrightarrow> local R (trigger (js s) k) \<longleftrightarrow> local R k"
  "foreign_op s \<Longrightarrow> local R (trigger_with (js s) args k) \<longleftrightarrow> local R k"
  by (simp_all add: trigger_def trigger_with_def put_action_def local_put_def foreign_op_def)

lemma local_calls [simp]:
  "local R (call_if a vs k) \<longleftrightarrow> local R k" "local R k \<Longrightarrow> local R (call a vs k)"
  by (simp_all add: call_if_def call_def split: option.splits)

lemma local_updates [simp]:
  "local R k \<Longrightarrow> local R (assign_in sl key v k)" "local R k \<Longrightarrow> local R (update_array sl g k)"
  by (simp_all add: assign_in_def update_array_def split: slot.splits jsv.splits)

lemma untyped_put [simp]: "act_type a = None \<Longrightarrow> local_put R a" "act_type a = None \<Longrightarrow> steady_put a"
  "act_type a = None \<Longrightarrow> after_put a F = F"
  by (simp_all add: local_put_def steady_put_def after_put_def)

lemma plain_flag_flag [simp]: "plain_flag (flag s b)"
  by (simp add: plain_flag_def flag_def)

lemma raise_flag [simp]: "raise (flag s True) F = (if is_flag (js s) then insert (js s) F else F)"
  "raise (flag s False) F = (if is_flag (js s) then F - {js s} else F)"
  by (simp_all add: raise_def flag_def)

lemma plain_flag_other [simp]: "\<not> is_flag (js s) \<Longrightarrow> plain_flag (js s, f)"
  "\<not> is_flag (js s) \<Longrightarrow> raise (js s, f) F = F"
  by (auto simp: plain_flag_def raise_def simp del: is_flag_js)

lemma triggered [simp]:
  "\<not> setter_name ''fetch''" "\<not> setter_name ''getNodes''" "\<not> setter_name ''serverManage/getNodes''"
  "\<not> setter_name ''getThemes''" "\<not> setter_name ''fetchById''" "\<not> setter_name ''user/getUserInfo''"
  "\<not> setter_name ''user/getUserInfoById''"
  "foreign_op ''fetch''" "foreign_op ''getNodes''" "foreign_op ''serverManage/getNodes''"
  "foreign_op ''getThemes''" "foreign_op ''fetchById''" "foreign_op ''user/getUserInfo''"
  "foreign_op ''user/getUserInfoById''"
  by (simp_all add: setter_name_def foreign_op_def)

text \<open>A model that is given by the names of its reducers and effects.\<close>

definition calm_reducers :: "model \<Rightarrow> bool" where
  "calm_reducers m \<longleftrightarrow> list_all (\<lambda>(ty, f). ty \<in> set resetters \<and> calm f \<and>
     (ty \<in> set setters \<longrightarrow> f = merge_reducer)) (m_reducers m)"

definition effects_ok :: "bool \<Rightarrow> jstr list \<Rightarrow> (jstr \<times> (action \<Rightarrow> saga)) list \<Rightarrow> bool" where
  "effects_ok st R es \<longleftrightarrow> (\<forall>(ty, f) \<in> set es. \<forall>a. local R (f a) \<and> (st \<longrightarrow> steady (f a) {}))"

lemma effects_ok_Nil: "effects_ok st R []"
  and effects_ok_Cons: "effects_ok st R ((ty, f) # es) \<longleftrightarrow>
    (\<forall>a. local R (f a) \<and> (st \<longrightarrow> steady (f a) {})) \<and> effects_ok st R es"
  by (auto simp: effects_ok_def)

lemma disciplined_intro:
  assumes "47 \<notin> set (m_name m)" "calm_reducers m"
    "effects_ok (m_name m \<in> S) (reducer_names m) (m_effects m)"
    "list_all (\<lambda>kf. is_flag (fst kf) \<longrightarrow> snd kf = New (JBool False)) (m_state m)"
  shows "disciplined S m"
  using assms by (auto simp: disciplined_def calm_reducers_def list_all_iff effects_ok_def)

end
