(* ===== verification/DvaGuard.thy ===== *)
theory DvaGuard
  imports DvaSteady
begin

text \<open>
  What a refused request may do. \<open>quiet\<close> code only lowers indicators, shows messages and calls back;
  \<open>guarded\<close> code is quiet after every answer that does not carry the code 200. Guarded effects stay
  guarded in every schedule, and quiet code leaves the data of every store alone.
\<close>

section \<open>Quiet and guarded code\<close>

definition lowering :: "jstr list \<Rightarrow> action \<Rightarrow> bool" where
  "lowering R a = (case act_type a of None \<Rightarrow> True
     | Some ty \<Rightarrow> ty \<in> set setters \<inter> set R \<and> list_all (\<lambda>kf. is_flag (fst kf) \<and> snd kf = New (JBool False)) (act_payload a))"

primrec quiet :: "jstr list \<Rightarrow> saga \<Rightarrow> bool" where
  "quiet R Finish = True"
| "quiet R Fail = True"
| "quiet R (Put a k) = (lowering R a \<and> quiet R k)"
| "quiet R (Select ns f) = (\<forall>t. quiet R (f t))"
| "quiet R (Peek f) = (\<forall>h. quiet R (f h))"
| "quiet R (Poke l g k) = False"
| "quiet R (Ask f) = (\<forall>e. quiet R (f e))"
| "quiet R (Emit ev k) = ((\<forall>v u b. ev \<noteq> Sent v u b) \<and> quiet R k)"
| "quiet R (Request v u b f) = False"

primrec guarded :: "jstr list \<Rightarrow> saga \<Rightarrow> bool" where
  "guarded R Finish = True"
| "guarded R Fail = True"
| "guarded R (Put a k) = guarded R k"
| "guarded R (Select ns f) = (\<forall>t. guarded R (f t))"
| "guarded R (Peek f) = (\<forall>h. guarded R (f h))"
| "guarded R (Poke l g k) = guarded R k"
| "guarded R (Ask f) = (\<forall>e. guarded R (f e))"
| "guarded R (Emit ev k) = guarded R k"
| "guarded R (Request v u b f) = (\<forall>r. guarded R (f r) \<and> (\<not> code_ok r \<longrightarrow> quiet R (f r)))"

definition guarded_app :: "app \<Rightarrow> bool" where
  "guarded_app app \<longleftrightarrow> (\<forall>m \<in> set app. \<forall>(ty, f) \<in> set (m_effects m). \<forall>a. guarded (reducer_names m) (f a))"

definition guarded_progress :: "jstr list \<Rightarrow> progress \<Rightarrow> bool" where
  "guarded_progress R p = (case p of
      Ready k \<Rightarrow> guarded R k | Awaiting f \<Rightarrow> \<forall>r. guarded R (f r) \<and> (\<not> code_ok r \<longrightarrow> quiet R (f r))
    | Done \<Rightarrow> True | Crashed \<Rightarrow> True)"

definition guarded_system :: "app \<Rightarrow> system \<Rightarrow> bool" where
  "guarded_system app \<sigma> \<longleftrightarrow>
     (\<forall>t \<in> set (tasks \<sigma>). t_model t \<in> set app \<and> guarded_progress (reducer_names (t_model t)) (t_code t))"

section \<open>Guarded code stays guarded\<close>

lemma segment_guarded:
  "guarded R k \<Longrightarrow> segment app e m k \<sigma> = (p, \<sigma>') \<Longrightarrow> guarded_progress R p"
proof (induction k arbitrary: \<sigma>)
  case (Put a k)
  then show ?case by (auto simp: guarded_progress_def split: option.splits)
qed (auto simp: guarded_progress_def)

lemma dispatch_guarded:
  assumes "guarded_app app" "guarded_system app \<sigma>"
  shows "guarded_system app (dispatch app ty a \<sigma>)"
proof (cases "map_of (app_effects app) ty")
  case None
  then show ?thesis using assms(2) by (simp add: dispatch_def spawn_def guarded_system_def)
next
  case (Some mf)
  then obtain m f where mf: "map_of (app_effects app) ty = Some (m, f)" by (cases mf) simp
  then obtain op where m: "m \<in> set app" "(op, f) \<in> set (m_effects m)" by (rule app_effectsD)
  then have "guarded (reducer_names m) (f a)" using assms(1) by (fastforce simp: guarded_app_def)
  then show ?thesis
    using assms(2) mf m(1) by (auto simp: dispatch_def spawn_def guarded_system_def guarded_progress_def)
qed

lemma guarded_system_update [simp]:
  "guarded_system app (\<sigma>\<lparr>heap := h\<rparr>) = guarded_system app \<sigma>"
  "guarded_system app (\<sigma>\<lparr>log := lg\<rparr>) = guarded_system app \<sigma>"
  by (simp_all add: guarded_system_def)

lemma segment_system:
  assumes "guarded_app app"
  shows "guarded_system app \<sigma> \<Longrightarrow> segment app e m k \<sigma> = (p, \<sigma>') \<Longrightarrow> guarded_system app \<sigma>'"
proof (induction k arbitrary: \<sigma>)
  case (Put a k)
  then show ?case by (auto intro: dispatch_guarded [OF assms] split: option.splits)
next
  case (Poke l g k)
  show ?case by (rule Poke.IH [OF _ Poke.prems(2) [unfolded segment.simps]]) (simp add: Poke.prems(1))
next
  case (Emit ev k)
  show ?case by (rule Emit.IH [OF _ Emit.prems(2) [unfolded segment.simps]]) (simp add: Emit.prems(1))
next
  case (Select ns f)
  from Select.IH [OF rangeI Select.prems(1) Select.prems(2) [unfolded segment.simps]] show ?case .
next
  case (Peek f)
  from Peek.IH [OF rangeI Peek.prems(1) Peek.prems(2) [unfolded segment.simps]] show ?case .
next
  case (Ask f)
  from Ask.IH [OF rangeI Ask.prems(1) Ask.prems(2) [unfolded segment.simps]] show ?case .
next
  case (Request v u b f)
  then show ?case by auto
qed auto

lemma set_code_guarded:
  assumes "guarded_system app \<sigma>" "guarded_progress (reducer_names (t_model (tasks \<sigma> ! i))) p" "i < length (tasks \<sigma>)"
  shows "guarded_system app (set_code i p \<sigma>)"
proof -
  have "t_model (tasks \<sigma> ! i) \<in> set app" using assms by (simp add: guarded_system_def)
  then show ?thesis
    using assms by (auto simp: guarded_system_def set_code_def dest!: set_update_subset_insert [THEN subsetD])
qed

lemma guarded_step:
  assumes app: "guarded_app app" and "dva_step app e \<sigma> lab \<sigma>'" and inv: "guarded_system app \<sigma>"
  shows "guarded_system app \<sigma>'"
  using assms(2)
proof (cases rule: dva_step.cases)
  case (by_dispatch ty a)
  then show ?thesis using dispatch_guarded [OF app inv] by simp
next
  case (by_run i k p \<sigma>1)
  let ?R = "reducer_names (t_model (tasks \<sigma> ! i))"
  have "guarded_progress ?R (Ready k)" using inv by_run(3,4) nth_mem unfolding guarded_system_def by metis
  then have "guarded_progress ?R p" using segment_guarded by_run(5) by (simp add: guarded_progress_def)
  moreover have "guarded_system app \<sigma>1" using segment_system [OF app inv by_run(5)] .
  moreover have "i < length (tasks \<sigma>1)" using segment_tasks [OF by_run(5)] by_run(3) by auto
  moreover have "tasks \<sigma>1 ! i = tasks \<sigma> ! i" using segment_tasks [OF by_run(5)] by_run(3) by (auto simp: nth_append)
  ultimately show ?thesis using by_run(2) by (simp add: set_code_guarded)
next
  case (by_answer i f r)
  let ?R = "reducer_names (t_model (tasks \<sigma> ! i))"
  have "guarded_progress ?R (Awaiting f)" using inv by_answer(3,4) nth_mem unfolding guarded_system_def by metis
  then have "guarded_progress ?R (answer r f)" by (cases r) (simp_all add: guarded_progress_def answer_def)
  then show ?thesis using by_answer(2,3) inv by (simp add: set_code_guarded)
qed

lemma guarded_reach:
  assumes "dva_reach app e \<sigma> labs \<sigma>'" "guarded_app app" "guarded_system app \<sigma>"
  shows "guarded_system app \<sigma>'"
  using assms by induction (auto intro: guarded_step)

lemma guarded_init: "guarded_system app (init_system app')"
proof -
  have "tasks (fold add_model ms \<sigma>) = tasks \<sigma>" for ms \<sigma>
    by (induction ms arbitrary: \<sigma>) (simp_all add: add_model_def split: prod.splits)
  then show ?thesis by (simp add: guarded_system_def init_system_def)
qed

section \<open>Quiet code leaves the data alone\<close>

definition sends :: "event list \<Rightarrow> event list" where
  "sends evs = filter (\<lambda>ev. case ev of Sent _ _ _ \<Rightarrow> True | _ \<Rightarrow> False) evs"

definition same_data :: "system \<Rightarrow> system \<Rightarrow> bool" where
  "same_data \<sigma> \<sigma>' \<longleftrightarrow> heap \<sigma>' = heap \<sigma> \<and> length (tasks \<sigma>') = length (tasks \<sigma>) \<and>
     sends (log \<sigma>') = sends (log \<sigma>) \<and>
     (\<forall>ns k. \<not> is_flag k \<longrightarrow> slot_of (slice_of \<sigma>' ns) k = slot_of (slice_of \<sigma> ns) k)"

lemma same_data_refl [simp]: "same_data \<sigma> \<sigma>"
  by (simp add: same_data_def)

lemma same_data_trans: "same_data \<sigma> \<sigma>' \<Longrightarrow> same_data \<sigma>' \<sigma>'' \<Longrightarrow> same_data \<sigma> \<sigma>''"
  by (simp add: same_data_def)

text \<open>Names tell models, and the reducers of a model from its effects.\<close>

definition apart_model :: "model \<Rightarrow> bool" where
  "apart_model m \<longleftrightarrow> 47 \<notin> set (m_name m) \<and>
     list_all (\<lambda>(ty, f). ty \<notin> set (reducer_names m)) (m_effects m) \<and>
     list_all (\<lambda>(ty, f). ty \<in> set resetters \<and> (ty \<in> set setters \<longrightarrow> f = merge_reducer)) (m_reducers m)"

definition apart :: "app \<Rightarrow> bool" where
  "apart app \<longleftrightarrow> distinct (map m_name app) \<and> list_all apart_model app"

lemma apart_effects:
  assumes app: "apart app" and m: "m \<in> set app" and ty: "ty \<in> set (reducer_names m)"
  shows "map_of (app_effects app) (full_type (m_name m) ty) = None"
proof (rule ccontr)
  assume "map_of (app_effects app) (full_type (m_name m) ty) \<noteq> None"
  then obtain m' f where "map_of (app_effects app) (full_type (m_name m) ty) = Some (m', f)" by auto
  then obtain op' where o: "m' \<in> set app" "(op', f) \<in> set (m_effects m')"
    "full_type (m_name m) ty = full_type (m_name m') op'" by (rule app_effectsD)
  have "47 \<notin> set (m_name m)" "47 \<notin> set (m_name m')"
    using app m o(1) by (auto simp: apart_def apart_model_def list_all_iff)
  from full_type_inj [OF this o(3)] have "m' = m" "op' = ty"
    using app m o(1) by (auto simp: apart_def distinct_map dest: inj_onD)
  moreover have "op' \<notin> set (reducer_names m')"
    using app o(1,2) unfolding apart_def apart_model_def list_all_iff by blast
  ultimately show False using ty by simp
qed

lemma lowering_fields:
  assumes "list_all (\<lambda>kf. is_flag (fst kf) \<and> snd kf = New (JBool False)) fs"
  shows "snd (store_fields fs (t, h)) = h \<and>
    (\<forall>k. \<not> is_flag k \<longrightarrow> slot_of (fst (store_fields fs (t, h))) k = slot_of t k)"
  using assms
proof (induction fs arbitrary: t)
  case Nil
  then show ?case by (simp add: store_fields_def)
next
  case (Cons kf fs)
  obtain k f where kf: "kf = (k, f)" by force
  with Cons.prems have k: "is_flag k" "f = New (JBool False)" by simp_all
  then have "store_fields (kf # fs) (t, h) = store_fields fs (oput k (Imm (JBool False)) t, h)"
    using kf by (simp add: store_fields_def)
  then show ?case using Cons k(1) by auto
qed

lemma lowering_dispatch:
  assumes app: "apart app" and m: "m \<in> set app"
    and a: "lowering (reducer_names m) a" "act_type a = Some ty"
  shows "same_data \<sigma> (dispatch app (prefixType ty m) a \<sigma>)"
proof -
  let ?full = "prefixType ty m"
  have ty: "ty \<in> set setters" "ty \<in> set (reducer_names m)"
    and fs: "list_all (\<lambda>kf. is_flag (fst kf) \<and> snd kf = New (JBool False)) (act_payload a)"
    using a by (simp_all add: lowering_def)
  have op: "op_of ?full = ty" using resetters_plain [OF setters_resetters [OF ty(1)]] op_of_prefixType by simp
  have no: "map_of (app_effects app) ?full = None"
    using apart_effects [OF app m ty(2)] prefixType_reducer [OF ty(2)] by simp
  show ?thesis
  proof (cases "map_of (app_reducers app) ?full")
    case None
    then show ?thesis using no by (simp add: dispatch_def spawn_def reduce_def)
  next
    case (Some mf)
    then obtain m' f where mf: "map_of (app_reducers app) ?full = Some (m', f)" by (cases mf) simp
    then obtain op' where o: "m' \<in> set app" "(op', f) \<in> set (m_reducers m')" "?full = full_type (m_name m') op'"
      by (rule app_reducersD)
    then have r: "op' \<in> set resetters" "op' \<in> set setters \<longrightarrow> f = merge_reducer"
      using app unfolding apart_def apart_model_def list_all_iff by blast+
    then have "op' = ty" using o(3) op resetters_plain [OF r(1)] by (simp add: op_of_full_type)
    then have f: "f = merge_reducer" using r(2) ty(1) by simp
    let ?t = "slice_of \<sigma> (m_name m')"
    have low: "snd (store_fields (act_payload a) (?t, heap \<sigma>)) = heap \<sigma>"
      "\<not> is_flag k \<Longrightarrow> slot_of (fst (store_fields (act_payload a) (?t, heap \<sigma>))) k = slot_of ?t k" for k
      using lowering_fields [OF fs, of ?t "heap \<sigma>"] by blast+
    have "slot_of (slice_of (dispatch app ?full a \<sigma>) ns) k = slot_of (slice_of \<sigma> ns) k" if "\<not> is_flag k" for ns k
      using low(2) [OF that] mf f by (simp add: slice_of_dispatch slice_of_reduce merge_reducer_def)
    moreover have "heap (dispatch app ?full a \<sigma>) = heap \<sigma>"
      using no mf f low(1)
      by (auto simp: dispatch_def spawn_def reduce_def merge_reducer_def split: prod.splits)
    moreover have "tasks (dispatch app ?full a \<sigma>) = tasks \<sigma>" "log (dispatch app ?full a \<sigma>) = log \<sigma>"
      using no mf by (simp_all add: dispatch_def spawn_def reduce_def split: prod.splits)
    ultimately show ?thesis by (simp add: same_data_def)
  qed
qed

lemma quiet_run:
  assumes app: "apart app" and m: "m \<in> set app"
  shows "quiet (reducer_names m) k \<Longrightarrow> run app e m k \<sigma> = (p, \<sigma>') \<Longrightarrow>
    (p = Done \<or> p = Crashed) \<and> same_data \<sigma> \<sigma>'"
proof (induction k arbitrary: \<sigma>)
  case (Put a k)
  show ?case
  proof (cases "act_type a")
    case None
    then show ?thesis using Put.prems by simp
  next
    case (Some ty)
    with Put.prems have "run app e m k (dispatch app (prefixType ty m) a \<sigma>) = (p, \<sigma>')" by simp
    with Put.IH Put.prems(1) lowering_dispatch [OF app m _ Some] show ?thesis
      using same_data_trans by (metis quiet.simps(3))
  qed
next
  case (Emit ev k)
  from Emit.prems have "quiet (reducer_names m) k" "run app e m k (\<sigma>\<lparr>log := log \<sigma> @ [ev]\<rparr>) = (p, \<sigma>')" by simp_all
  from Emit.IH [OF this] have "p = Done \<or> p = Crashed" "same_data (\<sigma>\<lparr>log := log \<sigma> @ [ev]\<rparr>) \<sigma>'" by simp_all
  moreover have "same_data \<sigma> (\<sigma>\<lparr>log := log \<sigma> @ [ev]\<rparr>)"
    using Emit.prems(1) by (cases ev) (simp_all add: same_data_def sends_def)
  ultimately show ?case using same_data_trans by blast
qed auto

section \<open>Deciding it\<close>

lemma quiet_simps [simp]:
  "quiet R (setState fs k) \<longleftrightarrow> js ''setState'' \<in> set R \<and>
     list_all (\<lambda>kf. is_flag (fst kf) \<and> snd kf = New (JBool False)) fs \<and> quiet R k"
  "quiet R (saveState fs k) \<longleftrightarrow> js ''save'' \<in> set R \<and>
     list_all (\<lambda>kf. is_flag (fst kf) \<and> snd kf = New (JBool False)) fs \<and> quiet R k"
  "quiet R k \<Longrightarrow> quiet R (call_if a vs k)" "quiet R k \<Longrightarrow> quiet R (call a vs k)"
  by (auto simp: setState_def saveState_def put_action_def lowering_def setter_name_def call_if_def
      call_def split: option.split)

lemma guarded_simps [simp]:
  "guarded R (setState fs k) \<longleftrightarrow> guarded R k" "guarded R (saveState fs k) \<longleftrightarrow> guarded R k"
  "guarded R (trigger ty k) \<longleftrightarrow> guarded R k" "guarded R (trigger_with ty args k) \<longleftrightarrow> guarded R k"
  "guarded R k \<Longrightarrow> guarded R (call_if a vs k)" "guarded R k \<Longrightarrow> guarded R (call a vs k)"
  "guarded R k \<Longrightarrow> guarded R (assign_in sl key v k)" "guarded R k \<Longrightarrow> guarded R (update_array sl g k)"
  by (simp_all add: setState_def saveState_def trigger_def trigger_with_def call_if_def call_def
      assign_in_def update_array_def split: option.split slot.split jsv.split)

lemma lowered_flag [simp]:
  "is_flag (fst (flag s b)) \<and> snd (flag s b) = New (JBool False) \<longleftrightarrow> is_flag (js s) \<and> \<not> b"
  by (simp add: flag_def)

definition guarded_model :: "model \<Rightarrow> bool" where
  "guarded_model m \<longleftrightarrow> list_all (\<lambda>(ty, f). \<forall>a. guarded (reducer_names m) (f a)) (m_effects m)"

lemma guarded_app_models: "list_all guarded_model app \<Longrightarrow> guarded_app app"
  by (force simp: guarded_app_def guarded_model_def list_all_iff)

section \<open>Running effects\<close>

lemma full_type_eq [simp]: "full_type n t = full_type n t' \<longleftrightarrow> t = t'"
  by (simp add: full_type_def)

lemma lookup_own:
  "map_of (map (\<lambda>(ty, f). (full_type n ty, m, f)) rs) (full_type n ty) = map_option (Pair m) (map_of rs ty)"
  by (induction rs) auto

lemma lookup_other:
  assumes "47 \<notin> set n" "47 \<notin> set n'" "n \<noteq> n'"
  shows "map_of (map (\<lambda>(ty, f). (full_type n ty, m, f)) rs) (full_type n' ty) = None"
proof -
  have "full_type n' t' \<noteq> full_type n t" for t t' using assms full_type_inj by metis
  then show ?thesis by (induction rs) auto
qed

lemma lookup_concat:
  assumes "distinct (map m_name app)" "\<forall>m \<in> set app. 47 \<notin> set (m_name m)" "m \<in> set app"
  shows "map_of (concat (map (\<lambda>m. map (\<lambda>(ty, f). (full_type (m_name m) ty, m, f)) (g m)) app))
    (full_type (m_name m) ty) = map_option (Pair m) (map_of (g m) ty)"
  using assms
proof (induction app)
  case (Cons m' app)
  let ?rows = "\<lambda>m. map (\<lambda>(ty, f). (full_type (m_name m) ty, m, f)) (g m)"
  show ?case
  proof (cases "m = m'")
    case True
    have "map_of (concat (map ?rows app)) (full_type (m_name m') ty) = None"
    proof (rule ccontr)
      assume "map_of (concat (map ?rows app)) (full_type (m_name m') ty) \<noteq> None"
      then obtain x where "(full_type (m_name m') ty, x) \<in> set (concat (map ?rows app))"
        by (auto dest: map_of_SomeD)
      then obtain m1 op where m1: "m1 \<in> set app" "full_type (m_name m') ty = full_type (m_name m1) op" by auto
      then have "m_name m1 = m_name m'" using full_type_inj Cons.prems(2) by (metis list.set_intros)
      then show False using m1(1) Cons.prems(1) by (metis distinct.simps(2) image_eqI list.map(2) list.set_map)
    qed
    then show ?thesis using True by (simp add: map_add_None lookup_own map_add_def split: option.split)
  next
    case False
    then have m: "m \<in> set app" using Cons.prems(3) by simp
    then have "m_name m' \<noteq> m_name m" using Cons.prems(1) by auto
    then have "map_of (?rows m') (full_type (m_name m) ty) = None"
      using Cons.prems(2) m by (intro lookup_other) auto
    then show ?thesis using Cons m by (simp add: map_add_def split: option.split)
  qed
qed simp

lemma apart_lookup:
  assumes "apart app" "m \<in> set app"
  shows "map_of (app_reducers app) (full_type (m_name m) ty) = map_option (Pair m) (map_of (m_reducers m) ty)"
    "map_of (app_effects app) (full_type (m_name m) ty) = map_option (Pair m) (map_of (m_effects m) ty)"
  using assms lookup_concat [of app m m_reducers ty] lookup_concat [of app m m_effects ty]
  by (simp_all add: app_reducers_def app_effects_def apart_def apart_model_def list_all_iff)

text \<open>Writing fields of a slice, and starting an effect.\<close>

definition write_fields :: "jstr \<Rightarrow> (jstr \<times> field) list \<Rightarrow> system \<Rightarrow> system" where
  "write_fields n fs \<sigma> = (case store_fields fs (slice_of \<sigma> n, heap \<sigma>) of
     (t, h) \<Rightarrow> \<sigma>\<lparr>slices := oput n t (slices \<sigma>), heap := h\<rparr>)"

definition start :: "model \<Rightarrow> saga \<Rightarrow> system \<Rightarrow> system" where
  "start m k \<sigma> = \<sigma>\<lparr>tasks := tasks \<sigma> @ [\<lparr>t_model = m, t_code = Ready k\<rparr>]\<rparr>"

lemma dispatch_setter:
  assumes app: "apart app" "m \<in> set app" and r: "map_of (m_reducers m) ty = Some merge_reducer"
  shows "dispatch app (prefixType ty m) (put_action ty fs) \<sigma> = write_fields (m_name m) fs \<sigma>"
proof -
  have mem: "ty \<in> set (reducer_names m)" using r
    by (metis map_of_eq_None_iff option.distinct(1) reducer_names_def set_map)
  have "map_of (app_effects app) (full_type (m_name m) ty) = None" by (rule apart_effects [OF app mem])
  then show ?thesis
    using apart_lookup(1) [OF app, of ty] r prefixType_reducer [OF mem]
    by (simp add: dispatch_def spawn_def reduce_def merge_reducer_def put_action_def write_fields_def
        split: prod.split)
qed

lemma run_setState:
  assumes "apart app" "m \<in> set app" "map_of (m_reducers m) (js ''setState'') = Some merge_reducer"
  shows "run app e m (setState fs k) \<sigma> = run app e m k (write_fields (m_name m) fs \<sigma>)"
  using dispatch_setter [OF assms] by (simp add: setState_def put_action_def)

lemma run_saveState:
  assumes "apart app" "m \<in> set app" "map_of (m_reducers m) (js ''save'') = Some merge_reducer"
  shows "run app e m (saveState fs k) \<sigma> = run app e m k (write_fields (m_name m) fs \<sigma>)"
  using dispatch_setter [OF assms] by (simp add: saveState_def put_action_def)

lemma run_trigger:
  assumes app: "apart app" "m \<in> set app" and ef: "map_of (m_effects m) ty = Some f"
  shows "run app e m (trigger ty k) \<sigma> = run app e m k (start m (f (put_action ty [])) \<sigma>)"
proof -
  have pre: "prefixType ty m = full_type (m_name m) ty" using ef by (simp add: prefixType_def)
  have "(ty, f) \<in> set (m_effects m)" using ef by (rule map_of_SomeD)
  then have "ty \<notin> set (reducer_names m)"
    using app by (auto simp: apart_def apart_model_def list_all_iff)
  then have "map_of (m_reducers m) ty = None" by (auto simp: map_of_eq_None_iff reducer_names_def)
  then show ?thesis
    using apart_lookup [OF app, of ty] ef pre
    by (simp add: trigger_def dispatch_def spawn_def reduce_def start_def put_action_def)
qed

lemma segment_setState:
  assumes "apart app" "m \<in> set app" "map_of (m_reducers m) (js ''setState'') = Some merge_reducer"
  shows "segment app e m (setState fs k) \<sigma> = (Ready k, write_fields (m_name m) fs \<sigma>)"
  using dispatch_setter [OF assms] by (simp add: setState_def put_action_def)

lemma dispatch_effect:
  assumes app: "apart app" "m \<in> set app" and ef: "map_of (m_effects m) ty = Some f"
  shows "dispatch app (full_type (m_name m) ty) a \<sigma> = start m (f a) \<sigma>"
proof -
  have "(ty, f) \<in> set (m_effects m)" using ef by (rule map_of_SomeD)
  then have "ty \<notin> set (reducer_names m)"
    using app by (auto simp: apart_def apart_model_def list_all_iff)
  then have "map_of (m_reducers m) ty = None" by (auto simp: map_of_eq_None_iff reducer_names_def)
  then show ?thesis
    using apart_lookup [OF app, of ty] ef by (simp add: dispatch_def spawn_def reduce_def start_def)
qed

lemma tasks_init [simp]: "tasks (init_system app) = []"
proof -
  have "tasks (fold add_model ms \<sigma>) = tasks \<sigma>" for ms \<sigma>
    by (induction ms arbitrary: \<sigma>) (simp_all add: add_model_def split: prod.splits)
  then show ?thesis by (simp add: init_system_def)
qed

lemma write_fields_other [simp]:
  "tasks (write_fields n fs \<sigma>) = tasks \<sigma>" "log (write_fields n fs \<sigma>) = log \<sigma>"
  "defaults (write_fields n fs \<sigma>) = defaults \<sigma>"
  by (simp_all add: write_fields_def split: prod.split)

lemma slice_of_write_fields [simp]:
  "slice_of (write_fields n fs \<sigma>) ns =
     (if ns = n then fst (store_fields fs (slice_of \<sigma> n, heap \<sigma>)) else slice_of \<sigma> ns)"
  by (simp add: write_fields_def slice_of_def split: prod.split)

lemma heap_write_fields [simp]:
  "heap (write_fields n [flag s b] \<sigma>) = heap \<sigma>" "heap (write_fields n [(k, Same sl)] \<sigma>) = heap \<sigma>"
  by (simp_all add: write_fields_def store_fields_def flag_def)

lemma start_other [simp]:
  "tasks (start m k \<sigma>) = tasks \<sigma> @ [\<lparr>t_model = m, t_code = Ready k\<rparr>]" "log (start m k \<sigma>) = log \<sigma>"
  "heap (start m k \<sigma>) = heap \<sigma>" "slice_of (start m k \<sigma>) ns = slice_of \<sigma> ns"
  by (simp_all add: start_def)

section \<open>Two contracts of the stores\<close>

text \<open>A store that shows a list: loading it raises the indicator, asks for the list, lowers the
  indicator and, when the answer is good, replaces the list.\<close>

locale list_store =
  fixes app :: app and m :: model and load :: "action \<Rightarrow> saga" and url :: endpoint and key :: jstr
  assumes app: "apart app" and mem: "m \<in> set app"
    and setter: "map_of (m_reducers m) (js ''setState'') = Some merge_reducer"
    and load: "load a = setState [flag ''fetchLoading'' True] (Request GET url JUndef (\<lambda>t.
      setState [flag ''fetchLoading'' False]
      (if \<not> code_ok t then Finish else setState [(key, New (data_of t))] Finish)))"
    and key: "key \<noteq> js ''fetchLoading''"
begin

lemmas run_set = run_setState [OF app mem setter]

lemma loaded:
  "play app e m (load a) [Reply r] \<sigma> =
     (Done, let \<sigma>1 = write_fields (m_name m) [flag ''fetchLoading'' True] \<sigma>;
                \<sigma>2 = \<sigma>1\<lparr>log := log \<sigma> @ [Sent GET url JUndef]\<rparr>;
                \<sigma>3 = write_fields (m_name m) [flag ''fetchLoading'' False] \<sigma>2
            in if code_ok r then write_fields (m_name m) [(key, New (data_of r))] \<sigma>3 else \<sigma>3)"
  by (simp add: load run_set Let_def)

lemma indicator_down:
  "slot_of (slice_of (snd (play app e m (load a) [Reply r] \<sigma>)) (m_name m)) (js ''fetchLoading'') =
     Imm (JBool False)"
proof -
  have "slot_of (fst (store_field (key, f) (t, h))) (js ''fetchLoading'') = slot_of t (js ''fetchLoading'')"
    for f t h
    using key store_field_shape [of key f t h] by auto
  then show ?thesis unfolding loaded by (simp add: Let_def store_fields_def flag_def)
qed

end

text \<open>A change on the server: one request, and the list again when the answer is good.\<close>

locale refetching =
  fixes app :: app and m :: model and change :: "action \<Rightarrow> saga" and url :: endpoint
    and body :: "action \<Rightarrow> jsv" and again :: jstr and fetch :: "action \<Rightarrow> saga"
  assumes app: "apart app" and mem: "m \<in> set app"
    and again: "map_of (m_effects m) again = Some fetch"
    and change: "change a = Request POST url (body a) (\<lambda>t.
      if \<not> code_ok t then Finish else trigger again Finish)"
begin

lemma changed:
  "play app e m (change a) [Reply r] \<sigma> =
     (Done, let \<sigma>1 = \<sigma>\<lparr>log := log \<sigma> @ [Sent POST url (body a)]\<rparr>
            in if code_ok r then start m (fetch (put_action again [])) \<sigma>1 else \<sigma>1)"
  by (simp add: change run_trigger [OF app mem again])

lemma lost: "play app e m (change a) [Rejected] \<sigma> = (Crashed, \<sigma>\<lparr>log := log \<sigma> @ [Sent POST url (body a)]\<rparr>)"
  by (simp add: change)

end

end
