(* ===== verification/DvaNodes.thy ===== *)
theory DvaNodes
  imports Dva
begin

text \<open>
  The stores of the node pages: one per protocol (\<open>serverVmess\<close>, ...), the list of all nodes
  (\<open>serverManage\<close>), the groups (\<open>serverGroup\<close>) and the routes (\<open>serverRoute\<close>). The protocol stores
  change one node on the server and have the list fetched again.
\<close>

section \<open>One protocol\<close>

definition node_url :: "jstr \<Rightarrow> string \<Rightarrow> endpoint" where
  "node_url proto op = Secure (js ''/server/'' @ proto @ js ''/'' @ js op)"

definition refresh_nodes :: "saga \<Rightarrow> saga" where
  "refresh_nodes k = trigger (js ''serverManage/getNodes'') k"

definition node_update :: "jstr \<Rightarrow> action \<Rightarrow> saga" where
  "node_update proto a =
     Request POST (node_url proto ''update'')
       (JObj (obj_of [(js ''id'', arg a ''id''), (to_str (arg a ''key''), arg a ''value'')])) (\<lambda>t.
     if \<not> code_ok t then Finish else refresh_nodes Finish)"

definition node_drop :: "jstr \<Rightarrow> action \<Rightarrow> saga" where
  "node_drop proto a =
     Request POST (node_url proto ''drop'') (JObj [(js ''id'', arg a ''id'')]) (\<lambda>t.
     if \<not> code_ok t then Finish else refresh_nodes Finish)"

definition node_copy :: "jstr \<Rightarrow> action \<Rightarrow> saga" where
  "node_copy proto a =
     Request POST (node_url proto ''copy'') (JObj [(js ''id'', arg a ''id'')]) (\<lambda>t.
     if \<not> code_ok t then Finish else refresh_nodes Finish)"

definition node_save :: "jstr \<Rightarrow> action \<Rightarrow> saga" where
  "node_save proto a =
     setState [flag ''saveLoading'' True]
     (Request POST (node_url proto ''save'') (arg a ''params'') (\<lambda>t.
      setState [flag ''saveLoading'' False]
      (if \<not> code_ok t then Finish else refresh_nodes (call_if a [] Finish))))"

section \<open>The protocols\<close>

definition serverShadowsocks_update :: "action \<Rightarrow> saga" where
  "serverShadowsocks_update = node_update (js ''shadowsocks'')"

definition serverShadowsocks_drop :: "action \<Rightarrow> saga" where
  "serverShadowsocks_drop = node_drop (js ''shadowsocks'')"

definition serverShadowsocks_copy :: "action \<Rightarrow> saga" where
  "serverShadowsocks_copy = node_copy (js ''shadowsocks'')"

definition serverShadowsocks_save :: "action \<Rightarrow> saga" where
  "serverShadowsocks_save = node_save (js ''shadowsocks'')"

definition serverShadowsocks :: model where
  "serverShadowsocks = \<lparr>m_name = js ''serverShadowsocks'',
     m_state = [(js ''switchLoading'', New (JObj [])), flag ''saveLoading'' False],
     m_reducers = [(js ''setState'', merge_reducer)],
     m_effects = [(js ''update'', serverShadowsocks_update), (js ''drop'', serverShadowsocks_drop),
       (js ''copy'', serverShadowsocks_copy), (js ''save'', serverShadowsocks_save)]\<rparr>"

definition serverHysteria_update :: "action \<Rightarrow> saga" where
  "serverHysteria_update = node_update (js ''hysteria'')"

definition serverHysteria_drop :: "action \<Rightarrow> saga" where
  "serverHysteria_drop = node_drop (js ''hysteria'')"

definition serverHysteria_copy :: "action \<Rightarrow> saga" where
  "serverHysteria_copy = node_copy (js ''hysteria'')"

definition serverHysteria_save :: "action \<Rightarrow> saga" where
  "serverHysteria_save = node_save (js ''hysteria'')"

definition serverHysteria :: model where
  "serverHysteria = \<lparr>m_name = js ''serverHysteria'',
     m_state = [(js ''switchLoading'', New (JObj [])), flag ''saveLoading'' False],
     m_reducers = [(js ''setState'', merge_reducer)],
     m_effects = [(js ''update'', serverHysteria_update), (js ''drop'', serverHysteria_drop),
       (js ''copy'', serverHysteria_copy), (js ''save'', serverHysteria_save)]\<rparr>"

definition serverTuic_update :: "action \<Rightarrow> saga" where
  "serverTuic_update = node_update (js ''tuic'')"

definition serverTuic_drop :: "action \<Rightarrow> saga" where
  "serverTuic_drop = node_drop (js ''tuic'')"

definition serverTuic_copy :: "action \<Rightarrow> saga" where
  "serverTuic_copy = node_copy (js ''tuic'')"

definition serverTuic_save :: "action \<Rightarrow> saga" where
  "serverTuic_save = node_save (js ''tuic'')"

definition serverTuic :: model where
  "serverTuic = \<lparr>m_name = js ''serverTuic'',
     m_state = [(js ''switchLoading'', New (JObj [])), flag ''saveLoading'' False],
     m_reducers = [(js ''setState'', merge_reducer)],
     m_effects = [(js ''update'', serverTuic_update), (js ''drop'', serverTuic_drop),
       (js ''copy'', serverTuic_copy), (js ''save'', serverTuic_save)]\<rparr>"

definition serverAnyTLS_update :: "action \<Rightarrow> saga" where
  "serverAnyTLS_update = node_update (js ''anytls'')"

definition serverAnyTLS_drop :: "action \<Rightarrow> saga" where
  "serverAnyTLS_drop = node_drop (js ''anytls'')"

definition serverAnyTLS_copy :: "action \<Rightarrow> saga" where
  "serverAnyTLS_copy = node_copy (js ''anytls'')"

definition serverAnyTLS_save :: "action \<Rightarrow> saga" where
  "serverAnyTLS_save = node_save (js ''anytls'')"

definition serverAnyTLS :: model where
  "serverAnyTLS = \<lparr>m_name = js ''serverAnyTLS'',
     m_state = [(js ''switchLoading'', New (JObj [])), flag ''saveLoading'' False],
     m_reducers = [(js ''setState'', merge_reducer)],
     m_effects = [(js ''update'', serverAnyTLS_update), (js ''drop'', serverAnyTLS_drop),
       (js ''copy'', serverAnyTLS_copy), (js ''save'', serverAnyTLS_save)]\<rparr>"

definition serverV2node_update :: "action \<Rightarrow> saga" where
  "serverV2node_update = node_update (js ''v2node'')"

definition serverV2node_drop :: "action \<Rightarrow> saga" where
  "serverV2node_drop = node_drop (js ''v2node'')"

definition serverV2node_copy :: "action \<Rightarrow> saga" where
  "serverV2node_copy = node_copy (js ''v2node'')"

definition serverV2node_save :: "action \<Rightarrow> saga" where
  "serverV2node_save = node_save (js ''v2node'')"

definition serverV2node :: model where
  "serverV2node = \<lparr>m_name = js ''serverV2node'',
     m_state = [(js ''switchLoading'', New (JObj [])), flag ''saveLoading'' False],
     m_reducers = [(js ''setState'', merge_reducer)],
     m_effects = [(js ''update'', serverV2node_update), (js ''drop'', serverV2node_drop),
       (js ''copy'', serverV2node_copy), (js ''save'', serverV2node_save)]\<rparr>"

definition serverTrojan_update :: "action \<Rightarrow> saga" where
  "serverTrojan_update = node_update (js ''trojan'')"

definition serverTrojan_drop :: "action \<Rightarrow> saga" where
  "serverTrojan_drop = node_drop (js ''trojan'')"

definition serverTrojan_copy :: "action \<Rightarrow> saga" where
  "serverTrojan_copy = node_copy (js ''trojan'')"

definition serverTrojan_save :: "action \<Rightarrow> saga" where
  "serverTrojan_save = node_save (js ''trojan'')"

definition serverTrojan :: model where
  "serverTrojan = \<lparr>m_name = js ''serverTrojan'',
     m_state = [(js ''switchLoading'', New (JObj [])), flag ''saveLoading'' False],
     m_reducers = [(js ''setState'', merge_reducer)],
     m_effects = [(js ''update'', serverTrojan_update), (js ''drop'', serverTrojan_drop),
       (js ''copy'', serverTrojan_copy), (js ''save'', serverTrojan_save)]\<rparr>"

definition serverVless_update :: "action \<Rightarrow> saga" where
  "serverVless_update = node_update (js ''vless'')"

definition serverVless_drop :: "action \<Rightarrow> saga" where
  "serverVless_drop = node_drop (js ''vless'')"

definition serverVless_copy :: "action \<Rightarrow> saga" where
  "serverVless_copy = node_copy (js ''vless'')"

definition serverVless_save :: "action \<Rightarrow> saga" where
  "serverVless_save = node_save (js ''vless'')"

definition serverVless :: model where
  "serverVless = \<lparr>m_name = js ''serverVless'',
     m_state = [(js ''switchLoading'', New (JObj [])), flag ''saveLoading'' False],
     m_reducers = [(js ''setState'', merge_reducer)],
     m_effects = [(js ''update'', serverVless_update), (js ''drop'', serverVless_drop),
       (js ''copy'', serverVless_copy), (js ''save'', serverVless_save)]\<rparr>"

definition serverVmess_update :: "action \<Rightarrow> saga" where
  "serverVmess_update = node_update (js ''vmess'')"

definition serverVmess_drop :: "action \<Rightarrow> saga" where
  "serverVmess_drop = node_drop (js ''vmess'')"

definition serverVmess_copy :: "action \<Rightarrow> saga" where
  "serverVmess_copy = node_copy (js ''vmess'')"

definition serverVmess_save :: "action \<Rightarrow> saga" where
  "serverVmess_save = node_save (js ''vmess'')"

definition serverVmess :: model where
  "serverVmess = \<lparr>m_name = js ''serverVmess'',
     m_state = [(js ''switchLoading'', New (JObj [])), flag ''saveLoading'' False],
     m_reducers = [(js ''setState'', merge_reducer)],
     m_effects = [(js ''update'', serverVmess_update), (js ''drop'', serverVmess_drop),
       (js ''copy'', serverVmess_copy), (js ''save'', serverVmess_save)]\<rparr>"

section \<open>All nodes\<close>

definition serverManage_getNodes :: "action \<Rightarrow> saga" where
  "serverManage_getNodes a =
     setState [flag ''fetchLoading'' True]
     (Request GET (Secure (js ''/server/manage/getNodes'')) JUndef (\<lambda>t.
      setState [flag ''fetchLoading'' False]
      (if \<not> code_ok t then Finish
       else setState [(js ''servers'', New (data_of t)), flag ''sortMode'' False] Finish)))"

definition serverManage_sort :: "action \<Rightarrow> saga" where
  "serverManage_sort a =
     Select (js ''serverManage'') (\<lambda>t.
     update_array (slot_of t (js ''servers'')) (drag_move (arg a ''fromIndex'') (arg a ''toIndex''))
     (setState [(js ''servers'', Same (slot_of t (js ''servers'')))] Finish))"

text \<open>The order to save: for every type, the index of each of its nodes in the list.\<close>

fun sort_order :: "nat \<Rightarrow> jsv list \<Rightarrow> jobj \<Rightarrow> jobj option" where
  "sort_order i [] acc = Some acc"
| "sort_order i (e # es) acc =
     (case (jprop_strict e (js ''type''), jprop_strict e (js ''id'')) of
        (Some ty, Some ident) \<Rightarrow>
          (let key = to_str ty; row = spread (oget key acc)
           in sort_order (Suc i) es
                (oput key (JObj (oput (to_str ident) (JNum (num (int i))) row)) acc))
      | _ \<Rightarrow> None)"

definition serverManage_saveSort :: "action \<Rightarrow> saga" where
  "serverManage_saveSort a =
     setState [flag ''fetchLoading'' True]
     (Select (js ''serverManage'') (\<lambda>t.
      Peek (\<lambda>h. case read h t (js ''servers'') of
        JArr servers \<Rightarrow> (case sort_order 0 servers [] of
            None \<Rightarrow> Fail
          | Some order \<Rightarrow>
              Request POST_JSON (Secure (js ''/server/manage/sort'')) (JObj order) (\<lambda>c.
              setState [flag ''fetchLoading'' False]
              (if \<not> code_ok c then Finish else trigger (js ''getNodes'') Finish)))
      | _ \<Rightarrow> Fail)))"

definition serverManage_updateHost :: "action \<Rightarrow> saga" where
  "serverManage_updateHost a =
     setState [flag ''fetchLoading'' True]
     (Request POST (Secure (js ''/server/manage/updateHost'')) (arg a ''params'') (\<lambda>t.
      if \<not> code_ok t then setState [flag ''fetchLoading'' False] Finish
      else trigger (js ''getNodes'')
        (call_if a [JObj t] (setState [flag ''fetchLoading'' False] Finish))))"

definition serverManage :: model where
  "serverManage = \<lparr>m_name = js ''serverManage'',
     m_state = [(js ''servers'', New (JArr [])), flag ''fetchLoading'' False, flag ''sortMode'' False],
     m_reducers = [(js ''setState'', merge_reducer)],
     m_effects = [(js ''getNodes'', serverManage_getNodes), (js ''sort'', serverManage_sort),
       (js ''saveSort'', serverManage_saveSort), (js ''updateHost'', serverManage_updateHost)]\<rparr>"

section \<open>Groups\<close>

definition serverGroup_fetch :: "action \<Rightarrow> saga" where
  "serverGroup_fetch a =
     setState [flag ''fetchLoading'' True]
     (Request GET (Secure (js ''/server/group/fetch'')) JUndef (\<lambda>t.
      setState [flag ''fetchLoading'' False]
      (if \<not> code_ok t then Finish else setState [(js ''groups'', New (data_of t))] Finish)))"

definition serverGroup_drop :: "action \<Rightarrow> saga" where
  "serverGroup_drop a =
     Request POST (Secure (js ''/server/group/drop'')) (JObj [(js ''id'', arg a ''id'')]) (\<lambda>t.
     if \<not> code_ok t then Finish else trigger (js ''fetch'') Finish)"

definition serverGroup_save :: "action \<Rightarrow> saga" where
  "serverGroup_save a =
     Request POST (Secure (js ''/server/group/save'')) (arg a ''params'') (\<lambda>t.
     if \<not> code_ok t then Finish else trigger (js ''fetch'') (call_if a [] Finish))"

definition serverGroup :: model where
  "serverGroup = \<lparr>m_name = js ''serverGroup'',
     m_state = [(js ''groups'', New (JArr [])), (js ''switchLoading'', New (JObj [])),
       flag ''saveLoading'' False, flag ''fetchLoading'' False],
     m_reducers = [(js ''setState'', merge_reducer)],
     m_effects = [(js ''fetch'', serverGroup_fetch), (js ''drop'', serverGroup_drop),
       (js ''save'', serverGroup_save)]\<rparr>"

section \<open>Routes\<close>

definition currentAdminRoutePath :: "env \<Rightarrow> jstr" where
  "currentAdminRoutePath e =
     (let hash = env_hash e;
          n = (case index_of [35] hash of None \<Rightarrow> hash | Some t \<Rightarrow> drop (Suc t) hash);
          n' = (if n \<noteq> [] \<and> hd n \<noteq> 47 then 47 # n else n)
      in if n' = [] then env_path e else n')"

definition route_url :: "env \<Rightarrow> string \<Rightarrow> endpoint" where
  "route_url e op =
     Secure (if currentAdminRoutePath e = js ''/server/client-entry''
             then js ''/server/client-entry/'' @ js op else js ''/server/route/'' @ js op)"

definition serverRoute_fetch :: "action \<Rightarrow> saga" where
  "serverRoute_fetch a =
     setState [flag ''fetchLoading'' True, (js ''routes'', New (JArr []))]
     (Ask (\<lambda>e. Request GET (route_url e ''fetch'') JUndef (\<lambda>t.
      setState [flag ''fetchLoading'' False]
      (if \<not> code_ok t then Finish else setState [(js ''routes'', New (data_of t))] Finish))))"

definition serverRoute_drop :: "action \<Rightarrow> saga" where
  "serverRoute_drop a =
     Ask (\<lambda>e. Request POST (route_url e ''drop'') (JObj [(js ''id'', arg a ''id'')]) (\<lambda>t.
     if \<not> code_ok t then Finish else trigger (js ''fetch'') Finish))"

definition serverRoute_save :: "action \<Rightarrow> saga" where
  "serverRoute_save a =
     Ask (\<lambda>e. Request POST (route_url e ''save'') (arg a ''params'') (\<lambda>t.
     if \<not> code_ok t then Finish else trigger (js ''fetch'') (call_if a [] Finish)))"

definition serverRoute_resolve :: "action \<Rightarrow> saga" where
  "serverRoute_resolve a =
     Request POST (Secure (js ''/server/client-entry/resolve'')) (JObj [(js ''id'', arg a ''id'')]) (\<lambda>t.
     if code_ok t then trigger (js ''fetch'') (call_if a [JObj t] Finish)
     else call_if a [JObj t] Finish)"

definition serverRoute :: model where
  "serverRoute = \<lparr>m_name = js ''serverRoute'',
     m_state = [(js ''routes'', New (JArr [])), flag ''saveLoading'' False, flag ''fetchLoading'' False],
     m_reducers = [(js ''setState'', merge_reducer)],
     m_effects = [(js ''fetch'', serverRoute_fetch), (js ''drop'', serverRoute_drop),
       (js ''save'', serverRoute_save), (js ''resolve'', serverRoute_resolve)]\<rparr>"

end
