(* ===== verification/DvaShop.thy ===== *)
theory DvaShop
  imports Dva JsNumText
begin

text \<open>
  The stores of the shop pages of the legacy administration: orders, plans, coupons, gift cards and
  payment methods. The server counts money in cents, the pages in units; plans, coupons and gift
  cards are converted on the way in and out.
\<close>

section \<open>Orders\<close>

definition order_fetch :: "action \<Rightarrow> saga" where
  "order_fetch a =
     Select (js ''order'') (\<lambda>t.
     setState [flag ''fetchLoading'' True]
     (Peek (\<lambda>h.
      Request GET (Secure (js ''/order/fetch''))
        (JObj (omerge [(js ''filter'', read h t (js ''filter''))] (spread (read h t (js ''pagination'')))))
      (\<lambda>s.
      setState [flag ''fetchLoading'' False]
      (if \<not> code_ok s then Finish
       else setState [(js ''orders'', New (data_of s))]
         (Peek (\<lambda>h.
          setState [(js ''pagination'', New (JObj (omerge (spread (read h t (js ''pagination'')))
            [(js ''total'', oget (js ''total'') s)])))] Finish)))))))"

definition order_filter :: "action \<Rightarrow> saga" where
  "order_filter a =
     Select (js ''order'') (\<lambda>t.
     assign_in (slot_of t (js ''pagination'')) ''current'' (JNum (num 1))
     (setState [(js ''filter'', New (arg a ''filter''))]
     (trigger (js ''fetch'') Finish)))"

definition filter_entry :: "action \<Rightarrow> jsv" where
  "filter_entry a = JObj [(js ''key'', arg a ''key''), (js ''condition'', arg a ''condition''),
     (js ''value'', arg a ''value'')]"

text \<open>With \<open>clear\<close> the code puts \<open>{filter: []}\<close>, an action without a type.\<close>

definition order_addFilter :: "action \<Rightarrow> saga" where
  "order_addFilter a =
     (let rest =
        Select (js ''order'') (\<lambda>t.
        update_array (slot_of t (js ''filter'')) (\<lambda>c. c @ [filter_entry a])
        (assign_in (slot_of t (js ''pagination'')) ''current'' (JNum (num 1))
        (setState [(js ''filter'', Same (slot_of t (js ''filter''))),
                   (js ''pagination'', Same (slot_of t (js ''pagination'')))]
        (trigger (js ''fetch'') Finish))))
      in if truthy (arg a ''clear'')
         then Put \<lparr>act_type = None, act_payload = [], act_args = [(js ''filter'', JArr [])],
                   act_callback = None\<rparr> rest
         else rest)"

definition order_update :: "action \<Rightarrow> saga" where
  "order_update a =
     Request POST (Secure (js ''/order/update''))
       (JObj (obj_of [(js ''trade_no'', arg a ''tradeNo''), (to_str (arg a ''key''), arg a ''value'')])) (\<lambda>t.
     if \<not> code_ok t then Finish else trigger (js ''fetch'') Finish)"

definition order_paid :: "action \<Rightarrow> saga" where
  "order_paid a =
     Request POST (Secure (js ''/order/paid'')) (JObj [(js ''trade_no'', arg a ''tradeNo'')]) (\<lambda>t.
     if \<not> code_ok t then Finish else trigger (js ''fetch'') Finish)"

definition order_cancel :: "action \<Rightarrow> saga" where
  "order_cancel a =
     Request POST (Secure (js ''/order/cancel'')) (JObj [(js ''trade_no'', arg a ''tradeNo'')]) (\<lambda>t.
     if \<not> code_ok t then Finish else trigger (js ''fetch'') Finish)"

definition order_refund :: "action \<Rightarrow> saga" where
  "order_refund a =
     Request POST (Secure (js ''/order/refund'')) (JObj [(js ''trade_no'', arg a ''tradeNo'')]) (\<lambda>t.
     if \<not> code_ok t then Finish else trigger (js ''fetch'') Finish)"

definition order_assign :: "action \<Rightarrow> saga" where
  "order_assign a =
     setState [flag ''assignLoading'' True]
     (case jprop_strict (arg a ''params'') (js ''total_amount'') of
        None \<Rightarrow> Fail
      | Some amount \<Rightarrow>
          Request POST (Secure (js ''/order/assign''))
            (JObj (omerge (spread (arg a ''params''))
              [(js ''total_amount'', JNum (num_mul (num 100) (to_num amount)))])) (\<lambda>t.
          setState [flag ''assignLoading'' False]
          (if \<not> code_ok t then Finish else trigger (js ''fetch'') (call_if a [] Finish))))"

definition order_changeTable :: "action \<Rightarrow> saga" where
  "order_changeTable a =
     Select (js ''order'') (\<lambda>t.
     Peek (\<lambda>h.
     setState [(js ''pagination'', New (JObj (omerge (spread (read h t (js ''pagination'')))
       (spread (arg a ''pagination'')))))]
     (trigger (js ''fetch'') Finish)))"

definition order_empty :: reducer where
  "order_empty a dflt th = (omerge (fst th) dflt, snd th)"

definition order_model :: model where
  "order_model = \<lparr>m_name = js ''order'',
     m_state = [(js ''orders'', New (JArr [])), flag ''fetchLoading'' False, flag ''assignLoading'' False,
       (js ''pagination'', New (JObj [(js ''pageSize'', JNum (num 10)), (js ''current'', JNum (num 0))])),
       (js ''filter'', New (JArr []))],
     m_reducers = [(js ''setState'', merge_reducer), (js ''empty'', order_empty)],
     m_effects = [(js ''fetch'', order_fetch), (js ''filter'', order_filter),
       (js ''addFilter'', order_addFilter), (js ''update'', order_update), (js ''paid'', order_paid),
       (js ''cancel'', order_cancel), (js ''refund'', order_refund), (js ''assign'', order_assign),
       (js ''changeTable'', order_changeTable)]\<rparr>"

section \<open>Plans\<close>

definition periodText_keys :: "jstr list" where
  "periodText_keys = [js ''month_price'', js ''quarter_price'', js ''half_year_price'', js ''year_price'',
     js ''two_year_price'', js ''three_year_price'', js ''onetime_price'', js ''reset_price'']"

definition from_cents :: "jsv \<Rightarrow> jsv" where
  "from_cents v = JNum (num_div (to_num v) (num 100))"

definition to_cents :: "jsv \<Rightarrow> jsv" where
  "to_cents v = JNum (num_round (num_mul (num 100) (to_num v)))"

text \<open>\<open>null !== e[k] && (e[k] = ..)\<close> for every period \<open>k\<close>.\<close>

definition convert_prices :: "(jsv \<Rightarrow> jsv) \<Rightarrow> jobj \<Rightarrow> jobj" where
  "convert_prices f plan =
     fold (\<lambda>k e. if oget k e = JNull then e else oput k (f (oget k e)) e) periodText_keys plan"

text \<open>Converting a row in place; a row that is not an object makes the loop raise.\<close>

definition as_record :: "jsv \<Rightarrow> jobj option" where
  "as_record v = (case v of JObj kv \<Rightarrow> Some kv | _ \<Rightarrow> None)"

fun each :: "(jsv \<Rightarrow> jsv option) \<Rightarrow> jsv list \<Rightarrow> jsv list option" where
  "each f [] = Some []"
| "each f (v # vs) = (case f v of None \<Rightarrow> None | Some w \<Rightarrow> map_option ((#) w) (each f vs))"

definition each_row :: "(jsv \<Rightarrow> jsv option) \<Rightarrow> jsv \<Rightarrow> jsv list option" where
  "each_row f v = (case v of JArr vs \<Rightarrow> each f vs | _ \<Rightarrow> None)"

definition plan_row :: "jsv \<Rightarrow> jsv option" where
  "plan_row v = map_option (\<lambda>kv. JObj (convert_prices from_cents kv)) (as_record v)"

definition plan_fetch :: "action \<Rightarrow> saga" where
  "plan_fetch a =
     setState [flag ''fetchLoading'' True]
     (Request GET (Secure (js ''/plan/fetch'')) JUndef (\<lambda>t.
      setState [flag ''fetchLoading'' False]
      (if \<not> code_ok t then Finish
       else (case each_row plan_row (data_of t) of
           None \<Rightarrow> Fail
         | Some plans \<Rightarrow> setState [(js ''plans'', New (JArr plans))] Finish))))"

definition plan_save :: "action \<Rightarrow> saga" where
  "plan_save a =
     setState [flag ''saveLoading'' True]
     (case as_record (arg a ''params'') of
        None \<Rightarrow> Fail
      | Some n \<Rightarrow>
          Request POST (Secure (js ''/plan/save'')) (JObj (convert_prices to_cents n)) (\<lambda>t.
          setState [flag ''saveLoading'' False]
          (if \<not> code_ok t then Finish else trigger (js ''fetch'') (call_if a [] Finish))))"

definition plan_drop :: "action \<Rightarrow> saga" where
  "plan_drop a =
     Request POST (Secure (js ''/plan/drop'')) (JObj [(js ''id'', arg a ''id'')]) (\<lambda>t.
     if \<not> code_ok t then Finish else trigger (js ''fetch'') Finish)"

definition plan_update :: "action \<Rightarrow> saga" where
  "plan_update a =
     Request POST (Secure (js ''/plan/update''))
       (JObj (obj_of [(js ''id'', arg a ''id''), (to_str (arg a ''key''), arg a ''value'')])) (\<lambda>t.
     if \<not> code_ok t then Finish else trigger (js ''fetch'') Finish)"

text \<open>\<open>list.map((e) => e.id)\<close>.\<close>

fun ids_of :: "jsv list \<Rightarrow> jsv list option" where
  "ids_of [] = Some []"
| "ids_of (e # es) = (case jprop_strict e (js ''id'') of
     None \<Rightarrow> None | Some i \<Rightarrow> map_option ((#) i) (ids_of es))"

text \<open>Sorting a list of the store, shared by plans, payments and knowledge articles.\<close>

definition sort_list :: "string \<Rightarrow> string \<Rightarrow> endpoint \<Rightarrow> string \<Rightarrow> action \<Rightarrow> saga" where
  "sort_list ns field url param a =
     setState [flag ''fetchLoading'' True]
     (Select (js ns) (\<lambda>t.
      update_array (slot_of t (js field)) (drag_move (arg a ''fromIndex'') (arg a ''toIndex''))
      (setState [(js field, Same (slot_of t (js field)))]
      (Peek (\<lambda>h. case ids_of (elems (read h t (js field))) of
         None \<Rightarrow> Fail
       | Some ids \<Rightarrow>
           Request POST url (JObj [(js param, JArr ids)]) (\<lambda>c.
           if \<not> code_ok c then Finish else trigger (js ''fetch'') Finish))))))"

definition plan_sort :: "action \<Rightarrow> saga" where
  "plan_sort = sort_list ''plan'' ''plans'' (Secure (js ''/plan/sort'')) ''plan_ids''"

definition plan_model :: model where
  "plan_model = \<lparr>m_name = js ''plan'',
     m_state = [(js ''plans'', New (JArr [])), flag ''fetchLoading'' False],
     m_reducers = [(js ''setState'', merge_reducer)],
     m_effects = [(js ''fetch'', plan_fetch), (js ''save'', plan_save), (js ''drop'', plan_drop),
       (js ''update'', plan_update), (js ''sort'', plan_sort)]\<rparr>"

section \<open>Coupons and gift cards\<close>

text \<open>\<open>1 === e.type && (e.value = e.value / 100)\<close>.\<close>

definition coupon_row :: "jsv \<Rightarrow> jsv option" where
  "coupon_row v = (case v of
      JUndef \<Rightarrow> None | JNull \<Rightarrow> None
    | JObj e \<Rightarrow> Some (JObj (if oget (js ''type'') e = JNum (num 1)
                            then oput (js ''value'') (from_cents (oget (js ''value'') e)) e else e))
    | _ \<Rightarrow> Some v)"

text \<open>\<open>1 === n.type && (n.value = 100 * n.value)\<close>: the amount is not rounded here.\<close>

definition coupon_params :: "jsv \<Rightarrow> jsv option" where
  "coupon_params v = (case v of
      JUndef \<Rightarrow> None | JNull \<Rightarrow> None
    | JObj n \<Rightarrow> Some (JObj (if oget (js ''type'') n = JNum (num 1)
                  then oput (js ''value'') (JNum (num_mul (num 100) (to_num (oget (js ''value'') n)))) n else n))
    | _ \<Rightarrow> Some v)"

definition coupon_fetch :: "action \<Rightarrow> saga" where
  "coupon_fetch a =
     Select (js ''coupon'') (\<lambda>t.
     setState [flag ''fetchLoading'' True]
     (Peek (\<lambda>h.
      Request GET (Secure (js ''/coupon/fetch''))
        (JObj (omerge (spread (read h t (js ''pagination''))) (spread (read h t (js ''sort''))))) (\<lambda>r.
      setState [flag ''fetchLoading'' False]
      (if \<not> code_ok r then Finish
       else (case each_row coupon_row (data_of r) of
           None \<Rightarrow> Fail
         | Some rows \<Rightarrow> Peek (\<lambda>h.
             setState [(js ''coupons'', New (JArr rows)),
               (js ''pagination'', New (JObj (omerge (spread (read h t (js ''pagination'')))
                 [(js ''total'', oget (js ''total'') r)])))] Finish)))))))"

definition coupon_generate :: "action \<Rightarrow> saga" where
  "coupon_generate a =
     setState [flag ''saveLoading'' True]
     (case coupon_params (arg a ''params'') of
        None \<Rightarrow> Fail
      | Some n \<Rightarrow>
          Request POST (Secure (js ''/coupon/generate'')) n (\<lambda>t.
          setState [flag ''saveLoading'' False]
          (if \<not> code_ok t then Finish
           else let done = trigger (js ''fetch'') (call_if a [] Finish)
             in if truthy (jprop n (js ''generate_count''))
                then Emit (Downloaded (js ''COUPON '') (oget (js ''buffer'') t)) done else done)))"

definition coupon_drop :: "action \<Rightarrow> saga" where
  "coupon_drop a =
     Request POST (Secure (js ''/coupon/drop'')) (JObj [(js ''id'', arg a ''id'')]) (\<lambda>t.
     if \<not> code_ok t then Finish else trigger (js ''fetch'') Finish)"

definition coupon_show :: "action \<Rightarrow> saga" where
  "coupon_show a =
     Request POST (Secure (js ''/coupon/show'')) (JObj [(js ''id'', arg a ''id'')]) (\<lambda>t.
     if \<not> code_ok t then Finish else trigger (js ''fetch'') Finish)"

definition coupon_changeTable :: "action \<Rightarrow> saga" where
  "coupon_changeTable a =
     Select (js ''coupon'') (\<lambda>t.
     Peek (\<lambda>h.
     setState [(js ''pagination'', New (JObj (omerge (spread (read h t (js ''pagination'')))
       (spread (arg a ''pagination''))))), (js ''sort'', New (arg a ''sort''))]
     (trigger (js ''fetch'') Finish)))"

definition coupon_model :: model where
  "coupon_model = \<lparr>m_name = js ''coupon'',
     m_state = [(js ''coupons'', New (JArr [])), flag ''fetchLoading'' False, flag ''saveLoading'' False,
       (js ''pagination'', New (JObj [(js ''pageSize'', JNum (num 10)), (js ''current'', JNum (num 1))])),
       (js ''sort'', New (JObj []))],
     m_reducers = [(js ''setState'', merge_reducer)],
     m_effects = [(js ''fetch'', coupon_fetch), (js ''generate'', coupon_generate),
       (js ''drop'', coupon_drop), (js ''show'', coupon_show), (js ''changeTable'', coupon_changeTable)]\<rparr>"

definition giftcard_fetch :: "action \<Rightarrow> saga" where
  "giftcard_fetch a =
     Select (js ''giftcard'') (\<lambda>t.
     setState [flag ''fetchLoading'' True]
     (Peek (\<lambda>h.
      Request GET (Secure (js ''/giftcard/fetch''))
        (JObj (omerge (spread (read h t (js ''pagination''))) (spread (read h t (js ''sort''))))) (\<lambda>r.
      setState [flag ''fetchLoading'' False]
      (if \<not> code_ok r then Finish
       else (case each_row coupon_row (data_of r) of
           None \<Rightarrow> Fail
         | Some rows \<Rightarrow> Peek (\<lambda>h.
             setState [(js ''giftcards'', New (JArr rows)),
               (js ''pagination'', New (JObj (omerge (spread (read h t (js ''pagination'')))
                 [(js ''total'', oget (js ''total'') r)])))] Finish)))))))"

definition giftcard_generate :: "action \<Rightarrow> saga" where
  "giftcard_generate a =
     setState [flag ''saveLoading'' True]
     (case coupon_params (arg a ''params'') of
        None \<Rightarrow> Fail
      | Some n \<Rightarrow>
          Request POST (Secure (js ''/giftcard/generate'')) n (\<lambda>t.
          setState [flag ''saveLoading'' False]
          (if \<not> code_ok t then Finish
           else let done = trigger (js ''fetch'') (call_if a [] Finish)
             in if truthy (jprop n (js ''generate_count''))
                then Emit (Downloaded (js ''GIFTCARD '') (oget (js ''buffer'') t)) done else done)))"

definition giftcard_drop :: "action \<Rightarrow> saga" where
  "giftcard_drop a =
     Request POST (Secure (js ''/giftcard/drop'')) (JObj [(js ''id'', arg a ''id'')]) (\<lambda>t.
     if \<not> code_ok t then Finish else trigger (js ''fetch'') Finish)"

definition giftcard_changeTable :: "action \<Rightarrow> saga" where
  "giftcard_changeTable a =
     Select (js ''giftcard'') (\<lambda>t.
     Peek (\<lambda>h.
     setState [(js ''pagination'', New (JObj (omerge (spread (read h t (js ''pagination'')))
       (spread (arg a ''pagination''))))), (js ''sort'', New (arg a ''sort''))]
     (trigger (js ''fetch'') Finish)))"

definition giftcard_model :: model where
  "giftcard_model = \<lparr>m_name = js ''giftcard'',
     m_state = [(js ''giftcards'', New (JArr [])), flag ''fetchLoading'' False, flag ''saveLoading'' False,
       (js ''pagination'', New (JObj [(js ''pageSize'', JNum (num 10)), (js ''current'', JNum (num 1))])),
       (js ''sort'', New (JObj []))],
     m_reducers = [(js ''setState'', merge_reducer)],
     m_effects = [(js ''fetch'', giftcard_fetch), (js ''generate'', giftcard_generate),
       (js ''drop'', giftcard_drop), (js ''changeTable'', giftcard_changeTable)]\<rparr>"

section \<open>Payment methods\<close>

definition payment_fetch :: "action \<Rightarrow> saga" where
  "payment_fetch a =
     setState [flag ''fetchLoading'' True]
     (Request GET (Secure (js ''/payment/fetch'')) JUndef (\<lambda>t.
      setState [flag ''fetchLoading'' False]
      (if \<not> code_ok t then Finish else setState [(js ''payments'', New (data_of t))] Finish)))"

definition payment_getPaymentMethods :: "action \<Rightarrow> saga" where
  "payment_getPaymentMethods a =
     Request GET (Secure (js ''/payment/getPaymentMethods'')) JUndef (\<lambda>n.
     if \<not> code_ok n then Finish else call a [data_of n] Finish)"

definition payment_getPaymentForm :: "action \<Rightarrow> saga" where
  "payment_getPaymentForm a =
     Request POST (Secure (js ''/payment/getPaymentForm''))
       (JObj [(js ''payment'', arg a ''payment''), (js ''id'', arg a ''id'')]) (\<lambda>i.
     if \<not> code_ok i then Finish else call a [data_of i] Finish)"

definition payment_save :: "action \<Rightarrow> saga" where
  "payment_save a =
     Request POST (Secure (js ''/payment/save'')) (JObj (spread (arg a ''params''))) (\<lambda>t.
     if \<not> code_ok t then Finish else call_if a [data_of t] (trigger (js ''fetch'') Finish))"

definition payment_show :: "action \<Rightarrow> saga" where
  "payment_show a =
     Request POST (Secure (js ''/payment/show'')) (JObj [(js ''id'', arg a ''id'')]) (\<lambda>t.
     if \<not> code_ok t then Finish else trigger (js ''fetch'') Finish)"

definition payment_drop :: "action \<Rightarrow> saga" where
  "payment_drop a =
     Request POST (Secure (js ''/payment/drop'')) (JObj [(js ''id'', arg a ''id'')]) (\<lambda>t.
     if \<not> code_ok t then Finish else trigger (js ''fetch'') Finish)"

definition payment_sort :: "action \<Rightarrow> saga" where
  "payment_sort = sort_list ''payment'' ''payments'' (Secure (js ''/payment/sort'')) ''ids''"

definition payment_model :: model where
  "payment_model = \<lparr>m_name = js ''payment'',
     m_state = [(js ''payments'', New (JArr [])), flag ''fetchLoading'' False],
     m_reducers = [(js ''setState'', merge_reducer)],
     m_effects = [(js ''fetch'', payment_fetch), (js ''getPaymentMethods'', payment_getPaymentMethods),
       (js ''getPaymentForm'', payment_getPaymentForm), (js ''save'', payment_save),
       (js ''show'', payment_show), (js ''drop'', payment_drop), (js ''sort'', payment_sort)]\<rparr>"

end
