(* ===== verification/DvaUsers.thy ===== *)
theory DvaUsers
  imports DvaShop
begin

text \<open>
  The stores about users: the user list with its filters and the edited user, tickets, and the two
  sign-in stores (\<open>auth\<close>, \<open>passport\<close>). Traffic is bytes on the server and gigabytes with two decimals
  in the pages, money is cents on the server and units with two decimals in the pages.
\<close>

section \<open>Display texts\<close>

definition txt_sending :: jstr where "txt_sending = [0x53d1, 0x9001, 0x4e2d]"
definition txt_exporting :: jstr where "txt_exporting = [0x5bfc, 0x51fa, 0x4e2d]"
definition txt_queued :: jstr where
  "txt_queued = [0x5df2, 0x52a0, 0x5165, 0x961f, 0x5217, 0x6267, 0x884c]"
definition txt_reset_done :: jstr where "txt_reset_done = [0x91cd, 0x7f6e, 0x6210, 0x529f]"
definition txt_deleted :: jstr where "txt_deleted = [0x5220, 0x9664, 0x6210, 0x529f]"
definition txt_deleted_user :: jstr where
  "txt_deleted_user = [0x5df2, 0x5220, 0x9664, 0x7528, 0x6237, 0x20, 0x23]"

section \<open>Units\<close>

definition gigabyte :: jnum where "gigabyte = num 1073741824"

definition gb_text :: "jsv \<Rightarrow> jsv" where
  "gb_text v = JStr (to_fixed 2 (num_div (to_num v) gigabyte))"

definition money_text :: "jsv \<Rightarrow> jsv" where
  "money_text v = JStr (to_fixed 2 (num_div (to_num v) (num 100)))"

definition edit :: "string \<Rightarrow> (jsv \<Rightarrow> jsv) \<Rightarrow> jobj \<Rightarrow> jobj" where
  "edit k f e = oput (js k) (f (oget (js k) e)) e"

definition user_row :: "jsv \<Rightarrow> jsv option" where
  "user_row v = map_option (\<lambda>e. JObj
     (edit ''balance'' money_text (edit ''commission_balance'' money_text
     (edit ''total_used'' gb_text (edit ''d'' gb_text (edit ''u'' gb_text
     (edit ''transfer_enable'' gb_text (oput (js ''password'') (JStr []) e)))))))) (as_record v)"

definition deleted_user :: "jsv \<Rightarrow> jsv" where
  "deleted_user n = JObj [(js ''id'', n), (js ''email'', JStr (txt_deleted_user @ to_str n)),
     (js ''password'', JStr []), (js ''transfer_enable'', JNum (num 0)), (js ''u'', JNum (num 0)),
     (js ''d'', JNum (num 0)), (js ''commission_balance'', JNum (num 0)), (js ''balance'', JNum (num 0))]"

definition user_detail :: "jsv \<Rightarrow> jsv \<Rightarrow> jobj option" where
  "user_detail n v = map_option (\<lambda>e.
     let e' = edit ''balance'' money_text (edit ''commission_balance'' money_text
        (edit ''d'' gb_text (edit ''u'' gb_text (edit ''transfer_enable'' gb_text
        (oput (js ''password'') (JStr []) e)))));
       inviter = oget (js ''invite_user'') e'
     in if truthy inviter then oput (js ''invite_user_email'') (jprop inviter (js ''email'')) e' else e')
     (as_record (jor v (deleted_user n)))"

text \<open>What an edited user is sent as; only the allowance is not rounded.\<close>

definition gb_bytes :: "jsv \<Rightarrow> jsv" where
  "gb_bytes v = JNum (num_round (num_mul gigabyte (to_num v)))"

definition user_params :: "jsv \<Rightarrow> jobj option" where
  "user_params v = map_option (\<lambda>n.
     let n' = edit ''commission_balance'' to_cents (edit ''balance'' to_cents
       (edit ''d'' gb_bytes (edit ''u'' gb_bytes
       (edit ''transfer_enable'' (\<lambda>v. JNum (num_mul gigabyte (to_num v))) n))))
     in if truthy (oget (js ''invite_user'') n') then odel (js ''invite_user'') n' else n')
     (as_record v)"

section \<open>Users\<close>

definition user_checkLogin :: "action \<Rightarrow> saga" where
  "user_checkLogin a =
     Ask (\<lambda>e. if \<not> truthy (env_token e) then Finish
     else Request GET (Open (js ''/user/checkLogin'')) JUndef (\<lambda>t.
       if \<not> code_ok t then Finish
       else (case jprop_strict (data_of t) (js ''is_admin'') of
           None \<Rightarrow> Fail
         | Some admin \<Rightarrow>
             if \<not> truthy admin then Finish
             else trigger (js ''user/getUserInfo'')
               (Emit (Navigated (to_str (jor (arg a ''redirect'') (JStr (js ''dashboard''))))) Finish))))"

definition user_getUserInfo :: "action \<Rightarrow> saga" where
  "user_getUserInfo a =
     setState [flag ''getUserInfoLoading'' True]
     (Request GET (Open (js ''/user/info'')) JUndef (\<lambda>t.
      setState [flag ''getUserInfoLoading'' False]
      (if \<not> code_ok t then Finish else setState [(js ''userInfo'', New (data_of t))] Finish)))"

definition user_getUserInfoById :: "action \<Rightarrow> saga" where
  "user_getUserInfoById a =
     Request GET (Secure (js ''/user/getUserInfoById'')) (JObj [(js ''id'', arg a ''id'')]) (\<lambda>t.
     if \<not> code_ok t then Finish
     else (case user_detail (arg a ''id'') (data_of t) of
         None \<Rightarrow> Fail
       | Some user \<Rightarrow> setState [(js ''user'', New (JObj user))] Finish))"

definition user_fetch :: "action \<Rightarrow> saga" where
  "user_fetch a =
     Select (js ''user'') (\<lambda>t.
     setState [flag ''fetchLoading'' True]
     (Peek (\<lambda>h.
      Request GET (Secure (js ''/user/fetch''))
        (JObj (omerge (omerge [(js ''filter'', read h t (js ''filter''))]
          (spread (read h t (js ''pagination'')))) (spread (read h t (js ''sort''))))) (\<lambda>i.
      setState [flag ''fetchLoading'' False]
      (if \<not> code_ok i then Finish
       else (case each_row user_row (data_of i) of
           None \<Rightarrow> Fail
         | Some rows \<Rightarrow> Peek (\<lambda>h.
             setState [(js ''users'', New (JArr rows)),
               (js ''pagination'', New (JObj (omerge (spread (read h t (js ''pagination'')))
                 [(js ''total'', oget (js ''total'') i)])))] Finish)))))))"

definition user_filter :: "action \<Rightarrow> saga" where
  "user_filter a =
     Select (js ''user'') (\<lambda>t.
     assign_in (slot_of t (js ''pagination'')) ''current'' (JNum (num 1))
     (setState [(js ''filter'', New (arg a ''filter''))]
     (trigger (js ''fetch'') Finish)))"

definition user_changeTable :: "action \<Rightarrow> saga" where
  "user_changeTable a =
     Select (js ''user'') (\<lambda>t.
     Peek (\<lambda>h.
     setState [(js ''pagination'', New (JObj (omerge (spread (read h t (js ''pagination'')))
       (spread (arg a ''pagination''))))), (js ''sort'', New (arg a ''sort''))]
     (trigger (js ''fetch'') Finish)))"

definition user_update :: "action \<Rightarrow> saga" where
  "user_update a =
     setState [flag ''updateLoading'' True]
     (case user_params (arg a ''params'') of
        None \<Rightarrow> Fail
      | Some n \<Rightarrow>
          Request POST (Secure (js ''/user/update'')) (JObj n) (\<lambda>t.
          setState [flag ''updateLoading'' False]
          (if \<not> code_ok t then Finish else trigger (js ''fetch'') (call_if a [] Finish))))"

definition user_addFilter :: "action \<Rightarrow> saga" where
  "user_addFilter a =
     Select (js ''user'') (\<lambda>t.
     if truthy (arg a ''clear'') then
       assign_in (slot_of t (js ''pagination'')) ''current'' (JNum (num 1))
       (setState [(js ''filter'', New (JArr [filter_entry a])),
                  (js ''pagination'', Same (slot_of t (js ''pagination'')))]
       (trigger (js ''fetch'') Finish))
     else
       update_array (slot_of t (js ''filter'')) (\<lambda>l. l @ [filter_entry a])
       (assign_in (slot_of t (js ''pagination'')) ''current'' (JNum (num 1))
       (setState [(js ''filter'', Same (slot_of t (js ''filter''))),
                  (js ''pagination'', Same (slot_of t (js ''pagination'')))]
       (trigger (js ''fetch'') Finish))))"

text \<open>The CSV file is offered to the browser when one was asked for.\<close>

definition user_generate :: "action \<Rightarrow> saga" where
  "user_generate a =
     setState [flag ''generateLoading'' True]
     (Request POST (Secure (js ''/user/generate'')) (arg a ''params'') (\<lambda>t.
      setState [flag ''generateLoading'' False]
      (if \<not> code_ok t then Finish
       else (case jprop_strict (arg a ''params'') (js ''generate_count'') of
           None \<Rightarrow> Fail
         | Some wanted \<Rightarrow>
             (let done = trigger (js ''fetch'') (call_if a [] Finish)
              in if truthy wanted then Emit (Downloaded (js ''USER '') (oget (js ''buffer'') t)) done
                 else done)))))"

definition user_dumpCSV :: "action \<Rightarrow> saga" where
  "user_dumpCSV a =
     Select (js ''user'') (\<lambda>t.
     Emit (Toast (js ''loading'') txt_exporting)
     (Peek (\<lambda>h.
      Request POST (Secure (js ''/user/dumpCSV'')) (JObj [(js ''filter'', read h t (js ''filter''))]) (\<lambda>r.
      Emit ToastsCleared
      (if \<not> code_ok r then Finish else Emit (Downloaded [] (oget (js ''buffer'') r)) Finish)))))"

definition user_sendMail :: "action \<Rightarrow> saga" where
  "user_sendMail a =
     Select (js ''user'') (\<lambda>t.
     setState [flag ''sendMailLoading'' True]
     (Peek (\<lambda>h.
      Request POST (Secure (js ''/user/sendMail''))
        (JObj (omerge [(js ''filter'', deref h (slot_of t (js ''filter'')))] (spread (arg a ''params'')))) (\<lambda>u.
      setState [flag ''sendMailLoading'' False]
      (if \<not> code_ok u then Finish
       else Emit (Toast (js ''success'') txt_queued) (call_if a [] Finish))))))"

definition user_ban :: "action \<Rightarrow> saga" where
  "user_ban a =
     Select (js ''user'') (\<lambda>t.
     Peek (\<lambda>h.
     Request POST (Secure (js ''/user/ban'')) (JObj [(js ''filter'', read h t (js ''filter''))]) (\<lambda>r.
     if \<not> code_ok r then Finish else trigger (js ''fetch'') Finish)))"

definition user_resetSecret :: "action \<Rightarrow> saga" where
  "user_resetSecret a =
     Request POST (Secure (js ''/user/resetSecret'')) (JObj [(js ''id'', arg a ''id'')]) (\<lambda>t.
     if \<not> code_ok t then Finish
     else Emit (Toast (js ''success'') txt_reset_done) (trigger (js ''fetch'') Finish))"

definition user_delUser :: "action \<Rightarrow> saga" where
  "user_delUser a =
     Request POST (Secure (js ''/user/delUser'')) (JObj [(js ''id'', arg a ''id'')]) (\<lambda>t.
     if \<not> code_ok t then Finish
     else Emit (Toast (js ''success'') txt_deleted) (trigger (js ''fetch'') Finish))"

definition user_allDel :: "action \<Rightarrow> saga" where
  "user_allDel a =
     Select (js ''user'') (\<lambda>t.
     Peek (\<lambda>h.
     Request POST (Secure (js ''/user/allDel'')) (JObj [(js ''filter'', read h t (js ''filter''))]) (\<lambda>r.
     if \<not> code_ok r then Finish else trigger (js ''fetch'') Finish)))"

definition user_empty :: reducer where
  "user_empty a dflt th =
     (oput (js ''userInfo'') (slot_of (fst th) (js ''userInfo'')) dflt, snd th)"

text \<open>The page size is remembered in the browser; it is read once, when the bundle is loaded.\<close>

definition user_model :: "jsv \<Rightarrow> model" where
  "user_model page_size = \<lparr>m_name = js ''user'',
     m_state = [(js ''userInfo'', New (JObj [])), flag ''getUserInfoLoading'' False,
       (js ''pagination'', New (JObj [(js ''pageSize'', jor page_size (JNum (num 10))),
         (js ''current'', JNum (num 1))])),
       (js ''filter'', New (JArr [])), (js ''users'', New (JArr [])), flag ''fetchLoading'' False,
       (js ''user'', New (JObj [])), (js ''sort'', New (JObj [])), flag ''generateLoading'' False,
       flag ''sendMailLoading'' False],
     m_reducers = [(js ''setState'', merge_reducer), (js ''empty'', user_empty)],
     m_effects = [(js ''checkLogin'', user_checkLogin), (js ''getUserInfo'', user_getUserInfo),
       (js ''getUserInfoById'', user_getUserInfoById), (js ''fetch'', user_fetch),
       (js ''filter'', user_filter), (js ''changeTable'', user_changeTable), (js ''update'', user_update),
       (js ''addFilter'', user_addFilter), (js ''generate'', user_generate),
       (js ''dumpCSV'', user_dumpCSV), (js ''sendMail'', user_sendMail), (js ''ban'', user_ban),
       (js ''resetSecret'', user_resetSecret), (js ''delUser'', user_delUser),
       (js ''allDel'', user_allDel)]\<rparr>"

section \<open>Tickets\<close>

definition ticket_fetch :: "action \<Rightarrow> saga" where
  "ticket_fetch a =
     Select (js ''ticket'') (\<lambda>t.
     setState [flag ''fetchLoading'' True]
     (Peek (\<lambda>h.
      Request GET (Secure (js ''/ticket/fetch''))
        (JObj (omerge (spread (read h t (js ''pagination''))) (spread (read h t (js ''filter''))))) (\<lambda>c.
      setState [flag ''fetchLoading'' False]
      (if \<not> code_ok c then Finish
       else Peek (\<lambda>h.
         setState [(js ''tickets'', New (data_of c)),
           (js ''pagination'', New (JObj (omerge (spread (read h t (js ''pagination'')))
             [(js ''total'', oget (js ''total'') c)])))] Finish))))))"

definition ticket_fetchById :: "action \<Rightarrow> saga" where
  "ticket_fetchById a =
     Request GET (Secure (js ''/ticket/fetch'')) (JObj [(js ''id'', arg a ''id'')]) (\<lambda>t.
     if \<not> code_ok t then Finish
     else setState [(js ''ticket'', New (data_of t))]
       (Select (js ''user'') (\<lambda>u.
        Peek (\<lambda>h. case jprop_strict (read h u (js ''user'')) (js ''id'') of
           None \<Rightarrow> Fail
         | Some known \<Rightarrow>
             if truthy known then Finish
             else (case jprop_strict (data_of t) (js ''user_id'') of
                 None \<Rightarrow> Fail
               | Some uid \<Rightarrow> trigger_with (js ''user/getUserInfoById'') [(js ''id'', uid)] Finish)))))"

definition ticket_close :: "action \<Rightarrow> saga" where
  "ticket_close a =
     Request POST (Secure (js ''/ticket/close'')) (JObj [(js ''id'', arg a ''id'')]) (\<lambda>t.
     if \<not> code_ok t then Finish else trigger (js ''fetch'') Finish)"

definition ticket_reply :: "action \<Rightarrow> saga" where
  "ticket_reply a =
     Emit (Toast (js ''loading'') txt_sending)
     (setState [flag ''replyLoading'' True]
     (Request POST (Secure (js ''/ticket/reply''))
        (JObj [(js ''id'', arg a ''id''), (js ''message'', arg a ''msg'')]) (\<lambda>t.
      setState [flag ''replyLoading'' False]
      (Emit ToastsCleared
      (if \<not> code_ok t then Finish
       else trigger_with (js ''fetchById'') [(js ''id'', arg a ''id'')] (call_if a [] Finish))))))"

definition ticket_filter :: "action \<Rightarrow> saga" where
  "ticket_filter a =
     Select (js ''ticket'') (\<lambda>t.
     Peek (\<lambda>h.
     setState [(js ''pagination'', New (JObj (omerge (spread (read h t (js ''pagination'')))
         (spread (arg a ''pagination''))))),
       (js ''filter'', New (JObj (omerge (spread (read h t (js ''filter''))) (spread (arg a ''filter'')))))]
     (trigger (js ''fetch'') Finish)))"

definition ticket_model :: model where
  "ticket_model = \<lparr>m_name = js ''ticket'',
     m_state = [(js ''tickets'', New (JArr [])), flag ''fetchLoading'' False,
       (js ''ticket'', New (JObj [(js ''message'', JArr [])])),
       (js ''pagination'', New (JObj [(js ''pageSize'', JNum (num 10)), (js ''current'', JNum (num 1))])),
       (js ''filter'', New (JObj [(js ''status'', JNum (num 0))])), flag ''replyLoading'' False],
     m_reducers = [(js ''setState'', merge_reducer)],
     m_effects = [(js ''fetch'', ticket_fetch), (js ''fetchById'', ticket_fetchById),
       (js ''close'', ticket_close), (js ''reply'', ticket_reply), (js ''filter'', ticket_filter)]\<rparr>"

section \<open>Signing in\<close>

definition auth_login :: "action \<Rightarrow> saga" where
  "auth_login a =
     saveState [flag ''loginLoading'' True]
     (Request POST (Open (js ''/passport/auth/login'')) (arg a ''action'') (\<lambda>t.
      saveState [flag ''loginLoading'' False]
      (if \<not> code_ok t then Finish
       else (case jprop_strict (data_of t) (js ''is_admin'') of
           None \<Rightarrow> Fail
         | Some admin \<Rightarrow>
             if \<not> truthy admin then Finish else Emit (Navigated (js ''/dashboard'')) Finish))))"

definition auth_register :: "action \<Rightarrow> saga" where
  "auth_register a =
     Request GET (Open (js ''/passport/auth/register'')) (arg a ''action'') (\<lambda>r. call a [JObj r] Finish)"

definition auth_model :: model where
  "auth_model = \<lparr>m_name = js ''auth'', m_state = [], m_reducers = [(js ''save'', merge_reducer)],
     m_effects = [(js ''login'', auth_login), (js ''register'', auth_register)]\<rparr>"

definition passport_login :: "action \<Rightarrow> saga" where
  "passport_login a =
     saveState [flag ''loginLoading'' True]
     (Request POST (Open (js ''/passport/auth/login''))
        (JObj [(js ''email'', arg a ''email''), (js ''password'', arg a ''password'')]) (\<lambda>t.
      saveState [flag ''loginLoading'' False]
      (if \<not> code_ok t then Finish
       else (case (jprop_strict (data_of t) (js ''auth_data''), jprop_strict (data_of t) (js ''is_admin'')) of
           (Some token, Some admin) \<Rightarrow>
             Emit (TokenStored token)
             (if \<not> truthy admin then Finish
              else Emit (Navigated (js ''/dashboard'')) (trigger (js ''user/getUserInfo'') Finish))
         | _ \<Rightarrow> Fail))))"

definition passport_model :: model where
  "passport_model = \<lparr>m_name = js ''passport'', m_state = [flag ''loginLoading'' False],
     m_reducers = [(js ''save'', merge_reducer)],
     m_effects = [(js ''login'', passport_login)]\<rparr>"

end
