(* ===== verification/DvaSite.thy ===== *)
theory DvaSite
  imports DvaUsers
begin

text \<open>
  The stores about the site: its configuration, the layout of the page, themes, statistics, notices,
  the knowledge base and the state of the server's queues.
\<close>

section \<open>Configuration\<close>

definition txt_saved :: jstr where "txt_saved = [0x4fdd, 0x5b58, 0x6210, 0x529f]"
definition txt_webhook :: jstr where
  "txt_webhook = js ''webhook '' @ [0x8bbe, 0x7f6e, 0x6210, 0x529f]"

text \<open>\<open>"string" === typeof data.group?.key && (data.group.key = data.group.key.split(","))\<close>.\<close>

definition split_setting :: "string \<Rightarrow> string \<Rightarrow> jobj \<Rightarrow> jobj" where
  "split_setting grp k d = (case jprop (oget (js grp) d) (js k) of
      JStr s \<Rightarrow> oput (js grp) (JObj (oput (js k) (JArr (map JStr (split_on 44 s)))
                 (spread (oget (js grp) d)))) d
    | _ \<Rightarrow> d)"

definition config_values :: "jobj \<Rightarrow> jobj" where
  "config_values d =
     split_setting ''deposit'' ''deposit_bounus''
     (split_setting ''site'' ''email_whitelist_suffix''
     (split_setting ''invite'' ''commission_withdraw_method'' d))"

definition config_fetch :: "action \<Rightarrow> saga" where
  "config_fetch a =
     setState [flag ''fetchLoading'' True]
     (Request GET (Secure (js ''/config/fetch'')) (JObj [(js ''key'', arg a ''key'')]) (\<lambda>r.
      setState [flag ''fetchLoading'' False]
      (if \<not> code_ok r then Finish
       else if nullish (data_of r) then Fail
       else setState (news (config_values (spread (data_of r)))) Finish)))"

definition config_save :: "action \<Rightarrow> saga" where
  "config_save a =
     Select (js ''config'') (\<lambda>t.
     Peek (\<lambda>h.
     Request POST (Secure (js ''/config/save'')) (JObj (spread (read h t (to_str (arg a ''parentKey''))))) (\<lambda>s.
     if \<not> code_ok s then Finish
     else Emit (Toast (js ''success'') txt_saved) (trigger (js ''fetch'') Finish))))"

definition config_getEmailTemplate :: "action \<Rightarrow> saga" where
  "config_getEmailTemplate a =
     Request GET (Secure (js ''/config/getEmailTemplate'')) JUndef (\<lambda>t.
     if \<not> code_ok t then Finish else setState [(js ''emailTemplate'', New (data_of t))] Finish)"

definition config_getRemovedConfigTemplate :: "action \<Rightarrow> saga" where
  "config_getRemovedConfigTemplate a =
     Request GET (Secure (js ''/__removed__/configTemplate'')) JUndef (\<lambda>t.
     if \<not> code_ok t then Finish else setState [(js ''themeTemplate'', New (data_of t))] Finish)"

definition config_setTelegramWebhook :: "action \<Rightarrow> saga" where
  "config_setTelegramWebhook a =
     setState [flag ''setTelegramWebhookLoading'' True]
     (Request POST (Secure (js ''/config/setTelegramWebhook''))
        (JObj [(js ''telegram_bot_token'', arg a ''token'')]) (\<lambda>t.
      setState [flag ''setTelegramWebhookLoading'' False]
      (if \<not> code_ok t then Finish else Emit (Toast (js ''success'') txt_webhook) Finish)))"

text \<open>The dialog shows the log of the mail that was sent; a log without the configuration that it
  should echo makes it raise.\<close>

definition mail_dialog :: "jobj \<Rightarrow> event option" where
  "mail_dialog m =
     (let lg = oget (js ''log'') m; err = jprop lg (js ''error'')
      in if nullish lg then Some (Dialog False (JArr [err, JUndef, JUndef, JUndef, JUndef, JUndef]))
         else (case (jprop_strict (jprop lg (js ''config'')) (js ''host''),
                     jprop_strict (jprop lg (js ''config'')) (js ''port''),
                     jprop_strict (jprop lg (js ''config'')) (js ''encryption''),
                     jprop_strict (jprop lg (js ''config'')) (js ''username'')) of
            (Some host, Some port, Some encryption, Some username) \<Rightarrow>
              Some (Dialog (truthy err)
                (JArr [err, jprop lg (js ''email''), host, port, encryption, username]))
          | _ \<Rightarrow> None))"

definition config_testSendMail :: "action \<Rightarrow> saga" where
  "config_testSendMail a =
     setState [flag ''testSendMailLoading'' True]
     (Request POST (Secure (js ''/config/testSendMail'')) JUndef (\<lambda>m.
      setState [flag ''testSendMailLoading'' False]
      (if \<not> code_ok m then Finish
       else (case mail_dialog m of None \<Rightarrow> Fail | Some ev \<Rightarrow> Emit ev Finish))))"

definition config_model :: model where
  "config_model = \<lparr>m_name = js ''config'',
     m_state = map (\<lambda>k. (js k, New (JObj [])))
         [''ticket'', ''deposit'', ''invite'', ''site'', ''subscribe'', ''frontend'', ''server'', ''email'',
          ''telegram'', ''app'', ''safe'']
       @ [(js ''tabs'', New (JStr (js ''site''))), flag ''fetchLoading'' False,
          (js ''emailTemplate'', New (JArr [])), (js ''themeTemplate'', New (JArr [])),
          flag ''setTelegramWebhookLoading'' False],
     m_reducers = [(js ''setState'', merge_reducer)],
     m_effects = [(js ''fetch'', config_fetch), (js ''save'', config_save),
       (js ''getEmailTemplate'', config_getEmailTemplate),
       (js ''getRemovedConfigTemplate'', config_getRemovedConfigTemplate),
       (js ''setTelegramWebhook'', config_setTelegramWebhook),
       (js ''testSendMail'', config_testSendMail)]\<rparr>"

section \<open>Layout and themes\<close>

definition layout_showNav :: "action \<Rightarrow> saga" where
  "layout_showNav a =
     Select (js ''layout'') (\<lambda>t.
     Peek (\<lambda>h.
     let show = arg a ''show''
     in saveState (map (\<lambda>(k, s). (k, Same s)) t
          @ [(js ''showNav'', New (if show \<noteq> JUndef then show
               else JBool (\<not> truthy (read h t (js ''showNav'')))))]) Finish))"

definition layout_model :: model where
  "layout_model = \<lparr>m_name = js ''layout'', m_state = [flag ''showNav'' False],
     m_reducers = [(js ''save'', merge_reducer)], m_effects = [(js ''showNav'', layout_showNav)]\<rparr>"

definition theme_getThemes :: "action \<Rightarrow> saga" where
  "theme_getThemes a =
     setState [flag ''getThemesLoading'' True]
     (Request GET (Secure (js ''/__removed__/list'')) JUndef (\<lambda>i.
      setState [flag ''getThemesLoading'' False]
      (if \<not> code_ok i then Finish
       else setState [(js ''themes'', New (jprop (data_of i) (js ''themes''))),
         (js ''active'', New (jprop (data_of i) (js ''active'')))] Finish)))"

definition theme_getThemeConfig :: "action \<Rightarrow> saga" where
  "theme_getThemeConfig a =
     setState [flag ''getThemeConfigLoading'' True]
     (Request POST (Secure (js ''/__removed__/getConfig'')) (JObj [(js ''name'', arg a ''name'')]) (\<lambda>t.
      setState [flag ''getThemeConfigLoading'' False]
      (if \<not> code_ok t then Finish else call_if a [data_of t] Finish)))"

definition theme_saveThemeConfig :: "action \<Rightarrow> saga" where
  "theme_saveThemeConfig a =
     setState [flag ''saveThemeConfigLoading'' True]
     (Request POST (Secure (js ''/__removed__/saveConfig''))
        (JObj [(js ''config'', arg a ''config''), (js ''name'', arg a ''name'')]) (\<lambda>t.
      setState [flag ''saveThemeConfigLoading'' False]
      (if \<not> code_ok t then Finish
       else trigger (js ''getThemes'') (call_if a [data_of t] Finish))))"

definition theme_model :: model where
  "theme_model = \<lparr>m_name = js ''theme'',
     m_state = [(js ''themes'', New (JArr [])), (js ''active'', New JUndef)],
     m_reducers = [(js ''setState'', merge_reducer)],
     m_effects = [(js ''getThemes'', theme_getThemes), (js ''getThemeConfig'', theme_getThemeConfig),
       (js ''saveThemeConfig'', theme_saveThemeConfig)]\<rparr>"

section \<open>Statistics and queues\<close>

definition stat_getOverride :: "action \<Rightarrow> saga" where
  "stat_getOverride a =
     Request GET (Secure (js ''/stat/getOverride'')) JUndef (\<lambda>t.
     if \<not> code_ok t then Finish else saveState (news (spread (data_of t))) Finish)"

text \<open>The charts: the data goes to the page that asked.\<close>

definition stat_chart :: "string \<Rightarrow> action \<Rightarrow> saga" where
  "stat_chart op a =
     Request GET (Secure (js ''/stat/'' @ js op)) JUndef (\<lambda>n.
     if \<not> code_ok n then Finish else call a [data_of n] Finish)"

definition stat_getOrder :: "action \<Rightarrow> saga" where
  "stat_getOrder = stat_chart ''getOrder''"

definition stat_getServerLastRank :: "action \<Rightarrow> saga" where
  "stat_getServerLastRank = stat_chart ''getServerLastRank''"

definition stat_getServerTodayRank :: "action \<Rightarrow> saga" where
  "stat_getServerTodayRank = stat_chart ''getServerTodayRank''"

definition stat_getInviteLastRank :: "action \<Rightarrow> saga" where
  "stat_getInviteLastRank = stat_chart ''getInviteLastRank''"

definition stat_getInviteTodayRank :: "action \<Rightarrow> saga" where
  "stat_getInviteTodayRank = stat_chart ''getInviteTodayRank''"

definition stat_getUserTodayRank :: "action \<Rightarrow> saga" where
  "stat_getUserTodayRank = stat_chart ''getUserTodayRank''"

definition stat_getUserLastRank :: "action \<Rightarrow> saga" where
  "stat_getUserLastRank = stat_chart ''getUserLastRank''"

definition stat_model :: model where
  "stat_model = \<lparr>m_name = js ''stat'', m_state = [], m_reducers = [(js ''save'', merge_reducer)],
     m_effects = [(js ''getOverride'', stat_getOverride), (js ''getOrder'', stat_getOrder),
       (js ''getServerLastRank'', stat_getServerLastRank),
       (js ''getServerTodayRank'', stat_getServerTodayRank),
       (js ''getInviteLastRank'', stat_getInviteLastRank),
       (js ''getInviteTodayRank'', stat_getInviteTodayRank),
       (js ''getUserTodayRank'', stat_getUserTodayRank),
       (js ''getUserLastRank'', stat_getUserLastRank)]\<rparr>"

definition system_getQueueStats :: "action \<Rightarrow> saga" where
  "system_getQueueStats a =
     saveState [flag ''getQueueStatsLoading'' True]
     (Request GET (Secure (js ''/system/getQueueStats'')) JUndef (\<lambda>t.
      saveState [flag ''getQueueStatsLoading'' False]
      (if \<not> code_ok t then Finish else saveState [(js ''queueStats'', New (data_of t))] Finish)))"

definition system_getQueueWorkload :: "action \<Rightarrow> saga" where
  "system_getQueueWorkload a =
     saveState [flag ''getQueueWorkloadLoading'' True]
     (Request GET (Secure (js ''/system/getQueueWorkload'')) JUndef (\<lambda>t.
      saveState [flag ''getQueueWorkloadLoading'' False]
      (if \<not> code_ok t then Finish else saveState [(js ''queueWorkload'', New (data_of t))] Finish)))"

definition system_model :: model where
  "system_model = \<lparr>m_name = js ''system'', m_state = [], m_reducers = [(js ''save'', merge_reducer)],
     m_effects = [(js ''getQueueStats'', system_getQueueStats),
       (js ''getQueueWorkload'', system_getQueueWorkload)]\<rparr>"

section \<open>Notices and knowledge\<close>

definition notice_fetch :: "action \<Rightarrow> saga" where
  "notice_fetch a =
     setState [flag ''fetchLoading'' True]
     (Request GET (Secure (js ''/notice/fetch'')) JUndef (\<lambda>t.
      setState [flag ''fetchLoading'' False]
      (if \<not> code_ok t then Finish else setState [(js ''notices'', New (data_of t))] Finish)))"

definition notice_save :: "action \<Rightarrow> saga" where
  "notice_save a =
     setState [flag ''saveLoading'' True]
     (Request POST (Secure (js ''/notice/save'')) (arg a ''params'') (\<lambda>t.
      setState [flag ''saveLoading'' False]
      (if \<not> code_ok t then Finish else trigger (js ''fetch'') (call_if a [] Finish))))"

definition notice_drop :: "action \<Rightarrow> saga" where
  "notice_drop a =
     Request POST (Secure (js ''/notice/drop'')) (JObj [(js ''id'', arg a ''id'')]) (\<lambda>t.
     if \<not> code_ok t then Finish else trigger (js ''fetch'') Finish)"

definition notice_show :: "action \<Rightarrow> saga" where
  "notice_show a =
     Request POST (Secure (js ''/notice/show'')) (JObj [(js ''id'', arg a ''id'')]) (\<lambda>t.
     if \<not> code_ok t then Finish else trigger (js ''fetch'') Finish)"

definition notice_model :: model where
  "notice_model = \<lparr>m_name = js ''notice'',
     m_state = [(js ''notices'', New (JArr [])), flag ''fetchLoading'' False],
     m_reducers = [(js ''setState'', merge_reducer)],
     m_effects = [(js ''fetch'', notice_fetch), (js ''save'', notice_save), (js ''drop'', notice_drop),
       (js ''show'', notice_show)]\<rparr>"

definition knowledge_fetch :: "action \<Rightarrow> saga" where
  "knowledge_fetch a =
     setState [flag ''fetchLoading'' True]
     (Request GET (Secure (js ''/knowledge/fetch'')) JUndef (\<lambda>t.
      setState [flag ''fetchLoading'' False]
      (if \<not> code_ok t then Finish else setState [(js ''knowledges'', New (data_of t))] Finish)))"

definition knowledge_fetchById :: "action \<Rightarrow> saga" where
  "knowledge_fetchById a =
     setState [flag ''fetchByIdLoading'' True]
     (Request GET (Secure (js ''/knowledge/fetch'')) (JObj [(js ''id'', arg a ''id'')]) (\<lambda>t.
      setState [flag ''fetchByIdLoading'' False]
      (if \<not> code_ok t then Finish else setState [(js ''knowledge'', New (data_of t))] Finish)))"

definition knowledge_save :: "action \<Rightarrow> saga" where
  "knowledge_save a =
     Select (js ''knowledge'') (\<lambda>t.
     setState [flag ''saveLoading'' True]
     (Peek (\<lambda>h.
      Request POST (Secure (js ''/knowledge/save'')) (JObj (spread (read h t (js ''knowledge'')))) (\<lambda>c.
      setState [flag ''saveLoading'' False]
      (if \<not> code_ok c then Finish else trigger (js ''fetch'') (call_if a [] Finish))))))"

definition knowledge_drop :: "action \<Rightarrow> saga" where
  "knowledge_drop a =
     Request POST (Secure (js ''/knowledge/drop'')) (JObj [(js ''id'', arg a ''id'')]) (\<lambda>t.
     if \<not> code_ok t then Finish else trigger (js ''fetch'') Finish)"

definition knowledge_show :: "action \<Rightarrow> saga" where
  "knowledge_show a =
     Request POST (Secure (js ''/knowledge/show'')) (JObj [(js ''id'', arg a ''id'')]) (\<lambda>t.
     if \<not> code_ok t then Finish else trigger (js ''fetch'') Finish)"

definition knowledge_sort :: "action \<Rightarrow> saga" where
  "knowledge_sort =
     sort_list ''knowledge'' ''knowledges'' (Secure (js ''/knowledge/sort'')) ''knowledge_ids''"

definition knowledge_getCategory :: "action \<Rightarrow> saga" where
  "knowledge_getCategory a =
     Request GET (Secure (js ''/knowledge/getCategory'')) JUndef (\<lambda>t.
     if \<not> code_ok t then Finish else setState [(js ''categorys'', New (data_of t))] Finish)"

definition knowledge_model :: model where
  "knowledge_model = \<lparr>m_name = js ''knowledge'',
     m_state = [(js ''knowledges'', New (JArr [])), flag ''fetchLoading'' False,
       (js ''categorys'', New (JArr [])), (js ''knowledge'', New (JObj [])),
       flag ''fetchByIdLoading'' False, flag ''saveLoading'' False],
     m_reducers = [(js ''setState'', merge_reducer)],
     m_effects = [(js ''fetch'', knowledge_fetch), (js ''fetchById'', knowledge_fetchById),
       (js ''save'', knowledge_save), (js ''drop'', knowledge_drop), (js ''show'', knowledge_show),
       (js ''sort'', knowledge_sort), (js ''getCategory'', knowledge_getCategory)]\<rparr>"

end
