(* ===== verification/DvaMoney.thy ===== *)
theory DvaMoney
  imports JsRound DvaUsers
begin

text \<open>
  What the conversions of the stores keep: prices of plans survive being shown in units and saved in
  cents, coupon amounts and the traffic of users do not. And dragging a row in a list moves it.
\<close>

section \<open>Prices\<close>

lemma oget_convert_prices:
  "oget k (convert_prices f plan) =
     (if k \<in> set periodText_keys \<and> oget k plan \<noteq> JNull then f (oget k plan) else oget k plan)"
proof -
  have "oget k (fold (\<lambda>k e. if oget k e = JNull then e else oput k (f (oget k e)) e) ks plan) =
      (if k \<in> set ks \<and> oget k plan \<noteq> JNull then f (oget k plan) else oget k plan)"
    if "distinct ks" for ks plan
    using that
  proof (induction ks arbitrary: plan)
    case (Cons l ks)
    then show ?case by (cases "oget l plan = JNull") (auto split: if_splits)
  qed simp
  moreover have "distinct periodText_keys" by (simp add: periodText_keys_def)
  ultimately show ?thesis unfolding convert_prices_def by blast
qed

lemma cents_roundtrip: "\<bar>c\<bar> \<le> 2 ^ 40 \<Longrightarrow> to_cents (from_cents (JNum (num c))) = JNum (num c)"
  by (simp add: to_cents_def from_cents_def round_hundredths)

definition price_ok :: "jsv \<Rightarrow> bool" where
  "price_ok v = (case v of JNull \<Rightarrow> True
     | JNum n \<Rightarrow> n = num (int_of n) \<and> \<bar>int_of n\<bar> \<le> 2 ^ 40 | _ \<Rightarrow> False)"

text \<open>A plan whose prices are null or whole cents (up to two to the forty) is sent back unchanged
  by saving what was fetched: every field has the value it had.\<close>

theorem plan_price_roundtrip:
  assumes "\<forall>p \<in> set periodText_keys. price_ok (oget p plan)"
  shows "oget k (convert_prices to_cents (convert_prices from_cents plan)) = oget k plan"
proof (cases "k \<in> set periodText_keys \<and> oget k plan \<noteq> JNull")
  case True
  with assms have "price_ok (oget k plan)" "oget k plan \<noteq> JNull" by auto
  then obtain c where c: "oget k plan = JNum (num c)" "\<bar>c\<bar> \<le> 2 ^ 40"
    by (cases "oget k plan") (auto simp: price_ok_def)
  then have "oget k (convert_prices from_cents plan) = from_cents (JNum (num c))"
    using True by (simp add: oget_convert_prices)
  moreover have "from_cents (JNum (num c)) \<noteq> JNull" by (simp add: from_cents_def)
  ultimately show ?thesis
    using True c cents_roundtrip [OF c(2)] by (simp add: oget_convert_prices)
next
  case False
  then show ?thesis by (auto simp: oget_convert_prices)
qed

definition demo_plan :: jobj where
  "demo_plan = map (\<lambda>k. (k, if k = js ''month_price'' then JNum (num 1999) else JNull)) periodText_keys"

theorem plan_price_roundtrip_witness:
  "oget (js ''month_price'') (convert_prices to_cents (convert_prices from_cents demo_plan)) = JNum (num 1999)"
proof -
  have "\<forall>p \<in> set periodText_keys. price_ok (oget p demo_plan)"
    by (simp add: demo_plan_def periodText_keys_def oget_def price_ok_def int_of_def num_def)
  from plan_price_roundtrip [OF this, of "js ''month_price''"] show ?thesis
    by (simp add: demo_plan_def periodText_keys_def oget_def)
qed

lemma cents_29:
  "num_mul (num 100) (num_div (num 29) (num 100)) = Fin (8162774324609023 / 281474976710656)"
  by code_simp

lemma oget_entry [simp]: "oget k ((l, v) # kv) = (if k = l then v else oget k kv)"
  by (simp add: oget_def)

text \<open>An amount of 29 cents that was fetched is sent as \<open>28.999999999999996\<close> (a number strictly
  below 29) when it is generated again: coupons and gift cards multiply by a hundred and do not round,
  while plans do.\<close>

lemma coupon_cents_drift:
  "(case coupon_row (JObj [(js ''type'', JNum (num 1)), (js ''value'', JNum (num 29))]) of
      Some row \<Rightarrow> map_option (\<lambda>n. jprop n (js ''value'')) (coupon_params row)
    | None \<Rightarrow> None) = Some (JNum (Fin (8162774324609023 / 281474976710656))) \<and>
   num_lt (Fin (8162774324609023 / 281474976710656)) (num 29) \<and>
   to_cents (from_cents (JNum (num 29))) = JNum (num 29)"
  using cents_roundtrip [of 29]
  by (simp add: coupon_row_def coupon_params_def from_cents_def cents_29) (simp add: num_def)

lemma shown_values:
  "gb_text (JNum (num 5242877)) = JStr (js ''0.00'')" "money_text (JNum (num 1250)) = JStr (js ''12.50'')"
  "to_cents (JStr (js ''12.50'')) = JNum (num 1250)"
  "num_mul gigabyte (str_num (js ''0.00'')) = num 0"
  by code_simp+

text \<open>Opening a user and saving without a change sends the same balance but another
  allowance: three bytes short of five megabytes are sent as zero, because the pages keep two decimals of a
  gigabyte.\<close>

lemma user_traffic_loss:
  "(case user_row (JObj [(js ''transfer_enable'', JNum (num 5242877)), (js ''balance'', JNum (num 1250))]) of
      Some row \<Rightarrow> map_option (\<lambda>n. map (\<lambda>k. oget (js k) n) [''transfer_enable'', ''balance'']) (user_params row)
    | None \<Rightarrow> None) = Some [JNum (num 0), JNum (num 1250)]"
  by (simp add: user_row_def user_params_def as_record_def edit_def Let_def shown_values)

section \<open>Dragging\<close>

lemma splice_index_nat: "i \<le> n \<Longrightarrow> splice_index n (num (int i)) = i"
  by (simp add: splice_index_def num_def num_trunc_def num_map_def int_of_def)

lemma splice_index_Suc: "Suc i \<le> n \<Longrightarrow> splice_index n (num (1 + int i)) = Suc i"
  using splice_index_nat [of "Suc i" n] by simp

lemma elem_at_nat: "i < length vs \<Longrightarrow> elem_at vs (num (int i)) = vs ! i"
  by (simp add: elem_at_def num_def is_integer_def int_of_def)

lemma drag_move_nat:
  assumes "i < length vs" "j < length vs" "length vs < 2 ^ 52"
  shows "drag_move (JNum (num (int i))) (JNum (num (int j))) vs = insert_at j (vs ! i) (remove_at i vs)"
proof -
  have small: "int i + 1 \<le> 2 ^ 53" "int j + 1 \<le> 2 ^ 53" using assms by simp_all
  have suc: "num_add (num (int k)) (num 1) = num (int (Suc k))" if "int k + 1 \<le> 2 ^ 53" for k
    using num_add_num [of "int k" 1] that by (simp add: add.commute)
  show ?thesis
  proof (cases "i < j")
    case True
    then have "drag_move (JNum (num (int i))) (JNum (num (int j))) vs = remove_at i (insert_at (Suc j) (vs ! i) vs)"
      using assms small by (simp add: drag_move_def Let_def suc splice_index_nat splice_index_Suc elem_at_nat insert_at_def)
    also have "\<dots> = insert_at j (vs ! i) (remove_at i vs)"
      using True assms by (simp add: insert_at_def remove_at_def min_def drop_take)
    finally show ?thesis .
  next
    case False
    then have "drag_move (JNum (num (int i))) (JNum (num (int j))) vs = remove_at (Suc i) (insert_at j (vs ! i) vs)"
      using assms small by (simp add: drag_move_def Let_def suc splice_index_nat splice_index_Suc elem_at_nat insert_at_def)
    also have "\<dots> = insert_at j (vs ! i) (remove_at i vs)"
      using False assms by (simp add: insert_at_def remove_at_def min_def Suc_diff_le drop_take)
    finally show ?thesis .
  qed
qed

text \<open>Dragging a row from one index of a list to another takes it out and puts it in at its new
  index; the other rows keep their order and none is lost.\<close>

theorem drag_move_spec:
  assumes "i < length vs" "j < length vs" "length vs < 2 ^ 52"
  shows "drag_move (JNum (num (int i))) (JNum (num (int j))) vs = insert_at j (vs ! i) (remove_at i vs) \<and>
    mset (drag_move (JNum (num (int i))) (JNum (num (int j))) vs) = mset vs"
  using drag_move_nat [OF assms] assms by (simp add: mset_insert_at mset_remove_at)

theorem drag_move_spec_witness:
  "drag_move (JNum (num (int 0))) (JNum (num (int 2))) [JNull, JUndef, JBool True] = [JUndef, JBool True, JNull]"
  using drag_move_spec [of 0 "[JNull, JUndef, JBool True]" 2] by (simp add: insert_at_def remove_at_def)

end
