(* ===== verification/DvaApp.thy ===== *)
theory DvaApp
  imports DvaSteady DvaGuard DvaNodes DvaSite DvaMoney
begin

text \<open>The whole application: every store, and what holds for all of its effects together.\<close>

definition admin_app :: "jsv \<Rightarrow> app" where
  "admin_app page_size =
     [serverRoute, serverManage, order_model, config_model, layout_model, plan_model, serverShadowsocks,
      payment_model, theme_model, stat_model, serverGroup, auth_model, ticket_model, coupon_model,
      system_model, serverHysteria, serverTuic, serverAnyTLS, serverV2node, user_model page_size,
      notice_model, serverTrojan, knowledge_model, serverVless, passport_model, serverVmess,
      giftcard_model]"

lemmas node_models = serverShadowsocks_def serverHysteria_def serverTuic_def serverAnyTLS_def
  serverV2node_def serverTrojan_def serverVless_def serverVmess_def

lemmas node_effects =
  serverShadowsocks_update_def serverShadowsocks_drop_def serverShadowsocks_copy_def serverShadowsocks_save_def
  serverHysteria_update_def serverHysteria_drop_def serverHysteria_copy_def serverHysteria_save_def
  serverTuic_update_def serverTuic_drop_def serverTuic_copy_def serverTuic_save_def
  serverAnyTLS_update_def serverAnyTLS_drop_def serverAnyTLS_copy_def serverAnyTLS_save_def
  serverV2node_update_def serverV2node_drop_def serverV2node_copy_def serverV2node_save_def
  serverTrojan_update_def serverTrojan_drop_def serverTrojan_copy_def serverTrojan_save_def
  serverVless_update_def serverVless_drop_def serverVless_copy_def serverVless_save_def
  serverVmess_update_def serverVmess_drop_def serverVmess_copy_def serverVmess_save_def

text \<open>The stores whose indicators are always lowered; the others have an effect that can leave one up
  (\<open>plan\<close>, \<open>payment\<close>, \<open>knowledge\<close>: see \<open>sort_list\<close>) or copy fields from the server's answer.\<close>

definition steady_stores :: "jstr set" where
  "steady_stores = set (map js [''serverRoute'', ''serverManage'', ''order'', ''serverShadowsocks'',
     ''theme'', ''serverGroup'', ''auth'', ''ticket'', ''coupon'', ''system'', ''serverHysteria'',
     ''serverTuic'', ''serverAnyTLS'', ''serverV2node'', ''user'', ''notice'', ''serverTrojan'',
     ''serverVless'', ''passport'', ''serverVmess'', ''giftcard''])"

lemma calm_merge [simp]: "calm merge_reducer"
proof -
  have "raised (fst (store_fields fs (t, h))) = raised t"
    if "list_all (\<lambda>kf. \<not> is_flag (fst kf)) fs" for fs t h
  proof -
    have "list_all plain_flag fs" using that by (auto simp: list_all_iff plain_flag_def)
    moreover have "fold raise fs X = X" for X
      using that by (induction fs arbitrary: X) (auto simp: raise_def)
    ultimately show ?thesis by (simp add: raised_store_fields)
  qed
  then show ?thesis by (simp add: calm_def benign_def merge_reducer_def)
qed

lemma initial_flag [simp]: "(is_flag (fst (flag s b)) \<longrightarrow> snd (flag s b) = New (JBool False)) \<longleftrightarrow> (is_flag (js s) \<longrightarrow> \<not> b)"
  by (simp add: flag_def)

lemma nodes_disciplined:
  "disciplined S serverShadowsocks" "disciplined S serverHysteria" "disciplined S serverTuic"
  "disciplined S serverAnyTLS" "disciplined S serverV2node" "disciplined S serverTrojan"
  "disciplined S serverVless" "disciplined S serverVmess"
  by (rule disciplined_intro;
      simp add: node_models node_effects reducer_names_def calm_reducers_def setter_name_def
        effects_ok_Cons effects_ok_Nil node_update_def node_drop_def node_copy_def node_save_def refresh_nodes_def)+

lemma calm_empty [simp]: "calm order_empty" "calm user_empty"
proof -
  show "calm order_empty" by (simp add: calm_def order_empty_def low_raised)
  have "raised (oput (js ''userInfo'') s d) = {}" if "low d" for s d
    using low_raised [OF that, of "[]"] that
    by (auto simp: raised_def slot_of_def low_def list_all_iff dest!: map_of_SomeD split: option.splits)
  then show "calm user_empty" by (simp add: calm_def user_empty_def)
qed

lemma manage_disciplined:
  "disciplined S serverManage" "disciplined S serverGroup" "disciplined S serverRoute"
  by (rule disciplined_intro;
      simp add: serverManage_def serverGroup_def serverRoute_def reducer_names_def calm_reducers_def
        setter_name_def effects_ok_Cons effects_ok_Nil serverManage_getNodes_def serverManage_sort_def
        serverManage_saveSort_def serverManage_updateHost_def serverGroup_fetch_def serverGroup_drop_def
        serverGroup_save_def serverRoute_fetch_def serverRoute_drop_def serverRoute_save_def
        serverRoute_resolve_def split: jsv.split option.split)+

lemma order_disciplined: "disciplined S order_model"
  by (rule disciplined_intro;
      simp add: order_model_def reducer_names_def calm_reducers_def
        setter_name_def effects_ok_Cons effects_ok_Nil order_fetch_def order_filter_def order_addFilter_def
        order_update_def order_paid_def order_cancel_def order_refund_def order_assign_def
        order_changeTable_def Let_def split: jsv.split option.split)

lemma coupon_disciplined: "disciplined S coupon_model" "disciplined S giftcard_model"
  by (rule disciplined_intro;
      simp add: coupon_model_def giftcard_model_def reducer_names_def calm_reducers_def
        setter_name_def effects_ok_Cons effects_ok_Nil coupon_fetch_def coupon_generate_def coupon_drop_def
        coupon_show_def coupon_changeTable_def giftcard_fetch_def giftcard_generate_def
        giftcard_drop_def giftcard_changeTable_def Let_def split: option.split)+

lemma user_disciplined: "disciplined S (user_model page_size)"
  by (rule disciplined_intro;
      simp add: user_model_def reducer_names_def calm_reducers_def
        setter_name_def effects_ok_Cons effects_ok_Nil user_checkLogin_def user_getUserInfo_def
        user_getUserInfoById_def user_fetch_def user_filter_def user_changeTable_def user_update_def
        user_addFilter_def user_generate_def user_dumpCSV_def user_sendMail_def user_ban_def
        user_resetSecret_def user_delUser_def user_allDel_def Let_def split: option.split)

lemma ticket_disciplined: "disciplined S ticket_model" "disciplined S auth_model" "disciplined S passport_model"
  by (rule disciplined_intro;
      simp add: ticket_model_def auth_model_def passport_model_def reducer_names_def calm_reducers_def
        setter_name_def effects_ok_Cons effects_ok_Nil ticket_fetch_def ticket_fetchById_def
        ticket_close_def ticket_reply_def ticket_filter_def auth_login_def auth_register_def
        passport_login_def split: option.split)+

lemma site_disciplined: "disciplined S theme_model" "disciplined S system_model" "disciplined S notice_model"
  by (rule disciplined_intro;
      simp add: theme_model_def system_model_def notice_model_def reducer_names_def calm_reducers_def
        setter_name_def effects_ok_Cons effects_ok_Nil theme_getThemes_def theme_getThemeConfig_def
        theme_saveThemeConfig_def system_getQueueStats_def system_getQueueWorkload_def
        notice_fetch_def notice_save_def notice_drop_def notice_show_def split: option.split)+

text \<open>The other stores only write themselves.\<close>

lemma local_sort_list [simp]: "js ''setState'' \<in> set R \<Longrightarrow> local R (sort_list ns field url param a)"
  by (simp add: sort_list_def split: option.split)

lemma unsteady_disciplined:
  "disciplined steady_stores plan_model" "disciplined steady_stores payment_model"
  "disciplined steady_stores knowledge_model" "disciplined steady_stores config_model"
  "disciplined steady_stores stat_model" "disciplined steady_stores layout_model"
  by (rule disciplined_intro;
      simp add: plan_model_def payment_model_def knowledge_model_def config_model_def stat_model_def
        layout_model_def reducer_names_def calm_reducers_def setter_name_def effects_ok_Cons effects_ok_Nil
        steady_stores_def
        plan_fetch_def plan_save_def plan_drop_def plan_update_def plan_sort_def
        payment_fetch_def payment_getPaymentMethods_def payment_getPaymentForm_def payment_save_def
        payment_show_def payment_drop_def payment_sort_def
        knowledge_fetch_def knowledge_fetchById_def knowledge_save_def knowledge_drop_def
        knowledge_show_def knowledge_sort_def knowledge_getCategory_def
        config_fetch_def config_save_def config_getEmailTemplate_def config_getRemovedConfigTemplate_def
        config_setTelegramWebhook_def config_testSendMail_def
        stat_getOverride_def stat_chart_def stat_getOrder_def stat_getServerLastRank_def
        stat_getServerTodayRank_def stat_getInviteLastRank_def stat_getInviteTodayRank_def
        stat_getUserTodayRank_def stat_getUserLastRank_def layout_showNav_def Let_def split: option.split)+

lemma admin_disciplined: "\<forall>m \<in> set (admin_app page_size). disciplined steady_stores m"
  by (simp add: admin_app_def nodes_disciplined manage_disciplined order_disciplined coupon_disciplined
      user_disciplined ticket_disciplined site_disciplined unsteady_disciplined)

text \<open>Every effect is guarded: what follows a refused request is quiet.\<close>

lemma nodes_guarded: "list_all guarded_model [serverShadowsocks, serverHysteria, serverTuic,
    serverAnyTLS, serverV2node, serverTrojan, serverVless, serverVmess, serverManage, serverGroup, serverRoute]"
  by (simp add: guarded_model_def reducer_names_def node_models node_effects node_update_def node_drop_def node_copy_def
      node_save_def refresh_nodes_def serverManage_def serverGroup_def serverRoute_def
      serverManage_getNodes_def serverManage_sort_def
      serverManage_saveSort_def serverManage_updateHost_def serverGroup_fetch_def serverGroup_drop_def
      serverGroup_save_def serverRoute_fetch_def serverRoute_drop_def serverRoute_save_def
      serverRoute_resolve_def split: jsv.split option.split)

lemma guarded_sort_list [simp]: "guarded R (sort_list ns field url param a)"
  by (simp add: sort_list_def split: option.split)

lemma shop_guarded: "list_all guarded_model [order_model, plan_model, coupon_model, giftcard_model, payment_model]"
  by (simp add: guarded_model_def reducer_names_def order_model_def plan_model_def coupon_model_def giftcard_model_def
      payment_model_def order_fetch_def order_filter_def order_addFilter_def order_update_def
      order_paid_def order_cancel_def order_refund_def order_assign_def order_changeTable_def
      plan_fetch_def plan_save_def plan_drop_def plan_update_def plan_sort_def coupon_fetch_def
      coupon_generate_def coupon_drop_def coupon_show_def coupon_changeTable_def giftcard_fetch_def
      giftcard_generate_def giftcard_drop_def giftcard_changeTable_def payment_fetch_def
      payment_getPaymentMethods_def payment_getPaymentForm_def payment_save_def payment_show_def
      payment_drop_def payment_sort_def Let_def split: option.split)

lemma users_guarded: "list_all guarded_model [user_model page_size, ticket_model, auth_model, passport_model]"
  by (simp add: guarded_model_def reducer_names_def user_model_def ticket_model_def auth_model_def passport_model_def
      user_checkLogin_def user_getUserInfo_def
      user_getUserInfoById_def user_fetch_def user_filter_def user_changeTable_def user_update_def
      user_addFilter_def user_generate_def user_dumpCSV_def user_sendMail_def user_ban_def
      user_resetSecret_def user_delUser_def user_allDel_def ticket_fetch_def ticket_fetchById_def
      ticket_close_def ticket_reply_def ticket_filter_def auth_login_def auth_register_def
      passport_login_def Let_def split: option.split)

lemma site_guarded: "list_all guarded_model [config_model, layout_model, theme_model, stat_model, system_model,
    notice_model, knowledge_model]"
  by (simp add: guarded_model_def reducer_names_def config_model_def layout_model_def theme_model_def stat_model_def
      system_model_def notice_model_def knowledge_model_def config_fetch_def config_save_def
      config_getEmailTemplate_def config_getRemovedConfigTemplate_def config_setTelegramWebhook_def
      config_testSendMail_def layout_showNav_def theme_getThemes_def theme_getThemeConfig_def
      theme_saveThemeConfig_def stat_getOverride_def stat_chart_def stat_getOrder_def
      stat_getServerLastRank_def stat_getServerTodayRank_def stat_getInviteLastRank_def
      stat_getInviteTodayRank_def stat_getUserTodayRank_def stat_getUserLastRank_def
      system_getQueueStats_def system_getQueueWorkload_def notice_fetch_def notice_save_def
      notice_drop_def notice_show_def knowledge_fetch_def knowledge_fetchById_def knowledge_save_def
      knowledge_drop_def knowledge_show_def knowledge_sort_def knowledge_getCategory_def
      Let_def split: option.split)

lemma admin_guarded: "guarded_app (admin_app page_size)"
  using nodes_guarded shop_guarded users_guarded site_guarded
  by (intro guarded_app_models) (simp add: admin_app_def)

lemma admin_apart: "apart (admin_app page_size)"
  unfolding apart_def
proof
  show "distinct (map m_name (admin_app page_size))"
    by (simp add: admin_app_def node_models serverManage_def serverGroup_def
       serverRoute_def order_model_def plan_model_def coupon_model_def giftcard_model_def payment_model_def
       user_model_def ticket_model_def auth_model_def passport_model_def config_model_def layout_model_def
       theme_model_def stat_model_def system_model_def notice_model_def knowledge_model_def)
  show "list_all apart_model (admin_app page_size)"
    by (simp add: admin_app_def apart_model_def reducer_names_def setter_name_def node_models
       serverManage_def serverGroup_def
       serverRoute_def order_model_def plan_model_def coupon_model_def giftcard_model_def payment_model_def
       user_model_def ticket_model_def auth_model_def passport_model_def config_model_def layout_model_def
       theme_model_def stat_model_def system_model_def notice_model_def knowledge_model_def)
qed

section \<open>Which stores honour which contract\<close>

lemma admin_members [simp]:
  "serverGroup \<in> set (admin_app ps)" "notice_model \<in> set (admin_app ps)"
  "payment_model \<in> set (admin_app ps)" "knowledge_model \<in> set (admin_app ps)"
  "order_model \<in> set (admin_app ps)" "plan_model \<in> set (admin_app ps)"
  "coupon_model \<in> set (admin_app ps)" "giftcard_model \<in> set (admin_app ps)"
  "ticket_model \<in> set (admin_app ps)" "user_model ps \<in> set (admin_app ps)"
  by (simp_all add: admin_app_def)

interpretation groups: list_store "admin_app ps" serverGroup serverGroup_fetch
  "Secure (js ''/server/group/fetch'')" "js ''groups''" for ps
  by unfold_locales (rule admin_apart admin_members | simp add: serverGroup_def serverGroup_fetch_def)+

interpretation notices: list_store "admin_app ps" notice_model notice_fetch
  "Secure (js ''/notice/fetch'')" "js ''notices''" for ps
  by unfold_locales (rule admin_apart admin_members | simp add: notice_model_def notice_fetch_def)+

interpretation payments: list_store "admin_app ps" payment_model payment_fetch
  "Secure (js ''/payment/fetch'')" "js ''payments''" for ps
  by unfold_locales (rule admin_apart admin_members | simp add: payment_model_def payment_fetch_def)+

interpretation knowledges: list_store "admin_app ps" knowledge_model knowledge_fetch
  "Secure (js ''/knowledge/fetch'')" "js ''knowledges''" for ps
  by unfold_locales (rule admin_apart admin_members | simp add: knowledge_model_def knowledge_fetch_def)+

interpretation paid: refetching "admin_app ps" order_model order_paid "Secure (js ''/order/paid'')"
  "\<lambda>a. JObj [(js ''trade_no'', arg a ''tradeNo'')]" "js ''fetch''" order_fetch for ps
  by unfold_locales (rule admin_apart admin_members | simp add: order_model_def order_paid_def)+

interpretation cancelled: refetching "admin_app ps" order_model order_cancel "Secure (js ''/order/cancel'')"
  "\<lambda>a. JObj [(js ''trade_no'', arg a ''tradeNo'')]" "js ''fetch''" order_fetch for ps
  by unfold_locales (rule admin_apart admin_members | simp add: order_model_def order_cancel_def)+

interpretation refunded: refetching "admin_app ps" order_model order_refund "Secure (js ''/order/refund'')"
  "\<lambda>a. JObj [(js ''trade_no'', arg a ''tradeNo'')]" "js ''fetch''" order_fetch for ps
  by unfold_locales (rule admin_apart admin_members | simp add: order_model_def order_refund_def)+

interpretation plan_dropped: refetching "admin_app ps" plan_model plan_drop "Secure (js ''/plan/drop'')"
  "\<lambda>a. JObj [(js ''id'', arg a ''id'')]" "js ''fetch''" plan_fetch for ps
  by unfold_locales (rule admin_apart admin_members | simp add: plan_model_def plan_drop_def)+

interpretation coupon_dropped: refetching "admin_app ps" coupon_model coupon_drop "Secure (js ''/coupon/drop'')"
  "\<lambda>a. JObj [(js ''id'', arg a ''id'')]" "js ''fetch''" coupon_fetch for ps
  by unfold_locales (rule admin_apart admin_members | simp add: coupon_model_def coupon_drop_def)+

interpretation giftcard_dropped: refetching "admin_app ps" giftcard_model giftcard_drop
  "Secure (js ''/giftcard/drop'')" "\<lambda>a. JObj [(js ''id'', arg a ''id'')]" "js ''fetch''" giftcard_fetch for ps
  by unfold_locales (rule admin_apart admin_members | simp add: giftcard_model_def giftcard_drop_def)+

interpretation ticket_closed: refetching "admin_app ps" ticket_model ticket_close "Secure (js ''/ticket/close'')"
  "\<lambda>a. JObj [(js ''id'', arg a ''id'')]" "js ''fetch''" ticket_fetch for ps
  by unfold_locales (rule admin_apart admin_members | simp add: ticket_model_def ticket_close_def)+

interpretation group_dropped: refetching "admin_app ps" serverGroup serverGroup_drop
  "Secure (js ''/server/group/drop'')" "\<lambda>a. JObj [(js ''id'', arg a ''id'')]" "js ''fetch''"
  serverGroup_fetch for ps
  by unfold_locales (rule admin_apart admin_members | simp add: serverGroup_def serverGroup_drop_def)+

section \<open>A schedule of the notices\<close>

lemma notice_facts: "map_of (m_reducers notice_model) (js ''setState'') = Some merge_reducer"
  "map_of (m_effects notice_model) (js ''fetch'') = Some notice_fetch"
  by (simp_all add: notice_model_def)

lemma notice_type: "js ''notice/fetch'' = full_type (m_name notice_model) (js ''fetch'')"
  by (simp add: full_type_def notice_model_def flip: js_append)

lemmas notice_dispatch = dispatch_effect [OF admin_apart admin_members(2) notice_facts(2)]
lemmas notice_segment = segment_setState [OF admin_apart admin_members(2) notice_facts(1)]
lemmas notice_run = run_setState [OF admin_apart admin_members(2) notice_facts(1)]

definition demo_env :: env where
  "demo_env = \<lparr>env_hash = [], env_path = [], env_token = JUndef\<rparr>"

definition demo_asking :: "label list" where
  "demo_asking = [Dispatch (js ''notice/fetch'') (put_action (js ''fetch'') []), Run 0, Run 0]"

definition demo_labels :: "label list" where
  "demo_labels = demo_asking @
     [Answer 0 (Reply [(js ''code'', JNum (num 200)), (js ''data'', JArr [])]), Run 0, Run 0, Run 0]"

lemmas demo_defs = demo_asking_def demo_labels_def fire_def notice_type notice_dispatch notice_segment
  notice_fetch_def set_code_def code_ok_def answer_def oget_def

lemma demo_done: "\<exists>\<sigma>. fire_all (admin_app JUndef) demo_env demo_labels (init_system (admin_app JUndef)) = Some \<sigma> \<and>
    (\<forall>t \<in> set (tasks \<sigma>). t_code t = Done) \<and> length (tasks \<sigma>) = 1"
  by (simp add: demo_defs)

lemma demo_waiting: "\<exists>\<sigma> f p \<sigma>'.
    fire_all (admin_app JUndef) demo_env demo_asking (init_system (admin_app JUndef)) = Some \<sigma> \<and>
    0 < length (tasks \<sigma>) \<and> t_code (tasks \<sigma> ! 0) = Awaiting f \<and>
    run (admin_app JUndef) demo_env (t_model (tasks \<sigma> ! 0)) (f [(js ''code'', JNum (num 500))]) \<sigma> = (p, \<sigma>')"
  by (simp add: demo_defs notice_run)

section \<open>Properties\<close>





text \<open>Loading a list (server groups, notices, payment methods, knowledge articles) always ends with
  the indicator down, whatever the answer.\<close>

theorem lists_indicator_down:
  "slot_of (slice_of (snd (play (admin_app ps) e serverGroup (serverGroup_fetch a) [Reply r] \<sigma>))
     (js ''serverGroup'')) (js ''fetchLoading'') = Imm (JBool False) \<and>
   slot_of (slice_of (snd (play (admin_app ps) e notice_model (notice_fetch a) [Reply r] \<sigma>))
     (js ''notice'')) (js ''fetchLoading'') = Imm (JBool False) \<and>
   slot_of (slice_of (snd (play (admin_app ps) e payment_model (payment_fetch a) [Reply r] \<sigma>))
     (js ''payment'')) (js ''fetchLoading'') = Imm (JBool False) \<and>
   slot_of (slice_of (snd (play (admin_app ps) e knowledge_model (knowledge_fetch a) [Reply r] \<sigma>))
     (js ''knowledge'')) (js ''fetchLoading'') = Imm (JBool False)"
proof -
  have names: "m_name serverGroup = js ''serverGroup''" "m_name notice_model = js ''notice''"
    "m_name payment_model = js ''payment''" "m_name knowledge_model = js ''knowledge''"
    by (simp_all add: serverGroup_def notice_model_def payment_model_def knowledge_model_def)
  show ?thesis
    using groups.indicator_down notices.indicator_down payments.indicator_down knowledges.indicator_down
    unfolding names by blast
qed

definition order_changed :: "string \<Rightarrow> action \<Rightarrow> jobj \<Rightarrow> system \<Rightarrow> progress \<times> system" where
  "order_changed url a r \<sigma> =
     (Done, let \<sigma>1 = \<sigma>\<lparr>log := log \<sigma> @ [Sent POST (Secure (js url)) (JObj [(js ''trade_no'', arg a ''tradeNo'')])]\<rparr>
            in if code_ok r then start order_model (order_fetch (put_action (js ''fetch'') [])) \<sigma>1 else \<sigma>1)"

text \<open>Marking an order paid, cancelling and refunding it send one request, and have the orders
  fetched again exactly when the answer carries the code 200.\<close>

theorem order_change_refetches:
  "play (admin_app ps) e order_model (order_paid a) [Reply r] \<sigma> = order_changed ''/order/paid'' a r \<sigma> \<and>
   play (admin_app ps) e order_model (order_cancel a) [Reply r] \<sigma> = order_changed ''/order/cancel'' a r \<sigma> \<and>
   play (admin_app ps) e order_model (order_refund a) [Reply r] \<sigma> = order_changed ''/order/refund'' a r \<sigma>"
  unfolding order_changed_def using paid.changed cancelled.changed refunded.changed by blast

text \<open>\<open>order/addFilter\<close> with \<open>clear\<close> set raises before it has done anything: the action it puts
  to clear the filter has no type.\<close>

lemma order_addFilter_clear:
  "run app e m (order_addFilter (a\<lparr>act_args := oput (js ''clear'') (JBool True) (act_args a)\<rparr>)) \<sigma> =
     (Crashed, \<sigma>)"
  by (simp add: order_addFilter_def Let_def arg_def)

text \<open>Sorting a list: the indicator is raised and only a good answer starts the effect that lowers it.\<close>

lemma sort_list_refused:
  assumes app: "apart app" "m \<in> set app"
    and setter: "map_of (m_reducers m) (js ''setState'') = Some merge_reducer"
    and ns: "m_name m = js ns" and field: "field \<noteq> ''fetchLoading''"
    and run: "run app e m (sort_list ns field url param a) \<sigma> = (Awaiting f, \<sigma>1)" and r: "\<not> code_ok r"
  shows "run app e m (f r) \<sigma>1 = (Done, \<sigma>1) \<and> slot_of (slice_of \<sigma>1 (js ns)) (js ''fetchLoading'') = Imm (JBool True)"
  using run r field
  by (auto simp: sort_list_def run_setState [OF app setter] update_array_def ns store_fields_def flag_def
      split: slot.splits jsv.splits option.splits prod.splits)

lemma plan_facts: "map_of (m_reducers plan_model) (js ''setState'') = Some merge_reducer"
  "m_name plan_model = js ''plan''"
  by (simp_all add: plan_model_def)

text \<open>C30: when the server refuses the new order of the plans, the effect ends with the loading
  indicator of the plans still up, and nothing is left that would lower it.\<close>

theorem plan_sort_refused:
  assumes "run (admin_app ps) e plan_model (plan_sort a) \<sigma> = (Awaiting f, \<sigma>1)" "\<not> code_ok r"
  shows "run (admin_app ps) e plan_model (f r) \<sigma>1 = (Done, \<sigma>1) \<and> tasks \<sigma>1 = tasks \<sigma> \<and>
    slot_of (slice_of \<sigma>1 (js ''plan'')) (js ''fetchLoading'') = Imm (JBool True)"
proof -
  have "tasks \<sigma>1 = tasks \<sigma>"
    using assms(1)
    by (auto simp: plan_sort_def sort_list_def run_setState [OF admin_apart admin_members(6) plan_facts(1)]
        update_array_def split: slot.splits jsv.splits option.splits)
  then show ?thesis
    using sort_list_refused [OF admin_apart admin_members(6) plan_facts(1,2) _ assms(1) [unfolded plan_sort_def]
        assms(2)] by simp
qed

definition demo_plans :: system where
  "demo_plans = \<lparr>slices = [(js ''plan'', [(js ''plans'', Ref 0)])], defaults = [],
     heap = [JArr [JObj [(js ''id'', JNum (num 1))]]], tasks = [], log = []\<rparr>"

definition demo_drag :: action where
  "demo_drag = (put_action (js ''sort'') [])\<lparr>act_args :=
     [(js ''fromIndex'', JNum (num 0)), (js ''toIndex'', JNum (num 0))]\<rparr>"

lemma demo_drag_asks: "\<exists>f \<sigma>1. run (admin_app JUndef) demo_env plan_model (plan_sort demo_drag) demo_plans = (Awaiting f, \<sigma>1)"
proof -
  have slice: "slice_of demo_plans (js ''plan'') = [(js ''plans'', Ref 0)]"
    by (simp add: demo_plans_def slice_of_def slice_in_def)
  have "slot_of (slice_of (write_fields (js ''plan'') [flag ''fetchLoading'' True] demo_plans) (js ''plan'')) (js ''plans'') = Ref 0"
    using slice by (simp add: store_fields_def flag_def) (simp add: slot_of_def)
  moreover have "heap demo_plans = [JArr [JObj [(js ''id'', JNum (num 1))]]]"
    by (simp add: demo_plans_def)
  moreover have "jprop_strict (JObj [(js ''id'', JNum (num 1))]) (js ''id'') = Some (JNum (num 1))"
    by (simp add: jprop_strict_def oget_def)
  moreover have "drag_move (arg demo_drag ''fromIndex'') (arg demo_drag ''toIndex'') [JObj [(js ''id'', JNum (num 1))]] =
      [JObj [(js ''id'', JNum (num 1))]]"
    using drag_move_nat [of 0 "[JObj [(js ''id'', JNum (num 1))]]" 0]
    by (simp add: demo_drag_def put_action_def arg_def oget_def insert_at_def remove_at_def)
  ultimately show ?thesis
    by (simp add: plan_sort_def sort_list_def run_setState [OF admin_apart admin_members(6) plan_facts(1)]
        plan_facts(2) update_array_def deref_def read_def store_fields_def oget_def)
qed

theorem plan_sort_refused_witness:
  "\<exists>f \<sigma>1. run (admin_app JUndef) demo_env plan_model (plan_sort demo_drag) demo_plans = (Awaiting f, \<sigma>1) \<and>
     run (admin_app JUndef) demo_env plan_model (f [(js ''code'', JNum (num 500))]) \<sigma>1 = (Done, \<sigma>1) \<and>
     slot_of (slice_of \<sigma>1 (js ''plan'')) (js ''fetchLoading'') = Imm (JBool True)"
proof -
  obtain f \<sigma>1 where "run (admin_app JUndef) demo_env plan_model (plan_sort demo_drag) demo_plans = (Awaiting f, \<sigma>1)"
    using demo_drag_asks by blast
  moreover have "\<not> code_ok [(js ''code'', JNum (num 500))]" by (simp add: code_ok_def oget_def)
  ultimately show ?thesis using plan_sort_refused by blast
qed



end
